(* ===== verification/Prelude.thy ===== *)
theory Prelude
  imports Complex_Main "HOL-Library.Char_ord" "HOL-Library.List_Lexorder"
begin

text \<open>
  What every component of the development shares: the exceptions a handler can throw, the
  state every handler runs in, the combinators in which the asynchronous TypeScript
  code is written (return, await, throw, try/catch, try/finally), the text values the
  program stores, and lemmas on lists and strings.

  An asynchronous method of the source is an \<open>io\<close> program: a function of the state that
  returns a value (\<open>Inr\<close>) or the exception it throws (\<open>Inl\<close>), and the new state. The state
  is a record that each component extends with its own tables; \<open>rds\<close> is the state of the Redis
  server the process is connected to, \<open>now\<close> the clock that \<^verbatim>\<open>Date.now()\<close> reads, in
  milliseconds. A handler runs at one reading of the clock; waiting (\<open>sleep\<close>) moves it.
\<close>

named_theorems io_simps \<open>evaluation rules of the io combinators\<close>
named_theorems key_simps \<open>when two keys of the program are equal\<close>

section \<open>Exceptions\<close>

text \<open>
  The exception classes of NestJS and of the repository that the modelled code throws. An error of
  the database is \<open>DbError\<close>, or \<open>UniqueViolation\<close> with the constraint's name (code 23505). An error of
  an HTTP client is \<open>ProviderError\<close>: its message, its code, whether it carries a request, the response
  (with its status, where there is one) and its own status.
\<close>

datatype exn =
    BadRequest string
  | NotFound string
  | Unauthorized string
  | Conflict string
  | InternalError string
  | OtpRequired string string
  | Restriction string
  | LimitExceeded string
  | DoshPointsError string
  | LockNotOwned
  | PlainError string
  | RedisError string
  | DbError string
  | UniqueViolation string
  | ProviderError string "string option" bool "int option option" "int option"

fun message :: "exn \<Rightarrow> string" where
  "message (BadRequest m) = m"
| "message (NotFound m) = m"
| "message (Unauthorized m) = m"
| "message (Conflict m) = m"
| "message (InternalError m) = m"
| "message (OtpRequired m _) = m"
| "message (Restriction m) = m"
| "message (LimitExceeded m) = m"
| "message (DoshPointsError m) = m"
| "message LockNotOwned = ''Trying to update or release a lock that is not acquired by you''"
| "message (PlainError m) = m"
| "message (RedisError m) = m"
| "message (DbError m) = m"
| "message (UniqueViolation c) = ''duplicate key value violates unique constraint '' @ c"
| "message (ProviderError m _ _ _ _) = m"

section \<open>The state and the io combinators\<close>

record 's base =
  rds :: 's
  now :: int

type_synonym ('w, 'a) io = "'w \<Rightarrow> (exn + 'a) \<times> 'w"

definition ret :: "'a \<Rightarrow> ('w, 'a) io" where
  "ret x = (\<lambda>w. (Inr x, w))"

definition throw :: "exn \<Rightarrow> ('w, 'a) io" where
  "throw e = (\<lambda>w. (Inl e, w))"

definition bind :: "('w, 'a) io \<Rightarrow> ('a \<Rightarrow> ('w, 'b) io) \<Rightarrow> ('w, 'b) io" where
  "bind m f = (\<lambda>w. case m w of (Inl e, w') \<Rightarrow> (Inl e, w') | (Inr x, w') \<Rightarrow> f x w')"

definition andthen :: "('w, 'a) io \<Rightarrow> ('w, 'b) io \<Rightarrow> ('w, 'b) io" where
  "andthen m n = bind m (\<lambda>_. n)"

definition catch :: "('w, 'a) io \<Rightarrow> (exn \<Rightarrow> ('w, 'a) io) \<Rightarrow> ('w, 'a) io" where
  "catch m h = (\<lambda>w. case m w of (Inl e, w') \<Rightarrow> h e w' | (Inr x, w') \<Rightarrow> (Inr x, w'))"

text \<open>
  \<^verbatim>\<open>try { m } finally { f }\<close>: \<open>f\<close> always runs; an exception of \<open>f\<close> replaces the outcome
  of \<open>m\<close>.
\<close>

definition finally_do :: "('w, 'a) io \<Rightarrow> ('w, 'b) io \<Rightarrow> ('w, 'a) io" where
  "finally_do m f = (\<lambda>w. case m w of (r, w') \<Rightarrow>
     (case f w' of (Inl e, w'') \<Rightarrow> (Inl e, w'') | (Inr _, w'') \<Rightarrow> (r, w'')))"

definition when_do :: "bool \<Rightarrow> ('w, unit) io \<Rightarrow> ('w, unit) io" where
  "when_do b m = (if b then m else ret ())"

definition get_now :: "(('s, 'm) base_scheme, int) io" where
  "get_now = (\<lambda>w. (Inr (now w), w))"

definition sleep :: "int \<Rightarrow> (('s, 'm) base_scheme, unit) io" where
  "sleep d = (\<lambda>w. (Inr (), w\<lparr>now := now w + d\<rparr>))"

definition get_state :: "('w, 'w) io" where
  "get_state = (\<lambda>w. (Inr w, w))"

definition io_of :: "exn + 'a \<Rightarrow> ('w, 'a) io" where
  "io_of r = (\<lambda>w. (r, w))"

definition modify :: "('w \<Rightarrow> 'w) \<Rightarrow> ('w, unit) io" where
  "modify f = (\<lambda>w. (Inr (), f w))"

text \<open>A call whose exception is a value of the caller.\<close>

definition attempt :: "('w, 'a) io \<Rightarrow> ('w, exn + 'a) io" where
  "attempt m = catch (bind m (\<lambda>x. ret (Inr x))) (\<lambda>e. ret (Inl e))"

lemma ret_run [io_simps, simp]: "ret x w = (Inr x, w)"
  by (simp add: ret_def)

lemma throw_run [io_simps, simp]: "throw e w = (Inl e, w)"
  by (simp add: throw_def)

lemma bind_run [io_simps]:
  "bind m f w = (case m w of (Inl e, w') \<Rightarrow> (Inl e, w') | (Inr x, w') \<Rightarrow> f x w')"
  by (simp add: bind_def)

lemma andthen_run [io_simps]:
  "andthen m n w = (case m w of (Inl e, w') \<Rightarrow> (Inl e, w') | (Inr _, w') \<Rightarrow> n w')"
  by (simp add: andthen_def bind_def)

lemma catch_run [io_simps]:
  "catch m h w = (case m w of (Inl e, w') \<Rightarrow> h e w' | (Inr x, w') \<Rightarrow> (Inr x, w'))"
  by (simp add: catch_def)

lemma finally_run [io_simps]:
  "finally_do m f w = (case m w of (r, w') \<Rightarrow>
     (case f w' of (Inl e, w'') \<Rightarrow> (Inl e, w'') | (Inr _, w'') \<Rightarrow> (r, w'')))"
  by (simp add: finally_do_def)

lemma when_run [io_simps]: "when_do b m w = (if b then m w else (Inr (), w))"
  by (simp add: when_do_def)

lemma get_now_run [io_simps, simp]: "get_now w = (Inr (now w), w)"
  by (simp add: get_now_def)

lemma sleep_run [io_simps, simp]: "sleep d w = (Inr (), w\<lparr>now := now w + d\<rparr>)"
  by (simp add: sleep_def)

lemma get_state_run [io_simps, simp]: "get_state w = (Inr w, w)"
  by (simp add: get_state_def)

lemma io_of_run [io_simps, simp]: "io_of r w = (r, w)"
  by (simp add: io_of_def)

lemma modify_run [io_simps, simp]: "modify f w = (Inr (), f w)"
  by (simp add: modify_def)

text \<open>A step that succeeds hands its value and state on; a step that throws ends the sequence.\<close>

lemma bind_ok: "fst (m w) = Inr x \<Longrightarrow> bind m f w = f x (snd (m w))"
  by (cases "m w") (simp add: bind_run)

lemma seq_ok: "fst (m w) = Inr x \<Longrightarrow> andthen m n w = n (snd (m w))"
  by (cases "m w") (simp add: andthen_run)

lemma bind_fail: "fst (m w) = Inl e \<Longrightarrow> bind m f w = (Inl e, snd (m w))"
  by (cases "m w") (simp add: bind_run)

lemma seq_fail: "fst (m w) = Inl e \<Longrightarrow> andthen m n w = (Inl e, snd (m w))"
  by (cases "m w") (simp add: andthen_run)

lemma catch_ok: "fst (m w) = Inr x \<Longrightarrow> catch m h w = m w"
  by (cases "m w") (simp add: catch_run)

lemma catch_fail: "fst (m w) = Inl e \<Longrightarrow> catch m h w = h e (snd (m w))"
  by (cases "m w") (simp add: catch_run)

lemma finally_ok: "fst (f (snd (m w))) = Inr x \<Longrightarrow> finally_do m f w = (fst (m w), snd (f (snd (m w))))"
  by (cases "m w"; cases "f (snd (m w))") (simp add: finally_run)

lemma bind_get_now [simp]: "bind get_now f w = f (now w) w"
  by (simp add: bind_run)

lemma bind_get_state [simp]: "bind get_state f w = f w w"
  by (simp add: bind_run)

lemma bind_ret_run [simp]: "bind (ret x) f w = f x w"
  by (simp add: bind_run)

lemma seq_modify [simp]: "andthen (modify g) m w = m (g w)"
  by (simp add: andthen_run)

lemma seq_sleep [simp]: "andthen (sleep d) m w = m (w\<lparr>now := now w + d\<rparr>)"
  by (simp add: andthen_run)

text \<open>The monad laws, and how exceptions travel through the combinators.\<close>

lemma bind_ret_left: "bind (ret x) f = f x"
  by (simp add: bind_def ret_def)

lemma bind_ret_right: "bind m ret = m"
  by (rule ext) (simp add: bind_def ret_def split: prod.split sum.split)

lemma bind_assoc: "bind (bind m f) g = bind m (\<lambda>x. bind (f x) g)"
  by (rule ext) (simp add: bind_def split: prod.split sum.split)

lemma bind_throw: "bind (throw e) f = throw e"
  by (simp add: bind_def throw_def)

lemma catch_throw: "catch (throw e) h = h e"
  by (simp add: catch_def throw_def)

lemma catch_ret: "catch (ret x) h = ret x"
  by (simp add: catch_def ret_def)

text \<open>The value and the state after a program, and the programs that only read.\<close>

abbreviation value_of :: "(exn + 'a) \<times> 'w \<Rightarrow> exn + 'a" where
  "value_of r \<equiv> fst r"

abbreviation state_of :: "(exn + 'a) \<times> 'w \<Rightarrow> 'w" where
  "state_of r \<equiv> snd r"

definition is_ok :: "(exn + 'a) \<times> 'w \<Rightarrow> bool" where
  "is_ok r = (case fst r of Inl _ \<Rightarrow> False | Inr _ \<Rightarrow> True)"

lemma is_ok_simps [simp]: "is_ok (Inl e, w) = False" "is_ok (Inr x, w) = True"
  by (simp_all add: is_ok_def)


section \<open>Assertions about programs\<close>

text \<open>
  \<open>triple P m Q R\<close>: started in a state with \<open>P\<close>, the program ends in \<open>Q\<close> of its value, or throws and
  ends in \<open>R\<close> of the exception. \<open>keeps I m\<close>: however it ends, the program keeps \<open>I\<close>.
\<close>

definition triple :: "('w \<Rightarrow> bool) \<Rightarrow> ('w, 'a) io \<Rightarrow> ('a \<Rightarrow> 'w \<Rightarrow> bool) \<Rightarrow> (exn \<Rightarrow> 'w \<Rightarrow> bool) \<Rightarrow> bool" where
  "triple P m Q R \<longleftrightarrow> (\<forall>w. P w \<longrightarrow> (case fst (m w) of Inr x \<Rightarrow> Q x (snd (m w)) | Inl e \<Rightarrow> R e (snd (m w))))"

definition keeps :: "('w \<Rightarrow> bool) \<Rightarrow> ('w, 'a) io \<Rightarrow> bool" where
  "keeps I m \<longleftrightarrow> (\<forall>w. I w \<longrightarrow> I (snd (m w)))"

named_theorems keeps_intros \<open>programs that keep an invariant\<close>

lemma keepsD: "keeps I m \<Longrightarrow> I w \<Longrightarrow> I (snd (m w))"
  by (simp add: keeps_def)

lemma keeps_triple: "keeps I m \<longleftrightarrow> triple I m (\<lambda>_. I) (\<lambda>_. I)"
  by (simp add: keeps_def triple_def split: sum.split)

lemma tripleI:
  assumes "\<And>w x w'. P w \<Longrightarrow> m w = (Inr x, w') \<Longrightarrow> Q x w'" and "\<And>w e w'. P w \<Longrightarrow> m w = (Inl e, w') \<Longrightarrow> R e w'"
  shows "triple P m Q R"
  unfolding triple_def
proof (intro allI impI)
  fix w
  assume "P w"
  then show "case fst (m w) of Inr x \<Rightarrow> Q x (snd (m w)) | Inl e \<Rightarrow> R e (snd (m w))"
    using assms by (cases "m w") (auto split: sum.split)
qed

lemma triple_ok: "triple P m Q R \<Longrightarrow> P w \<Longrightarrow> m w = (Inr x, w') \<Longrightarrow> Q x w'"
  by (auto simp: triple_def dest!: spec [of _ w])

lemma triple_fail: "triple P m Q R \<Longrightarrow> P w \<Longrightarrow> m w = (Inl e, w') \<Longrightarrow> R e w'"
  by (auto simp: triple_def dest!: spec [of _ w])

lemma triple_conseq:
  assumes "triple P m Q R" "\<And>w. P' w \<Longrightarrow> P w" "\<And>x w. Q x w \<Longrightarrow> Q' x w" "\<And>e w. R e w \<Longrightarrow> R' e w"
  shows "triple P' m Q' R'"
  using assms by (auto simp: triple_def split: sum.splits)

lemma triple_ret: "(\<And>w. P w \<Longrightarrow> Q x w) \<Longrightarrow> triple P (ret x) Q R"
  and triple_throw: "(\<And>w. P w \<Longrightarrow> R e w) \<Longrightarrow> triple P (throw e) Q R"
  and triple_io_of: "(\<And>w x. P w \<Longrightarrow> r = Inr x \<Longrightarrow> Q x w) \<Longrightarrow> (\<And>w e. P w \<Longrightarrow> r = Inl e \<Longrightarrow> R e w)
    \<Longrightarrow> triple P (io_of r) Q R"
  by (auto simp: triple_def split: sum.split)

lemma triple_bind:
  assumes "triple P m Q' R" "\<And>x. triple (Q' x) (f x) Q R"
  shows "triple P (bind m f) Q R"
proof (rule tripleI)
  fix w x w'
  assume P: "P w" and r: "bind m f w = (Inr x, w')"
  then obtain y w1 where m: "m w = (Inr y, w1)" "f y w1 = (Inr x, w')"
    by (cases "m w") (auto simp: bind_run split: sum.splits)
  with triple_ok [OF assms(1) P] show "Q x w'" using triple_ok [OF assms(2)] by blast
next
  fix w e w'
  assume P: "P w" and r: "bind m f w = (Inl e, w')"
  show "R e w'"
  proof (cases "m w")
    case (Pair v w1)
    show ?thesis
    proof (cases v)
      case (Inl e')
      with Pair r triple_fail [OF assms(1) P] show ?thesis by (simp add: bind_run)
    next
      case (Inr y)
      with Pair r have "f y w1 = (Inl e, w')" by (simp add: bind_run)
      with Pair Inr triple_ok [OF assms(1) P] show ?thesis using triple_fail [OF assms(2)] by blast
    qed
  qed
qed

lemma triple_seq: "triple P m (\<lambda>_. Q') R \<Longrightarrow> triple Q' n Q R \<Longrightarrow> triple P (andthen m n) Q R"
  by (simp add: andthen_def triple_bind)

lemma triple_catch:
  assumes "triple P m Q R'" "\<And>e. triple (R' e) (h e) Q R"
  shows "triple P (catch m h) Q R"
proof (rule tripleI)
  fix w x w'
  assume P: "P w" and r: "catch m h w = (Inr x, w')"
  show "Q x w'"
  proof (cases "fst (m w)")
    case (Inl e)
    then have m: "m w = (Inl e, snd (m w))" by (metis prod.collapse)
    with r have "h e (snd (m w)) = (Inr x, w')" by (simp add: catch_fail Inl)
    then show ?thesis using triple_fail [OF assms(1) P m] triple_ok [OF assms(2)] by blast
  next
    case (Inr y)
    with r have "m w = (Inr x, w')" by (simp add: catch_ok)
    then show ?thesis using triple_ok [OF assms(1) P] by blast
  qed
next
  fix w e' w'
  assume P: "P w" and r: "catch m h w = (Inl e', w')"
  show "R e' w'"
  proof (cases "fst (m w)")
    case (Inl e)
    then have m: "m w = (Inl e, snd (m w))" by (metis prod.collapse)
    with r have "h e (snd (m w)) = (Inl e', w')" by (simp add: catch_fail Inl)
    then show ?thesis using triple_fail [OF assms(1) P m] triple_fail [OF assms(2)] by blast
  next
    case (Inr y)
    with r have "m w = (Inl e', w')" by (simp add: catch_ok)
    with Inr show ?thesis by simp
  qed
qed

lemma triple_if:
  assumes "b \<Longrightarrow> triple P m Q R" "\<not> b \<Longrightarrow> triple P n Q R"
  shows "triple P (if b then m else n) Q R"
  using assms by simp

lemma triple_keeps: "keeps I m \<Longrightarrow> (\<And>w. P w \<Longrightarrow> I w) \<Longrightarrow> (\<And>x w. I w \<Longrightarrow> Q x w) \<Longrightarrow> (\<And>e w. I w \<Longrightarrow> R e w)
    \<Longrightarrow> triple P m Q R"
  by (auto simp: keeps_def triple_def split: sum.split)

text \<open>The precondition of a step may be taken apart over the values it fixes.\<close>

lemma triple_ex: "(\<And>v. triple (P v) m Q R) \<Longrightarrow> triple (\<lambda>w. \<exists>v. P v w) m Q R"
  by (auto simp: triple_def)

lemma keeps_ret [keeps_intros]: "keeps I (ret x)" "keeps I (throw e)" "keeps I (io_of r)" "keeps I get_state"
  by (simp_all add: keeps_def)

lemma keeps_get_now [keeps_intros]: "keeps I get_now"
  by (simp add: keeps_def)

lemma keeps_bind [keeps_intros]: "keeps I m \<Longrightarrow> (\<And>x. keeps I (f x)) \<Longrightarrow> keeps I (bind m f)"
  unfolding keeps_triple by (rule triple_bind)

lemma keeps_seq [keeps_intros]: "keeps I m \<Longrightarrow> keeps I n \<Longrightarrow> keeps I (andthen m n)"
  unfolding keeps_triple by (rule triple_seq)

lemma keeps_catch [keeps_intros]: "keeps I m \<Longrightarrow> (\<And>e. keeps I (h e)) \<Longrightarrow> keeps I (catch m h)"
  unfolding keeps_triple by (rule triple_catch)

lemma keeps_finally [keeps_intros]: "keeps I m \<Longrightarrow> keeps I f \<Longrightarrow> keeps I (finally_do m f)"
  by (simp add: keeps_def finally_run split: prod.split sum.split) (metis snd_conv)

lemma keeps_when [keeps_intros]: "(b \<Longrightarrow> keeps I m) \<Longrightarrow> keeps I (when_do b m)"
  by (simp add: when_do_def keeps_ret)

lemma keeps_if [keeps_intros]: "(b \<Longrightarrow> keeps I m) \<Longrightarrow> (\<not> b \<Longrightarrow> keeps I n) \<Longrightarrow> keeps I (if b then m else n)"
  by simp

lemma keeps_Let [keeps_intros]: "keeps I (f x) \<Longrightarrow> keeps I (let y = x in f y)"
  by simp

lemma keeps_option [keeps_intros]:
  "keeps I m \<Longrightarrow> (\<And>x. v = Some x \<Longrightarrow> keeps I (f x)) \<Longrightarrow> keeps I (case v of None \<Rightarrow> m | Some x \<Rightarrow> f x)"
  by (cases v) simp_all

lemma keeps_pair [keeps_intros]: "(\<And>x y. v = (x, y) \<Longrightarrow> keeps I (f x y)) \<Longrightarrow> keeps I (case v of (x, y) \<Rightarrow> f x y)"
  by (cases v) simp

lemma triple_conj:
  assumes "triple P m Q R" "triple P m Q' R'"
  shows "triple P m (\<lambda>x w. Q x w \<and> Q' x w) (\<lambda>e w. R e w \<and> R' e w)"
  using assms by (auto simp: triple_def split: sum.splits)

lemma triple_to_keeps: "triple P m (\<lambda>_. I) (\<lambda>_. I) \<Longrightarrow> (\<And>x. keeps I (f x)) \<Longrightarrow> triple P (bind m f) (\<lambda>_. I) (\<lambda>_. I)"
  by (rule triple_bind) (simp_all add: keeps_triple)

lemma triple_seq_keeps: "triple P m (\<lambda>_. I) (\<lambda>_. I) \<Longrightarrow> keeps I f \<Longrightarrow> triple P (andthen m f) (\<lambda>_. I) (\<lambda>_. I)"
  by (rule triple_seq) (simp_all add: keeps_triple)

lemma triple_finally: "triple P m (\<lambda>_. I) (\<lambda>_. I) \<Longrightarrow> keeps I f \<Longrightarrow> triple P (finally_do m f) (\<lambda>_. I) (\<lambda>_. I)"
proof (rule tripleI, goal_cases)
  case (1 w x w')
  obtain v w1 where m: "m w = (v, w1)" by (cases "m w")
  then have "I w1" using 1 triple_ok [OF 1(1,3)] triple_fail [OF 1(1,3)] by (cases v) auto
  then have "I (snd (f w1))" using 1(2) by (rule keepsD [rotated])
  then show ?case using 1(4) m by (auto simp: finally_run split: prod.splits sum.splits)
next
  case (2 w e w')
  obtain v w1 where m: "m w = (v, w1)" by (cases "m w")
  then have "I w1" using 2 triple_ok [OF 2(1,3)] triple_fail [OF 2(1,3)] by (cases v) auto
  then have "I (snd (f w1))" using 2(2) by (rule keepsD [rotated])
  then show ?case using 2(4) m by (auto simp: finally_run split: prod.splits sum.splits)
qed

lemma triple_pure: "(c \<Longrightarrow> triple P m Q R) \<Longrightarrow> triple (\<lambda>w. c \<and> P w) m Q R"
  by (simp add: triple_def)

section \<open>Strings and numbers\<close>

text \<open>
  \<^verbatim>\<open>Number.prototype.toString\<close> on integers, \<^verbatim>\<open>Number.parseInt(s, 10)\<close> (leading white
  space, a sign, then the longest run of digits; \<open>None\<close> is NaN), \<^verbatim>\<open>toLowerCase\<close> and
  \<^verbatim>\<open>includes\<close> on ASCII strings.
\<close>

definition digit_char :: "nat \<Rightarrow> char" where
  "digit_char d = char_of (48 + d)"

definition char_digit :: "char \<Rightarrow> nat" where
  "char_digit c = of_char c - 48"

definition is_digit :: "char \<Rightarrow> bool" where
  "is_digit c \<longleftrightarrow> (48::nat) \<le> of_char c \<and> (of_char c :: nat) \<le> 57"

fun show_nat :: "nat \<Rightarrow> string" where
  "show_nat n = (if n < 10 then [digit_char n] else show_nat (n div 10) @ [digit_char (n mod 10)])"

declare show_nat.simps [simp del]

definition show_int :: "int \<Rightarrow> string" where
  "show_int i = (if i < 0 then CHR ''-'' # show_nat (nat (- i)) else show_nat (nat i))"

definition digits_value :: "string \<Rightarrow> nat" where
  "digits_value ds = foldl (\<lambda>a c. 10 * a + char_digit c) 0 ds"

definition parse_nat :: "string \<Rightarrow> nat option" where
  "parse_nat s = (let ds = takeWhile is_digit s in if ds = [] then None else Some (digits_value ds))"

definition parse_int :: "string \<Rightarrow> int option" where
  "parse_int s0 = (let s = dropWhile (\<lambda>c. c = CHR '' '' \<or> c = CHR 0x09 \<or> c = CHR 0x0A) s0 in
     (case s of
        [] \<Rightarrow> None
      | c # cs \<Rightarrow>
          if c = CHR ''-'' then map_option (\<lambda>n. - int n) (parse_nat cs)
          else if c = CHR ''+'' then map_option int (parse_nat cs)
          else map_option int (parse_nat s)))"

lemma of_char_digit: "d < 10 \<Longrightarrow> of_char (digit_char d) = (48 + d :: nat)"
  by (simp add: digit_char_def)

lemma is_digit_digit_char: "d < 10 \<Longrightarrow> is_digit (digit_char d)"
  by (simp add: is_digit_def of_char_digit)

lemma char_digit_digit_char: "d < 10 \<Longrightarrow> char_digit (digit_char d) = d"
  by (simp add: char_digit_def of_char_digit)

lemma show_nat_digits: "list_all is_digit (show_nat n)"
proof (induction n rule: show_nat.induct)
  case (1 n)
  then show ?case
    by (subst show_nat.simps) (auto simp: is_digit_digit_char)
qed

lemma show_nat_nonempty [simp]: "show_nat n \<noteq> []"
  by (subst show_nat.simps) simp

lemma digits_value_snoc: "digits_value (ds @ [c]) = 10 * digits_value ds + char_digit c"
  by (simp add: digits_value_def)

lemma digits_value_show_nat: "digits_value (show_nat n) = n"
proof (induction n rule: show_nat.induct)
  case (1 n)
  show ?case
  proof (cases "n < 10")
    case True
    then show ?thesis
      by (subst show_nat.simps) (simp add: digits_value_def char_digit_digit_char)
  next
    case False
    with 1 have "digits_value (show_nat (n div 10)) = n div 10" by simp
    with False show ?thesis
      by (subst show_nat.simps) (simp add: digits_value_snoc char_digit_digit_char)
  qed
qed

lemma takeWhile_show_nat: "takeWhile is_digit (show_nat n) = show_nat n"
  using show_nat_digits [of n] by (simp add: list_all_iff takeWhile_eq_all_conv)

lemma parse_nat_show_nat: "parse_nat (show_nat n) = Some n"
  by (simp add: parse_nat_def takeWhile_show_nat digits_value_show_nat)

lemma show_nat_Cons: obtains c cs where "show_nat n = c # cs" "is_digit c"
  using show_nat_digits [of n] show_nat_nonempty [of n]
  by (cases "show_nat n") auto

lemma not_digits: "\<not> is_digit (CHR ''-'')" "\<not> is_digit (CHR ''+'')" "\<not> is_digit (CHR '' '')"
  "\<not> is_digit (CHR 0x09)" "\<not> is_digit (CHR 0x0A)"
  by (simp_all add: is_digit_def)

text \<open>Printing an integer and reading it back gives the integer.\<close>

lemma parse_int_show_int [simp]: "parse_int (show_int i) = Some i"
proof (cases "i < 0")
  case True
  then show ?thesis
    by (simp add: show_int_def parse_int_def parse_nat_show_nat)
next
  case False
  obtain c cs where c: "show_nat (nat i) = c # cs" "is_digit c"
    by (rule show_nat_Cons)
  then have "c \<noteq> CHR ''-''" "c \<noteq> CHR ''+''" "c \<noteq> CHR '' ''" "c \<noteq> CHR 0x09" "c \<noteq> CHR 0x0A"
    using not_digits by metis+
  with False c show ?thesis
    using parse_nat_show_nat [of "nat i"] by (simp add: show_int_def parse_int_def)
qed

text \<open>The text of a decimal number, up to 20 digits after the point.\<close>

fun frac_digits :: "nat \<Rightarrow> rat \<Rightarrow> string" where
  "frac_digits 0 r = []"
| "frac_digits (Suc n) r = (if r = 0 then [] else
     digit_char (nat \<lfloor>10 * r\<rfloor>) # frac_digits n (10 * r - of_int \<lfloor>10 * r\<rfloor>))"

definition show_dec :: "rat \<Rightarrow> string" where
  "show_dec r = (let a = \<bar>r\<bar>; f = a - of_int \<lfloor>a\<rfloor> in (if r < 0 then ''-'' else []) @ show_int \<lfloor>a\<rfloor>
     @ (if f = 0 then [] else CHR ''.'' # frac_digits 20 f))"

lemma show_int_nonempty [simp]: "show_int i \<noteq> []"
  by (simp add: show_int_def)

lemma show_int_inject [simp]: "show_int i = show_int j \<longleftrightarrow> i = j"
  using parse_int_show_int by (metis option.inject)

definition lower_char :: "char \<Rightarrow> char" where
  "lower_char c = (if (65::nat) \<le> of_char c \<and> (of_char c :: nat) \<le> 90
     then char_of ((of_char c :: nat) + 32) else c)"

definition upper_char :: "char \<Rightarrow> char" where
  "upper_char c = (if (97::nat) \<le> of_char c \<and> (of_char c :: nat) \<le> 122
     then char_of ((of_char c :: nat) - 32) else c)"

definition to_lower :: "string \<Rightarrow> string" where
  "to_lower s = map lower_char s"

definition to_upper :: "string \<Rightarrow> string" where
  "to_upper s = map upper_char s"

fun str_includes :: "string \<Rightarrow> string \<Rightarrow> bool" where
  "str_includes p [] = (p = [])"
| "str_includes p (c # cs) = (take (length p) (c # cs) = p \<or> str_includes p cs)"

lemma lower_char_idem: "lower_char (lower_char c) = lower_char c"
proof (cases "(65::nat) \<le> of_char c \<and> (of_char c :: nat) \<le> 90")
  case True
  then have "of_char (char_of ((of_char c :: nat) + 32) :: char) = (of_char c + 32 :: nat)"
    by simp
  with True show ?thesis by (simp add: lower_char_def)
next
  case False
  then have "lower_char c = c" by (simp only: lower_char_def if_False)
  then show ?thesis by simp
qed

lemma to_lower_idem [simp]: "to_lower (to_lower s) = to_lower s"
  by (simp add: to_lower_def lower_char_idem)

section \<open>Text stored outside the process\<close>

text \<open>
  A string value the program hands to Redis: a plain string, or the text
  \<^verbatim>\<open>JSON.stringify\<close> makes of a value, kept as that value. \<^verbatim>\<open>JSON.parse\<close> gives the value
  back and throws on a plain string that is not JSON.
\<close>

datatype json = JNull | JBool bool | JNum int | JDec rat | JStr string | JArr "json list" | JObj "(string \<times> json) list"

datatype rtext = Raw string | Json json

fun json_parse :: "rtext \<Rightarrow> json option" where
  "json_parse (Json j) = Some j"
| "json_parse (Raw _) = None"

fun text_int :: "rtext \<Rightarrow> int option" where
  "text_int (Raw s) = parse_int s"
| "text_int (Json (JNum n)) = Some n"
| "text_int (Json _) = None"

fun jfield :: "string \<Rightarrow> json \<Rightarrow> json" where
  "jfield k (JObj fs) = (case map_of fs k of None \<Rightarrow> JNull | Some v \<Rightarrow> v)"
| "jfield k _ = JNull"

section \<open>Lists\<close>

lemma find_Some_in: "List.find P xs = Some x \<Longrightarrow> x \<in> set xs \<and> P x"
  by (auto simp: find_Some_iff)

lemma find_map_upd:
  assumes "\<And>x. P (f x) = P x"
  shows "List.find P (map f xs) = map_option f (List.find P xs)"
  using assms by (induction xs) auto

lemma find_distinct: "distinct (map f xs) \<Longrightarrow> x \<in> set xs \<Longrightarrow> List.find (\<lambda>r. f r = f x) xs = Some x"
  by (induction xs) auto

lemma find_filter_other: "(\<And>x. P x \<Longrightarrow> Q x) \<Longrightarrow> List.find P (filter Q xs) = List.find P xs"
  by (induction xs) auto

end
