(* ===== verification/Redis.thy ===== *)
theory Redis
  imports Prelude
begin

text \<open>
  The Redis server the program talks to, and \<^verbatim>\<open>RedisService\<close>
  (\<^verbatim>\<open>src/services/redis/redis.service.ts\<close>). The server is not part of the repository: it is a
  parameter, a function from a command, the time and the server's state to a reply and the new
  state. The locale \<open>redis_server\<close> states the documented behaviour the code relies on, against a key
  space (\<open>ks_exec\<close>); \<open>ks_server\<close> is the server whose state is that key space.

  \<^verbatim>\<open>RedisService\<close> offers two ways to a key: its own methods, which put the configured prefix
  in front of it (\<open>rs_get\<close>, \<open>rs_set\<close>, ...), and the raw client returned by
  \<^verbatim>\<open>getClient()\<close>, which does not (\<open>rc_get\<close>, \<open>rc_incr\<close>, ...). The lemmas give the reply and
  the new key space of each call, and show that the two ways never meet on one key.
\<close>

section \<open>The key space and the commands\<close>

datatype rval = RStr rtext | RSet "string list" | RZset "(string \<times> int) list" | RList "rtext list"

text \<open>A live entry: its value and, when it has one, the time at which it expires.\<close>

type_synonym keyspace = "string \<Rightarrow> (rval \<times> int option) option"

datatype rcmd =
    GET string
  | SET string rtext "int option"
  | SETNX string rtext "int option"
  | DEL "string list"
  | EXISTS string
  | EXPIRE string int
  | TTL string
  | INCR string
  | SADD string string
  | SREM string string
  | SMEMBERS string
  | ZADD string int string
  | ZREMRANGEBYSCORE string int
  | ZCOUNT string int int
  | LPUSH string "rtext list"
  | LRANGE_ALL string
  | LLEN string
  | EVAL_DEL_IF_EQ string rtext
  | EVAL_PEXPIRE_IF_EQ string rtext int

datatype reply = ROk | RNil | RText rtext | RInt int | RTexts "rtext list" | RStrings "string list" | RErr string

definition wrongtype :: reply where
  "wrongtype = RErr ''WRONGTYPE Operation against a key holding the wrong kind of value''"

definition live :: "int \<Rightarrow> keyspace \<Rightarrow> keyspace" where
  "live t ks = (\<lambda>k. case ks k of
      Some (v, Some d) \<Rightarrow> if t < d then Some (v, Some d) else None
    | e \<Rightarrow> e)"

text \<open>The set, sorted set or list under a key; \<open>None\<close> when the key holds another type.\<close>

definition the_str :: "keyspace \<Rightarrow> string \<Rightarrow> rtext option option" where
  "the_str ks k = (case ks k of None \<Rightarrow> Some None | Some (RStr t, _) \<Rightarrow> Some (Some t) | _ \<Rightarrow> None)"

definition the_rset :: "keyspace \<Rightarrow> string \<Rightarrow> string list option" where
  "the_rset ks k = (case ks k of None \<Rightarrow> Some [] | Some (RSet s, _) \<Rightarrow> Some s | _ \<Rightarrow> None)"

definition the_zset :: "keyspace \<Rightarrow> string \<Rightarrow> (string \<times> int) list option" where
  "the_zset ks k = (case ks k of None \<Rightarrow> Some [] | Some (RZset s, _) \<Rightarrow> Some s | _ \<Rightarrow> None)"

definition the_rlist :: "keyspace \<Rightarrow> string \<Rightarrow> rtext list option" where
  "the_rlist ks k = (case ks k of None \<Rightarrow> Some [] | Some (RList s, _) \<Rightarrow> Some s | _ \<Rightarrow> None)"

definition deadline :: "keyspace \<Rightarrow> string \<Rightarrow> int option" where
  "deadline ks k = (case ks k of None \<Rightarrow> None | Some (_, d) \<Rightarrow> d)"

text \<open>A collection that becomes empty takes its key with it.\<close>

definition put :: "string \<Rightarrow> rval \<Rightarrow> keyspace \<Rightarrow> keyspace" where
  "put k v ks = (if v \<in> {RSet [], RZset [], RList []} then ks(k := None)
     else ks(k := Some (v, deadline ks k)))"

definition set_deadline :: "string \<Rightarrow> int \<Rightarrow> keyspace \<Rightarrow> keyspace" where
  "set_deadline k d ks = (case ks k of None \<Rightarrow> ks | Some (v, _) \<Rightarrow> ks(k := Some (v, Some d)))"

definition px_ok :: "int option \<Rightarrow> bool" where
  "px_ok px = (case px of None \<Rightarrow> True | Some p \<Rightarrow> 0 < p)"

text \<open>
  What each command answers and does, as the command reference of Redis documents it. Times
  are in milliseconds; \<open>SET k v (Some px)\<close> is \<^verbatim>\<open>SET k v PX px\<close> (\<^verbatim>\<open>EX s\<close> is
  \<open>px = 1000 * s\<close>), \<open>SETNX\<close> is \<^verbatim>\<open>SET .. NX\<close>, \<open>ZREMRANGEBYSCORE k m\<close> has the range
  \<^verbatim>\<open>-inf .. m\<close>, \<open>LRANGE_ALL\<close> is \<^verbatim>\<open>LRANGE k 0 -1\<close>. The two \<open>EVAL\<close> commands are the Lua
  scripts of the lock, which the server runs as one step.
\<close>

fun ks_exec :: "rcmd \<Rightarrow> int \<Rightarrow> keyspace \<Rightarrow> reply \<times> keyspace" where
  "ks_exec (GET k) t ks = (case the_str ks k of
      None \<Rightarrow> (wrongtype, ks) | Some None \<Rightarrow> (RNil, ks) | Some (Some v) \<Rightarrow> (RText v, ks))"
| "ks_exec (SET k v px) t ks =
     (if px_ok px then (ROk, ks(k := Some (RStr v, map_option (\<lambda>p. t + p) px)))
      else (RErr ''ERR invalid expire time in 'set' command'', ks))"
| "ks_exec (SETNX k v px) t ks =
     (if \<not> px_ok px then (RErr ''ERR invalid expire time in 'set' command'', ks)
      else if ks k = None then (ROk, ks(k := Some (RStr v, map_option (\<lambda>p. t + p) px)))
      else (RNil, ks))"
| "ks_exec (DEL keys) t ks =
     (RInt (int (length (filter (\<lambda>k. ks k \<noteq> None) (remdups keys)))),
      (\<lambda>k. if k \<in> set keys then None else ks k))"
| "ks_exec (EXISTS k) t ks = (RInt (if ks k = None then 0 else 1), ks)"
| "ks_exec (EXPIRE k s) t ks =
     (if ks k = None then (RInt 0, ks)
      else if s \<le> 0 then (RInt 1, ks(k := None))
      else (RInt 1, set_deadline k (t + 1000 * s) ks))"
| "ks_exec (TTL k) t ks = (case ks k of
      None \<Rightarrow> (RInt (-2), ks)
    | Some (_, None) \<Rightarrow> (RInt (-1), ks)
    | Some (_, Some d) \<Rightarrow> (RInt ((d - t + 500) div 1000), ks))"
| "ks_exec (INCR k) t ks = (case the_str ks k of
      None \<Rightarrow> (wrongtype, ks)
    | Some None \<Rightarrow> (RInt 1, put k (RStr (Raw (show_int 1))) ks)
    | Some (Some v) \<Rightarrow> (case text_int v of
        None \<Rightarrow> (RErr ''ERR value is not an integer or out of range'', ks)
      | Some n \<Rightarrow> (RInt (n + 1), put k (RStr (Raw (show_int (n + 1)))) ks)))"
| "ks_exec (SADD k m) t ks = (case the_rset ks k of
      None \<Rightarrow> (wrongtype, ks)
    | Some ms \<Rightarrow> if m \<in> set ms then (RInt 0, ks) else (RInt 1, put k (RSet (ms @ [m])) ks))"
| "ks_exec (SREM k m) t ks = (case the_rset ks k of
      None \<Rightarrow> (wrongtype, ks)
    | Some ms \<Rightarrow> if m \<in> set ms then (RInt 1, put k (RSet (removeAll m ms)) ks) else (RInt 0, ks))"
| "ks_exec (SMEMBERS k) t ks = (case the_rset ks k of
      None \<Rightarrow> (wrongtype, ks) | Some ms \<Rightarrow> (RStrings ms, ks))"
| "ks_exec (ZADD k score m) t ks = (case the_zset ks k of
      None \<Rightarrow> (wrongtype, ks)
    | Some zs \<Rightarrow> (RInt (if m \<in> fst ` set zs then 0 else 1),
        put k (RZset ((m, score) # filter (\<lambda>p. fst p \<noteq> m) zs)) ks))"
| "ks_exec (ZREMRANGEBYSCORE k hi) t ks = (case the_zset ks k of
      None \<Rightarrow> (wrongtype, ks)
    | Some zs \<Rightarrow> (RInt (int (length (filter (\<lambda>p. snd p \<le> hi) zs))),
        (if ks k = None then ks else put k (RZset (filter (\<lambda>p. \<not> snd p \<le> hi) zs)) ks)))"
| "ks_exec (ZCOUNT k lo hi) t ks = (case the_zset ks k of
      None \<Rightarrow> (wrongtype, ks)
    | Some zs \<Rightarrow> (RInt (int (length (filter (\<lambda>p. lo \<le> snd p \<and> snd p \<le> hi) zs))), ks))"
| "ks_exec (LPUSH k vs) t ks = (case the_rlist ks k of
      None \<Rightarrow> (wrongtype, ks)
    | Some xs \<Rightarrow> if vs = [] then (RErr ''ERR wrong number of arguments for 'lpush' command'', ks)
        else (RInt (int (length vs + length xs)), put k (RList (rev vs @ xs)) ks))"
| "ks_exec (LRANGE_ALL k) t ks = (case the_rlist ks k of
      None \<Rightarrow> (wrongtype, ks) | Some xs \<Rightarrow> (RTexts xs, ks))"
| "ks_exec (LLEN k) t ks = (case the_rlist ks k of
      None \<Rightarrow> (wrongtype, ks) | Some xs \<Rightarrow> (RInt (int (length xs)), ks))"
| "ks_exec (EVAL_DEL_IF_EQ k v) t ks = (case the_str ks k of
      None \<Rightarrow> (wrongtype, ks)
    | Some x \<Rightarrow> if x = Some v then (RInt 1, ks(k := None)) else (RInt 0, ks))"
| "ks_exec (EVAL_PEXPIRE_IF_EQ k v px) t ks = (case the_str ks k of
      None \<Rightarrow> (wrongtype, ks)
    | Some x \<Rightarrow> if x = Some v
        then (RInt 1, if px \<le> 0 then ks(k := None) else set_deadline k (t + px) ks)
        else (RInt 0, ks))"


section \<open>The server as a parameter\<close>

type_synonym 's server = "rcmd \<Rightarrow> int \<Rightarrow> 's \<Rightarrow> (exn + reply) \<times> 's"

text \<open>What \<^verbatim>\<open>RedisService\<close> is constructed with: the connected server and the key prefix.\<close>

record 's redis_env =
  srv :: "'s server"
  keyPrefix :: string

definition reply_value :: "reply \<Rightarrow> exn + reply" where
  "reply_value r = (case r of RErr m \<Rightarrow> Inl (RedisError m) | _ \<Rightarrow> Inr r)"

text \<open>
  The documented behaviour the program relies on: replies and effects are those of
  \<open>ks_exec\<close> on the key space \<open>ent s t\<close> that the server shows at time \<open>t\<close>, and as time passes
  a key space only loses the entries whose deadline is reached.
\<close>

locale redis_server =
  fixes E :: "'s redis_env"
    and ent :: "'s \<Rightarrow> int \<Rightarrow> keyspace"
  assumes reply_law: "fst (srv E c t s) = reply_value (fst (ks_exec c t (ent s t)))"
    and step_law: "ent (snd (srv E c t s)) t = snd (ks_exec c t (ent s t))"
    and time_law: "t \<le> t' \<Longrightarrow> ent s t' = live t' (ent s t)"

text \<open>The server whose state is the key space itself.\<close>

definition ks_server :: "keyspace server" where
  "ks_server c t ks = (reply_value (fst (ks_exec c t (live t ks))), snd (ks_exec c t (live t ks)))"

definition ks_env :: "string \<Rightarrow> keyspace redis_env" where
  "ks_env p = \<lparr>srv = ks_server, keyPrefix = p\<rparr>"

definition ks_ent :: "keyspace \<Rightarrow> int \<Rightarrow> keyspace" where
  "ks_ent ks t = live t ks"

lemma live_live: "t \<le> t' \<Longrightarrow> live t' (live t ks) = live t' ks"
  by (rule ext) (auto simp: live_def split: option.splits prod.splits)

lemma live_idem [simp]: "live t (live t ks) = live t ks"
  by (rule live_live) simp

definition all_live :: "int \<Rightarrow> keyspace \<Rightarrow> bool" where
  "all_live t ks \<longleftrightarrow> (\<forall>k v d. ks k = Some (v, Some d) \<longrightarrow> t < d)"

lemma live_eq: "all_live t ks \<Longrightarrow> live t ks = ks"
  by (rule ext) (auto simp: live_def all_live_def split: option.splits prod.splits)

lemma all_live_live: "all_live t (live t ks)"
  by (auto simp: live_def all_live_def split: option.splits prod.splits if_splits)

lemma all_live_put: "all_live t ks \<Longrightarrow> all_live t (put k v ks)"
  by (auto simp: all_live_def put_def deadline_def split: option.splits if_splits)

lemma all_live_set_deadline: "all_live t ks \<Longrightarrow> t < d \<Longrightarrow> all_live t (set_deadline k d ks)"
  by (auto simp: all_live_def set_deadline_def split: option.splits if_splits)

lemma all_live_upd:
  "all_live t ks \<Longrightarrow> (\<And>d. x = Some d \<Longrightarrow> t < d) \<Longrightarrow> all_live t (ks(k := Some (v, x)))"
  by (auto simp: all_live_def)

lemma all_live_del: "all_live t ks \<Longrightarrow> all_live t (ks(k := None))"
  by (auto simp: all_live_def)

lemma all_live_dels: "all_live t ks \<Longrightarrow> all_live t (\<lambda>k. if k \<in> S then None else ks k)"
  by (auto simp: all_live_def)

lemma all_live_exec: "all_live t ks \<Longrightarrow> all_live t (snd (ks_exec c t ks))"
  by (cases c) (auto intro!: all_live_put all_live_set_deadline all_live_upd all_live_del all_live_dels
       simp: px_ok_def split: option.splits)

interpretation ks: redis_server "ks_env p" ks_ent
proof
  fix c t s
  show "fst (srv (ks_env p) c t s) = reply_value (fst (ks_exec c t (ks_ent s t)))"
    by (simp add: ks_env_def ks_server_def ks_ent_def)
  show "ks_ent (snd (srv (ks_env p) c t s)) t = snd (ks_exec c t (ks_ent s t))"
    by (simp add: ks_env_def ks_server_def ks_ent_def live_eq all_live_exec all_live_live)
  show "t \<le> t' \<Longrightarrow> ks_ent s t' = live t' (ks_ent s t)" for t'
    by (simp add: ks_ent_def live_live)
qed

section \<open>RedisService and the raw client\<close>

text \<open>A call of the client: the server sees the command at the current time.\<close>

definition redis_call :: "'s redis_env \<Rightarrow> rcmd \<Rightarrow> (('s, 'm) base_scheme, reply) io" where
  "redis_call E c = (\<lambda>w. case srv E c (now w) (rds w) of (r, s') \<Rightarrow> (r, w\<lparr>rds := s'\<rparr>))"

fun reply_text :: "reply \<Rightarrow> rtext option" where
  "reply_text (RText v) = Some v"
| "reply_text _ = None"

fun reply_int :: "reply \<Rightarrow> int" where
  "reply_int (RInt n) = n"
| "reply_int _ = 0"

fun reply_texts :: "reply \<Rightarrow> rtext list" where
  "reply_texts (RTexts xs) = xs"
| "reply_texts _ = []"

fun reply_strings :: "reply \<Rightarrow> string list" where
  "reply_strings (RStrings xs) = xs"
| "reply_strings _ = []"

definition map_io :: "('a \<Rightarrow> 'b) \<Rightarrow> ('w, 'a) io \<Rightarrow> ('w, 'b) io" where
  "map_io f m = bind m (\<lambda>x. ret (f x))"

lemma map_io_run [io_simps]:
  "map_io f m w = (case m w of (Inl e, w') \<Rightarrow> (Inl e, w') | (Inr x, w') \<Rightarrow> (Inr (f x), w'))"
  by (simp add: map_io_def bind_def ret_def split: prod.split sum.split)

definition prefixKey :: "'s redis_env \<Rightarrow> string \<Rightarrow> string" where
  "prefixKey E key = keyPrefix E @ '':'' @ key"

text \<open>The raw client (\<^verbatim>\<open>redisService.getClient()\<close>).\<close>

definition rc_get :: "'s redis_env \<Rightarrow> string \<Rightarrow> (('s, 'm) base_scheme, rtext option) io" where
  "rc_get E k = map_io reply_text (redis_call E (GET k))"

definition rc_set :: "'s redis_env \<Rightarrow> string \<Rightarrow> rtext \<Rightarrow> int option \<Rightarrow> (('s, 'm) base_scheme, reply) io" where
  "rc_set E k v ttl = redis_call E (SET k v (map_option (\<lambda>s. 1000 * s) ttl))"

definition rc_del :: "'s redis_env \<Rightarrow> string \<Rightarrow> (('s, 'm) base_scheme, int) io" where
  "rc_del E k = map_io reply_int (redis_call E (DEL [k]))"

definition rc_incr :: "'s redis_env \<Rightarrow> string \<Rightarrow> (('s, 'm) base_scheme, int) io" where
  "rc_incr E k = map_io reply_int (redis_call E (INCR k))"

definition rc_expire :: "'s redis_env \<Rightarrow> string \<Rightarrow> int \<Rightarrow> (('s, 'm) base_scheme, int) io" where
  "rc_expire E k s = map_io reply_int (redis_call E (EXPIRE k s))"

definition rc_ttl :: "'s redis_env \<Rightarrow> string \<Rightarrow> (('s, 'm) base_scheme, int) io" where
  "rc_ttl E k = map_io reply_int (redis_call E (TTL k))"

definition rc_sadd :: "'s redis_env \<Rightarrow> string \<Rightarrow> string \<Rightarrow> (('s, 'm) base_scheme, int) io" where
  "rc_sadd E k m = map_io reply_int (redis_call E (SADD k m))"

definition rc_srem :: "'s redis_env \<Rightarrow> string \<Rightarrow> string \<Rightarrow> (('s, 'm) base_scheme, int) io" where
  "rc_srem E k m = map_io reply_int (redis_call E (SREM k m))"

definition rc_smembers :: "'s redis_env \<Rightarrow> string \<Rightarrow> (('s, 'm) base_scheme, string list) io" where
  "rc_smembers E k = map_io reply_strings (redis_call E (SMEMBERS k))"

text \<open>The methods of \<^verbatim>\<open>RedisService\<close>, which prefix the key.\<close>

definition rs_set :: "'s redis_env \<Rightarrow> string \<Rightarrow> rtext \<Rightarrow> int option \<Rightarrow> (('s, 'm) base_scheme, reply) io" where
  "rs_set E key v ttl = (let k = prefixKey E key in
     if ttl \<noteq> None \<and> ttl \<noteq> Some 0 then redis_call E (SET k v (map_option (\<lambda>s. 1000 * s) ttl))
     else redis_call E (SET k v None))"

definition rs_get :: "'s redis_env \<Rightarrow> string \<Rightarrow> (('s, 'm) base_scheme, rtext option) io" where
  "rs_get E key = map_io reply_text (redis_call E (GET (prefixKey E key)))"

definition rs_del :: "'s redis_env \<Rightarrow> string list \<Rightarrow> (('s, 'm) base_scheme, int) io" where
  "rs_del E keys = map_io reply_int (redis_call E (DEL (map (prefixKey E) keys)))"

definition rs_exists :: "'s redis_env \<Rightarrow> string \<Rightarrow> (('s, 'm) base_scheme, int) io" where
  "rs_exists E key = map_io reply_int (redis_call E (EXISTS (prefixKey E key)))"

definition rs_expire :: "'s redis_env \<Rightarrow> string \<Rightarrow> int \<Rightarrow> (('s, 'm) base_scheme, int) io" where
  "rs_expire E key s = map_io reply_int (redis_call E (EXPIRE (prefixKey E key) s))"

definition rs_lpush :: "'s redis_env \<Rightarrow> string \<Rightarrow> rtext list \<Rightarrow> (('s, 'm) base_scheme, int) io" where
  "rs_lpush E key vs = map_io reply_int (redis_call E (LPUSH (prefixKey E key) vs))"

definition rs_lrange_all :: "'s redis_env \<Rightarrow> string \<Rightarrow> (('s, 'm) base_scheme, rtext list) io" where
  "rs_lrange_all E key = map_io reply_texts (redis_call E (LRANGE_ALL (prefixKey E key)))"

definition rs_llen :: "'s redis_env \<Rightarrow> string \<Rightarrow> (('s, 'm) base_scheme, int) io" where
  "rs_llen E key = map_io reply_int (redis_call E (LLEN (prefixKey E key)))"

section \<open>What the calls do\<close>

text \<open>The key space the program sees in a state.\<close>

definition view :: "('s \<Rightarrow> int \<Rightarrow> keyspace) \<Rightarrow> ('s, 'm) base_scheme \<Rightarrow> keyspace" where
  "view ent w = ent (rds w) (now w)"

lemmas redis_defs = rc_get_def rc_set_def rc_del_def rc_incr_def rc_expire_def rc_ttl_def
  rc_sadd_def rc_srem_def rc_smembers_def rs_set_def rs_get_def rs_del_def rs_exists_def
  rs_expire_def rs_lpush_def rs_lrange_all_def rs_llen_def

lemma reply_value_simps [simp]:
  "reply_value ROk = Inr ROk" "reply_value RNil = Inr RNil" "reply_value (RText v) = Inr (RText v)"
  "reply_value (RInt n) = Inr (RInt n)" "reply_value (RTexts xs) = Inr (RTexts xs)"
  "reply_value (RStrings ms) = Inr (RStrings ms)" "reply_value (RErr m) = Inl (RedisError m)"
  by (simp_all add: reply_value_def)

lemma the_str_upd [simp]:
  "the_str (ks(k := x)) j = (if j = k then (case x of None \<Rightarrow> Some None | Some (RStr t, _) \<Rightarrow> Some (Some t) | _ \<Rightarrow> None)
     else the_str ks j)"
  by (simp add: the_str_def)

lemma the_str_None: "ks k = None \<Longrightarrow> the_str ks k = Some None"
  by (simp add: the_str_def)

lemma the_str_Some: "ks k = Some (RStr v, d) \<Longrightarrow> the_str ks k = Some (Some v)"
  by (simp add: the_str_def)

text \<open>A key with the prefix in front differs from every key that does not begin with it.\<close>

lemma prefixKey_inject [simp]: "prefixKey E a = prefixKey E b \<longleftrightarrow> a = b"
  by (simp add: prefixKey_def)

definition own_prefix :: "'s redis_env \<Rightarrow> string \<Rightarrow> bool" where
  "own_prefix E k \<longleftrightarrow> take (Suc (length (keyPrefix E))) k = keyPrefix E @ '':''"

lemma prefixKey_raw: "\<not> own_prefix E k \<Longrightarrow> prefixKey E j \<noteq> k \<and> k \<noteq> prefixKey E j"
  by (auto simp: own_prefix_def prefixKey_def)

text \<open>Programs that touch nothing but Redis.\<close>

definition redis_only :: "(('s, 'm) base_scheme, 'a) io \<Rightarrow> bool" where
  "redis_only m \<longleftrightarrow> (\<forall>w. \<exists>s. snd (m w) = w\<lparr>rds := s\<rparr>)"

named_theorems redis_only_intros \<open>programs that touch nothing but Redis\<close>

lemma same_state: "\<exists>s. w = w\<lparr>rds := s\<rparr>"
  by (rule exI [of _ "rds w"]) simp

lemma redis_only_call [redis_only_intros]: "redis_only (redis_call E c)"
  by (auto simp: redis_only_def redis_call_def split: prod.split)

lemma redis_only_ret [redis_only_intros]: "redis_only (ret x)" "redis_only (throw e)" "redis_only get_now"
  by (simp_all add: redis_only_def same_state)

lemma redis_only_bind [redis_only_intros]:
  assumes "redis_only m" "\<And>x. redis_only (f x)"
  shows "redis_only (bind m f)"
  unfolding redis_only_def
proof
  fix w
  obtain r s where m: "m w = (r, w\<lparr>rds := s\<rparr>)"
    using assms(1) by (metis redis_only_def prod.collapse)
  show "\<exists>s. snd (bind m f w) = w\<lparr>rds := s\<rparr>"
  proof (cases r)
    case (Inr x)
    obtain s' where "snd (f x (w\<lparr>rds := s\<rparr>)) = w\<lparr>rds := s\<rparr>\<lparr>rds := s'\<rparr>"
      using assms(2) [of x] unfolding redis_only_def by blast
    with m Inr show ?thesis by (auto simp: bind_run)
  qed (auto simp: m bind_run)
qed

lemma redis_only_seq [redis_only_intros]: "redis_only m \<Longrightarrow> redis_only n \<Longrightarrow> redis_only (andthen m n)"
  by (simp add: andthen_def redis_only_bind)

lemma redis_only_map [redis_only_intros]: "redis_only m \<Longrightarrow> redis_only (map_io f m)"
  by (simp add: map_io_def redis_only_bind redis_only_ret)

lemma redis_only_when [redis_only_intros]: "redis_only m \<Longrightarrow> redis_only (when_do b m)"
  by (simp add: when_do_def redis_only_ret)

lemma redis_only_if [redis_only_intros]: "redis_only m \<Longrightarrow> redis_only n \<Longrightarrow> redis_only (if b then m else n)"
  by simp

lemma redis_only_calls [redis_only_intros]:
  "redis_only (rc_get E k)" "redis_only (rc_set E k v t)" "redis_only (rc_del E k)" "redis_only (rc_incr E k)"
  "redis_only (rc_expire E k n)" "redis_only (rc_ttl E k)" "redis_only (rc_sadd E k x)" "redis_only (rc_srem E k x)"
  "redis_only (rc_smembers E k)" "redis_only (rs_set E k v t)" "redis_only (rs_get E k)" "redis_only (rs_del E ks)"
  "redis_only (rs_exists E k)" "redis_only (rs_expire E k n)" "redis_only (rs_lpush E k vs)"
  "redis_only (rs_lrange_all E k)" "redis_only (rs_llen E k)"
  by (simp_all add: redis_defs Let_def redis_only_call redis_only_map)

lemma redis_only_frame:
  assumes "redis_only m" "\<And>w s. f (w\<lparr>rds := s\<rparr>) = f w"
  shows "f (snd (m w)) = f w"
  using assms by (metis redis_only_def)

lemma redis_only_now: "redis_only m \<Longrightarrow> now (snd (m w)) = now w"
  by (rule redis_only_frame) simp_all

lemma redis_only_state: "redis_only m \<Longrightarrow> snd (m w) = w\<lparr>rds := rds (snd (m w))\<rparr>"
  unfolding redis_only_def by (metis base.select_convs(1) base.surjective base.update_convs(1))

lemma live_mono: "live t ks k = Some e \<Longrightarrow> ks k = Some e"
  by (auto simp: live_def split: option.splits prod.splits if_splits)

lemma live_None: "ks k = None \<Longrightarrow> live t ks k = None"
  by (simp add: live_def)

lemma live_forever: "ks k = Some (v, None) \<Longrightarrow> live t ks k = Some (v, None)"
  by (simp add: live_def)

lemma live_until: "ks k = Some (v, Some d) \<Longrightarrow> live t ks k = (if t < d then Some (v, Some d) else None)"
  by (simp add: live_def)

text \<open>The keys a command names.\<close>

fun cmd_keys :: "rcmd \<Rightarrow> string list" where
  "cmd_keys (GET k) = [k]"
| "cmd_keys (SET k _ _) = [k]"
| "cmd_keys (SETNX k _ _) = [k]"
| "cmd_keys (DEL keys) = keys"
| "cmd_keys (EXISTS k) = [k]"
| "cmd_keys (EXPIRE k _) = [k]"
| "cmd_keys (TTL k) = [k]"
| "cmd_keys (INCR k) = [k]"
| "cmd_keys (SADD k _) = [k]"
| "cmd_keys (SREM k _) = [k]"
| "cmd_keys (SMEMBERS k) = [k]"
| "cmd_keys (ZADD k _ _) = [k]"
| "cmd_keys (ZREMRANGEBYSCORE k _) = [k]"
| "cmd_keys (ZCOUNT k _ _) = [k]"
| "cmd_keys (LPUSH k _) = [k]"
| "cmd_keys (LRANGE_ALL k) = [k]"
| "cmd_keys (LLEN k) = [k]"
| "cmd_keys (EVAL_DEL_IF_EQ k _) = [k]"
| "cmd_keys (EVAL_PEXPIRE_IF_EQ k _ _) = [k]"

lemma exec_frame: "k \<notin> set (cmd_keys c) \<Longrightarrow> snd (ks_exec c t ks) k = ks k"
  by (cases c) (auto simp: put_def set_deadline_def split: option.splits)

context redis_server
begin

lemma call_run: "redis_call E c w = (reply_value (fst (ks_exec c (now w) (ent (rds w) (now w)))),
    w\<lparr>rds := snd (srv E c (now w) (rds w))\<rparr>)"
  by (simp add: redis_call_def reply_law [symmetric] split: prod.split)

lemma view_run: "view ent (w\<lparr>rds := snd (srv E c (now w) s)\<rparr>) = snd (ks_exec c (now w) (ent s (now w)))"
  by (simp add: view_def step_law)

lemma view_fold: "ent (rds w) (now w) = view ent w"
  by (simp add: view_def)

lemmas run = call_run step_law view_run view_fold redis_defs io_simps Let_def

lemma view_call: "view ent (state_of (redis_call E c w)) = snd (ks_exec c (now w) (view ent w))"
  by (simp add: run)

lemma value_call: "value_of (redis_call E c w) = reply_value (fst (ks_exec c (now w) (view ent w)))"
  by (simp add: run)

lemma view_later: "now w \<le> t \<Longrightarrow> view ent (w\<lparr>now := t\<rparr>) = live t (view ent w)"
  by (simp add: view_def time_law)

lemma view_live: "live (now w) (view ent w) = view ent w"
  using time_law [of "now w" "now w" "rds w"] by (simp add: view_def)

text \<open>
  A value written through \<open>RedisService\<close> is read back through it until its deadline, and is
  never read by the raw client under the same name.
\<close>

lemma set_then_get:
  assumes "0 < ttl"
  shows "value_of (bind (rs_set E k v (Some ttl)) (\<lambda>_. rs_get E k) w) = Inr (Some v)"
  using assms by (simp add: run px_ok_def)

lemma set_view:
  assumes "0 < ttl"
  shows "view ent (state_of (rs_set E k v (Some ttl) w))
    = (view ent w)(prefixKey E k := Some (RStr v, Some (now w + 1000 * ttl)))"
  using assms by (simp add: run px_ok_def)

lemma view_rds [simp]: "view ent (w\<lparr>rds := s\<rparr>) = ent s (now w)"
  by (simp add: view_def)

text \<open>
  \<open>runs m w r K\<close>: from \<open>w\<close> the program answers \<open>r\<close>, changes nothing but Redis and leaves the key
  space \<open>K\<close>.
\<close>

definition runs :: "(('s, 'm) base_scheme, 'a) io \<Rightarrow> ('s, 'm) base_scheme \<Rightarrow> exn + 'a \<Rightarrow> keyspace \<Rightarrow> bool" where
  "runs m w r K \<longleftrightarrow> (\<exists>s. m w = (r, w\<lparr>rds := s\<rparr>) \<and> ent s (now w) = K)"

lemma runsI: "redis_only m \<Longrightarrow> fst (m w) = r \<Longrightarrow> view ent (snd (m w)) = K \<Longrightarrow> runs m w r K"
  unfolding runs_def redis_only_def by (metis prod.collapse view_rds)

lemma runsE:
  assumes "runs m w r K"
  obtains s where "m w = (r, w\<lparr>rds := s\<rparr>)" "ent s (now w) = K"
  using assms by (auto simp: runs_def)

text \<open>
  \<open>spares k m\<close>: the program changes nothing but Redis, and there it does not write the key \<open>k\<close>. A
  command writes no key but the ones it names.
\<close>

definition spares :: "string \<Rightarrow> (('s, 'm) base_scheme, 'a) io \<Rightarrow> bool" where
  "spares k m \<longleftrightarrow> (\<forall>w. \<exists>s. snd (m w) = w\<lparr>rds := s\<rparr> \<and> ent s (now w) k = ent (rds w) (now w) k)"

lemma sparesD: "spares k m \<Longrightarrow> \<exists>s. snd (m w) = w\<lparr>rds := s\<rparr> \<and> ent s (now w) k = view ent w k"
  by (simp add: spares_def view_def)

lemma spares_call: "k \<notin> set (cmd_keys c) \<Longrightarrow> spares k (redis_call E c)"
  unfolding spares_def by (auto simp: call_run step_law exec_frame)

lemma spares_ret: "spares k (ret x)" "spares k (throw e)" "spares k get_now" "spares k (io_of r)"
  by (auto simp: spares_def intro!: exI)

lemma spares_bind:
  assumes "spares k m" "\<And>x. spares k (f x)"
  shows "spares k (bind m f)"
  unfolding spares_def
proof
  fix w
  obtain r w1 where m: "m w = (r, w1)" by (cases "m w")
  from assms(1) obtain s where s: "w1 = w\<lparr>rds := s\<rparr>" "ent s (now w) k = ent (rds w) (now w) k"
    unfolding spares_def using m by (metis snd_conv)
  show "\<exists>s. snd (bind m f w) = w\<lparr>rds := s\<rparr> \<and> ent s (now w) k = ent (rds w) (now w) k"
  proof (cases r)
    case (Inl e)
    with m s show ?thesis by (auto simp: bind_run)
  next
    case (Inr x)
    obtain s' where "snd (f x w1) = w1\<lparr>rds := s'\<rparr>" "ent s' (now w1) k = ent (rds w1) (now w1) k"
      using assms(2) [of x] unfolding spares_def by blast
    with m s Inr show ?thesis by (auto simp: bind_run)
  qed
qed

lemma spares_seq: "spares k m \<Longrightarrow> spares k n \<Longrightarrow> spares k (andthen m n)"
  by (simp add: andthen_def spares_bind)

lemma spares_map: "spares k m \<Longrightarrow> spares k (map_io f m)"
  by (simp add: map_io_def spares_bind spares_ret)

lemma spares_when: "(b \<Longrightarrow> spares k m) \<Longrightarrow> spares k (when_do b m)"
  by (simp add: when_do_def spares_ret)

lemma spares_if: "(b \<Longrightarrow> spares k m) \<Longrightarrow> (\<not> b \<Longrightarrow> spares k n) \<Longrightarrow> spares k (if b then m else n)"
  by simp

lemma spares_Let: "spares k (f x) \<Longrightarrow> spares k (let y = x in f y)"
  by simp

lemma spares_raw:
  assumes "k \<noteq> j"
  shows "spares k (rc_get E j)" "spares k (rc_set E j v t)" "spares k (rc_del E j)" "spares k (rc_incr E j)"
    "spares k (rc_expire E j n)" "spares k (rc_ttl E j)" "spares k (rc_sadd E j x)" "spares k (rc_srem E j x)"
    "spares k (rc_smembers E j)"
  using assms by (simp_all add: redis_defs spares_map spares_call)

lemma spares_prefixed:
  assumes "\<not> own_prefix E k"
  shows "spares k (rs_set E j v t)" "spares k (rs_get E j)" "spares k (rs_del E js)" "spares k (rs_exists E j)"
    "spares k (rs_expire E j n)" "spares k (rs_lpush E j vs)" "spares k (rs_lrange_all E j)" "spares k (rs_llen E j)"
proof -
  have "k \<notin> set (map (prefixKey E) xs)" for xs
    using prefixKey_raw [OF assms] by auto
  from this [of "[j]"] this show "spares k (rs_set E j v t)" "spares k (rs_get E j)" "spares k (rs_del E js)" "spares k (rs_exists E j)"
    "spares k (rs_expire E j n)" "spares k (rs_lpush E j vs)" "spares k (rs_lrange_all E j)" "spares k (rs_llen E j)"
    by (simp_all add: redis_defs Let_def spares_map spares_call)
qed

lemmas spares_intros = spares_ret spares_bind spares_seq spares_map spares_when spares_if spares_Let
  spares_raw spares_prefixed spares_call

end

end
