(* ===== verification/Locker.thy ===== *)
theory Locker
  imports Redis
begin

text \<open>
  The distributed lock: \<^verbatim>\<open>LockBuilder\<close> (\<^verbatim>\<open>src/services/locker/locker_builder.ts\<close>) and
  \<^verbatim>\<open>LockerService\<close> (\<^verbatim>\<open>locker.service.ts\<close>). A lock is a key of the raw client that holds the
  owner's random id and expires after \<open>ttl\<close> milliseconds. \<open>acquireLoop\<close> is the retry loop as
  written, which without a retry count may run forever (\<open>None\<close>); \<open>acquireTries\<close> is the loop with
  a retry count, and the two are proved equal there. The locale \<open>mutex\<close> is what a critical section
  needs of a lock; it is interpreted on the lock of the code. The last section runs any number of
  clients against one server, step by step, and proves mutual exclusion.
\<close>

section \<open>LockBuilder\<close>

text \<open>\<open>owner\<close> is the random id drawn by the constructor; a \<open>ttl\<close> of 0 is a lock that never expires.\<close>

record lock =
  lkey :: string
  owner :: string
  ttl :: int
  expirationTime :: "int option"

definition newLock :: "string \<Rightarrow> string \<Rightarrow> int option \<Rightarrow> lock" where
  "newLock key own t = \<lparr>lkey = key, owner = own,
     ttl = (case t of None \<Rightarrow> 30000 | Some x \<Rightarrow> x), expirationTime = None\<rparr>"

definition save :: "'s redis_env \<Rightarrow> lock \<Rightarrow> (('s, 'm) base_scheme, bool) io" where
  "save E l = (if ttl l \<noteq> 0
     then map_io (\<lambda>r. r = ROk) (redis_call E (SETNX (lkey l) (Raw (owner l)) (Some (ttl l))))
     else map_io (\<lambda>r. r = ROk) (redis_call E (SETNX (lkey l) (Raw (owner l)) None)))"

definition got :: "lock \<Rightarrow> int \<Rightarrow> lock" where
  "got l t = l\<lparr>expirationTime := (if ttl l \<noteq> 0 then Some (t + ttl l) else None)\<rparr>"

text \<open>
  The loop of \<^verbatim>\<open>acquire\<close>: \<open>rc\<close> is the retry count (\<open>None\<close> is infinity), \<open>tmo\<close> the timeout,
  \<open>start\<close> the time at which the loop began and \<open>done\<close> the attempts made.
\<close>

partial_function (option) acquireLoop ::
  "'s redis_env \<Rightarrow> lock \<Rightarrow> int option \<Rightarrow> int \<Rightarrow> int option \<Rightarrow> int \<Rightarrow> int \<Rightarrow> ('s, 'm) base_scheme
    \<Rightarrow> ((exn + bool \<times> lock) \<times> ('s, 'm) base_scheme) option" where
  "acquireLoop E l rc delay tmo start attempts w =
    (if (case rc of None \<Rightarrow> False | Some n \<Rightarrow> \<not> attempts < n) then Some (Inr (False, l), w)
     else (case save E l w of
         (Inl e, w1) \<Rightarrow> Some (Inl e, w1)
       | (Inr ok, w1) \<Rightarrow>
           if ok then Some (Inr (True, got l (now w)), w1)
           else if rc = Some (attempts + 1) then Some (Inr (False, l), w1)
           else if (case tmo of None \<Rightarrow> False | Some m \<Rightarrow> m \<noteq> 0 \<and> m < now w1 - start)
             then Some (Inr (False, l), w1)
           else acquireLoop E l rc delay tmo start (attempts + 1) (w1\<lparr>now := now w1 + delay\<rparr>)))"

definition acquire ::
  "'s redis_env \<Rightarrow> lock \<Rightarrow> int option \<Rightarrow> int option \<Rightarrow> int option \<Rightarrow> ('s, 'm) base_scheme
    \<Rightarrow> ((exn + bool \<times> lock) \<times> ('s, 'm) base_scheme) option" where
  "acquire E l rc delay tmo w = acquireLoop E (l\<lparr>expirationTime := None\<rparr>) rc
     (case delay of None \<Rightarrow> 250 | Some d \<Rightarrow> d) tmo (now w) 0 w"

definition acquireImmediately :: "'s redis_env \<Rightarrow> lock \<Rightarrow> (('s, 'm) base_scheme, bool \<times> lock) io" where
  "acquireImmediately E l = bind (save E l) (\<lambda>ok. if \<not> ok then ret (False, l)
     else bind get_now (\<lambda>t. ret (True, got l t)))"

definition release :: "'s redis_env \<Rightarrow> lock \<Rightarrow> (('s, 'm) base_scheme, unit) io" where
  "release E l = bind (redis_call E (EVAL_DEL_IF_EQ (lkey l) (Raw (owner l)))) (\<lambda>r.
     if reply_int r = 0 then throw LockNotOwned else ret ())"

definition forceRelease :: "'s redis_env \<Rightarrow> lock \<Rightarrow> (('s, 'm) base_scheme, unit) io" where
  "forceRelease E l = andthen (rc_del E (lkey l)) (ret ())"

definition lock_exists :: "'s redis_env \<Rightarrow> lock \<Rightarrow> (('s, 'm) base_scheme, bool) io" where
  "lock_exists E l = map_io (\<lambda>v. v \<noteq> None \<and> v \<noteq> Some (Raw [])) (rc_get E (lkey l))"

definition isExpired :: "lock \<Rightarrow> int \<Rightarrow> bool" where
  "isExpired l t = (case expirationTime l of None \<Rightarrow> False | Some x \<Rightarrow> x < t)"

definition getRemainingTime :: "lock \<Rightarrow> int \<Rightarrow> int option" where
  "getRemainingTime l t = (case expirationTime l of None \<Rightarrow> None | Some x \<Rightarrow> Some (x - t))"

definition extend :: "'s redis_env \<Rightarrow> lock \<Rightarrow> int option \<Rightarrow> (('s, 'm) base_scheme, lock) io" where
  "extend E l duration =
    (let t = (case duration of None \<Rightarrow> ttl l | Some d \<Rightarrow> if d = 0 then ttl l else d) in
     if t = 0 then throw (PlainError ''Cannot extend a lock without TTL'')
     else bind (redis_call E (EVAL_PEXPIRE_IF_EQ (lkey l) (Raw (owner l)) t)) (\<lambda>r.
       if reply_int r = 0 then throw LockNotOwned
       else bind get_now (\<lambda>n. ret (l\<lparr>expirationTime := Some (n + t)\<rparr>))))"

text \<open>\<^verbatim>\<open>run\<close>: \<open>None\<close> as a value is the \<^verbatim>\<open>null\<close> it returns when the lock is not acquired.\<close>

definition lock_run :: "'s redis_env \<Rightarrow> lock \<Rightarrow> (('s, 'm) base_scheme, 'a option) io
    \<Rightarrow> ('s, 'm) base_scheme \<Rightarrow> ((exn + 'a option) \<times> ('s, 'm) base_scheme) option" where
  "lock_run E l callback w = (case acquire E l None None None w of
      None \<Rightarrow> None
    | Some (Inl e, w1) \<Rightarrow> Some (Inl e, w1)
    | Some (Inr (ok, l1), w1) \<Rightarrow>
        if \<not> ok then Some (Inr None, w1)
        else Some (finally_do callback (release E l1) w1))"

section \<open>LockerService\<close>

definition could_not_acquire :: "string \<Rightarrow> exn" where
  "could_not_acquire key = PlainError (''Could not acquire lock for key: '' @ key)"

definition withLock :: "'s redis_env \<Rightarrow> string \<Rightarrow> string \<Rightarrow> int option \<Rightarrow> int option \<Rightarrow> int option
    \<Rightarrow> (('s, 'm) base_scheme, 'a) io
    \<Rightarrow> ('s, 'm) base_scheme \<Rightarrow> ((exn + 'a) \<times> ('s, 'm) base_scheme) option" where
  "withLock E own key t rc delay callback w =
    (case acquire E (newLock key own t) rc delay None w of
      None \<Rightarrow> None
    | Some (Inl e, w1) \<Rightarrow> Some (Inl e, w1)
    | Some (Inr (ok, l1), w1) \<Rightarrow>
        if \<not> ok then Some (Inl (could_not_acquire key), w1)
        else Some (finally_do callback (release E l1) w1))"

definition runWithLock :: "'s redis_env \<Rightarrow> string \<Rightarrow> string \<Rightarrow> int option
    \<Rightarrow> (('s, 'm) base_scheme, 'a option) io
    \<Rightarrow> ('s, 'm) base_scheme \<Rightarrow> ((exn + 'a) \<times> ('s, 'm) base_scheme) option" where
  "runWithLock E own key t callback w = (case lock_run E (newLock key own t) callback w of
      None \<Rightarrow> None
    | Some (Inl e, w1) \<Rightarrow> Some (Inl e, w1)
    | Some (Inr None, w1) \<Rightarrow> Some (Inl (could_not_acquire key), w1)
    | Some (Inr (Some r), w1) \<Rightarrow> Some (Inr r, w1))"

definition isLocked :: "'s redis_env \<Rightarrow> string \<Rightarrow> string \<Rightarrow> (('s, 'm) base_scheme, bool) io" where
  "isLocked E own key = lock_exists E (newLock key own None)"

definition service_forceRelease :: "'s redis_env \<Rightarrow> string \<Rightarrow> string \<Rightarrow> (('s, 'm) base_scheme, unit) io" where
  "service_forceRelease E own key = forceRelease E (newLock key own None)"

text \<open>The same with a retry count, as a total program: what the handlers of the other theories run.\<close>

primrec acquireTries :: "'s redis_env \<Rightarrow> lock \<Rightarrow> int \<Rightarrow> nat \<Rightarrow> (('s, 'm) base_scheme, bool \<times> lock) io" where
  "acquireTries E l delay 0 = ret (False, l)"
| "acquireTries E l delay (Suc n) = bind get_now (\<lambda>t. bind (save E l) (\<lambda>ok.
     if ok then ret (True, got l t)
     else if n = 0 then ret (False, l)
     else andthen (sleep delay) (acquireTries E l delay n)))"

definition withLockN :: "'s redis_env \<Rightarrow> string \<Rightarrow> string \<Rightarrow> int option \<Rightarrow> nat \<Rightarrow> int
    \<Rightarrow> (('s, 'm) base_scheme, 'a) io \<Rightarrow> (('s, 'm) base_scheme, 'a) io" where
  "withLockN E own key t n delay callback =
     bind (acquireTries E (newLock key own t) delay n) (\<lambda>(ok, l).
       if \<not> ok then throw (could_not_acquire key) else finally_do callback (release E l))"

lemma newLock_simps [simp]:
  "lkey (newLock key own t) = key" "owner (newLock key own t) = own"
  "ttl (newLock key own t) = (case t of None \<Rightarrow> 30000 | Some x \<Rightarrow> x)"
  "expirationTime (newLock key own t) = None"
  "(newLock key own t)\<lparr>expirationTime := None\<rparr> = newLock key own t"
  by (simp_all add: newLock_def)

lemma got_simps [simp]: "lkey (got l t) = lkey l" "owner (got l t) = owner l" "ttl (got l t) = ttl l"
  by (simp_all add: got_def)

section \<open>The retry loop\<close>

lemma acquireLoop_tries:
  fixes w :: "('s, 'm) base_scheme"
  shows "acquireLoop E l (Some (k + int n)) delay None start k w = Some (acquireTries E l delay n w)"
proof (induction n arbitrary: k w)
  case 0
  show ?case by (subst acquireLoop.simps) simp
next
  case (Suc n)
  have ih: "acquireLoop E l (Some (k + int (Suc n))) delay None start (k + 1) w'
      = Some (acquireTries E l delay n w')" for w' :: "('s, 'm) base_scheme"
    using Suc.IH [of "k + 1"] by (simp add: ac_simps)
  show ?case
    by (subst acquireLoop.simps) (simp add: io_simps ih [unfolded of_nat_Suc] split: prod.split sum.split)
qed

lemma withLock_total: "withLock E own key t (Some (int n)) delay callback w
    = Some (withLockN E own key t n (case delay of None \<Rightarrow> 250 | Some d \<Rightarrow> d) callback w)"
proof -
  have "acquire E (newLock key own t) (Some (int n)) delay None w
      = Some (acquireTries E (newLock key own t) (case delay of None \<Rightarrow> 250 | Some d \<Rightarrow> d) n w)"
    using acquireLoop_tries [of E "newLock key own t" 0 n] by (simp add: acquire_def)
  then show ?thesis
    by (simp add: withLock_def withLockN_def io_simps split: prod.split sum.split)
qed


section \<open>What a critical section needs of a lock\<close>

text \<open>
  \<open>take\<close> tries the lock once, \<open>give\<close> releases it; \<open>free\<close> and \<open>mine\<close> tell whether it can be
  taken and whether it is held by this owner.
\<close>

locale mutex =
  fixes take :: "('w, bool) io"
    and give :: "('w, unit) io"
    and free :: "'w \<Rightarrow> bool"
    and mine :: "'w \<Rightarrow> bool"
  assumes take_free: "free w \<Longrightarrow> fst (take w) = Inr True \<and> mine (snd (take w))"
    and take_busy: "\<not> free w \<Longrightarrow> fst (take w) = Inr False"
    and give_mine: "mine w \<Longrightarrow> fst (give w) = Inr () \<and> free (snd (give w))"
    and give_other: "\<not> mine w \<Longrightarrow> \<exists>x. fst (give w) = Inl x"
begin

text \<open>A section that keeps the lock gives its own outcome and leaves the lock free.\<close>

lemma section_kept:
  assumes "free w" and kept: "mine (snd (m (snd (take w))))"
  shows "fst (bind take (\<lambda>ok. if ok then finally_do m give else throw e) w) = fst (m (snd (take w)))"
    and "free (snd (bind take (\<lambda>ok. if ok then finally_do m give else throw e) w))"
proof -
  obtain w1 where t: "take w = (Inr True, w1)"
    using take_free [OF \<open>free w\<close>] by (cases "take w") simp
  obtain r w2 where m: "m w1 = (r, w2)" by (cases "m w1")
  with kept t have "mine w2" by simp
  then obtain w3 where g: "give w2 = (Inr (), w3)" "free w3"
    using give_mine [of w2] by (cases "give w2") auto
  with t m show "fst (bind take (\<lambda>ok. if ok then finally_do m give else throw e) w) = fst (m (snd (take w)))"
    and "free (snd (bind take (\<lambda>ok. if ok then finally_do m give else throw e) w))"
    by (simp_all add: io_simps)
qed

text \<open>A section that loses the lock reports it, whatever its own outcome.\<close>

lemma section_lost:
  assumes "free w" and lost: "\<not> mine (snd (m (snd (take w))))"
  shows "\<exists>x. fst (bind take (\<lambda>ok. if ok then finally_do m give else throw e) w) = Inl x"
proof -
  obtain w1 where t: "take w = (Inr True, w1)"
    using take_free [OF \<open>free w\<close>] by (cases "take w") simp
  obtain r w2 where m: "m w1 = (r, w2)" by (cases "m w1")
  with lost t have "\<exists>x. fst (give w2) = Inl x" by (simp add: give_other)
  then obtain x w3 where "give w2 = (Inl x, w3)" by (cases "give w2") auto
  with t m show ?thesis by (simp add: io_simps)
qed

lemma section_busy:
  assumes "\<not> free w"
  shows "fst (bind take (\<lambda>ok. if ok then finally_do m give else throw e) w) = Inl e"
  using take_busy [OF assms] by (cases "take w") (simp add: io_simps)

end

definition lock_holder :: "keyspace \<Rightarrow> lock \<Rightarrow> bool" where
  "lock_holder ks l \<longleftrightarrow> the_str ks (lkey l) = Some (Some (Raw (owner l)))"

context redis_server
begin

lemma save_run:
  assumes "0 < ttl l"
  shows "save E l w = (Inr (view ent w (lkey l) = None),
    w\<lparr>rds := snd (srv E (SETNX (lkey l) (Raw (owner l)) (Some (ttl l))) (now w) (rds w))\<rparr>)"
  using assms by (simp add: save_def run px_ok_def)

lemma save_view:
  assumes "0 < ttl l"
  shows "view ent (snd (save E l w)) = (if view ent w (lkey l) = None
    then (view ent w)(lkey l := Some (RStr (Raw (owner l)), Some (now w + ttl l))) else view ent w)"
  using assms by (auto simp: save_def run px_ok_def fun_eq_iff)

lemma save_now [simp]: "now (snd (save E l w)) = now w"
  by (simp add: save_def run)

lemma release_run:
  "the_str (view ent w) (lkey l) \<noteq> None \<Longrightarrow> release E l w
    = (if lock_holder (view ent w) l then Inr () else Inl LockNotOwned,
       w\<lparr>rds := snd (srv E (EVAL_DEL_IF_EQ (lkey l) (Raw (owner l))) (now w) (rds w))\<rparr>)"
  by (auto simp: release_def run lock_holder_def)

lemma release_view:
  "view ent (snd (release E l w)) = (if lock_holder (view ent w) l then (view ent w)(lkey l := None)
     else view ent w)"
  by (auto simp: release_def run lock_holder_def wrongtype_def fun_eq_iff split: option.splits)

lemma release_now [simp]: "now (snd (release E l w)) = now w"
  by (simp add: release_def run wrongtype_def split: option.splits)

end


text \<open>One lock of the code, with a positive \<open>ttl\<close>, against one server.\<close>

locale redis_lock = redis_server E ent
  for E :: "'s redis_env" and ent :: "'s \<Rightarrow> int \<Rightarrow> keyspace" +
  fixes l :: lock
  assumes ttl_pos: "0 < ttl l"

sublocale redis_lock \<subseteq> crit: mutex "save E l" "release E l" "\<lambda>w. view ent w (lkey l) = None"
    "\<lambda>w. lock_holder (view ent w) l"
proof
  fix w
  show "view ent w (lkey l) = None \<Longrightarrow>
      fst (save E l w) = Inr True \<and> lock_holder (view ent (snd (save E l w))) l"
    using ttl_pos by (simp add: save_view lock_holder_def) (simp add: save_run)
  show "view ent w (lkey l) \<noteq> None \<Longrightarrow> fst (save E l w) = Inr False"
    using ttl_pos by (simp add: save_run)
  show "lock_holder (view ent w) l \<Longrightarrow>
      fst (release E l w) = Inr () \<and> view ent (snd (release E l w)) (lkey l) = None"
    by (simp add: release_view) (simp add: release_run lock_holder_def)
  show "\<not> lock_holder (view ent w) l \<Longrightarrow> \<exists>x. fst (release E l w) = Inl x"
    by (cases "the_str (view ent w) (lkey l)")
       (auto simp: release_run, simp add: release_def run wrongtype_def)
qed

interpretation rl: redis_lock "ks_env p" ks_ent "newLock key own None"
  by unfold_locales simp

section \<open>Acquiring\<close>

context redis_server
begin

lemma acquireTries_free:
  assumes "0 < ttl l" and "view ent w (lkey l) = None"
  shows "acquireTries E l delay (Suc n) w = (Inr (True, got l (now w)), snd (save E l w))"
  using assms by (simp add: io_simps save_run)

lemma acquireTries_busy:
  assumes "0 < ttl l" "0 \<le> delay" and "view ent w (lkey l) = Some (v, d)"
    and "\<And>x. d = Some x \<Longrightarrow> now w + int n * delay < x"
  shows "fst (acquireTries E l delay (Suc n) w) = Inr (False, l)"
  using assms(3,4)
proof (induction n arbitrary: w)
  case 0
  then show ?case using assms(1) by (simp add: io_simps save_run)
next
  case (Suc n)
  let ?w = "(snd (save E l w))\<lparr>now := now w + delay\<rparr>"
  have "view ent ?w = live (now w + delay) (view ent w)"
    using view_later [of "snd (save E l w)" "now w + delay"] assms(1,2) Suc.prems(1)
    by (simp add: save_view)
  moreover have "now w + delay < x" if "d = Some x" for x
  proof -
    have "0 \<le> int n * delay" using assms(2) by simp
    then show ?thesis using Suc.prems(2) [OF that] by (simp add: algebra_simps)
  qed
  ultimately have "view ent ?w (lkey l) = Some (v, d)"
    using Suc.prems(1) by (cases d) (auto simp: live_forever live_until)
  moreover have "now ?w + int n * delay < x" if "d = Some x" for x
    using Suc.prems(2) [OF that] by (simp add: algebra_simps)
  ultimately have "fst (acquireTries E l delay (Suc n) ?w) = Inr (False, l)"
    by (intro Suc.IH)
  moreover have "save E l w = (Inr False, snd (save E l w))" "now (snd (save E l w)) = now w"
    using assms(1) Suc.prems(1) by (simp_all add: save_run)
  then obtain w1 where "save E l w = (Inr False, w1)" "now w1 = now w" "snd (save E l w) = w1"
    by metis
  ultimately show ?case
    by (subst acquireTries.simps) (simp add: io_simps del: acquireTries.simps)
qed

text \<open>Without a retry count the loop waits for the holder's lease to end.\<close>

lemma acquireLoop_waits:
  assumes "0 < ttl l" "0 < delay" "view ent w (lkey l) = Some (v, Some d)"
  shows "\<exists>w'. acquireLoop E l None delay None start k w = Some (Inr (True, got l (now w')), w')
      \<and> d \<le> now w' \<and> now w' < d + delay"
  using assms(3)
proof (induction "nat (d - now w)" arbitrary: w k rule: less_induct)
  case less
  let ?w = "(snd (save E l w))\<lparr>now := now w + delay\<rparr>"
  have "now w < d"
    using view_live [of w] less.prems by (auto simp: live_def fun_eq_iff split: if_splits dest!: spec [of _ "lkey l"])
  have v: "view ent ?w = live (now w + delay) (view ent w)"
    using view_later [of "snd (save E l w)" "now w + delay"] assms(1,2) less.prems
    by (simp add: save_view)
  have s: "save E l w = (Inr False, snd (save E l w))"
    using assms(1) less.prems by (simp add: save_run)
  have unf: "acquireLoop E l None delay None start k w = acquireLoop E l None delay None start (k + 1) ?w"
    by (subst acquireLoop.simps, subst s) simp
  show ?case
  proof (cases "now w + delay < d")
    case True
    then have "view ent ?w (lkey l) = Some (v, Some d)"
      using v less.prems by (simp add: live_until)
    with True \<open>now w < d\<close> show ?thesis
      using less.hyps [of ?w "k + 1"] assms(2) unf by simp
  next
    case False
    then have n: "view ent ?w (lkey l) = None"
      using v less.prems by (simp add: live_until)
    define w1 where "w1 = ?w"
    have s1: "save E l w1 = (Inr True, snd (save E l w1))"
      using save_run [OF assms(1), of w1] n by (simp add: w1_def)
    have "acquireLoop E l None delay None start (k + 1) w1
        = Some (Inr (True, got l (now w1)), snd (save E l w1))"
      by (subst acquireLoop.simps, subst s1) simp
    moreover have "now w1 = now w + delay" by (simp add: w1_def)
    ultimately show ?thesis using unf False \<open>now w < d\<close> by (auto simp: w1_def [symmetric])
  qed
qed

text \<open>When the key never expires, the loop never returns.\<close>

lemma acquireLoop_persistent:
  assumes "0 < ttl l" "0 \<le> delay" "view ent w (lkey l) = Some (v, None)"
  shows "acquireLoop E l None delay None start k w = None"
proof (rule ccontr)
  assume "acquireLoop E l None delay None start k w \<noteq> None"
  then obtain r where "acquireLoop E l None delay None start k w = Some r" by auto
  moreover have "\<not> (E' = E \<and> l' = l \<and> rc = None \<and> tmo = None \<and> d = delay \<and> view ent w (lkey l) = Some (v, None))"
    if "acquireLoop E' l' rc d tmo st k w = Some r" for E' l' rc d tmo st k w r
    using that
  proof (induction rule: acquireLoop.raw_induct [rotated 1, consumes 1, case_names loop])
    case (loop f E' l' rc d tmo st k w r)
    show ?case
    proof
      assume a: "E' = E \<and> l' = l \<and> rc = None \<and> tmo = None \<and> d = delay \<and> view ent w (lkey l) = Some (v, None)"
      let ?w = "(snd (save E l w))\<lparr>now := now w + delay\<rparr>"
      have "view ent ?w = live (now w + delay) (view ent w)"
        using view_later [of "snd (save E l w)" "now w + delay"] assms(1,2) a by (simp add: save_view)
      then have "view ent ?w (lkey l) = Some (v, None)" using a by (simp add: live_forever)
      moreover have "f E l None delay None st (k + 1) ?w = Some r"
        using loop(2) a assms(1) by (simp add: save_run)
      ultimately show False using loop(1) a by blast
    qed
  qed
  ultimately show False using assms(3) by blast
qed

end


section \<open>Critical sections of the handlers\<close>

text \<open>
  A lock taken without a retry count, as the handlers of the other theories run it: at most
  \<open>patience\<close> attempts. The code's number of attempts is unbounded; where the lock is free, or its
  lease ends within the attempts, the two agree (\<open>withLockW_free\<close>).
\<close>

definition withLockW :: "'s redis_env \<Rightarrow> nat \<Rightarrow> string \<Rightarrow> string
    \<Rightarrow> (('s, 'm) base_scheme, 'a) io \<Rightarrow> (('s, 'm) base_scheme, 'a) io" where
  "withLockW E patience own key callback = withLockN E own key None patience 250 callback"

lemma map_io_state: "snd (map_io f m w) = snd (m w)"
  by (simp add: map_io_run split: prod.split sum.split)

context redis_server
begin

text \<open>
  \<open>moved key w w'\<close>: from \<open>w\<close> to \<open>w'\<close> time may have passed and the key may have been written, and
  nothing else has happened. A condition closed under this is \<open>lock_stable\<close>.
\<close>

definition moved :: "string \<Rightarrow> ('s, 'm) base_scheme \<Rightarrow> ('s, 'm) base_scheme \<Rightarrow> bool" where
  "moved key w w' \<longleftrightarrow> (\<exists>s t. w' = w\<lparr>rds := s, now := t\<rparr> \<and> now w \<le> t
     \<and> (\<forall>k. k \<noteq> key \<longrightarrow> ent s t k = live t (view ent w) k))"

definition lock_stable :: "string \<Rightarrow> (('s, 'm) base_scheme \<Rightarrow> bool) \<Rightarrow> bool" where
  "lock_stable key P \<longleftrightarrow> (\<forall>w w'. P w \<longrightarrow> moved key w w' \<longrightarrow> P w')"

lemma lock_stableD: "lock_stable key P \<Longrightarrow> P w \<Longrightarrow> moved key w w' \<Longrightarrow> P w'"
  by (simp add: lock_stable_def)

lemma moved_view: "moved key w w' \<Longrightarrow> k \<noteq> key \<Longrightarrow> view ent w' k = live (now w') (view ent w) k"
  by (auto simp: moved_def view_def)

lemma moved_now: "moved key w w' \<Longrightarrow> now w \<le> now w'"
  by (auto simp: moved_def)

lemma live_cong: "live t ks k = live t ks' k" if "ks k = ks' k"
  using that by (simp add: live_def)

lemma moved_trans:
  assumes "moved key w w1" "moved key w1 w2"
  shows "moved key w w2"
proof -
  obtain s t where 1: "w1 = w\<lparr>rds := s, now := t\<rparr>" "now w \<le> t" "\<And>k. k \<noteq> key \<Longrightarrow> ent s t k = live t (view ent w) k"
    using assms(1) unfolding moved_def by blast
  obtain s' t' where 2: "w2 = w1\<lparr>rds := s', now := t'\<rparr>" "now w1 \<le> t'" "\<And>k. k \<noteq> key \<Longrightarrow> ent s' t' k = live t' (view ent w1) k"
    using assms(2) unfolding moved_def by blast
  have "ent s' t' k = live t' (view ent w) k" if "k \<noteq> key" for k
  proof -
    have "view ent w1 k = live t (view ent w) k" using 1 that by (simp add: view_def)
    then have "live t' (view ent w1) k = live t' (live t (view ent w)) k" by (rule live_cong)
    then show ?thesis using 2 that 1 by (simp add: live_live)
  qed
  then show ?thesis using 1 2 unfolding moved_def by (intro exI [of _ s'] exI [of _ t']) auto
qed

lemma moved_redis:
  assumes "w' = w\<lparr>rds := s\<rparr>" "\<And>k. k \<noteq> key \<Longrightarrow> ent s (now w) k = view ent w k"
  shows "moved key w w'"
proof -
  have "w' = w\<lparr>rds := s, now := now w\<rparr>" using assms(1) by simp
  moreover have "ent s (now w) k = live (now w) (view ent w) k" if "k \<noteq> key" for k
    using assms(2) [OF that] view_live [of w] by simp
  ultimately show ?thesis unfolding moved_def by blast
qed

lemma moved_call: "set (cmd_keys c) \<subseteq> {key} \<Longrightarrow> moved key w (snd (redis_call E c w))"
  by (rule moved_redis [where s = "snd (srv E c (now w) (rds w))"])
     (auto simp: call_run step_law view_def intro!: exec_frame)

lemma moved_save: "moved (lkey l) w (snd (save E l w))"
  by (auto simp: save_def map_io_state intro!: moved_call)

lemma moved_release: "moved (lkey l) w (snd (release E l w))"
proof -
  have "snd (release E l w) = snd (redis_call E (EVAL_DEL_IF_EQ (lkey l) (Raw (owner l))) w)"
    by (simp add: release_def bind_run split: prod.split sum.split)
  then show ?thesis by (simp add: moved_call)
qed

lemma moved_sleep: "0 \<le> d \<Longrightarrow> moved key w (w\<lparr>now := now w + d\<rparr>)"
  unfolding moved_def by (intro exI [of _ "rds w"] exI [of _ "now w + d"])
     (simp add: time_law [of "now w" "now w + d" "rds w"] view_def)

lemma acquireTries_moved:
  assumes "0 < ttl l" "0 \<le> delay"
  shows "n = 0 \<and> acquireTries E l delay n w = (Inr (False, l), w) \<or>
    moved (lkey l) w (snd (acquireTries E l delay n w)) \<and> (\<exists>l'. fst (acquireTries E l delay n w) = Inr (False, l)
      \<or> fst (acquireTries E l delay n w) = Inr (True, l') \<and> lkey l' = lkey l \<and> owner l' = owner l
        \<and> lock_holder (view ent (snd (acquireTries E l delay n w))) l')"
proof (induction n arbitrary: w)
  case (Suc n)
  have m: "moved (lkey l) w (snd (save E l w))" by (rule moved_save)
  show ?case
  proof (cases "view ent w (lkey l) = None")
    case True
    then have "acquireTries E l delay (Suc n) w = (Inr (True, got l (now w)), snd (save E l w))"
      by (rule acquireTries_free [OF assms(1)])
    moreover have "lock_holder (view ent (snd (save E l w))) (got l (now w))"
      using True assms(1) by (simp add: save_view lock_holder_def)
    ultimately show ?thesis using m by auto
  next
    case False
    define w1 where "w1 = snd (save E l w)"
    have s: "save E l w = (Inr False, w1)" using assms(1) False by (simp add: w1_def save_run)
    show ?thesis
    proof (cases "n = 0")
      case True
      then have "acquireTries E l delay (Suc n) w = (Inr (False, l), w1)" by (simp add: io_simps s)
      then show ?thesis using m w1_def by auto
    next
      case n: False
      define w2 where "w2 = w1\<lparr>now := now w1 + delay\<rparr>"
      have a: "acquireTries E l delay (Suc n) w = acquireTries E l delay n w2"
        using n by (simp add: io_simps s w2_def)
      have "moved (lkey l) w w2"
        using moved_trans [OF m moved_sleep [OF assms(2)]] by (simp add: w1_def w2_def)
      moreover from Suc.IH [of w2] n have "moved (lkey l) w2 (snd (acquireTries E l delay n w2))" by auto
      ultimately have "moved (lkey l) w (snd (acquireTries E l delay n w2))" by (rule moved_trans)
      then show ?thesis using Suc.IH [of w2] n unfolding a by auto
    qed
  qed
qed simp

text \<open>
  A section whose callback does not touch Redis or the clock ends as its callback ends, or could
  not be entered.
\<close>

lemma withLockN_triple:
  assumes "0 < ttl (newLock key own t)" "0 \<le> delay"
    and st: "lock_stable key P" "\<And>x. lock_stable key (Q x)" "\<And>e. lock_stable key (R e)"
    and cb: "\<And>w. P w \<Longrightarrow> rds (snd (cb w)) = rds w \<and> now (snd (cb w)) = now w" "triple P cb Q R"
  shows "triple P (withLockN E own key t n delay cb) Q (\<lambda>e w. R e w \<or> P w)"
proof -
  let ?l = "newLock key own t"
  have "case withLockN E own key t n delay cb w of (Inr x, w') \<Rightarrow> Q x w' | (Inl e, w') \<Rightarrow> R e w' \<or> P w'"
    if P: "P w" for w
  proof -
    obtain r w1 where a: "acquireTries E ?l delay n w = (r, w1)" by (cases "acquireTries E ?l delay n w")
    from acquireTries_moved [OF assms(1,2), of n w] have m: "w1 = w \<or> moved key w w1"
      and r: "r = Inr (False, ?l) \<or> (\<exists>l'. r = Inr (True, l') \<and> lkey l' = key \<and> owner l' = own \<and> lock_holder (view ent w1) l')"
      by (auto simp: a)
    from m have P1: "P w1" using P st(1) lock_stableD by blast
    from r show ?thesis
    proof
      assume "r = Inr (False, ?l)"
      then show ?thesis using P1 by (simp add: withLockN_def io_simps a)
    next
      assume "\<exists>l'. r = Inr (True, l') \<and> lkey l' = key \<and> owner l' = own \<and> lock_holder (view ent w1) l'"
      then obtain l' where l': "r = Inr (True, l')" "lkey l' = key" "lock_holder (view ent w1) l'" by auto
      obtain v w2 where c: "cb w1 = (v, w2)" by (cases "cb w1")
      with cb(1) [OF P1] have "view ent w2 = view ent w1" by (simp add: view_def)
      then have h: "lock_holder (view ent w2) l'" using l' by simp
      obtain w3 where g: "release E l' w2 = (Inr (), w3)"
        using release_run [of w2 l'] h by (auto simp: lock_holder_def)
      have "moved key w2 w3" using moved_release [of l' w2] g l' by simp
      moreover have "case v of Inr x \<Rightarrow> Q x w2 | Inl e \<Rightarrow> R e w2"
        using cb(2) P1 c by (cases v) (auto simp: triple_def dest!: spec [of _ w1])
      ultimately show ?thesis
        using lock_stableD [OF st(2)] lock_stableD [OF st(3)] l'
        by (cases v) (auto simp: withLockN_def io_simps a c g)
    qed
  qed
  then show ?thesis by (intro tripleI) fastforce+
qed

text \<open>Whatever the callback does to the lock, the section ends in what holds after the callback.\<close>

lemma withLockN_post:
  assumes "0 < ttl (newLock key own t)" "0 \<le> delay" "lock_stable key P" "lock_stable key Q"
    and cb: "\<And>w. P w \<Longrightarrow> Q (snd (cb w))" and idle: "\<And>w. P w \<Longrightarrow> Q w"
    and "P w"
  shows "Q (snd (withLockN E own key t n delay cb w))"
proof -
  let ?l = "newLock key own t"
  obtain r w1 where a: "acquireTries E ?l delay n w = (r, w1)" by (cases "acquireTries E ?l delay n w")
  from acquireTries_moved [OF assms(1,2), of n w] have m: "w1 = w \<or> moved key w w1"
    and r: "r = Inr (False, ?l) \<or> (\<exists>l'. r = Inr (True, l') \<and> lkey l' = key)"
    by (auto simp: a)
  from m have P1: "P w1" using assms(3,7) lock_stableD by blast
  from r show ?thesis
  proof
    assume "r = Inr (False, ?l)"
    then show ?thesis using idle [OF P1] by (simp add: withLockN_def io_simps a)
  next
    assume "\<exists>l'. r = Inr (True, l') \<and> lkey l' = key"
    then obtain l' where l': "r = Inr (True, l')" "lkey l' = key" by auto
    have "moved key (snd (cb w1)) (snd (release E l' (snd (cb w1))))" using moved_release [of l'] l' by simp
    then have "Q (snd (release E l' (snd (cb w1))))" using cb [OF P1] assms(4) lock_stableD by blast
    then show ?thesis
      using l' by (simp add: withLockN_def io_simps a split: prod.split sum.split) (metis snd_conv)
  qed
qed

lemma keeps_withLockN:
  assumes "0 < ttl (newLock key own t)" "0 \<le> delay" "lock_stable key I" "keeps I cb"
  shows "keeps I (withLockN E own key t n delay cb)"
  unfolding keeps_def using withLockN_post [OF assms(1-3,3)] assms(4) unfolding keeps_def by blast

text \<open>When the key is free the first attempt succeeds.\<close>

lemma withLockN_free:
  fixes w :: "('s, 'm) base_scheme"
  assumes "0 < ttl (newLock key own t)" "view ent w key = None"
    and cb: "\<And>w1. moved key w w1 \<Longrightarrow> rds (snd (cb w1)) = rds w1 \<and> now (snd (cb w1)) = now w1"
  obtains w1 w2 where "moved key w w1" "now w1 = now w" "withLockN E own key t (Suc n) delay cb w = (fst (cb w1), w2)"
    "moved key (snd (cb w1)) w2" "view ent w2 key = None" "now w2 = now w"
proof -
  let ?l = "newLock key own t"
  define w1 where "w1 = snd (save E ?l w)"
  have a: "acquireTries E ?l delay (Suc n) w = (Inr (True, got ?l (now w)), w1)"
    unfolding w1_def by (rule acquireTries_free [OF assms(1)]) (simp add: assms(2))
  have m: "moved key w w1" using moved_save [of ?l w] by (simp add: w1_def)
  have n1: "now w1 = now w" unfolding w1_def by simp
  obtain v w2 where c: "cb w1 = (v, w2)" by (cases "cb w1")
  have h: "lock_holder (view ent w1) (got ?l (now w))"
    using assms(1,2) by (simp add: w1_def save_view lock_holder_def)
  have w2: "rds w2 = rds w1" "now w2 = now w1" using cb [OF m] c by simp_all
  then have "view ent w2 = view ent w1" by (simp add: view_def)
  with h have h2: "lock_holder (view ent w2) (got ?l (now w))" by simp
  obtain w3 where g: "release E (got ?l (now w)) w2 = (Inr (), w3)"
    using release_run [of w2 "got ?l (now w)"] h2 by (auto simp: lock_holder_def)
  have "moved key w2 w3" using moved_release [of "got ?l (now w)" w2] g by simp
  moreover have "view ent w3 key = None" using release_view [of "got ?l (now w)" w2] h2 g by simp
  moreover have "now w3 = now w" using release_now [of "got ?l (now w)" w2] g w2 n1 by simp
  moreover have "withLockN E own key t (Suc n) delay cb w = (v, w3)"
    unfolding withLockN_def using a by (simp add: io_simps c g del: acquireTries.simps)
  ultimately show thesis using that [OF m n1] c by simp
qed

lemma withLockW_free:
  assumes "view ent w key = None"
  shows "withLock E own key None None None cb w = Some (withLockW E (Suc n) own key cb w)"
proof -
  let ?l = "newLock key own None"
  have a: "acquireTries E ?l 250 (Suc n) w = (Inr (True, got ?l (now w)), snd (save E ?l w))"
    by (rule acquireTries_free) (simp_all add: assms)
  have s: "save E ?l w = (Inr True, snd (save E ?l w))"
    using assms by (simp add: save_run)
  have "acquireLoop E ?l None 250 None (now w) 0 w = Some (Inr (True, got ?l (now w)), snd (save E ?l w))"
    by (subst acquireLoop.simps, subst s) simp
  then show ?thesis using a
    by (simp add: withLock_def acquire_def withLockW_def withLockN_def io_simps del: acquireTries.simps)
qed

end

section \<open>Many clients and one key\<close>

text \<open>
  The processes that compete for one key, each with its own random owner id. \<open>held c\<close> is the lock
  object of a client that has acquired and not released; a client may hold it past its lease. Each
  step is one atomic command of the server, or time passing.
\<close>

type_synonym 's clients = "('s, unit) base_scheme \<times> (string \<Rightarrow> lock option)"

inductive lock_step :: "'s redis_env \<Rightarrow> string \<Rightarrow> 's clients \<Rightarrow> 's clients \<Rightarrow> bool" for E key where
  take: "held c = None \<Longrightarrow> 0 < t \<Longrightarrow> acquireImmediately E (newLock key c (Some t)) w = (Inr (True, l), w')
    \<Longrightarrow> lock_step E key (w, held) (w', held(c \<mapsto> l))"
| miss: "held c = None \<Longrightarrow> 0 < t \<Longrightarrow> acquireImmediately E (newLock key c (Some t)) w = (Inr (False, l), w')
    \<Longrightarrow> lock_step E key (w, held) (w', held)"
| give: "held c = Some l \<Longrightarrow> release E l w = (r, w') \<Longrightarrow> lock_step E key (w, held) (w', held(c := None))"
| renew: "held c = Some l \<Longrightarrow> 0 < t \<Longrightarrow> extend E l (Some t) w = (Inr l', w')
    \<Longrightarrow> lock_step E key (w, held) (w', held(c \<mapsto> l'))"
| renew_fails: "held c = Some l \<Longrightarrow> 0 < t \<Longrightarrow> extend E l (Some t) w = (Inl e, w')
    \<Longrightarrow> lock_step E key (w, held) (w', held)"
| tick: "0 \<le> d \<Longrightarrow> lock_step E key (w, held) (w\<lparr>now := now w + d\<rparr>, held)"

text \<open>Every client that still has time on its lease is the one the server's key names.\<close>

definition leases :: "('s \<Rightarrow> int \<Rightarrow> keyspace) \<Rightarrow> string \<Rightarrow> 's clients \<Rightarrow> bool" where
  "leases ent key c \<longleftrightarrow> (case c of (w, held) \<Rightarrow> \<forall>c l. held c = Some l \<longrightarrow>
     lkey l = key \<and> owner l = c \<and> (\<exists>x. expirationTime l = Some x \<and>
       (now w < x \<longrightarrow> view ent w key = Some (RStr (Raw c), Some x))))"

lemma leasesD:
  "leases ent key (w, held) \<Longrightarrow> held c = Some l \<Longrightarrow> lkey l = key \<and> owner l = c \<and>
     (\<exists>x. expirationTime l = Some x \<and> (now w < x \<longrightarrow> view ent w key = Some (RStr (Raw c), Some x)))"
  by (auto simp: leases_def)

context redis_server
begin

lemma acquireImmediately_run:
  assumes "0 < ttl l"
  shows "acquireImmediately E l w = (Inr (if view ent w (lkey l) = None then (True, got l (now w)) else (False, l)),
    snd (save E l w))"
  using assms by (simp add: acquireImmediately_def io_simps save_run)

lemma extend_run:
  assumes "0 < t"
  shows "extend E l (Some t) w = (if lock_holder (view ent w) l
      then (Inr (l\<lparr>expirationTime := Some (now w + t)\<rparr>), snd (redis_call E (EVAL_PEXPIRE_IF_EQ (lkey l) (Raw (owner l)) t) w))
      else (Inl (if the_str (view ent w) (lkey l) = None then (case reply_value wrongtype of Inl e \<Rightarrow> e | Inr _ \<Rightarrow> LockNotOwned) else LockNotOwned),
        snd (redis_call E (EVAL_PEXPIRE_IF_EQ (lkey l) (Raw (owner l)) t) w)))"
  using assms by (auto simp: extend_def run lock_holder_def wrongtype_def split: option.splits)

lemma pexpire_view:
  assumes "0 < t"
  shows "view ent (snd (redis_call E (EVAL_PEXPIRE_IF_EQ (lkey l) (Raw (owner l)) t) w))
    = (if lock_holder (view ent w) l then set_deadline (lkey l) (now w + t) (view ent w) else view ent w)"
  using assms by (auto simp: view_call lock_holder_def split: option.splits)

lemma leases_step: "lock_step E key c c' \<Longrightarrow> leases ent key c \<Longrightarrow> leases ent key c'"
proof (induction rule: lock_step.induct)
  case (take held c t w l w')
  let ?l = "newLock key c (Some t)"
  have ok: "view ent w key = None" "l = got ?l (now w)" "w' = snd (save E ?l w)"
    using take by (auto simp: acquireImmediately_run split: if_splits)
  have "view ent w' key = Some (RStr (Raw c), Some (now w + t))" "now w' = now w"
    using ok take by (simp_all add: save_view)
  with ok take show ?case
    by (fastforce simp: leases_def got_def)
next
  case (miss held c t w l w')
  then have "view ent w' = view ent w" "now w' = now w"
    using save_view [of "newLock key c (Some t)" w] by (auto simp: acquireImmediately_run split: if_splits)
  with miss show ?case by (simp add: leases_def)
next
  case (give held c l w r w')
  have l: "lkey l = key" "owner l = c" using leasesD [OF give(3,1)] by auto
  have "view ent w' = (if lock_holder (view ent w) l then (view ent w)(key := None) else view ent w)"
    "now w' = now w"
    using give(2) l release_view [of l w] release_now [of l w] by auto
  with give(3) l show ?case
    by (fastforce simp: leases_def lock_holder_def the_str_Some)
next
  case (renew held c l t w l' w')
  have l: "lkey l = key" "owner l = c" using leasesD [OF renew(4,1)] by auto
  have h: "lock_holder (view ent w) l" "l' = l\<lparr>expirationTime := Some (now w + t)\<rparr>"
    "w' = snd (redis_call E (EVAL_PEXPIRE_IF_EQ (lkey l) (Raw (owner l)) t) w)"
    using renew(2,3) by (auto simp: extend_run split: if_splits)
  then have v: "view ent w' = set_deadline key (now w + t) (view ent w)" "now w' = now w"
    using pexpire_view [OF renew(2), of l w] l by (simp_all add: call_run)
  obtain d where d: "view ent w key = Some (RStr (Raw c), d)"
    using h(1) l by (auto simp: lock_holder_def the_str_def split: option.splits rval.splits)
  with renew(4) l h(2) v show ?case
    by (fastforce simp: leases_def set_deadline_def)
next
  case (renew_fails held c l t w e w')
  then have "view ent w' = view ent w" "now w' = now w"
    using pexpire_view [OF renew_fails(2), of l w] by (auto simp: extend_run call_run split: if_splits)
  with renew_fails(4) show ?case by (simp add: leases_def)
next
  case (tick d w held)
  have v: "view ent (w\<lparr>now := now w + d\<rparr>) = live (now w + d) (view ent w)"
    using tick by (simp add: view_later)
  show ?case
    unfolding leases_def prod.case
  proof (intro allI impI)
    fix c l assume "held c = Some l"
    from leasesD [OF tick(2) this] tick(1) v
    show "lkey l = key \<and> owner l = c \<and> (\<exists>x. expirationTime l = Some x \<and>
      (now (w\<lparr>now := now w + d\<rparr>) < x \<longrightarrow>
        view ent (w\<lparr>now := now w + d\<rparr>) key = Some (RStr (Raw c), Some x)))"
      by (auto simp: live_until)
  qed
qed

lemma leases_reachable: "(lock_step E key)\<^sup>*\<^sup>* (w0, \<lambda>_. None) c \<Longrightarrow> leases ent key c"
proof (induction rule: rtranclp_induct)
  case base
  show ?case by (simp add: leases_def)
next
  case (step c c')
  then show ?case by (simp add: leases_step)
qed

end

section \<open>Properties\<close>



text \<open>
  C35: acquiring without a retry count against a lease with a deadline returns, with the lock,
  before one retry delay past that deadline (when nobody else takes it meanwhile); against a
  key with no deadline it never returns.
\<close>

theorem acquire_without_count:
  assumes "redis_server E ent" and "0 < ttl l" and "view ent w (lkey l) = Some (v, d)"
  shows "case d of
      Some x \<Rightarrow> \<exists>w'. acquire E l None None None w = Some (Inr (True, got (l\<lparr>expirationTime := None\<rparr>) (now w')), w')
        \<and> x \<le> now w' \<and> now w' < x + 250
    | None \<Rightarrow> acquire E l None None None w = None"
  using redis_server.acquireLoop_waits [OF assms(1), of "l\<lparr>expirationTime := None\<rparr>" 250 w v]
    redis_server.acquireLoop_persistent [OF assms(1), of "l\<lparr>expirationTime := None\<rparr>" 250 w v] assms(2,3)
  by (auto simp: acquire_def split: option.split)

lemma acquire_without_count_witness:
  "\<exists>w'. acquire (ks_env ''p'') (newLock ''k'' ''a'' None) None None None
      \<lparr>rds = [''k'' \<mapsto> (RStr (Raw ''b''), Some 700)], now = 0\<rparr>
      = Some (Inr (True, got (newLock ''k'' ''a'' None) (now w')), w') \<and> 700 \<le> now w' \<and> now w' < 950"
  using acquire_without_count [OF ks.redis_server_axioms, of "newLock ''k'' ''a'' None"
      "\<lparr>rds = [''k'' \<mapsto> (RStr (Raw ''b''), Some 700)], now = 0\<rparr>" "RStr (Raw ''b'')" "Some 700" "''p''"]
  by (simp add: view_def ks_ent_def live_def)

text \<open>
  With a retry count \<^verbatim>\<open>withLock\<close> always returns, and is the total program the handlers run:
  at most that many attempts, the callback only under the lock, the lock given back at the end.
\<close>

theorem withLock_returns:
  "withLock E own key t (Some (int n)) delay callback w
    = Some (withLockN E own key t n (case delay of None \<Rightarrow> 250 | Some d \<Rightarrow> d) callback w)"
  by (rule withLock_total)

end
