(* ===== verification/Repository.thy ===== *)
theory Repository
  imports Redis
begin

text \<open>
  The PostgreSQL tables and \<^verbatim>\<open>BaseRepository\<close> (\<^verbatim>\<open>src/database/base/base.repository.ts\<close>). A table
  is a list of rows in a field of the state, the row updated last at the head (\<^verbatim>\<open>findSync\<close> orders by
  \<^verbatim>\<open>updated_at\<close> descending); a \<open>table\<close> names the field and the id column. Every statement consults
  \<open>faults\<close>, the schedule of database failures: an error in it makes the statement throw without
  effect, so every theorem holds for every point at which the database may fail.
  \<open>transaction\<close> undoes the tables, and neither Redis nor the clock, when its callback throws; the calls
  made to collaborators (\<open>outbox\<close>) and the random values drawn (\<open>draws\<close>) are not undone either.
  The locale \<open>row_store\<close> is what the clients rely on; each component interprets it on its tables.
\<close>

section \<open>Statements\<close>

record 's dbase = "'s base" +
  faults :: "exn option list"
  outbox :: "(string \<times> json) list"
  draws :: nat

definition db_step :: "(('s, 'm) dbase_scheme, unit) io" where
  "db_step = (\<lambda>w. case faults w of
      [] \<Rightarrow> (Inr (), w)
    | None # fs \<Rightarrow> (Inr (), w\<lparr>faults := fs\<rparr>)
    | Some e # fs \<Rightarrow> (Inl e, w\<lparr>faults := fs\<rparr>))"

text \<open>
  A call of a collaborator outside the repository, or of a service that is not modelled: the answer
  depends on everything called before, and the call is put in the \<open>outbox\<close>. \<open>emit\<close> is an event or
  message nobody waits for. \<open>draw\<close> is a fresh random value.
\<close>

type_synonym collaborators = "(string \<times> json) list \<Rightarrow> string \<Rightarrow> json \<Rightarrow> exn + json"

definition call_ext :: "collaborators \<Rightarrow> string \<Rightarrow> json \<Rightarrow> (('s, 'm) dbase_scheme, json) io" where
  "call_ext X name p = (\<lambda>w. (X (outbox w) name p, w\<lparr>outbox := (name, p) # outbox w\<rparr>))"

definition emit :: "string \<Rightarrow> json \<Rightarrow> (('s, 'm) dbase_scheme, unit) io" where
  "emit name p = modify (\<lambda>w. w\<lparr>outbox := (name, p) # outbox w\<rparr>)"

definition draw :: "(nat \<Rightarrow> string) \<Rightarrow> (('s, 'm) dbase_scheme, string) io" where
  "draw fresh = (\<lambda>w. (Inr (fresh (draws w)), w\<lparr>draws := Suc (draws w)\<rparr>))"

record ('r, 'w) table =
  rows_of :: "'w \<Rightarrow> 'r list"
  set_rows :: "'r list \<Rightarrow> 'w \<Rightarrow> 'w"
  row_id :: "'r \<Rightarrow> string"

definition undefined_row :: exn where
  "undefined_row = PlainError ''Cannot read properties of undefined''"

definition replace_row :: "('r \<Rightarrow> string) \<Rightarrow> string \<Rightarrow> 'r \<Rightarrow> 'r list \<Rightarrow> 'r list" where
  "replace_row rid i r rs = r # filter (\<lambda>x. rid x \<noteq> i) rs"

section \<open>BaseRepository\<close>

text \<open>Identifiers are primary keys: an insert with one that is taken is refused.\<close>

definition repo_create :: "('r, ('s, 'm) dbase_scheme) table \<Rightarrow> 'r \<Rightarrow> (('s, 'm) dbase_scheme, 'r) io" where
  "repo_create T r = andthen db_step (bind get_state (\<lambda>w.
     if row_id T r \<in> row_id T ` set (rows_of T w) then throw (UniqueViolation ''pkey'')
     else andthen (modify (\<lambda>w. set_rows T (r # rows_of T w) w)) (ret r)))"

definition repo_findSync :: "('r, ('s, 'm) dbase_scheme) table \<Rightarrow> ('r \<Rightarrow> bool) \<Rightarrow> (('s, 'm) dbase_scheme, 'r list) io" where
  "repo_findSync T P = andthen db_step (bind get_state (\<lambda>w. ret (filter P (rows_of T w))))"

definition repo_findOne :: "('r, ('s, 'm) dbase_scheme) table \<Rightarrow> ('r \<Rightarrow> bool) \<Rightarrow> (('s, 'm) dbase_scheme, 'r option) io" where
  "repo_findOne T P = andthen db_step (bind get_state (\<lambda>w. ret (List.find P (rows_of T w))))"

definition repo_findById :: "('r, ('s, 'm) dbase_scheme) table \<Rightarrow> string \<Rightarrow> (('s, 'm) dbase_scheme, 'r option) io" where
  "repo_findById T i = repo_findOne T (\<lambda>r. row_id T r = i)"

text \<open>With a graph to fetch, a missing row is a \<^verbatim>\<open>TypeError\<close>.\<close>

definition repo_findById_graph :: "('r, ('s, 'm) dbase_scheme) table \<Rightarrow> string \<Rightarrow> (('s, 'm) dbase_scheme, 'r) io" where
  "repo_findById_graph T i = bind (repo_findById T i) (\<lambda>r. case r of
     None \<Rightarrow> throw undefined_row | Some x \<Rightarrow> ret x)"

text \<open>\<^verbatim>\<open>update(id, data)\<close>: \<^verbatim>\<open>patchAndFetchById\<close>, which gives undefined when no row has the id.\<close>

definition repo_update_id :: "('r, ('s, 'm) dbase_scheme) table \<Rightarrow> string \<Rightarrow> ('r \<Rightarrow> 'r) \<Rightarrow> (('s, 'm) dbase_scheme, 'r option) io" where
  "repo_update_id T i f = andthen db_step (bind get_state (\<lambda>w.
     case List.find (\<lambda>r. row_id T r = i) (rows_of T w) of
       None \<Rightarrow> ret None
     | Some r \<Rightarrow> andthen (modify (\<lambda>w. set_rows T (replace_row (row_id T) i (f r) (rows_of T w)) w)) (ret (Some (f r)))))"

text \<open>\<^verbatim>\<open>update(filter, data)\<close>: the first match is fetched, then patched.\<close>

definition repo_update_where :: "('r, ('s, 'm) dbase_scheme) table \<Rightarrow> ('r \<Rightarrow> bool) \<Rightarrow> ('r \<Rightarrow> 'r) \<Rightarrow> (('s, 'm) dbase_scheme, 'r) io" where
  "repo_update_where T P f = bind (repo_findOne T P) (\<lambda>r. case r of
      None \<Rightarrow> throw undefined_row
    | Some x \<Rightarrow> bind (repo_update_id T (row_id T x) f) (\<lambda>y. case y of
        None \<Rightarrow> throw undefined_row | Some z \<Rightarrow> ret z))"

definition repo_delete :: "('r, ('s, 'm) dbase_scheme) table \<Rightarrow> string \<Rightarrow> (('s, 'm) dbase_scheme, int) io" where
  "repo_delete T i = andthen db_step (bind get_state (\<lambda>w.
     andthen (modify (\<lambda>w. set_rows T (filter (\<lambda>r. row_id T r \<noteq> i) (rows_of T w)) w))
     (ret (int (length (filter (\<lambda>r. row_id T r = i) (rows_of T w)))))))"

definition rollback :: "('s, 'm) dbase_scheme \<Rightarrow> ('s, 'm) dbase_scheme \<Rightarrow> ('s, 'm) dbase_scheme" where
  "rollback w w' = w\<lparr>rds := rds w', now := now w', faults := faults w', outbox := outbox w', draws := draws w'\<rparr>"

definition transaction :: "(('s, 'm) dbase_scheme, 'a) io \<Rightarrow> (('s, 'm) dbase_scheme, 'a) io" where
  "transaction m = (\<lambda>w. case bind m (\<lambda>x. andthen db_step (ret x)) w of
      (Inl e, w') \<Rightarrow> (Inl e, rollback w w')
    | (Inr x, w') \<Rightarrow> (Inr x, w'))"

section \<open>Pages\<close>

record 'r page =
  records :: "'r list"
  current_page :: nat
  next_page :: nat
  previous_page :: nat
  page_limit :: nat
  page_count :: nat
  total :: nat

text \<open>
  \<^verbatim>\<open>findAll\<close> on the matching rows: \<open>page\<close> and \<open>limit\<close> as the caller gave them (1 and
  \<^verbatim>\<open>NO_OF_LIMITED_QUERIES\<close> otherwise). A limit of 0 fetches nothing and counts with the default.
\<close>

definition NO_OF_LIMITED_QUERIES :: nat where
  "NO_OF_LIMITED_QUERIES = 10"

definition fetch_page :: "'r list \<Rightarrow> nat \<Rightarrow> nat \<Rightarrow> 'r list" where
  "fetch_page matching sz pg = take sz (drop (if pg = 0 then 0 else sz * (pg - 1)) matching)"

definition paginateData :: "'r list \<Rightarrow> nat \<Rightarrow> nat \<Rightarrow> 'r page" where
  "paginateData matching sz0 currentPage =
    (let tot = length matching;
         sz = (if sz0 = 0 then NO_OF_LIMITED_QUERIES else sz0);
         pageCount = (tot + sz - 1) div sz
     in \<lparr>records = fetch_page matching sz0 currentPage, current_page = currentPage,
         next_page = (if pageCount \<le> currentPage then 0 else currentPage + 1),
         previous_page = (if currentPage = 1 then 0 else currentPage - 1),
         page_limit = sz, page_count = pageCount, total = tot\<rparr>)"

definition findAll :: "('r, ('s, 'm) dbase_scheme) table \<Rightarrow> ('r \<Rightarrow> bool) \<Rightarrow> nat option \<Rightarrow> nat option
    \<Rightarrow> (('s, 'm) dbase_scheme, 'r page) io" where
  "findAll T P pg sz = bind (repo_findSync T P) (\<lambda>matching.
     ret (paginateData matching (case sz of None \<Rightarrow> NO_OF_LIMITED_QUERIES | Some l \<Rightarrow> l)
       (case pg of None \<Rightarrow> 1 | Some p \<Rightarrow> p)))"

section \<open>What the statements do\<close>

lemma call_ext_run [io_simps]: "call_ext X name p w = (X (outbox w) name p, w\<lparr>outbox := (name, p) # outbox w\<rparr>)"
  by (simp add: call_ext_def)

lemma emit_run [io_simps, simp]: "emit name p w = (Inr (), w\<lparr>outbox := (name, p) # outbox w\<rparr>)"
  by (simp add: emit_def)

lemma draw_run [io_simps, simp]: "draw fresh w = (Inr (fresh (draws w)), w\<lparr>draws := Suc (draws w)\<rparr>)"
  by (simp add: draw_def)

lemma db_step_run [io_simps]: "db_step w = (case faults w of
      [] \<Rightarrow> (Inr (), w) | None # fs \<Rightarrow> (Inr (), w\<lparr>faults := fs\<rparr>) | Some e # fs \<Rightarrow> (Inl e, w\<lparr>faults := fs\<rparr>))"
  by (simp add: db_step_def)

lemma db_step_now [simp]: "now (snd (db_step w)) = now w" "rds (snd (db_step w)) = rds w"
  by (simp_all add: db_step_def split: list.split option.split)

lemma db_step_calm [simp]: "faults w = [] \<Longrightarrow> db_step w = (Inr (), w)"
  by (simp add: db_step_def)

lemma db_step_cases: obtains v fs where "db_step w = (v, w\<lparr>faults := fs\<rparr>)"
proof (cases "faults w")
  case Nil
  then have "db_step w = (Inr (), w\<lparr>faults := faults w\<rparr>)" by simp
  then show ?thesis by (rule that)
next
  case (Cons a fs)
  then show ?thesis using that by (cases a) (auto simp: db_step_def)
qed

lemma rollback_simps [simp]:
  "rds (rollback w w') = rds w'" "now (rollback w w') = now w'" "faults (rollback w w') = faults w'"
  "outbox (rollback w w') = outbox w'" "draws (rollback w w') = draws w'"
  by (simp_all add: rollback_def)

text \<open>A transaction that throws leaves every table as it was.\<close>

lemma transaction_aborts:
  "fst (transaction m w) = Inl e \<Longrightarrow> \<exists>w'. snd (transaction m w) = rollback w w'"
  by (auto simp: transaction_def split: prod.splits sum.splits)

lemma transaction_ok:
  assumes "transaction m w = (Inr x, w')"
  obtains w2 fs where "m w = (Inr x, w2)" "w' = w2\<lparr>faults := fs\<rparr>"
proof -
  obtain v w2 where m: "m w = (v, w2)" by (cases "m w")
  obtain d fs where d: "db_step w2 = (d, w2\<lparr>faults := fs\<rparr>)" by (rule db_step_cases)
  show ?thesis using assms m d that by (cases v; cases d) (auto simp: transaction_def bind_run andthen_run)
qed

lemma transaction_calm:
  assumes "m w = (Inr x, w')" "faults w' = []"
  shows "transaction m w = (Inr x, w')"
  using assms by (simp add: transaction_def io_simps)

lemma transaction_throws:
  assumes "m w = (Inl e, w')"
  shows "transaction m w = (Inl e, rollback w w')"
  using assms by (simp add: transaction_def io_simps)

text \<open>A table whose field is a real field: what was set is read, and nothing else changes.\<close>

locale row_store =
  fixes T :: "('r, ('s, 'm) dbase_scheme) table"
  assumes get_set: "rows_of T (set_rows T rs w) = rs"
    and set_set: "set_rows T rs (set_rows T rs' w) = set_rows T rs w"
    and set_get: "set_rows T (rows_of T w) w = w"
    and set_frame: "rds (set_rows T rs w) = rds w" "now (set_rows T rs w) = now w" "faults (set_rows T rs w) = faults w"
      "outbox (set_rows T rs w) = outbox w" "draws (set_rows T rs w) = draws w"
    and get_frame: "rows_of T (w\<lparr>rds := x\<rparr>) = rows_of T w" "rows_of T (w\<lparr>now := t\<rparr>) = rows_of T w"
      "rows_of T (w\<lparr>faults := fs\<rparr>) = rows_of T w" "rows_of T (w\<lparr>outbox := xs\<rparr>) = rows_of T w"
      "rows_of T (w\<lparr>draws := n\<rparr>) = rows_of T w"
begin

lemma step_rows [simp]: "rows_of T (snd (db_step w)) = rows_of T w"
  by (simp add: db_step_def get_frame split: list.split option.split)

lemma rollback_rows [simp]: "rows_of T (rollback w w') = rows_of T w"
  by (simp add: rollback_def get_frame)

text \<open>The statements at any point at which the database may fail.\<close>

lemma findOne_cases:
  obtains e fs where "repo_findOne T P w = (Inl e, w\<lparr>faults := fs\<rparr>)"
  | fs where "repo_findOne T P w = (Inr (List.find P (rows_of T w)), w\<lparr>faults := fs\<rparr>)"
proof -
  obtain v fs where "db_step w = (v, w\<lparr>faults := fs\<rparr>)" by (rule db_step_cases)
  then show ?thesis using that by (cases v) (auto simp: repo_findOne_def andthen_run get_frame)
qed

lemma findOne_state: "\<exists>fs. snd (repo_findOne T P w) = w\<lparr>faults := fs\<rparr>"
  by (rule findOne_cases [of P w]) auto

lemma update_id_cases:
  obtains e fs where "repo_update_id T i f w = (Inl e, w\<lparr>faults := fs\<rparr>)"
  | fs where "List.find (\<lambda>r. row_id T r = i) (rows_of T w) = None" "repo_update_id T i f w = (Inr None, w\<lparr>faults := fs\<rparr>)"
  | r fs where "List.find (\<lambda>r. row_id T r = i) (rows_of T w) = Some r"
      "repo_update_id T i f w = (Inr (Some (f r)), set_rows T (replace_row (row_id T) i (f r) (rows_of T w)) (w\<lparr>faults := fs\<rparr>))"
proof -
  obtain v fs where d: "db_step w = (v, w\<lparr>faults := fs\<rparr>)" by (rule db_step_cases)
  then show ?thesis using that
    by (cases v; cases "List.find (\<lambda>r. row_id T r = i) (rows_of T w)")
       (auto simp: repo_update_id_def andthen_run get_frame)
qed

lemma create_cases:
  obtains e fs where "repo_create T r w = (Inl e, w\<lparr>faults := fs\<rparr>)"
  | fs where "row_id T r \<notin> row_id T ` set (rows_of T w)"
      "repo_create T r w = (Inr r, set_rows T (r # rows_of T w) (w\<lparr>faults := fs\<rparr>))"
proof -
  obtain v fs where "db_step w = (v, w\<lparr>faults := fs\<rparr>)" by (rule db_step_cases)
  then show ?thesis using that
    by (cases v; cases "row_id T r \<in> row_id T ` set (rows_of T w)") (simp_all add: repo_create_def andthen_run get_frame)
qed

lemma create_calm: "faults w = [] \<Longrightarrow> row_id T r \<notin> row_id T ` set (rows_of T w)
    \<Longrightarrow> repo_create T r w = (Inr r, set_rows T (r # rows_of T w) w)"
  by (simp add: repo_create_def io_simps)

lemma findOne_calm: "faults w = [] \<Longrightarrow> repo_findOne T P w = (Inr (List.find P (rows_of T w)), w)"
  by (simp add: repo_findOne_def io_simps)

lemma findById_calm: "faults w = [] \<Longrightarrow>
    repo_findById T i w = (Inr (List.find (\<lambda>r. row_id T r = i) (rows_of T w)), w)"
  by (simp add: repo_findById_def findOne_calm)

lemma update_id_calm: "faults w = [] \<Longrightarrow>
    repo_update_id T i f w = (case List.find (\<lambda>r. row_id T r = i) (rows_of T w) of
      None \<Rightarrow> (Inr None, w)
    | Some r \<Rightarrow> (Inr (Some (f r)), set_rows T (replace_row (row_id T) i (f r) (rows_of T w)) w))"
  by (simp add: repo_update_id_def io_simps split: option.split)

lemma delete_calm: "faults w = [] \<Longrightarrow> repo_delete T i w
    = (Inr (int (length (filter (\<lambda>r. row_id T r = i) (rows_of T w)))),
       set_rows T (filter (\<lambda>r. row_id T r \<noteq> i) (rows_of T w)) w)"
  by (simp add: repo_delete_def io_simps)

text \<open>Reading never changes the table, whatever the faults.\<close>

lemma findOne_rows [simp]: "rows_of T (snd (repo_findOne T P w)) = rows_of T w"
  by (simp add: repo_findOne_def io_simps get_frame split: list.split option.split)

text \<open>
  A row written is the row found: after \<open>create\<close> or \<open>update\<close> a lookup by its id gives it, and
  lookups of other ids are as before.
\<close>

lemma create_find:
  assumes "faults w = []" "row_id T r \<notin> row_id T ` set (rows_of T w)"
  shows "fst (bind (repo_create T r) (\<lambda>_. repo_findById T i) w)
    = Inr (if row_id T r = i then Some r else List.find (\<lambda>x. row_id T x = i) (rows_of T w))"
  using assms by (simp add: bind_run create_calm findById_calm set_frame get_set)

lemma update_find:
  assumes "faults w = []" "\<And>r. row_id T (f r) = row_id T r"
  shows "fst (bind (repo_update_id T i f) (\<lambda>_. repo_findById T j) w)
    = Inr (if j = i then map_option f (List.find (\<lambda>x. row_id T x = i) (rows_of T w))
        else List.find (\<lambda>x. row_id T x = j) (rows_of T w))"
proof -
  have other: "List.find (\<lambda>x. row_id T x = j) (filter (\<lambda>x. row_id T x \<noteq> i) rs) = List.find (\<lambda>x. row_id T x = j) rs"
    if "j \<noteq> i" for rs
    using that by (induction rs) auto
  show ?thesis
  proof (cases "List.find (\<lambda>x. row_id T x = i) (rows_of T w)")
    case None
    then show ?thesis using assms by (simp add: bind_run update_id_calm findById_calm)
  next
    case (Some r)
    then have "row_id T (f r) = i" using assms(2) find_Some_in by fastforce
    with Some show ?thesis
      using assms other by (simp add: bind_run update_id_calm findById_calm set_frame get_set replace_row_def)
  qed
qed

end

section \<open>Paging\<close>

lemma pages_prefix:
  assumes "0 < sz"
  shows "concat (map (fetch_page xs sz) [1..<Suc n]) = take (sz * n) xs"
proof (induction n)
  case (Suc n)
  have u: "[1..<Suc (Suc n)] = [1..<Suc n] @ [Suc n]" by simp
  have "sz * Suc n = sz * n + sz" by simp
  then have "take (sz * Suc n) xs = take (sz * n) xs @ take sz (drop (sz * n) xs)" by (simp only: take_add)
  with Suc show ?case unfolding u by (simp add: fetch_page_def del: upt_Suc mult_Suc_right)
qed simp

lemma page_count_covers:
  assumes "0 < sz"
  shows "length xs \<le> sz * ((length xs + sz - 1) div sz)"
proof -
  have "length xs + sz - 1 = sz * ((length xs + sz - 1) div sz) + (length xs + sz - 1) mod sz" by simp
  moreover have "(length xs + sz - 1) mod sz < sz" using assms by simp
  ultimately show ?thesis using assms by linarith
qed

section \<open>Properties\<close>

text \<open>
  Paging loses and repeats nothing: the pages 1 to \<open>page_count\<close> of a query, one after the other,
  are exactly the matching rows in order.
\<close>

theorem pages_partition:
  assumes "0 < sz"
  shows "concat (map (\<lambda>pg. records (paginateData matching sz pg)) [1..<Suc (page_count (paginateData matching sz 1))]) = matching"
proof -
  have "concat (map (\<lambda>pg. records (paginateData matching sz pg)) [1..<Suc (page_count (paginateData matching sz 1))])
      = concat (map (fetch_page matching sz) [1..<Suc ((length matching + sz - 1) div sz)])"
    using assms by (simp add: paginateData_def Let_def del: upt_Suc)
  also have "\<dots> = matching"
    unfolding pages_prefix [OF assms] using page_count_covers [OF assms, of matching] by (rule take_all)
  finally show ?thesis .
qed

lemma pages_partition_witness:
  "concat (map (\<lambda>pg. records (paginateData ''abcde'' 2 pg)) [1..<Suc (page_count (paginateData ''abcde'' 2 1))]) = ''abcde''"
  by (rule pages_partition) simp

end
