(* ===== verification/Currency.thy ===== *)
theory Currency
  imports Prelude
begin

text \<open>
  The supported currencies and \<^verbatim>\<open>CurrencyUtility\<close> (\<^verbatim>\<open>src/currencies/currencies.ts\<close>). Amounts in
  minor units are integers; amounts in main units, doubles in the source, are exact rationals. The
  Naira sign is written as its UTF-8 bytes. Formatting with the \<^verbatim>\<open>Intl\<close> library is not modelled.
\<close>

section \<open>The supported currencies\<close>

record currency =
  code :: string
  numericCode :: string
  name :: string
  symbol :: string
  minorUnit :: int
  country :: string
  countryCode :: string
  displayName :: string
  walletName :: string

definition USD :: currency where
  "USD = \<lparr>code = ''USD'', numericCode = ''840'', name = ''US Dollar'', symbol = [CHR 0x24], minorUnit = 100,
     country = ''United States'', countryCode = ''US'', displayName = ''USDC'', walletName = ''US Wallet''\<rparr>"

definition NGN :: currency where
  "NGN = \<lparr>code = ''NGN'', numericCode = ''566'', name = ''Nigerian Naira'', symbol = [CHR 0xE2, CHR 0x82, CHR 0xA6],
     minorUnit = 100, country = ''Nigeria'', countryCode = ''NG'', displayName = ''NGN'', walletName = ''NGN Wallet''\<rparr>"

definition SUPPORTED_CURRENCIES :: "(string \<times> currency) list" where
  "SUPPORTED_CURRENCIES = [(''USD'', USD), (''NGN'', NGN)]"

definition SUPPORTED_CURRENCY_CODES :: "string list" where
  "SUPPORTED_CURRENCY_CODES = map fst SUPPORTED_CURRENCIES"

section \<open>CurrencyUtility\<close>

definition blank :: "char \<Rightarrow> bool" where
  "blank c \<longleftrightarrow> c \<in> {CHR '' '', CHR 0x09, CHR 0x0A, CHR 0x0B, CHR 0x0C, CHR 0x0D}"

definition trim :: "string \<Rightarrow> string" where
  "trim s = rev (dropWhile blank (rev (dropWhile blank s)))"

definition isSupportedCurrency :: "string \<Rightarrow> bool" where
  "isSupportedCurrency c = (if c = [] then False else trim (to_upper c) \<in> set SUPPORTED_CURRENCY_CODES)"

definition getCurrency :: "string \<Rightarrow> currency option" where
  "getCurrency c = (if \<not> isSupportedCurrency c then None else map_of SUPPORTED_CURRENCIES (trim (to_upper c)))"

definition getCurrencyCountryCode :: "string \<Rightarrow> string option" where
  "getCurrencyCountryCode c = map_option countryCode (getCurrency c)"

text \<open>\<open>None\<close> is the \<^verbatim>\<open>null\<close> of an unsupported currency.\<close>

definition formatCurrencyAmountToMainUnit :: "int \<Rightarrow> string \<Rightarrow> rat option" where
  "formatCurrencyAmountToMainUnit amount c = (case getCurrency c of
      None \<Rightarrow> None | Some cur \<Rightarrow> Some (of_int amount / of_int (minorUnit cur)))"

text \<open>An unsupported currency is not checked for here and is a \<^verbatim>\<open>TypeError\<close>.\<close>

definition formatCurrencyAmountToSmallestUnit :: "rat \<Rightarrow> string \<Rightarrow> exn + int" where
  "formatCurrencyAmountToSmallestUnit amount c = (case getCurrency c of
      None \<Rightarrow> Inl (PlainError ''Cannot read properties of undefined (reading 'minorUnit')'')
    | Some cur \<Rightarrow> Inr \<lfloor>amount * of_int (minorUnit cur)\<rfloor>)"

definition getCurrencyLocale :: "string \<Rightarrow> string" where
  "getCurrencyLocale c = (if to_upper c = ''USD'' then ''en-US''
     else if to_upper c = ''NGN'' then ''en-NG'' else ''en-US'')"

section \<open>Lemmas\<close>

lemma getCurrency_cases: "getCurrency c = None \<or> getCurrency c = Some USD \<or> getCurrency c = Some NGN"
  by (auto simp: getCurrency_def SUPPORTED_CURRENCIES_def)

lemma minorUnit_100: "getCurrency c = Some cur \<Longrightarrow> minorUnit cur = 100"
  using getCurrency_cases [of c] by (auto simp: USD_def NGN_def)

lemma supported_iff: "isSupportedCurrency c \<longleftrightarrow> getCurrency c \<noteq> None"
  by (auto simp: getCurrency_def SUPPORTED_CURRENCIES_def isSupportedCurrency_def SUPPORTED_CURRENCY_CODES_def split: if_splits)

section \<open>Properties\<close>

text \<open>
  Converting a minor-unit amount to the main unit and back gives the amount, for every supported
  currency; converting a main-unit amount never invents money: the result is the amount rounded
  down to a minor unit. For an unsupported currency the first conversion gives null and the second throws.
\<close>

theorem currency_round_trip:
  "(case formatCurrencyAmountToMainUnit a c of
      Some m \<Rightarrow> isSupportedCurrency c \<and> formatCurrencyAmountToSmallestUnit m c = Inr a
    | None \<Rightarrow> \<not> isSupportedCurrency c \<and> (\<exists>e. formatCurrencyAmountToSmallestUnit x c = Inl e))
   \<and> (case formatCurrencyAmountToSmallestUnit x c of
      Inr n \<Rightarrow> of_int n \<le> x * 100 \<and> x * 100 < of_int n + 1
    | Inl _ \<Rightarrow> \<not> isSupportedCurrency c)"
proof (cases "getCurrency c")
  case None
  then show ?thesis
    by (simp add: formatCurrencyAmountToMainUnit_def formatCurrencyAmountToSmallestUnit_def supported_iff)
next
  case (Some cur)
  then show ?thesis
    using minorUnit_100 [OF Some] floor_correct [of "x * 100"]
    by (simp add: formatCurrencyAmountToMainUnit_def formatCurrencyAmountToSmallestUnit_def supported_iff)
qed

end
