(* ===== verification/WithdrawalGuards.thy ===== *)
theory WithdrawalGuards
  imports Redis
begin

text \<open>
  The Redis-backed guards of a withdrawal (\<^verbatim>\<open>src/modules/fiatWallet/\<close>): the daily attempt counter
  (\<^verbatim>\<open>withdrawalCounter.service.ts\<close>), the active-session set (\<^verbatim>\<open>withdrawalSession.service.ts\<close>) and
  the escrow amount (\<^verbatim>\<open>fiatWalletEscrow.service.ts\<close>). A number that may be NaN is an
  \<open>int option\<close>. The lemmas give the key space after every operation; the properties say what the
  guards enforce.
\<close>

section \<open>WithdrawalCounterService\<close>

definition day_ms :: int where
  "day_ms = 86400000"

text \<open>Milliseconds from \<open>t\<close> to \<^verbatim>\<open>endOf('day')\<close>, the last millisecond of the UTC day.\<close>

definition until_end_of_day :: "int \<Rightarrow> int" where
  "until_end_of_day t = day_ms - 1 - t mod day_ms"

definition getDailyAttemptsKey :: "string \<Rightarrow> string" where
  "getDailyAttemptsKey userId = ''withdrawal-attempts:daily:'' @ userId"

definition incrementDailyAttempts :: "'s redis_env \<Rightarrow> string \<Rightarrow> (('s, 'm) base_scheme, int) io" where
  "incrementDailyAttempts E userId = (let key = getDailyAttemptsKey userId in
     bind (rc_incr E key) (\<lambda>attempts.
     andthen (when_do (attempts = 1) (bind get_now (\<lambda>t.
       andthen (rs_expire E key (until_end_of_day t div 1000)) (ret ()))))
     (ret attempts)))"

definition getDailyAttempts :: "'s redis_env \<Rightarrow> string \<Rightarrow> (('s, 'm) base_scheme, int option) io" where
  "getDailyAttempts E userId = bind (rs_get E (getDailyAttemptsKey userId)) (\<lambda>attempts.
     ret (case attempts of
         None \<Rightarrow> Some 0
       | Some v \<Rightarrow> if v = Raw [] then Some 0 else text_int v))"

definition checkDailyLimit :: "'s redis_env \<Rightarrow> string \<Rightarrow> int \<Rightarrow> (('s, 'm) base_scheme, unit) io" where
  "checkDailyLimit E userId maxAttempts = bind (getDailyAttempts E userId) (\<lambda>currentAttempts.
     if (case currentAttempts of None \<Rightarrow> False | Some n \<Rightarrow> maxAttempts \<le> n)
     then bind get_now (\<lambda>t.
       let hoursUntilReset = (until_end_of_day t + 3600000 - 1) div 3600000 in
       throw (BadRequest (''You have reached your daily withdrawal attempt limit of ''
         @ show_int maxAttempts @ ''. Please try again in '' @ show_int hoursUntilReset @ '' hour(s).'')))
     else ret ())"

definition resetDailyAttempts :: "'s redis_env \<Rightarrow> string \<Rightarrow> (('s, 'm) base_scheme, unit) io" where
  "resetDailyAttempts E userId = andthen (rs_del E [getDailyAttemptsKey userId]) (ret ())"

section \<open>WithdrawalSessionService\<close>

definition SESSION_TTL :: int where
  "SESSION_TTL = 300"

definition getSessionKey :: "string \<Rightarrow> string" where
  "getSessionKey userId = ''withdrawal-session:active:'' @ userId"

definition startSession :: "'s redis_env \<Rightarrow> string \<Rightarrow> string \<Rightarrow> (('s, 'm) base_scheme, unit) io" where
  "startSession E userId withdrawalId = (let key = getSessionKey userId in
     andthen (rc_sadd E key withdrawalId)
     (andthen (rs_expire E key SESSION_TTL) (ret ())))"

definition getActiveSessions :: "'s redis_env \<Rightarrow> string \<Rightarrow> (('s, 'm) base_scheme, string list) io" where
  "getActiveSessions E userId = rc_smembers E (getSessionKey userId)"

definition endSession :: "'s redis_env \<Rightarrow> string \<Rightarrow> string \<Rightarrow> (('s, 'm) base_scheme, unit) io" where
  "endSession E userId withdrawalId = (let key = getSessionKey userId in
     andthen (rc_srem E key withdrawalId)
     (bind (getActiveSessions E userId) (\<lambda>remaining.
       when_do (remaining = []) (andthen (rs_del E [key]) (ret ())))))"

definition hasActiveSession :: "'s redis_env \<Rightarrow> string \<Rightarrow> (('s, 'm) base_scheme, bool) io" where
  "hasActiveSession E userId = map_io (\<lambda>sessions. sessions \<noteq> []) (getActiveSessions E userId)"

definition concurrent_withdrawal :: exn where
  "concurrent_withdrawal = BadRequest
     ''Another withdrawal is currently in progress. Please wait for it to complete before initiating a new withdrawal.''"

definition checkAndBlockConcurrent :: "'s redis_env \<Rightarrow> string \<Rightarrow> (('s, 'm) base_scheme, unit) io" where
  "checkAndBlockConcurrent E userId = bind (hasActiveSession E userId) (\<lambda>hasActive.
     if hasActive then andthen (getActiveSessions E userId) (throw concurrent_withdrawal) else ret ())"

definition clearAllSessions :: "'s redis_env \<Rightarrow> string \<Rightarrow> (('s, 'm) base_scheme, unit) io" where
  "clearAllSessions E userId = andthen (rs_del E [getSessionKey userId]) (ret ())"

section \<open>FiatWalletEscrowService\<close>

definition getEscrowKey :: "string \<Rightarrow> string" where
  "getEscrowKey transactionId = ''fiat-wallet:transaction:'' @ transactionId @ '':escrow:amount''"

definition moveMoneyToEscrow :: "'s redis_env \<Rightarrow> string \<Rightarrow> int \<Rightarrow> (('s, 'm) base_scheme, unit) io" where
  "moveMoneyToEscrow E transactionId amount =
     andthen (rc_set E (getEscrowKey transactionId) (Raw (show_int amount)) None) (ret ())"

definition releaseMoneyFromEscrow :: "'s redis_env \<Rightarrow> string \<Rightarrow> (('s, 'm) base_scheme, unit) io" where
  "releaseMoneyFromEscrow E transactionId = andthen (rc_del E (getEscrowKey transactionId)) (ret ())"

definition getEscrowAmount :: "'s redis_env \<Rightarrow> string \<Rightarrow> (('s, 'm) base_scheme, int option) io" where
  "getEscrowAmount E transactionId = bind (rc_get E (getEscrowKey transactionId)) (\<lambda>amount.
     ret (case amount of
         None \<Rightarrow> Some 0
       | Some v \<Rightarrow> if v = Raw [] then Some 0 else text_int v))"

section \<open>What the operations do\<close>

lemmas counter_defs = incrementDailyAttempts_def getDailyAttempts_def checkDailyLimit_def resetDailyAttempts_def
lemmas session_defs = startSession_def getActiveSessions_def endSession_def hasActiveSession_def
  checkAndBlockConcurrent_def clearAllSessions_def
lemmas escrow_defs = moveMoneyToEscrow_def releaseMoneyFromEscrow_def getEscrowAmount_def

lemma getEscrowKey_inject [simp]: "getEscrowKey a = getEscrowKey b \<longleftrightarrow> a = b"
  by (simp add: getEscrowKey_def)

lemma getSessionKey_inject [simp]: "getSessionKey a = getSessionKey b \<longleftrightarrow> a = b"
  by (simp add: getSessionKey_def)

text \<open>The members of the session set and the counter as the raw client sees them.\<close>

definition sessions_of :: "keyspace \<Rightarrow> string \<Rightarrow> string list" where
  "sessions_of ks userId = (case the_rset ks (getSessionKey userId) of None \<Rightarrow> [] | Some s \<Rightarrow> s)"

text \<open>The attempts of one user, one after the other.\<close>

primrec attempts :: "'s redis_env \<Rightarrow> nat \<Rightarrow> string \<Rightarrow> (('s, 'm) base_scheme, int) io" where
  "attempts E 0 u = ret 0"
| "attempts E (Suc n) u = andthen (attempts E n u) (incrementDailyAttempts E u)"

lemma live_at_self: "live t ks k = Some (v, Some d) \<Longrightarrow> t < d"
  by (auto simp: live_def split: option.splits prod.splits if_splits)

context redis_server
begin

lemma move_run: "moveMoneyToEscrow E tid a w = (Inr (),
    w\<lparr>rds := snd (srv E (SET (getEscrowKey tid) (Raw (show_int a)) None) (now w) (rds w))\<rparr>)"
  by (simp add: moveMoneyToEscrow_def run px_ok_def)

lemma move_view: "view ent (snd (moveMoneyToEscrow E tid a w))
    = (view ent w)(getEscrowKey tid := Some (RStr (Raw (show_int a)), None))"
  by (simp add: move_run run px_ok_def fun_eq_iff)

lemma release_escrow_run: "releaseMoneyFromEscrow E tid w = (Inr (),
    w\<lparr>rds := snd (srv E (DEL [getEscrowKey tid]) (now w) (rds w))\<rparr>)"
  by (simp add: releaseMoneyFromEscrow_def run)

lemma release_escrow_view: "view ent (snd (releaseMoneyFromEscrow E tid w)) = (view ent w)(getEscrowKey tid := None)"
  by (simp add: release_escrow_run run fun_eq_iff)

definition escrow :: "('s, 'm) base_scheme \<Rightarrow> string \<Rightarrow> int option" where
  "escrow w tid = (case the_str (view ent w) (getEscrowKey tid) of
     Some (Some v) \<Rightarrow> if v = Raw [] then Some 0 else text_int v | _ \<Rightarrow> Some 0)"

lemma get_escrow_run: "the_str (view ent w) (getEscrowKey tid) \<noteq> None \<Longrightarrow>
    getEscrowAmount E tid w = (Inr (escrow w tid),
      w\<lparr>rds := snd (srv E (GET (getEscrowKey tid)) (now w) (rds w))\<rparr>)"
  by (auto simp: getEscrowAmount_def run escrow_def split: option.splits)

lemma get_escrow_view: "view ent (snd (getEscrowAmount E tid w)) = view ent w"
  by (simp add: getEscrowAmount_def run wrongtype_def split: option.splits)

lemma check_concurrent_value:
  assumes "the_rset (view ent w) (getSessionKey u) \<noteq> None"
  shows "value_of (checkAndBlockConcurrent E u w)
    = (if sessions_of (view ent w) u = [] then Inr () else Inl concurrent_withdrawal)"
  using assms by (auto simp: session_defs run sessions_of_def)

lemma check_concurrent_view: "view ent (snd (checkAndBlockConcurrent E u w)) = view ent w"
  by (auto simp: session_defs run wrongtype_def split: option.splits)

lemma start_session_view:
  assumes "the_rset (view ent w) (getSessionKey u) \<noteq> None" "\<not> own_prefix E (getSessionKey u)"
    and "view ent w (prefixKey E (getSessionKey u)) = None"
  shows "value_of (startSession E u sid w) = Inr ()"
    and "view ent (snd (startSession E u sid w)) = (let s = sessions_of (view ent w) u in
      if sid \<in> set s then view ent w else put (getSessionKey u) (RSet (s @ [sid])) (view ent w))"
  using assms prefixKey_raw [OF assms(2)]
  by (auto simp: session_defs run sessions_of_def put_def Let_def)

lemma end_session_view:
  assumes "the_rset (view ent w) (getSessionKey u) \<noteq> None" "\<not> own_prefix E (getSessionKey u)"
    and "view ent w (prefixKey E (getSessionKey u)) = None"
  shows "value_of (endSession E u sid w) = Inr ()" (is ?val)
    and "view ent (snd (endSession E u sid w)) = (let s = sessions_of (view ent w) u in
      if sid \<in> set s then put (getSessionKey u) (RSet (removeAll sid s)) (view ent w) else view ent w)" (is ?vw)
proof -
  let ?k = "getSessionKey u"
  note k = prefixKey_raw [OF assms(2), of ?k]
  have "?val \<and> ?vw"
  proof (cases "view ent w ?k")
    case None
    with assms(3) k show ?thesis
      by (simp add: session_defs run sessions_of_def the_rset_def fun_eq_iff)
  next
    case (Some e)
    then obtain ms d where e: "view ent w ?k = Some (RSet ms, d)"
      using assms(1) by (cases e) (auto simp: the_rset_def split: rval.splits)
    then have s: "sessions_of (view ent w) u = ms" by (simp add: sessions_of_def the_rset_def)
    show ?thesis
    proof (cases "sid \<in> set ms")
      case True
      show ?thesis
      proof (cases "removeAll sid ms = []")
        case r: True
        with e s k assms(3) \<open>sid \<in> set ms\<close> show ?thesis
          by (simp add: session_defs run the_rset_def put_def fun_eq_iff)
      next
        case r: False
        with e s k assms(3) \<open>sid \<in> set ms\<close> show ?thesis
          by (simp add: session_defs run the_rset_def put_def fun_eq_iff)
      qed
    next
      case False
      with e s k assms(3) show ?thesis
        by (cases "ms = []") (simp_all add: session_defs run the_rset_def fun_eq_iff)
    qed
  qed
  then show ?val ?vw by auto
qed

lemma clear_sessions_view:
  assumes "\<not> own_prefix E (getSessionKey u)"
  shows "view ent (snd (clearAllSessions E u w)) (getSessionKey u) = view ent w (getSessionKey u)"
  using prefixKey_raw [OF assms] by (simp add: session_defs run)

lemma increment_view:
  assumes "the_str (view ent w) (getDailyAttemptsKey u) = Some (if n = 0 then None else Some (Raw (show_int (int n))))"
    and "\<not> own_prefix E (getDailyAttemptsKey u)"
    and "view ent w (prefixKey E (getDailyAttemptsKey u)) = None"
  shows "value_of (incrementDailyAttempts E u w) = Inr (int (Suc n))"
    and "view ent (snd (incrementDailyAttempts E u w))
      = put (getDailyAttemptsKey u) (RStr (Raw (show_int (int (Suc n))))) (view ent w)"
    and "now (snd (incrementDailyAttempts E u w)) = now w"
  using assms prefixKey_raw [OF assms(2)]
  by (auto simp: incrementDailyAttempts_def run put_def Let_def ac_simps split: if_splits)

lemma check_limit_value:
  assumes "view ent w (prefixKey E (getDailyAttemptsKey u)) = None"
  shows "value_of (checkDailyLimit E u mx w) = (if mx \<le> 0 then value_of (checkDailyLimit E u mx w) else Inr ())"
  using assms by (auto simp: checkDailyLimit_def getDailyAttempts_def run the_str_None)

lemma attempts_view:
  assumes "view ent w (getDailyAttemptsKey u) = None" "\<not> own_prefix E (getDailyAttemptsKey u)"
    and "view ent w (prefixKey E (getDailyAttemptsKey u)) = None"
  shows "(\<exists>r. value_of (attempts E n u w) = Inr r) \<and> now (snd (attempts E n u w)) = now w
    \<and> view ent (snd (attempts E n u w)) = (if n = 0 then view ent w
        else (view ent w)(getDailyAttemptsKey u := Some (RStr (Raw (show_int (int n))), None)))"
proof (induction n)
  case 0
  show ?case by simp
next
  case (Suc n)
  obtain r w1 where a: "attempts E n u w = (Inr r, w1)" using Suc by (cases "attempts E n u w") auto
  have k: "prefixKey E (getDailyAttemptsKey u) \<noteq> getDailyAttemptsKey u"
    using prefixKey_raw [OF assms(2)] by metis
  have v: "view ent w1 = (if n = 0 then view ent w
      else (view ent w)(getDailyAttemptsKey u := Some (RStr (Raw (show_int (int n))), None)))"
    using Suc a by simp
  have p: "the_str (view ent w1) (getDailyAttemptsKey u) = Some (if n = 0 then None else Some (Raw (show_int (int n))))"
    "view ent w1 (prefixKey E (getDailyAttemptsKey u)) = None"
    using assms k unfolding v by (auto simp: the_str_None)
  obtain w2 where i: "incrementDailyAttempts E u w1 = (Inr (int (Suc n)), w2)"
    using increment_view(1) [OF p(1) assms(2) p(2)] by (cases "incrementDailyAttempts E u w1") auto
  have "view ent w2 = put (getDailyAttemptsKey u) (RStr (Raw (show_int (int (Suc n))))) (view ent w1)" "now w2 = now w1"
    using increment_view(2,3) [OF p(1) assms(2) p(2)] i by simp_all
  moreover have "now w1 = now w" using Suc a by simp
  moreover have "attempts E (Suc n) u w = (Inr (int (Suc n)), w2)" by (simp add: andthen_run a i)
  ultimately show ?case
    using assms(1) by (cases "n = 0") (simp_all add: v put_def deadline_def)
qed

end

context redis_server
begin

text \<open>A session in the set, alone and without a deadline.\<close>

definition lone_session :: "('s, 'm) base_scheme \<Rightarrow> string \<Rightarrow> string \<Rightarrow> bool" where
  "lone_session w u sid \<longleftrightarrow> view ent w (getSessionKey u) = Some (RSet [sid], None)
     \<and> view ent w (prefixKey E (getSessionKey u)) = None"

lemma start_lone:
  assumes "\<not> own_prefix E (getSessionKey u)"
    and "view ent w (getSessionKey u) = None" and "view ent w (prefixKey E (getSessionKey u)) = None"
  shows "fst (startSession E u sid w) = Inr () \<and> lone_session (snd (startSession E u sid w)) u sid"
  using start_session_view [of w u sid] assms prefixKey_raw [OF assms(1)]
  by (simp add: lone_session_def sessions_of_def the_rset_def put_def deadline_def)

lemma lone_blocks: "lone_session w u sid \<Longrightarrow> fst (checkAndBlockConcurrent E u w) = Inl concurrent_withdrawal"
  by (simp add: lone_session_def check_concurrent_value the_rset_def sessions_of_def)

lemma lone_later: "lone_session w u sid \<Longrightarrow> now w \<le> t \<Longrightarrow> lone_session (w\<lparr>now := t\<rparr>) u sid"
  by (simp add: lone_session_def view_later live_forever live_None)

lemma lone_clear:
  assumes "lone_session w u sid" "\<not> own_prefix E (getSessionKey u)"
  shows "lone_session (snd (clearAllSessions E u w)) u sid"
  using assms prefixKey_raw [OF assms(2)] by (simp add: lone_session_def session_defs run)

lemma lone_end:
  assumes "lone_session w u sid" "\<not> own_prefix E (getSessionKey u)"
  shows "fst (endSession E u sid w) = Inr ()
    \<and> fst (checkAndBlockConcurrent E u (snd (endSession E u sid w))) = Inr ()"
  using end_session_view [of w u sid] assms
  by (simp add: lone_session_def check_concurrent_value the_rset_def sessions_of_def put_def)

lemma session_lifecycle:
  assumes "\<not> own_prefix E (getSessionKey u)"
    and "view ent w (getSessionKey u) = None" and "view ent w (prefixKey E (getSessionKey u)) = None"
    and "0 \<le> d"
  shows "fst (andthen (startSession E u sid) (andthen (sleep d) (checkAndBlockConcurrent E u)) w)
      = Inl concurrent_withdrawal
    \<and> fst (andthen (startSession E u sid) (andthen (clearAllSessions E u) (checkAndBlockConcurrent E u)) w)
      = Inl concurrent_withdrawal
    \<and> fst (andthen (startSession E u sid) (andthen (endSession E u sid) (checkAndBlockConcurrent E u)) w) = Inr ()"
proof -
  note s = start_lone [OF assms(1-3), of sid]
  let ?w = "snd (startSession E u sid w)"
  have "fst (checkAndBlockConcurrent E u (?w\<lparr>now := now ?w + d\<rparr>)) = Inl concurrent_withdrawal"
    using lone_later [of ?w u sid "now ?w + d"] s assms(4) by (intro lone_blocks) auto
  moreover have "fst (checkAndBlockConcurrent E u (snd (clearAllSessions E u ?w))) = Inl concurrent_withdrawal"
    using lone_clear [of ?w u sid] s assms(1) by (intro lone_blocks) auto
  moreover have "fst (clearAllSessions E u ?w) = Inr ()"
    by (simp add: clearAllSessions_def run)
  ultimately show ?thesis
    using s lone_end [of ?w u sid] assms(1) by (simp add: seq_ok)
qed

lemma daily_limit_passes:
  assumes "view ent w (getDailyAttemptsKey u) = None" "\<not> own_prefix E (getDailyAttemptsKey u)"
    and "view ent w (prefixKey E (getDailyAttemptsKey u)) = None" "0 < mx"
  shows "value_of (andthen (attempts E n u) (checkDailyLimit E u mx) w) = Inr ()
    \<and> (0 < n \<longrightarrow> view ent (snd (attempts E n u w)) (getDailyAttemptsKey u) = Some (RStr (Raw (show_int (int n))), None))"
proof -
  note a = attempts_view [OF assms(1-3), of n]
  then obtain r where "fst (attempts E n u w) = Inr r" by auto
  moreover have "view ent (snd (attempts E n u w)) (prefixKey E (getDailyAttemptsKey u)) = None"
    using a assms prefixKey_raw [OF assms(2), of "getDailyAttemptsKey u"] by auto
  ultimately show ?thesis
    using a assms(4) check_limit_value [of "snd (attempts E n u w)" u mx] by (simp add: seq_ok)
qed

end

section \<open>Properties\<close>

text \<open>
  The life of a withdrawal session. After \<open>startSession\<close> every later withdrawal of the user
  is refused, until \<open>endSession\<close>; the five-minute limit never applies (however long one waits) and
  \<open>clearAllSessions\<close> does not help, because both go through the prefixed key while the set is
  kept under the raw one.
\<close>

theorem session_blocks_until_ended:
  assumes "redis_server E ent" and "\<not> own_prefix E (getSessionKey u)"
    and "view ent w (getSessionKey u) = None" and "view ent w (prefixKey E (getSessionKey u)) = None"
    and "0 \<le> d"
  shows "fst (andthen (startSession E u sid) (andthen (sleep d) (checkAndBlockConcurrent E u)) w)
      = Inl concurrent_withdrawal
    \<and> fst (andthen (startSession E u sid) (andthen (clearAllSessions E u) (checkAndBlockConcurrent E u)) w)
      = Inl concurrent_withdrawal
    \<and> fst (andthen (startSession E u sid) (andthen (endSession E u sid) (checkAndBlockConcurrent E u)) w) = Inr ()"
  by (rule redis_server.session_lifecycle [OF assms])

lemma session_blocks_until_ended_witness:
  "fst (andthen (startSession (ks_env ''app'') ''u'' ''t'') (andthen (sleep 900000)
     (checkAndBlockConcurrent (ks_env ''app'') ''u'')) \<lparr>rds = Map.empty, now = 0\<rparr>) = Inl concurrent_withdrawal"
  using session_blocks_until_ended [OF ks.redis_server_axioms, of "''app''" "''u''" "\<lparr>rds = Map.empty, now = 0\<rparr>" 900000 "''t''"]
  by (simp add: view_def ks_ent_def live_def own_prefix_def ks_env_def getSessionKey_def)

text \<open>
  The daily attempt limit is never enforced. However many attempts a user makes, the check
  with any positive limit passes: attempts are counted under the raw key and the limit is read
  under the prefixed one. The counter itself never expires.
\<close>

theorem daily_limit_not_enforced:
  assumes "redis_server E ent"
    and "view ent w (getDailyAttemptsKey u) = None" "\<not> own_prefix E (getDailyAttemptsKey u)"
    and "view ent w (prefixKey E (getDailyAttemptsKey u)) = None" "0 < mx"
  shows "value_of (andthen (attempts E n u) (checkDailyLimit E u mx) w) = Inr ()
    \<and> (0 < n \<longrightarrow> view ent (snd (attempts E n u w)) (getDailyAttemptsKey u) = Some (RStr (Raw (show_int (int n))), None))"
  by (rule redis_server.daily_limit_passes [OF assms])

lemma daily_limit_not_enforced_witness:
  "value_of (andthen (attempts (ks_env ''app'') 1000 ''u'') (checkDailyLimit (ks_env ''app'') ''u'' 5)
     \<lparr>rds = Map.empty, now = 0\<rparr>) = Inr ()"
  using daily_limit_not_enforced [OF ks.redis_server_axioms, of "\<lparr>rds = Map.empty, now = 0\<rparr>" "''u''" "''app''" 5 1000]
  by (simp add: view_def ks_ent_def live_def own_prefix_def ks_env_def getDailyAttemptsKey_def)

text \<open>
  The escrow of a transaction is a round trip: the amount moved in is the amount read, releasing
  leaves 0, and the escrows of other transactions are not touched.
\<close>

theorem escrow_round_trip:
  assumes "redis_server E ent"
  shows "value_of (andthen (moveMoneyToEscrow E tid a) (getEscrowAmount E tid) w) = Inr (Some a)
    \<and> value_of (andthen (andthen (moveMoneyToEscrow E tid a) (releaseMoneyFromEscrow E tid)) (getEscrowAmount E tid) w)
        = Inr (Some 0)
    \<and> (tid' \<noteq> tid \<longrightarrow> view ent (snd (moveMoneyToEscrow E tid a w)) (getEscrowKey tid') = view ent w (getEscrowKey tid'))"
  using assms
  by (auto simp: andthen_run redis_server.move_run redis_server.release_escrow_run getEscrowAmount_def
      redis_server.run redis_server.move_view px_ok_def the_str_None)

lemma escrow_round_trip_witness:
  "value_of (andthen (moveMoneyToEscrow (ks_env ''app'') ''t'' 250) (getEscrowAmount (ks_env ''app'') ''t'')
     \<lparr>rds = Map.empty, now = 0\<rparr>) = Inr (Some 250)"
  using escrow_round_trip [OF ks.redis_server_axioms, of "''app''" "''t''" 250] by blast

end
