(* ===== verification/Money.thy ===== *)
theory Money
  imports Locker Repository Currency WithdrawalGuards
begin

text \<open>
  The data of the money movements: fiat wallets, transactions and fiat wallet transactions
  (\<^verbatim>\<open>src/database/models/fiatWallet/\<close>, \<^verbatim>\<open>transaction/\<close>, \<^verbatim>\<open>fiatWalletTransaction/\<close>), the state the money
  services run in, and what they are constructed with (\<open>money_env\<close>). Amounts are integers in the
  smallest unit of the currency. The lemmas say which programs
  leave the wallets and Redis alone.
\<close>

section \<open>Enumerations\<close>

datatype tx_status = PENDING | INITIATED | PROCESSING | COMPLETED | SETTLED | FAILED | CANCELLED | REVIEW | RECONCILE

datatype transaction_type = T_DEPOSIT | T_WITHDRAWAL | T_TRANSFER | T_TRANSFER_OUT | T_TRANSFER_IN | T_EXCHANGE
  | T_FEE | T_REFUND | T_PAYMENT | T_REWARD

datatype fiat_type = F_DEPOSIT | F_WITHDRAWAL | F_TRANSFER_IN | F_TRANSFER_OUT | F_PAYMENT | F_REFUND | F_FEE
  | F_ADJUSTMENT | F_EXCHANGE | F_REVERSAL | F_REWARD

datatype transaction_category = C_FIAT | C_BLOCKCHAIN | C_CARD

datatype transaction_scope = S_INTERNAL | S_EXTERNAL

section \<open>Rows\<close>

record virtual_account =
  account_number :: string
  account_name :: string
  va_provider :: "string option"

record wallet_row =
  fw_id :: string
  fw_user :: string
  fw_asset :: string
  fw_balance :: int
  fw_credit :: int
  fw_status :: string
  fw_accounts :: "virtual_account list"

record tx_row =
  tx_id :: string
  tx_user :: string
  tx_reference :: string
  tx_external :: "string option"
  tx_asset :: string
  tx_amount :: int
  tx_before :: int
  tx_after :: int
  tx_type :: transaction_type
  tx_category :: transaction_category
  tx_scope :: transaction_scope
  tx_status :: tx_status
  tx_parent :: "string option"
  tx_description :: string
  tx_failure :: "string option"
  tx_meta :: "(string \<times> json) list"
  tx_processed :: "int option"
  tx_completed :: "int option"
  tx_failed :: "int option"

record fwt_row =
  ft_id :: string
  ft_transaction :: string
  ft_wallet :: string
  ft_user :: string
  ft_type :: fiat_type
  ft_amount :: int
  ft_before :: int
  ft_after :: int
  ft_currency :: string
  ft_status :: tx_status
  ft_description :: "string option"
  ft_provider :: "string option"
  ft_reference :: "string option"
  ft_request_ref :: "string option"
  ft_quote_ref :: "string option"
  ft_fee :: "int option"
  ft_meta :: "(string \<times> json) list"
  ft_source :: "string option"
  ft_destination :: "string option"
  ft_idempotency :: "string option"
  ft_failure :: "string option"
  ft_processed :: "int option"
  ft_completed :: "int option"
  ft_failed :: "int option"
  ft_settled :: "int option"

text \<open>A row whose optional columns are null; a creation sets the columns it names.\<close>

definition blank_tx :: tx_row where
  "blank_tx = \<lparr>tx_id = [], tx_user = [], tx_reference = [], tx_external = None, tx_asset = [], tx_amount = 0,
     tx_before = 0, tx_after = 0, tx_type = T_DEPOSIT, tx_category = C_FIAT, tx_scope = S_INTERNAL,
     tx_status = PENDING, tx_parent = None, tx_description = [], tx_failure = None, tx_meta = [],
     tx_processed = None, tx_completed = None, tx_failed = None\<rparr>"

definition blank_fwt :: fwt_row where
  "blank_fwt = \<lparr>ft_id = [], ft_transaction = [], ft_wallet = [], ft_user = [], ft_type = F_DEPOSIT, ft_amount = 0,
     ft_before = 0, ft_after = 0, ft_currency = [], ft_status = INITIATED, ft_description = None,
     ft_provider = None, ft_reference = None, ft_request_ref = None, ft_quote_ref = None, ft_fee = None, ft_meta = [],
     ft_source = None, ft_destination = None, ft_idempotency = None, ft_failure = None,
     ft_processed = None, ft_completed = None, ft_failed = None, ft_settled = None\<rparr>"

section \<open>The state and the collaborators\<close>

record 's money_world = "'s dbase" +
  wallets :: "wallet_row list"
  txs :: "tx_row list"
  fwts :: "fwt_row list"

text \<open>
  \<open>fresh n\<close> is the \<open>n\<close>-th random value (row ids, references, lock owners); \<open>ext\<close> answers the calls of
  the payment provider, the tier limits, the bank directory and the notification services.
\<close>

record 's money_env =
  m_redis :: "'s redis_env"
  m_fresh :: "nat \<Rightarrow> string"
  m_ext :: collaborators
  m_patience :: nat
  waas_provider :: string
  waas_bank_code :: string

definition wallet_table :: "(wallet_row, ('s, 'm) money_world_scheme) table" where
  "wallet_table = \<lparr>rows_of = wallets, set_rows = (\<lambda>rs w. w\<lparr>wallets := rs\<rparr>), row_id = fw_id\<rparr>"

definition tx_table :: "(tx_row, ('s, 'm) money_world_scheme) table" where
  "tx_table = \<lparr>rows_of = txs, set_rows = (\<lambda>rs w. w\<lparr>txs := rs\<rparr>), row_id = tx_id\<rparr>"

definition fwt_table :: "(fwt_row, ('s, 'm) money_world_scheme) table" where
  "fwt_table = \<lparr>rows_of = fwts, set_rows = (\<lambda>rs w. w\<lparr>fwts := rs\<rparr>), row_id = ft_id\<rparr>"

interpretation wallets: row_store wallet_table
  by unfold_locales (simp_all add: wallet_table_def)

interpretation txs: row_store tx_table
  by unfold_locales (simp_all add: tx_table_def)

interpretation fwts: row_store fwt_table
  by unfold_locales (simp_all add: fwt_table_def)

lemma money_tables [simp]:
  "rows_of wallet_table = wallets" "set_rows wallet_table rs w = w\<lparr>wallets := rs\<rparr>" "row_id wallet_table = fw_id"
  "rows_of tx_table = txs" "set_rows tx_table ts w = w\<lparr>txs := ts\<rparr>" "row_id tx_table = tx_id"
  "rows_of fwt_table = fwts" "set_rows fwt_table fs w = w\<lparr>fwts := fs\<rparr>" "row_id fwt_table = ft_id"
  by (simp_all add: wallet_table_def tx_table_def fwt_table_def)

definition ext_call :: "'s money_env \<Rightarrow> string \<Rightarrow> json \<Rightarrow> (('s, 'm) dbase_scheme, json) io" where
  "ext_call M nm p = call_ext (m_ext M) nm p"

definition new_value :: "'s money_env \<Rightarrow> (('s, 'm) dbase_scheme, string) io" where
  "new_value M = draw (m_fresh M)"

text \<open>The three locks the money services take: with tries and a lease, and without a retry count.\<close>

definition locked :: "'s money_env \<Rightarrow> string \<Rightarrow> nat \<Rightarrow> (('s, 'm) dbase_scheme, 'a) io \<Rightarrow> (('s, 'm) dbase_scheme, 'a) io" where
  "locked M key tries cb = bind (new_value M) (\<lambda>own. withLockN (m_redis M) own key (Some 30000) tries 500 cb)"

definition locked_wait :: "'s money_env \<Rightarrow> string \<Rightarrow> (('s, 'm) dbase_scheme, 'a) io \<Rightarrow> (('s, 'm) dbase_scheme, 'a) io" where
  "locked_wait M key cb = bind (new_value M) (\<lambda>own. withLockW (m_redis M) (m_patience M) own key cb)"

text \<open>An insert into \<^verbatim>\<open>fiat_wallet_transactions\<close>, whose idempotency keys are unique.\<close>

definition insert_fwt :: "fwt_row \<Rightarrow> (('s, 'm) money_world_scheme, fwt_row) io" where
  "insert_fwt r = bind get_state (\<lambda>w.
     if ft_idempotency r \<noteq> None \<and> list_ex (\<lambda>x. ft_idempotency x = ft_idempotency r) (fwts w)
     then andthen db_step (throw (UniqueViolation ''fiat_wallet_transactions_idempotency_key_unique''))
     else repo_create fwt_table r)"

text \<open>\<^verbatim>\<open>error.name\<close> and \<^verbatim>\<open>error.status\<close>, which the code inspects.\<close>

definition is_bad_request :: "exn \<Rightarrow> bool" where
  "is_bad_request e = (case e of BadRequest _ \<Rightarrow> True | _ \<Rightarrow> False)"

definition error_status :: "exn \<Rightarrow> int option" where
  "error_status e = (case e of
      BadRequest _ \<Rightarrow> Some 400 | NotFound _ \<Rightarrow> Some 404 | Unauthorized _ \<Rightarrow> Some 401 | Conflict _ \<Rightarrow> Some 409
    | InternalError _ \<Rightarrow> Some 500 | ProviderError _ _ _ _ st \<Rightarrow> st | _ \<Rightarrow> None)"

definition js_truthy :: "json \<Rightarrow> bool" where
  "js_truthy j = (j \<noteq> JNull \<and> j \<noteq> JBool False \<and> j \<noteq> JNum 0 \<and> j \<noteq> JDec 0 \<and> j \<noteq> JStr [])"

definition js_text :: "json \<Rightarrow> string" where
  "js_text j = (case j of JStr s \<Rightarrow> s | _ \<Rightarrow> [])"

section \<open>Programs that leave the wallets and Redis alone\<close>

text \<open>A condition on the wallets, Redis and the clock only.\<close>

definition wallet_inv :: "(('s, 'm) money_world_scheme \<Rightarrow> bool) \<Rightarrow> bool" where
  "wallet_inv I \<longleftrightarrow> (\<forall>w w'. wallets w = wallets w' \<longrightarrow> rds w = rds w' \<longrightarrow> now w = now w' \<longrightarrow> I w \<longrightarrow> I w')"

definition aside :: "(('s, 'm) money_world_scheme, 'a) io \<Rightarrow> bool" where
  "aside m \<longleftrightarrow> (\<forall>w. wallets (snd (m w)) = wallets w \<and> rds (snd (m w)) = rds w \<and> now (snd (m w)) = now w)"

named_theorems aside_intros \<open>programs that leave the wallets and Redis alone\<close>

lemma aside_keeps: "aside m \<Longrightarrow> wallet_inv I \<Longrightarrow> keeps I m"
  unfolding aside_def wallet_inv_def keeps_def by metis

lemma db_step_frame [simp]:
  "wallets (snd (db_step w)) = wallets w" "txs (snd (db_step w)) = txs w" "fwts (snd (db_step w)) = fwts w"
  "outbox (snd (db_step w)) = outbox w" "draws (snd (db_step w)) = draws w"
  by (simp_all add: db_step_def split: list.split option.split)

lemma rollback_money [simp]:
  "wallets (rollback w w') = wallets w" "txs (rollback w w') = txs w" "fwts (rollback w w') = fwts w"
  by (simp_all add: rollback_def)

lemma aside_basic [aside_intros]:
  "aside (ret x)" "aside (throw e)" "aside (io_of r)" "aside get_now" "aside get_state" "aside db_step"
  "aside (emit nm p)" "aside (ext_call M nm p)" "aside (new_value M)"
  by (simp_all add: aside_def ext_call_def new_value_def call_ext_def)

lemma aside_modify [aside_intros]:
  "(\<And>w. wallets (f w) = wallets w \<and> rds (f w) = rds w \<and> now (f w) = now w) \<Longrightarrow> aside (modify f)"
  by (simp add: aside_def)

lemma aside_bind [aside_intros]: "aside m \<Longrightarrow> (\<And>x. aside (f x)) \<Longrightarrow> aside (bind m f)"
  unfolding aside_def by (simp add: bind_run split: prod.split sum.split) (metis snd_conv)

lemma aside_bind_state [aside_intros]: "(\<And>w. aside (f w)) \<Longrightarrow> aside (bind get_state f)"
  by (rule aside_bind) (simp_all add: aside_basic)

lemma aside_seq [aside_intros]: "aside m \<Longrightarrow> aside n \<Longrightarrow> aside (andthen m n)"
  by (simp add: andthen_def aside_bind)

lemma aside_catch [aside_intros]: "aside m \<Longrightarrow> (\<And>e. aside (h e)) \<Longrightarrow> aside (catch m h)"
  unfolding aside_def by (simp add: catch_run split: prod.split sum.split) (metis snd_conv)

lemma aside_when [aside_intros]: "(b \<Longrightarrow> aside m) \<Longrightarrow> aside (when_do b m)"
  by (simp add: when_do_def aside_basic)

lemma aside_if [aside_intros]: "(b \<Longrightarrow> aside m) \<Longrightarrow> (\<not> b \<Longrightarrow> aside n) \<Longrightarrow> aside (if b then m else n)"
  by simp

lemma aside_option [aside_intros]:
  "aside m \<Longrightarrow> (\<And>x. v = Some x \<Longrightarrow> aside (f x)) \<Longrightarrow> aside (case v of None \<Rightarrow> m | Some x \<Rightarrow> f x)"
  by (cases v) simp_all

lemma aside_Let [aside_intros]: "aside (f x) \<Longrightarrow> aside (let y = x in f y)"
  by simp

lemma aside_transaction [aside_intros]: "aside m \<Longrightarrow> aside (transaction m)"
proof -
  assume "aside m"
  then have "aside (bind m (\<lambda>x. andthen db_step (ret x)))" by (intro aside_intros)
  then show ?thesis unfolding aside_def by (simp add: transaction_def split: prod.split sum.split) (metis snd_conv)
qed

text \<open>Reading any table, and writing transactions of either kind.\<close>

lemma aside_reads [aside_intros]:
  "aside (repo_findOne wallet_table P)" "aside (repo_findOne tx_table Q)" "aside (repo_findOne fwt_table R)"
  "aside (repo_findById wallet_table i)" "aside (repo_findById tx_table i)" "aside (repo_findById fwt_table i)"
  by (auto simp: repo_findById_def repo_findOne_def intro!: aside_intros)

lemma aside_writes [aside_intros]:
  "aside (repo_create tx_table t)" "aside (repo_create fwt_table f)"
  "aside (repo_update_id tx_table i g)" "aside (repo_update_id fwt_table i h)"
  by (auto simp: repo_create_def repo_update_id_def intro!: aside_intros)

lemma aside_insert [aside_intros]: "aside (insert_fwt f)"
  unfolding insert_fwt_def by (auto intro!: aside_intros)

section \<open>A small instance\<close>

text \<open>One naira wallet with a balance of 1000, one open withdrawal and its wallet entry.\<close>

definition demo_account :: virtual_account where
  "demo_account = \<lparr>account_number = ''001'', account_name = ''Ada'', va_provider = Some ''paga''\<rparr>"

definition demo_wallet :: wallet_row where
  "demo_wallet = \<lparr>fw_id = ''w'', fw_user = ''u'', fw_asset = ''NGN'', fw_balance = 1000, fw_credit = 0,
     fw_status = ''active'', fw_accounts = [demo_account]\<rparr>"

definition demo_tx :: tx_row where
  "demo_tx = blank_tx\<lparr>tx_id := ''t'', tx_user := ''u'', tx_asset := ''NGN'', tx_amount := 300, tx_status := INITIATED\<rparr>"

definition demo_fwt :: fwt_row where
  "demo_fwt = blank_fwt\<lparr>ft_id := ''f'', ft_transaction := ''t'', ft_wallet := ''w'', ft_user := ''u'', ft_amount := 300\<rparr>"

definition demo_money :: "keyspace money_world" where
  "demo_money = \<lparr>rds = Map.empty, now = 0, faults = [], outbox = [], draws = 0,
     wallets = [demo_wallet], txs = [demo_tx], fwts = [demo_fwt]\<rparr>"

definition demo_money_env :: "keyspace money_env" where
  "demo_money_env = \<lparr>m_redis = ks_env ''app'', m_fresh = show_nat, m_ext = (\<lambda>_ _ _. Inr JNull), m_patience = 1,
     waas_provider = ''paga'', waas_bank_code = ''000''\<rparr>"

lemmas demo_money_defs = demo_account_def demo_wallet_def demo_tx_def demo_fwt_def demo_money_def demo_money_env_def
  blank_tx_def blank_fwt_def

lemma demo_simps [simp]:
  "wallets demo_money = [demo_wallet]" "txs demo_money = [demo_tx]" "fwts demo_money = [demo_fwt]"
  "faults demo_money = []" "outbox demo_money = []" "now demo_money = 0" "draws demo_money = 0"
  "fw_id demo_wallet = ''w''" "fw_user demo_wallet = ''u''" "fw_asset demo_wallet = ''NGN''" "fw_balance demo_wallet = 1000"
  "fw_accounts demo_wallet = [demo_account]"
  "tx_id demo_tx = ''t''" "tx_status demo_tx = INITIATED" "ft_id demo_fwt = ''f''" "ft_user demo_fwt = ''u''"
  "ft_wallet demo_fwt = ''w''" "ft_transaction demo_fwt = ''t''"
  by (simp_all add: demo_money_defs)

lemma demo_server: "redis_server (m_redis demo_money_env) ks_ent"
  using ks.redis_server_axioms by (simp add: demo_money_env_def)

lemma money_demo_view [simp]: "view ks_ent demo_money k = None"
  by (simp add: view_def ks_ent_def demo_money_def live_def)

end
