(* ===== verification/FiatWallet.thy ===== *)
theory FiatWallet
  imports Money
begin

text \<open>
  \<^verbatim>\<open>FiatWalletService\<close> (\<^verbatim>\<open>src/modules/fiatWallet/fiatWallet.service.ts\<close>): finding and creating the wallets
  of a user, the locked and transactional balance update every money movement goes through, and the
  reconciliation of the USD balance with the provider. An argument \<open>inTrx\<close> tells whether the caller
  passed a database transaction. The lemmas give the balance update as an assertion about every way it
  can end.
\<close>

section \<open>Finding wallets\<close>

definition Invalid_currency :: exn where
  "Invalid_currency = BadRequest ''Invalid currency''"

text \<open>Rows of \<^verbatim>\<open>fiat_wallets\<close> are unique in user and asset.\<close>

definition create_wallet :: "wallet_row \<Rightarrow> (('s, 'm) money_world_scheme, wallet_row) io" where
  "create_wallet r = bind get_state (\<lambda>w.
     if list_ex (\<lambda>x. fw_user x = fw_user r \<and> fw_asset x = fw_asset r) (wallets w)
     then andthen db_step (throw (UniqueViolation ''fiat_wallets_user_id_asset_unique''))
     else repo_create wallet_table r)"

definition is_unique_violation :: "exn \<Rightarrow> bool" where
  "is_unique_violation e = (case e of UniqueViolation _ \<Rightarrow> True | _ \<Rightarrow> False)"

definition find_wallet :: "string \<Rightarrow> string \<Rightarrow> (('s, 'm) money_world_scheme, wallet_row option) io" where
  "find_wallet userId asset = repo_findOne wallet_table (\<lambda>r. fw_user r = userId \<and> fw_asset r = asset)"

definition getUserWallet :: "'s money_env \<Rightarrow> string \<Rightarrow> string \<Rightarrow> (('s, 'm) money_world_scheme, wallet_row) io" where
  "getUserWallet M userId asset =
     (if \<not> isSupportedCurrency asset then throw Invalid_currency
      else bind (find_wallet userId asset) (\<lambda>existingWallet. case existingWallet of
          Some r \<Rightarrow> ret r
        | None \<Rightarrow> catch (bind (new_value M) (\<lambda>i. create_wallet
              \<lparr>fw_id = i, fw_user = userId, fw_asset = asset, fw_balance = 0, fw_credit = 0,
               fw_status = ''active'', fw_accounts = []\<rparr>))
            (\<lambda>e. if is_unique_violation e then bind (find_wallet userId asset) (\<lambda>wallet. case wallet of
                    Some r \<Rightarrow> ret r
                  | None \<Rightarrow> throw (BadRequest ''Failed to create fiat wallet''))
              else throw (BadRequest ''Failed to create fiat wallet''))))"

definition wallet_findById :: "string \<Rightarrow> string option \<Rightarrow> (('s, 'm) money_world_scheme, wallet_row) io" where
  "wallet_findById i user = bind (repo_findById wallet_table i) (\<lambda>fiatWallet. case fiatWallet of
      None \<Rightarrow> throw (BadRequest ''Fiat wallet not found'')
    | Some r \<Rightarrow> if (case user of None \<Rightarrow> False | Some u \<Rightarrow> u \<noteq> fw_user r)
        then throw (BadRequest ''Forbidden Resource'') else ret r)"

text \<open>\<^verbatim>\<open>Promise.all\<close>: every program runs; the first failure is the outcome.\<close>

fun promise_all :: "('w, 'a) io list \<Rightarrow> ('w, 'a list) io" where
  "promise_all [] = ret []"
| "promise_all (m # ms) = (\<lambda>w. case m w of
      (Inl e, w1) \<Rightarrow> (Inl e, snd (promise_all ms w1))
    | (Inr x, w1) \<Rightarrow> (case promise_all ms w1 of (Inl e, w2) \<Rightarrow> (Inl e, w2) | (Inr xs, w2) \<Rightarrow> (Inr (x # xs), w2)))"

definition createAllSupportedCurrenciesWallets :: "'s money_env \<Rightarrow> string \<Rightarrow> (('s, 'm) money_world_scheme, wallet_row list) io" where
  "createAllSupportedCurrenciesWallets M userId =
     promise_all (map (\<lambda>c. getUserWallet M userId (code (snd c))) SUPPORTED_CURRENCIES)"

definition checkIfUserHasAllSupportedCurrenciesWallets :: "string \<Rightarrow> (('s, 'm) money_world_scheme, bool) io" where
  "checkIfUserHasAllSupportedCurrenciesWallets userId =
     bind (findAll wallet_table (\<lambda>r. fw_user r = userId) None None) (\<lambda>pg.
       ret (length (filter (\<lambda>r. list_ex (\<lambda>c. code (snd c) = fw_asset r) SUPPORTED_CURRENCIES) (records pg))
         = length SUPPORTED_CURRENCIES))"

definition findUserWallets :: "'s money_env \<Rightarrow> string \<Rightarrow> (('s, 'm) money_world_scheme, wallet_row page) io" where
  "findUserWallets M userId = bind (checkIfUserHasAllSupportedCurrenciesWallets userId) (\<lambda>hasAll.
     andthen (when_do (\<not> hasAll) (andthen (createAllSupportedCurrenciesWallets M userId) (ret ())))
     (findAll wallet_table (\<lambda>r. fw_user r = userId) None None))"

section \<open>Updating a balance\<close>

record balance_meta =
  bm_description :: "string option"
  bm_provider :: "string option"
  bm_provider_reference :: "string option"
  bm_provider_fee :: "int option"
  bm_provider_metadata :: "(string \<times> json) list"
  bm_source :: "string option"
  bm_destination :: "string option"
  bm_fwt :: "string option"

definition balance_event :: "wallet_row \<Rightarrow> string \<Rightarrow> string \<Rightarrow> int \<Rightarrow> int \<Rightarrow> json" where
  "balance_event wallet walletId tid before after = JObj
     [(''userId'', JStr (fw_user wallet)), (''walletType'', JStr ''fiat''), (''walletId'', JStr walletId),
      (''currency'', JStr (fw_asset wallet)), (''balance'', JStr (show_int after)),
      (''previousBalance'', JStr (show_int before)), (''transactionId'', JStr tid)]"

definition balance_changed :: "wallet_row \<Rightarrow> string \<Rightarrow> string \<Rightarrow> int \<Rightarrow> int \<Rightarrow> (('s, 'm) dbase_scheme, unit) io" where
  "balance_changed wallet walletId tid before after =
     emit ''WALLET_BALANCE_CHANGED'' (balance_event wallet walletId tid before after)"

definition createFiatWalletTransaction :: "'s money_env \<Rightarrow> wallet_row \<Rightarrow> string \<Rightarrow> int \<Rightarrow> string \<Rightarrow> fiat_type \<Rightarrow> tx_status
    \<Rightarrow> balance_meta \<Rightarrow> int \<Rightarrow> int \<Rightarrow> (('s, 'm) money_world_scheme, fwt_row) io" where
  "createFiatWalletTransaction M wallet walletId amount tid ty st meta before after =
     bind (new_value M) (\<lambda>i. bind get_now (\<lambda>t. repo_create fwt_table (blank_fwt
       \<lparr>ft_id := i, ft_wallet := walletId, ft_user := fw_user wallet, ft_transaction := tid, ft_type := ty,
        ft_amount := amount, ft_before := before, ft_after := after, ft_currency := fw_asset wallet,
        ft_status := st, ft_description := bm_description meta, ft_provider := bm_provider meta,
        ft_reference := bm_provider_reference meta, ft_fee := bm_provider_fee meta,
        ft_meta := bm_provider_metadata meta, ft_source := bm_source meta, ft_destination := bm_destination meta,
        ft_completed := (if st = COMPLETED then Some t else None)\<rparr>)))"

definition mark_processed :: "tx_status \<Rightarrow> int \<Rightarrow> int \<Rightarrow> fwt_row \<Rightarrow> fwt_row" where
  "mark_processed st after t r = r\<lparr>ft_status := st, ft_after := after, ft_processed := Some t,
     ft_completed := (if st = COMPLETED then Some t else None)\<rparr>"

text \<open>The entry of the movement: the one named by \<^verbatim>\<open>fiat_wallet_transaction_id\<close> updated, or a new one.\<close>

definition record_movement :: "'s money_env \<Rightarrow> wallet_row \<Rightarrow> string \<Rightarrow> int \<Rightarrow> string \<Rightarrow> fiat_type \<Rightarrow> tx_status
    \<Rightarrow> balance_meta \<Rightarrow> int \<Rightarrow> int \<Rightarrow> (('s, 'm) money_world_scheme, unit) io" where
  "record_movement M wallet walletId amount tid ty st meta before after =
     (if bm_fwt meta \<noteq> None \<and> bm_fwt meta \<noteq> Some [] then
        let i = the (bm_fwt meta) in
        bind (repo_findOne fwt_table (\<lambda>r. ft_id r = i \<and> ft_user r = fw_user wallet)) (\<lambda>ft.
          if ft = None then throw (BadRequest ''Fiat wallet transaction not found'')
          else bind get_now (\<lambda>t. andthen (repo_update_id fwt_table i (mark_processed st after t)) (ret ())))
      else andthen (createFiatWalletTransaction M wallet walletId amount tid ty st meta before after) (ret ()))"

definition updateBalanceWithTransaction :: "'s money_env \<Rightarrow> string \<Rightarrow> int \<Rightarrow> string \<Rightarrow> fiat_type \<Rightarrow> tx_status
    \<Rightarrow> balance_meta \<Rightarrow> wallet_row \<Rightarrow> int \<Rightarrow> int \<Rightarrow> (('s, 'm) money_world_scheme, wallet_row option) io" where
  "updateBalanceWithTransaction M walletId amount tid ty st meta wallet before after = catch
     (bind (repo_update_id wallet_table walletId (\<lambda>r. r\<lparr>fw_balance := after\<rparr>)) (\<lambda>updatedWallet.
      andthen (record_movement M wallet walletId amount tid ty st meta before after)
      (andthen (balance_changed wallet walletId tid before after)
      (ret updatedWallet))))
     (\<lambda>_. throw (BadRequest ''Failed to update wallet balance''))"

definition balanceKey :: "string \<Rightarrow> string" where
  "balanceKey walletId = ''fiat-wallet:'' @ walletId @ '':balance-update''"

definition balanceSection :: "'s money_env \<Rightarrow> string \<Rightarrow> int \<Rightarrow> string \<Rightarrow> fiat_type \<Rightarrow> tx_status
    \<Rightarrow> balance_meta \<Rightarrow> bool \<Rightarrow> (('s, 'm) money_world_scheme, wallet_row option) io" where
  "balanceSection M walletId amount tid ty st meta inTrx =
     bind (wallet_findById walletId None) (\<lambda>wallet.
     bind (repo_findById tx_table tid) (\<lambda>tx. case tx of
         None \<Rightarrow> throw (BadRequest ''Transaction not found'')
       | Some t \<Rightarrow>
           if tx_status t = COMPLETED then throw (BadRequest ''Transaction already completed'')
           else if amount < 0 \<and> fw_balance wallet + amount < 0
             then throw (BadRequest ''Insufficient balance for this transaction'')
           else let before = fw_balance wallet; after = before + amount;
             body = updateBalanceWithTransaction M walletId amount tid ty st meta wallet before after
           in if inTrx then body else transaction body))"

definition updateBalance :: "'s money_env \<Rightarrow> string \<Rightarrow> int \<Rightarrow> string \<Rightarrow> fiat_type \<Rightarrow> tx_status
    \<Rightarrow> balance_meta \<Rightarrow> bool \<Rightarrow> (('s, 'm) money_world_scheme, wallet_row option) io" where
  "updateBalance M walletId amount tid ty st meta inTrx =
     locked M (balanceKey walletId) 5 (balanceSection M walletId amount tid ty st meta inTrx)"

definition checkIfUserHasEnoughBalanceOrThrow :: "string \<Rightarrow> rat \<Rightarrow> string \<Rightarrow> (('s, 'm) money_world_scheme, unit) io" where
  "checkIfUserHasEnoughBalanceOrThrow userId amount currencyCode =
     bind (find_wallet userId currencyCode) (\<lambda>fiatWallet.
     bind (io_of (formatCurrencyAmountToSmallestUnit amount currencyCode)) (\<lambda>needed.
       if (case fiatWallet of None \<Rightarrow> False | Some r \<Rightarrow> fw_balance r < needed)
       then throw (BadRequest ''Insufficient balance'') else ret ()))"

definition getActiveVirtualAccount :: "'s money_env \<Rightarrow> virtual_account list \<Rightarrow> (('s, 'm) money_world_scheme, virtual_account) io" where
  "getActiveVirtualAccount M vas =
     (case List.find (\<lambda>v. map_option to_lower (va_provider v) = Some (to_lower (waas_provider M))) vas of
        None \<Rightarrow> throw (BadRequest ''No active virtual account found'')
      | Some v \<Rightarrow> ret v)"

definition mapWaasTransactionStatusToTransactionStatus :: "json \<Rightarrow> tx_status" where
  "mapWaasTransactionStatusToTransactionStatus j =
     (case j of JStr s \<Rightarrow> if to_lower s = ''success'' then COMPLETED else if to_lower s = ''failed'' then FAILED else PENDING
      | _ \<Rightarrow> PENDING)"

section \<open>Reconciling with the provider\<close>

record reconcile_result =
  rr_success :: bool
  rr_provider :: int
  rr_local :: int
  rr_updated :: bool
  rr_message :: string

text \<open>\<^verbatim>\<open>Number.parseFloat\<close> of a decimal number without exponent; \<open>None\<close> is NaN.\<close>

definition parse_decimal :: "string \<Rightarrow> rat option" where
  "parse_decimal s0 = (let neg = (s0 \<noteq> [] \<and> hd s0 = CHR ''-''); s = (if neg then tl s0 else s0);
     ip = takeWhile is_digit s; rest = dropWhile is_digit s;
     fp = (if rest \<noteq> [] \<and> hd rest = CHR ''.'' then takeWhile is_digit (tl rest) else [])
   in if ip = [] \<and> fp = [] then None
      else Some ((if neg then - 1 else 1) * (of_nat (digits_value ip) + of_nat (digits_value fp) / 10 ^ length fp)))"

definition account_balance :: "json \<Rightarrow> rat option" where
  "account_balance acc = (case jfield ''balance'' acc of
      JStr s \<Rightarrow> if s = [] then Some 0 else parse_decimal s
    | JNum n \<Rightarrow> Some (of_int n) | JDec r \<Rightarrow> Some r | _ \<Rightarrow> Some 0)"

definition sum_balances :: "json list \<Rightarrow> rat option" where
  "sum_balances accs = foldl (\<lambda>acc a. case (acc, account_balance a) of (Some x, Some y) \<Rightarrow> Some (x + y) | _ \<Rightarrow> None) (Some 0) accs"

definition json_list :: "json \<Rightarrow> json list" where
  "json_list j = (case j of JArr xs \<Rightarrow> xs | _ \<Rightarrow> [])"

definition reconcile_failed :: "string \<Rightarrow> reconcile_result" where
  "reconcile_failed m = \<lparr>rr_success = False, rr_provider = 0, rr_local = 0, rr_updated = False, rr_message = m\<rparr>"

definition in_sync :: "int \<Rightarrow> int \<Rightarrow> reconcile_result" where
  "in_sync p l = \<lparr>rr_success = True, rr_provider = p, rr_local = l, rr_updated = False, rr_message = ''Balances are in sync''\<rparr>"

definition reconcileKey :: "string \<Rightarrow> string" where
  "reconcileKey userId = ''fiat-wallet-reconcile:'' @ userId @ '':usd''"

definition reconcileSection :: "string \<Rightarrow> int \<Rightarrow> (('s, 'm) money_world_scheme, reconcile_result) io" where
  "reconcileSection userId providerBalance =
     bind (find_wallet userId ''USD'') (\<lambda>currentWallet. case currentWallet of
         None \<Rightarrow> ret \<lparr>rr_success = False, rr_provider = providerBalance, rr_local = 0, rr_updated = False,
                   rr_message = ''Local USD wallet not found''\<rparr>
       | Some r \<Rightarrow>
           if providerBalance = fw_balance r then ret (in_sync providerBalance (fw_balance r))
           else andthen (repo_update_id wallet_table (fw_id r) (\<lambda>x. x\<lparr>fw_balance := providerBalance\<rparr>))
             (ret \<lparr>rr_success = True, rr_provider = providerBalance, rr_local = fw_balance r, rr_updated = True,
                rr_message = ''Balance updated from '' @ show_int (fw_balance r) @ '' to '' @ show_int providerBalance\<rparr>))"

text \<open>
  A provider balance that is not a number differs from every local balance, and the update with it is
  refused by the database.
\<close>

definition reconcileUsdBalanceFromProvider :: "'s money_env \<Rightarrow> string \<Rightarrow> string \<Rightarrow> (('s, 'm) money_world_scheme, reconcile_result) io" where
  "reconcileUsdBalanceFromProvider M defaultCurrency userId = catch
     (bind (ext_call M ''externalAccountRepository.findOne'' (JObj [(''user_id'', JStr userId), (''provider'', JStr ''zerohash'')])) (\<lambda>externalAccount.
      let participant = jfield ''participant_code'' externalAccount in
      if \<not> js_truthy participant then ret (reconcile_failed ''No external account found for user'')
      else bind (ext_call M ''getAccountDetails'' (JObj [(''accountOwner'', participant), (''asset'', JStr defaultCurrency)])) (\<lambda>accountDetails.
      let accounts = json_list (jfield ''accounts'' accountDetails) in
      if accounts = [] then ret (reconcile_failed ''No accounts found from provider'')
      else (case sum_balances accounts of
          None \<Rightarrow> andthen (getUserWallet M userId ''USD'')
            (locked M (reconcileKey userId) 3 (bind (find_wallet userId ''USD'') (\<lambda>currentWallet.
               if currentWallet = None then ret (reconcile_failed ''Local USD wallet not found'')
               else andthen db_step (throw (DbError ''invalid input syntax for type bigint: NaN'')))))
        | Some provided \<Rightarrow>
            bind (io_of (formatCurrencyAmountToSmallestUnit provided ''USD'')) (\<lambda>providerBalance.
            bind (getUserWallet M userId ''USD'') (\<lambda>localWallet.
              if providerBalance = fw_balance localWallet then ret (in_sync providerBalance (fw_balance localWallet))
              else locked M (reconcileKey userId) 3 (reconcileSection userId providerBalance)))))))
     (\<lambda>e. ret (reconcile_failed (''Reconciliation failed: '' @ message e)))"

section \<open>What a balance update does\<close>

text \<open>The movement is in the ledger: some fiat wallet transaction has the new balance and the status.\<close>

definition recorded :: "tx_status \<Rightarrow> int \<Rightarrow> fwt_row list \<Rightarrow> bool" where
  "recorded st after fs \<longleftrightarrow> (\<exists>f \<in> set fs. ft_status f = st \<and> ft_after f = after)"

lemma record_movement_ok:
  assumes "record_movement M wallet wid amount tid ty st meta before after w = (Inr u, w')"
  shows "wallets w' = wallets w \<and> txs w' = txs w \<and> rds w' = rds w \<and> now w' = now w \<and> recorded st after (fwts w')"
proof (cases "bm_fwt meta \<noteq> None \<and> bm_fwt meta \<noteq> Some []")
  case True
  then obtain i where i: "bm_fwt meta = Some i" "i \<noteq> []" by auto
  note r = assms [unfolded record_movement_def, simplified i Let_def, simplified]
  show ?thesis
  proof (cases rule: fwts.findOne_cases [of "\<lambda>r. ft_id r = i \<and> ft_user r = fw_user wallet" w])
    case (1 e fs)
    then show ?thesis using r i by (simp add: bind_run)
  next
    case (2 fs)
    show ?thesis
    proof (cases "List.find (\<lambda>r. ft_id r = i \<and> ft_user r = fw_user wallet) (fwts w)")
      case None
      then show ?thesis using r i 2 by (simp add: bind_run)
    next
      case (Some f)
      then have "List.find (\<lambda>x. ft_id x = i) (fwts w) \<noteq> None"
        by (metis (no_types, lifting) find_None_iff find_Some_in)
      then obtain f' where f': "List.find (\<lambda>x. ft_id x = i) (fwts w) = Some f'" by auto
      show ?thesis
        by (cases rule: fwts.update_id_cases [of i "mark_processed st after (now w)" "w\<lparr>faults := fs\<rparr>"])
           (use r i 2 Some f' in \<open>auto simp: bind_run andthen_run recorded_def replace_row_def mark_processed_def\<close>)
    qed
  qed
next
  case False
  then have "andthen (createFiatWalletTransaction M wallet wid amount tid ty st meta before after) (ret ()) w = (Inr u, w')"
    using assms by (auto simp: record_movement_def)
  then obtain f v where "repo_create fwt_table f (w\<lparr>draws := Suc (draws w)\<rparr>) = (Inr v, w')" "ft_status f = st" "ft_after f = after"
    unfolding createFiatWalletTransaction_def
    by (force simp: andthen_run bind_run new_value_def split: prod.splits sum.splits)
  then obtain fs where "w' = w\<lparr>draws := Suc (draws w), faults := fs, fwts := f # fwts w\<rparr>" "ft_status f = st" "ft_after f = after"
    by (cases rule: fwts.create_cases [of f "w\<lparr>draws := Suc (draws w)\<rparr>"]) auto
  then show ?thesis by (auto simp: recorded_def)
qed

lemma neutral_record: "aside (record_movement M wallet wid amount tid ty st meta before after)"
  unfolding record_movement_def createFiatWalletTransaction_def by (auto intro!: aside_intros)

text \<open>Nothing in the section touches Redis or the clock.\<close>

definition quiet :: "(('s, 'm) base_scheme, 'a) io \<Rightarrow> bool" where
  "quiet m \<longleftrightarrow> (\<forall>w. rds (snd (m w)) = rds w \<and> now (snd (m w)) = now w)"

lemma quiet_aside: "aside m \<Longrightarrow> quiet m"
  by (simp add: aside_def quiet_def)

lemma quiet_bind: "quiet m \<Longrightarrow> (\<And>x. quiet (f x)) \<Longrightarrow> quiet (bind m f)"
  unfolding quiet_def by (simp add: bind_run split: prod.split sum.split) (metis snd_conv)

lemma quiet_seq: "quiet m \<Longrightarrow> quiet n \<Longrightarrow> quiet (andthen m n)"
  by (simp add: andthen_def quiet_bind)

lemma quiet_catch: "quiet m \<Longrightarrow> (\<And>e. quiet (h e)) \<Longrightarrow> quiet (catch m h)"
  unfolding quiet_def by (simp add: catch_run split: prod.split sum.split) (metis snd_conv)

lemma quiet_transaction: "quiet m \<Longrightarrow> quiet (transaction m)"
proof -
  assume "quiet m"
  then have "quiet (bind m (\<lambda>x. andthen db_step (ret x)))"
    by (intro quiet_bind quiet_seq) (simp_all add: quiet_def)
  then show ?thesis unfolding quiet_def by (simp add: transaction_def split: prod.split sum.split) (metis snd_conv)
qed

lemma quiet_update: "quiet (repo_update_id wallet_table i f)"
  unfolding quiet_def
proof
  fix w :: "('a, 'b) money_world_scheme"
  show "rds (snd (repo_update_id wallet_table i f w)) = rds w \<and> now (snd (repo_update_id wallet_table i f w)) = now w"
    by (cases rule: wallets.update_id_cases [of i f w]) simp_all
qed

lemma quiet_body: "quiet (updateBalanceWithTransaction M wid amount tid ty st meta wallet before after)"
  unfolding updateBalanceWithTransaction_def balance_changed_def
  by (intro quiet_catch quiet_bind quiet_update quiet_seq quiet_aside neutral_record aside_intros)

definition balance_moved :: "string \<Rightarrow> int \<Rightarrow> tx_status \<Rightarrow> ('s, 'm) money_world_scheme \<Rightarrow> ('s, 'm) money_world_scheme
    \<Rightarrow> wallet_row option \<Rightarrow> bool" where
  "balance_moved wid a st w w' u \<longleftrightarrow> (\<exists>r. List.find (\<lambda>x. fw_id x = wid) (wallets w) = Some r
     \<and> u = Some (r\<lparr>fw_balance := fw_balance r + a\<rparr>)
     \<and> wallets w' = replace_row fw_id wid (r\<lparr>fw_balance := fw_balance r + a\<rparr>) (wallets w)
     \<and> txs w' = txs w \<and> (a < 0 \<longrightarrow> 0 \<le> fw_balance r + a) \<and> recorded st (fw_balance r + a) (fwts w'))"

lemma body_ok:
  assumes "updateBalanceWithTransaction M wid amount tid ty st meta wallet before after w = (Inr u, w')"
    and "List.find (\<lambda>x. fw_id x = wid) (wallets w) = Some r"
  shows "u = Some (r\<lparr>fw_balance := after\<rparr>) \<and> wallets w' = replace_row fw_id wid (r\<lparr>fw_balance := after\<rparr>) (wallets w)
    \<and> txs w' = txs w \<and> recorded st after (fwts w')"
proof (cases rule: wallets.update_id_cases [of wid "\<lambda>r. r\<lparr>fw_balance := after\<rparr>" w])
  case (1 e fs)
  then show ?thesis using assms by (simp add: updateBalanceWithTransaction_def catch_run bind_run)
next
  case (2 fs)
  then show ?thesis using assms by simp
next
  case (3 r' fs)
  define w1 where "w1 = w\<lparr>faults := fs, wallets := replace_row fw_id wid (r\<lparr>fw_balance := after\<rparr>) (wallets w)\<rparr>"
  have r': "r' = r" using 3 assms(2) by simp
  obtain v w2 where rm: "record_movement M wallet wid amount tid ty st meta before after w1 = (v, w2)"
    by (cases "record_movement M wallet wid amount tid ty st meta before after w1")
  then obtain x where v: "v = Inr x"
    using assms(1) 3 r' by (cases v) (auto simp: updateBalanceWithTransaction_def catch_run bind_run andthen_run w1_def [symmetric])
  from record_movement_ok [OF rm [unfolded v]] assms(1) 3 r' rm v show ?thesis
    by (auto simp: updateBalanceWithTransaction_def catch_run bind_run andthen_run w1_def [symmetric] balance_changed_def)
       (auto simp: w1_def)
qed

lemma aside_findById: "aside (wallet_findById i u)"
  unfolding wallet_findById_def by (auto intro!: aside_intros)

lemma wallet_findById_cases:
  obtains e fs where "wallet_findById i None w = (Inl e, w\<lparr>faults := fs\<rparr>)"
  | r fs where "List.find (\<lambda>x. fw_id x = i) (wallets w) = Some r" "wallet_findById i None w = (Inr r, w\<lparr>faults := fs\<rparr>)"
  using that by (cases rule: wallets.findOne_cases [of "\<lambda>x. fw_id x = i" w];
    cases "List.find (\<lambda>x. fw_id x = i) (wallets w)")
    (auto simp: wallet_findById_def repo_findById_def bind_run)

text \<open>The section, run in a database transaction of its own or inside the caller's.\<close>

lemma section_ok:
  fixes w :: "('s, 'm) money_world_scheme"
  assumes "balanceSection M wid a tid ty st meta inTrx w = (Inr u, w')"
  shows "balance_moved wid a st w w' u"
proof (cases rule: wallet_findById_cases [of wid w])
  case (1 e fs)
  then show ?thesis using assms by (simp add: balanceSection_def bind_run)
next
  case (2 r fs)
  note s = assms [unfolded balanceSection_def, unfolded bind_run [of "wallet_findById wid None"], unfolded 2(2), simplified]
  show ?thesis
  proof (cases rule: txs.findOne_cases [of "\<lambda>x. tx_id x = tid" "w\<lparr>faults := fs\<rparr>"])
    case (1 e fs')
    then show ?thesis using s by (simp add: bind_run repo_findById_def)
  next
    case (2 fs')
    define w1 where "w1 = w\<lparr>faults := fs'\<rparr>"
    define body :: "(('s, 'm) money_world_scheme, wallet_row option) io" where "body = updateBalanceWithTransaction M wid a tid ty st meta r (fw_balance r) (fw_balance r + a)"
    from s 2 have b: "(if inTrx then body else transaction body) w1 = (Inr u, w')" and neg: "a < 0 \<longrightarrow> 0 \<le> fw_balance r + a"
      by (auto simp: bind_run repo_findById_def w1_def [symmetric] body_def [symmetric] Let_def split: option.splits if_splits)
    have f: "List.find (\<lambda>x. fw_id x = wid) (wallets w1) = Some r" using \<open>List.find _ (wallets w) = Some r\<close> by (simp add: w1_def)
    have "\<exists>w2. body w1 = (Inr u, w2) \<and> wallets w' = wallets w2 \<and> txs w' = txs w2 \<and> fwts w' = fwts w2"
    proof (cases inTrx)
      case False
      with b have "transaction body w1 = (Inr u, w')" by simp
      then show ?thesis by (rule transaction_ok) auto
    qed (use b in auto)
    then obtain w2 where w2: "body w1 = (Inr u, w2)" "wallets w' = wallets w2" "txs w' = txs w2" "fwts w' = fwts w2" by blast
    from body_ok [OF w2(1) [unfolded body_def] f] show ?thesis
      using w2 neg f by (auto simp: balance_moved_def w1_def)
  qed
qed

lemma section_fail:
  fixes w :: "('s, 'm) money_world_scheme"
  assumes "balanceSection M wid a tid ty st meta False w = (Inl e, w')"
  shows "wallets w' = wallets w \<and> txs w' = txs w \<and> fwts w' = fwts w"
proof (cases rule: wallet_findById_cases [of wid w])
  case (1 e fs)
  then show ?thesis using assms by (auto simp: balanceSection_def bind_run)
next
  case (2 r fs)
  note s = assms [unfolded balanceSection_def, unfolded bind_run [of "wallet_findById wid None"], unfolded 2(2), simplified]
  show ?thesis
  proof (cases rule: txs.findOne_cases [of "\<lambda>x. tx_id x = tid" "w\<lparr>faults := fs\<rparr>"])
    case (1 e fs')
    then show ?thesis using s by (auto simp: bind_run repo_findById_def)
  next
    case (2 fs')
    define w1 where "w1 = w\<lparr>faults := fs'\<rparr>"
    show ?thesis
    proof (cases "w' = w1")
      case False
      then obtain body :: "(('s, 'm) money_world_scheme, wallet_row option) io" where "transaction body w1 = (Inl e, w')"
        using s 2 by (auto simp: bind_run repo_findById_def w1_def [symmetric] Let_def split: option.splits if_splits)
      then obtain w2 where "w' = rollback w1 w2" using transaction_aborts [of body w1 e] by auto
      then show ?thesis by (simp add: w1_def)
    qed (simp add: w1_def)
  qed
qed

lemma quiet_section: "quiet (balanceSection M wid a tid ty st meta inTrx)"
proof -
  have "quiet (if c then throw e else m)" if "quiet m" for c e and m :: "(('s, 'm) base_scheme, 'a) io"
    using that by (simp add: quiet_def)
  then show ?thesis unfolding balanceSection_def Let_def
    by (intro quiet_bind quiet_aside [OF aside_findById] quiet_aside [OF aside_reads(5)])
       (auto simp: quiet_def [of "throw _"] intro!: quiet_body quiet_transaction split: option.split)
qed

text \<open>The whole update: all of it, or nothing.\<close>

definition tables_kept :: "('s, 'm) money_world_scheme \<Rightarrow> ('s, 'm) money_world_scheme \<Rightarrow> bool" where
  "tables_kept w w' \<longleftrightarrow> wallets w' = wallets w \<and> txs w' = txs w \<and> fwts w' = fwts w"

text \<open>With a database that works, the section succeeds whenever the funds and the rows are there.\<close>

lemma section_calm_entry:
  assumes "faults w = []" "List.find (\<lambda>x. fw_id x = wid) (wallets w) = Some r"
    and "List.find (\<lambda>x. tx_id x = tid) (txs w) = Some t" "tx_status t \<noteq> COMPLETED"
    and "a < 0 \<longrightarrow> 0 \<le> fw_balance r + a"
    and "bm_fwt meta = Some i" "i \<noteq> []" "List.find (\<lambda>f. ft_id f = i) (fwts w) = Some f" "ft_user f = fw_user r"
  shows "balanceSection M wid a tid ty st meta inTrx w = (Inr (Some (r\<lparr>fw_balance := fw_balance r + a\<rparr>)),
    w\<lparr>wallets := replace_row fw_id wid (r\<lparr>fw_balance := fw_balance r + a\<rparr>) (wallets w),
      fwts := replace_row ft_id i (mark_processed st (fw_balance r + a) (now w) f) (fwts w),
      outbox := (''WALLET_BALANCE_CHANGED'', balance_event r wid tid (fw_balance r) (fw_balance r + a)) # outbox w\<rparr>)"
    (is "_ = (Inr ?u, ?w')")
proof -
  have ff: "List.find (\<lambda>x. ft_id x = i \<and> ft_user x = fw_user r) (fwts w) = Some f"
  proof -
    have "List.find (\<lambda>x. ft_id x = i \<and> ft_user x = fw_user r) xs = Some f"
      if "List.find (\<lambda>f. ft_id f = i) xs = Some f" for xs
      using that assms(9) by (induction xs) (auto split: if_splits)
    then show ?thesis using assms(8) by blast
  qed
  define w1 where "w1 = w\<lparr>wallets := replace_row fw_id wid (r\<lparr>fw_balance := fw_balance r + a\<rparr>) (wallets w)\<rparr>"
  have rm: "record_movement M r wid a tid ty st meta (fw_balance r) (fw_balance r + a) w1
      = (Inr (), w1\<lparr>fwts := replace_row ft_id i (mark_processed st (fw_balance r + a) (now w) f) (fwts w)\<rparr>)"
    using assms ff by (simp add: record_movement_def bind_run andthen_run fwts.findOne_calm fwts.update_id_calm w1_def)
  have body: "updateBalanceWithTransaction M wid a tid ty st meta r (fw_balance r) (fw_balance r + a) w = (Inr ?u, ?w')"
    using assms(1,2) by (simp add: updateBalanceWithTransaction_def catch_run bind_run andthen_run wallets.update_id_calm
        rm [unfolded w1_def] balance_changed_def)
  have t: "transaction (updateBalanceWithTransaction M wid a tid ty st meta r (fw_balance r) (fw_balance r + a)) w = (Inr ?u, ?w')"
    by (rule transaction_calm, rule body) (simp add: assms(1))
  show ?thesis
    using assms(1-5) body t
    by (auto simp: balanceSection_def bind_run wallet_findById_def wallets.findById_calm txs.findById_calm Let_def)
qed

context redis_server
begin

lemma stable_tables: "lock_stable key (tables_kept w)"
  and stable_moved: "lock_stable key (\<lambda>w'. balance_moved wid a st w w' u)"
  by (auto simp: lock_stable_def moved_def tables_kept_def balance_moved_def)

lemma updateBalance_atomic:
  assumes "m_redis M = E"
  shows "triple (\<lambda>w'. w' = w) (updateBalance M wid a tid ty st meta False)
    (\<lambda>u w'. balance_moved wid a st w w' u) (\<lambda>e w'. tables_kept w w')"
proof -
  let ?sec = "balanceSection M wid a tid ty st meta False"
  have sec: "triple (tables_kept w) ?sec (\<lambda>u w'. balance_moved wid a st w w' u) (\<lambda>e w'. tables_kept w w')"
  proof (rule tripleI)
    fix w1 x w'
    assume "tables_kept w w1" "?sec w1 = (Inr x, w')"
    with section_ok [OF this(2)] show "balance_moved wid a st w w' x" by (simp add: tables_kept_def balance_moved_def)
  next
    fix w1 e w'
    assume "tables_kept w w1" "?sec w1 = (Inl e, w')"
    with section_fail [OF this(2)] show "tables_kept w w'" by (simp add: tables_kept_def)
  qed
  have q: "rds (snd (?sec w1)) = rds w1 \<and> now (snd (?sec w1)) = now w1" for w1
    using quiet_section unfolding quiet_def by blast
  have "triple (tables_kept w) (withLockN E own (balanceKey wid) (Some 30000) 5 500 ?sec)
    (\<lambda>u w'. balance_moved wid a st w w' u) (\<lambda>e w'. tables_kept w w' \<or> tables_kept w w')" for own
    by (rule withLockN_triple) (simp_all add: stable_tables stable_moved sec q)
  then have "triple (tables_kept w) (withLockN E own (balanceKey wid) (Some 30000) 5 500 ?sec)
    (\<lambda>u w'. balance_moved wid a st w w' u) (\<lambda>e w'. tables_kept w w')" for own by simp
  then have l: "triple (tables_kept w) (updateBalance M wid a tid ty st meta False)
    (\<lambda>u w'. balance_moved wid a st w w' u) (\<lambda>e w'. tables_kept w w')"
    unfolding updateBalance_def locked_def assms
    by (intro triple_bind [where Q' = "\<lambda>_. tables_kept w"]) (simp_all add: triple_def new_value_def tables_kept_def)
  show ?thesis by (rule triple_conseq [OF l]) (simp_all add: tables_kept_def)
qed

text \<open>A free lock taken and given back: only Redis differs, and only at the lock's key.\<close>

lemma moved_at:
  assumes "moved key w w'" "now w' = now w"
  obtains s where "w' = w\<lparr>rds := s\<rparr>" "\<And>k. k \<noteq> key \<Longrightarrow> ent s (now w) k = view ent w k"
proof -
  obtain s where s: "w' = w\<lparr>rds := s\<rparr>" using assms by (auto simp: moved_def)
  have "ent s (now w) k = view ent w k" if "k \<noteq> key" for k
    using moved_view [OF assms(1) that] view_live [of w] s by simp
  with s that show thesis by blast
qed

lemma between_locks:
  fixes w :: "('s, 'm) dbase_scheme"
  assumes "moved key (w\<lparr>draws := Suc (draws w)\<rparr>) w1" "now w1 = now w" "quiet cb"
    and "moved key (snd (cb w1)) w2" "view ent w2 key = None" "now w2 = now w"
  obtains s s' where "w1 = w\<lparr>draws := Suc (draws w), rds := s\<rparr>" "w2 = (snd (cb w1))\<lparr>rds := s'\<rparr>"
    "\<And>k. k \<noteq> key \<Longrightarrow> ent s' (now w) k = view ent w k" "ent s' (now w) key = None"
proof -
  obtain s where s: "w1 = w\<lparr>draws := Suc (draws w), rds := s\<rparr>" "\<And>k. k \<noteq> key \<Longrightarrow> ent s (now w) k = view ent w k"
    using moved_at [OF assms(1)] assms(2) by (auto simp: view_def)
  have q: "rds (snd (cb w1)) = rds w1" "now (snd (cb w1)) = now w1" using assms(3) by (simp_all add: quiet_def)
  obtain s' where s': "w2 = (snd (cb w1))\<lparr>rds := s'\<rparr>" "\<And>k. k \<noteq> key \<Longrightarrow> ent s' (now w) k = view ent (snd (cb w1)) k"
    using moved_at [OF assms(4)] assms(2,6) q by auto
  have "ent s' (now w) k = view ent w k" if "k \<noteq> key" for k
    using s(1) s(2) [OF that] s'(2) [OF that] q assms(2) by (simp add: view_def)
  moreover have "ent s' (now w) key = None"
    using assms(5,6) s' q assms(2) by (simp add: view_def)
  ultimately show thesis using that [OF s(1) s'(1)] by blast
qed

lemma locked_at:
  fixes w :: "('s, 'm) dbase_scheme"
  assumes "m_redis M = E" "view ent w key = None" "quiet cb"
  obtains s s' where "locked M key (Suc n) cb w = (fst (cb (w\<lparr>draws := Suc (draws w), rds := s\<rparr>)), (snd (cb (w\<lparr>draws := Suc (draws w), rds := s\<rparr>)))\<lparr>rds := s'\<rparr>)"
    "\<And>k. k \<noteq> key \<Longrightarrow> ent s' (now w) k = view ent w k" "ent s' (now w) key = None"
proof -
  define w0 where "w0 = w\<lparr>draws := Suc (draws w)\<rparr>"
  obtain w1 w2 where m: "moved key w0 w1" "now w1 = now w0"
      "withLockN E (m_fresh M (draws w)) key (Some 30000) (Suc n) 500 cb w0 = (fst (cb w1), w2)"
      "moved key (snd (cb w1)) w2" "view ent w2 key = None" "now w2 = now w0"
    by (rule withLockN_free [of key "m_fresh M (draws w)" "Some 30000" w0 cb n 500])
       (use assms in \<open>simp_all add: w0_def view_def quiet_def\<close>)
  have "locked M key (Suc n) cb w = (fst (cb w1), w2)"
    using m(3) by (simp add: locked_def bind_run new_value_def w0_def assms(1))
  then show thesis
    using m that by (auto intro: between_locks [OF m(1) [unfolded w0_def] _ assms(3) m(4,5)] simp: w0_def)
qed

lemma updateBalance_calm:
  assumes "m_redis M = E" "view ent w (balanceKey wid) = None" "faults w = []"
    and "List.find (\<lambda>x. fw_id x = wid) (wallets w) = Some r"
    and "List.find (\<lambda>x. tx_id x = tid) (txs w) = Some t" "tx_status t \<noteq> COMPLETED"
    and "a < 0 \<longrightarrow> 0 \<le> fw_balance r + a"
    and "bm_fwt meta = Some i" "i \<noteq> []" "List.find (\<lambda>f. ft_id f = i) (fwts w) = Some f" "ft_user f = fw_user r"
  obtains s where "updateBalance M wid a tid ty st meta inTrx w = (Inr (Some (r\<lparr>fw_balance := fw_balance r + a\<rparr>)),
    w\<lparr>draws := Suc (draws w), rds := s, wallets := replace_row fw_id wid (r\<lparr>fw_balance := fw_balance r + a\<rparr>) (wallets w),
      fwts := replace_row ft_id i (mark_processed st (fw_balance r + a) (now w) f) (fwts w),
      outbox := (''WALLET_BALANCE_CHANGED'', balance_event r wid tid (fw_balance r) (fw_balance r + a)) # outbox w\<rparr>)"
    "\<And>k. k \<noteq> balanceKey wid \<Longrightarrow> ent s (now w) k = view ent w k" "ent s (now w) (balanceKey wid) = None"
proof -
  let ?sec = "balanceSection M wid a tid ty st meta inTrx"
  obtain s s' where s: "locked M (balanceKey wid) (Suc 4) ?sec w = (fst (?sec (w\<lparr>draws := Suc (draws w), rds := s\<rparr>)),
        (snd (?sec (w\<lparr>draws := Suc (draws w), rds := s\<rparr>)))\<lparr>rds := s'\<rparr>)"
      "\<And>k. k \<noteq> balanceKey wid \<Longrightarrow> ent s' (now w) k = view ent w k" "ent s' (now w) (balanceKey wid) = None"
    using locked_at [OF assms(1,2) quiet_section] by metis
  show thesis
    using section_calm_entry [of "w\<lparr>draws := Suc (draws w), rds := s\<rparr>" wid r tid t a meta i f M ty st inTrx] assms(3-) s
    by (intro that [of s']) (simp_all add: updateBalance_def)
qed

end

section \<open>Finding and reconciling\<close>

definition wallet_key :: "wallet_row \<Rightarrow> string \<times> string" where
  "wallet_key r = (fw_user r, fw_asset r)"

lemma find_wallet_cases:
  obtains e fs where "find_wallet u a w = (Inl e, w\<lparr>faults := fs\<rparr>)"
  | fs where "find_wallet u a w = (Inr (List.find (\<lambda>r. fw_user r = u \<and> fw_asset r = a) (wallets w)), w\<lparr>faults := fs\<rparr>)"
  using that by (cases rule: wallets.findOne_cases [of "\<lambda>r. fw_user r = u \<and> fw_asset r = a" w]) (auto simp: find_wallet_def)

lemma create_wallet_cases:
  obtains e fs where "create_wallet r w = (Inl e, w\<lparr>faults := fs\<rparr>)"
  | fs where "wallet_key r \<notin> wallet_key ` set (wallets w)" "create_wallet r w = (Inr r, w\<lparr>faults := fs, wallets := r # wallets w\<rparr>)"
proof (cases "list_ex (\<lambda>x. fw_user x = fw_user r \<and> fw_asset x = fw_asset r) (wallets w)")
  case True
  obtain v fs where "db_step w = (v, w\<lparr>faults := fs\<rparr>)" by (rule db_step_cases)
  with True that(1) show ?thesis by (cases v) (auto simp: create_wallet_def andthen_run)
next
  case False
  then have k: "wallet_key r \<notin> wallet_key ` set (wallets w)" by (auto simp: list_ex_iff wallet_key_def)
  show ?thesis
    by (cases rule: wallets.create_cases [of r w]) (use False k that in \<open>auto simp: create_wallet_def\<close>)
qed

lemma getUserWallet_result:
  assumes "getUserWallet M u a w = (v, w')"
  shows "(wallets w' = wallets w \<or> (\<exists>r. wallet_key r \<notin> wallet_key ` set (wallets w) \<and> wallets w' = r # wallets w))
    \<and> (\<forall>r. v = Inr r \<longrightarrow> r \<in> set (wallets w') \<and> wallet_key r = (u, a))"
proof (cases "isSupportedCurrency a")
  case True
  have get: "(wallets w2 = wallets w1) \<and> (\<forall>r. v = Inr r \<longrightarrow> r \<in> set (wallets w2) \<and> wallet_key r = (u, a))"
    if "bind (find_wallet u a) (\<lambda>wallet. case wallet of Some r \<Rightarrow> ret r | None \<Rightarrow> throw e) w1 = (v, w2)" for e w1 v w2
    using that by (cases rule: find_wallet_cases [of u a w1])
      (auto simp: bind_run wallet_key_def split: option.splits dest: find_Some_in)
  show ?thesis
  proof (cases rule: find_wallet_cases [of u a w])
    case (1 e fs)
    then show ?thesis using assms True by (auto simp: getUserWallet_def bind_run)
  next
    case (2 fs)
    show ?thesis
    proof (cases "List.find (\<lambda>r. fw_user r = u \<and> fw_asset r = a) (wallets w)")
      case (Some r)
      then show ?thesis using assms True 2 find_Some_in [OF Some]
        by (auto simp: getUserWallet_def bind_run wallet_key_def)
    next
      case None
      define w1 where "w1 = w\<lparr>faults := fs, draws := Suc (draws w)\<rparr>"
      define r where "r = \<lparr>fw_id = m_fresh M (draws w), fw_user = u, fw_asset = a, fw_balance = 0, fw_credit = 0,
               fw_status = ''active'', fw_accounts = []\<rparr>"
      have w1: "wallets w1 = wallets w" by (simp add: w1_def)
      show ?thesis
      proof (cases rule: create_wallet_cases [of r w1])
        case (1 e fs')
        have "(v, w') = (if is_unique_violation e then bind (find_wallet u a) (\<lambda>wallet. case wallet of Some r \<Rightarrow> ret r
             | None \<Rightarrow> throw (BadRequest ''Failed to create fiat wallet'')) (w1\<lparr>faults := fs'\<rparr>)
           else (Inl (BadRequest ''Failed to create fiat wallet''), w1\<lparr>faults := fs'\<rparr>))"
          using assms True 2 None 1
          by (simp add: getUserWallet_def bind_run catch_run new_value_def w1_def [symmetric] r_def [symmetric] split: if_splits)
        then show ?thesis using get [of "BadRequest ''Failed to create fiat wallet''" "w1\<lparr>faults := fs'\<rparr>" v w'] w1
          by (auto split: if_splits)
      next
        case (2 fs')
        then have "v = Inr r" "w' = w1\<lparr>faults := fs', wallets := r # wallets w1\<rparr>"
          using assms True \<open>find_wallet u a w = _\<close> None
          by (simp_all add: getUserWallet_def bind_run catch_run new_value_def w1_def [symmetric] r_def [symmetric])
        with 2 w1 show ?thesis by (auto simp: wallet_key_def r_def)
      qed
    qed
  qed
next
  case False
  then show ?thesis using assms by (auto simp: getUserWallet_def)
qed

section \<open>Properties\<close>

text \<open>
  C27: a balance update is all or nothing at whatever point the database fails: if it returns, the
  wallet has the old balance plus the amount, a withdrawal has not made it negative, the ledger has an
  entry with the new balance and the given status, and no other wallet and no transaction has changed;
  if it throws, no table has changed.
\<close>

theorem balance_update_all_or_nothing:
  assumes "redis_server (m_redis M) ent"
  shows "case updateBalance M wid a tid ty st meta False w of
      (Inr u, w') \<Rightarrow> (\<exists>r. List.find (\<lambda>x. fw_id x = wid) (wallets w) = Some r
        \<and> u = Some (r\<lparr>fw_balance := fw_balance r + a\<rparr>) \<and> (a < 0 \<longrightarrow> 0 \<le> fw_balance r + a)
        \<and> List.find (\<lambda>x. fw_id x = wid) (wallets w') = u
        \<and> (\<forall>i. i \<noteq> wid \<longrightarrow> List.find (\<lambda>x. fw_id x = i) (wallets w') = List.find (\<lambda>x. fw_id x = i) (wallets w))
        \<and> txs w' = txs w \<and> (\<exists>f \<in> set (fwts w'). ft_status f = st \<and> ft_after f = fw_balance r + a))
    | (Inl e, w') \<Rightarrow> wallets w' = wallets w \<and> txs w' = txs w \<and> fwts w' = fwts w"
proof -
  note t = redis_server.updateBalance_atomic [OF assms refl, of w wid a tid ty st meta]
  obtain v w' where u: "updateBalance M wid a tid ty st meta False w = (v, w')"
    by (cases "updateBalance M wid a tid ty st meta False w")
  show ?thesis
  proof (cases v)
    case (Inl e)
    with triple_fail [OF t] u show ?thesis by (auto simp: tables_kept_def)
  next
    case (Inr x)
    with triple_ok [OF t] u have b: "balance_moved wid a st w w' x" by simp
    then obtain r where r: "List.find (\<lambda>x. fw_id x = wid) (wallets w) = Some r" by (auto simp: balance_moved_def)
    then have i: "fw_id r = wid" by (auto dest: find_Some_in)
    have o: "List.find (\<lambda>x. fw_id x = i) (filter (\<lambda>x. fw_id x \<noteq> wid) (wallets w)) = List.find (\<lambda>x. fw_id x = i) (wallets w)"
      if "i \<noteq> wid" for i by (rule find_filter_other) (use that in auto)
    from b r i show ?thesis by (auto simp: u Inr balance_moved_def replace_row_def recorded_def o)
  qed
qed

text \<open>
  With a database that works and the balance lock free, the update goes through whenever the
  wallet and an uncompleted transaction exist and a withdrawal is covered.
\<close>

theorem balance_update_succeeds:
  assumes "redis_server (m_redis M) ent" "view ent w (balanceKey wid) = None" "faults w = []"
    and "List.find (\<lambda>x. fw_id x = wid) (wallets w) = Some r"
    and "List.find (\<lambda>x. tx_id x = tid) (txs w) = Some t" "tx_status t \<noteq> COMPLETED"
    and "a < 0 \<longrightarrow> 0 \<le> fw_balance r + a"
    and "bm_fwt meta = Some i" "i \<noteq> []" "List.find (\<lambda>f. ft_id f = i) (fwts w) = Some f" "ft_user f = fw_user r"
  shows "fst (updateBalance M wid a tid ty st meta inTrx w) = Inr (Some (r\<lparr>fw_balance := fw_balance r + a\<rparr>))"
  by (rule redis_server.updateBalance_calm [where ty = ty and st = st and inTrx = inTrx, OF assms(1) refl assms(2-)]) simp

text \<open>
  A user has one wallet per currency: whatever the database does, \<^verbatim>\<open>getUserWallet\<close> keeps user and
  currency unique, removes no wallet, and what it returns is a stored wallet of the user in the currency.
\<close>

theorem one_wallet_per_currency:
  assumes "distinct (map (\<lambda>r. (fw_user r, fw_asset r)) (wallets w))" "getUserWallet M u a w = (v, w')"
  shows "distinct (map (\<lambda>r. (fw_user r, fw_asset r)) (wallets w')) \<and> set (wallets w) \<subseteq> set (wallets w')
    \<and> (\<forall>r. v = Inr r \<longrightarrow> r \<in> set (wallets w') \<and> fw_user r = u \<and> fw_asset r = a)"
  using getUserWallet_result [OF assms(2)] assms(1) by (auto simp: wallet_key_def [abs_def])

definition demo_meta :: balance_meta where
  "demo_meta = \<lparr>bm_description = None, bm_provider = None, bm_provider_reference = None, bm_provider_fee = None,
     bm_provider_metadata = [], bm_source = None, bm_destination = None, bm_fwt = Some ''f''\<rparr>"

lemma demo_meta_fwt [simp]: "bm_fwt demo_meta = Some ''f''"
  by (simp add: demo_meta_def)

lemma balance_update_succeeds_witness:
  "fst (updateBalance demo_money_env ''w'' (- 300) ''t'' F_WITHDRAWAL INITIATED demo_meta False demo_money)
    = Inr (Some (demo_wallet\<lparr>fw_balance := 700\<rparr>))"
  using balance_update_succeeds [OF demo_server, of demo_money "''w''" demo_wallet "''t''" demo_tx "- 300" demo_meta "''f''" demo_fwt]
  by simp

lemma balance_update_all_or_nothing_witness:
  "List.find (\<lambda>x. fw_id x = ''other'')
     (wallets (snd (updateBalance demo_money_env ''w'' (- 300) ''t'' F_WITHDRAWAL INITIATED demo_meta False demo_money))) = None"
proof -
  obtain v w' where u: "updateBalance demo_money_env ''w'' (- 300) ''t'' F_WITHDRAWAL INITIATED demo_meta False demo_money = (v, w')"
    by (cases "updateBalance demo_money_env ''w'' (- 300) ''t'' F_WITHDRAWAL INITIATED demo_meta False demo_money")
  show ?thesis
    using balance_update_all_or_nothing [OF demo_server, where w = demo_money and wid = "''w''" and a = "- 300" and tid = "''t''"
        and ty = F_WITHDRAWAL and st = INITIATED and meta = demo_meta] u
    by (cases v) auto
qed

lemma one_wallet_per_currency_witness:
  "distinct (map (\<lambda>r. (fw_user r, fw_asset r)) (wallets (snd (getUserWallet demo_money_env ''u'' ''USD'' demo_money))))"
  using one_wallet_per_currency [of demo_money demo_money_env "''u''" "''USD''"]
  by (cases "getUserWallet demo_money_env ''u'' ''USD'' demo_money") (simp add: demo_money_def)

end
