(* ===== verification/TxStatus.thy ===== *)
theory TxStatus
  imports FiatWallet
begin

text \<open>
  The status of transactions: \<^verbatim>\<open>updateStatus\<close> of \<^verbatim>\<open>TransactionService\<close>
  (\<^verbatim>\<open>src/modules/transaction/transaction.service.ts\<close>) and of \<^verbatim>\<open>FiatWalletTransactionService\<close>
  (\<^verbatim>\<open>src/modules/fiatWalletTransactions/fiatWalletTransactions.service.ts\<close>), with the \<^verbatim>\<open>create\<close>
  methods. Both take a lock without a retry count, so the number of attempts is the fuel \<open>m_patience\<close>
  (\<open>withLockW_free\<close> shows that one attempt is enough when the lock is free). The properties say which
  changes of status are possible, and what a caller is told when a notification fails.
\<close>

section \<open>Creating\<close>

definition tx_create :: "'s money_env \<Rightarrow> string \<Rightarrow> tx_row \<Rightarrow> (('s, 'm) money_world_scheme, tx_row) io" where
  "tx_create M userId data = bind (new_value M) (\<lambda>i. bind get_now (\<lambda>t.
     repo_create tx_table (data\<lparr>tx_id := i, tx_user := userId, tx_processed := Some t\<rparr>)))"

definition fwt_create :: "'s money_env \<Rightarrow> string \<Rightarrow> fwt_row \<Rightarrow> (('s, 'm) money_world_scheme, fwt_row) io" where
  "fwt_create M userId data = bind (repo_findById wallet_table (ft_wallet data)) (\<lambda>fiatWallet.
     if fiatWallet = None then throw (NotFound ''Fiat wallet not found'')
     else catch (bind (new_value M) (\<lambda>i. insert_fwt (data\<lparr>ft_id := i, ft_user := userId\<rparr>)))
       (\<lambda>_. throw (BadRequest ''Failed to create fiat wallet transaction'')))"

section \<open>Status changes\<close>

definition terminal :: "tx_status \<Rightarrow> bool" where
  "terminal s \<longleftrightarrow> s \<in> {COMPLETED, FAILED, CANCELLED}"

record status_meta =
  sm_reference :: "string option"
  sm_request_ref :: "string option"
  sm_metadata :: "(string \<times> json) list option"
  sm_failure :: "string option"
  sm_balance_after :: "int option"

definition no_meta :: status_meta where
  "no_meta = \<lparr>sm_reference = None, sm_request_ref = None, sm_metadata = None, sm_failure = None, sm_balance_after = None\<rparr>"

definition given :: "string option \<Rightarrow> bool" where
  "given x \<longleftrightarrow> x \<noteq> None \<and> x \<noteq> Some []"

definition fwt_status_data :: "tx_status \<Rightarrow> status_meta \<Rightarrow> int \<Rightarrow> fwt_row \<Rightarrow> fwt_row" where
  "fwt_status_data st m t r = r\<lparr>ft_status := st,
     ft_processed := (if st = PROCESSING then Some t else ft_processed r),
     ft_completed := (if st = COMPLETED then Some t else ft_completed r),
     ft_failed := (if st = FAILED then Some t else ft_failed r),
     ft_failure := (if (st = FAILED \<or> st = REVIEW) \<and> given (sm_failure m) then sm_failure m else ft_failure r),
     ft_reference := (if given (sm_reference m) then sm_reference m else ft_reference r),
     ft_request_ref := (if given (sm_request_ref m) then sm_request_ref m else ft_request_ref r),
     ft_meta := (case sm_metadata m of None \<Rightarrow> ft_meta r | Some x \<Rightarrow> x)\<rparr>"

definition fwt_meta_only :: "status_meta \<Rightarrow> fwt_row \<Rightarrow> fwt_row" where
  "fwt_meta_only m r = r\<lparr>ft_reference := (if given (sm_reference m) then sm_reference m else ft_reference r),
     ft_meta := (case sm_metadata m of None \<Rightarrow> ft_meta r | Some x \<Rightarrow> x)\<rparr>"

definition fwt_statusKey :: "string \<Rightarrow> string" where
  "fwt_statusKey i = ''fiat-wallet-transaction:'' @ i @ '':update-status''"

definition fwt_section :: "string \<Rightarrow> tx_status \<Rightarrow> status_meta \<Rightarrow> (('s, 'm) money_world_scheme, fwt_row option) io" where
  "fwt_section i st m = bind (repo_findById fwt_table i) (\<lambda>existing. case existing of
      None \<Rightarrow> throw (NotFound (''Fiat wallet transaction with id '' @ i @ '' not found''))
    | Some r \<Rightarrow>
        if terminal (ft_status r) \<and> ft_status r \<noteq> st then
          (if given (sm_reference m) \<or> sm_metadata m \<noteq> None then repo_update_id fwt_table i (fwt_meta_only m)
           else ret (Some r))
        else bind get_now (\<lambda>t. repo_update_id fwt_table i (fwt_status_data st m t)))"

definition fwt_updateStatus :: "'s money_env \<Rightarrow> string \<Rightarrow> tx_status \<Rightarrow> status_meta \<Rightarrow> (('s, 'm) money_world_scheme, fwt_row option) io" where
  "fwt_updateStatus M i st m = locked_wait M (fwt_statusKey i) (fwt_section i st m)"

text \<open>
  A transaction: the metadata given are merged into the stored ones; without any, the stored ones
  serve as the given ones.
\<close>

definition json_merge :: "(string \<times> json) list \<Rightarrow> (string \<times> json) list \<Rightarrow> (string \<times> json) list" where
  "json_merge old new = new @ filter (\<lambda>p. fst p \<notin> fst ` set new) old"

definition stored_int :: "(string \<times> json) list \<Rightarrow> string \<Rightarrow> int option" where
  "stored_int fs k = (case map_of fs k of Some (JNum n) \<Rightarrow> Some n | _ \<Rightarrow> None)"

definition tx_status_data :: "tx_status \<Rightarrow> status_meta option \<Rightarrow> int \<Rightarrow> tx_row \<Rightarrow> tx_row" where
  "tx_status_data st mo t r = (let m = (case mo of None \<Rightarrow> no_meta | Some x \<Rightarrow> x);
       ba = (case mo of None \<Rightarrow> stored_int (tx_meta r) ''balance_after'' | Some x \<Rightarrow> sm_balance_after x) in
     r\<lparr>tx_status := st,
       tx_processed := (if st = PROCESSING then Some t else tx_processed r),
       tx_completed := (if st = COMPLETED then Some t else tx_completed r),
       tx_failed := (if st = FAILED then Some t else tx_failed r),
       tx_failure := (if (st = FAILED \<or> st = REVIEW) \<and> given (sm_failure m) then sm_failure m else tx_failure r),
       tx_external := (if given (sm_reference m) then sm_reference m else tx_external r),
       tx_meta := (case sm_metadata m of None \<Rightarrow> tx_meta r | Some x \<Rightarrow> json_merge (tx_meta r) x),
       tx_after := (case ba of None \<Rightarrow> tx_after r | Some b \<Rightarrow> b)\<rparr>)"

record notify_options =
  no_in_app :: bool
  no_email :: bool
  no_push :: bool

definition all_notifications :: notify_options where
  "all_notifications = \<lparr>no_in_app = True, no_email = True, no_push = True\<rparr>"

definition no_notifications :: notify_options where
  "no_notifications = \<lparr>no_in_app = False, no_email = False, no_push = False\<rparr>"

definition tx_payload :: "tx_row \<Rightarrow> json" where
  "tx_payload r = JObj [(''user_id'', JStr (tx_user r)), (''transactionId'', JStr (tx_id r)),
     (''amount'', JNum (tx_amount r)), (''asset'', JStr (tx_asset r))]"

definition createNotification :: "'s money_env \<Rightarrow> json \<Rightarrow> (('s, 'm) dbase_scheme, unit) io" where
  "createNotification M p = andthen (ext_call M ''createNotification'' p) (ret ())"

text \<open>Push messages and e-mails never fail: their errors are logged.\<close>

definition quietly :: "(('s, 'm) dbase_scheme, json) io \<Rightarrow> (('s, 'm) dbase_scheme, unit) io" where
  "quietly m = catch (andthen m (ret ())) (\<lambda>_. ret ())"

definition sendTransactionPushNotification :: "'s money_env \<Rightarrow> json \<Rightarrow> (('s, 'm) dbase_scheme, unit) io" where
  "sendTransactionPushNotification M p = quietly (bind (ext_call M ''userProfile'' p) (\<lambda>profile.
     if js_truthy (jfield ''notification_token'' profile) then ext_call M ''sendPushNotification'' p else ret JNull))"

definition sendTransactionEmailNotification :: "'s money_env \<Rightarrow> tx_row \<Rightarrow> (('s, 'm) dbase_scheme, unit) io" where
  "sendTransactionEmailNotification M r =
     (if tx_asset r \<noteq> ''USD'' then ret ()
      else if tx_type r \<notin> {T_DEPOSIT, T_WITHDRAWAL, T_TRANSFER_IN, T_TRANSFER_OUT, T_REWARD} then ret ()
      else quietly (bind (ext_call M ''user'' (tx_payload r)) (\<lambda>_. ext_call M ''sendMail'' (tx_payload r))))"

definition getParentTransaction :: "tx_row \<Rightarrow> (('s, 'm) money_world_scheme, tx_row) io" where
  "getParentTransaction r = (case tx_parent r of
      None \<Rightarrow> ret r
    | Some p \<Rightarrow> if p = [] then ret r
        else bind (repo_findOne tx_table (\<lambda>x. tx_id x = p)) (\<lambda>x. case x of None \<Rightarrow> throw undefined_row | Some y \<Rightarrow> ret y))"

definition notify_status :: "'s money_env \<Rightarrow> tx_status \<Rightarrow> notify_options \<Rightarrow> tx_row \<Rightarrow> (('s, 'm) money_world_scheme, unit) io" where
  "notify_status M st opts r =
     (if st = COMPLETED then
        andthen (when_do (tx_type r = T_EXCHANGE) (bind (getParentTransaction r) (\<lambda>p.
           if formatCurrencyAmountToMainUnit (tx_amount p) (tx_asset p) = None then throw undefined_row else ret ())))
        (andthen (when_do (no_in_app opts) (createNotification M (tx_payload r)))
        (andthen (when_do (no_push opts) (sendTransactionPushNotification M (tx_payload r)))
        (when_do (no_email opts) (sendTransactionEmailNotification M r))))
      else if st = FAILED then
        andthen (createNotification M (tx_payload r)) (sendTransactionPushNotification M (tx_payload r))
      else ret ())"

definition tx_statusKey :: "string \<Rightarrow> string" where
  "tx_statusKey i = ''transaction:'' @ i @ '':update-status''"

definition tx_section :: "'s money_env \<Rightarrow> string \<Rightarrow> tx_status \<Rightarrow> status_meta option \<Rightarrow> notify_options
    \<Rightarrow> (('s, 'm) money_world_scheme, tx_row option) io" where
  "tx_section M i st mo opts = bind (repo_findById_graph tx_table i) (\<lambda>existing.
     if terminal (tx_status existing) \<and> tx_status existing \<noteq> st then ret (Some existing)
     else bind get_now (\<lambda>t. bind (repo_update_id tx_table i (tx_status_data st mo t)) (\<lambda>updated.
       andthen (when_do (tx_status existing \<noteq> st) (case updated of
           None \<Rightarrow> throw undefined_row | Some r \<Rightarrow> notify_status M st opts r))
       (ret updated))))"

definition tx_updateStatus :: "'s money_env \<Rightarrow> string \<Rightarrow> tx_status \<Rightarrow> status_meta option \<Rightarrow> notify_options
    \<Rightarrow> (('s, 'm) money_world_scheme, tx_row option) io" where
  "tx_updateStatus M i st mo opts = locked_wait M (tx_statusKey i) (tx_section M i st mo opts)"

section \<open>Requests one after the other\<close>

text \<open>Requests to change the status of transactions, each run to its end whatever it answers.\<close>

type_synonym status_request = "string \<times> tx_status \<times> status_meta option \<times> notify_options"

fun serve :: "'s money_env \<Rightarrow> status_request list \<Rightarrow> ('s, 'm) money_world_scheme \<Rightarrow> ('s, 'm) money_world_scheme" where
  "serve M [] w = w"
| "serve M ((i, st, mo, opts) # reqs) w = serve M reqs (snd (tx_updateStatus M i st mo opts w))"

text \<open>What may become of the status of one transaction.\<close>

definition status_of :: "('s, 'm) money_world_scheme \<Rightarrow> string \<Rightarrow> tx_status option" where
  "status_of w i = map_option tx_status (List.find (\<lambda>r. tx_id r = i) (txs w))"

definition fwt_status_of :: "('s, 'm) money_world_scheme \<Rightarrow> string \<Rightarrow> tx_status option" where
  "fwt_status_of w i = map_option ft_status (List.find (\<lambda>r. ft_id r = i) (fwts w))"

section \<open>What the sections do\<close>

lemma findOne_txs [simp]: "txs (snd (repo_findOne tx_table P w)) = txs w"
  by (cases rule: txs.findOne_cases [of P w]) simp_all

lemma keeps_txs [keeps_intros]:
  "keeps (\<lambda>w. txs w = T) (ext_call M what p)" "keeps (\<lambda>w. txs w = T) (new_value M)"
  "keeps (\<lambda>w. txs w = T) (repo_findOne tx_table P)"
  by (simp_all add: keeps_def ext_call_def new_value_def call_ext_def)

lemma notify_txs: "keeps (\<lambda>w. txs w = T) (notify_status M st opts r)"
  unfolding notify_status_def createNotification_def sendTransactionPushNotification_def quietly_def
    sendTransactionEmailNotification_def getParentTransaction_def
  by (auto intro!: keeps_intros split: option.split)

lemma txs_after_notify: "txs (snd (notify_status M st opts r w)) = txs w"
  using keepsD [OF notify_txs [of "txs w"]] by blast

lemma tx_status_data_simps [simp]: "tx_id (tx_status_data st mo t r) = tx_id r" "tx_status (tx_status_data st mo t r) = st"
  by (simp_all add: tx_status_data_def Let_def)

lemma find_replaced:
  assumes "List.find (\<lambda>r. rid r = j) rs = Some r" "rid r' = j"
  shows "List.find (\<lambda>r. rid r = i) (replace_row rid j r' rs) = (if i = j then Some r' else List.find (\<lambda>r. rid r = i) rs)"
proof -
  have "List.find (\<lambda>r. rid r = i) (filter (\<lambda>x. rid x \<noteq> j) rs) = List.find (\<lambda>r. rid r = i) rs" if "i \<noteq> j"
    by (rule find_filter_other) (use that in auto)
  with assms(2) show ?thesis by (simp add: replace_row_def)
qed

text \<open>
  One section, wherever it fails: the transaction it is about takes the requested status or keeps its
  own, keeps it when it is terminal, and no other transaction changes.
\<close>

lemma tx_section_status:
  "status_of (snd (tx_section M j st mo opts w)) i = status_of w i
    \<or> i = j \<and> (\<exists>s. status_of w i = Some s \<and> (terminal s \<longrightarrow> s = st)) \<and> status_of (snd (tx_section M j st mo opts w)) i = Some st"
proof (cases rule: txs.findOne_cases [of "\<lambda>r. tx_id r = j" w])
  case (1 e fs)
  then show ?thesis by (simp add: tx_section_def repo_findById_graph_def repo_findById_def bind_run status_of_def)
next
  case (2 fs)
  show ?thesis
  proof (cases "List.find (\<lambda>r. tx_id r = j) (txs w)")
    case None
    with 2 show ?thesis by (simp add: tx_section_def repo_findById_graph_def repo_findById_def bind_run status_of_def)
  next
    case (Some r)
    then have id: "tx_id r = j" by (auto dest: find_Some_in)
    define w1 where "w1 = w\<lparr>faults := fs\<rparr>"
    have w1: "txs w1 = txs w" by (simp add: w1_def)
    show ?thesis
    proof (cases "terminal (tx_status r) \<and> tx_status r \<noteq> st")
      case True
      with 2 Some show ?thesis by (simp add: tx_section_def repo_findById_graph_def repo_findById_def bind_run status_of_def)
    next
      case False
      show ?thesis
      proof (cases rule: txs.update_id_cases [of j "tx_status_data st mo (now w1)" w1])
        case (1 e fs')
        with 2 Some False show ?thesis
          by (simp add: tx_section_def repo_findById_graph_def repo_findById_def bind_run status_of_def w1_def [symmetric])
             (simp add: w1_def)
      next
        case (2 fs')
        with Some w1 show ?thesis by simp
      next
        case (3 r' fs')
        then have r': "r' = r" using Some w1 by simp
        define w2 where "w2 = w1\<lparr>faults := fs', txs := replace_row tx_id j (tx_status_data st mo (now w1) r) (txs w)\<rparr>"
        have "snd (tx_section M j st mo opts w) = snd (andthen (when_do (tx_status r \<noteq> st)
            (notify_status M st opts (tx_status_data st mo (now w1) r))) (ret (Some (tx_status_data st mo (now w1) r))) w2)"
          using 2 Some False 3 r'
          by (auto simp: tx_section_def repo_findById_graph_def repo_findById_def bind_run w1_def [symmetric] w2_def w1)
        also have "txs \<dots> = txs w2"
          by (simp add: andthen_run when_run split: prod.split sum.split) (metis snd_conv txs_after_notify)
        finally have "txs (snd (tx_section M j st mo opts w)) = replace_row tx_id j (tx_status_data st mo (now w1) r) (txs w)"
          by (simp add: w2_def)
        with Some id False show ?thesis
          by (auto simp: status_of_def find_replaced [OF Some])
      qed
    qed
  qed
qed

lemma keeps_terminal: "keeps (\<lambda>w. status_of w i = Some s \<and> terminal s) (tx_section M j st mo opts)"
  unfolding keeps_def
proof (intro allI impI)
  fix w :: "('a, 'b) money_world_scheme"
  assume "status_of w i = Some s \<and> terminal s"
  then show "status_of (snd (tx_section M j st mo opts w)) i = Some s \<and> terminal s"
    using tx_section_status [of M j st mo opts w i] by auto
qed

context redis_server
begin

lemma tx_update_terminal:
  assumes "m_redis M = E"
  shows "keeps (\<lambda>w. status_of w i = Some s \<and> terminal s) (tx_updateStatus M j st mo opts)"
proof -
  have "lock_stable key (\<lambda>w :: ('s, 'm) money_world_scheme. status_of w i = Some s \<and> terminal s)" for key
    by (auto simp: lock_stable_def moved_def status_of_def)
  then show ?thesis
    unfolding tx_updateStatus_def locked_wait_def assms withLockW_def
    by (intro keeps_bind keeps_withLockN keeps_terminal) (simp_all add: keeps_def new_value_def status_of_def)
qed

lemma tx_update_once:
  assumes "m_redis M = E"
  shows "keeps (\<lambda>w. status_of w i = Some st \<and> outbox w = O') (tx_updateStatus M i st mo opts)"
proof -
  have "keeps (\<lambda>w. status_of w i = Some st \<and> outbox w = O') (tx_section M i st mo opts)"
    unfolding keeps_def
  proof (intro allI impI)
    fix w :: "('s, 'm) money_world_scheme"
    assume a: "status_of w i = Some st \<and> outbox w = O'"
    then obtain r where r: "List.find (\<lambda>r. tx_id r = i) (txs w) = Some r" "tx_status r = st"
      by (auto simp: status_of_def)
    have "outbox (snd (tx_section M i st mo opts w)) = outbox w"
    proof (cases rule: txs.findOne_cases [of "\<lambda>r. tx_id r = i" w])
      case (1 e fs)
      then show ?thesis by (simp add: tx_section_def repo_findById_graph_def repo_findById_def bind_run)
    next
      case (2 fs)
      show ?thesis
        by (cases rule: txs.update_id_cases [of i "tx_status_data st mo (now w)" "w\<lparr>faults := fs\<rparr>"])
           (use 2 r in \<open>auto simp: tx_section_def repo_findById_graph_def repo_findById_def bind_run andthen_run when_run\<close>)
    qed
    then show "status_of (snd (tx_section M i st mo opts w)) i = Some st \<and> outbox (snd (tx_section M i st mo opts w)) = O'"
      using tx_section_status [of M i st mo opts w i] a by auto
  qed
  moreover have "lock_stable key (\<lambda>w :: ('s, 'm) money_world_scheme. status_of w i = Some st \<and> outbox w = O')" for key
    by (auto simp: lock_stable_def moved_def status_of_def)
  ultimately show ?thesis
    unfolding tx_updateStatus_def locked_wait_def assms withLockW_def
    by (intro keeps_bind keeps_withLockN) (simp_all add: keeps_def new_value_def status_of_def)
qed

text \<open>A lock without a retry count that is free: the section runs at once, between two moves of the lock.\<close>

lemma locked_wait_free:
  assumes "m_redis M = E" "0 < m_patience M" "view ent w key = None" "quiet cb"
  obtains w1 w2 where "moved key (w\<lparr>draws := Suc (draws w)\<rparr>) w1" "now w1 = now w"
    "locked_wait M key cb w = (fst (cb w1), w2)" "moved key (snd (cb w1)) w2" "view ent w2 key = None" "now w2 = now w"
proof -
  define w0 where "w0 = w\<lparr>draws := Suc (draws w)\<rparr>"
  obtain n where n: "m_patience M = Suc n" using assms(2) by (cases "m_patience M") auto
  obtain w1 w2 where m: "moved key w0 w1" "now w1 = now w0"
      "withLockN E (m_fresh M (draws w)) key None (Suc n) 250 cb w0 = (fst (cb w1), w2)"
      "moved key (snd (cb w1)) w2" "view ent w2 key = None" "now w2 = now w0"
    by (rule withLockN_free [of key "m_fresh M (draws w)" None w0 cb n 250])
       (use assms in \<open>simp_all add: w0_def view_def quiet_def\<close>)
  then show thesis using that [of w1 w2]
    by (simp add: locked_wait_def bind_run new_value_def withLockW_def n w0_def assms(1) view_def)
qed

lemma locked_wait_at:
  fixes w :: "('s, 'm) dbase_scheme"
  assumes "m_redis M = E" "0 < m_patience M" "view ent w key = None" "quiet cb"
  obtains s s' where "locked_wait M key cb w = (fst (cb (w\<lparr>draws := Suc (draws w), rds := s\<rparr>)), (snd (cb (w\<lparr>draws := Suc (draws w), rds := s\<rparr>)))\<lparr>rds := s'\<rparr>)"
    "\<And>k. k \<noteq> key \<Longrightarrow> ent s' (now w) k = view ent w k" "ent s' (now w) key = None"
proof -
  obtain w1 w2 where m: "moved key (w\<lparr>draws := Suc (draws w)\<rparr>) w1" "now w1 = now w"
    "locked_wait M key cb w = (fst (cb w1), w2)" "moved key (snd (cb w1)) w2" "view ent w2 key = None" "now w2 = now w"
    by (rule locked_wait_free [OF assms])
  show thesis
    by (rule between_locks [OF m(1,2) assms(4) m(4-6)]) (use m(3) that in auto)
qed

end

lemma quiet_sections:
  "quiet (fwt_section i st m)" "quiet (tx_section M i st mo opts)"
proof -
  have q: "quiet (repo_update_id tx_table i f)" "quiet (repo_update_id fwt_table i g)"
    "quiet (repo_findById tx_table i)" "quiet (repo_findById fwt_table i)" for i f g
    by (rule quiet_aside, rule aside_intros)+
  show "quiet (fwt_section i st m)"
    unfolding fwt_section_def by (auto intro!: quiet_aside aside_intros)
  have "aside (notify_status M st opts r)" for r
    unfolding notify_status_def createNotification_def sendTransactionPushNotification_def quietly_def
      sendTransactionEmailNotification_def getParentTransaction_def
    by (auto intro!: aside_intros)
  then show "quiet (tx_section M i st mo opts)"
    unfolding tx_section_def repo_findById_graph_def
    by (auto intro!: quiet_aside aside_intros)
qed

section \<open>Properties\<close>

text \<open>
  C29: a completed, failed or cancelled transaction stays so: no sequence of status requests on any
  transactions, with whatever failures of the database and the notifications, changes a terminal status.
\<close>

theorem terminal_status_final:
  assumes "redis_server (m_redis M) ent" "status_of w i = Some s" "terminal s"
  shows "status_of (serve M reqs w) i = Some s"
  using assms(2)
proof (induction reqs arbitrary: w)
  case (Cons req reqs)
  obtain j st mo opts where req: "req = (j, st, mo, opts)" by (cases req)
  have "status_of (snd (tx_updateStatus M j st mo opts w)) i = Some s"
    using keepsD [OF redis_server.tx_update_terminal [OF assms(1) refl], of w i s] Cons.prems assms(3) by blast
  with Cons.IH show ?case by (simp add: req)
qed simp

lemma terminal_status_final_witness:
  "status_of (serve demo_money_env [(''t'', FAILED, None, all_notifications), (''t'', PENDING, None, no_notifications)]
     (demo_money\<lparr>txs := [demo_tx\<lparr>tx_status := COMPLETED\<rparr>]\<rparr>)) ''t'' = Some COMPLETED"
  by (rule terminal_status_final [OF demo_server]) (simp_all add: status_of_def terminal_def demo_tx_def)

text \<open>
  Asking for the status a transaction already has notifies nobody: no call of a collaborator is
  made, whatever the status and whatever else happens.
\<close>

theorem repeated_status_is_silent:
  assumes "redis_server (m_redis M) ent" "status_of w i = Some st"
  shows "outbox (snd (tx_updateStatus M i st mo opts w)) = outbox w
    \<and> status_of (snd (tx_updateStatus M i st mo opts w)) i = Some st"
  using keepsD [OF redis_server.tx_update_once [OF assms(1) refl], of w i st "outbox w"] assms(2) by blast

lemma repeated_status_is_silent_witness:
  "outbox (snd (tx_updateStatus demo_money_env ''t'' INITIATED None all_notifications demo_money)) = []"
  using repeated_status_is_silent [OF demo_server, of demo_money "''t''" INITIATED None all_notifications]
  by (simp add: status_of_def)

text \<open>
  A notification that fails makes \<^verbatim>\<open>updateStatus\<close> throw although the new status is stored: with the
  lock free, a database that works and an open transaction that is not an exchange, a failing in-app
  notification of the completion is reported to the caller, and the transaction is completed.
\<close>

theorem failed_notification_after_commit:
  assumes "redis_server (m_redis M) ent" "0 < m_patience M" "view ent w (tx_statusKey i) = None" "faults w = []"
    and "List.find (\<lambda>r. tx_id r = i) (txs w) = Some r" "\<not> terminal (tx_status r)" "tx_type r \<noteq> T_EXCHANGE"
    and "no_in_app opts" "m_ext M (outbox w) ''createNotification'' (tx_payload (tx_status_data COMPLETED mo (now w) r)) = Inl e"
  shows "fst (tx_updateStatus M i COMPLETED mo opts w) = Inl e
    \<and> status_of (snd (tx_updateStatus M i COMPLETED mo opts w)) i = Some COMPLETED"
proof -
  obtain w1 w2 where m: "redis_server.moved ent (tx_statusKey i) (w\<lparr>draws := Suc (draws w)\<rparr>) w1" "now w1 = now w"
      "locked_wait M (tx_statusKey i) (tx_section M i COMPLETED mo opts) w = (fst (tx_section M i COMPLETED mo opts w1), w2)"
      "redis_server.moved ent (tx_statusKey i) (snd (tx_section M i COMPLETED mo opts w1)) w2"
    by (rule redis_server.locked_wait_free [OF assms(1) refl assms(2,3) quiet_sections(2)])
  obtain s where w1: "w1 = w\<lparr>draws := Suc (draws w), rds := s\<rparr>"
    using m(1,2) by (auto simp: redis_server.moved_def [OF assms(1)])
  have id: "tx_id r = i" using assms(5) by (auto dest: find_Some_in)
  have t: "tx_type (tx_status_data COMPLETED mo (now w) r) \<noteq> T_EXCHANGE" "tx_status r \<noteq> COMPLETED"
    using assms(6,7) by (auto simp: tx_status_data_def Let_def terminal_def)
  have "fst (tx_section M i COMPLETED mo opts w1) = Inl e \<and> status_of (snd (tx_section M i COMPLETED mo opts w1)) i = Some COMPLETED"
    using assms(4-6,8,9) t id
    by (simp add: tx_section_def repo_findById_graph_def repo_findById_def bind_run andthen_run when_run txs.findOne_calm
        txs.update_id_calm w1 notify_status_def createNotification_def ext_call_def call_ext_run status_of_def find_replaced [OF assms(5)])
  then show ?thesis
    using m(3,4) by (auto simp: tx_updateStatus_def redis_server.moved_def [OF assms(1)] status_of_def)
qed

lemma failed_notification_after_commit_witness:
  "fst (tx_updateStatus (demo_money_env\<lparr>m_ext := \<lambda>_ _ _. Inl (PlainError ''down'')\<rparr>) ''t'' COMPLETED None all_notifications demo_money)
     = Inl (PlainError ''down'')"
  using failed_notification_after_commit [of "demo_money_env\<lparr>m_ext := \<lambda>_ _ _. Inl (PlainError ''down'')\<rparr>" ks_ent demo_money "''t''"
      demo_tx all_notifications None "PlainError ''down''"] demo_server
  by (simp add: terminal_def all_notifications_def) (simp add: demo_money_defs)

text \<open>
  A provider reference that arrives after a wallet entry became final is still stored, and the
  status stays.
\<close>

theorem late_reference_is_stored:
  assumes "redis_server (m_redis M) ent" "0 < m_patience M" "view ent w (fwt_statusKey i) = None" "faults w = []"
    and "List.find (\<lambda>r. ft_id r = i) (fwts w) = Some r" "terminal (ft_status r)" "ft_status r \<noteq> st"
    and "sm_reference m = Some ref" "ref \<noteq> []"
  shows "\<exists>r'. List.find (\<lambda>r. ft_id r = i) (fwts (snd (fwt_updateStatus M i st m w))) = Some r'
    \<and> ft_status r' = ft_status r \<and> ft_reference r' = Some ref \<and> ft_completed r' = ft_completed r \<and> ft_failed r' = ft_failed r"
proof -
  obtain w1 w2 where m: "redis_server.moved ent (fwt_statusKey i) (w\<lparr>draws := Suc (draws w)\<rparr>) w1" "now w1 = now w"
      "locked_wait M (fwt_statusKey i) (fwt_section i st m) w = (fst (fwt_section i st m w1), w2)"
      "redis_server.moved ent (fwt_statusKey i) (snd (fwt_section i st m w1)) w2"
    by (rule redis_server.locked_wait_free [OF assms(1) refl assms(2,3) quiet_sections(1)])
  obtain s where w1: "w1 = w\<lparr>draws := Suc (draws w), rds := s\<rparr>"
    using m(1,2) by (auto simp: redis_server.moved_def [OF assms(1)])
  have id: "ft_id r = i" using assms(5) by (auto dest: find_Some_in)
  have "fwts (snd (fwt_section i st m w1)) = replace_row ft_id i (fwt_meta_only m r) (fwts w)"
    using assms(4-9) by (simp add: fwt_section_def repo_findById_def bind_run fwts.findOne_calm fwts.update_id_calm w1 given_def)
  moreover have "fwts w2 = fwts (snd (fwt_section i st m w1))"
    using m(4) by (auto simp: redis_server.moved_def [OF assms(1)])
  ultimately show ?thesis
    using m(3) id assms(8,9)
    by (simp add: fwt_updateStatus_def find_replaced [OF assms(5)] fwt_meta_only_def given_def)
qed

lemma late_reference_is_stored_witness:
  "\<exists>r'. List.find (\<lambda>r. ft_id r = ''f'') (fwts (snd (fwt_updateStatus demo_money_env ''f'' PENDING (no_meta\<lparr>sm_reference := Some ''trade''\<rparr>)
       (demo_money\<lparr>fwts := [demo_fwt\<lparr>ft_status := COMPLETED\<rparr>]\<rparr>)))) = Some r' \<and> ft_reference r' = Some ''trade''"
proof -
  have "view ks_ent (demo_money\<lparr>fwts := [demo_fwt\<lparr>ft_status := COMPLETED\<rparr>]\<rparr>) (fwt_statusKey ''f'') = None"
    by (simp add: view_def ks_ent_def demo_money_def live_def)
  then show ?thesis
    using late_reference_is_stored [OF demo_server, of "demo_money\<lparr>fwts := [demo_fwt\<lparr>ft_status := COMPLETED\<rparr>]\<rparr>" "''f''"
        "demo_fwt\<lparr>ft_status := COMPLETED\<rparr>" PENDING "no_meta\<lparr>sm_reference := Some ''trade''\<rparr>" "''trade''"]
    by (auto simp: terminal_def demo_money_env_def demo_fwt_def)
qed

end
