(* ===== verification/CircuitBreaker.thy ===== *)
theory CircuitBreaker
  imports Redis
begin

text \<open>
  The circuit breaker around an external provider
  (\<^verbatim>\<open>circuitBreaker.service.ts\<close>): two sorted sets of attempt times, a state key, the time the
  circuit opened and a counter of half-open attempts, all in Redis. The failure rate, a double in
  the source, is an exact rational. The events the service emits are the value of
  \<open>checkAndUpdateState\<close>. \<open>circuit_next\<close> is the abstract circuit the service refines; the last
  lemmas follow the circuit after it has opened.
\<close>

section \<open>Configuration and keys\<close>

definition failureThreshold :: rat where "failureThreshold = 1 / 2"
definition windowSeconds :: int where "windowSeconds = 900"
definition minAttempts :: int where "minAttempts = 10"
definition openDurationSeconds :: int where "openDurationSeconds = 300"
definition halfOpenMaxAttempts :: int where "halfOpenMaxAttempts = 3"

lemmas cb_config = failureThreshold_def windowSeconds_def minAttempts_def openDurationSeconds_def
  halfOpenMaxAttempts_def

definition getStateKey :: "string \<Rightarrow> string" where
  "getStateKey p = ''circuit-breaker:'' @ p @ '':state''"

definition getFailuresKey :: "string \<Rightarrow> string" where
  "getFailuresKey p = ''circuit-breaker:'' @ p @ '':failures''"

definition getSuccessesKey :: "string \<Rightarrow> string" where
  "getSuccessesKey p = ''circuit-breaker:'' @ p @ '':successes''"

definition getOpenedAtKey :: "string \<Rightarrow> string" where
  "getOpenedAtKey p = ''circuit-breaker:'' @ p @ '':opened-at''"

definition getHalfOpenAttemptsKey :: "string \<Rightarrow> string" where
  "getHalfOpenAttemptsKey p = ''circuit-breaker:'' @ p @ '':half-open-attempts''"

section \<open>The state and the counters\<close>

abbreviation CLOSED :: rtext where "CLOSED \<equiv> Raw ''CLOSED''"
abbreviation OPEN :: rtext where "OPEN \<equiv> Raw ''OPEN''"
abbreviation HALF_OPEN :: rtext where "HALF_OPEN \<equiv> Raw ''HALF_OPEN''"

definition or_closed :: "rtext option \<Rightarrow> rtext" where
  "or_closed v = (case v of None \<Rightarrow> CLOSED | Some t \<Rightarrow> if t = Raw [] then CLOSED else t)"

definition getState :: "'s redis_env \<Rightarrow> string \<Rightarrow> (('s, 'm) base_scheme, rtext) io" where
  "getState E p = map_io or_closed (rs_get E (getStateKey p))"

definition setState :: "'s redis_env \<Rightarrow> string \<Rightarrow> rtext \<Rightarrow> (('s, 'm) base_scheme, unit) io" where
  "setState E p st = andthen (rs_set E (getStateKey p) st (Some (windowSeconds * 2))) (ret ())"

definition number_or :: "int option \<Rightarrow> rtext option \<Rightarrow> int option" where
  "number_or d v = (case v of None \<Rightarrow> d | Some t \<Rightarrow> if t = Raw [] then d else text_int t)"

definition getOpenedAt :: "'s redis_env \<Rightarrow> string \<Rightarrow> (('s, 'm) base_scheme, int option) io" where
  "getOpenedAt E p = map_io (number_or None) (rs_get E (getOpenedAtKey p))"

definition setOpenedAt :: "'s redis_env \<Rightarrow> string \<Rightarrow> int \<Rightarrow> (('s, 'm) base_scheme, unit) io" where
  "setOpenedAt E p timestamp =
     andthen (rs_set E (getOpenedAtKey p) (Raw (show_int timestamp)) (Some (openDurationSeconds + 60))) (ret ())"

definition clearOpenedAt :: "'s redis_env \<Rightarrow> string \<Rightarrow> (('s, 'm) base_scheme, unit) io" where
  "clearOpenedAt E p = andthen (rs_del E [getOpenedAtKey p]) (ret ())"

definition getHalfOpenAttempts :: "'s redis_env \<Rightarrow> string \<Rightarrow> (('s, 'm) base_scheme, int option) io" where
  "getHalfOpenAttempts E p = map_io (number_or (Some 0)) (rs_get E (getHalfOpenAttemptsKey p))"

definition incrementHalfOpenAttempts :: "'s redis_env \<Rightarrow> string \<Rightarrow> (('s, 'm) base_scheme, unit) io" where
  "incrementHalfOpenAttempts E p =
     andthen (rc_incr E (getHalfOpenAttemptsKey p))
     (andthen (rs_expire E (getHalfOpenAttemptsKey p) 60) (ret ()))"

definition resetHalfOpenAttempts :: "'s redis_env \<Rightarrow> string \<Rightarrow> (('s, 'm) base_scheme, unit) io" where
  "resetHalfOpenAttempts E p = andthen (rs_del E [getHalfOpenAttemptsKey p]) (ret ())"

section \<open>The operations\<close>

datatype circuit_event =
    CircuitOpened string rat int int int
  | CircuitClosed string rat int int int

definition zcount :: "'s redis_env \<Rightarrow> string \<Rightarrow> int \<Rightarrow> int \<Rightarrow> (('s, 'm) base_scheme, int) io" where
  "zcount E k lo hi = map_io reply_int (redis_call E (ZCOUNT k lo hi))"

definition checkAndUpdateState :: "'s redis_env \<Rightarrow> string \<Rightarrow> (('s, 'm) base_scheme, circuit_event list) io" where
  "checkAndUpdateState E p = bind get_now (\<lambda>t.
     let windowStart = t - windowSeconds * 1000 in
     bind (zcount E (getFailuresKey p) windowStart t) (\<lambda>failures.
     bind (zcount E (getSuccessesKey p) windowStart t) (\<lambda>successes.
     let total = failures + successes in
     if total < minAttempts then ret []
     else let failureRate = of_int failures / of_int total in
     bind (getState E p) (\<lambda>currentState.
     if failureThreshold \<le> failureRate then
       (if currentState = CLOSED \<or> currentState = HALF_OPEN then
          andthen (setState E p OPEN)
          (andthen (setOpenedAt E p t)
          (ret [CircuitOpened p failureRate failures total t]))
        else ret [])
     else if currentState = HALF_OPEN then
       andthen (setState E p CLOSED)
       (andthen (clearOpenedAt E p)
       (andthen (resetHalfOpenAttempts E p)
       (ret [CircuitClosed p failureRate failures total t])))
     else ret []))))"

definition recordAttempt :: "'s redis_env \<Rightarrow> string \<Rightarrow> bool \<Rightarrow> (('s, 'm) base_scheme, circuit_event list) io" where
  "recordAttempt E p success = bind get_now (\<lambda>t.
     let key = (if success then getSuccessesKey p else getFailuresKey p);
         windowStart = t - windowSeconds * 1000 in
     andthen (redis_call E (ZADD key t (show_int t)))
     (andthen (redis_call E (ZREMRANGEBYSCORE key windowStart))
     (andthen (rs_expire E key windowSeconds)
     (checkAndUpdateState E p))))"

datatype verdict = Allowed | Refused string

definition unavailable :: "int \<Rightarrow> string" where
  "unavailable remainingSeconds =
     ''Withdrawal service temporarily unavailable due to high provider failure rate. Please try again in ''
     @ show_int remainingSeconds @ '' second(s).''"

definition recovery_testing :: string where
  "recovery_testing = ''Service recovery testing in progress. Please try again shortly.''"

text \<open>
  \<^verbatim>\<open>now - openedAt\<close> with a null \<^verbatim>\<open>openedAt\<close> is \<open>now\<close>. \<open>ceil_div\<close> is \<^verbatim>\<open>Math.ceil(a / b)\<close>.
  A stored number that is not one (NaN) makes every comparison false.
\<close>

definition ceil_div :: "int \<Rightarrow> int \<Rightarrow> int" where
  "ceil_div a b = - ((- a) div b)"

definition canProceed :: "'s redis_env \<Rightarrow> string \<Rightarrow> (('s, 'm) base_scheme, verdict) io" where
  "canProceed E p = bind (getState E p) (\<lambda>state.
     if state = CLOSED then ret Allowed
     else if state = OPEN then
       bind (getOpenedAt E p) (\<lambda>openedAt. bind get_now (\<lambda>t.
         if (case openedAt of None \<Rightarrow> False
             | Some a \<Rightarrow> a \<noteq> 0 \<and> openDurationSeconds * 1000 < t - a) then
           andthen (setState E p HALF_OPEN)
           (andthen (resetHalfOpenAttempts E p) (ret Allowed))
         else let remainingSeconds = ceil_div (openDurationSeconds * 1000
                - (t - (case openedAt of None \<Rightarrow> 0 | Some a \<Rightarrow> a))) 1000 in
           ret (Refused (unavailable remainingSeconds))))
     else if state = HALF_OPEN then
       bind (getHalfOpenAttempts E p) (\<lambda>testAttempts.
         if (case testAttempts of None \<Rightarrow> False | Some n \<Rightarrow> n < halfOpenMaxAttempts) then
           andthen (incrementHalfOpenAttempts E p) (ret Allowed)
         else ret (Refused recovery_testing))
     else ret Allowed)"

definition forceOpen :: "'s redis_env \<Rightarrow> string \<Rightarrow> (('s, 'm) base_scheme, unit) io" where
  "forceOpen E p = andthen (setState E p OPEN) (bind get_now (\<lambda>t. setOpenedAt E p t))"

definition forceClose :: "'s redis_env \<Rightarrow> string \<Rightarrow> (('s, 'm) base_scheme, unit) io" where
  "forceClose E p = andthen (setState E p CLOSED) (andthen (clearOpenedAt E p) (resetHalfOpenAttempts E p))"

record circuit_stats =
  st_state :: rtext
  st_failures :: int
  st_successes :: int
  st_failureRate :: rat
  st_openedAt :: "int option"

definition getStats :: "'s redis_env \<Rightarrow> string \<Rightarrow> (('s, 'm) base_scheme, circuit_stats) io" where
  "getStats E p = bind get_now (\<lambda>t.
     let windowStart = t - windowSeconds * 1000 in
     bind (zcount E (getFailuresKey p) windowStart t) (\<lambda>failures.
     bind (zcount E (getSuccessesKey p) windowStart t) (\<lambda>successes.
     let total = failures + successes;
         failureRate = (if 0 < total then of_int failures / of_int total else 0) in
     bind (getState E p) (\<lambda>s. bind (getOpenedAt E p) (\<lambda>opened.
     ret \<lparr>st_state = s, st_failures = failures, st_successes = successes,
          st_failureRate = failureRate, st_openedAt = opened\<rparr>)))))"

text \<open>Calls of \<open>canProceed\<close> one after the other.\<close>

primrec polls :: "'s redis_env \<Rightarrow> nat \<Rightarrow> string \<Rightarrow> (('s, 'm) base_scheme, verdict list) io" where
  "polls E 0 p = ret []"
| "polls E (Suc n) p = bind (polls E n p) (\<lambda>vs. bind (canProceed E p) (\<lambda>v. ret (vs @ [v])))"

section \<open>The abstract circuit\<close>

datatype circuit = Closed | Open | HalfOpen

fun circuit_text :: "circuit \<Rightarrow> rtext" where
  "circuit_text Closed = CLOSED"
| "circuit_text Open = OPEN"
| "circuit_text HalfOpen = HALF_OPEN"

text \<open>
  The circuit after an evaluation with \<open>f\<close> failures and \<open>s\<close> successes in the window: below ten
  attempts nothing happens; at a rate of one half or more it opens; below that a half-open
  circuit closes.
\<close>

definition circuit_next :: "int \<Rightarrow> int \<Rightarrow> circuit \<Rightarrow> circuit" where
  "circuit_next f s c = (if f + s < 10 then c else if s \<le> f then Open
     else if c = HalfOpen then Closed else c)"

definition in_window :: "int \<Rightarrow> (string \<times> int) list \<Rightarrow> int" where
  "in_window t zs = int (length (filter (\<lambda>p. t - 900000 \<le> snd p \<and> snd p \<le> t) zs))"

lemma in_window_nonneg [simp]: "0 \<le> in_window t zs"
  by (simp add: in_window_def)

definition circuit_of :: "'s redis_env \<Rightarrow> string \<Rightarrow> keyspace \<Rightarrow> circuit \<Rightarrow> bool" where
  "circuit_of E p ks c \<longleftrightarrow> (\<exists>v. the_str ks (prefixKey E (getStateKey p)) = Some v \<and> or_closed v = circuit_text c)"

lemma circuit_text_eqs [simp]:
  "circuit_text c = CLOSED \<longleftrightarrow> c = Closed" "circuit_text c = OPEN \<longleftrightarrow> c = Open"
  "circuit_text c = HALF_OPEN \<longleftrightarrow> c = HalfOpen"
  by (cases c; simp)+

lemma or_closed_circuit: "or_closed (Some (circuit_text c)) = circuit_text c"
  by (cases c) (simp_all add: or_closed_def)

lemma cb_keys [simp]:
  "getStateKey p \<noteq> getOpenedAtKey p" "getOpenedAtKey p \<noteq> getStateKey p"
  "getStateKey p \<noteq> getHalfOpenAttemptsKey p" "getHalfOpenAttemptsKey p \<noteq> getStateKey p"
  "getOpenedAtKey p \<noteq> getHalfOpenAttemptsKey p" "getHalfOpenAttemptsKey p \<noteq> getOpenedAtKey p"
  by (simp_all add: getStateKey_def getOpenedAtKey_def getHalfOpenAttemptsKey_def)

lemma rate_threshold:
  fixes f s :: int
  assumes "0 \<le> f" "0 \<le> s" "10 \<le> f + s"
  shows "failureThreshold \<le> (of_int f / of_int (f + s) :: rat) \<longleftrightarrow> s \<le> f"
proof -
  have "(0::rat) < of_int (f + s)" using assms by (simp only: of_int_0_less_iff)
  then have "failureThreshold \<le> (of_int f / of_int (f + s) :: rat) \<longleftrightarrow> of_int (f + s) \<le> (2 * of_int f :: rat)"
    by (simp add: failureThreshold_def field_simps)
  also have "\<dots> \<longleftrightarrow> (of_int (f + s) :: rat) \<le> of_int (2 * f)" by simp
  also have "\<dots> \<longleftrightarrow> s \<le> f" by (simp only: of_int_le_iff) linarith
  finally show ?thesis .
qed

context redis_server
begin

lemma setState_ok: "fst (setState E p st w) = Inr ()"
  and setState_view: "view ent (snd (setState E p st w))
    = (view ent w)(prefixKey E (getStateKey p) := Some (RStr st, Some (now w + 1800000)))"
  and setState_now: "now (snd (setState E p st w)) = now w"
  by (simp_all add: setState_def run px_ok_def windowSeconds_def)

lemma setOpenedAt_ok: "fst (setOpenedAt E p x w) = Inr ()"
  and setOpenedAt_view: "view ent (snd (setOpenedAt E p x w))
    = (view ent w)(prefixKey E (getOpenedAtKey p) := Some (RStr (Raw (show_int x)), Some (now w + 360000)))"
  and setOpenedAt_now: "now (snd (setOpenedAt E p x w)) = now w"
  by (simp_all add: setOpenedAt_def run px_ok_def openDurationSeconds_def)

lemma clearOpenedAt_ok: "fst (clearOpenedAt E p w) = Inr ()"
  and clearOpenedAt_view: "view ent (snd (clearOpenedAt E p w)) = (view ent w)(prefixKey E (getOpenedAtKey p) := None)"
  and clearOpenedAt_now: "now (snd (clearOpenedAt E p w)) = now w"
  by (simp_all add: clearOpenedAt_def run fun_eq_iff)

lemma resetHalfOpen_ok: "fst (resetHalfOpenAttempts E p w) = Inr ()"
  and resetHalfOpen_view: "view ent (snd (resetHalfOpenAttempts E p w))
    = (view ent w)(prefixKey E (getHalfOpenAttemptsKey p) := None)"
  and resetHalfOpen_now: "now (snd (resetHalfOpenAttempts E p w)) = now w"
  by (simp_all add: resetHalfOpenAttempts_def run fun_eq_iff)

lemmas cb_views = setState_view setOpenedAt_view clearOpenedAt_view resetHalfOpen_view
  setState_now setOpenedAt_now clearOpenedAt_now resetHalfOpen_now

lemma cb_seq:
  "andthen (setState E p st) n w = n (snd (setState E p st w))"
  "andthen (setOpenedAt E p x) n w = n (snd (setOpenedAt E p x w))"
  "andthen (clearOpenedAt E p) n w = n (snd (clearOpenedAt E p w))"
  "andthen (resetHalfOpenAttempts E p) n w = n (snd (resetHalfOpenAttempts E p w))"
  by (rule seq_ok, rule setState_ok setOpenedAt_ok clearOpenedAt_ok resetHalfOpen_ok)+

text \<open>A call that reads the circuit leaves the key space as it is.\<close>

lemma getState_run:
  assumes "the_str (view ent w) (prefixKey E (getStateKey p)) = Some v"
  shows "bind (getState E p) f w = f (or_closed v) (snd (getState E p w))"
    and "view ent (snd (getState E p w)) = view ent w"
    and "now (snd (getState E p w)) = now w"
  using assms by (auto simp: getState_def run split: option.splits)

lemma zcount_run:
  assumes "the_zset (view ent w) k = Some zs"
  shows "bind (zcount E k lo hi) f w
    = f (int (length (filter (\<lambda>p. lo \<le> snd p \<and> snd p \<le> hi) zs))) (snd (zcount E k lo hi w))"
    and "view ent (snd (zcount E k lo hi w)) = view ent w"
    and "now (snd (zcount E k lo hi w)) = now w"
  using assms by (auto simp: zcount_def run split: option.splits)

lemma getHalfOpenAttempts_run:
  assumes "the_str (view ent w) (prefixKey E (getHalfOpenAttemptsKey p)) = Some v"
  shows "bind (getHalfOpenAttempts E p) f w = f (number_or (Some 0) v) (snd (getHalfOpenAttempts E p w))"
    and "view ent (snd (getHalfOpenAttempts E p w)) = view ent w"
    and "now (snd (getHalfOpenAttempts E p w)) = now w"
  using assms by (auto simp: getHalfOpenAttempts_def run split: option.splits)

lemma incrementHalfOpen_run:
  assumes "\<not> own_prefix E (getHalfOpenAttemptsKey p)"
    and "view ent w (prefixKey E (getHalfOpenAttemptsKey p)) = None"
    and "the_str (view ent w) (getHalfOpenAttemptsKey p) = Some (if n = 0 then None else Some (Raw (show_int (int n))))"
  shows "fst (incrementHalfOpenAttempts E p w) = Inr ()"
    and "view ent (snd (incrementHalfOpenAttempts E p w))
      = put (getHalfOpenAttemptsKey p) (RStr (Raw (show_int (int (Suc n))))) (view ent w)"
  using assms prefixKey_raw [OF assms(1)]
  by (auto simp: incrementHalfOpenAttempts_def run put_def ac_simps split: if_splits)

lemma getOpenedAt_run:
  assumes "the_str (view ent w) (prefixKey E (getOpenedAtKey p)) = Some v"
  shows "bind (getOpenedAt E p) f w = f (number_or None v) (snd (getOpenedAt E p w))"
    and "view ent (snd (getOpenedAt E p w)) = view ent w"
    and "now (snd (getOpenedAt E p w)) = now w"
  using assms by (auto simp: getOpenedAt_def run split: option.splits)

end

section \<open>The service refines the abstract circuit\<close>

lemma circuit_of_upd [simp]:
  "circuit_of E p (ks(prefixKey E (getStateKey p) := Some (RStr (Raw t), d))) c
    \<longleftrightarrow> or_closed (Some (Raw t)) = circuit_text c"
  "j \<noteq> getStateKey p \<Longrightarrow> circuit_of E p (ks(prefixKey E j := x)) c = circuit_of E p ks c"
  by (auto simp: circuit_of_def the_str_def)

lemma or_closed_texts [simp]:
  "or_closed (Some OPEN) = OPEN" "or_closed (Some CLOSED) = CLOSED" "or_closed (Some HALF_OPEN) = HALF_OPEN"
  by (simp_all add: or_closed_def)

context redis_server
begin

lemma check_refines:
  assumes fz: "the_zset (view ent w) (getFailuresKey p) = Some fs"
    and sz: "the_zset (view ent w) (getSuccessesKey p) = Some ss"
    and c: "circuit_of E p (view ent w) c"
  shows "circuit_of E p (view ent (snd (checkAndUpdateState E p w)))
      (circuit_next (in_window (now w) fs) (in_window (now w) ss) c)
    \<and> (\<exists>evs. fst (checkAndUpdateState E p w) = Inr evs
        \<and> (evs = [] \<longleftrightarrow> circuit_next (in_window (now w) fs) (in_window (now w) ss) c = c))"
proof -
  obtain v where v: "the_str (view ent w) (prefixKey E (getStateKey p)) = Some v" "or_closed v = circuit_text c"
    using c by (auto simp: circuit_of_def)
  let ?a = "snd (zcount E (getFailuresKey p) (now w - 900000) (now w) w)"
  let ?b = "snd (zcount E (getSuccessesKey p) (now w - 900000) (now w) ?a)"
  let ?d = "snd (getState E p ?b)"
  have a: "view ent ?a = view ent w" "now ?a = now w"
    by (simp_all add: zcount_run [OF fz])
  have sz': "the_zset (view ent ?a) (getSuccessesKey p) = Some ss" using sz a by simp
  have b: "view ent ?b = view ent w" "now ?b = now w"
    using zcount_run(2,3) [OF sz'] a by simp_all
  have v': "the_str (view ent ?b) (prefixKey E (getStateKey p)) = Some v" using v b by simp
  have d: "view ent ?d = view ent w" "now ?d = now w"
    using getState_run(2,3) [OF v'] b by simp_all
  let ?f = "in_window (now w) fs" and ?s = "in_window (now w) ss"
  have e: "checkAndUpdateState E p w = (if ?f + ?s < minAttempts then ret [] ?b
     else (let failureRate = of_int ?f / of_int (?f + ?s) in
       if failureThreshold \<le> failureRate then
       (if circuit_text c = CLOSED \<or> circuit_text c = HALF_OPEN then
          andthen (setState E p OPEN) (andthen (setOpenedAt E p (now w))
          (ret [CircuitOpened p failureRate ?f (?f + ?s) (now w)])) else ret [])
     else if circuit_text c = HALF_OPEN then
       andthen (setState E p CLOSED) (andthen (clearOpenedAt E p) (andthen (resetHalfOpenAttempts E p)
       (ret [CircuitClosed p failureRate ?f (?f + ?s) (now w)])))
     else ret []) ?d)"
    by (simp add: checkAndUpdateState_def Let_def zcount_run(1) [OF fz] zcount_run(1) [OF sz']
        getState_run(1) [OF v'] v(2) windowSeconds_def in_window_def)
  show ?thesis
  proof (cases "?f + ?s < 10")
    case True
    then show ?thesis using c b by (simp add: e circuit_next_def minAttempts_def)
  next
    case False
    then have r: "failureThreshold \<le> (of_int ?f / of_int (?f + ?s) :: rat) \<longleftrightarrow> ?s \<le> ?f"
      by (intro rate_threshold) simp_all
    show ?thesis
      using False c d by (cases c) (simp_all add: e r circuit_next_def minAttempts_def cb_seq cb_views Let_def del: of_int_add)
  qed
qed

text \<open>What \<open>canProceed\<close> does in an open circuit, by the time it opened.\<close>

lemma open_poll:
  assumes "circuit_of E p (view ent w) Open"
    and "the_str (view ent w) (prefixKey E (getOpenedAtKey p)) = Some v"
  shows "canProceed E p w = (let w1 = snd (getOpenedAt E p (snd (getState E p w))) in
    (if (case number_or None v of None \<Rightarrow> False | Some a \<Rightarrow> a \<noteq> 0 \<and> 300000 < now w - a) then
       (Inr Allowed, snd (resetHalfOpenAttempts E p (snd (setState E p HALF_OPEN w1))))
     else (Inr (Refused (unavailable (ceil_div (300000 - (now w - (case number_or None v of None \<Rightarrow> 0 | Some a \<Rightarrow> a))) 1000))), w1)))
    \<and> view ent (snd (getOpenedAt E p (snd (getState E p w)))) = view ent w
    \<and> now (snd (getOpenedAt E p (snd (getState E p w)))) = now w"
proof -
  obtain s where s: "the_str (view ent w) (prefixKey E (getStateKey p)) = Some s" "or_closed s = OPEN"
    using assms(1) by (auto simp: circuit_of_def)
  have v: "the_str (view ent (snd (getState E p w))) (prefixKey E (getOpenedAtKey p)) = Some v"
    using assms(2) getState_run(2) [OF s(1)] by simp
  show ?thesis
    by (cases "number_or None v")
       (simp_all add: canProceed_def getState_run [OF s(1)] s(2) getOpenedAt_run [OF v] openDurationSeconds_def
        cb_seq Let_def)
qed

lemma forceOpen_view:
  "fst (forceOpen E p w) = Inr () \<and> now (snd (forceOpen E p w)) = now w
    \<and> view ent (snd (forceOpen E p w)) = (view ent w)
      (prefixKey E (getStateKey p) := Some (RStr OPEN, Some (now w + 1800000)),
       prefixKey E (getOpenedAtKey p) := Some (RStr (Raw (show_int (now w))), Some (now w + 360000)))"
  by (simp add: forceOpen_def cb_seq cb_views setOpenedAt_ok)

lemma closed_poll:
  assumes "circuit_of E p (view ent w) Closed"
  shows "fst (canProceed E p w) = Inr Allowed \<and> view ent (snd (canProceed E p w)) = view ent w"
proof -
  obtain s where s: "the_str (view ent w) (prefixKey E (getStateKey p)) = Some s" "or_closed s = CLOSED"
    using assms by (auto simp: circuit_of_def)
  show ?thesis by (simp add: canProceed_def getState_run [OF s(1)] s(2))
qed

lemma open_timeline:
  assumes "0 \<le> d" and "0 < now w"
  shows "let r = canProceed E p ((snd (forceOpen E p w))\<lparr>now := now w + d\<rparr>) in
    if d \<le> 300000 then fst r = Inr (Refused (unavailable (ceil_div (300000 - d) 1000)))
      \<and> circuit_of E p (view ent (snd r)) Open
    else if d < 360000 then fst r = Inr Allowed \<and> circuit_of E p (view ent (snd r)) HalfOpen
    else if d < 1800000 then fst r = Inr (Refused (unavailable (ceil_div (300000 - (now w + d)) 1000)))
      \<and> circuit_of E p (view ent (snd r)) Open
    else fst r = Inr Allowed \<and> circuit_of E p (view ent (snd r)) Closed"
proof -
  let ?w = "(snd (forceOpen E p w))\<lparr>now := now w + d\<rparr>"
  let ?sk = "prefixKey E (getStateKey p)" and ?ok = "prefixKey E (getOpenedAtKey p)"
  have v: "view ent ?w = live (now w + d) ((view ent w)
      (?sk := Some (RStr OPEN, Some (now w + 1800000)), ?ok := Some (RStr (Raw (show_int (now w))), Some (now w + 360000))))"
    using view_later [of "snd (forceOpen E p w)" "now w + d"] forceOpen_view [of p w] assms by simp
  have st: "view ent ?w ?sk = (if d < 1800000 then Some (RStr OPEN, Some (now w + 1800000)) else None)"
    and op: "view ent ?w ?ok = (if d < 360000 then Some (RStr (Raw (show_int (now w))), Some (now w + 360000)) else None)"
    unfolding v by (simp_all add: live_def)
  show ?thesis
  proof (cases "d < 1800000")
    case False
    then have "circuit_of E p (view ent ?w) Closed"
      using st by (simp add: circuit_of_def the_str_None or_closed_def)
    from closed_poll [OF this] this False show ?thesis by (simp add: Let_def)
  next
    case True
    then have o: "circuit_of E p (view ent ?w) Open"
      using st by (simp add: circuit_of_def the_str_Some)
    let ?v = "if d < 360000 then Some (Raw (show_int (now w))) else None"
    have t: "the_str (view ent ?w) ?ok = Some ?v" using op by (simp add: the_str_None the_str_Some)
    have n: "number_or None ?v = (if d < 360000 then Some (now w) else None)"
      by (simp add: number_or_def)
    note poll = open_poll [OF o t, unfolded n]
    show ?thesis
    proof (cases "d < 360000")
      case True
      with poll o assms show ?thesis
        by (simp add: Let_def cb_views)
    next
      case False
      with poll o \<open>d < 1800000\<close> show ?thesis by (simp add: Let_def)
    qed
  qed
qed

text \<open>A half-open circuit whose prefixed attempt counter is absent, as \<open>resetHalfOpenAttempts\<close> leaves it.\<close>

definition testing :: "('s, 'm) base_scheme \<Rightarrow> string \<Rightarrow> nat \<Rightarrow> bool" where
  "testing w p n \<longleftrightarrow> circuit_of E p (view ent w) HalfOpen
     \<and> view ent w (prefixKey E (getHalfOpenAttemptsKey p)) = None
     \<and> the_str (view ent w) (getHalfOpenAttemptsKey p) = Some (if n = 0 then None else Some (Raw (show_int (int n))))"

lemma testing_poll:
  assumes "testing w p n" "\<not> own_prefix E (getHalfOpenAttemptsKey p)"
  shows "fst (canProceed E p w) = Inr Allowed \<and> testing (snd (canProceed E p w)) p (Suc n)"
proof -
  obtain s where s: "the_str (view ent w) (prefixKey E (getStateKey p)) = Some s" "or_closed s = HALF_OPEN"
    using assms by (auto simp: testing_def circuit_of_def)
  let ?a = "snd (getState E p w)"
  let ?hk = "getHalfOpenAttemptsKey p"
  have a: "view ent ?a = view ent w" "now ?a = now w" using getState_run(2,3) [OF s(1)] by auto
  have k: "prefixKey E j \<noteq> ?hk" "?hk \<noteq> prefixKey E j" for j using prefixKey_raw [OF assms(2)] by metis+
  have t: "the_str (view ent ?a) (prefixKey E ?hk) = Some None"
    using assms(1) a by (simp add: testing_def the_str_None)
  note h = getHalfOpenAttempts_run [OF t]
  let ?b = "snd (getHalfOpenAttempts E p ?a)"
  have b: "view ent ?b = view ent w" using h(2) a by simp
  have i: "fst (incrementHalfOpenAttempts E p ?b) = Inr ()"
    and iv: "view ent (snd (incrementHalfOpenAttempts E p ?b)) = put ?hk (RStr (Raw (show_int (int (Suc n))))) (view ent w)"
    using incrementHalfOpen_run [OF assms(2), of ?b n] assms(1) b by (simp_all add: testing_def)
  have "canProceed E p w = (Inr Allowed, snd (incrementHalfOpenAttempts E p ?b))"
    by (simp add: canProceed_def getState_run [OF s(1)] s(2) h(1) number_or_def halfOpenMaxAttempts_def seq_ok i)
  with assms(1) k show ?thesis
    by (auto simp: testing_def iv put_def circuit_of_def)
qed

lemma testing_polls:
  assumes "testing w p 0" "\<not> own_prefix E (getHalfOpenAttemptsKey p)"
  shows "fst (polls E n p w) = Inr (replicate n Allowed) \<and> testing (snd (polls E n p w)) p n"
proof (induction n)
  case 0
  show ?case using assms(1) by simp
next
  case (Suc n)
  then have "polls E (Suc n) p w = bind (canProceed E p) (\<lambda>v. ret (replicate n Allowed @ [v])) (snd (polls E n p w))"
    by (simp add: bind_ok)
  with testing_poll [of "snd (polls E n p w)" p n] Suc assms(2) show ?case
    by (simp add: bind_ok replicate_append_same)
qed

end

section \<open>Properties\<close>

text \<open>
  C30: evaluating the window refines the abstract circuit: from any stored state the state after
  \<open>checkAndUpdateState\<close> is \<open>circuit_next\<close> of the failures and successes of the last 15 minutes, and an
  event is emitted exactly when the state changes.
\<close>

theorem circuit_refinement:
  assumes "redis_server E ent"
    and "the_zset (view ent w) (getFailuresKey p) = Some fs"
    and "the_zset (view ent w) (getSuccessesKey p) = Some ss"
    and "circuit_of E p (view ent w) c"
  shows "circuit_of E p (view ent (snd (checkAndUpdateState E p w)))
      (circuit_next (in_window (now w) fs) (in_window (now w) ss) c)
    \<and> (\<exists>evs. fst (checkAndUpdateState E p w) = Inr evs
        \<and> (evs = [] \<longleftrightarrow> circuit_next (in_window (now w) fs) (in_window (now w) ss) c = c))"
  by (rule redis_server.check_refines [OF assms])

lemma circuit_refinement_witness:
  "circuit_of (ks_env ''app'') ''waas'' (view ks_ent (snd (checkAndUpdateState (ks_env ''app'') ''waas''
     \<lparr>rds = [getFailuresKey ''waas'' \<mapsto> (RZset (map (\<lambda>i. (show_int i, i)) [1..10]), None)], now = 20\<rparr>))) Open"
  using circuit_refinement [OF ks.redis_server_axioms, of
      "\<lparr>rds = [getFailuresKey ''waas'' \<mapsto> (RZset (map (\<lambda>i. (show_int i, i)) [1..10]), None)], now = 20\<rparr>"
      "''waas''" "map (\<lambda>i. (show_int i, i)) [1..10]" "[]" "''app''" Closed]
  by (simp add: view_def ks_ent_def live_def the_zset_def circuit_of_def the_str_def ks_env_def prefixKey_def
      getFailuresKey_def getSuccessesKey_def getStateKey_def or_closed_def circuit_next_def in_window_def upto.simps)

text \<open>
  What a circuit that opened at time \<open>t\<close> answers to the first request \<open>d\<close> milliseconds later:
  refused up to 5 minutes, let through as a test between 5 and 6 minutes; but when the first
  request comes between 6 and 30 minutes the opening time is gone, and it is refused with the
  circuit still open; after 30 minutes the state is gone and the circuit is closed.
\<close>

theorem open_circuit_timeline:
  assumes "redis_server E ent" and "0 \<le> d" and "0 < now w"
  shows "let r = canProceed E p ((snd (forceOpen E p w))\<lparr>now := now w + d\<rparr>) in
    if d \<le> 300000 then fst r = Inr (Refused (unavailable (ceil_div (300000 - d) 1000)))
      \<and> circuit_of E p (view ent (snd r)) Open
    else if d < 360000 then fst r = Inr Allowed \<and> circuit_of E p (view ent (snd r)) HalfOpen
    else if d < 1800000 then fst r = Inr (Refused (unavailable (ceil_div (300000 - (now w + d)) 1000)))
      \<and> circuit_of E p (view ent (snd r)) Open
    else fst r = Inr Allowed \<and> circuit_of E p (view ent (snd r)) Closed"
  by (rule redis_server.open_timeline [OF assms])

lemma open_circuit_timeline_witness:
  "fst (canProceed (ks_env ''app'') ''waas'' ((snd (forceOpen (ks_env ''app'') ''waas'' \<lparr>rds = Map.empty, now = 1000\<rparr>))
     \<lparr>now := 1000 + 400000\<rparr>)) = Inr (Refused (unavailable (ceil_div (- 101000) 1000)))"
  using open_circuit_timeline [OF ks.redis_server_axioms, of 400000 "\<lparr>rds = Map.empty, now = 1000\<rparr>" "''app''" "''waas''"]
  by (simp add: Let_def)

text \<open>
  The limit of three test requests of a half-open circuit is never enforced: any number of
  requests in a row are let through, because they are counted under the raw key and the count is
  read under the prefixed one.
\<close>

theorem half_open_unlimited:
  assumes "redis_server E ent" and "\<not> own_prefix E (getHalfOpenAttemptsKey p)"
    and "circuit_of E p (view ent w) HalfOpen"
    and "view ent w (prefixKey E (getHalfOpenAttemptsKey p)) = None" and "view ent w (getHalfOpenAttemptsKey p) = None"
  shows "fst (polls E n p w) = Inr (replicate n Allowed)"
  using redis_server.testing_polls [OF assms(1) _ assms(2), of w n] assms(1,3-)
  by (simp add: redis_server.testing_def the_str_None)

lemma half_open_unlimited_witness:
  "fst (polls (ks_env ''app'') 100 ''waas''
     \<lparr>rds = [prefixKey (ks_env ''app'') (getStateKey ''waas'') \<mapsto> (RStr HALF_OPEN, None)], now = 0\<rparr>)
    = Inr (replicate 100 Allowed)"
  using half_open_unlimited [OF ks.redis_server_axioms, of "''app''" "''waas''"
      "\<lparr>rds = [prefixKey (ks_env ''app'') (getStateKey ''waas'') \<mapsto> (RStr HALF_OPEN, None)], now = 0\<rparr>" 100]
  by (simp add: view_def ks_ent_def live_def own_prefix_def ks_env_def prefixKey_def getStateKey_def
      getHalfOpenAttemptsKey_def circuit_of_def the_str_def)

end
