(* ===== verification/NgWithdrawal.thy ===== *)
theory NgWithdrawal
  imports TxStatus CircuitBreaker
begin

text \<open>
  Withdrawals of naira to an external bank account: \<^verbatim>\<open>withdrawToExternalNGAccount\<close> and what it calls in
  \<^verbatim>\<open>src/modules/fiatWallet/fiatWalletWithdrawal.service.ts\<close>, and the job that polls the provider for
  the outcome (\<^verbatim>\<open>src/services/queue/processors/ngn-withdrawal/\<close>). The provider, the tier limits, the
  bank directory, the job queue and the notification services are the collaborators of \<open>money_env\<close>. The
  properties follow the money: the balance and the escrow together, what a failure gives back, and when
  a payment the provider has accepted is given back as well.
\<close>

section \<open>Requests\<close>

record withdrawal_dto =
  wd_bank_ref :: string
  wd_account :: string
  wd_amount :: rat
  wd_remark :: "string option"
  wd_beneficiary :: "string option"

record sender =
  sn_id :: string
  sn_first :: string
  sn_last :: string

definition full_name :: "sender \<Rightarrow> string" where
  "full_name u = sn_first u @ '' '' @ sn_last u"

text \<open>The job that polls the status of a pending withdrawal.\<close>

record poll_data =
  pd_tx :: string
  pd_fwt :: string
  pd_user :: string
  pd_reference :: string
  pd_amount :: rat
  pd_recipient :: string
  pd_remark :: "string option"

definition poll_payload :: "poll_data \<Rightarrow> int \<Rightarrow> int \<Rightarrow> json" where
  "poll_payload d attemptNumber delay = JObj [(''transactionId'', JStr (pd_tx d)), (''fiatWalletTransactionId'', JStr (pd_fwt d)),
     (''userId'', JStr (pd_user d)), (''providerReference'', JStr (pd_reference d)), (''amount'', JDec (pd_amount d)),
     (''attemptNumber'', JNum attemptNumber), (''delay'', JNum delay)]"

definition queueStatusPoll :: "'s money_env \<Rightarrow> poll_data \<Rightarrow> int \<Rightarrow> (('s, 'm) dbase_scheme, unit) io" where
  "queueStatusPoll M d attemptNumber = (let baseDelayMs = 60000; delayMs = baseDelayMs * attemptNumber; maxDelayMs = 1200000 in
     andthen (ext_call M ''addJob'' (poll_payload d attemptNumber (min delayMs maxDelayMs))) (ret ()))"

section \<open>Kinds of errors\<close>

definition preApiErrorPatterns :: "string list" where
  "preApiErrorPatterns = [''paga ledger account not found'', ''insufficient balance'', ''invalid bank account'',
     ''account not found'', ''ledger account not found'']"

definition isPreApiValidationError :: "exn \<Rightarrow> bool" where
  "isPreApiValidationError e \<longleftrightarrow> list_ex (\<lambda>p. str_includes p (to_lower (message e))) preApiErrorPatterns
     \<or> is_bad_request e \<or> error_status e = Some 400"

text \<open>\<open>response_status\<close> is \<^verbatim>\<open>error.response?.status || error.status\<close>.\<close>

definition response_status :: "exn \<Rightarrow> int option" where
  "response_status e = (case e of
      ProviderError _ _ _ (Some (Some s)) st \<Rightarrow> if s = 0 then st else Some s
    | _ \<Rightarrow> error_status e)"

definition isTimeoutOrNetworkError :: "exn \<Rightarrow> bool" where
  "isTimeoutOrNetworkError e \<longleftrightarrow>
     (case e of ProviderError _ c req resp _ \<Rightarrow>
          c \<in> {Some ''ECONNABORTED'', Some ''ETIMEDOUT'', Some ''ECONNRESET''} \<or> (resp = None \<and> req)
        | _ \<Rightarrow> False)
     \<or> (case response_status e of None \<Rightarrow> False | Some s \<Rightarrow> 500 \<le> s \<and> s < 600)
     \<or> list_ex (\<lambda>p. str_includes p (to_lower (message e))) [''timeout'', ''econnaborted'', ''network error'', ''socket hang up'']"

section \<open>Transaction records and the escrow\<close>

definition generateTransactionReference :: "'s money_env \<Rightarrow> (('s, 'm) dbase_scheme, string) io" where
  "generateTransactionReference M = bind get_now (\<lambda>t. bind (new_value M) (\<lambda>r. ret (''OD-'' @ show_int t @ r)))"

definition transfer_meta :: "sender \<Rightarrow> json \<Rightarrow> (string \<times> json) list" where
  "transfer_meta user bank = [(''source_user_id'', JStr (sn_id user)), (''source_currency'', JStr ''NGN''),
     (''source_name'', JStr (full_name user)), (''destination_bank'', jfield ''bankName'' bank),
     (''destination_name'', jfield ''accountName'' bank), (''destination_account_number'', jfield ''accountNumber'' bank),
     (''destination_bank_code'', jfield ''bankCode'' bank)]"

definition withdrawal_text :: "withdrawal_dto \<Rightarrow> string" where
  "withdrawal_text dto = (if given (wd_remark dto) then the (wd_remark dto)
     else ''Transfer of '' @ show_dec (wd_amount dto) @ '' NGN to external account'')"

definition createNGTransactionAndFiatWalletTransaction :: "'s money_env \<Rightarrow> sender \<Rightarrow> string \<Rightarrow> withdrawal_dto \<Rightarrow> wallet_row
    \<Rightarrow> rat \<Rightarrow> json \<Rightarrow> (('s, 'm) money_world_scheme, tx_row \<times> fwt_row) io" where
  "createNGTransactionAndFiatWalletTransaction M user idem dto wallet amountWithFee bank = transaction
     (bind (io_of (formatCurrencyAmountToSmallestUnit amountWithFee ''NGN'')) (\<lambda>amountInSmallestUnit.
      bind (repo_findById wallet_table (fw_id wallet)) (\<lambda>freshWallet. case freshWallet of
          None \<Rightarrow> throw undefined_row
        | Some fw \<Rightarrow>
            if fw_balance fw < amountInSmallestUnit then throw (BadRequest ''Insufficient balance for withdrawal'')
            else bind (io_of (formatCurrencyAmountToSmallestUnit (amountWithFee - wd_amount dto) ''NGN'')) (\<lambda>feeInSmallestUnit.
            bind (generateTransactionReference M) (\<lambda>reference.
            bind (tx_create M (sn_id user) (blank_tx\<lparr>tx_amount := amountInSmallestUnit, tx_asset := ''NGN'',
                tx_category := C_FIAT, tx_scope := S_EXTERNAL, tx_status := INITIATED,
                tx_before := fw_balance fw, tx_after := fw_balance fw - amountInSmallestUnit, tx_reference := reference,
                tx_type := T_TRANSFER_OUT, tx_description := withdrawal_text dto, tx_external := Some reference,
                tx_meta := transfer_meta user bank @ [(''destination_bank_ref'', jfield ''bankRef'' bank), (''idempotency_key'', JStr idem)]\<rparr>)) (\<lambda>tx.
            bind (fwt_create M (sn_id user) (blank_fwt\<lparr>ft_amount := amountInSmallestUnit, ft_currency := ''NGN'',
                ft_status := INITIATED, ft_wallet := fw_id wallet, ft_transaction := tx_id tx, ft_type := F_WITHDRAWAL,
                ft_reference := Some (tx_reference tx), ft_before := fw_balance fw, ft_after := fw_balance fw - amountInSmallestUnit,
                ft_idempotency := Some idem, ft_meta := transfer_meta user bank, ft_source := Some (full_name user),
                ft_destination := Some (js_text (jfield ''bankName'' bank) @ '' / '' @ js_text (jfield ''accountName'' bank)
                  @ '' / '' @ js_text (jfield ''accountNumber'' bank)),
                ft_description := Some (withdrawal_text dto), ft_fee := Some feeInSmallestUnit,
                ft_provider := Some (waas_provider M)\<rparr>)) (\<lambda>ft.
            ret (tx, ft))))))))"

definition movement_meta :: "'s money_env \<Rightarrow> string \<Rightarrow> tx_row \<Rightarrow> fwt_row \<Rightarrow> string option \<Rightarrow> string option \<Rightarrow> (string \<times> json) list \<Rightarrow> balance_meta" where
  "movement_meta M what tx ft src dst meta = \<lparr>bm_description = Some what,
     bm_provider = Some (waas_provider M), bm_provider_reference = Some (tx_reference tx), bm_provider_fee = None,
     bm_provider_metadata = meta, bm_source = src, bm_destination = dst, bm_fwt = Some (ft_id ft)\<rparr>"

definition reserve_text :: "withdrawal_dto \<Rightarrow> string" where
  "reserve_text dto = ''Withdrawal of '' @ show_dec (wd_amount dto) @ '' from NGN to external account''
     @ (if given (wd_remark dto) then '' - '' @ the (wd_remark dto) else [])"

definition revert_text :: "tx_row \<Rightarrow> string" where
  "revert_text tx = ''Withdrawal of '' @ show_int (tx_amount tx) @ '' from NGN to external account''"

definition reserveWithdrawalBalance :: "'s money_env \<Rightarrow> tx_row \<Rightarrow> fwt_row \<Rightarrow> withdrawal_dto \<Rightarrow> virtual_account \<Rightarrow> json
    \<Rightarrow> (('s, 'm) money_world_scheme, int) io" where
  "reserveWithdrawalBalance M tx ft dto va bank =
     bind (io_of (formatCurrencyAmountToSmallestUnit (wd_amount dto) ''NGN'')) (\<lambda>amountInSmallestUnit.
     andthen (updateBalance M (ft_wallet ft) (- amountInSmallestUnit) (tx_id tx) F_WITHDRAWAL INITIATED
       (movement_meta M (reserve_text dto) tx ft (Some (account_number va)) (Some (wd_account dto))
         [(''source'', JStr (account_number va)), (''destination'', JStr (wd_account dto)), (''description'', JStr (reserve_text dto)),
          (''source_bank'', JStr (waas_bank_code M)), (''source_name'', JStr (account_name va)),
          (''destination_bank'', jfield ''bankName'' bank), (''destination_name'', jfield ''accountName'' bank),
          (''destination_account_number'', JStr (wd_account dto))]) False)
     (andthen (moveMoneyToEscrow (m_redis M) (tx_id tx) amountInSmallestUnit)
     (ret amountInSmallestUnit)))"

text \<open>\<open>None\<close> as the value: nothing was reverted. An escrow that is not a number cannot be written back.\<close>

definition revertWithdrawalBalance :: "'s money_env \<Rightarrow> string \<Rightarrow> (('s, 'm) money_world_scheme, int option) io" where
  "revertWithdrawalBalance M tid = bind (repo_findById tx_table tid) (\<lambda>found. case found of
      None \<Rightarrow> throw undefined_row
    | Some tx \<Rightarrow>
        if tx_status tx \<noteq> FAILED then ret None
        else bind (repo_findOne fwt_table (\<lambda>r. ft_transaction r = tid)) (\<lambda>found. case found of
            None \<Rightarrow> ret None
          | Some ft \<Rightarrow> bind (getEscrowAmount (m_redis M) tid) (\<lambda>escrow. case escrow of
                None \<Rightarrow> throw (BadRequest ''Failed to update wallet balance'')
              | Some amount \<Rightarrow>
                  if amount = 0 then ret None
                  else andthen (updateBalance M (ft_wallet ft) amount tid F_WITHDRAWAL FAILED
                      (movement_meta M (revert_text tx) tx ft (ft_source ft) (ft_destination ft) []) False)
                    (andthen (releaseMoneyFromEscrow (m_redis M) tid)
                    (ret (Some amount))))))"

section \<open>The withdrawal\<close>

definition tx_set_failed :: "string \<Rightarrow> int \<Rightarrow> tx_row \<Rightarrow> tx_row" where
  "tx_set_failed reason t r = r\<lparr>tx_status := FAILED, tx_failure := Some reason, tx_failed := Some t\<rparr>"

definition fwt_set_failed :: "string \<Rightarrow> int \<Rightarrow> fwt_row \<Rightarrow> fwt_row" where
  "fwt_set_failed reason t r = r\<lparr>ft_status := FAILED, ft_failure := Some reason, ft_failed := Some t\<rparr>"

definition tx_set_completed :: "int \<Rightarrow> tx_row \<Rightarrow> tx_row" where
  "tx_set_completed t r = r\<lparr>tx_status := COMPLETED, tx_completed := Some t\<rparr>"

definition fwt_set_completed :: "int \<Rightarrow> fwt_row \<Rightarrow> fwt_row" where
  "fwt_set_completed t r = r\<lparr>ft_status := COMPLETED, ft_completed := Some t\<rparr>"

text \<open>
  Both records set to failed or completed by the repositories directly, whatever their status was; the
  value is the wallet entry after it.
\<close>

definition fail_both :: "string \<Rightarrow> string \<Rightarrow> string \<Rightarrow> (('s, 'm) money_world_scheme, fwt_row option) io" where
  "fail_both tid fid reason = bind get_now (\<lambda>t. andthen (repo_update_id tx_table tid (tx_set_failed reason t))
     (repo_update_id fwt_table fid (fwt_set_failed reason t)))"

definition complete_both :: "string \<Rightarrow> string \<Rightarrow> (('s, 'm) money_world_scheme, fwt_row option) io" where
  "complete_both tid fid = bind get_now (\<lambda>t. andthen (repo_update_id tx_table tid (tx_set_completed t))
     (repo_update_id fwt_table fid (fwt_set_completed t)))"

definition service_success :: "(('s, 'm) dbase_scheme, unit) io" where
  "service_success = emit ''SERVICE_STATUS_SUCCESS'' (JObj [(''serviceKey'', JStr ''ngn_transfer_out'')])"

definition service_failure :: "string \<Rightarrow> (('s, 'm) dbase_scheme, unit) io" where
  "service_failure reason = emit ''SERVICE_STATUS_FAILURE'' (JObj [(''serviceKey'', JStr ''ngn_transfer_out''), (''reason'', JStr reason)])"

definition sendWithdrawalInitiatedNotification :: "'s money_env \<Rightarrow> tx_row \<Rightarrow> (('s, 'm) dbase_scheme, unit) io" where
  "sendWithdrawalInitiatedNotification M tx = quietly (andthen (createNotification M (tx_payload tx))
     (bind (ext_call M ''userProfile'' (tx_payload tx)) (\<lambda>profile.
      andthen (when_do (js_truthy (jfield ''notification_token'' profile))
        (andthen (ext_call M ''sendPushNotification'' (tx_payload tx)) (ret ())))
      (ext_call M ''sendMail'' (tx_payload tx)))))"

text \<open>After a completion the e-mail is not waited for; the in-app and the push notification are.\<close>

definition completedNotifications :: "'s money_env \<Rightarrow> tx_row \<Rightarrow> (('s, 'm) dbase_scheme, unit) io" where
  "completedNotifications M tx = andthen (emit ''sendMail'' (tx_payload tx))
     (andthen (createNotification M (tx_payload tx))
     (bind (ext_call M ''userProfile'' (tx_payload tx)) (\<lambda>profile.
        when_do (js_truthy (jfield ''notification_token'' profile))
          (andthen (ext_call M ''sendPushNotification'' (tx_payload tx)) (ret ())))))"

definition last4 :: "string \<Rightarrow> string" where
  "last4 s = drop (length s - 4) s"

definition poll_for :: "sender \<Rightarrow> withdrawal_dto \<Rightarrow> json \<Rightarrow> tx_row \<Rightarrow> fwt_row \<Rightarrow> string \<Rightarrow> poll_data" where
  "poll_for user dto bank tx ft reference = \<lparr>pd_tx = tx_id tx, pd_fwt = ft_id ft, pd_user = sn_id user, pd_reference = reference,
     pd_amount = wd_amount dto, pd_recipient = js_text (jfield ''accountName'' bank) @ '' - ****'' @ last4 (wd_account dto),
     pd_remark = wd_remark dto\<rparr>"

definition record_provider :: "'s money_env \<Rightarrow> bool \<Rightarrow> (('s, 'm) dbase_scheme, unit) io" where
  "record_provider M success = andthen (recordAttempt (m_redis M) (waas_provider M) success) (ret ())"

definition settleWithdrawal :: "'s money_env \<Rightarrow> sender \<Rightarrow> withdrawal_dto \<Rightarrow> json \<Rightarrow> tx_row \<Rightarrow> fwt_row \<Rightarrow> fwt_row option
    \<Rightarrow> string \<Rightarrow> json \<Rightarrow> (('s, 'm) money_world_scheme, fwt_row option) io" where
  "settleWithdrawal M user dto bank tx ft pending reference answer =
     (let st = mapWaasTransactionStatusToTransactionStatus (jfield ''status'' answer) in
      if st = FAILED then
        andthen (record_provider M False)
        (bind (fail_both (tx_id tx) (ft_id ft) (js_text (jfield ''message'' answer))) (\<lambda>updated.
        andthen (revertWithdrawalBalance M (tx_id tx)) (ret updated)))
      else if st = COMPLETED then
        andthen (record_provider M True)
        (bind (complete_both (tx_id tx) (ft_id ft)) (\<lambda>updated.
        andthen service_success
        (andthen (completedNotifications M tx) (ret updated))))
      else
        andthen (record_provider M True)
        (andthen (queueStatusPoll M (poll_for user dto bank tx ft reference) 1) (ret pending)))"

definition transfer_request :: "'s money_env \<Rightarrow> sender \<Rightarrow> withdrawal_dto \<Rightarrow> json \<Rightarrow> virtual_account \<Rightarrow> tx_row \<Rightarrow> json" where
  "transfer_request M user dto bank va tx = JObj [(''amount'', JDec (wd_amount dto)),
     (''receiver'', JObj [(''accountNumber'', JStr (wd_account dto)), (''accountName'', jfield ''accountName'' bank), (''bankRef'', JStr (wd_bank_ref dto))]),
     (''sender'', JObj [(''accountNumber'', JStr (account_number va)), (''accountName'', JStr (account_name va)), (''bankCode'', JStr (waas_bank_code M))]),
     (''transactionReference'', JStr (tx_reference tx)), (''transactionType'', JStr ''WITHDRAWAL''), (''currency'', JStr ''NGN''),
     (''description'', JStr (''Transfer from '' @ full_name user @ '' - ****'' @ last4 (wd_account dto)))]"

definition callProvider :: "'s money_env \<Rightarrow> sender \<Rightarrow> withdrawal_dto \<Rightarrow> json \<Rightarrow> virtual_account \<Rightarrow> tx_row \<Rightarrow> fwt_row \<Rightarrow> fwt_row option
    \<Rightarrow> (('s, 'm) money_world_scheme, fwt_row option) io" where
  "callProvider M user dto bank va tx ft pending =
     bind (attempt (ext_call M ''transferToOtherBank'' (transfer_request M user dto bank va tx))) (\<lambda>response. case response of
         Inl e \<Rightarrow>
           if isPreApiValidationError e then
             andthen (record_provider M False) (andthen (revertWithdrawalBalance M (tx_id tx)) (throw e))
           else andthen (queueStatusPoll M (poll_for user dto bank tx ft (tx_reference tx)) 1) (ret pending)
       | Inr r \<Rightarrow>
           let reference = js_text (jfield ''transactionReference'' r) in
           bind (attempt (ext_call M ''getTransactionStatus'' (JObj [(''transactionRef'', JStr reference)]))) (\<lambda>status. case status of
               Inl e \<Rightarrow>
                 if isTimeoutOrNetworkError e then
                   andthen (queueStatusPoll M (poll_for user dto bank tx ft reference) 1) (ret pending)
                 else throw e
             | Inr answer \<Rightarrow> settleWithdrawal M user dto bank tx ft pending reference answer))"

definition processWithdrawal :: "'s money_env \<Rightarrow> sender \<Rightarrow> withdrawal_dto \<Rightarrow> json \<Rightarrow> virtual_account \<Rightarrow> tx_row \<Rightarrow> fwt_row
    \<Rightarrow> (('s, 'm) money_world_scheme, fwt_row option) io" where
  "processWithdrawal M user dto bank va tx ft =
     andthen (startSession (m_redis M) (sn_id user) (tx_id tx))
     (bind (ext_call M ''checkLedgerBalance'' (JObj [(''accountNumber'', JStr (account_number va)), (''amount'', JDec (wd_amount dto)),
         (''currency'', JStr ''NGN'')])) (\<lambda>ledger.
      if \<not> js_truthy (jfield ''hasSufficientBalance'' ledger)
      then throw (BadRequest ''Service temporarily unavailable. Please try again later.'')
      else andthen (reserveWithdrawalBalance M tx ft dto va bank)
       (andthen (sendWithdrawalInitiatedNotification M tx)
       (andthen (repo_update_id tx_table (tx_id tx) (\<lambda>r. r\<lparr>tx_status := PENDING\<rparr>))
       (bind (repo_update_id fwt_table (ft_id ft) (\<lambda>r. r\<lparr>ft_status := PENDING\<rparr>)) (\<lambda>pending.
        bind (canProceed (m_redis M) (waas_provider M)) (\<lambda>check. case check of
            Refused reason \<Rightarrow>
              andthen (fail_both (tx_id tx) (ft_id ft) ''Service temporarily unavailable'')
              (andthen (revertWithdrawalBalance M (tx_id tx)) (throw (BadRequest reason)))
          | Allowed \<Rightarrow> callProvider M user dto bank va tx ft pending)))))))"

definition withdrawal_failed :: exn where
  "withdrawal_failed = InternalError ''Withdraw to external NG account failed''"

definition failWithdrawal :: "'s money_env \<Rightarrow> tx_row \<Rightarrow> fwt_row \<Rightarrow> exn \<Rightarrow> (('s, 'm) money_world_scheme, fwt_row option) io" where
  "failWithdrawal M tx ft e =
     andthen (fail_both (tx_id tx) (ft_id ft) (message e))
     (andthen (service_failure (message e))
     (andthen (revertWithdrawalBalance M (tx_id tx))
     (throw withdrawal_failed)))"

definition withdrawKey :: "sender \<Rightarrow> wallet_row \<Rightarrow> string \<Rightarrow> string" where
  "withdrawKey user wallet idem = ''withdraw-ng-account:'' @ sn_id user @ '':'' @ fw_id wallet @ '':'' @ idem"

definition runWithdrawal :: "'s money_env \<Rightarrow> sender \<Rightarrow> withdrawal_dto \<Rightarrow> json \<Rightarrow> virtual_account \<Rightarrow> tx_row \<Rightarrow> fwt_row
    \<Rightarrow> (('s, 'm) money_world_scheme, fwt_row option) io" where
  "runWithdrawal M user dto bank va tx ft =
     finally_do (catch (processWithdrawal M user dto bank va tx ft) (failWithdrawal M tx ft))
       (endSession (m_redis M) (sn_id user) (tx_id tx))"

definition limit_query :: "sender \<Rightarrow> int \<Rightarrow> json" where
  "limit_query user amountInSmallestUnit = JObj [(''user'', JStr (sn_id user)), (''amount'', JNum amountInSmallestUnit),
     (''currency'', JStr ''NGN''), (''type'', JStr ''withdrawal'')]"

definition sendMoneyToExternalNGAccount :: "'s money_env \<Rightarrow> sender \<Rightarrow> string \<Rightarrow> withdrawal_dto \<Rightarrow> wallet_row
    \<Rightarrow> (('s, 'm) money_world_scheme, fwt_row option) io" where
  "sendMoneyToExternalNGAccount M user idem dto wallet =
     bind (io_of (formatCurrencyAmountToSmallestUnit (wd_amount dto) ''NGN'')) (\<lambda>amountInSmallestUnit.
     andthen (ext_call M ''validateLimit'' (limit_query user amountInSmallestUnit))
     (bind (ext_call M ''verifyBankAccount'' (JObj [(''account_number'', JStr (wd_account dto)), (''bank_ref'', JStr (wd_bank_ref dto)),
         (''country_code'', JStr ''NG'')])) (\<lambda>bank.
      if \<not> js_truthy bank then throw (BadRequest ''Invalid bank account'')
      else bind (getActiveVirtualAccount M (fw_accounts wallet)) (\<lambda>va.
       andthen (checkAndBlockConcurrent (m_redis M) (sn_id user))
       (locked M (withdrawKey user wallet idem) 5
         (bind (catch (createNGTransactionAndFiatWalletTransaction M user idem dto wallet (wd_amount dto) bank)
             (\<lambda>_. throw withdrawal_failed)) (\<lambda>(tx, ft).
          runWithdrawal M user dto bank va tx ft)))))))"

definition MAX_DAILY_WITHDRAWAL_ATTEMPTS :: int where
  "MAX_DAILY_WITHDRAWAL_ATTEMPTS = 10"

definition failed_before :: exn where
  "failed_before = BadRequest ''Previous transaction with this idempotency key failed. Please use a new idempotency key to retry.''"

definition withdrawToExternalNGAccount :: "'s money_env \<Rightarrow> sender \<Rightarrow> string \<Rightarrow> withdrawal_dto
    \<Rightarrow> (('s, 'm) money_world_scheme, fwt_row option) io" where
  "withdrawToExternalNGAccount M user idem dto =
     bind (repo_findOne fwt_table (\<lambda>r. ft_user r = sn_id user \<and> ft_idempotency r = Some idem)) (\<lambda>existing.
      if (case existing of None \<Rightarrow> False | Some r \<Rightarrow> ft_status r \<in> {COMPLETED, PENDING, INITIATED}) then ret existing
      else if (case existing of None \<Rightarrow> False | Some r \<Rightarrow> ft_status r = FAILED) then throw failed_before
      else bind (find_wallet (sn_id user) ''NGN'') (\<lambda>found. case found of
          None \<Rightarrow> throw (NotFound ''User wallet not found'')
        | Some userWallet \<Rightarrow>
            bind (io_of (formatCurrencyAmountToSmallestUnit (wd_amount dto) ''NGN'')) (\<lambda>amountInSmallestUnit.
            andthen (ext_call M ''validateLimit'' (limit_query user amountInSmallestUnit))
            (if fw_balance userWallet < amountInSmallestUnit then throw (BadRequest ''Insufficient balance'')
             else andthen (checkDailyLimit (m_redis M) (sn_id user) MAX_DAILY_WITHDRAWAL_ATTEMPTS)
              (andthen (incrementDailyAttempts (m_redis M) (sn_id user))
              (if given (wd_beneficiary dto) then ret None
               else sendMoneyToExternalNGAccount M user idem dto userWallet))))))"

section \<open>Polling the provider\<close>

definition sendSuccessEmail :: "'s money_env \<Rightarrow> poll_data \<Rightarrow> (('s, 'm) money_world_scheme, unit) io" where
  "sendSuccessEmail M d = catch (bind (ext_call M ''userRepository.findById'' (JStr (pd_user d))) (\<lambda>user.
       if \<not> js_truthy user then ret ()
       else bind (repo_findById tx_table (pd_tx d)) (\<lambda>tx.
         emit ''sendMail'' (JObj [(''reference'', JStr (case tx of
             None \<Rightarrow> pd_reference d | Some r \<Rightarrow> if tx_reference r = [] then pd_reference d else tx_reference r)),
           (''amount'', JDec (pd_amount d)), (''recipientName'', JStr (pd_recipient d))]))))
     (\<lambda>_. ret ())"

definition handleCompletedWithdrawal :: "'s money_env \<Rightarrow> poll_data \<Rightarrow> (('s, 'm) money_world_scheme, unit) io" where
  "handleCompletedWithdrawal M d = andthen (complete_both (pd_tx d) (pd_fwt d))
     (andthen service_success (sendSuccessEmail M d))"

definition handleFailedWithdrawal :: "'s money_env \<Rightarrow> poll_data \<Rightarrow> string \<Rightarrow> (('s, 'm) money_world_scheme, unit) io" where
  "handleFailedWithdrawal M d reason = andthen (fail_both (pd_tx d) (pd_fwt d) reason)
     (andthen (service_failure reason)
     (andthen (revertWithdrawalBalance M (pd_tx d)) (ret ())))"

definition review_reason :: string where
  "review_reason = ''Max polling attempts reached - requires manual review''"

definition handleMaxAttemptsReached :: "poll_data \<Rightarrow> (('s, 'm) money_world_scheme, unit) io" where
  "handleMaxAttemptsReached d =
     andthen (repo_update_id tx_table (pd_tx d) (\<lambda>r. r\<lparr>tx_status := REVIEW, tx_failure := Some review_reason\<rparr>))
     (andthen (repo_update_id fwt_table (pd_fwt d) (\<lambda>r. r\<lparr>ft_status := REVIEW, ft_failure := Some review_reason\<rparr>))
     (ret ()))"

definition maxAttempts :: int where
  "maxAttempts = 10"

definition processStatusPoll :: "'s money_env \<Rightarrow> poll_data \<Rightarrow> int \<Rightarrow> (('s, 'm) money_world_scheme, unit) io" where
  "processStatusPoll M d attemptNumber = catch
     (bind (repo_findById tx_table (pd_tx d)) (\<lambda>found. case found of
         None \<Rightarrow> ret ()
       | Some tx \<Rightarrow>
           if tx_status tx \<noteq> PENDING then ret ()
           else bind (ext_call M ''getTransactionStatus'' (JObj [(''transactionRef'', JStr (pd_reference d))])) (\<lambda>answer.
             let st = jfield ''status'' answer in
             if st = JStr ''SUCCESS'' then handleCompletedWithdrawal M d
             else if st = JStr ''FAILED'' then handleFailedWithdrawal M d (js_text (jfield ''message'' answer))
             else if st = JStr ''PENDING'' then
               (if attemptNumber < maxAttempts then queueStatusPoll M d (attemptNumber + 1) else handleMaxAttemptsReached d)
             else ret ())))
     (\<lambda>_. when_do (attemptNumber < maxAttempts) (queueStatusPoll M d (attemptNumber + 1)))"

section \<open>Following the money\<close>

text \<open>Every wallet entry of the transaction is an entry of the wallet.\<close>

definition linked :: "string \<Rightarrow> string \<Rightarrow> ('s, 'm) money_world_scheme \<Rightarrow> bool" where
  "linked wid tid w \<longleftrightarrow> (\<forall>f \<in> set (fwts w). ft_transaction f = tid \<longrightarrow> ft_wallet f = wid)"

definition balance_is :: "string \<Rightarrow> int \<Rightarrow> ('s, 'm) money_world_scheme \<Rightarrow> bool" where
  "balance_is wid b w \<longleftrightarrow> (\<exists>r. List.find (\<lambda>x. fw_id x = wid) (wallets w) = Some r \<and> fw_balance r = b)"

definition escrow_entry :: "int option \<Rightarrow> (rval \<times> int option) option" where
  "escrow_entry e = (case e of None \<Rightarrow> None | Some a \<Rightarrow> Some (RStr (Raw (show_int a)), None))"

definition held :: "int option \<Rightarrow> int" where
  "held e = (case e of None \<Rightarrow> 0 | Some a \<Rightarrow> a)"

text \<open>
  Programs that leave wallets, Redis and clock alone and add no entry to the transaction.
\<close>

definition links :: "('s, 'm) money_world_scheme \<Rightarrow> (string \<times> string) set" where
  "links w = (\<lambda>f. (ft_transaction f, ft_wallet f)) ` set (fwts w)"

definition tidy :: "(('s, 'm) money_world_scheme, 'a) io \<Rightarrow> bool" where
  "tidy m \<longleftrightarrow> (\<forall>w. wallets (snd (m w)) = wallets w \<and> rds (snd (m w)) = rds w \<and> now (snd (m w)) = now w
     \<and> links (snd (m w)) \<subseteq> links w)"

named_theorems tidy_intros \<open>programs that leave the wallets, Redis and the entries' links alone\<close>

lemma tidy_basic [tidy_intros]:
  "tidy (ret x)" "tidy (throw e)" "tidy (io_of r)" "tidy get_now"
  "tidy (emit what p)" "tidy (ext_call M what p)" "tidy (new_value M)"
  by (simp_all add: tidy_def ext_call_def new_value_def call_ext_def links_def)

lemma tidy_bind [tidy_intros]: 
  assumes "tidy m" "\<And>x. tidy (f x)"
  shows "tidy (bind m f)"
  unfolding tidy_def
proof
  fix w
  obtain v w1 where m: "m w = (v, w1)" by (cases "m w")
  note t = assms(1) [unfolded tidy_def, rule_format, of w, unfolded m, simplified]
  show "wallets (snd (bind m f w)) = wallets w \<and> rds (snd (bind m f w)) = rds w \<and> now (snd (bind m f w)) = now w
     \<and> links (snd (bind m f w)) \<subseteq> links w"
  proof (cases v)
    case (Inl e)
    then show ?thesis using t m by (simp add: bind_run)
  next
    case (Inr x)
    then show ?thesis using t m assms(2) [of x, unfolded tidy_def, rule_format, of w1]
      by (auto simp: bind_run)
  qed
qed

lemma tidy_seq [tidy_intros]: "tidy m \<Longrightarrow> tidy n \<Longrightarrow> tidy (andthen m n)"
  by (simp add: andthen_def tidy_bind)

lemma tidy_catch [tidy_intros]:
  assumes "tidy m" "\<And>e. tidy (h e)"
  shows "tidy (catch m h)"
  unfolding tidy_def
proof
  fix w
  obtain v w1 where m: "m w = (v, w1)" by (cases "m w")
  note t = assms(1) [unfolded tidy_def, rule_format, of w, unfolded m, simplified]
  show "wallets (snd (catch m h w)) = wallets w \<and> rds (snd (catch m h w)) = rds w \<and> now (snd (catch m h w)) = now w
     \<and> links (snd (catch m h w)) \<subseteq> links w"
  proof (cases v)
    case (Inl e)
    then show ?thesis using t m assms(2) [of e, unfolded tidy_def, rule_format, of w1]
      by (auto simp: catch_run)
  next
    case (Inr x)
    then show ?thesis using t m by (simp add: catch_run)
  qed
qed

lemma tidy_when [tidy_intros]: "(b \<Longrightarrow> tidy m) \<Longrightarrow> tidy (when_do b m)"
  by (simp add: when_do_def tidy_basic)

lemma tidy_if [tidy_intros]: "(b \<Longrightarrow> tidy m) \<Longrightarrow> (\<not> b \<Longrightarrow> tidy n) \<Longrightarrow> tidy (if b then m else n)"
  by simp

lemma tidy_option [tidy_intros]:
  "tidy m \<Longrightarrow> (\<And>x. v = Some x \<Longrightarrow> tidy (f x)) \<Longrightarrow> tidy (case v of None \<Rightarrow> m | Some x \<Rightarrow> f x)"
  by (cases v) simp_all

lemma tidy_state:
  assumes "\<And>w. \<exists>fs. snd (m w) = w\<lparr>faults := fs\<rparr>"
  shows "tidy m"
  unfolding tidy_def
proof
  fix w
  obtain fs where "snd (m w) = w\<lparr>faults := fs\<rparr>" using assms by blast
  then show "wallets (snd (m w)) = wallets w \<and> rds (snd (m w)) = rds w \<and> now (snd (m w)) = now w \<and> links (snd (m w)) \<subseteq> links w"
    by (simp add: links_def)
qed

lemma tidy_reads [tidy_intros]: "tidy (repo_findOne tx_table P)" "tidy (repo_findOne fwt_table Q)"
  "tidy (repo_findById tx_table i)" "tidy (repo_findOne wallet_table P')" "tidy (repo_findById wallet_table i)"
  unfolding repo_findById_def
  by (rule tidy_state, rule txs.findOne_state fwts.findOne_state wallets.findOne_state)+

lemma tidy_tx_update [tidy_intros]: "tidy (repo_update_id tx_table i g)"
  unfolding tidy_def
proof
  fix w :: "('a, 'b) money_world_scheme"
  show "wallets (snd (repo_update_id tx_table i g w)) = wallets w \<and> rds (snd (repo_update_id tx_table i g w)) = rds w
     \<and> now (snd (repo_update_id tx_table i g w)) = now w \<and> links (snd (repo_update_id tx_table i g w)) \<subseteq> links w"
    by (cases rule: txs.update_id_cases [of i g w]) (auto simp: links_def)
qed

lemma tidy_fwt_update [tidy_intros]:
  assumes "\<And>r. ft_transaction (g r) = ft_transaction r \<and> ft_wallet (g r) = ft_wallet r"
  shows "tidy (repo_update_id fwt_table i g)"
  unfolding tidy_def
proof
  fix w :: "('a, 'b) money_world_scheme"
  have "(ft_transaction (g r), ft_wallet (g r)) \<in> links w"
    if "List.find (\<lambda>r. ft_id r = i) (fwts w) = Some r" for r
    using find_Some_in [OF that] assms by (auto simp: links_def intro!: rev_image_eqI)
  then show "wallets (snd (repo_update_id fwt_table i g w)) = wallets w \<and> rds (snd (repo_update_id fwt_table i g w)) = rds w
     \<and> now (snd (repo_update_id fwt_table i g w)) = now w
     \<and> links (snd (repo_update_id fwt_table i g w)) \<subseteq> links w"
    by (cases rule: fwts.update_id_cases [of i g w]) (auto simp: replace_row_def links_def)
qed

lemma tidy_steps [tidy_intros]:
  "tidy (fail_both tid fid reason)" "tidy (complete_both tid fid)" "tidy service_success" "tidy (service_failure reason)"
  "tidy (queueStatusPoll M d n)" "tidy (completedNotifications M tx)" "tidy (sendWithdrawalInitiatedNotification M tx)"
  "tidy (sendSuccessEmail M d)" "tidy (handleMaxAttemptsReached d)"
  unfolding fail_both_def complete_both_def service_success_def service_failure_def queueStatusPoll_def Let_def
    completedNotifications_def sendWithdrawalInitiatedNotification_def quietly_def createNotification_def sendSuccessEmail_def
    handleMaxAttemptsReached_def
  by (auto intro!: tidy_intros simp: fwt_set_failed_def fwt_set_completed_def)

lemma linked_links: "linked wid tid w \<longleftrightarrow> (\<forall>p \<in> links w. fst p = tid \<longrightarrow> snd p = wid)"
  by (auto simp: linked_def links_def)

lemma tidy_linked: "tidy m \<Longrightarrow> linked wid tid w \<Longrightarrow> linked wid tid (snd (m w))"
  unfolding tidy_def linked_links by blast

lemma tidy_keeps_linked: "tidy m \<Longrightarrow> keeps (linked wid tid) m"
  by (simp add: keeps_def tidy_linked)

lemma keeps_linked_transaction:
  assumes "keeps (linked wid tid) (m :: (('s, 'm) money_world_scheme, 'a) io)"
  shows "keeps (linked wid tid) (transaction m)"
proof -
  have "keeps (linked wid tid) (bind m (\<lambda>x. andthen db_step (ret x)))"
    by (intro keeps_intros assms) (simp add: keeps_def linked_def)
  then show ?thesis
    unfolding keeps_def by (auto simp: transaction_def linked_def split: prod.split sum.split)
qed

lemma wallet_update_linked: "linked wid tid w \<Longrightarrow> linked wid tid (snd (repo_update_id wallet_table i f w))"
  by (cases rule: wallets.update_id_cases [of i f w]) (auto simp: linked_def)

lemma fwt_create_linked: "linked wid tid w \<Longrightarrow> ft_wallet f = wid \<Longrightarrow> linked wid tid (snd (repo_create fwt_table f w))"
  by (cases rule: fwts.create_cases [of f w]) (auto simp: linked_def)

lemma update_balance_links:
  "keeps (linked wid tid) (updateBalanceWithTransaction M wid a tid ty st meta wallet before after)"
proof -
  have u: "keeps (linked wid tid) (repo_update_id wallet_table i f)" for i f
    by (simp add: keeps_def wallet_update_linked)
  have c: "keeps (linked wid tid) (repo_create fwt_table f)" if "ft_wallet f = wid" for f
    by (simp add: keeps_def fwt_create_linked that)
  have "keeps (linked wid tid) (record_movement M wallet wid a tid ty st meta before after)"
    unfolding record_movement_def createFiatWalletTransaction_def Let_def
    by (intro keeps_intros c tidy_keeps_linked tidy_intros) (simp_all add: mark_processed_def)
  then show ?thesis
    unfolding updateBalanceWithTransaction_def balance_changed_def
    by (intro keeps_intros u tidy_keeps_linked [OF tidy_basic(5)])
qed

lemma section_links: "keeps (linked wid tid) (balanceSection M wid a tid ty st meta inTrx)"
  unfolding balanceSection_def wallet_findById_def Let_def
  by (intro keeps_intros update_balance_links keeps_linked_transaction tidy_keeps_linked tidy_reads)

text \<open>Keys of the other services differ from the escrow key.\<close>

lemma escrow_other_keys [simp]:
  "getSessionKey u \<noteq> getEscrowKey tid" "getEscrowKey tid \<noteq> getSessionKey u"
  "getEscrowKey tid \<noteq> getFailuresKey p" "getEscrowKey tid \<noteq> getSuccessesKey p"
  "getEscrowKey tid \<noteq> getHalfOpenAttemptsKey p" "withdrawKey user wallet idem \<noteq> getEscrowKey tid"
  "getEscrowKey tid \<noteq> getDailyAttemptsKey u"
  by (simp_all add: getSessionKey_def getEscrowKey_def getFailuresKey_def getSuccessesKey_def getHalfOpenAttemptsKey_def
      withdrawKey_def getDailyAttemptsKey_def)

lemma escrow_balance_key [simp]: "balanceKey wid \<noteq> getEscrowKey tid" "getEscrowKey tid \<noteq> balanceKey wid"
proof -
  have "last (balanceKey wid) = CHR ''e''" "last (getEscrowKey tid) = CHR ''t''"
    by (simp_all add: balanceKey_def getEscrowKey_def)
  then show "balanceKey wid \<noteq> getEscrowKey tid" "getEscrowKey tid \<noteq> balanceKey wid" by auto
qed

context redis_server
begin

definition books :: "string \<Rightarrow> string \<Rightarrow> int \<Rightarrow> int option \<Rightarrow> ('s, 'm) money_world_scheme \<Rightarrow> bool" where
  "books wid tid b e w \<longleftrightarrow> balance_is wid b w \<and> view ent w (getEscrowKey tid) = escrow_entry e \<and> linked wid tid w"

text \<open>Balance and escrow together make \<open>B\<close>.\<close>

definition total_is :: "string \<Rightarrow> string \<Rightarrow> int \<Rightarrow> ('s, 'm) money_world_scheme \<Rightarrow> bool" where
  "total_is wid tid B w \<longleftrightarrow> (\<exists>b e. books wid tid b e w \<and> b + held e = B)"

lemma tidy_books: "tidy m \<Longrightarrow> keeps (books wid tid b e) m"
  using tidy_linked [of m wid tid] unfolding keeps_def books_def balance_is_def tidy_def view_def by metis

lemma spares_books:
  assumes "spares (getEscrowKey tid) (m :: (('s, 'm) money_world_scheme, 'a) io)"
  shows "keeps (books wid tid b e) m"
  unfolding keeps_def
proof (intro allI impI)
  fix w :: "('s, 'm) money_world_scheme"
  assume "books wid tid b e w"
  moreover obtain s where "snd (m w) = w\<lparr>rds := s\<rparr>" "ent s (now w) (getEscrowKey tid) = view ent w (getEscrowKey tid)"
    using sparesD [OF assms] by blast
  ultimately show "books wid tid b e (snd (m w))"
    by (simp add: books_def balance_is_def linked_def)
qed

lemma keeps_total: "(\<And>b e. keeps (books wid tid b e) m) \<Longrightarrow> keeps (total_is wid tid B) m"
  unfolding keeps_def total_is_def by blast

lemma live_escrow: "live t ks k = escrow_entry e" if "ks k = escrow_entry e"
  using that by (cases e) (simp_all add: escrow_entry_def live_def)

lemma stable_books: "key \<noteq> getEscrowKey tid \<Longrightarrow> lock_stable key (books wid tid b e)"
proof -
  assume k: "key \<noteq> getEscrowKey tid"
  show ?thesis
    unfolding lock_stable_def
  proof (intro allI impI)
    fix w w' :: "('s, 'm) money_world_scheme"
    assume b: "books wid tid b e w" and m: "moved key w w'"
    have "view ent w' (getEscrowKey tid) = live (now w') (view ent w) (getEscrowKey tid)"
      using moved_view [OF m] k by metis
    then have "view ent w' (getEscrowKey tid) = escrow_entry e"
      using b by (simp add: books_def live_escrow)
    with b m show "books wid tid b e w'"
      by (auto simp: books_def moved_def balance_is_def linked_def)
  qed
qed

lemma stable_total: "key \<noteq> getEscrowKey tid \<Longrightarrow> lock_stable key (total_is wid tid B)"
  using stable_books unfolding lock_stable_def total_is_def by blast

lemma updateBalance_books:
  assumes "m_redis M = E"
  shows "triple (books wid tid b e) (updateBalance M wid a tid ty st meta False)
    (\<lambda>_. books wid tid (b + a) e) (\<lambda>_. books wid tid b e)"
proof -
  let ?up = "updateBalance M wid a tid ty st meta False"
  let ?rest = "\<lambda>w :: ('s, 'm) money_world_scheme. view ent w (getEscrowKey tid) = escrow_entry e \<and> linked wid tid w"
  have "keeps ?rest (balanceSection M wid a tid ty st meta False)"
    unfolding keeps_def
  proof (intro allI impI)
    fix w :: "('s, 'm) money_world_scheme"
    assume r: "?rest w"
    have "view ent (snd (balanceSection M wid a tid ty st meta False w)) = view ent w"
      using quiet_section [of M wid a tid ty st meta False, unfolded quiet_def, rule_format, of w] by (simp add: view_def)
    then show "?rest (snd (balanceSection M wid a tid ty st meta False w))"
      using r keepsD [OF section_links] by metis
  qed
  moreover have "lock_stable (balanceKey wid) ?rest"
    unfolding lock_stable_def
  proof (intro allI impI)
    fix w w' :: "('s, 'm) money_world_scheme"
    assume r: "?rest w" and m: "moved (balanceKey wid) w w'"
    have "view ent w' (getEscrowKey tid) = live (now w') (view ent w) (getEscrowKey tid)"
      by (rule moved_view [OF m]) simp
    with r m show "?rest w'" by (auto simp: live_escrow moved_def linked_def)
  qed
  ultimately have "keeps ?rest (withLockN E own (balanceKey wid) (Some 30000) 5 500 (balanceSection M wid a tid ty st meta False))" for own
    by (intro keeps_withLockN) simp_all
  then have k: "keeps ?rest ?up"
    unfolding updateBalance_def locked_def assms
    by (intro keeps_bind) (simp_all add: keeps_def new_value_def view_def linked_def)
  show ?thesis
  proof (rule tripleI)
    fix w :: "('s, 'm) money_world_scheme" and u w'
    assume b: "books wid tid b e w" and r: "?up w = (Inr u, w')"
    have "balance_moved wid a st w w' u" by (rule triple_ok [OF updateBalance_atomic [OF assms] refl r])
    moreover have "?rest w'" using keepsD [OF k, of w] b r by (simp add: books_def)
    ultimately show "books wid tid (b + a) e w'"
      using b by (auto simp: books_def balance_is_def balance_moved_def replace_row_def dest: find_Some_in)
  next
    fix w :: "('s, 'm) money_world_scheme" and x w'
    assume b: "books wid tid b e w" and r: "?up w = (Inl x, w')"
    have "tables_kept w w'" by (rule triple_fail [OF updateBalance_atomic [OF assms] refl r])
    moreover have "?rest w'" using keepsD [OF k, of w] b r by (simp add: books_def)
    ultimately show "books wid tid b e w'" using b by (simp add: books_def balance_is_def tables_kept_def)
  qed
qed

lemma escrow_steps:
  "triple (books wid tid b e :: ('s, 'm) money_world_scheme \<Rightarrow> bool) (moveMoneyToEscrow E tid a) (\<lambda>_. books wid tid b (Some a)) (\<lambda>_ _. False)"
  "triple (books wid tid b e :: ('s, 'm) money_world_scheme \<Rightarrow> bool) (releaseMoneyFromEscrow E tid) (\<lambda>_. books wid tid b None) (\<lambda>_ _. False)"
  "triple (books wid tid b e :: ('s, 'm) money_world_scheme \<Rightarrow> bool) (getEscrowAmount E tid) (\<lambda>x w. books wid tid b e w \<and> x = Some (held e)) (\<lambda>_ _. False)"
proof -
  have "books wid tid b (Some a) (snd (moveMoneyToEscrow E tid a w))" if "books wid tid b e w" for w :: "('s, 'm) money_world_scheme"
    using that move_view [of tid a w] by (simp add: move_run books_def balance_is_def linked_def escrow_entry_def)
  then show "triple (books wid tid b e :: ('s, 'm) money_world_scheme \<Rightarrow> bool) (moveMoneyToEscrow E tid a) (\<lambda>_. books wid tid b (Some a)) (\<lambda>_ _. False)"
    by (simp add: triple_def move_run)
  have "books wid tid b None (snd (releaseMoneyFromEscrow E tid w))" if "books wid tid b e w" for w :: "('s, 'm) money_world_scheme"
    using that release_escrow_view [of tid w] by (simp add: release_escrow_run books_def balance_is_def linked_def escrow_entry_def)
  then show "triple (books wid tid b e :: ('s, 'm) money_world_scheme \<Rightarrow> bool) (releaseMoneyFromEscrow E tid) (\<lambda>_. books wid tid b None) (\<lambda>_ _. False)"
    by (simp add: triple_def release_escrow_run)
  show "triple (books wid tid b e :: ('s, 'm) money_world_scheme \<Rightarrow> bool) (getEscrowAmount E tid) (\<lambda>x w. books wid tid b e w \<and> x = Some (held e)) (\<lambda>_ _. False)"
    unfolding triple_def
  proof (intro allI impI)
    fix w :: "('s, 'm) money_world_scheme"
    assume b: "books wid tid b e w"
    then have t: "the_str (view ent w) (getEscrowKey tid) = Some (map_option (\<lambda>a. Raw (show_int a)) e)"
      by (cases e) (simp_all add: books_def escrow_entry_def the_str_def)
    then have g: "getEscrowAmount E tid w = (Inr (Some (held e)), w\<lparr>rds := snd (srv E (GET (getEscrowKey tid)) (now w) (rds w))\<rparr>)"
      by (cases e) (simp_all add: get_escrow_run escrow_def held_def)
    have "view ent (snd (getEscrowAmount E tid w)) = view ent w" by (rule get_escrow_view)
    then show "case fst (getEscrowAmount E tid w) of Inr x \<Rightarrow> books wid tid b e (snd (getEscrowAmount E tid w)) \<and> x = Some (held e)
        | Inl _ \<Rightarrow> False"
      using g b by (simp add: books_def balance_is_def linked_def)
  qed
qed

text \<open>The steps of a withdrawal, as assertions about balance and escrow.\<close>

lemma reserve_books:
  assumes "m_redis M = E" "tx_id tx = tid" "ft_wallet ft = wid"
  shows "triple (books wid tid b None) (reserveWithdrawalBalance M tx ft dto va bank)
    (\<lambda>a. books wid tid (b - a) (Some a)) (\<lambda>_. books wid tid b None)"
proof -
  have m: "triple (books wid tid (b - a) None) (andthen (moveMoneyToEscrow E tid a) (ret a))
      (\<lambda>x. books wid tid (b - x) (Some x)) (\<lambda>_. books wid tid b None)" for a
    by (rule triple_seq [OF triple_conseq [OF escrow_steps(1)] triple_ret]) simp_all
  have u: "triple (books wid tid b None) (updateBalance M wid (- a) tid F_WITHDRAWAL INITIATED meta False)
      (\<lambda>_. books wid tid (b - a) None) (\<lambda>_. books wid tid b None)" for a meta
    using updateBalance_books [OF assms(1), of wid tid b None "- a"] by simp
  show ?thesis
    unfolding reserveWithdrawalBalance_def assms
    by (rule triple_bind [OF triple_io_of [where Q = "\<lambda>_. books wid tid b None"] triple_seq [OF u m]]) simp_all
qed

lemma reserve_total:
  assumes "m_redis M = E" "tx_id tx = tid" "ft_wallet ft = wid"
  shows "triple (books wid tid b None) (reserveWithdrawalBalance M tx ft dto va bank)
    (\<lambda>_. total_is wid tid b) (\<lambda>_. total_is wid tid b)"
  by (rule triple_conseq [OF reserve_books [OF assms]]) (force simp: total_is_def held_def)+

lemma books_total: "books wid tid b e w \<Longrightarrow> total_is wid tid (b + held e) w"
  by (auto simp: total_is_def)

lemma refund_total:
  assumes "m_redis M = E" "held e = a"
  shows "triple (books wid tid b e) (andthen (updateBalance M wid a tid F_WITHDRAWAL FAILED meta False)
      (andthen (releaseMoneyFromEscrow E tid) (ret (Some a)))) (\<lambda>_. total_is wid tid (b + held e)) (\<lambda>_. total_is wid tid (b + held e))"
proof -
  have r: "triple (books wid tid (b + a) e) (releaseMoneyFromEscrow E tid)
      (\<lambda>_. books wid tid (b + a) None) (\<lambda>_. total_is wid tid (b + held e))"
    by (rule triple_conseq [OF escrow_steps(2)]) simp_all
  have "triple (books wid tid (b + a) e) (andthen (releaseMoneyFromEscrow E tid) (ret (Some a)))
      (\<lambda>_. total_is wid tid (b + held e)) (\<lambda>_. total_is wid tid (b + held e))"
    by (rule triple_seq [OF r triple_ret]) (use assms(2) in \<open>force simp: total_is_def held_def\<close>)
  moreover have "triple (books wid tid b e) (updateBalance M wid a tid F_WITHDRAWAL FAILED meta False)
      (\<lambda>_. books wid tid (b + a) e) (\<lambda>_. total_is wid tid (b + held e))"
    by (rule triple_conseq [OF updateBalance_books [OF assms(1)]]) (auto intro: books_total)
  ultimately show ?thesis by (rule triple_seq [rotated])
qed

lemma find_entry_books:
  "triple (books wid tid b e) (repo_findOne fwt_table (\<lambda>r. ft_transaction r = tid))
    (\<lambda>found w. books wid tid b e w \<and> (\<forall>ft. found = Some ft \<longrightarrow> ft_wallet ft = wid)) (\<lambda>_. books wid tid b e)"
proof (rule tripleI)
  fix w :: "('s, 'm) money_world_scheme" and x w'
  assume b: "books wid tid b e w" and r: "repo_findOne fwt_table (\<lambda>r. ft_transaction r = tid) w = (Inr x, w')"
  have "books wid tid b e w'" using keepsD [OF tidy_books [OF tidy_reads(2)] b] r by (metis snd_conv)
  moreover have "x = List.find (\<lambda>r. ft_transaction r = tid) (fwts w)"
    by (cases rule: fwts.findOne_cases [of "\<lambda>r. ft_transaction r = tid" w]) (use r in simp_all)
  ultimately show "books wid tid b e w' \<and> (\<forall>ft. x = Some ft \<longrightarrow> ft_wallet ft = wid)"
    using b by (auto simp: books_def linked_def dest: find_Some_in)
next
  fix w :: "('s, 'm) money_world_scheme" and x w'
  assume b: "books wid tid b e w" and r: "repo_findOne fwt_table (\<lambda>r. ft_transaction r = tid) w = (Inl x, w')"
  show "books wid tid b e w'" using keepsD [OF tidy_books [OF tidy_reads(2)] b] r by (metis snd_conv)
qed

lemma revert_books:
  assumes "m_redis M = E"
  shows "triple (books wid tid b e) (revertWithdrawalBalance M tid) (\<lambda>_. total_is wid tid (b + held e)) (\<lambda>_. total_is wid tid (b + held e))"
proof -
  let ?T = "\<lambda>_. total_is wid tid (b + held e)"
  have tx: "triple (books wid tid b e) (repo_findById tx_table tid) (\<lambda>_. books wid tid b e) ?T"
    by (rule triple_conseq [OF tidy_books [OF tidy_reads(3), unfolded keeps_triple]]) (auto intro: books_total)
  have refund: "triple (books wid tid b e) (bind (getEscrowAmount E tid) (\<lambda>escrow. case escrow of
                None \<Rightarrow> throw (BadRequest ''Failed to update wallet balance'')
              | Some amount \<Rightarrow>
                  if amount = 0 then ret None
                  else andthen (updateBalance M (ft_wallet ft) amount tid F_WITHDRAWAL FAILED
                      (movement_meta M (revert_text tx) tx ft (ft_source ft) (ft_destination ft) []) False)
                    (andthen (releaseMoneyFromEscrow E tid)
                    (ret (Some amount))))) ?T ?T" if "ft_wallet ft = wid" for tx ft
  proof (rule triple_bind)
    show "triple (books wid tid b e) (getEscrowAmount E tid) (\<lambda>x w. books wid tid b e w \<and> x = Some (held e)) ?T"
      by (rule triple_conseq [OF escrow_steps(3)]) simp_all
    fix x
    show "triple (\<lambda>w. books wid tid b e w \<and> x = Some (held e)) (case x of
                None \<Rightarrow> throw (BadRequest ''Failed to update wallet balance'')
              | Some amount \<Rightarrow>
                  if amount = 0 then ret None
                  else andthen (updateBalance M (ft_wallet ft) amount tid F_WITHDRAWAL FAILED
                      (movement_meta M (revert_text tx) tx ft (ft_source ft) (ft_destination ft) []) False)
                    (andthen (releaseMoneyFromEscrow E tid)
                    (ret (Some amount)))) ?T ?T"
    proof (cases "x = Some (held e)")
      case True
      have "triple (books wid tid b e) (if held e = 0 then ret None
          else andthen (updateBalance M wid (held e) tid F_WITHDRAWAL FAILED
                      (movement_meta M (revert_text tx) tx ft (ft_source ft) (ft_destination ft) []) False)
                    (andthen (releaseMoneyFromEscrow E tid)
                    (ret (Some (held e))))) ?T ?T"
        by (rule triple_if [OF triple_ret refund_total [OF assms refl]]) (rule books_total)
      then show ?thesis unfolding True option.case that by (rule triple_conseq) simp_all
    next
      case False
      then show ?thesis by (simp add: triple_def)
    qed
  qed
  have ent: "triple (books wid tid b e) (repo_findOne fwt_table (\<lambda>r. ft_transaction r = tid))
    (\<lambda>found w. books wid tid b e w \<and> (\<forall>ft. found = Some ft \<longrightarrow> ft_wallet ft = wid)) ?T"
    by (rule triple_conseq [OF find_entry_books]) (auto intro: books_total)
  have skip: "triple P (ret None :: (('s, 'm) money_world_scheme, int option) io) ?T ?T" if "\<And>w. P w \<Longrightarrow> books wid tid b e w" for P
    using that by (intro triple_ret) (simp add: books_total)
  show ?thesis
    unfolding revertWithdrawalBalance_def assms
  proof (rule triple_bind [OF tx], goal_cases)
    case (1 found)
    show ?case
    proof (cases found)
      case None
      then show ?thesis by (simp add: triple_throw books_total)
    next
      case (Some tx)
      have main: "triple (books wid tid b e) (bind (repo_findOne fwt_table (\<lambda>r. ft_transaction r = tid)) (\<lambda>found. case found of
            None \<Rightarrow> ret None
          | Some ft \<Rightarrow> bind (getEscrowAmount E tid) (\<lambda>escrow. case escrow of
                None \<Rightarrow> throw (BadRequest ''Failed to update wallet balance'')
              | Some amount \<Rightarrow>
                  if amount = 0 then ret None
                  else andthen (updateBalance M (ft_wallet ft) amount tid F_WITHDRAWAL FAILED
                      (movement_meta M (revert_text tx) tx ft (ft_source ft) (ft_destination ft) []) False)
                    (andthen (releaseMoneyFromEscrow E tid)
                    (ret (Some amount)))))) ?T ?T"
      proof (rule triple_bind [OF ent], goal_cases)
        case (1 found)
        show ?case
        proof (cases found)
          case (Some ft)
          show ?thesis
          proof (cases "ft_wallet ft = wid")
            case True
            with refund [OF True, of tx] Some show ?thesis by (auto simp: triple_def)
          next
            case False
            with Some show ?thesis by (simp add: triple_def)
          qed
        qed (simp add: skip)
      qed
      show ?thesis unfolding Some option.case by (rule triple_if [OF skip main])
    qed
  qed
qed

lemma revert_total:
  assumes "m_redis M = E"
  shows "keeps (total_is wid tid B) (revertWithdrawalBalance M tid)"
  unfolding keeps_def
proof (intro allI impI)
  fix w :: "('s, 'm) money_world_scheme"
  assume "total_is wid tid B w"
  then obtain b e where "books wid tid b e w" "b + held e = B" by (auto simp: total_is_def)
  with revert_books [OF assms, of wid tid b e] show "total_is wid tid B (snd (revertWithdrawalBalance M tid w))"
    by (auto simp: triple_def split: sum.splits)
qed

end

end
