(* ===== verification/InternalTransfer.thy ===== *)
theory InternalTransfer
  imports NgWithdrawal
begin

text \<open>
  Transfers between users of the platform and to card deposit addresses: \<^verbatim>\<open>transfer\<close>,
  \<^verbatim>\<open>transferUSDToOneDoshUser\<close>, \<^verbatim>\<open>transferUSDToRainDepositAddress\<close> and \<^verbatim>\<open>sendNairaToOneDoshUser\<close> in
  \<^verbatim>\<open>src/modules/fiatWallet/fiatWalletWithdrawal.service.ts\<close>. A naira transfer moves both balances here, in
  one database transaction, after the provider has accepted; a dollar transfer only records two open
  transactions, and the provider's webhook moves the balances later. Users, profiles, virtual accounts
  of the receiver, external accounts, tiers and limits are answered by the collaborators.
\<close>

section \<open>Requests\<close>

record person =
  pn_id :: string
  pn_username :: string
  pn_first :: string
  pn_last :: string

definition person_name :: "person \<Rightarrow> string" where
  "person_name p = pn_first p @ '' '' @ pn_last p"

definition person_of :: "json \<Rightarrow> person" where
  "person_of j = \<lparr>pn_id = js_text (jfield ''id'' j), pn_username = js_text (jfield ''username'' j),
     pn_first = js_text (jfield ''first_name'' j), pn_last = js_text (jfield ''last_name'' j)\<rparr>"

record transfer_dto =
  td_username :: string
  td_amount :: rat
  td_asset :: string
  td_remark :: "string option"

record usd_config =
  usd_provider :: string
  underlying_currency :: "string option"

definition or_text :: "string option \<Rightarrow> string \<Rightarrow> string" where
  "or_text remark d = (if given remark then the remark else d)"

definition party_meta :: "string \<Rightarrow> person \<Rightarrow> (string \<times> json) list" where
  "party_meta role p = [(role @ ''_user_id'', JStr (pn_id p)), (role @ ''_username'', JStr (pn_username p)),
     (role @ ''_first_name'', JStr (pn_first p)), (role @ ''_last_name'', JStr (pn_last p))]"

text \<open>Rows created through the repositories directly.\<close>

definition insert_tx :: "'s money_env \<Rightarrow> tx_row \<Rightarrow> (('s, 'm) money_world_scheme, tx_row) io" where
  "insert_tx M data = bind (new_value M) (\<lambda>i. repo_create tx_table (data\<lparr>tx_id := i\<rparr>))"

definition insert_entry :: "'s money_env \<Rightarrow> fwt_row \<Rightarrow> (('s, 'm) money_world_scheme, fwt_row) io" where
  "insert_entry M data = bind (new_value M) (\<lambda>i. insert_fwt (data\<lparr>ft_id := i\<rparr>))"

definition service_up :: "string \<Rightarrow> (('s, 'm) dbase_scheme, unit) io" where
  "service_up key = emit ''SERVICE_STATUS_SUCCESS'' (JObj [(''serviceKey'', JStr key)])"

definition service_down :: "string \<Rightarrow> exn \<Rightarrow> (('s, 'm) dbase_scheme, unit) io" where
  "service_down key e = emit ''SERVICE_STATUS_FAILURE'' (JObj [(''serviceKey'', JStr key), (''reason'', JStr (message e))])"

definition externalAccountFor :: "'s money_env \<Rightarrow> string \<Rightarrow> string \<Rightarrow> (('s, 'm) dbase_scheme, json) io" where
  "externalAccountFor M userId provider = ext_call M ''getExternalAccountForTransaction''
     (JObj [(''user_id'', JStr userId), (''provider'', JStr provider)])"

text \<open>\<^verbatim>\<open>status\<close> and \<^verbatim>\<open>failure_reason\<close> written directly, whatever the status was.\<close>

definition tx_mark_failed :: "string \<Rightarrow> tx_row \<Rightarrow> tx_row" where
  "tx_mark_failed reason r = r\<lparr>tx_status := FAILED, tx_failure := Some reason\<rparr>"

definition fwt_mark_failed :: "string \<Rightarrow> fwt_row \<Rightarrow> fwt_row" where
  "fwt_mark_failed reason r = r\<lparr>ft_status := FAILED, ft_failure := Some reason\<rparr>"

definition initiation_failed :: exn where
  "initiation_failed = InternalError ''Transfer failed to initiate''"

section \<open>Dollars to another user\<close>

record records =
  out_tx :: tx_row
  in_tx :: tx_row
  out_entry :: fwt_row
  in_entry :: fwt_row

definition usd_tx :: "person \<Rightarrow> wallet_row \<Rightarrow> string \<Rightarrow> int \<Rightarrow> transaction_type \<Rightarrow> string \<Rightarrow> string \<Rightarrow> tx_row" where
  "usd_tx p wallet asset amount ty reference what = blank_tx\<lparr>tx_user := pn_id p, tx_reference := reference, tx_external := None,
     tx_asset := asset, tx_amount := amount, tx_before := fw_balance wallet, tx_after := fw_balance wallet,
     tx_type := ty, tx_category := C_FIAT, tx_scope := S_INTERNAL, tx_status := PENDING, tx_description := what\<rparr>"

definition usd_entry :: "usd_config \<Rightarrow> person \<Rightarrow> person \<Rightarrow> tx_row \<Rightarrow> wallet_row \<Rightarrow> fiat_type \<Rightarrow> string \<Rightarrow> json \<Rightarrow> fwt_row" where
  "usd_entry cfg sender recipient tx wallet ty clientTransferId other = blank_fwt\<lparr>ft_transaction := tx_id tx, ft_wallet := fw_id wallet,
     ft_user := tx_user tx, ft_type := ty, ft_amount := tx_amount tx, ft_before := fw_balance wallet, ft_after := fw_balance wallet,
     ft_currency := tx_asset tx, ft_status := PENDING, ft_description := Some (tx_description tx),
     ft_provider := Some (usd_provider cfg), ft_reference := Some (tx_reference tx),
     ft_source := Some (person_name sender), ft_destination := Some (person_name recipient),
     ft_meta := [(''client_transfer_id'', JStr clientTransferId), (''linked_fiat_wallet_transaction_id'', other)]\<rparr>"

definition createUsdRecords :: "'s money_env \<Rightarrow> usd_config \<Rightarrow> person \<Rightarrow> person \<Rightarrow> transfer_dto \<Rightarrow> string \<Rightarrow> int \<Rightarrow> wallet_row \<Rightarrow> wallet_row
    \<Rightarrow> (('s, 'm) money_world_scheme, records) io" where
  "createUsdRecords M cfg sender recipient dto clientTransferId amountInCents senderWallet recipientWallet =
     bind (insert_tx M ((usd_tx sender senderWallet (td_asset dto) (- amountInCents) T_TRANSFER_OUT (clientTransferId @ ''-OUT'')
         (or_text (td_remark dto) (''Transfer to '' @ td_username dto)))
         \<lparr>tx_meta := party_meta ''recipient'' (recipient\<lparr>pn_username := td_username dto\<rparr>)\<rparr>)) (\<lambda>stx.
     bind (insert_tx M ((usd_tx recipient recipientWallet (td_asset dto) amountInCents T_TRANSFER_IN (clientTransferId @ ''-IN'')
         (or_text (td_remark dto) (''Transfer from '' @ pn_username sender)))
         \<lparr>tx_parent := Some (tx_id stx), tx_meta := party_meta ''sender'' sender\<rparr>)) (\<lambda>rtx.
     andthen (repo_update_id tx_table (tx_id stx)
       (\<lambda>r. r\<lparr>tx_meta := json_merge (tx_meta stx) [(''linked_transaction_id'', JStr (tx_id rtx))]\<rparr>))
     (bind (insert_entry M (usd_entry cfg sender recipient stx senderWallet F_TRANSFER_OUT clientTransferId JNull)) (\<lambda>sft.
     bind (insert_entry M (usd_entry cfg sender recipient rtx recipientWallet F_TRANSFER_IN clientTransferId (JStr (ft_id sft)))) (\<lambda>rft.
     andthen (repo_update_id fwt_table (ft_id sft)
       (\<lambda>r. r\<lparr>ft_meta := json_merge (ft_meta sft) [(''linked_fiat_wallet_transaction_id'', JStr (ft_id rft))]\<rparr>))
     (ret \<lparr>out_tx = stx, in_tx = rtx, out_entry = sft, in_entry = rft\<rparr>))))))"

definition failUsdRecords :: "records \<Rightarrow> (('s, 'm) money_world_scheme, unit) io" where
  "failUsdRecords rs = (let reason = ''Transfer adapter call failed'' in
     andthen (repo_update_id tx_table (tx_id (out_tx rs)) (tx_mark_failed reason))
     (andthen (repo_update_id tx_table (tx_id (in_tx rs)) (tx_mark_failed reason))
     (andthen (repo_update_id fwt_table (ft_id (out_entry rs)) (fwt_mark_failed reason))
     (andthen (repo_update_id fwt_table (ft_id (in_entry rs)) (fwt_mark_failed reason)) (ret ())))))"

definition option_json :: "string option \<Rightarrow> json" where
  "option_json x = (case x of None \<Rightarrow> JNull | Some s \<Rightarrow> JStr s)"

text \<open>The call of the provider, after \<^verbatim>\<open>$fetchGraph\<close> has read the sender's country.\<close>

definition initiateUsdTransfer :: "'s money_env \<Rightarrow> usd_config \<Rightarrow> transfer_dto \<Rightarrow> string \<Rightarrow> json \<Rightarrow> json \<Rightarrow> records
    \<Rightarrow> (('s, 'm) money_world_scheme, json) io" where
  "initiateUsdTransfer M cfg dto clientTransferId senderAccount recipientAccount rs = catch
     (andthen db_step
     (bind (ext_call M ''fiatWalletAdapter.transfer'' (JObj [(''senderCode'', jfield ''participant_code'' senderAccount),
         (''receiverCode'', jfield ''participant_code'' recipientAccount), (''asset'', option_json (underlying_currency cfg)),
         (''amount'', JStr (show_dec (td_amount dto))), (''transferId'', JStr clientTransferId)])) (\<lambda>response.
      andthen (service_up ''usd_transfer'')
      (ret (JObj [(''senderTransactionId'', JStr (tx_id (out_tx rs))), (''recipientTransactionId'', JStr (tx_id (in_tx rs))),
         (''clientTransferId'', JStr clientTransferId), (''transferId'', jfield ''providerRequestRef'' response),
         (''amount'', JDec (td_amount dto)), (''asset'', JStr (td_asset dto)), (''recipient'', JStr (td_username dto)),
         (''status'', jfield ''status'' response), (''message'', JStr ''Transfer initiated successfully'')])))))
     (\<lambda>e. andthen (service_down ''usd_transfer'' e) (andthen (failUsdRecords rs) (throw initiation_failed)))"

definition transferUSDToOneDoshUser :: "'s money_env \<Rightarrow> usd_config \<Rightarrow> person \<Rightarrow> transfer_dto \<Rightarrow> (('s, 'm) money_world_scheme, json) io" where
  "transferUSDToOneDoshUser M cfg sender dto =
     bind (ext_call M ''kycVerification.findByUserId'' (JStr (pn_id sender))) (\<lambda>kyc.
     if \<not> js_truthy (jfield ''provider_ref'' kyc) then throw (BadRequest ''KYC verification required for USD transactions'')
     else bind (ext_call M ''findActiveByUsername'' (JStr (td_username dto))) (\<lambda>found.
     if \<not> js_truthy found then throw (NotFound ''Recipient is deactivated or not found'')
     else let recipient = person_of found in
     if pn_id sender = pn_id recipient then throw (BadRequest ''Cannot transfer to yourself'')
     else bind (externalAccountFor M (pn_id sender) (usd_provider cfg)) (\<lambda>senderAccount.
     bind (externalAccountFor M (pn_id recipient) (usd_provider cfg)) (\<lambda>recipientAccount.
     bind (generateTransactionReference M) (\<lambda>clientTransferId.
     bind (io_of (formatCurrencyAmountToSmallestUnit (td_amount dto) (td_asset dto))) (\<lambda>amountInCents.
     bind (getUserWallet M (pn_id sender) (td_asset dto)) (\<lambda>senderWallet.
     if fw_balance senderWallet < amountInCents then throw (BadRequest ''Insufficient balance'')
     else bind (getUserWallet M (pn_id recipient) (td_asset dto)) (\<lambda>recipientWallet.
     bind (createUsdRecords M cfg sender recipient dto clientTransferId amountInCents senderWallet recipientWallet) (\<lambda>rs.
     initiateUsdTransfer M cfg dto clientTransferId senderAccount recipientAccount rs)))))))))"

section \<open>Dollars to a card deposit address\<close>

record deposit_params =
  dp_amount :: rat
  dp_fee :: rat
  dp_asset :: string
  dp_address :: string
  dp_last4 :: "string option"

definition rain_tx :: "person \<Rightarrow> deposit_params \<Rightarrow> string \<Rightarrow> string \<Rightarrow> int \<Rightarrow> wallet_row \<Rightarrow> tx_row" where
  "rain_tx sender p currency clientTransferId amountInCents wallet =
     (usd_tx sender wallet (dp_asset p) (- amountInCents) T_TRANSFER_OUT (clientTransferId @ ''-RAIN-OUT'')
       (''Card funding from '' @ dp_asset p @ '' wallet''))\<lparr>tx_scope := S_EXTERNAL,
     tx_meta := [(''destination_type'', JStr ''rain_deposit_address''), (''rain_deposit_address'', JStr (dp_address p)),
       (''underlying_asset'', JStr currency)]
       @ (if given (dp_last4 p) then [(''destination_name'', JStr (''Card ****'' @ the (dp_last4 p)))] else [])\<rparr>"

definition rain_entry :: "usd_config \<Rightarrow> person \<Rightarrow> deposit_params \<Rightarrow> tx_row \<Rightarrow> wallet_row \<Rightarrow> string \<Rightarrow> fwt_row" where
  "rain_entry cfg sender p tx wallet clientTransferId =
     (usd_entry cfg sender sender tx wallet F_TRANSFER_OUT clientTransferId JNull)\<lparr>ft_destination := Some (dp_address p),
     ft_meta := [(''client_transfer_id'', JStr clientTransferId)]\<rparr>"

definition json_text :: "json \<Rightarrow> string option" where
  "json_text j = (case j of JStr s \<Rightarrow> Some s | _ \<Rightarrow> None)"

definition rain_processing :: "int \<Rightarrow> int \<Rightarrow> fwt_row \<Rightarrow> json \<Rightarrow> fwt_row \<Rightarrow> fwt_row" where
  "rain_processing t feeInCents ft answer r = r\<lparr>ft_status := PROCESSING, ft_processed := Some t,
     ft_request_ref := json_text (jfield ''providerRef'' answer), ft_reference := json_text (jfield ''providerRef'' answer),
     ft_fee := Some feeInCents,
     ft_meta := json_merge (ft_meta ft) [(''withdrawal_fee'', jfield ''withdrawalFee'' answer),
       (''quoted_fee_amount'', jfield ''quotedFeeAmount'' answer), (''quoted_fee_notional'', jfield ''quotedFeeNotional'' answer),
       (''settled_amount'', jfield ''settledAmount'' answer), (''withdrawal_status'', jfield ''status'' answer),
       (''blockchain_transaction_ref'', jfield ''blockchainTransactionRef'' answer),
       (''blockchain_status'', jfield ''blockchainStatus'' answer),
       (''client_withdrawal_request_ref'', jfield ''clientWithdrawalRequestRef'' answer)]\<rparr>"

definition executeRainWithdrawal :: "'s money_env \<Rightarrow> usd_config \<Rightarrow> deposit_params \<Rightarrow> string \<Rightarrow> string \<Rightarrow> json \<Rightarrow> int \<Rightarrow> tx_row \<Rightarrow> fwt_row
    \<Rightarrow> (('s, 'm) money_world_scheme, json) io" where
  "executeRainWithdrawal M cfg p currency clientTransferId account feeInCents tx ft = catch
     (andthen db_step
     (bind (ext_call M ''fiatWalletAdapter.createWithdrawalRequest'' (JObj [(''transactionRef'', JStr (tx_reference tx)),
         (''withdrawalAddress'', JStr (dp_address p)), (''providerUserRef'', jfield ''participant_code'' account),
         (''amount'', JStr (show_dec (dp_amount p + dp_fee p))), (''asset'', JStr currency), (''provider'', JStr (usd_provider cfg))])) (\<lambda>answer.
      bind get_now (\<lambda>t.
      andthen (repo_update_id tx_table (tx_id tx) (\<lambda>r. r\<lparr>tx_status := PROCESSING, tx_processed := Some t\<rparr>))
      (bind (repo_update_id fwt_table (ft_id ft) (rain_processing t feeInCents ft answer)) (\<lambda>updated.
      andthen (service_up ''usd_withdrawal'')
      (case updated of None \<Rightarrow> throw undefined_row | Some u \<Rightarrow>
       ret (JObj [(''senderTransactionId'', JStr (tx_id tx)), (''fiatWalletTransactionId'', JStr (ft_id u)),
         (''clientTransferId'', JStr clientTransferId), (''withdrawalRequestId'', jfield ''providerRef'' answer),
         (''amount'', JDec (dp_amount p)), (''asset'', JStr (dp_asset p)), (''rain_deposit_address'', JStr (dp_address p)),
         (''status'', JStr ''processing''), (''message'', JStr ''Withdrawal executed. Awaiting provider confirmation.'')])))))))
     )(\<lambda>e. andthen (service_down ''usd_withdrawal'' e)
       (andthen (repo_update_id tx_table (tx_id tx) (tx_mark_failed ''Withdrawal request failed''))
       (andthen (repo_update_id fwt_table (ft_id ft) (fwt_mark_failed ''Withdrawal request failed''))
       (throw initiation_failed))))"

definition transferUSDToRainDepositAddress :: "'s money_env \<Rightarrow> usd_config \<Rightarrow> person \<Rightarrow> deposit_params
    \<Rightarrow> (('s, 'm) money_world_scheme, json) io" where
  "transferUSDToRainDepositAddress M cfg sender p =
     bind (io_of (formatCurrencyAmountToSmallestUnit (dp_amount p) (dp_asset p))) (\<lambda>amountInCents.
     bind (io_of (formatCurrencyAmountToSmallestUnit (dp_fee p) (dp_asset p))) (\<lambda>feeInCents.
     bind (ext_call M ''getUserCurrentTier'' (JStr (pn_id sender))) (\<lambda>tier.
     if \<not> js_truthy tier \<or> (case jfield ''level'' tier of JNum n \<Rightarrow> n < 1 | _ \<Rightarrow> False)
       then throw (BadRequest ''You must complete tier one verification to perform USD transactions'')
     else if to_upper (dp_asset p) \<noteq> ''USD'' then throw (BadRequest ''Only USD transfers are supported'')
     else if dp_address p = [] then throw (BadRequest ''Rain deposit address is required'')
     else if \<not> given (underlying_currency cfg) then throw (InternalError ''Default underlying currency not configured'')
     else let currency = the (underlying_currency cfg) in
     bind (externalAccountFor M (pn_id sender) (usd_provider cfg)) (\<lambda>account.
     bind (io_of (formatCurrencyAmountToSmallestUnit (dp_amount p + dp_fee p) (dp_asset p))) (\<lambda>totalAmountInCents.
     bind (getUserWallet M (pn_id sender) (dp_asset p)) (\<lambda>senderWallet.
     if fw_balance senderWallet < totalAmountInCents then throw (BadRequest ''Insufficient balance'')
     else bind (generateTransactionReference M) (\<lambda>clientTransferId.
     bind (insert_tx M (rain_tx sender p currency clientTransferId amountInCents senderWallet)) (\<lambda>tx.
     bind (insert_entry M (rain_entry cfg sender p tx senderWallet clientTransferId)) (\<lambda>ft.
     executeRainWithdrawal M cfg p currency clientTransferId account feeInCents tx ft)))))))))"

section \<open>Naira to another user\<close>

definition ng_tx :: "wallet_row \<Rightarrow> int \<Rightarrow> int \<Rightarrow> transaction_type \<Rightarrow> string \<Rightarrow> string \<Rightarrow> (string \<times> json) list \<Rightarrow> tx_row" where
  "ng_tx wallet amount after ty reference what meta = blank_tx\<lparr>tx_amount := amount, tx_asset := ''NGN'', tx_status := PENDING,
     tx_reference := reference, tx_before := fw_balance wallet, tx_after := after, tx_type := ty, tx_category := C_FIAT,
     tx_scope := S_INTERNAL, tx_description := what, tx_meta := meta\<rparr>"

definition ng_entry :: "'s money_env \<Rightarrow> wallet_row \<Rightarrow> tx_row \<Rightarrow> fiat_type \<Rightarrow> person \<Rightarrow> person \<Rightarrow> (string \<times> json) list \<Rightarrow> fwt_row" where
  "ng_entry M wallet tx ty source destination meta = blank_fwt\<lparr>ft_amount := tx_amount tx, ft_currency := ''NGN'', ft_status := PENDING,
     ft_wallet := fw_id wallet, ft_transaction := tx_id tx, ft_type := ty, ft_source := Some (person_name source),
     ft_destination := Some (person_name destination), ft_description := Some (tx_description tx), ft_provider := Some (waas_provider M),
     ft_reference := Some (tx_reference tx), ft_before := tx_before tx, ft_after := tx_after tx, ft_meta := meta\<rparr>"

definition names_meta :: "person \<Rightarrow> person \<Rightarrow> (string \<times> json) list" where
  "names_meta user receiver = [(''sender_name'', JStr (person_name user)), (''recipient'', JStr (person_name receiver))]"

definition sender_meta :: "'s money_env \<Rightarrow> person \<Rightarrow> person \<Rightarrow> virtual_account \<Rightarrow> json \<Rightarrow> string \<Rightarrow> (string \<times> json) list" where
  "sender_meta M user receiver own account what = [(''source'', JStr (account_number own)), (''source_name'', JStr (person_name user)),
     (''source_account_number'', JStr (account_number own)), (''source_account_name'', JStr (account_name own)),
     (''destination'', jfield ''account_number'' account)] @ names_meta user receiver @
    [(''description'', JStr what), (''source_bank'', JStr (waas_bank_code M)), (''destination_bank'', JStr (waas_bank_code M)),
     (''destination_name'', JStr (person_name receiver)), (''destination_account_number'', jfield ''account_number'' account),
     (''destination_account_name'', jfield ''account_name'' account)]"

definition receiver_meta :: "person \<Rightarrow> person \<Rightarrow> virtual_account \<Rightarrow> json \<Rightarrow> (string \<times> json) list" where
  "receiver_meta user receiver own account = [(''source'', jfield ''account_number'' account), (''destination'', JStr (account_number own)),
     (''source_name'', JStr (person_name receiver)), (''destination_name'', JStr (person_name user)),
     (''source_account_number'', jfield ''account_number'' account), (''destination_account_number'', JStr (account_number own)),
     (''source_account_name'', jfield ''account_name'' account), (''destination_account_name'', JStr (account_name own))]
    @ names_meta user receiver"

text \<open>\<^verbatim>\<open>virtualAccounts[0]\<close>, whose fields are read: an empty list is a \<^verbatim>\<open>TypeError\<close>.\<close>

definition first_account :: "wallet_row \<Rightarrow> (('s, 'm) dbase_scheme, virtual_account) io" where
  "first_account wallet = (case fw_accounts wallet of [] \<Rightarrow> throw undefined_row | va # _ \<Rightarrow> ret va)"

definition createAllRequiredTransactionsForSendNG :: "'s money_env \<Rightarrow> person \<Rightarrow> person \<Rightarrow> wallet_row \<Rightarrow> rat \<Rightarrow> json \<Rightarrow> string option
    \<Rightarrow> (('s, 'm) money_world_scheme, records) io" where
  "createAllRequiredTransactionsForSendNG M user receiver userWallet amount account remark = catch
     (bind (io_of (formatCurrencyAmountToSmallestUnit amount ''NGN'')) (\<lambda>amountInSmallestUnit.
      bind (getUserWallet M (pn_id receiver) ''NGN'') (\<lambda>receiverWallet.
      let senderText = or_text remark (''Transfer to '' @ pn_username receiver);
          receiverText = or_text remark (''Transfer from '' @ pn_username user) in
      transaction
       (bind (generateTransactionReference M) (\<lambda>reference.
        bind (tx_create M (pn_id user) (ng_tx userWallet amountInSmallestUnit (fw_balance userWallet - amountInSmallestUnit)
            T_TRANSFER_OUT reference senderText (party_meta ''recipient'' receiver @ names_meta user receiver))) (\<lambda>stx.
        bind (first_account userWallet) (\<lambda>own.
        bind (fwt_create M (pn_id user) (ng_entry M userWallet stx F_TRANSFER_OUT user receiver
            (sender_meta M user receiver own account senderText))) (\<lambda>sft.
        bind (generateTransactionReference M) (\<lambda>reference'.
        bind (tx_create M (pn_id receiver) ((ng_tx receiverWallet amountInSmallestUnit (fw_balance receiverWallet + amountInSmallestUnit)
            T_TRANSFER_IN reference' receiverText (party_meta ''sender'' user @ names_meta user receiver))
            \<lparr>tx_parent := Some (tx_id stx)\<rparr>)) (\<lambda>rtx.
        bind (fwt_create M (pn_id receiver) (ng_entry M receiverWallet rtx F_TRANSFER_IN receiver user
            (receiver_meta user receiver own account))) (\<lambda>rft.
        ret \<lparr>out_tx = stx, in_tx = rtx, out_entry = sft, in_entry = rft\<rparr>)))))))))))
     (\<lambda>e. throw (BadRequest (message e)))"

definition settle_meta :: "tx_row \<Rightarrow> fwt_row \<Rightarrow> fwt_row \<Rightarrow> balance_meta" where
  "settle_meta rtx ft rft = \<lparr>bm_description = Some (''Transfer to '' @ tx_description rtx), bm_provider = ft_provider ft,
     bm_provider_reference = None, bm_provider_fee = None, bm_provider_metadata = [], bm_source = ft_source ft,
     bm_destination = ft_destination rft, bm_fwt = Some (ft_id ft)\<rparr>"

definition updateAllTransactionsToCompleted :: "'s money_env \<Rightarrow> records \<Rightarrow> (('s, 'm) money_world_scheme, unit) io" where
  "updateAllTransactionsToCompleted M rs = transaction
     (andthen (updateBalance M (ft_wallet (out_entry rs)) (- ft_amount (out_entry rs)) (tx_id (out_tx rs)) (ft_type (out_entry rs))
        COMPLETED (settle_meta (in_tx rs) (out_entry rs) (in_entry rs)) True)
     (andthen (tx_updateStatus M (tx_id (out_tx rs)) COMPLETED None no_notifications)
     (andthen (updateBalance M (ft_wallet (in_entry rs)) (ft_amount (in_entry rs)) (tx_id (in_tx rs)) (ft_type (in_entry rs))
        COMPLETED (settle_meta (in_tx rs) (in_entry rs) (in_entry rs)) True)
     (andthen (tx_updateStatus M (tx_id (in_tx rs)) COMPLETED None no_notifications)
     (ret ())))))"

definition failure_meta :: "string \<Rightarrow> status_meta" where
  "failure_meta reason = no_meta\<lparr>sm_failure := Some reason\<rparr>"

definition updateAllTransactionsToFailedForSender :: "'s money_env \<Rightarrow> string \<Rightarrow> string \<Rightarrow> string \<Rightarrow> (('s, 'm) money_world_scheme, unit) io" where
  "updateAllTransactionsToFailedForSender M tid fid reason = transaction
     (andthen (tx_updateStatus M tid FAILED (Some (failure_meta reason)) all_notifications)
     (andthen (fwt_updateStatus M fid FAILED (failure_meta reason)) (ret ())))"

definition transfer_note :: "person \<Rightarrow> person \<Rightarrow> person \<Rightarrow> rat \<Rightarrow> records \<Rightarrow> json" where
  "transfer_note addressee user receiver amount rs = JObj ([(''user_id'', JStr (pn_id addressee)), (''amount'', JDec amount),
     (''description'', JStr (tx_description (out_tx rs))), (''recipient_id'', JStr (pn_id receiver)), (''sender_id'', JStr (pn_id user))]
     @ names_meta user receiver)"

definition same_bank_request :: "person \<Rightarrow> rat \<Rightarrow> json \<Rightarrow> string option \<Rightarrow> virtual_account \<Rightarrow> records \<Rightarrow> json" where
  "same_bank_request receiver amount account remark own rs = JObj [(''amount'', JDec amount),
     (''transactionReference'', JStr (tx_reference (out_tx rs))), (''transactionType'', JStr ''INTRA_BANK''),
     (''description'', JStr (''Transfer to '' @ person_name receiver @ (if given remark then '' - '' @ the remark else []))),
     (''currency'', JStr ''NGN''),
     (''sender'', JObj [(''accountNumber'', JStr (account_number own)), (''accountName'', JStr (account_name own))]),
     (''receiver'', JObj [(''accountNumber'', jfield ''account_number'' account), (''accountName'', jfield ''account_name'' account)])]"

text \<open>The first \<^verbatim>\<open>try\<close>: the provider, the balances, the in-app notifications.\<close>

definition settleNaira :: "'s money_env \<Rightarrow> person \<Rightarrow> person \<Rightarrow> wallet_row \<Rightarrow> rat \<Rightarrow> json \<Rightarrow> string option \<Rightarrow> records
    \<Rightarrow> (('s, 'm) money_world_scheme, json) io" where
  "settleNaira M user receiver wallet amount account remark rs = catch
     (bind (first_account wallet) (\<lambda>own.
      bind (ext_call M ''transferToSameBank'' (same_bank_request receiver amount account remark own rs)) (\<lambda>response.
      andthen (updateAllTransactionsToCompleted M rs)
      (andthen (createNotification M (transfer_note user user receiver amount rs))
      (andthen (createNotification M (transfer_note receiver user receiver amount rs))
      (andthen (service_up ''ngn_transfer'') (ret response)))))))
     (\<lambda>e. andthen (updateAllTransactionsToFailedForSender M (tx_id (out_tx rs)) (ft_id (out_entry rs)) (message e))
       (andthen (service_down ''ngn_transfer'' e) (throw (InternalError (message e)))))"

text \<open>E-mails and push messages are not waited for; the profiles are, and a missing one is a \<^verbatim>\<open>TypeError\<close>.\<close>

definition push_to :: "json \<Rightarrow> json \<Rightarrow> (('s, 'm) dbase_scheme, unit) io" where
  "push_to profile note = (if profile = JNull then throw undefined_row
     else when_do (js_truthy (jfield ''notification_token'' profile)) (emit ''sendPushNotification'' note))"

definition tellBoth :: "'s money_env \<Rightarrow> person \<Rightarrow> person \<Rightarrow> rat \<Rightarrow> records \<Rightarrow> (('s, 'm) dbase_scheme, unit) io" where
  "tellBoth M user receiver amount rs =
     andthen (emit ''sendMail'' (transfer_note user user receiver amount rs))
     (andthen (emit ''sendMail'' (transfer_note receiver user receiver amount rs))
     (bind (ext_call M ''userProfile.findByUserId'' (JStr (pn_id receiver))) (\<lambda>receiverProfile.
      bind (ext_call M ''userProfile.findByUserId'' (JStr (pn_id user))) (\<lambda>senderProfile.
      andthen (push_to receiverProfile (transfer_note receiver user receiver amount rs))
      (push_to senderProfile (transfer_note user user receiver amount rs))))))"

definition sendNairaToOneDoshUser :: "'s money_env \<Rightarrow> person \<Rightarrow> transfer_dto \<Rightarrow> (('s, 'm) money_world_scheme, json) io" where
  "sendNairaToOneDoshUser M user dto = catch
     (if to_lower (td_asset dto) \<noteq> ''ngn'' then throw (BadRequest ''Currency is not supported'')
      else bind (io_of (formatCurrencyAmountToSmallestUnit (td_amount dto) (td_asset dto))) (\<lambda>amountInSmallestUnit.
      bind (find_wallet (pn_id user) ''NGN'') (\<lambda>found. case found of
          None \<Rightarrow> throw (NotFound ''User wallet not found'')
        | Some userWallet \<Rightarrow>
            if fw_balance userWallet < amountInSmallestUnit then throw (BadRequest ''Insufficient balance'')
            else bind (ext_call M ''findActiveByUsername'' (JStr (td_username dto))) (\<lambda>found.
            if \<not> js_truthy found then throw (NotFound (''User with username '' @ [CHR 0x27] @ td_username dto @ [CHR 0x27] @ '' not found''))
            else let receiver = person_of found in
            if pn_id user = pn_id receiver then throw (BadRequest ''Cannot send money to yourself'')
            else bind (ext_call M ''virtualAccountRepository.findOne'' (JObj [(''user_id'', JStr (pn_id receiver)),
                (''provider'', JStr (waas_provider M))])) (\<lambda>account.
            if \<not> js_truthy account then throw (BadRequest (td_username dto @ '' virtual account not found''))
            else bind (createAllRequiredTransactionsForSendNG M user receiver userWallet (td_amount dto) account (td_remark dto)) (\<lambda>rs.
            bind (settleNaira M user receiver userWallet (td_amount dto) account (td_remark dto) rs) (\<lambda>response.
            andthen (tellBoth M user receiver (td_amount dto) rs) (ret response))))))))
     (\<lambda>e. throw (InternalError (message e)))"

section \<open>Either currency\<close>

definition transfer :: "'s money_env \<Rightarrow> usd_config \<Rightarrow> person \<Rightarrow> transfer_dto \<Rightarrow> (('s, 'm) money_world_scheme, json) io" where
  "transfer M cfg sender dto =
     bind (io_of (formatCurrencyAmountToSmallestUnit (td_amount dto) (td_asset dto))) (\<lambda>amountInSmallestUnit.
     andthen (ext_call M ''validateLimit'' (JObj [(''user'', JStr (pn_id sender)), (''amount'', JNum amountInSmallestUnit),
         (''currency'', JStr (td_asset dto)), (''type'', JStr ''transfer_out'')]))
     (if to_lower (td_asset dto) = ''usd'' then transferUSDToOneDoshUser M cfg sender dto
      else if to_lower (td_asset dto) = ''ngn'' then sendNairaToOneDoshUser M sender dto
      else throw (BadRequest ''Currency is not supported'')))"

section \<open>What a transfer does to the balances\<close>

text \<open>A condition on the wallets alone is not touched by Redis, the clock and the other tables.\<close>

definition wallet_only :: "(('s, 'm) money_world_scheme \<Rightarrow> bool) \<Rightarrow> bool" where
  "wallet_only P \<longleftrightarrow> (\<forall>w w'. wallets w = wallets w' \<longrightarrow> P w \<longrightarrow> P w')"

definition balance_of :: "('s, 'm) money_world_scheme \<Rightarrow> string \<Rightarrow> int option" where
  "balance_of w i = map_option fw_balance (List.find (\<lambda>x. fw_id x = i) (wallets w))"

definition total_balance :: "('s, 'm) money_world_scheme \<Rightarrow> int" where
  "total_balance w = sum_list (map fw_balance (wallets w))"

text \<open>The wallets have distinct ids and \<open>T\<close> is what all of them hold.\<close>

definition holding :: "int \<Rightarrow> ('s, 'm) money_world_scheme \<Rightarrow> bool" where
  "holding T w \<longleftrightarrow> distinct (map fw_id (wallets w)) \<and> total_balance w = T"

lemma wallet_only_intros [simp]:
  "wallet_only (holding T)" "wallet_only (\<lambda>w. f (wallets w))" "wallet_only (\<lambda>w. balance_of w i = b)"
  by (simp_all add: wallet_only_def holding_def total_balance_def balance_of_def)

lemma wallet_only_inv: "wallet_only P \<Longrightarrow> wallet_inv P"
  unfolding wallet_only_def wallet_inv_def by metis

lemma wallet_onlyD: "wallet_only P \<Longrightarrow> P w \<Longrightarrow> wallets w' = wallets w \<Longrightarrow> P w'"
  unfolding wallet_only_def by metis

lemma aside_wallet_only: "aside m \<Longrightarrow> wallet_only P \<Longrightarrow> keeps P m"
  by (rule aside_keeps [OF _ wallet_only_inv])

lemma triple_db_transaction:
  assumes "triple P m Q (\<lambda>_ _. True)" "wallet_only P" "\<And>x. wallet_only (Q x)"
  shows "triple P (transaction m) Q (\<lambda>_. P)"
proof (rule tripleI, goal_cases)
  case (1 w x w')
  then obtain w2 fs where "m w = (Inr x, w2)" "w' = w2\<lparr>faults := fs\<rparr>" by (elim transaction_ok)
  with triple_ok [OF assms(1) 1(1)] show ?case using wallet_onlyD [OF assms(3)] by fastforce
next
  case (2 w e w')
  then obtain w2 where "w' = rollback w w2" using transaction_aborts [of m w e] by auto
  then show ?case using wallet_onlyD [OF assms(2) 2(1)] by simp
qed

lemma replaced_total:
  assumes "distinct (map fw_id ws)" "List.find (\<lambda>x. fw_id x = i) ws = Some r"
  shows "distinct (map fw_id (replace_row fw_id i (r\<lparr>fw_balance := b\<rparr>) ws))
    \<and> sum_list (map fw_balance (replace_row fw_id i (r\<lparr>fw_balance := b\<rparr>) ws)) = sum_list (map fw_balance ws) - fw_balance r + b"
proof -
  have "sum_list (map fw_balance (filter (\<lambda>x. fw_id x \<noteq> i) ws)) = sum_list (map fw_balance ws) - fw_balance r"
    using assms
  proof (induction ws)
    case (Cons a ws)
    show ?case
    proof (cases "fw_id a = i")
      case True
      then have "\<forall>x \<in> set ws. fw_id x \<noteq> i" using Cons.prems(1) by (metis distinct.simps(2) image_eqI list.set_map list.simps(9))
      then have "filter (\<lambda>x. fw_id x \<noteq> i) ws = ws" by (simp add: filter_id_conv)
      with True Cons.prems(2) show ?thesis by simp
    qed (use Cons in simp)
  qed simp
  moreover have "distinct (map fw_id (filter (\<lambda>x. fw_id x \<noteq> i) ws))"
    using assms(1) by (simp add: distinct_map_filter)
  moreover have "fw_id r = i" using assms(2) by (auto dest: find_Some_in)
  ultimately show ?thesis by (auto simp: replace_row_def)
qed

lemma moved_holding: "holding T w \<Longrightarrow> balance_moved wid a st w w' u \<Longrightarrow> holding (T + a) w'"
  using replaced_total [of "wallets w" wid] by (fastforce simp: holding_def balance_moved_def total_balance_def)

lemma moved_balance:
  assumes "balance_moved wid a st w w' u"
  shows "\<exists>b. balance_of w wid = Some b \<and> balance_of w' wid = Some (b + a) \<and> (a < 0 \<longrightarrow> 0 \<le> b + a)
    \<and> (\<forall>i. i \<noteq> wid \<longrightarrow> balance_of w' i = balance_of w i)"
proof -
  obtain r where r: "List.find (\<lambda>x. fw_id x = wid) (wallets w) = Some r"
      "wallets w' = replace_row fw_id wid (r\<lparr>fw_balance := fw_balance r + a\<rparr>) (wallets w)" "a < 0 \<longrightarrow> 0 \<le> fw_balance r + a"
    using assms by (auto simp: balance_moved_def)
  have "fw_id (r\<lparr>fw_balance := fw_balance r + a\<rparr>) = wid" using r(1) by (auto dest: find_Some_in)
  from find_replaced [OF r(1) this] r show ?thesis by (auto simp: balance_of_def)
qed

lemma create_wallet_holding:
  assumes "fw_balance r = 0"
  shows "keeps (holding T) (create_wallet r)"
  unfolding keeps_def
proof (intro allI impI)
  fix w :: "('s, 'm) money_world_scheme"
  assume h: "holding T w"
  obtain v fs where "db_step w = (v, w\<lparr>faults := fs\<rparr>)" by (rule db_step_cases)
  then show "holding T (snd (create_wallet r w))"
    by (cases rule: wallets.create_cases [of r w]; cases v)
       (use assms h in \<open>auto simp: create_wallet_def andthen_run holding_def total_balance_def\<close>)
qed

lemma getUserWallet_holding: "keeps (holding T) (getUserWallet M u a)"
proof -
  have n: "keeps (holding T) (new_value M)" and f: "keeps (holding T) (find_wallet u a)"
    unfolding find_wallet_def by (rule aside_wallet_only, rule aside_intros, simp)+
  show ?thesis
    unfolding getUserWallet_def by (intro keeps_intros create_wallet_holding n f) simp_all
qed

lemma aside_sections:
  "aside (tx_section M i st mo opts)" "aside (fwt_section i st m)"
proof -
  have "aside (notify_status M st opts r)" for r
    unfolding notify_status_def createNotification_def sendTransactionPushNotification_def quietly_def
      sendTransactionEmailNotification_def getParentTransaction_def
    by (auto intro!: aside_intros)
  then show "aside (tx_section M i st mo opts)" "aside (fwt_section i st m)"
    unfolding tx_section_def fwt_section_def repo_findById_graph_def by (auto intro!: aside_intros)
qed

text \<open>The records are transfers of one amount out of one wallet and into another.\<close>

definition balanced :: "records \<Rightarrow> bool" where
  "balanced rs \<longleftrightarrow> ft_amount (out_entry rs) = ft_amount (in_entry rs)"

lemma wallet_only_pure [simp]: "wallet_only P \<Longrightarrow> wallet_only (\<lambda>w. c \<and> P w)"
  unfolding wallet_only_def by blast

lemma result_triple:
  assumes "aside m" "wallet_only P" "\<And>w x w'. m w = (Inr x, w') \<Longrightarrow> C x"
  shows "triple P m (\<lambda>x w. C x \<and> P w) (\<lambda>_. P)"
  using keepsD [OF aside_wallet_only [OF assms(1,2)]] assms(3)
  by (intro tripleI) (metis snd_conv)+

lemma insert_fwt_result: "insert_fwt f w = (Inr x, w') \<Longrightarrow> x = f"
  by (cases rule: fwts.create_cases [of f w])
     (auto simp: insert_fwt_def andthen_run split: if_splits prod.splits sum.splits)

lemma aside_creates:
  "aside (tx_create M u d)" "aside (fwt_create M u f)" "aside (generateTransactionReference M)" "aside (first_account wallet)"
  unfolding tx_create_def fwt_create_def generateTransactionReference_def first_account_def
  by (auto intro!: aside_intros split: list.split)

lemma tx_create_result: "tx_create M u d w = (Inr x, w') \<Longrightarrow> tx_amount x = tx_amount d"
  by (cases rule: txs.create_cases [of "d\<lparr>tx_id := m_fresh M (draws w), tx_user := u, tx_processed := Some (now w)\<rparr>" "w\<lparr>draws := Suc (draws w)\<rparr>"])
     (auto simp: tx_create_def bind_run new_value_def)

lemma fwt_create_result: "fwt_create M u d w = (Inr x, w') \<Longrightarrow> ft_amount x = ft_amount d"
  by (auto simp: fwt_create_def bind_run catch_run new_value_def split: prod.splits sum.splits if_splits dest!: insert_fwt_result)

lemma holding_step:
  assumes "aside m" "\<And>w x w'. m w = (Inr x, w') \<Longrightarrow> C x" "\<And>x. C x \<Longrightarrow> triple (holding T) (f x) Q (\<lambda>_ _. True)"
  shows "triple (holding T) (bind m f) Q (\<lambda>_ _. True)"
  by (rule triple_bind [OF triple_conseq [OF result_triple [OF assms(1) _ assms(2)]] triple_pure [OF assms(3)]]) simp_all

text \<open>The records of a naira transfer have one amount, and making them moves no money.\<close>

lemma naira_records:
  "triple (holding T) (createAllRequiredTransactionsForSendNG M user receiver userWallet amount account remark)
     (\<lambda>rs w. balanced rs \<and> holding T w) (\<lambda>_. holding T)"
proof -
  let ?H = "holding T :: ('s, 'm) money_world_scheme \<Rightarrow> bool"
  have inner: "triple ?H (bind (generateTransactionReference M) (\<lambda>reference.
        bind (tx_create M (pn_id user) (ng_tx userWallet a (fw_balance userWallet - a)
            T_TRANSFER_OUT reference st1 (party_meta ''recipient'' receiver @ names_meta user receiver))) (\<lambda>stx.
        bind (first_account userWallet) (\<lambda>own.
        bind (fwt_create M (pn_id user) (ng_entry M userWallet stx F_TRANSFER_OUT user receiver
            (sender_meta M user receiver own account st1))) (\<lambda>sft.
        bind (generateTransactionReference M) (\<lambda>reference'.
        bind (tx_create M (pn_id receiver) ((ng_tx rw a (fw_balance rw + a)
            T_TRANSFER_IN reference' st2 (party_meta ''sender'' user @ names_meta user receiver))
            \<lparr>tx_parent := Some (tx_id stx)\<rparr>)) (\<lambda>rtx.
        bind (fwt_create M (pn_id receiver) (ng_entry M rw rtx F_TRANSFER_IN receiver user
            (receiver_meta user receiver own account))) (\<lambda>rft.
        ret \<lparr>out_tx = stx, in_tx = rtx, out_entry = sft, in_entry = rft\<rparr>))))))))
      (\<lambda>rs w. balanced rs \<and> ?H w) (\<lambda>_ _. True)" for a st1 st2 rw
    by (rule holding_step [OF aside_creates(3), where C = "\<lambda>_. True"], simp,
        rule holding_step [OF aside_creates(1), where C = "\<lambda>t. tx_amount t = a"], (auto dest!: tx_create_result simp: ng_tx_def)[1],
        rule holding_step [OF aside_creates(4), where C = "\<lambda>_. True"], simp,
        rule holding_step [OF aside_creates(2), where C = "\<lambda>t. ft_amount t = a"], (auto dest!: fwt_create_result simp: ng_entry_def)[1],
        rule holding_step [OF aside_creates(3), where C = "\<lambda>_. True"], simp,
        rule holding_step [OF aside_creates(1), where C = "\<lambda>t. tx_amount t = a"], (auto dest!: tx_create_result simp: ng_tx_def)[1],
        rule holding_step [OF aside_creates(2), where C = "\<lambda>t. ft_amount t = a"], (auto dest!: fwt_create_result simp: ng_entry_def)[1],
        rule triple_ret) (simp add: balanced_def)
  have tr: "triple ?H (transaction m) (\<lambda>rs w. balanced rs \<and> ?H w) (\<lambda>_. ?H)"
    if "triple ?H m (\<lambda>rs w. balanced rs \<and> ?H w) (\<lambda>_ _. True)" for m
    by (rule triple_db_transaction [OF that]) simp_all
  have g: "triple ?H (getUserWallet M u c) (\<lambda>_. ?H) (\<lambda>_. ?H)" for u c
    using getUserWallet_holding unfolding keeps_triple by blast
  show ?thesis
    unfolding createAllRequiredTransactionsForSendNG_def Let_def
    by (rule triple_catch [OF triple_bind [OF triple_io_of triple_bind [OF g tr [OF inner]]] triple_throw]) simp_all
qed

context redis_server
begin

lemma stable_wallets: "wallet_only P \<Longrightarrow> lock_stable key P"
  unfolding lock_stable_def moved_def by (auto elim: wallet_onlyD)

lemma updateBalance_wallets:
  fixes P :: "('s, 'm) money_world_scheme \<Rightarrow> bool"
  assumes "m_redis M = E" "wallet_only P" "\<And>x. wallet_only (Q x)"
    and "\<And>w w' u. P w \<Longrightarrow> balance_moved wid a st w w' u \<Longrightarrow> Q u w'"
  shows "triple P (updateBalance M wid a tid ty st meta inTrx) Q (\<lambda>_ _. True)"
proof -
  let ?sec = "balanceSection M wid a tid ty st meta inTrx"
  have sec: "triple P ?sec Q (\<lambda>_ _. True)"
    by (rule tripleI) (auto intro: assms(4) section_ok)
  have q: "rds (snd (?sec w1)) = rds w1 \<and> now (snd (?sec w1)) = now w1" for w1
    using quiet_section unfolding quiet_def by blast
  have "triple P (withLockN E own (balanceKey wid) (Some 30000) 5 500 ?sec) Q (\<lambda>e w'. True \<or> P w')" for own
    by (rule withLockN_triple) (simp_all add: stable_wallets assms(2,3) sec q lock_stable_def [of _ "\<lambda>_. True"])
  then have l: "triple P (withLockN E own (balanceKey wid) (Some 30000) 5 500 ?sec) Q (\<lambda>_ _. True)" for own by simp
  show ?thesis
    unfolding updateBalance_def locked_def assms(1)
    by (rule triple_bind [where Q' = "\<lambda>_. P", OF _ l]) (auto simp: triple_def new_value_def elim: wallet_onlyD [OF assms(2)])
qed

lemma status_wallets:
  fixes P :: "('s, 'm) money_world_scheme \<Rightarrow> bool"
  assumes "m_redis M = E" "wallet_only P"
  shows "keeps P (tx_updateStatus M i st mo opts)" "keeps P (fwt_updateStatus M i st m)"
proof -
  note s = aside_wallet_only [OF aside_sections(1) assms(2)] aside_wallet_only [OF aside_sections(2) assms(2)]
  have "keeps P (new_value M)" by (rule aside_wallet_only [OF aside_basic(9) assms(2)])
  then show "keeps P (tx_updateStatus M i st mo opts)" "keeps P (fwt_updateStatus M i st m)"
    unfolding tx_updateStatus_def fwt_updateStatus_def locked_wait_def assms(1) withLockW_def
    by (intro keeps_bind keeps_withLockN s stable_wallets assms(2); simp)+
qed

text \<open>The four writes of a settlement: whatever they leave, both balances have moved or none has.\<close>

lemma settle_triple:
  fixes P :: "('s, 'm) money_world_scheme \<Rightarrow> bool"
  assumes "m_redis M = E" "wallet_only P" "wallet_only P1" "wallet_only P2"
    and "\<And>w w' u. P w \<Longrightarrow> balance_moved (ft_wallet (out_entry rs)) (- ft_amount (out_entry rs)) COMPLETED w w' u \<Longrightarrow> P1 w'"
    and "\<And>w w' u. P1 w \<Longrightarrow> balance_moved (ft_wallet (in_entry rs)) (ft_amount (in_entry rs)) COMPLETED w w' u \<Longrightarrow> P2 w'"
  shows "triple P (updateAllTransactionsToCompleted M rs) (\<lambda>_. P2) (\<lambda>_. P)"
proof -
  have t: "triple Q m (\<lambda>_. Q) (\<lambda>_ _. True)" if "keeps Q m" for Q :: "('s, 'm) money_world_scheme \<Rightarrow> bool" and m :: "(('s, 'm) money_world_scheme, 'b) io"
    by (rule triple_keeps [OF that]) simp_all
  show ?thesis
    unfolding updateAllTransactionsToCompleted_def
    by (rule triple_db_transaction [OF triple_seq [OF updateBalance_wallets [where Q = "\<lambda>_. P1"] triple_seq [OF t
          triple_seq [OF updateBalance_wallets [where Q = "\<lambda>_. P2"] triple_seq [OF t triple_ret]]]]])
       (use assms in \<open>auto intro: status_wallets\<close>)
qed

lemma settle_holding:
  assumes "m_redis M = E" "balanced rs"
  shows "keeps (holding T) (updateAllTransactionsToCompleted M rs)"
  unfolding keeps_triple
  by (rule settle_triple [OF assms(1), where ?P1.0 = "holding (T - ft_amount (out_entry rs))"])
     (use moved_holding assms(2) in \<open>fastforce simp: balanced_def\<close>)+

lemma failed_holding:
  assumes "m_redis M = E"
  shows "keeps (holding T) (updateAllTransactionsToFailedForSender M tid fid reason)"
  unfolding updateAllTransactionsToFailedForSender_def keeps_triple
  by (rule triple_conseq [OF triple_db_transaction [where P = "holding T" and Q = "\<lambda>_. holding T"]])
     (auto intro!: triple_keeps [where I = "holding T"] keeps_intros status_wallets [OF assms])

lemma settleNaira_holding:
  assumes "m_redis M = E" "balanced rs"
  shows "keeps (holding T) (settleNaira M user receiver wallet amount account remark rs)"
proof -
  have a: "keeps (holding T) (first_account wallet)" "keeps (holding T) (ext_call M what p)"
    "keeps (holding T) (createNotification M p)" "keeps (holding T) (service_up key)" "keeps (holding T) (service_down key e)"
    for what p key e
    unfolding first_account_def createNotification_def service_up_def service_down_def
    by (rule aside_wallet_only, auto intro!: aside_intros split: list.split)+
  show ?thesis
    unfolding settleNaira_def by (intro keeps_intros a settle_holding failed_holding assms)
qed

lemma sendNaira_holding:
  assumes "m_redis M = E"
  shows "keeps (holding T) (sendNairaToOneDoshUser M user dto)"
proof -
  have a: "keeps (holding T) (ext_call M what p)" "keeps (holding T) (find_wallet u c)"
    "keeps (holding T) (tellBoth M user receiver amount rs)" for what p u c receiver amount rs
    unfolding find_wallet_def tellBoth_def push_to_def by (rule aside_wallet_only, auto intro!: aside_intros)+
  have c: "keeps (holding T) (bind (createAllRequiredTransactionsForSendNG M user receiver userWallet amount account remark) f)"
    if "\<And>rs. balanced rs \<Longrightarrow> keeps (holding T) (f rs)" for receiver userWallet amount account remark
      and f :: "records \<Rightarrow> (('s, 'm) money_world_scheme, json) io"
    unfolding keeps_triple by (rule triple_bind [OF naira_records triple_pure [OF that [unfolded keeps_triple]]])
  show ?thesis
    unfolding sendNairaToOneDoshUser_def by (intro keeps_intros a c settleNaira_holding assms)
qed

lemma usd_holding:
  "keeps (holding T) (transferUSDToOneDoshUser M cfg sender dto)"
  "keeps (holding T) (transferUSDToRainDepositAddress M cfg sender p)"
proof -
  have a: "keeps (holding T) (ext_call M what p)" "keeps (holding T) (externalAccountFor M u c)"
    "keeps (holding T) (generateTransactionReference M)" "keeps (holding T) (insert_tx M t)" "keeps (holding T) (insert_entry M f)"
    "keeps (holding T) (createUsdRecords M cfg sender recipient dto ref cents sw rw)"
    "keeps (holding T) (initiateUsdTransfer M cfg dto ref sa ra rs)"
    "keeps (holding T) (executeRainWithdrawal M cfg dp currency ref sa fee t f)"
    for what p u c t f recipient ref cents sw rw sa ra rs currency fee dp
    unfolding externalAccountFor_def createUsdRecords_def initiateUsdTransfer_def executeRainWithdrawal_def insert_tx_def insert_entry_def
      service_up_def service_down_def failUsdRecords_def Let_def
    by (rule aside_wallet_only, auto intro!: aside_intros aside_creates(3))+
  show "keeps (holding T) (transferUSDToOneDoshUser M cfg sender dto)"
    "keeps (holding T) (transferUSDToRainDepositAddress M cfg sender p)"
    unfolding transferUSDToOneDoshUser_def transferUSDToRainDepositAddress_def Let_def
    by (intro keeps_intros a getUserWallet_holding)+
qed

lemma transfer_holding:
  assumes "m_redis M = E"
  shows "keeps (holding T) (transfer M cfg sender dto)"
proof -
  have a: "keeps (holding T) (ext_call M what p)" for what p
    by (rule aside_wallet_only) (auto intro!: aside_intros)
  show ?thesis
    unfolding transfer_def by (intro keeps_intros a usd_holding sendNaira_holding assms)
qed

end

section \<open>A provider that accepts what the books refuse\<close>

lemma notify_failed_run:
  assumes "\<And>ob p. \<exists>x. m_ext M ob ''createNotification'' p = Inr x"
  shows "\<exists>ob. notify_status M FAILED opts r w = (Inr (), w\<lparr>outbox := ob\<rparr>) \<and> set (outbox w) \<subseteq> set ob"
proof -
  obtain x where "m_ext M (outbox w) ''createNotification'' (tx_payload r) = Inr x" using assms by blast
  then show ?thesis
    by (auto simp: notify_status_def createNotification_def sendTransactionPushNotification_def quietly_def io_simps ext_call_def
        split: sum.split)
qed

lemma status_keys [simp]: "fwt_statusKey j \<noteq> tx_statusKey i"
  by (simp add: fwt_statusKey_def tx_statusKey_def)

lemma tx_fail_section:
  fixes w :: "('s, 'm) money_world_scheme"
  assumes "faults w = []" "List.find (\<lambda>r. tx_id r = i) (txs w) = Some t" "\<not> terminal (tx_status t)"
    and "\<And>ob p. \<exists>x. m_ext M ob ''createNotification'' p = Inr x"
  obtains ob t' where "tx_section M i FAILED mo opts w = (Inr (Some t'), w\<lparr>txs := replace_row tx_id i t' (txs w), outbox := ob\<rparr>)"
    "set (outbox w) \<subseteq> set ob" "tx_status t' = FAILED" "tx_id t' = i"
proof -
  define t' where "t' = tx_status_data FAILED mo (now w) t"
  obtain ob where n: "notify_status M FAILED opts t' (w\<lparr>txs := replace_row tx_id i t' (txs w)\<rparr>)
      = (Inr (), w\<lparr>txs := replace_row tx_id i t' (txs w), outbox := ob\<rparr>)" "set (outbox w) \<subseteq> set ob"
    using notify_failed_run [OF assms(4), of opts t' "w\<lparr>txs := replace_row tx_id i t' (txs w)\<rparr>"] by auto
  have "tx_section M i FAILED mo opts w = (Inr (Some t'), w\<lparr>txs := replace_row tx_id i t' (txs w), outbox := ob\<rparr>)"
    using assms(1-3) n(1) by (auto simp: tx_section_def repo_findById_graph_def bind_run txs.findById_calm txs.update_id_calm
        andthen_run when_run t'_def [symmetric] terminal_def)
  moreover have "tx_id t' = i" using assms(2) by (auto simp: t'_def dest: find_Some_in)
  ultimately show thesis using that n(2) by (simp add: t'_def)
qed

context redis_server
begin

lemma updateBalance_refused:
  fixes w :: "('s, 'm) money_world_scheme"
  assumes "m_redis M = E" "view ent w (balanceKey wid) = None" "faults w = []"
    and "List.find (\<lambda>x. fw_id x = wid) (wallets w) = Some r"
    and "List.find (\<lambda>x. tx_id x = tid) (txs w) = Some t" "tx_status t \<noteq> COMPLETED"
    and "a < 0" "fw_balance r + a < 0"
  obtains s where "updateBalance M wid a tid ty st meta inTrx w
      = (Inl (BadRequest ''Insufficient balance for this transaction''), w\<lparr>draws := Suc (draws w), rds := s\<rparr>)"
    "\<And>k. k \<noteq> balanceKey wid \<Longrightarrow> ent s (now w) k = view ent w k"
proof -
  let ?sec = "balanceSection M wid a tid ty st meta inTrx"
  obtain s s' where s: "locked M (balanceKey wid) (Suc 4) ?sec w = (fst (?sec (w\<lparr>draws := Suc (draws w), rds := s\<rparr>)),
        (snd (?sec (w\<lparr>draws := Suc (draws w), rds := s\<rparr>)))\<lparr>rds := s'\<rparr>)"
      "\<And>k. k \<noteq> balanceKey wid \<Longrightarrow> ent s' (now w) k = view ent w k"
    using locked_at [OF assms(1,2) quiet_section] by metis
  have "?sec (w\<lparr>draws := Suc (draws w), rds := s\<rparr>) = (Inl (BadRequest ''Insufficient balance for this transaction''), w\<lparr>draws := Suc (draws w), rds := s\<rparr>)"
    using assms(3-) by (simp add: balanceSection_def bind_run wallet_findById_def wallets.findById_calm txs.findById_calm)
  with s show thesis by (intro that [of s']) (simp_all add: updateBalance_def)
qed

text \<open>The sender's records are marked failed, in one database transaction.\<close>

lemma fail_sender_calm:
  fixes w :: "('s, 'm) money_world_scheme"
  assumes "m_redis M = E" "0 < m_patience M" "view ent w (tx_statusKey i) = None" "view ent w (fwt_statusKey j) = None" "faults w = []"
    and "List.find (\<lambda>r. tx_id r = i) (txs w) = Some t" "\<not> terminal (tx_status t)"
    and "List.find (\<lambda>r. ft_id r = j) (fwts w) = Some f" "\<not> terminal (ft_status f)"
    and "\<And>ob p. \<exists>x. m_ext M ob ''createNotification'' p = Inr x"
  obtains w' where "updateAllTransactionsToFailedForSender M i j reason w = (Inr (), w')"
    "wallets w' = wallets w" "status_of w' i = Some FAILED" "fwt_status_of w' j = Some FAILED" "set (outbox w) \<subseteq> set (outbox w')"
proof -
  let ?m = "failure_meta reason"
  obtain s s' where l: "tx_updateStatus M i FAILED (Some ?m) all_notifications w
      = (fst (tx_section M i FAILED (Some ?m) all_notifications (w\<lparr>draws := Suc (draws w), rds := s\<rparr>)),
         (snd (tx_section M i FAILED (Some ?m) all_notifications (w\<lparr>draws := Suc (draws w), rds := s\<rparr>)))\<lparr>rds := s'\<rparr>)"
      "\<And>k. k \<noteq> tx_statusKey i \<Longrightarrow> ent s' (now w) k = view ent w k"
    using locked_wait_at [OF assms(1-3) quiet_sections(2)] unfolding tx_updateStatus_def by metis
  obtain ob t' where t: "tx_section M i FAILED (Some ?m) all_notifications (w\<lparr>draws := Suc (draws w), rds := s\<rparr>)
        = (Inr (Some t'), w\<lparr>draws := Suc (draws w), rds := s, txs := replace_row tx_id i t' (txs w), outbox := ob\<rparr>)"
      "set (outbox w) \<subseteq> set ob" "tx_status t' = FAILED" "tx_id t' = i"
    by (rule tx_fail_section [of "w\<lparr>draws := Suc (draws w), rds := s\<rparr>" i t M "Some ?m" all_notifications]) (use assms in auto)
  define w1 where "w1 = w\<lparr>draws := Suc (draws w), rds := s', txs := replace_row tx_id i t' (txs w), outbox := ob\<rparr>"
  have u1: "tx_updateStatus M i FAILED (Some ?m) all_notifications w = (Inr (Some t'), w1)"
    using l(1) t(1) by (simp add: w1_def)
  have v1: "view ent w1 (fwt_statusKey j) = None" using l(2) [OF status_keys] assms(4) by (simp add: w1_def view_def)
  obtain s1 s1' where l1: "fwt_updateStatus M j FAILED ?m w1
      = (fst (fwt_section j FAILED ?m (w1\<lparr>draws := Suc (draws w1), rds := s1\<rparr>)), (snd (fwt_section j FAILED ?m (w1\<lparr>draws := Suc (draws w1), rds := s1\<rparr>)))\<lparr>rds := s1'\<rparr>)"
    using locked_wait_at [OF assms(1,2) v1 quiet_sections(1)] unfolding fwt_updateStatus_def by metis
  define f' where "f' = fwt_status_data FAILED ?m (now w) f"
  have f': "ft_id f' = j" "ft_status f' = FAILED" using assms(8) by (auto simp: f'_def fwt_status_data_def dest: find_Some_in)
  define w2 where "w2 = w1\<lparr>draws := Suc (draws w1), rds := s1', fwts := replace_row ft_id j f' (fwts w)\<rparr>"
  have u2: "fwt_updateStatus M j FAILED ?m w1 = (Inr (Some f'), w2)"
    using l1 assms(5,8,9) by (simp add: fwt_section_def bind_run fwts.findById_calm fwts.update_id_calm w1_def w2_def f'_def)
  have "updateAllTransactionsToFailedForSender M i j reason w = (Inr (), w2)"
    unfolding updateAllTransactionsToFailedForSender_def
    by (rule transaction_calm) (use u1 u2 assms(5) in \<open>simp_all add: andthen_run w2_def w1_def\<close>)
  then show thesis
    by (rule that) (use t(2-4) f' find_replaced [OF assms(6) t(4)] find_replaced [OF assms(8) f'(1)] in
      \<open>auto simp: w2_def w1_def status_of_def fwt_status_of_def\<close>)
qed

end

section \<open>A settlement that goes through\<close>

text \<open>
  What a settlement finds when nothing interferes: a working database, free locks, two wallets, and for
  each an open transaction with its entry, and funds for the amount.
\<close>

record transfer_side =
  sd_wallet :: wallet_row
  sd_tx :: tx_row
  sd_entry :: fwt_row

definition side_ready :: "transfer_side \<Rightarrow> ('s, 'm) money_world_scheme \<Rightarrow> bool" where
  "side_ready d w \<longleftrightarrow>
     List.find (\<lambda>x. fw_id x = fw_id (sd_wallet d)) (wallets w) = Some (sd_wallet d)
   \<and> List.find (\<lambda>x. tx_id x = tx_id (sd_tx d)) (txs w) = Some (sd_tx d) \<and> \<not> terminal (tx_status (sd_tx d)) \<and> tx_type (sd_tx d) \<noteq> T_EXCHANGE
   \<and> List.find (\<lambda>x. ft_id x = ft_id (sd_entry d)) (fwts w) = Some (sd_entry d) \<and> ft_id (sd_entry d) \<noteq> []
   \<and> ft_user (sd_entry d) = fw_user (sd_wallet d) \<and> ft_wallet (sd_entry d) = fw_id (sd_wallet d)"

definition apart :: "transfer_side \<Rightarrow> transfer_side \<Rightarrow> bool" where
  "apart d d' \<longleftrightarrow> fw_id (sd_wallet d) \<noteq> fw_id (sd_wallet d') \<and> tx_id (sd_tx d) \<noteq> tx_id (sd_tx d') \<and> ft_id (sd_entry d) \<noteq> ft_id (sd_entry d')"

definition side_done :: "transfer_side \<Rightarrow> int \<Rightarrow> ('s, 'm) money_world_scheme \<Rightarrow> bool" where
  "side_done d a w \<longleftrightarrow> balance_of w (fw_id (sd_wallet d)) = Some (fw_balance (sd_wallet d) + a)
   \<and> status_of w (tx_id (sd_tx d)) = Some COMPLETED \<and> fwt_status_of w (ft_id (sd_entry d)) = Some COMPLETED"

lemma balanceKey_inject [simp]: "balanceKey i = balanceKey j \<longleftrightarrow> i = j"
  by (simp add: balanceKey_def)

lemma tx_statusKey_inject [simp]: "tx_statusKey i = tx_statusKey j \<longleftrightarrow> i = j"
  by (simp add: tx_statusKey_def)

lemma settle_keys [simp]: "tx_statusKey i \<noteq> balanceKey j" "fwt_statusKey i \<noteq> balanceKey j" "balanceKey j \<noteq> tx_statusKey i"
  by (simp_all add: tx_statusKey_def fwt_statusKey_def balanceKey_def)

definition keys_free :: "('s \<Rightarrow> int \<Rightarrow> keyspace) \<Rightarrow> transfer_side \<Rightarrow> ('s, 'm) money_world_scheme \<Rightarrow> bool" where
  "keys_free ent d w \<longleftrightarrow> view ent w (balanceKey (fw_id (sd_wallet d))) = None \<and> view ent w (tx_statusKey (tx_id (sd_tx d))) = None"

text \<open>One half of the settlement: the balance and the entry, then the transaction.\<close>

definition half :: "'s money_env \<Rightarrow> transfer_side \<Rightarrow> int \<Rightarrow> fiat_type \<Rightarrow> balance_meta \<Rightarrow> (('s, 'm) money_world_scheme, unit) io" where
  "half M d a ty meta = andthen (updateBalance M (fw_id (sd_wallet d)) a (tx_id (sd_tx d)) ty COMPLETED meta True)
     (andthen (tx_updateStatus M (tx_id (sd_tx d)) COMPLETED None no_notifications) (ret ()))"

definition out_side :: "wallet_row \<Rightarrow> records \<Rightarrow> transfer_side" where
  "out_side r rs = \<lparr>sd_wallet = r, sd_tx = out_tx rs, sd_entry = out_entry rs\<rparr>"

definition in_side :: "wallet_row \<Rightarrow> records \<Rightarrow> transfer_side" where
  "in_side r rs = \<lparr>sd_wallet = r, sd_tx = in_tx rs, sd_entry = in_entry rs\<rparr>"

lemma side_simps [simp]: "sd_wallet (out_side r rs) = r" "sd_tx (out_side r rs) = out_tx rs" "sd_entry (out_side r rs) = out_entry rs"
  "sd_wallet (in_side r rs) = r" "sd_tx (in_side r rs) = in_tx rs" "sd_entry (in_side r rs) = in_entry rs"
  "bm_fwt (settle_meta t f f') = Some (ft_id f)"
  by (simp_all add: out_side_def in_side_def settle_meta_def)

text \<open>Everything a settlement needs.\<close>

definition settle_ready :: "('s \<Rightarrow> int \<Rightarrow> keyspace) \<Rightarrow> 's money_env \<Rightarrow> wallet_row \<Rightarrow> wallet_row \<Rightarrow> records \<Rightarrow> ('s, 'm) money_world_scheme \<Rightarrow> bool" where
  "settle_ready ent M r r' rs w \<longleftrightarrow> 0 < m_patience M \<and> faults w = [] \<and> keys_free ent (out_side r rs) w \<and> keys_free ent (in_side r' rs) w
     \<and> side_ready (out_side r rs) w \<and> side_ready (in_side r' rs) w \<and> apart (out_side r rs) (in_side r' rs)
     \<and> 0 < ft_amount (out_entry rs) \<and> ft_amount (in_entry rs) = ft_amount (out_entry rs) \<and> ft_amount (out_entry rs) \<le> fw_balance r"

lemma seq_assoc: "andthen m (andthen n k) = andthen (andthen m (andthen n (ret ()))) k"
  by (rule ext) (simp add: andthen_run split: prod.split sum.split)

context redis_server
begin

lemma complete_status_calm:
  fixes w :: "('s, 'm) money_world_scheme"
  assumes "m_redis M = E" "0 < m_patience M" "view ent w (tx_statusKey i) = None" "faults w = []"
    and "List.find (\<lambda>r. tx_id r = i) (txs w) = Some t" "\<not> terminal (tx_status t)" "tx_type t \<noteq> T_EXCHANGE"
  obtains s t' where "tx_updateStatus M i COMPLETED None no_notifications w
      = (Inr (Some t'), w\<lparr>draws := Suc (draws w), rds := s, txs := replace_row tx_id i t' (txs w)\<rparr>)"
    "tx_status t' = COMPLETED" "tx_id t' = i" "\<And>k. view ent w k = None \<Longrightarrow> ent s (now w) k = None"
proof -
  obtain s s' where l: "tx_updateStatus M i COMPLETED None no_notifications w
      = (fst (tx_section M i COMPLETED None no_notifications (w\<lparr>draws := Suc (draws w), rds := s\<rparr>)),
         (snd (tx_section M i COMPLETED None no_notifications (w\<lparr>draws := Suc (draws w), rds := s\<rparr>)))\<lparr>rds := s'\<rparr>)"
      "\<And>k. k \<noteq> tx_statusKey i \<Longrightarrow> ent s' (now w) k = view ent w k" "ent s' (now w) (tx_statusKey i) = None"
    using locked_wait_at [OF assms(1-3) quiet_sections(2)] unfolding tx_updateStatus_def by metis
  define t' where "t' = tx_status_data COMPLETED None (now w) t"
  have t': "tx_type t' \<noteq> T_EXCHANGE" "tx_status t' = COMPLETED" "tx_id t' = i"
    using assms(5,7) by (auto simp: t'_def tx_status_data_def Let_def dest: find_Some_in)
  have "tx_section M i COMPLETED None no_notifications (w\<lparr>draws := Suc (draws w), rds := s\<rparr>)
      = (Inr (Some t'), w\<lparr>draws := Suc (draws w), rds := s, txs := replace_row tx_id i t' (txs w)\<rparr>)"
    using assms(4-6) t' by (auto simp: tx_section_def repo_findById_graph_def bind_run txs.findById_calm txs.update_id_calm
        andthen_run when_run t'_def [symmetric] terminal_def notify_status_def no_notifications_def)
  then show thesis
    using l t' by (intro that [of t' s']) (simp, simp, simp, metis)
qed

lemma half_calm:
  fixes w :: "('s, 'm) money_world_scheme"
  assumes "m_redis M = E" "0 < m_patience M" "faults w = []" "keys_free ent d w" "side_ready d w"
    and "a < 0 \<longrightarrow> 0 \<le> fw_balance (sd_wallet d) + a" "bm_fwt meta = Some (ft_id (sd_entry d))"
  obtains w' where "half M d a ty meta w = (Inr (), w')" "side_done d a w'" "faults w' = []" "now w' = now w"
    "set (outbox w) \<subseteq> set (outbox w')" "\<And>k. view ent w k = None \<Longrightarrow> view ent w' k = None"
    "\<And>d'. apart d d' \<Longrightarrow> side_ready d' w' = side_ready d' w" "\<And>d' b. apart d d' \<Longrightarrow> side_done d' b w' = side_done d' b w"
    "\<And>i. i \<noteq> fw_id (sd_wallet d) \<Longrightarrow> balance_of w' i = balance_of w i"
proof -
  let ?r = "sd_wallet d" and ?t = "sd_tx d" and ?f = "sd_entry d"
  note k = assms(4) [unfolded keys_free_def] and r = assms(5) [unfolded side_ready_def]
  have nc: "tx_status ?t \<noteq> COMPLETED" using r by (auto simp: terminal_def)
  obtain s where u: "updateBalance M (fw_id ?r) a (tx_id ?t) ty COMPLETED meta True w = (Inr (Some (?r\<lparr>fw_balance := fw_balance ?r + a\<rparr>)),
      w\<lparr>draws := Suc (draws w), rds := s, wallets := replace_row fw_id (fw_id ?r) (?r\<lparr>fw_balance := fw_balance ?r + a\<rparr>) (wallets w),
        fwts := replace_row ft_id (ft_id ?f) (mark_processed COMPLETED (fw_balance ?r + a) (now w) ?f) (fwts w),
        outbox := (''WALLET_BALANCE_CHANGED'', balance_event ?r (fw_id ?r) (tx_id ?t) (fw_balance ?r) (fw_balance ?r + a)) # outbox w\<rparr>)"
      "\<And>k. k \<noteq> balanceKey (fw_id ?r) \<Longrightarrow> ent s (now w) k = view ent w k" "ent s (now w) (balanceKey (fw_id ?r)) = None"
    by (rule updateBalance_calm [OF assms(1) _ assms(3), of "fw_id ?r" ?r "tx_id ?t" ?t a meta "ft_id ?f" ?f ty COMPLETED True])
       (use assms(6,7) k r nc in simp_all)
  define w1 where "w1 = w\<lparr>draws := Suc (draws w), rds := s, wallets := replace_row fw_id (fw_id ?r) (?r\<lparr>fw_balance := fw_balance ?r + a\<rparr>) (wallets w),
        fwts := replace_row ft_id (ft_id ?f) (mark_processed COMPLETED (fw_balance ?r + a) (now w) ?f) (fwts w),
        outbox := (''WALLET_BALANCE_CHANGED'', balance_event ?r (fw_id ?r) (tx_id ?t) (fw_balance ?r) (fw_balance ?r + a)) # outbox w\<rparr>"
  have v1: "view ent w1 k = None" if "view ent w k = None" for k
    using that u(2,3) by (cases "k = balanceKey (fw_id ?r)") (simp_all add: w1_def view_def)
  have sk: "view ent w1 (tx_statusKey (tx_id ?t)) = None" using v1 k by simp
  obtain s' t' where c: "tx_updateStatus M (tx_id ?t) COMPLETED None no_notifications w1
      = (Inr (Some t'), w1\<lparr>draws := Suc (draws w1), rds := s', txs := replace_row tx_id (tx_id ?t) t' (txs w1)\<rparr>)"
      "tx_status t' = COMPLETED" "tx_id t' = tx_id ?t" "\<And>k. view ent w1 k = None \<Longrightarrow> ent s' (now w1) k = None"
    by (rule complete_status_calm [OF assms(1,2), of w1 "tx_id ?t" ?t]) (use assms(3) r sk in \<open>simp_all add: w1_def view_def\<close>)
  define w2 where "w2 = w1\<lparr>draws := Suc (draws w1), rds := s', txs := replace_row tx_id (tx_id ?t) t' (txs w1)\<rparr>"
  have "half M d a ty meta w = (Inr (), w2)" by (simp add: half_def andthen_run u(1) w1_def [symmetric] c(1) w2_def)
  moreover have "view ent w2 k = None" if "view ent w k = None" for k
    using c(4) [OF v1 [OF that]] by (simp add: w2_def view_def)
  moreover have find: "List.find (\<lambda>x. fw_id x = i) (wallets w2) = (if i = fw_id ?r then Some (?r\<lparr>fw_balance := fw_balance ?r + a\<rparr>) else List.find (\<lambda>x. fw_id x = i) (wallets w))"
    "List.find (\<lambda>x. tx_id x = i) (txs w2) = (if i = tx_id ?t then Some t' else List.find (\<lambda>x. tx_id x = i) (txs w))"
    "List.find (\<lambda>x. ft_id x = i) (fwts w2) = (if i = ft_id ?f then Some (mark_processed COMPLETED (fw_balance ?r + a) (now w) ?f) else List.find (\<lambda>x. ft_id x = i) (fwts w))" for i
    using r c(3) find_replaced [where rid = fw_id and i = i and j = "fw_id ?r" and r = ?r and rs = "wallets w"]
      find_replaced [where rid = tx_id and i = i and j = "tx_id ?t" and r = ?t and rs = "txs w" and r' = t']
      find_replaced [where rid = ft_id and i = i and j = "ft_id ?f" and r = ?f and rs = "fwts w"]
    by (simp_all add: w2_def w1_def mark_processed_def)
  ultimately show thesis
    using assms(3) by (intro that [of w2])
      (auto simp: w2_def w1_def side_done_def balance_of_def status_of_def fwt_status_of_def mark_processed_def c(2) side_ready_def apart_def)
qed

text \<open>What is completed stays so when the sender's records are to be marked failed.\<close>

lemma fail_sender_ignored:
  fixes w :: "('s, 'm) money_world_scheme"
  assumes "m_redis M = E" "0 < m_patience M" "view ent w (tx_statusKey i) = None" "view ent w (fwt_statusKey j) = None" "faults w = []"
    and "status_of w i = Some COMPLETED" "fwt_status_of w j = Some COMPLETED"
  obtains w' where "updateAllTransactionsToFailedForSender M i j reason w = (Inr (), w')" "tables_kept w w'"
proof -
  let ?m = "failure_meta reason"
  obtain t where t: "List.find (\<lambda>r. tx_id r = i) (txs w) = Some t" "tx_status t = COMPLETED"
    using assms(6) by (auto simp: status_of_def)
  obtain f where f: "List.find (\<lambda>r. ft_id r = j) (fwts w) = Some f" "ft_status f = COMPLETED"
    using assms(7) by (auto simp: fwt_status_of_def)
  obtain s s' where l: "tx_updateStatus M i FAILED (Some ?m) all_notifications w
      = (fst (tx_section M i FAILED (Some ?m) all_notifications (w\<lparr>draws := Suc (draws w), rds := s\<rparr>)),
         (snd (tx_section M i FAILED (Some ?m) all_notifications (w\<lparr>draws := Suc (draws w), rds := s\<rparr>)))\<lparr>rds := s'\<rparr>)"
      "\<And>k. k \<noteq> tx_statusKey i \<Longrightarrow> ent s' (now w) k = view ent w k"
    using locked_wait_at [OF assms(1-3) quiet_sections(2)] unfolding tx_updateStatus_def by metis
  define w1 where "w1 = w\<lparr>draws := Suc (draws w), rds := s'\<rparr>"
  have u1: "tx_updateStatus M i FAILED (Some ?m) all_notifications w = (Inr (Some t), w1)"
    using l(1) t assms(5) by (simp add: w1_def tx_section_def repo_findById_graph_def bind_run txs.findById_calm terminal_def)
  have v1: "view ent w1 (fwt_statusKey j) = None" using l(2) [OF status_keys] assms(4) by (simp add: w1_def view_def)
  obtain s1 s1' where l1: "fwt_updateStatus M j FAILED ?m w1
      = (fst (fwt_section j FAILED ?m (w1\<lparr>draws := Suc (draws w1), rds := s1\<rparr>)), (snd (fwt_section j FAILED ?m (w1\<lparr>draws := Suc (draws w1), rds := s1\<rparr>)))\<lparr>rds := s1'\<rparr>)"
    using locked_wait_at [OF assms(1,2) v1 quiet_sections(1)] unfolding fwt_updateStatus_def by metis
  then have u2: "fwt_updateStatus M j FAILED ?m w1 = (Inr (Some f), w1\<lparr>draws := Suc (draws w1), rds := s1'\<rparr>)"
    using f assms(5) by (simp add: w1_def fwt_section_def bind_run fwts.findById_calm terminal_def failure_meta_def no_meta_def given_def)
  have "updateAllTransactionsToFailedForSender M i j reason w = (Inr (), w1\<lparr>draws := Suc (draws w1), rds := s1'\<rparr>)"
    unfolding updateAllTransactionsToFailedForSender_def
    by (rule transaction_calm) (use u1 u2 assms(5) in \<open>simp_all add: andthen_run w1_def\<close>)
  then show thesis by (rule that) (simp add: tables_kept_def w1_def)
qed

lemma settle_calm:
  fixes w :: "('s, 'm) money_world_scheme"
  assumes "m_redis M = E" "settle_ready ent M r r' rs w"
  obtains w' where "updateAllTransactionsToCompleted M rs w = (Inr (), w')" "faults w' = []" "now w' = now w"
    "side_done (out_side r rs) (- ft_amount (out_entry rs)) w'" "side_done (in_side r' rs) (ft_amount (out_entry rs)) w'"
    "set (outbox w) \<subseteq> set (outbox w')" "\<And>k. view ent w k = None \<Longrightarrow> view ent w' k = None"
    "\<And>i. i \<noteq> fw_id r \<Longrightarrow> i \<noteq> fw_id r' \<Longrightarrow> balance_of w' i = balance_of w i"
proof -
  let ?d = "out_side r rs" and ?d' = "in_side r' rs" and ?a = "ft_amount (out_entry rs)"
  note a = assms(2) [unfolded settle_ready_def]
  then have ap: "apart ?d ?d'" "apart ?d' ?d" by (auto simp: apart_def)
  let ?m = "settle_meta (in_tx rs) (out_entry rs) (in_entry rs)" and ?m' = "settle_meta (in_tx rs) (in_entry rs) (in_entry rs)"
  obtain w1 where h: "half M ?d (- ?a) (ft_type (out_entry rs)) ?m w = (Inr (), w1)" "side_done ?d (- ?a) w1" "faults w1 = []" "now w1 = now w"
    "set (outbox w) \<subseteq> set (outbox w1)" "\<And>k. view ent w k = None \<Longrightarrow> view ent w1 k = None"
    "\<And>d'. apart ?d d' \<Longrightarrow> side_ready d' w1 = side_ready d' w" "\<And>d' b. apart ?d d' \<Longrightarrow> side_done d' b w1 = side_done d' b w"
    "\<And>i. i \<noteq> fw_id (sd_wallet ?d) \<Longrightarrow> balance_of w1 i = balance_of w i"
    by (rule half_calm [OF assms(1), where w = w and d = ?d and a = "- ?a" and meta = ?m and ty = "ft_type (out_entry rs)"]) (use a in simp_all)
  obtain w2 where h': "half M ?d' ?a (ft_type (in_entry rs)) ?m' w1 = (Inr (), w2)" "side_done ?d' ?a w2" "faults w2 = []" "now w2 = now w1"
    "set (outbox w1) \<subseteq> set (outbox w2)" "\<And>k. view ent w1 k = None \<Longrightarrow> view ent w2 k = None"
    "\<And>d. apart ?d' d \<Longrightarrow> side_ready d w2 = side_ready d w1" "\<And>d b. apart ?d' d \<Longrightarrow> side_done d b w2 = side_done d b w1"
    "\<And>i. i \<noteq> fw_id (sd_wallet ?d') \<Longrightarrow> balance_of w2 i = balance_of w1 i"
  proof (rule half_calm [OF assms(1), where w = w1 and d = ?d' and a = ?a and meta = ?m' and ty = "ft_type (in_entry rs)"])
    show "keys_free ent ?d' w1" using a h(6) by (simp add: keys_free_def)
    show "side_ready ?d' w1" using h(7) [OF ap(1)] a by simp
  qed (use a h(3) in simp_all)
  have wid: "ft_wallet (out_entry rs) = fw_id r" "ft_wallet (in_entry rs) = fw_id r'"
    using a by (simp_all add: side_ready_def)
  have "(updateAllTransactionsToCompleted M rs :: (('s, 'm) money_world_scheme, unit) io) = transaction (andthen (half M ?d (- ?a) (ft_type (out_entry rs)) ?m) (half M ?d' ?a (ft_type (in_entry rs)) ?m'))"
    using a unfolding updateAllTransactionsToCompleted_def wid
    by (subst seq_assoc) (simp add: half_def)
  moreover have "transaction (andthen (half M ?d (- ?a) (ft_type (out_entry rs)) ?m) (half M ?d' ?a (ft_type (in_entry rs)) ?m')) w = (Inr (), w2)"
    by (rule transaction_calm) (simp_all add: andthen_run h(1) h'(1,3))
  ultimately have "updateAllTransactionsToCompleted M rs w = (Inr (), w2)" by simp
  then show thesis
    by (rule that) (use h(2,4,5,6,9) h'(2-6,9) h'(8) [OF ap(2)] in auto)
qed

end

section \<open>Properties\<close>

text \<open>
  C4: whatever a transfer between users does, in dollars or in naira, and wherever the database, Redis
  or a collaborator fails, the wallets together hold what they held before.
\<close>

theorem transfers_conserve_total:
  assumes "redis_server (m_redis M) ent" "distinct (map fw_id (wallets w))"
  shows "total_balance (snd (transfer M cfg sender dto w)) = total_balance w
    \<and> distinct (map fw_id (wallets (snd (transfer M cfg sender dto w))))"
  using keepsD [OF redis_server.transfer_holding [OF assms(1) refl], of "total_balance w" w] assms(2)
  by (auto simp: holding_def)

text \<open>
  C5: the settlement of a naira transfer is all or nothing: if it returns, the sender's wallet has the
  amount less and was not overdrawn, the receiver's has it more, and no other wallet changed; if it
  throws, wallets, transactions and entries are as before.
\<close>

theorem settlement_all_or_nothing:
  fixes w :: "('s, 'm) money_world_scheme"
  assumes "redis_server (m_redis M) ent" "ft_wallet (out_entry rs) \<noteq> ft_wallet (in_entry rs)"
  shows "case updateAllTransactionsToCompleted M rs w of
      (Inl e, w') \<Rightarrow> tables_kept w w'
    | (Inr _, w') \<Rightarrow> \<exists>b c. balance_of w (ft_wallet (out_entry rs)) = Some b \<and> balance_of w (ft_wallet (in_entry rs)) = Some c
        \<and> (0 < ft_amount (out_entry rs) \<longrightarrow> ft_amount (out_entry rs) \<le> b)
        \<and> balance_of w' (ft_wallet (out_entry rs)) = Some (b - ft_amount (out_entry rs))
        \<and> balance_of w' (ft_wallet (in_entry rs)) = Some (c + ft_amount (in_entry rs))
        \<and> (\<forall>i. i \<noteq> ft_wallet (out_entry rs) \<longrightarrow> i \<noteq> ft_wallet (in_entry rs) \<longrightarrow> balance_of w' i = balance_of w i)"
proof -
  let ?o = "ft_wallet (out_entry rs)" and ?i = "ft_wallet (in_entry rs)" and ?a = "ft_amount (out_entry rs)"
  define P where "P = (\<lambda>w' :: ('s, 'm) money_world_scheme. \<forall>i. balance_of w' i = balance_of w i)"
  define P1 where "P1 = (\<lambda>w' :: ('s, 'm) money_world_scheme. \<exists>b. balance_of w ?o = Some b \<and> balance_of w' ?o = Some (b - ?a) \<and> (0 < ?a \<longrightarrow> ?a \<le> b)
    \<and> (\<forall>i. i \<noteq> ?o \<longrightarrow> balance_of w' i = balance_of w i))"
  define P2 where "P2 = (\<lambda>w' :: ('s, 'm) money_world_scheme. \<exists>b c. balance_of w ?o = Some b \<and> balance_of w ?i = Some c \<and> (0 < ?a \<longrightarrow> ?a \<le> b)
    \<and> balance_of w' ?o = Some (b - ?a) \<and> balance_of w' ?i = Some (c + ft_amount (in_entry rs))
    \<and> (\<forall>i. i \<noteq> ?o \<longrightarrow> i \<noteq> ?i \<longrightarrow> balance_of w' i = balance_of w i))"
  have wo: "wallet_only P" "wallet_only P1" "wallet_only P2"
    by (simp_all add: wallet_only_def P_def P1_def P2_def balance_of_def)
  have t: "triple P (updateAllTransactionsToCompleted M rs) (\<lambda>_. P2) (\<lambda>_. P)"
  proof (rule redis_server.settle_triple [OF assms(1) refl wo])
    fix w1 w2 u
    assume "P w1" "balance_moved ?o (- ?a) COMPLETED w1 w2 u"
    then show "P1 w2" using moved_balance [of ?o "- ?a" COMPLETED w1 w2 u] by (force simp: P_def P1_def)
  next
    fix w1 w2 u
    assume "P1 w1" "balance_moved ?i (ft_amount (in_entry rs)) COMPLETED w1 w2 u"
    then show "P2 w2" using moved_balance [of ?i "ft_amount (in_entry rs)" COMPLETED w1 w2 u] assms(2)
      by (force simp: P1_def P2_def)
  qed
  obtain v w' where r: "updateAllTransactionsToCompleted M rs w = (v, w')" by (cases "updateAllTransactionsToCompleted M rs w")
  show ?thesis
  proof (cases v)
    case (Inl e)
    then obtain w2 where "w' = rollback w w2"
      using r transaction_aborts unfolding updateAllTransactionsToCompleted_def by (metis fst_conv snd_conv)
    with r Inl show ?thesis by (simp add: tables_kept_def)
  next
    case (Inr x)
    with r have "P2 w'" using triple_ok [OF t, of w] by (simp add: P_def)
    then show ?thesis using r Inr by (simp add: P2_def)
  qed
qed


text \<open>
  The check of the balance reserves nothing: when the sender's balance has fallen below the amount
  by the time the provider accepts a naira transfer, the provider has moved the money, no balance here
  changes, the sender's records are marked failed and the caller gets an error.
\<close>

theorem accepted_transfer_not_booked:
  fixes w :: "('s, 'm) money_world_scheme"
  assumes "redis_server (m_redis M) ent" "0 < m_patience M" "faults w = []"
    and "view ent w (balanceKey (ft_wallet (out_entry rs))) = None" "view ent w (tx_statusKey (tx_id (out_tx rs))) = None"
      "view ent w (fwt_statusKey (ft_id (out_entry rs))) = None"
    and "List.find (\<lambda>x. fw_id x = ft_wallet (out_entry rs)) (wallets w) = Some r" "fw_balance r < ft_amount (out_entry rs)" "0 < ft_amount (out_entry rs)"
    and "List.find (\<lambda>x. tx_id x = tx_id (out_tx rs)) (txs w) = Some t" "\<not> terminal (tx_status t)"
    and "List.find (\<lambda>x. ft_id x = ft_id (out_entry rs)) (fwts w) = Some f" "\<not> terminal (ft_status f)"
    and "fw_accounts wallet = own # others"
    and "m_ext M (outbox w) ''transferToSameBank'' (same_bank_request receiver amount account remark own rs) = Inr response"
    and "\<And>ob p. \<exists>x. m_ext M ob ''createNotification'' p = Inr x"
  shows "\<exists>w'. settleNaira M user receiver wallet amount account remark rs w
      = (Inl (InternalError ''Insufficient balance for this transaction''), w')
    \<and> (''transferToSameBank'', same_bank_request receiver amount account remark own rs) \<in> set (outbox w') \<and> wallets w' = wallets w
    \<and> status_of w' (tx_id (out_tx rs)) = Some FAILED \<and> fwt_status_of w' (ft_id (out_entry rs)) = Some FAILED"
proof -
  let ?call = "(''transferToSameBank'', same_bank_request receiver amount account remark own rs)"
  let ?why = "BadRequest ''Insufficient balance for this transaction''"
  define w1 where "w1 = w\<lparr>outbox := ?call # outbox w\<rparr>"
  have v1: "view ent w1 = view ent w" by (simp add: w1_def view_def)
  have "tx_status t \<noteq> COMPLETED" using assms(11) by (auto simp: terminal_def)
  with assms v1 obtain s where u: "updateBalance M (ft_wallet (out_entry rs)) (- ft_amount (out_entry rs)) (tx_id (out_tx rs))
        (ft_type (out_entry rs)) COMPLETED (settle_meta (in_tx rs) (out_entry rs) (in_entry rs)) True w1
      = (Inl ?why, w1\<lparr>draws := Suc (draws w1), rds := s\<rparr>)"
      "\<And>k. k \<noteq> balanceKey (ft_wallet (out_entry rs)) \<Longrightarrow> ent s (now w1) k = view ent w1 k"
    by - (rule redis_server.updateBalance_refused [OF assms(1) refl, of w1 "ft_wallet (out_entry rs)" r "tx_id (out_tx rs)" t
        "- ft_amount (out_entry rs)"], auto simp: w1_def)
  define w2 where "w2 = rollback w1 (w1\<lparr>draws := Suc (draws w1), rds := s\<rparr>)"
  have c: "updateAllTransactionsToCompleted M rs w1 = (Inl ?why, w2)"
    unfolding updateAllTransactionsToCompleted_def w2_def by (rule transaction_throws) (simp add: andthen_run u)
  have w2: "wallets w2 = wallets w" "txs w2 = txs w" "fwts w2 = fwts w" "faults w2 = []" "?call \<in> set (outbox w2)"
    using assms(3) by (simp_all add: w2_def w1_def)
  have v2: "view ent w2 k = view ent w k" if "k \<noteq> balanceKey (ft_wallet (out_entry rs))" for k
    using u(2) [OF that] v1 by (simp add: w2_def w1_def view_def)
  have keys: "tx_statusKey i \<noteq> balanceKey j" "fwt_statusKey i \<noteq> balanceKey j" for i j
    by (simp_all add: tx_statusKey_def fwt_statusKey_def balanceKey_def)
  obtain w3 where f: "updateAllTransactionsToFailedForSender M (tx_id (out_tx rs)) (ft_id (out_entry rs)) (message ?why) w2 = (Inr (), w3)"
      "wallets w3 = wallets w2" "status_of w3 (tx_id (out_tx rs)) = Some FAILED"
      "fwt_status_of w3 (ft_id (out_entry rs)) = Some FAILED" "set (outbox w2) \<subseteq> set (outbox w3)"
    by (rule redis_server.fail_sender_calm [OF assms(1) refl assms(2), of w2 "tx_id (out_tx rs)" "ft_id (out_entry rs)" t f])
       (use assms w2 v2 keys in auto)
  obtain ob where d: "service_down ''ngn_transfer'' ?why w3 = (Inr (), w3\<lparr>outbox := ob # outbox w3\<rparr>)"
    by (simp add: service_down_def)
  have p: "bind (first_account wallet) (\<lambda>own. bind (ext_call M ''transferToSameBank'' (same_bank_request receiver amount account remark own rs)) g) w
      = g response w1" for g :: "json \<Rightarrow> (('s, 'm) money_world_scheme, json) io"
    using assms(14,15) by (simp add: first_account_def ext_call_def io_simps w1_def)
  have "settleNaira M user receiver wallet amount account remark rs w = (Inl (InternalError (message ?why)), w3\<lparr>outbox := ob # outbox w3\<rparr>)"
    unfolding settleNaira_def by (simp only: catch_run p) (simp add: andthen_run c f(1) [simplified] d)
  then show ?thesis using f w2 by (auto simp: status_of_def fwt_status_of_def)
qed

text \<open>
  C36: a naira transfer settles: with a database that works, the locks free, both wallets there and the
  funds for it, the settlement returns, the amount has gone from one wallet to the other, and both
  transactions and both entries are completed.
\<close>

theorem naira_transfer_settles:
  assumes "redis_server (m_redis M) ent" "settle_ready ent M r r' rs w"
  shows "\<exists>w'. updateAllTransactionsToCompleted M rs w = (Inr (), w')
    \<and> side_done (out_side r rs) (- ft_amount (out_entry rs)) w' \<and> side_done (in_side r' rs) (ft_amount (out_entry rs)) w'
    \<and> (\<forall>i. i \<noteq> fw_id r \<longrightarrow> i \<noteq> fw_id r' \<longrightarrow> balance_of w' i = balance_of w i)"
  by (rule redis_server.settle_calm [OF assms(1) refl assms(2)]) blast

text \<open>
  A naira transfer that went through is reported as failed when the in-app notification of the
  sender fails: the amount has moved, both transactions are and stay completed, and the caller gets the
  notification's error.
\<close>

theorem completed_transfer_reported_failed:
  fixes w :: "('s, 'm) money_world_scheme"
  assumes "redis_server (m_redis M) ent" "settle_ready ent M r r' rs w"
    and "view ent w (fwt_statusKey (ft_id (out_entry rs))) = None" "fw_accounts wallet = own # others"
    and "m_ext M (outbox w) ''transferToSameBank'' (same_bank_request receiver amount account remark own rs) = Inr response"
    and "\<And>ob. m_ext M ob ''createNotification'' (transfer_note user user receiver amount rs) = Inl e"
  shows "\<exists>w'. settleNaira M user receiver wallet amount account remark rs w = (Inl (InternalError (message e)), w')
    \<and> side_done (out_side r rs) (- ft_amount (out_entry rs)) w' \<and> side_done (in_side r' rs) (ft_amount (out_entry rs)) w'"
proof -
  define w0 where "w0 = w\<lparr>outbox := (''transferToSameBank'', same_bank_request receiver amount account remark own rs) # outbox w\<rparr>"
  have v0: "view ent w0 = view ent w" by (simp add: w0_def view_def)
  have "settle_ready ent M r r' rs w0"
    using assms(2) v0 by (simp add: settle_ready_def keys_free_def side_ready_def w0_def)
  then obtain w1 where s: "updateAllTransactionsToCompleted M rs w0 = (Inr (), w1)" "faults w1 = []" "now w1 = now w0"
    "side_done (out_side r rs) (- ft_amount (out_entry rs)) w1" "side_done (in_side r' rs) (ft_amount (out_entry rs)) w1"
    "\<And>k. view ent w0 k = None \<Longrightarrow> view ent w1 k = None"
    by (rule redis_server.settle_calm [OF assms(1) refl]) blast
  define w2 where "w2 = w1\<lparr>outbox := (''createNotification'', transfer_note user user receiver amount rs) # outbox w1\<rparr>"
  have k: "view ent w2 (tx_statusKey (tx_id (out_tx rs))) = None" "view ent w2 (fwt_statusKey (ft_id (out_entry rs))) = None" "faults w2 = []"
    using s(2) s(6) assms(2,3) v0 by (simp_all add: w2_def view_def settle_ready_def keys_free_def)
  have fin: "status_of w2 (tx_id (out_tx rs)) = Some COMPLETED" "fwt_status_of w2 (ft_id (out_entry rs)) = Some COMPLETED"
    using s(4) by (simp_all add: w2_def side_done_def status_of_def fwt_status_of_def)
  have pat: "0 < m_patience M" using assms(2) by (simp add: settle_ready_def)
  obtain w3 where f: "updateAllTransactionsToFailedForSender M (tx_id (out_tx rs)) (ft_id (out_entry rs)) (message e) w2 = (Inr (), w3)" "tables_kept w2 w3"
    by (rule redis_server.fail_sender_ignored [OF assms(1) refl pat k fin])
  obtain ob where d: "service_down ''ngn_transfer'' e w3 = (Inr (), w3\<lparr>outbox := ob # outbox w3\<rparr>)"
    by (simp add: service_down_def)
  have p: "bind (first_account wallet) (\<lambda>own. bind (ext_call M ''transferToSameBank'' (same_bank_request receiver amount account remark own rs)) g) w
      = g response w0" for g :: "json \<Rightarrow> (('s, 'm) money_world_scheme, json) io"
    using assms(4,5) by (simp add: first_account_def ext_call_def io_simps w0_def)
  have n: "createNotification M (transfer_note user user receiver amount rs) w1 = (Inl e, w2)"
    using assms(6) by (simp add: createNotification_def ext_call_def io_simps w2_def)
  have "settleNaira M user receiver wallet amount account remark rs w = (Inl (InternalError (message e)), w3\<lparr>outbox := ob # outbox w3\<rparr>)"
    unfolding settleNaira_def by (simp only: catch_run p) (simp add: andthen_run s(1) n f(1) d)
  then show ?thesis using f(2) s(4,5)
    by (simp add: w2_def tables_kept_def side_done_def balance_of_def status_of_def fwt_status_of_def)
qed

text \<open>
  A card funding the provider has executed is marked failed when the database fails at the next
  write: the provider has been asked and has accepted, both records say failed, and the caller is told
  that the transfer could not be initiated.
\<close>

theorem executed_funding_marked_failed:
  assumes "faults w = [None, Some e]"
    and "m_ext M (outbox w) ''fiatWalletAdapter.createWithdrawalRequest'' call = Inr answer"
    and "call = JObj [(''transactionRef'', JStr (tx_reference tx)), (''withdrawalAddress'', JStr (dp_address p)),
       (''providerUserRef'', jfield ''participant_code'' account), (''amount'', JStr (show_dec (dp_amount p + dp_fee p))),
       (''asset'', JStr currency), (''provider'', JStr (usd_provider cfg))]"
    and "List.find (\<lambda>x. tx_id x = tx_id tx) (txs w) = Some t" "List.find (\<lambda>x. ft_id x = ft_id ft) (fwts w) = Some f"
  shows "\<exists>w'. executeRainWithdrawal M cfg p currency clientTransferId account feeInCents tx ft w = (Inl initiation_failed, w')
    \<and> (''fiatWalletAdapter.createWithdrawalRequest'', call) \<in> set (outbox w') \<and> wallets w' = wallets w
    \<and> status_of w' (tx_id tx) = Some FAILED \<and> fwt_status_of w' (ft_id ft) = Some FAILED"
proof -
  have "tx_id (tx_mark_failed reason t) = tx_id tx" "ft_id (fwt_mark_failed reason f) = ft_id ft" for reason
    using assms(4,5) by (auto simp: tx_mark_failed_def fwt_mark_failed_def dest: find_Some_in)
  then show ?thesis
    using assms unfolding executeRainWithdrawal_def
    by (auto simp: io_simps ext_call_def repo_update_id_def service_down_def status_of_def fwt_status_of_def
        find_replaced [OF assms(4)] find_replaced [OF assms(5)] tx_mark_failed_def fwt_mark_failed_def)
qed

section \<open>Instances\<close>

text \<open>Two users with a naira wallet each and the records of a transfer of 300 between them.\<close>

definition demo_sender_person :: person where
  "demo_sender_person = \<lparr>pn_id = ''u'', pn_username = ''ada'', pn_first = ''Ada'', pn_last = ''Obi''\<rparr>"

definition demo_receiver_person :: person where
  "demo_receiver_person = \<lparr>pn_id = ''v'', pn_username = ''bola'', pn_first = ''Bola'', pn_last = ''Ade''\<rparr>"

definition demo_receiver_wallet :: wallet_row where
  "demo_receiver_wallet = demo_wallet\<lparr>fw_id := ''x'', fw_user := ''v'', fw_balance := 50\<rparr>"

definition demo_records :: records where
  "demo_records = \<lparr>out_tx = demo_tx\<lparr>tx_status := PENDING, tx_type := T_TRANSFER_OUT\<rparr>,
     in_tx = demo_tx\<lparr>tx_id := ''t2'', tx_user := ''v'', tx_status := PENDING, tx_type := T_TRANSFER_IN\<rparr>,
     out_entry = demo_fwt\<lparr>ft_status := PENDING\<rparr>,
     in_entry = demo_fwt\<lparr>ft_id := ''f2'', ft_transaction := ''t2'', ft_wallet := ''x'', ft_user := ''v'', ft_status := PENDING\<rparr>\<rparr>"

definition demo_transfer :: "keyspace money_world" where
  "demo_transfer = demo_money\<lparr>wallets := [demo_wallet, demo_receiver_wallet], txs := [out_tx demo_records, in_tx demo_records],
     fwts := [out_entry demo_records, in_entry demo_records]\<rparr>"

lemma demo_transfer_simps [simp]:
  "wallets demo_transfer = [demo_wallet, demo_receiver_wallet]" "txs demo_transfer = [out_tx demo_records, in_tx demo_records]"
  "fwts demo_transfer = [out_entry demo_records, in_entry demo_records]" "faults demo_transfer = []" "outbox demo_transfer = []"
  "fw_id demo_receiver_wallet = ''x''" "fw_user demo_receiver_wallet = ''v''" "fw_balance demo_receiver_wallet = 50"
  "tx_id (out_tx demo_records) = ''t''" "tx_id (in_tx demo_records) = ''t2''"
  "tx_status (out_tx demo_records) = PENDING" "tx_status (in_tx demo_records) = PENDING"
  "tx_type (out_tx demo_records) = T_TRANSFER_OUT" "tx_type (in_tx demo_records) = T_TRANSFER_IN"
  "ft_id (out_entry demo_records) = ''f''" "ft_id (in_entry demo_records) = ''f2''" "ft_wallet (out_entry demo_records) = ''w''"
  "ft_wallet (in_entry demo_records) = ''x''" "ft_user (out_entry demo_records) = ''u''" "ft_user (in_entry demo_records) = ''v''"
  "ft_amount (out_entry demo_records) = 300" "ft_amount (in_entry demo_records) = 300"
  "ft_status (out_entry demo_records) = PENDING" "view ks_ent demo_transfer k = None"
  by (simp_all add: demo_transfer_def demo_records_def demo_receiver_wallet_def demo_tx_def demo_fwt_def view_def ks_ent_def demo_money_def live_def)

lemma demo_transfer_ready: "settle_ready ks_ent M demo_wallet demo_receiver_wallet demo_records demo_transfer"
  if "m_patience M = 1"
  using that by (simp add: settle_ready_def keys_free_def side_ready_def apart_def terminal_def)

lemma transfers_conserve_total_witness:
  "total_balance (snd (transfer demo_money_env \<lparr>usd_provider = ''zerohash'', underlying_currency = None\<rparr> demo_sender_person
     \<lparr>td_username = ''bola'', td_amount = 3, td_asset = ''NGN'', td_remark = None\<rparr> demo_transfer)) = 1050"
  using transfers_conserve_total [OF demo_server, of demo_transfer "\<lparr>usd_provider = ''zerohash'', underlying_currency = None\<rparr>" demo_sender_person
      "\<lparr>td_username = ''bola'', td_amount = 3, td_asset = ''NGN'', td_remark = None\<rparr>"]
  by (simp add: total_balance_def)

lemma settlement_all_or_nothing_witness:
  "case updateAllTransactionsToCompleted demo_money_env demo_records demo_transfer of
      (Inl e, w') \<Rightarrow> tables_kept demo_transfer w' | (Inr _, w') \<Rightarrow> balance_of w' ''x'' = Some 350"
  using settlement_all_or_nothing [OF demo_server, of demo_records demo_transfer]
  by (auto simp: balance_of_def split: prod.splits sum.splits)

lemma naira_transfer_settles_witness:
  "\<exists>w'. updateAllTransactionsToCompleted demo_money_env demo_records demo_transfer = (Inr (), w')
    \<and> balance_of w' ''w'' = Some 700 \<and> balance_of w' ''x'' = Some 350"
  using naira_transfer_settles [OF demo_server demo_transfer_ready]
  by (auto simp: side_done_def demo_money_env_def)

lemma completed_transfer_reported_failed_witness:
  "fst (settleNaira (demo_money_env\<lparr>m_ext := \<lambda>_ what _. if what = ''createNotification'' then Inl (PlainError ''down'') else Inr JNull\<rparr>)
     demo_sender_person demo_receiver_person demo_wallet 3 JNull None demo_records demo_transfer) = Inl (InternalError ''down'')"
proof -
  let ?M = "demo_money_env\<lparr>m_ext := \<lambda>_ what _. if what = ''createNotification'' then Inl (PlainError ''down'') else Inr JNull\<rparr>"
  have s: "redis_server (m_redis ?M) ks_ent" using demo_server by simp
  show ?thesis
    using completed_transfer_reported_failed [OF s demo_transfer_ready, of "demo_wallet" "demo_account" "[]" demo_receiver_person 3 JNull None JNull
        demo_sender_person "PlainError ''down''"]
    by (auto simp: demo_money_env_def)
qed

lemma accepted_transfer_not_booked_witness:
  "fst (settleNaira (demo_money_env\<lparr>m_ext := \<lambda>_ _ _. Inr JNull\<rparr>) demo_sender_person demo_receiver_person demo_wallet 3 JNull None demo_records
     (demo_transfer\<lparr>wallets := [demo_wallet\<lparr>fw_balance := 100\<rparr>, demo_receiver_wallet]\<rparr>))
   = Inl (InternalError ''Insufficient balance for this transaction'')"
proof -
  let ?w = "demo_transfer\<lparr>wallets := [demo_wallet\<lparr>fw_balance := 100\<rparr>, demo_receiver_wallet]\<rparr>"
  have v: "view ks_ent ?w k = None" for k
    using demo_transfer_simps(24) [of k] by (simp add: view_def)
  have s: "redis_server (m_redis (demo_money_env\<lparr>m_ext := \<lambda>_ _ _. Inr JNull\<rparr>)) ks_ent" using demo_server by simp
  show ?thesis
    using accepted_transfer_not_booked [OF s _ _ v v v, of "demo_records" "demo_wallet\<lparr>fw_balance := 100\<rparr>" "out_tx demo_records"
        "out_entry demo_records" demo_wallet demo_account "[]" demo_receiver_person 3 JNull None JNull demo_sender_person]
    by (auto simp: demo_money_env_def terminal_def)
qed

lemma executed_funding_marked_failed_witness:
  "\<exists>w'. executeRainWithdrawal demo_money_env \<lparr>usd_provider = ''zerohash'', underlying_currency = Some ''USDC''\<rparr>
      \<lparr>dp_amount = 3, dp_fee = 0, dp_asset = ''USD'', dp_address = ''0xabc'', dp_last4 = None\<rparr> ''USDC'' ''ref'' JNull 0 demo_tx demo_fwt
      (demo_money\<lparr>faults := [None, Some (DbError ''down'')]\<rparr>) = (Inl initiation_failed, w') \<and> status_of w' ''t'' = Some FAILED"
  using executed_funding_marked_failed [where w = "demo_money\<lparr>faults := [None, Some (DbError ''down'')]\<rparr>" and M = demo_money_env
      and tx = demo_tx and ft = demo_fwt and t = demo_tx and f = demo_fwt and e = "DbError ''down''" and answer = JNull
      and cfg = "\<lparr>usd_provider = ''zerohash'', underlying_currency = Some ''USDC''\<rparr>" and account = JNull and currency = "''USDC''"
      and p = "\<lparr>dp_amount = 3, dp_fee = 0, dp_asset = ''USD'', dp_address = ''0xabc'', dp_last4 = None\<rparr>"
      and clientTransferId = "''ref''" and feeInCents = 0, OF _ _ refl]
  by (simp add: demo_money_env_def) blast

end
