(* ===== verification/TxReview.thy ===== *)
theory TxReview
  imports InternalTransfer
begin

text \<open>
  What is done to transactions after the fact: an operator rejects a naira transaction in review and the
  user is refunded (\<^verbatim>\<open>updateInReviewTransactionStatus\<close>, \<^verbatim>\<open>createRefundTransaction\<close>), an exchange is credited
  once the provider has delivered (\<^verbatim>\<open>completeExchangeTransaction\<close>, all in
  \<^verbatim>\<open>src/modules/transaction/transaction.service.ts\<close>), and a user cancels a pending exchange
  (\<^verbatim>\<open>src/modules/fiatWallet/fiatWalletExchange.service.ts\<close>). A wallet the refund has to create first is
  undone with it here; the program creates it on a connection of its own. The properties say what each of
  them does to the balances, whatever fails.
\<close>

section \<open>Rejecting a transaction in review\<close>

text \<open>A movement recorded in an existing entry, without further columns.\<close>

definition entry_meta :: "string \<Rightarrow> balance_meta" where
  "entry_meta fid = \<lparr>bm_description = None, bm_provider = None, bm_provider_reference = None, bm_provider_fee = None,
     bm_provider_metadata = [], bm_source = None, bm_destination = None, bm_fwt = Some fid\<rparr>"

definition push_and_in_app :: notify_options where
  "push_and_in_app = \<lparr>no_in_app = True, no_email = False, no_push = True\<rparr>"

definition refund_text :: "tx_row \<Rightarrow> string" where
  "refund_text tx = ''Refund of '' @ show_int (tx_amount tx) @ '' to your '' @ tx_asset tx @ '' wallet''"

definition refund_parties :: "string \<Rightarrow> string \<Rightarrow> (string \<times> json) list" where
  "refund_parties userId currency = [(''source_user_id'', JStr userId), (''source_currency'', JStr currency),
     (''destination_user_id'', JStr userId), (''destination_currency'', JStr currency)]"

definition refund_tx :: "tx_row \<Rightarrow> wallet_row \<Rightarrow> string \<Rightarrow> tx_row" where
  "refund_tx tx wallet reference = blank_tx\<lparr>tx_user := tx_user tx, tx_parent := Some (tx_id tx), tx_asset := tx_asset tx,
     tx_amount := tx_amount tx, tx_status := PENDING, tx_type := T_REFUND, tx_category := C_FIAT, tx_scope := S_INTERNAL,
     tx_reference := reference, tx_description := refund_text tx, tx_before := fw_balance wallet,
     tx_after := fw_balance wallet + tx_amount tx, tx_meta := tx_meta tx, tx_external := tx_external tx\<rparr>"

definition refund_entry :: "tx_row \<Rightarrow> tx_row \<Rightarrow> fwt_row \<Rightarrow> wallet_row \<Rightarrow> fwt_row" where
  "refund_entry tx refund ft wallet = blank_fwt\<lparr>ft_transaction := tx_id refund, ft_amount := tx_amount tx, ft_currency := tx_asset tx,
     ft_status := COMPLETED, ft_wallet := ft_wallet ft, ft_type := F_REFUND, ft_reference := Some (tx_reference refund),
     ft_description := Some (refund_text tx), ft_before := fw_balance wallet, ft_after := fw_balance wallet + tx_amount tx,
     ft_meta := refund_parties (tx_user tx) (tx_asset tx)\<rparr>"

definition createRefundTransaction :: "'s money_env \<Rightarrow> string \<Rightarrow> (('s, 'm) money_world_scheme, tx_row) io" where
  "createRefundTransaction M tid = bind (repo_findById tx_table tid) (\<lambda>found. case found of
      None \<Rightarrow> throw (NotFound (''Transaction with ID '' @ tid @ '' not found''))
    | Some tx \<Rightarrow> bind (repo_findOne fwt_table (\<lambda>r. ft_transaction r = tid)) (\<lambda>entry. case entry of
          None \<Rightarrow> throw (NotFound ''Fiat wallet transaction not found'')
        | Some ft \<Rightarrow>
            bind (getUserWallet M (tx_user tx) (tx_asset tx)) (\<lambda>wallet.
            bind (generateTransactionReference M) (\<lambda>reference.
            bind (insert_tx M (refund_tx tx wallet reference)) (\<lambda>refund.
            bind (fwt_create M (tx_user tx) (refund_entry tx refund ft wallet)) (\<lambda>rft.
            andthen (updateBalance M (fw_id wallet) (tx_amount tx) (tx_id refund) F_REFUND COMPLETED (entry_meta (ft_id rft)) True)
            (andthen (tx_updateStatus M (tx_id refund) COMPLETED (Some no_meta) push_and_in_app)
            (ret refund))))))))"

record review_request =
  rv_status :: tx_status
  rv_reason :: "string option"

definition review_failed :: "review_request \<Rightarrow> tx_row \<Rightarrow> int \<Rightarrow> tx_row \<Rightarrow> tx_row" where
  "review_failed rq tx t r = r\<lparr>tx_status := FAILED,
     tx_failure := (if given (rv_reason rq) then rv_reason rq else tx_failure tx), tx_failed := Some t\<rparr>"

text \<open>The transaction of the database that marks the row failed and refunds what is in escrow.\<close>

definition rejectAndRefund :: "'s money_env \<Rightarrow> string \<Rightarrow> review_request \<Rightarrow> tx_row \<Rightarrow> int option \<Rightarrow> (('s, 'm) money_world_scheme, tx_row option) io" where
  "rejectAndRefund M tid rq tx escrowAmount =
     transaction (bind get_now (\<lambda>t. bind (repo_update_id tx_table tid (review_failed rq tx t)) (\<lambda>updated.
       andthen (when_do (case escrowAmount of None \<Rightarrow> False | Some a \<Rightarrow> 0 < a)
         (andthen (createRefundTransaction M tid) (ret ()))) (ret updated))))"

definition updateInReviewTransactionStatus :: "'s money_env \<Rightarrow> string \<Rightarrow> review_request \<Rightarrow> (('s, 'm) money_world_scheme, tx_row option) io" where
  "updateInReviewTransactionStatus M tid rq = catch
     (bind (repo_findById tx_table tid) (\<lambda>found. case found of
         None \<Rightarrow> throw (NotFound (''Transaction with ID '' @ tid @ '' not found''))
       | Some tx \<Rightarrow>
           if tx_asset tx \<noteq> ''NGN'' then throw (BadRequest ''Transaction is not an ng transaction'')
           else if tx_status tx = COMPLETED then throw (BadRequest ''Transaction is already completed'')
           else if tx_status tx \<noteq> REVIEW then throw (BadRequest ''Transaction must be in review status'')
           else if rv_status rq \<noteq> FAILED then throw (BadRequest ''Transaction can only be updated to failed status'')
           else bind (getEscrowAmount (m_redis M) tid) (\<lambda>escrowAmount.
            bind (rejectAndRefund M tid rq tx escrowAmount) (\<lambda>updated.
            andthen (releaseMoneyFromEscrow (m_redis M) tid) (ret updated)))))
     (\<lambda>_. throw (InternalError ''Failed to update transaction status''))"

section \<open>Completing an exchange\<close>

text \<open>
  \<^verbatim>\<open>formatCurrencyAmountToLocaleString\<close> as far as it can throw: without a currency code the locale look-up
  is a \<^verbatim>\<open>TypeError\<close>, a code that is not three letters a \<^verbatim>\<open>RangeError\<close>.
\<close>

definition letter :: "char \<Rightarrow> bool" where
  "letter c \<longleftrightarrow> (CHR ''A'' \<le> c \<and> c \<le> CHR ''Z'') \<or> (CHR ''a'' \<le> c \<and> c \<le> CHR ''z'')"

definition locale_string :: "json \<Rightarrow> exn + unit" where
  "locale_string c = (case c of
      JStr s \<Rightarrow> if length s = 3 \<and> list_all letter s then Inr () else Inl (PlainError ''Invalid currency code'')
    | _ \<Rightarrow> Inl undefined_row)"

definition parent_meta :: "tx_row option \<Rightarrow> string \<Rightarrow> json" where
  "parent_meta parent k = (case parent of None \<Rightarrow> JNull | Some p \<Rightarrow> jfield k (JObj (tx_meta p)))"

definition parent_asset :: "tx_row option \<Rightarrow> json" where
  "parent_asset parent = (case parent of None \<Rightarrow> JNull | Some p \<Rightarrow> JStr (tx_asset p))"

text \<open>The e-mail: its amounts are formatted in this order, and the user's name is read first.\<close>

definition exchange_mail :: "json \<Rightarrow> tx_row option \<Rightarrow> exn + unit" where
  "exchange_mail user parent = (let to_currency = parent_meta parent ''to''; from_currency = parent_meta parent ''from'' in
     if user = JNull then Inl undefined_row
     else case locale_string from_currency of Inl e \<Rightarrow> Inl e
        | Inr _ \<Rightarrow> (case locale_string to_currency of Inl e \<Rightarrow> Inl e | Inr _ \<Rightarrow> locale_string (parent_asset parent)))"

text \<open>Once entry and parent are read: the user, then the movement, the status and the mail in one transaction of the database.\<close>

definition creditExchange :: "'s money_env \<Rightarrow> tx_row \<Rightarrow> int \<Rightarrow> fwt_row \<Rightarrow> tx_row option \<Rightarrow> (('s, 'm) money_world_scheme, unit) io" where
  "creditExchange M tx amountInSmallestUnit ft parent =
     bind (ext_call M ''findByUserId'' (JStr (tx_user tx))) (\<lambda>user.
     transaction
      (andthen (updateBalance M (ft_wallet ft) amountInSmallestUnit (tx_id tx) F_EXCHANGE COMPLETED (entry_meta (ft_id ft)) True)
      (andthen (tx_updateStatus M (tx_id tx) COMPLETED (Some no_meta) push_and_in_app)
      (andthen (io_of (exchange_mail user parent))
      (andthen (ext_call M ''sendMail'' (tx_payload tx)) (ret ()))))))"

definition completeExchangeTransaction :: "'s money_env \<Rightarrow> tx_row \<Rightarrow> int \<Rightarrow> (('s, 'm) money_world_scheme, unit) io" where
  "completeExchangeTransaction M tx amountInSmallestUnit =
     bind (repo_findOne fwt_table (\<lambda>r. ft_transaction r = tx_id tx)) (\<lambda>entry. case entry of
         None \<Rightarrow> throw (NotFound ''Fiat wallet transaction not found'')
       | Some ft \<Rightarrow> bind (repo_findOne tx_table (\<lambda>r. Some (tx_id r) = tx_parent tx)) (creditExchange M tx amountInSmallestUnit ft))"

section \<open>Cancelling an exchange\<close>

definition status_text :: "tx_status \<Rightarrow> string" where
  "status_text s = (case s of PENDING \<Rightarrow> ''pending'' | INITIATED \<Rightarrow> ''initiated'' | PROCESSING \<Rightarrow> ''processing''
     | COMPLETED \<Rightarrow> ''completed'' | SETTLED \<Rightarrow> ''settled'' | FAILED \<Rightarrow> ''failed'' | CANCELLED \<Rightarrow> ''cancelled''
     | REVIEW \<Rightarrow> ''review'' | RECONCILE \<Rightarrow> ''reconcile'')"

definition cancel_tx :: "string \<Rightarrow> tx_row \<Rightarrow> (('s, 'm) money_world_scheme, tx_row) io" where
  "cancel_tx reason tx = bind (repo_update_id tx_table (tx_id tx) (\<lambda>r. r\<lparr>tx_status := CANCELLED, tx_failure := Some reason\<rparr>)) (\<lambda>u.
     case u of None \<Rightarrow> throw undefined_row | Some r \<Rightarrow> ret r)"

definition cancel_entry :: "string \<Rightarrow> fwt_row \<Rightarrow> (('s, 'm) money_world_scheme, fwt_row) io" where
  "cancel_entry reason ft = bind (repo_update_id fwt_table (ft_id ft) (\<lambda>r. r\<lparr>ft_status := CANCELLED, ft_failure := Some reason\<rparr>)) (\<lambda>u.
     case u of None \<Rightarrow> throw undefined_row | Some r \<Rightarrow> ret r)"

text \<open>A failing look-up of the destination leaves what was found before it.\<close>

definition destination_of :: "string \<Rightarrow> tx_row \<Rightarrow> (('s, 'm) money_world_scheme, tx_row option \<times> fwt_row option) io" where
  "destination_of userId tx =
     bind (attempt (repo_findOne tx_table (\<lambda>r. tx_parent r = Some (tx_id tx) \<and> tx_user r = userId \<and> tx_type r = T_EXCHANGE))) (\<lambda>found.
     case found of
       Inr (Some d) \<Rightarrow>
         bind (attempt (repo_findOne fwt_table (\<lambda>r. ft_transaction r = tx_id d \<and> ft_user r = userId \<and> ft_type r = F_EXCHANGE))) (\<lambda>entry.
         ret (Some d, case entry of Inl _ \<Rightarrow> None | Inr f \<Rightarrow> f))
     | _ \<Rightarrow> ret (None, None))"

definition cancelSection :: "string \<Rightarrow> string \<Rightarrow> (('s, 'm) money_world_scheme, json) io" where
  "cancelSection userId tid =
     bind (repo_findOne tx_table (\<lambda>r. tx_id r = tid \<and> tx_user r = userId \<and> tx_type r = T_EXCHANGE)) (\<lambda>found. case found of
         None \<Rightarrow> throw (NotFound ''Exchange transaction not found'')
       | Some tx \<Rightarrow>
           if tx_status tx \<noteq> PENDING then throw (BadRequest (''Cannot cancel transaction with status: '' @ status_text (tx_status tx)
               @ ''. Only pending transactions can be cancelled.''))
           else bind (repo_findOne fwt_table (\<lambda>r. ft_transaction r = tx_id tx \<and> ft_user r = userId \<and> ft_type r = F_EXCHANGE)) (\<lambda>entry.
            case entry of
              None \<Rightarrow> throw (NotFound ''Related source fiat wallet transaction not found'')
            | Some ft \<Rightarrow> bind (destination_of userId tx) (\<lambda>(dtx, dft).
                if \<not> js_truthy (jfield ''from_currency'' (JObj (tx_meta tx)))
                then throw (BadRequest ''Transaction metadata is missing required currency information'')
                else bind (cancel_tx ''Transaction cancelled by user'' tx) (\<lambda>t.
                 bind (cancel_entry ''Transaction cancelled by user'' ft) (\<lambda>f.
                 bind (case dtx of None \<Rightarrow> ret JNull | Some d \<Rightarrow> bind (cancel_tx ''Exchange cancelled by user'' d) (\<lambda>r. ret (JStr (tx_id r)))) (\<lambda>d.
                 bind (case dft of None \<Rightarrow> ret JNull | Some d \<Rightarrow> bind (cancel_entry ''Exchange cancelled by user'' d) (\<lambda>r. ret (JStr (ft_id r)))) (\<lambda>df.
                 ret (JObj [(''transaction_id'', JStr (tx_id t)), (''source_fiat_wallet_transaction_id'', JStr (ft_id f)),
                   (''destination_transaction_id'', d), (''destination_fiat_wallet_transaction_id'', df),
                   (''status'', JStr ''cancelled''), (''message'', JStr ''Exchange cancelled successfully'')]))))))))"

definition cancelKey :: "string \<Rightarrow> string \<Rightarrow> string" where
  "cancelKey userId tid = ''cancel-convert:'' @ userId @ '':'' @ tid"

definition exchangeCancel :: "'s money_env \<Rightarrow> string \<Rightarrow> string \<Rightarrow> (('s, 'm) money_world_scheme, json) io" where
  "exchangeCancel M userId tid = locked_wait M (cancelKey userId tid) (cancelSection userId tid)"

section \<open>What happens to the balances\<close>

text \<open>What every wallet holds; a wallet that does not exist holds nothing.\<close>

definition funds :: "('s, 'm) money_world_scheme \<Rightarrow> string \<Rightarrow> int" where
  "funds w i = (case balance_of w i of None \<Rightarrow> 0 | Some b \<Rightarrow> b)"

definition funds_are :: "(string \<Rightarrow> int) \<Rightarrow> ('s, 'm) money_world_scheme \<Rightarrow> bool" where
  "funds_are f w \<longleftrightarrow> distinct (map fw_id (wallets w)) \<and> (\<forall>i. funds w i = f i)"

definition owned :: "string \<Rightarrow> string \<Rightarrow> string \<Rightarrow> ('s, 'm) money_world_scheme \<Rightarrow> bool" where
  "owned wid u c w \<longleftrightarrow> (\<exists>r \<in> set (wallets w). fw_id r = wid \<and> fw_user r = u \<and> fw_asset r = c)"

lemma wallet_only_funds [simp]:
  "wallet_only (funds_are f)" "wallet_only (owned wid u c)" "wallet_only (\<lambda>w. funds_are f w \<and> owned wid u c w)"
  by (auto simp: wallet_only_def funds_are_def funds_def balance_of_def owned_def)

lemma moved_funds:
  assumes "funds_are f w" "balance_moved wid a st w w' u"
  shows "funds_are (f(wid := f wid + a)) w'"
proof -
  obtain b where b: "balance_of w wid = Some b" "balance_of w' wid = Some (b + a)" "\<forall>i. i \<noteq> wid \<longrightarrow> balance_of w' i = balance_of w i"
    using moved_balance [OF assms(2)] by blast
  moreover have "distinct (map fw_id (wallets w'))"
    using moved_holding [of "total_balance w" w] assms by (simp add: holding_def funds_are_def)
  moreover have "f wid = b" using assms(1) b(1) by (auto simp: funds_are_def funds_def dest!: spec [of _ wid])
  ultimately show ?thesis using assms(1) by (auto simp: funds_are_def funds_def)
qed

lemma funds_distinct: "funds_are f w \<Longrightarrow> distinct (map fw_id (wallets w))"
  by (simp add: funds_are_def)

lemma moved_owned:
  assumes "distinct (map fw_id (wallets w))" "owned v u c w" "balance_moved wid a st w w' x"
  shows "owned v u c w'"
proof -
  obtain r where r: "List.find (\<lambda>x. fw_id x = wid) (wallets w) = Some r"
      "wallets w' = replace_row fw_id wid (r\<lparr>fw_balance := fw_balance r + a\<rparr>) (wallets w)"
    using assms(3) by (auto simp: balance_moved_def)
  obtain q where q: "q \<in> set (wallets w)" "fw_id q = v" "fw_user q = u" "fw_asset q = c" using assms(2) by (auto simp: owned_def)
  show ?thesis
  proof (cases "v = wid")
    case False
    then show ?thesis using q r(2) by (auto simp: owned_def replace_row_def)
  next
    case True
    then have "r = q" using r(1) find_distinct [OF assms(1) q(1)] q(2) by simp
    with True show ?thesis using q r(2) by (auto simp: owned_def replace_row_def)
  qed
qed

lemma triple_option:
  "(v = None \<Longrightarrow> triple P m Q R) \<Longrightarrow> (\<And>x. v = Some x \<Longrightarrow> triple P (f x) Q R)
    \<Longrightarrow> triple P (case v of None \<Rightarrow> m | Some x \<Rightarrow> f x) Q R"
  by (cases v) simp_all

text \<open>A transaction of the database that fails gives the balances back.\<close>

lemma triple_rolled_back:
  assumes "triple P m Q (\<lambda>_ _. True)" "\<And>x. wallet_only (Q x)" "wallet_only P'" "\<And>w. P w \<Longrightarrow> P' w"
  shows "triple P (transaction m) Q (\<lambda>_. P')"
proof (rule tripleI, goal_cases)
  case (1 w x w')
  then obtain w2 fs where "m w = (Inr x, w2)" "w' = w2\<lparr>faults := fs\<rparr>" by (elim transaction_ok)
  with triple_ok [OF assms(1) 1(1)] show ?case using wallet_onlyD [OF assms(2)] by fastforce
next
  case (2 w e w')
  then obtain w2 where "w' = rollback w w2" using transaction_aborts [of m w e] by auto
  then show ?case using wallet_onlyD [OF assms(3) assms(4) [OF 2(1)]] by simp
qed

lemma create_wallet_funds:
  assumes "fw_balance r = 0"
  shows "keeps (funds_are f) (create_wallet r)"
  unfolding keeps_def
proof (intro allI impI)
  fix w :: "('s, 'm) money_world_scheme"
  assume h: "funds_are f w"
  have new: "funds_are f w'" if "wallets w' = r # wallets w" "fw_id r \<notin> fw_id ` set (wallets w)" for w' :: "('s, 'm) money_world_scheme"
  proof -
    have "List.find (\<lambda>x. fw_id x = fw_id r) (wallets w) = None" unfolding find_None_iff using that(2) by (metis image_eqI)
    moreover from this have "f (fw_id r) = 0" using spec [OF conjunct2 [OF h [unfolded funds_are_def]], of "fw_id r"]
      by (simp add: funds_def balance_of_def)
    ultimately show ?thesis using h assms that by (auto simp: funds_are_def funds_def balance_of_def)
  qed
  obtain v fs where "db_step w = (v, w\<lparr>faults := fs\<rparr>)" by (rule db_step_cases)
  then show "funds_are f (snd (create_wallet r w))"
    by (cases rule: wallets.create_cases [of r w]; cases v)
       (use new h in \<open>auto simp: create_wallet_def andthen_run intro: wallet_onlyD [OF wallet_only_funds(1)]\<close>)
qed

lemma getUserWallet_funds:
  "triple (funds_are f :: ('s, 'm) money_world_scheme \<Rightarrow> bool) (getUserWallet M u c) (\<lambda>r w. funds_are f w \<and> owned (fw_id r) u c w) (\<lambda>_. funds_are f)"
proof -
  have "keeps (funds_are f :: ('s, 'm) money_world_scheme \<Rightarrow> bool) (new_value M)" "keeps (funds_are f :: ('s, 'm) money_world_scheme \<Rightarrow> bool) (find_wallet u c)"
    unfolding find_wallet_def by (rule aside_wallet_only, rule aside_intros, simp)+
  then have k: "keeps (funds_are f :: ('s, 'm) money_world_scheme \<Rightarrow> bool) (getUserWallet M u c)"
    unfolding getUserWallet_def by (intro keeps_intros create_wallet_funds) simp_all
  show ?thesis
  proof (rule tripleI, goal_cases)
    case (1 w r w')
    then have "funds_are f w'" using keepsD [OF k 1(1)] by simp
    moreover have "r \<in> set (wallets w') \<and> wallet_key r = (u, c)" using getUserWallet_result [OF 1(2)] by simp
    ultimately show ?case by (auto simp: owned_def wallet_key_def)
  next
    case (2 w e w')
    then show ?case using keepsD [OF k 2(1)] by simp
  qed
qed

context redis_server
begin

lemma credit_funds:
  assumes "m_redis M = E"
  shows "triple (\<lambda>w :: ('s, 'm) money_world_scheme. funds_are f w \<and> owned v u c w) (updateBalance M wid a tid ty st meta inTrx)
    (\<lambda>_ w. funds_are (f(wid := f wid + a)) w \<and> owned v u c w) (\<lambda>_ _. True)"
  by (rule updateBalance_wallets [OF assms wallet_only_funds(3) wallet_only_funds(3)]) (blast intro: moved_funds moved_owned funds_distinct)

lemma status_funds:
  assumes "m_redis M = E"
  shows "triple (\<lambda>w :: ('s, 'm) money_world_scheme. funds_are f w \<and> owned v u c w) (tx_updateStatus M i st mo opts)
    (\<lambda>_ w. funds_are f w \<and> owned v u c w) (\<lambda>_ _. True)"
  by (rule triple_keeps [OF status_wallets(1) [OF assms wallet_only_funds(3)]]) simp_all

end

text \<open>The columns of a transaction the refund is made from.\<close>

definition refunds :: "string \<Rightarrow> string \<Rightarrow> string \<Rightarrow> int \<Rightarrow> ('s, 'm) money_world_scheme \<Rightarrow> bool" where
  "refunds tid u c a w \<longleftrightarrow> (\<forall>tx. List.find (\<lambda>r. tx_id r = tid) (txs w) = Some tx \<longrightarrow> tx_user tx = u \<and> tx_asset tx = c \<and> tx_amount tx = a)"

lemma aside_triple:
  assumes "aside m"
  shows "triple (\<lambda>w. funds_are f w \<and> owned v u c w) m (\<lambda>_ w. funds_are f w \<and> owned v u c w) (\<lambda>_ _. True)"
    and "triple (funds_are f) m (\<lambda>_. funds_are f) (\<lambda>_ _. True)"
  by (rule triple_keeps [OF aside_wallet_only [OF assms]]; simp)+

lemma read_refunds:
  fixes f :: "string \<Rightarrow> int"
  shows "triple (\<lambda>w :: ('s, 'm) money_world_scheme. funds_are f w \<and> refunds tid u c a w) (repo_findById tx_table tid)
    (\<lambda>x w. (\<forall>tx. x = Some tx \<longrightarrow> tx_user tx = u \<and> tx_asset tx = c \<and> tx_amount tx = a) \<and> funds_are f w) (\<lambda>_ _. True)"
proof (rule tripleI, goal_cases)
  case (1 w x w')
  then show ?case
    by (cases rule: txs.findOne_cases [of "\<lambda>r. tx_id r = tid" w])
       (auto simp: repo_findById_def refunds_def intro: wallet_onlyD [OF wallet_only_funds(1)])
qed simp

context redis_server
begin

lemma refund_triple:
  assumes "m_redis M = E"
  shows "triple (\<lambda>w :: ('s, 'm) money_world_scheme. funds_are f w \<and> refunds tid u c a w) (createRefundTransaction M tid)
    (\<lambda>_ w. \<exists>wid. funds_are (f(wid := f wid + a)) w \<and> owned wid u c w) (\<lambda>_ _. True)"
proof -
  let ?R = "\<lambda>_ (w :: ('s, 'm) money_world_scheme). \<exists>wid. funds_are (f(wid := f wid + a)) w \<and> owned wid u c w"
  have credit: "triple (\<lambda>w. funds_are f w \<and> owned (fw_id wallet) u c w)
      (bind (generateTransactionReference M) (\<lambda>reference. bind (insert_tx M (refund_tx tx wallet reference)) (\<lambda>refund.
        bind (fwt_create M (tx_user tx) (refund_entry tx refund ft wallet)) (\<lambda>rft.
        andthen (updateBalance M (fw_id wallet) (tx_amount tx) (tx_id refund) F_REFUND COMPLETED (entry_meta (ft_id rft)) True)
        (andthen (tx_updateStatus M (tx_id refund) COMPLETED (Some no_meta) push_and_in_app) (ret refund)))))) ?R (\<lambda>_ _. True)"
    if "tx_amount tx = a" for tx ft and wallet :: wallet_row
  proof -
    have i: "aside (insert_tx M d :: (('s, 'm) money_world_scheme, tx_row) io)" for d unfolding insert_tx_def by (intro aside_intros)
    show ?thesis
      by (rule triple_bind [OF aside_triple(1) [OF aside_creates(3)]], rule triple_bind [OF aside_triple(1) [OF i]],
          rule triple_bind [OF aside_triple(1) [OF aside_creates(2)]], rule triple_seq [OF credit_funds [OF assms]],
          rule triple_seq [OF status_funds [OF assms]], rule triple_ret) (use that in blast)
  qed
  show ?thesis
    unfolding createRefundTransaction_def
  proof (rule triple_bind [OF read_refunds], rule triple_pure, rule triple_option, goal_cases)
    case (2 found tx)
    then have tx: "tx_user tx = u" "tx_asset tx = c" "tx_amount tx = a" by auto
    have get: "triple (funds_are f :: ('s, 'm) money_world_scheme \<Rightarrow> bool) (getUserWallet M u c) (\<lambda>r w. funds_are f w \<and> owned (fw_id r) u c w) (\<lambda>_ _. True)"
      by (rule triple_conseq [OF getUserWallet_funds]) simp_all
    show ?case
      by (rule triple_bind [OF aside_triple(2) [OF aside_reads(3)]], rule triple_option, rule triple_throw, simp)
         (unfold tx, rule triple_bind [OF get credit [OF tx(3), unfolded tx]])
  qed (simp add: triple_throw)
qed

text \<open>Rejecting: a failure gives every balance back, a success credits at most one wallet.\<close>

lemma reject_triple:
  assumes "m_redis M = E"
  shows "triple (\<lambda>w :: ('s, 'm) money_world_scheme. funds_are f w \<and> refunds tid u c a w) (rejectAndRefund M tid rq tx escrowAmount)
    (\<lambda>_ w. if (case escrowAmount of None \<Rightarrow> False | Some n \<Rightarrow> 0 < n) then \<exists>wid. funds_are (f(wid := f wid + a)) w \<and> owned wid u c w
      else funds_are f w) (\<lambda>_. funds_are f)"
proof -
  define pos where "pos = (case escrowAmount of None \<Rightarrow> False | Some n \<Rightarrow> 0 < n)"
  let ?P = "\<lambda>w :: ('s, 'm) money_world_scheme. funds_are f w \<and> refunds tid u c a w"
  let ?Q = "\<lambda>_ (w :: ('s, 'm) money_world_scheme). if pos then \<exists>wid. funds_are (f(wid := f wid + a)) w \<and> owned wid u c w else funds_are f w"
  have mark: "triple ?P (repo_update_id tx_table tid (review_failed rq tx t)) (\<lambda>_. ?P) (\<lambda>_ _. True)" for t
  proof (rule tripleI, goal_cases)
    case (1 w x w')
    have replaced: "List.find (\<lambda>r. tx_id r = tid) (replace_row tx_id tid (review_failed rq tx t r) (txs w)) = Some (review_failed rq tx t r)"
      if "List.find (\<lambda>r. tx_id r = tid) (txs w) = Some r" for r
      using find_Some_in [OF that] that by (simp add: find_replaced [where rid = tx_id] review_failed_def)
    show ?case
    proof (cases rule: txs.update_id_cases [of tid "review_failed rq tx t" w])
      case (3 r fs)
      with 1 have "w' = w\<lparr>faults := fs, txs := replace_row tx_id tid (review_failed rq tx t r) (txs w)\<rparr>" by simp
      moreover from this have "refunds tid u c a w'"
        using 3(1) 1(1) replaced by (simp add: refunds_def) (simp add: review_failed_def)
      ultimately show ?thesis using 1(1) by (auto intro: wallet_onlyD [OF wallet_only_funds(1)])
    qed (use 1 in \<open>auto simp: refunds_def intro: wallet_onlyD [OF wallet_only_funds(1)]\<close>)
  qed simp
  have refund: "triple ?P (andthen (when_do pos (andthen (createRefundTransaction M tid) (ret ()))) (ret x)) ?Q (\<lambda>_ _. True)" for x
  proof (cases pos)
    case True
    then show ?thesis
      by (simp add: when_do_def)
         (rule triple_seq [OF triple_seq [OF refund_triple [OF assms]]]; rule triple_ret; blast)
  next
    case False
    then show ?thesis by (simp add: when_do_def) (rule triple_seq; rule triple_ret; simp)
  qed
  have whole: "triple ?P (bind get_now (\<lambda>t. bind (repo_update_id tx_table tid (review_failed rq tx t)) (\<lambda>updated.
      andthen (when_do pos (andthen (createRefundTransaction M tid) (ret ()))) (ret updated)))) ?Q (\<lambda>_ _. True)"
    by (rule triple_bind [OF triple_keeps [where I = ?P, OF keeps_get_now] triple_bind [OF mark refund]]) auto
  have "wallet_only (?Q x)" for x
    by (auto simp: wallet_only_def funds_are_def funds_def balance_of_def owned_def)
  then show ?thesis
    unfolding rejectAndRefund_def pos_def [symmetric]
    by (rule triple_rolled_back [OF whole]) simp_all
qed

end

text \<open>What the escrow of the transaction is read as, and the run of the operator's call.\<close>

definition escrowed :: "'s money_env \<Rightarrow> string \<Rightarrow> ('s, 'm) money_world_scheme \<Rightarrow> bool" where
  "escrowed M tid w = (case value_of (getEscrowAmount (m_redis M) tid w) of Inr (Some a) \<Rightarrow> 0 < a | _ \<Rightarrow> False)"

lemma funds_are_self: "distinct (map fw_id (wallets w)) \<Longrightarrow> funds_are (funds w) w"
  by (simp add: funds_are_def)

lemma funds_eq: "funds_are f w \<Longrightarrow> funds w = f"
  by (auto simp: funds_are_def)

lemma get_escrow_state:
  "\<exists>s. getEscrowAmount E tid w = (value_of (getEscrowAmount E tid w), w\<lparr>rds := s\<rparr>)"
  "value_of (getEscrowAmount E tid (w\<lparr>faults := fs\<rparr>)) = value_of (getEscrowAmount E tid w)"
  by (auto simp: getEscrowAmount_def rc_get_def redis_call_def map_io_def io_simps split: prod.split sum.split)

text \<open>The run of the operator's call: what is known of the row that was found, and what became of the balances.\<close>

definition refunded :: "'s money_env \<Rightarrow> string \<Rightarrow> review_request \<Rightarrow> ('s, 'm) money_world_scheme \<Rightarrow> ('s, 'm) money_world_scheme \<Rightarrow> bool" where
  "refunded M tid rq w w' \<longleftrightarrow> (\<exists>tx. List.find (\<lambda>r. tx_id r = tid) (txs w) = Some tx \<and> tx_asset tx = ''NGN'' \<and> tx_status tx = REVIEW
     \<and> rv_status rq = FAILED \<and> (if escrowed M tid w
       then \<exists>wid. owned wid (tx_user tx) ''NGN'' w' \<and> funds w' = (funds w)(wid := funds w wid + tx_amount tx)
       else funds w' = funds w))"

text \<open>
  A completed exchange: there was a parent whose metadata names both currencies, the row was not completed
  before, and the wallet of the entry has the amount more.
\<close>

definition exchange_done :: "tx_row \<Rightarrow> int \<Rightarrow> ('s, 'm) money_world_scheme \<Rightarrow> ('s, 'm) money_world_scheme \<Rightarrow> bool" where
  "exchange_done tx a w w' \<longleftrightarrow> (\<exists>ft p from_code to_code. List.find (\<lambda>r. ft_transaction r = tx_id tx) (fwts w) = Some ft
     \<and> List.find (\<lambda>r. Some (tx_id r) = tx_parent tx) (txs w) = Some p \<and> jfield ''from'' (JObj (tx_meta p)) = JStr from_code
     \<and> jfield ''to'' (JObj (tx_meta p)) = JStr to_code \<and> status_of w (tx_id tx) \<noteq> Some COMPLETED
     \<and> funds w' = (funds w)(ft_wallet ft := funds w (ft_wallet ft) + a))"

lemma exchange_mail_parent:
  assumes "exchange_mail user parent = Inr ()"
  obtains p from_code to_code where "parent = Some p" "jfield ''from'' (JObj (tx_meta p)) = JStr from_code"
    "jfield ''to'' (JObj (tx_meta p)) = JStr to_code"
proof -
  have code: "\<exists>s. c = JStr s" if "locale_string c = Inr ()" for c
    using that by (cases c) (auto simp: locale_string_def)
  have l: "locale_string (parent_meta parent ''from'') = Inr ()" "locale_string (parent_meta parent ''to'') = Inr ()"
    using assms by (auto simp: exchange_mail_def Let_def split: if_splits sum.splits)
  then have "parent \<noteq> None" by (cases parent) (auto simp: parent_meta_def locale_string_def)
  with code [OF l(1)] code [OF l(2)] that show thesis by (auto simp: parent_meta_def)
qed

context redis_server
begin


lemma review_run:
  assumes "m_redis M = E" and d: "distinct (map fw_id (wallets (w :: ('s, 'm) money_world_scheme)))"
    and "updateInReviewTransactionStatus M tid rq w = (v, w')"
  shows "case v of Inl e \<Rightarrow> funds w' = funds w \<and> e = InternalError ''Failed to update transaction status'' | Inr _ \<Rightarrow> refunded M tid rq w w'"
proof -
  have same: "funds (w\<lparr>faults := fs\<rparr>) = funds w" "funds (w\<lparr>faults := fs, rds := s\<rparr>) = funds w" for fs s
    by (simp_all add: funds_def balance_of_def fun_eq_iff)
  show ?thesis
  proof (cases rule: txs.findOne_cases [of "\<lambda>r. tx_id r = tid" w])
    case (1 e fs)
    then show ?thesis using assms(3) same by (auto simp: updateInReviewTransactionStatus_def io_simps repo_findById_def)
  next
    case (2 fs)
    let ?w1 = "w\<lparr>faults := fs\<rparr>"
    obtain s where g: "getEscrowAmount E tid ?w1 = (value_of (getEscrowAmount E tid w), ?w1\<lparr>rds := s\<rparr>)"
      using get_escrow_state by metis
    show ?thesis
    proof (cases "\<exists>tx n. List.find (\<lambda>r. tx_id r = tid) (txs w) = Some tx \<and> tx_asset tx = ''NGN'' \<and> tx_status tx = REVIEW
        \<and> rv_status rq = FAILED \<and> value_of (getEscrowAmount E tid w) = Inr n")
      case False
      then show ?thesis using assms(1,3) 2 g same
        by (auto simp: updateInReviewTransactionStatus_def io_simps repo_findById_def split: option.splits sum.splits if_splits)
    next
      case True
      then obtain tx n where t: "List.find (\<lambda>r. tx_id r = tid) (txs w) = Some tx" "tx_asset tx = ''NGN''" "tx_status tx = REVIEW"
        "rv_status rq = FAILED" "value_of (getEscrowAmount E tid w) = Inr n" by blast
      let ?w2 = "?w1\<lparr>rds := s\<rparr>"
      obtain x w3 where r: "rejectAndRefund M tid rq tx n ?w2 = (x, w3)" by (cases "rejectAndRefund M tid rq tx n ?w2")
      have p: "funds_are (funds w) ?w2 \<and> refunds tid (tx_user tx) ''NGN'' (tx_amount tx) ?w2"
        using d t(1,2) same by (simp add: funds_are_def refunds_def)
      have esc: "(case n of None \<Rightarrow> False | Some a \<Rightarrow> 0 < a) = escrowed M tid w"
        using t(5) assms(1) by (simp add: escrowed_def)
      have run: "updateInReviewTransactionStatus M tid rq w = (case x of Inl e \<Rightarrow> (Inl (InternalError ''Failed to update transaction status''), w3)
          | Inr u \<Rightarrow> (Inr u, snd (releaseMoneyFromEscrow E tid w3)))"
        using 2 t g r assms(1)
        by (simp add: updateInReviewTransactionStatus_def io_simps repo_findById_def release_escrow_run split: sum.split)
      have keep: "wallets (snd (releaseMoneyFromEscrow E tid w3)) = wallets w3" by (simp add: release_escrow_run)
      show ?thesis
      proof (cases x)
        case (Inl e)
        with triple_fail [OF reject_triple [OF assms(1)] p, of rq tx n e w3] r
        have "funds_are (funds w) w3" by simp
        then show ?thesis using run Inl assms(3) by (auto dest: funds_eq)
      next
        case (Inr u)
        have q: "if escrowed M tid w then \<exists>wid. funds_are ((funds w)(wid := funds w wid + tx_amount tx)) w3 \<and> owned wid (tx_user tx) ''NGN'' w3
          else funds_are (funds w) w3"
          using triple_ok [OF reject_triple [OF assms(1)] p, of rq tx n u w3] r Inr esc by simp
        have "w' = snd (releaseMoneyFromEscrow E tid w3)" "v = Inr u" using run Inr assms(3) by simp_all
        moreover from this(1) keep have "funds w' = funds w3" "\<And>i. owned i (tx_user tx) ''NGN'' w' = owned i (tx_user tx) ''NGN'' w3"
          by (simp_all add: funds_def balance_of_def owned_def fun_eq_iff)
        ultimately show ?thesis using q t by (auto simp: refunded_def dest: funds_eq split: if_splits)
      qed
    qed
  qed
qed

text \<open>A movement for a transaction that is completed never returns.\<close>

lemma section_completed:
  assumes "status_of w tid = Some COMPLETED"
  shows "\<exists>e. value_of (balanceSection M wid a tid ty st meta inTrx w) = Inl e"
proof (cases rule: wallet_findById_cases [of wid w])
  case (1 e fs)
  then show ?thesis by (simp add: balanceSection_def bind_run)
next
  case (2 r fs)
  then show ?thesis
    using assms by (cases rule: txs.findOne_cases [of "\<lambda>x. tx_id x = tid" "w\<lparr>faults := fs\<rparr>"])
      (auto simp: balanceSection_def bind_run repo_findById_def status_of_def)
qed

lemma updateBalance_completed:
  assumes "m_redis M = E"
  shows "triple (\<lambda>w :: ('s, 'm) money_world_scheme. status_of w tid = Some COMPLETED) (updateBalance M wid a tid ty st meta inTrx)
    (\<lambda>_ _. False) (\<lambda>_ _. True)"
proof -
  let ?sec = "balanceSection M wid a tid ty st meta inTrx" and ?P = "\<lambda>w :: ('s, 'm) money_world_scheme. status_of w tid = Some COMPLETED"
  have sec: "triple ?P ?sec (\<lambda>_ _. False) (\<lambda>_ _. True)"
    unfolding triple_def using section_completed by (metis sum.case(1))
  have q: "rds (snd (?sec w1)) = rds w1 \<and> now (snd (?sec w1)) = now w1" for w1
    using quiet_section unfolding quiet_def by blast
  have "lock_stable key ?P" for key by (auto simp: lock_stable_def moved_def status_of_def)
  then have "triple ?P (withLockN E own (balanceKey wid) (Some 30000) 5 500 ?sec) (\<lambda>_ _. False) (\<lambda>e w'. True \<or> ?P w')" for own
    by - (rule withLockN_triple; (simp add: sec q lock_stable_def [of _ "\<lambda>_. True"] lock_stable_def [of _ "\<lambda>_. False"])?)
  then have l: "triple ?P (withLockN E own (balanceKey wid) (Some 30000) 5 500 ?sec) (\<lambda>_ _. False) (\<lambda>_ _. True)" for own by simp
  show ?thesis
    unfolding updateBalance_def locked_def assms(1)
    by (rule triple_bind [where Q' = "\<lambda>_. ?P", OF _ l]) (auto simp: triple_def new_value_def status_of_def)
qed

lemma credit_uncompleted:
  assumes "m_redis M = E"
  shows "triple (\<lambda>w :: ('s, 'm) money_world_scheme. funds_are f w \<and> txs w = T) (updateBalance M wid a tid ty st meta inTrx)
    (\<lambda>_ w. map_option tx_status (List.find (\<lambda>r. tx_id r = tid) T) \<noteq> Some COMPLETED \<and> funds_are (f(wid := f wid + a)) w) (\<lambda>_ _. True)"
proof (cases "map_option tx_status (List.find (\<lambda>r. tx_id r = tid) T) = Some COMPLETED")
  case True
  then show ?thesis
    by (intro triple_conseq [OF updateBalance_completed [OF assms, of tid]]) (auto simp: status_of_def)
next
  case False
  have "triple (funds_are f :: ('s, 'm) money_world_scheme \<Rightarrow> bool) (updateBalance M wid a tid ty st meta inTrx)
      (\<lambda>_ w. funds_are (f(wid := f wid + a)) w) (\<lambda>_ _. True)"
    by (rule updateBalance_wallets [OF assms wallet_only_funds(1) wallet_only_funds(1)]) (rule moved_funds)
  then show ?thesis by (rule triple_conseq) (use False in simp_all)
qed

lemma credit_section:
  assumes "m_redis M = E"
  shows "triple (\<lambda>w :: ('s, 'm) money_world_scheme. funds_are f w \<and> txs w = T)
     (transaction (andthen (updateBalance M wid a tid ty st meta True) (andthen (tx_updateStatus M tid st' mo opts)
       (andthen (io_of (exchange_mail user parent)) (andthen (ext_call M nm load) (ret ()))))))
     (\<lambda>_ w. exchange_mail user parent = Inr () \<and> map_option tx_status (List.find (\<lambda>r. tx_id r = tid) T) \<noteq> Some COMPLETED
       \<and> funds_are (f(wid := f wid + a)) w) (\<lambda>_. funds_are f)"
proof -
  let ?C = "map_option tx_status (List.find (\<lambda>r. tx_id r = tid) T) \<noteq> Some COMPLETED"
  let ?F = "\<lambda>w :: ('s, 'm) money_world_scheme. ?C \<and> funds_are (f(wid := f wid + a)) w"
  have wo: "wallet_only ?F" by simp
  have last: "triple (\<lambda>w. exchange_mail user parent = Inr () \<and> ?F w) (andthen (ext_call M nm load) (ret ()))
      (\<lambda>_ w. exchange_mail user parent = Inr () \<and> ?F w) (\<lambda>_ _. True)"
    by (rule triple_pure, rule triple_seq [OF triple_keeps [OF aside_wallet_only [OF aside_basic(8) wo]] triple_ret]) simp_all
  have mail: "triple ?F (io_of (exchange_mail user parent)) (\<lambda>_ w. exchange_mail user parent = Inr () \<and> ?F w) (\<lambda>_ _. True)"
    by (rule triple_io_of) simp_all
  have "triple (\<lambda>w :: ('s, 'm) money_world_scheme. funds_are f w \<and> txs w = T)
     (andthen (updateBalance M wid a tid ty st meta True) (andthen (tx_updateStatus M tid st' mo opts)
       (andthen (io_of (exchange_mail user parent)) (andthen (ext_call M nm load) (ret ())))))
     (\<lambda>_ w. exchange_mail user parent = Inr () \<and> ?F w) (\<lambda>_ _. True)"
    by (rule triple_seq [OF credit_uncompleted [OF assms]],
        rule triple_seq [OF triple_keeps [OF status_wallets(1) [OF assms wo]] triple_seq [OF mail last]]) blast+
  then show ?thesis by (rule triple_rolled_back) simp_all
qed

lemma credit_exchange:
  assumes "m_redis M = E"
  shows "triple (\<lambda>w1 :: ('s, 'm) money_world_scheme. funds_are f w1 \<and> txs w1 = T) (creditExchange M tx a ft parent)
    (\<lambda>_ w1. (\<exists>user. exchange_mail user parent = Inr ()) \<and> map_option tx_status (List.find (\<lambda>r. tx_id r = tx_id tx) T) \<noteq> Some COMPLETED
      \<and> funds_are (f(ft_wallet ft := f (ft_wallet ft) + a)) w1) (\<lambda>_. funds_are f)"
proof -
  have call: "triple (\<lambda>w1 :: ('s, 'm) money_world_scheme. funds_are f w1 \<and> txs w1 = T) (ext_call M ''findByUserId'' (JStr (tx_user tx)))
      (\<lambda>_ w1. funds_are f w1 \<and> txs w1 = T) (\<lambda>_. funds_are f)"
    by (auto simp: triple_def ext_call_def call_ext_def funds_are_def funds_def balance_of_def split: sum.split)
  show ?thesis
    unfolding creditExchange_def
    by (rule triple_bind [OF call triple_conseq [OF credit_section [OF assms]]]) blast+
qed

end

section \<open>Cancelling with a database that works\<close>

lemma cancel_tx_calm:
  assumes "faults w = []" "List.find (\<lambda>r. tx_id r = tx_id x) (txs w) = Some r"
  obtains w' c where "cancel_tx reason x w = (Inr c, w')" "faults w' = []" "wallets w' = wallets w" "fwts w' = fwts w" "tx_id c = tx_id x"
    "tx_status c = CANCELLED" "\<And>i. List.find (\<lambda>r. tx_id r = i) (txs w') = (if i = tx_id x then Some c else List.find (\<lambda>r. tx_id r = i) (txs w))"
proof -
  let ?c = "r\<lparr>tx_status := CANCELLED, tx_failure := Some reason\<rparr>"
  have "tx_id ?c = tx_id x" using assms(2) by (auto dest: find_Some_in)
  with find_replaced [where rid = tx_id, OF assms(2), of ?c] show thesis
    using assms by (intro that [of ?c "w\<lparr>txs := replace_row tx_id (tx_id x) ?c (txs w)\<rparr>"])
      (simp_all add: cancel_tx_def bind_run txs.update_id_calm)
qed

lemma cancel_entry_calm:
  assumes "faults w = []" "List.find (\<lambda>r. ft_id r = ft_id x) (fwts w) = Some r"
  obtains w' c where "cancel_entry reason x w = (Inr c, w')" "faults w' = []" "wallets w' = wallets w" "txs w' = txs w"
    "\<And>i. List.find (\<lambda>r. ft_id r = i) (fwts w') = (if i = ft_id x then Some c else List.find (\<lambda>r. ft_id r = i) (fwts w))"
proof -
  let ?c = "r\<lparr>ft_status := CANCELLED, ft_failure := Some reason\<rparr>"
  have "ft_id ?c = ft_id x" using assms(2) by (auto dest: find_Some_in)
  with find_replaced [where rid = ft_id, OF assms(2), of ?c] show thesis
    using assms by (intro that [of ?c "w\<lparr>fwts := replace_row ft_id (ft_id x) ?c (fwts w)\<rparr>"])
      (simp_all add: cancel_entry_def bind_run fwts.update_id_calm)
qed

text \<open>The four updates one after the other.\<close>

lemma cancel_all_calm:
  assumes "faults w = []" "List.find (\<lambda>r. tx_id r = tx_id tx) (txs w) = Some tx" "List.find (\<lambda>r. tx_id r = tx_id d) (txs w) = Some d"
    and "List.find (\<lambda>r. ft_id r = ft_id ft) (fwts w) = Some ft" "List.find (\<lambda>r. ft_id r = ft_id df) (fwts w) = Some df"
  obtains w' t f d' df' where "bind (cancel_tx why tx) (\<lambda>t. bind (cancel_entry why ft) (\<lambda>f. bind (cancel_tx why' d) (\<lambda>d'.
      bind (cancel_entry why' df) (\<lambda>df'. ret (t, f, d', df'))))) w = (Inr (t, f, d', df'), w')"
    "wallets w' = wallets w" "status_of w' (tx_id tx) = Some CANCELLED" "status_of w' (tx_id d) = Some CANCELLED"
proof -
  obtain w1 t where 1: "cancel_tx why tx w = (Inr t, w1)" "faults w1 = []" "wallets w1 = wallets w" "fwts w1 = fwts w" "tx_status t = CANCELLED"
      "\<And>i. List.find (\<lambda>r. tx_id r = i) (txs w1) = (if i = tx_id tx then Some t else List.find (\<lambda>r. tx_id r = i) (txs w))"
    by (rule cancel_tx_calm [OF assms(1,2), where reason = why]) metis
  obtain w2 f where 2: "cancel_entry why ft w1 = (Inr f, w2)" "faults w2 = []" "wallets w2 = wallets w1" "txs w2 = txs w1"
      "\<And>i. List.find (\<lambda>r. ft_id r = i) (fwts w2) = (if i = ft_id ft then Some f else List.find (\<lambda>r. ft_id r = i) (fwts w1))"
    by (rule cancel_entry_calm [OF 1(2), where reason = why and x = ft and r = ft]) (use 1(4) assms(4) in auto)
  have "\<exists>r. List.find (\<lambda>r. tx_id r = tx_id d) (txs w2) = Some r" using 2(4) 1(6) assms(3) by simp
  then obtain w3 d' where 3: "cancel_tx why' d w2 = (Inr d', w3)" "faults w3 = []" "wallets w3 = wallets w2" "fwts w3 = fwts w2" "tx_status d' = CANCELLED"
      "\<And>i. List.find (\<lambda>r. tx_id r = i) (txs w3) = (if i = tx_id d then Some d' else List.find (\<lambda>r. tx_id r = i) (txs w2))"
    by (metis cancel_tx_calm [OF 2(2)])
  have "\<exists>r. List.find (\<lambda>r. ft_id r = ft_id df) (fwts w3) = Some r" using 3(4) 2(5) 1(4) assms(5) by simp
  then obtain w4 df' where 4: "cancel_entry why' df w3 = (Inr df', w4)" "wallets w4 = wallets w3" "txs w4 = txs w3"
    by (metis cancel_entry_calm [OF 3(2)])
  show thesis
    by (rule that [of t f d' df' w4]) (use 1 2 3 4 in \<open>auto simp: bind_run status_of_def\<close>)
qed

section \<open>Properties\<close>



text \<open>
  Cancelling looks at the status of the source only: with a working database and the lock free, a user
  who cancels a pending exchange also marks its destination cancelled, even one that was completed and
  credited; no balance is taken back.
\<close>

theorem cancel_overwrites_destination:
  fixes w :: "('s, 'm) money_world_scheme"
  assumes "redis_server (m_redis M) ent" "0 < m_patience M" "faults w = []" "view ent w (cancelKey u tid) = None"
    and "distinct (map tx_id (txs w))" "distinct (map ft_id (fwts w))"
    and "List.find (\<lambda>r. tx_id r = tid \<and> tx_user r = u \<and> tx_type r = T_EXCHANGE) (txs w) = Some tx" "tx_status tx = PENDING"
    and "List.find (\<lambda>r. ft_transaction r = tid \<and> ft_user r = u \<and> ft_type r = F_EXCHANGE) (fwts w) = Some ft"
    and "List.find (\<lambda>r. tx_parent r = Some tid \<and> tx_user r = u \<and> tx_type r = T_EXCHANGE) (txs w) = Some d"
    and "List.find (\<lambda>r. ft_transaction r = tx_id d \<and> ft_user r = u \<and> ft_type r = F_EXCHANGE) (fwts w) = Some df"
    and "js_truthy (jfield ''from_currency'' (JObj (tx_meta tx)))"
  shows "\<exists>j w'. exchangeCancel M u tid w = (Inr j, w') \<and> wallets w' = wallets w
    \<and> status_of w' tid = Some CANCELLED \<and> status_of w' (tx_id d) = Some CANCELLED"
proof -
  have q: "quiet (cancelSection u tid)"
    unfolding cancelSection_def destination_of_def cancel_tx_def cancel_entry_def attempt_def
    by (rule quiet_aside) (auto intro!: aside_intros split: prod.split sum.split option.split)
  obtain s s' where l: "exchangeCancel M u tid w = (fst (cancelSection u tid (w\<lparr>draws := Suc (draws w), rds := s\<rparr>)),
      (snd (cancelSection u tid (w\<lparr>draws := Suc (draws w), rds := s\<rparr>)))\<lparr>rds := s'\<rparr>)"
    using redis_server.locked_wait_at [OF assms(1) refl assms(2,4) q] unfolding exchangeCancel_def by metis
  let ?w = "w\<lparr>draws := Suc (draws w), rds := s\<rparr>"
  have f: "faults ?w = []" using assms(3) by simp
  have id: "tx_id tx = tid" using assms(7) by (auto dest: find_Some_in)
  have "\<exists>j w'. cancelSection u tid ?w = (Inr j, w') \<and> wallets w' = wallets w
    \<and> status_of w' tid = Some CANCELLED \<and> status_of w' (tx_id d) = Some CANCELLED"
  proof -
    have rows: "List.find (\<lambda>r. tx_id r = tx_id tx) (txs ?w) = Some tx" "List.find (\<lambda>r. tx_id r = tx_id d) (txs ?w) = Some d"
      "List.find (\<lambda>r. ft_id r = ft_id ft) (fwts ?w) = Some ft" "List.find (\<lambda>r. ft_id r = ft_id df) (fwts ?w) = Some df"
      using assms(5-7,9-11) by (auto intro!: find_distinct dest: find_Some_in)
    obtain w' t f d' df' where c: "bind (cancel_tx ''Transaction cancelled by user'' tx) (\<lambda>t. bind (cancel_entry ''Transaction cancelled by user'' ft) (\<lambda>f.
        bind (cancel_tx ''Exchange cancelled by user'' d) (\<lambda>d'. bind (cancel_entry ''Exchange cancelled by user'' df) (\<lambda>df'. ret (t, f, d', df'))))) ?w
        = (Inr (t, f, d', df'), w')" "wallets w' = wallets ?w" "status_of w' (tx_id tx) = Some CANCELLED" "status_of w' (tx_id d) = Some CANCELLED"
      by (rule cancel_all_calm [OF f rows])
    then show ?thesis
      using assms(7-12) f id
      by (auto simp: cancelSection_def destination_of_def attempt_def bind_run catch_run txs.findOne_calm fwts.findOne_calm split: prod.splits sum.splits)
  qed
  then show ?thesis using l by (auto simp: status_of_def)
qed

section \<open>Instances\<close>

text \<open>A naira transaction in review, and a pending exchange whose destination is completed.\<close>

definition demo_review :: "keyspace money_world" where
  "demo_review = demo_money\<lparr>txs := [demo_tx\<lparr>tx_status := REVIEW\<rparr>]\<rparr>"

definition demo_source :: tx_row where
  "demo_source = demo_tx\<lparr>tx_status := PENDING, tx_type := T_EXCHANGE, tx_meta := [(''from_currency'', JStr ''USD'')]\<rparr>"

definition demo_destination :: tx_row where
  "demo_destination = demo_tx\<lparr>tx_id := ''t2'', tx_status := COMPLETED, tx_type := T_EXCHANGE, tx_parent := Some ''t''\<rparr>"

definition demo_exchange :: "keyspace money_world" where
  "demo_exchange = demo_money\<lparr>txs := [demo_source, demo_destination],
     fwts := [demo_fwt\<lparr>ft_type := F_EXCHANGE\<rparr>, demo_fwt\<lparr>ft_id := ''f2'', ft_transaction := ''t2'', ft_type := F_EXCHANGE\<rparr>]\<rparr>"



lemma cancel_overwrites_destination_witness:
  "\<exists>j w'. exchangeCancel demo_money_env ''u'' ''t'' demo_exchange = (Inr j, w') \<and> status_of w' ''t2'' = Some CANCELLED"
proof -
  have v: "view ks_ent demo_exchange k = None" for k
    by (simp add: view_def ks_ent_def live_def demo_exchange_def demo_money_def)
  have "\<exists>j w'. exchangeCancel demo_money_env ''u'' ''t'' demo_exchange = (Inr j, w') \<and> wallets w' = wallets demo_exchange
      \<and> status_of w' ''t'' = Some CANCELLED \<and> status_of w' (tx_id demo_destination) = Some CANCELLED"
    by (rule cancel_overwrites_destination [OF demo_server _ _ v, where tx = demo_source and ft = "demo_fwt\<lparr>ft_type := F_EXCHANGE\<rparr>"
        and df = "demo_fwt\<lparr>ft_id := ''f2'', ft_transaction := ''t2'', ft_type := F_EXCHANGE\<rparr>"])
      (simp_all add: demo_exchange_def demo_source_def demo_destination_def demo_money_env_def demo_tx_def demo_fwt_def blank_tx_def blank_fwt_def js_truthy_def)
  then show ?thesis by (auto simp: demo_destination_def)
qed

end
