(* ===== verification/Rates.thy ===== *)
theory Rates
  imports TxReview
begin

text \<open>
  The state of the exchanges and \<^verbatim>\<open>RateService\<close> (\<^verbatim>\<open>src/modules/rate/rate.service.ts\<close>): exchange rates and
  their configuration, the virtual accounts naira is paid to and the card fundings, next to the money tables.
  The exchange provider is a collaborator; its rates and amounts, doubles in the source, are exact
  rationals. The properties say that a rate that was validated is the rate the provider quotes at that
  moment, and what the effective naira rate is.
\<close>

section \<open>Rows\<close>

datatype rate_type = BUY | SELL

record rate_row =
  er_id :: string
  er_provider :: string
  er_buying :: string
  er_selling :: string
  er_rate :: int
  er_provider_rate :: int
  er_ref :: string

record fee_config =
  fc_value :: rat
  fc_currency :: "string option"
  fc_percentage :: bool

record ngn_fee_config =
  nf_value :: rat
  nf_percentage :: bool
  nf_cap :: rat

record fiat_exchange =
  service_fee :: "fee_config option"
  partner_fee :: "fee_config option"
  disbursement_fee :: "fee_config option"
  ngn_withdrawal_fee :: "ngn_fee_config option"

record rate_config_row =
  rc_id :: string
  rc_provider :: string
  rc_active :: bool
  rc_exchange :: "fiat_exchange option"
  rc_description :: "string option"

datatype account_type = MAIN_ACCOUNT | EXCHANGE_ACCOUNT

record account_row =
  ac_id :: string
  ac_user :: string
  ac_wallet :: "string option"
  ac_name :: string
  ac_number :: string
  ac_bank :: string
  ac_bank_ref :: string
  ac_routing :: string
  ac_provider :: string
  ac_type :: account_type
  ac_transaction :: "string option"
  ac_deletion :: "int option"
  ac_profile :: "(string \<times> json) list"

record card_tx_row =
  cx_id :: string
  cx_status :: string
  cx_reason :: "string option"
  cx_exchange :: "string option"

record 's exchange_world = "'s money_world" +
  rate_rows :: "rate_row list"
  rate_config_rows :: "rate_config_row list"
  account_rows :: "account_row list"
  card_rows :: "card_tx_row list"

text \<open>The settings the exchange services read: the dollar provider, its coin, the environment, the exchange provider.\<close>

record exchange_config =
  xc_provider :: string
  xc_underlying :: string
  xc_production :: bool
  xc_exchange :: string

definition rate_table :: "(rate_row, ('s, 'm) exchange_world_scheme) table" where
  "rate_table = \<lparr>rows_of = rate_rows, set_rows = (\<lambda>rs w. w\<lparr>rate_rows := rs\<rparr>), row_id = er_id\<rparr>"

definition rate_config_table :: "(rate_config_row, ('s, 'm) exchange_world_scheme) table" where
  "rate_config_table = \<lparr>rows_of = rate_config_rows, set_rows = (\<lambda>rs w. w\<lparr>rate_config_rows := rs\<rparr>), row_id = rc_id\<rparr>"

definition account_table :: "(account_row, ('s, 'm) exchange_world_scheme) table" where
  "account_table = \<lparr>rows_of = account_rows, set_rows = (\<lambda>rs w. w\<lparr>account_rows := rs\<rparr>), row_id = ac_id\<rparr>"

definition card_table :: "(card_tx_row, ('s, 'm) exchange_world_scheme) table" where
  "card_table = \<lparr>rows_of = card_rows, set_rows = (\<lambda>rs w. w\<lparr>card_rows := rs\<rparr>), row_id = cx_id\<rparr>"

interpretation rates: row_store rate_table
  by unfold_locales (simp_all add: rate_table_def)

interpretation rate_configs: row_store rate_config_table
  by unfold_locales (simp_all add: rate_config_table_def)

interpretation vaccounts: row_store account_table
  by unfold_locales (simp_all add: account_table_def)

interpretation card_fundings: row_store card_table
  by unfold_locales (simp_all add: card_table_def)

lemma exchange_tables [simp]:
  "rows_of rate_table = rate_rows" "set_rows rate_table rs w = w\<lparr>rate_rows := rs\<rparr>" "row_id rate_table = er_id"
  "rows_of rate_config_table = rate_config_rows" "set_rows rate_config_table cs w = w\<lparr>rate_config_rows := cs\<rparr>" "row_id rate_config_table = rc_id"
  "rows_of account_table = account_rows" "set_rows account_table vs w = w\<lparr>account_rows := vs\<rparr>" "row_id account_table = ac_id"
  "rows_of card_table = card_rows" "set_rows card_table xs w = w\<lparr>card_rows := xs\<rparr>" "row_id card_table = cx_id"
  by (simp_all add: rate_table_def rate_config_table_def account_table_def card_table_def)

section \<open>The current rate\<close>

text \<open>A number in an answer of the exchange provider, whose interface types it.\<close>

definition js_rat :: "json \<Rightarrow> rat" where
  "js_rat j = (case j of JNum n \<Rightarrow> of_int n | JDec d \<Rightarrow> d | _ \<Rightarrow> 0)"

text \<open>The quoted price in smallest units: of both directions, of which the wanted one is taken.\<close>

definition quoted :: "rate_type \<Rightarrow> json \<Rightarrow> string \<Rightarrow> exn + int" where
  "quoted ty providerRate currencyCode =
     (case formatCurrencyAmountToSmallestUnit (js_rat (jfield ''buy'' providerRate)) currencyCode of Inl e \<Rightarrow> Inl e
      | Inr buyRate \<Rightarrow> (case formatCurrencyAmountToSmallestUnit (js_rat (jfield ''sell'' providerRate)) currencyCode of Inl e \<Rightarrow> Inl e
        | Inr sellRate \<Rightarrow> Inr (if ty = BUY then sellRate else buyRate)))"

definition through_main_unit :: "int \<Rightarrow> string \<Rightarrow> exn + int" where
  "through_main_unit n currencyCode = (case formatCurrencyAmountToMainUnit n currencyCode of
      None \<Rightarrow> Inl undefined_row | Some m \<Rightarrow> formatCurrencyAmountToSmallestUnit m currencyCode)"

definition find_code :: "string \<Rightarrow> json \<Rightarrow> exn + json option" where
  "find_code currencyCode answer = (case answer of
      JArr xs \<Rightarrow> Inr (List.find (\<lambda>r. jfield ''code'' r = JStr currencyCode) xs)
    | _ \<Rightarrow> Inl (PlainError ''exchangeRates.find is not a function''))"

record quote =
  qt_id :: string
  qt_provider :: string
  qt_buying :: string
  qt_selling :: string
  qt_rate :: int
  qt_incremented :: int
  qt_service :: fee_config
  qt_partner :: fee_config
  qt_disbursement :: fee_config
  qt_ngn :: ngn_fee_config
  qt_active :: bool

definition fee_or_zero :: "fee_config option \<Rightarrow> fee_config" where
  "fee_or_zero f = (case f of None \<Rightarrow> \<lparr>fc_value = 0, fc_currency = None, fc_percentage = False\<rparr> | Some x \<Rightarrow> x)"

definition ngn_fee_or_zero :: "ngn_fee_config option \<Rightarrow> ngn_fee_config" where
  "ngn_fee_or_zero f = (case f of None \<Rightarrow> \<lparr>nf_value = 0, nf_percentage = False, nf_cap = 0\<rparr> | Some x \<Rightarrow> x)"

definition quote_of :: "rate_config_row \<Rightarrow> rate_row \<Rightarrow> quote" where
  "quote_of rateConfig r = \<lparr>qt_id = er_id r, qt_provider = rc_provider rateConfig, qt_buying = er_buying r, qt_selling = er_selling r,
     qt_rate = er_provider_rate r, qt_incremented = er_rate r,
     qt_service = fee_or_zero (Option.bind (rc_exchange rateConfig) service_fee),
     qt_partner = fee_or_zero (Option.bind (rc_exchange rateConfig) partner_fee),
     qt_disbursement = fee_or_zero (Option.bind (rc_exchange rateConfig) disbursement_fee),
     qt_ngn = ngn_fee_or_zero (Option.bind (rc_exchange rateConfig) ngn_withdrawal_fee), qt_active = rc_active rateConfig\<rparr>"

text \<open>The row of the rate: one with these prices is reused, else it is created.\<close>

definition rate_record :: "'s money_env \<Rightarrow> string \<Rightarrow> string \<Rightarrow> string \<Rightarrow> int \<Rightarrow> int \<Rightarrow> string \<Rightarrow> (('s, 'm) exchange_world_scheme, rate_row) io" where
  "rate_record M provider buying selling providerRate rate ref =
     bind (repo_findOne rate_table (\<lambda>r. er_buying r = buying \<and> er_selling r = selling \<and> er_provider r = provider
       \<and> er_provider_rate r = providerRate \<and> er_rate r = rate)) (\<lambda>found. case found of
       Some r \<Rightarrow> ret r
     | None \<Rightarrow> bind (new_value M) (\<lambda>i. repo_create rate_table \<lparr>er_id = i, er_provider = provider, er_buying = buying, er_selling = selling,
         er_rate = rate, er_provider_rate = providerRate, er_ref = ref\<rparr>))"

definition getRate :: "'s money_env \<Rightarrow> exchange_config \<Rightarrow> string \<Rightarrow> rate_type \<Rightarrow> (('s, 'm) exchange_world_scheme, quote) io" where
  "getRate M X currencyCode ty =
     bind (repo_findOne rate_config_table (\<lambda>r. rc_provider r = xc_exchange X)) (\<lambda>config.
     case (case config of None \<Rightarrow> None | Some c \<Rightarrow> if rc_active c then Some c else None) of
       None \<Rightarrow> andthen (service_down ''rate_generation'' (PlainError (''Failed to get active rate config for provider: '' @ xc_exchange X)))
         (throw (BadRequest ''Failed to get rate with this, try again later''))
     | Some rateConfig \<Rightarrow>
         bind (catch (ext_call M ''getExchangeRates'' (JObj [(''currencyCode'', JStr currencyCode)]))
           (\<lambda>e. andthen (service_down ''rate_generation'' e) (throw e))) (\<lambda>exchangeRates.
         bind (io_of (find_code currencyCode exchangeRates)) (\<lambda>found. case found of
             None \<Rightarrow> throw (BadRequest ''No exchange rate found for currency'')
           | Some providerRate \<Rightarrow>
               bind (io_of (quoted ty providerRate currencyCode)) (\<lambda>providerRateAmount.
               bind (io_of (through_main_unit providerRateAmount currencyCode)) (\<lambda>rateInSmallestUnit.
               bind (rate_record M (xc_exchange X) (if ty = BUY then currencyCode else ''USD'') (if ty = SELL then currencyCode else ''USD'')
                 providerRateAmount rateInSmallestUnit (js_text (jfield ''rateRef'' providerRate))) (\<lambda>exchangeRate.
               andthen (service_up ''rate_generation'')
               (ret (quote_of rateConfig exchangeRate))))))))"

definition validateRateOrThrow :: "'s money_env \<Rightarrow> exchange_config \<Rightarrow> string \<Rightarrow> rate_type \<Rightarrow> (('s, 'm) exchange_world_scheme, rate_row) io" where
  "validateRateOrThrow M X rateId ty =
     bind (repo_findOne rate_table (\<lambda>r. er_id r = rateId)) (\<lambda>found. case found of
         None \<Rightarrow> throw (BadRequest ''Rate not found'')
       | Some rate \<Rightarrow>
           if er_rate rate \<le> 0 then throw (BadRequest ''Invalid exchange rate'')
           else if er_provider rate = [] then throw (InternalError ''Exchange rate provider is missing'')
           else bind (getRate M X (if ty = BUY then er_buying rate else er_selling rate) ty) (\<lambda>providerRate.
            if qt_rate providerRate \<noteq> er_rate rate then throw (BadRequest ''Exchange rate mismatch'')
            else ret rate))"

text \<open>The effective rate after the dollar provider's fees, computed in two ways of which the better is taken.\<close>

definition getRateInNGN :: "rat \<Rightarrow> rat \<Rightarrow> rat \<Rightarrow> rat \<Rightarrow> rat" where
  "getRateInNGN amount ngnProviderRate usdProviderNetworkFee usdProviderWithdrawalFee =
     (let usdFee = usdProviderNetworkFee + usdProviderWithdrawalFee; convertedAmount = amount - usdFee;
        ngnAmount = convertedAmount * ngnProviderRate; ngnAmountWithFee = (amount - usdFee) * ngnProviderRate;
        finalNgnAmount = max ngnAmount ngnAmountWithFee; firstRate = finalNgnAmount / amount;
        secondRate = (1 - usdFee / amount) * ngnProviderRate
      in max firstRate secondRate)"

section \<open>What a quote says\<close>

lemma through_main_unit_id: "isSupportedCurrency c \<Longrightarrow> through_main_unit n c = Inr n"
  using minorUnit_100 by (auto simp: through_main_unit_def formatCurrencyAmountToMainUnit_def formatCurrencyAmountToSmallestUnit_def supported_iff)

lemma quoted_ok:
  assumes "quoted ty p c = Inr n"
  shows "isSupportedCurrency c \<and> n = \<lfloor>js_rat (jfield (if ty = BUY then ''sell'' else ''buy'') p) * 100\<rfloor>"
  using assms minorUnit_100 by (auto simp: quoted_def formatCurrencyAmountToSmallestUnit_def supported_iff split: option.splits)

lemma rate_record_ok:
  "triple (\<lambda>_. True) (rate_record M prov b s pr n ref) (\<lambda>x _. er_provider_rate x = pr \<and> er_rate x = n \<and> er_provider x = prov) (\<lambda>_ _. True)"
proof (rule tripleI, goal_cases)
  case (1 w x w')
  then show ?case
    by (cases rule: rates.findOne_cases [of "\<lambda>r. er_buying r = b \<and> er_selling r = s \<and> er_provider r = prov \<and> er_provider_rate r = pr \<and> er_rate r = n" w])
       (auto simp: rate_record_def bind_run new_value_def andthen_run repo_create_def
          split: option.splits sum.splits prod.splits if_splits dest: find_Some_in)
qed simp

text \<open>The provider quotes \<open>n\<close> for the currency when it has been called as \<open>ob\<close> says.\<close>

definition quotes :: "'s money_env \<Rightarrow> (string \<times> json) list \<Rightarrow> rate_type \<Rightarrow> string \<Rightarrow> int \<Rightarrow> bool" where
  "quotes M ob ty c n \<longleftrightarrow> (\<exists>answer p. m_ext M ob ''getExchangeRates'' (JObj [(''currencyCode'', JStr c)]) = Inr (JArr answer)
     \<and> p \<in> set answer \<and> jfield ''code'' p = JStr c \<and> n = \<lfloor>js_rat (jfield (if ty = BUY then ''sell'' else ''buy'') p) * 100\<rfloor>)"

lemma find_code_ok: "find_code c answer = Inr (Some p) \<Longrightarrow> \<exists>xs. answer = JArr xs \<and> p \<in> set xs \<and> jfield ''code'' p = JStr c"
  by (auto simp: find_code_def split: json.splits dest: find_Some_in)

lemma rates_call:
  "triple (\<lambda>w :: ('s, 'm) exchange_world_scheme. outbox w = ob) (catch (ext_call M nm p) (\<lambda>e. andthen (service_down k e) (throw e)))
    (\<lambda>x _. m_ext M ob nm p = Inr x) (\<lambda>_ _. True)"
  by (auto simp: triple_def catch_run ext_call_def call_ext_def andthen_run service_down_def split: sum.splits)

lemma getRate_quotes:
  "triple (\<lambda>w :: ('s, 'm) exchange_world_scheme. outbox w = ob) (getRate M X c ty) (\<lambda>q _. quotes M ob ty c (qt_rate q)) (\<lambda>_ _. True)"
proof -
  let ?P = "\<lambda>w :: ('s, 'm) exchange_world_scheme. outbox w = ob"
  have cfg: "triple ?P (repo_findOne rate_config_table Q) (\<lambda>_. ?P) (\<lambda>_ _. True)" for Q
  proof (rule tripleI, goal_cases)
    case (1 w x w')
    then show ?case by (cases rule: rate_configs.findOne_cases [of Q w]) auto
  qed simp
  have stored: "triple (\<lambda>w :: ('s, 'm) exchange_world_scheme. quotes M ob ty c n) (bind (rate_record M prov b s n n' ref) (\<lambda>exchangeRate.
      andthen (service_up k) (ret (quote_of rc exchangeRate)))) (\<lambda>q _. quotes M ob ty c (qt_rate q)) (\<lambda>_ _. True)"
    for prov b s n n' ref k rc
  proof (rule triple_bind [where Q' = "\<lambda>x _. quotes M ob ty c (er_provider_rate x)"])
    show "triple (\<lambda>w :: ('s, 'm) exchange_world_scheme. quotes M ob ty c n) (rate_record M prov b s n n' ref)
        (\<lambda>x _. quotes M ob ty c (er_provider_rate x)) (\<lambda>_ _. True)"
      using rate_record_ok [of M prov b s n n' ref] by (fastforce simp: triple_def split: sum.splits)
  qed (auto simp: triple_def andthen_run service_up_def quote_of_def)
  have found: "triple (\<lambda>w :: ('s, 'm) exchange_world_scheme. m_ext M ob ''getExchangeRates'' (JObj [(''currencyCode'', JStr c)]) = Inr answer)
      (bind (io_of (find_code c answer)) (\<lambda>found. case found of None \<Rightarrow> throw e
        | Some p \<Rightarrow> bind (io_of (quoted ty p c)) (\<lambda>n. bind (io_of (through_main_unit n c)) (\<lambda>n'.
            bind (rate_record M prov b s n n' (ref p)) (\<lambda>exchangeRate. andthen (service_up k) (ret (quote_of rc exchangeRate)))))))
      (\<lambda>q _. quotes M ob ty c (qt_rate q)) (\<lambda>_ _. True)" for answer e prov b s ref k rc
    apply (rule triple_bind [where Q' = "\<lambda>x _. m_ext M ob ''getExchangeRates'' (JObj [(''currencyCode'', JStr c)]) = Inr answer \<and> find_code c answer = Inr x"])
     apply (rule triple_io_of; simp)
    apply (rule triple_option, rule triple_throw, simp)
    apply (rule triple_bind [where Q' = "\<lambda>n _. quotes M ob ty c n"])
     apply (rule triple_io_of)
      apply (auto simp: quotes_def dest!: find_code_ok quoted_ok)[2]
    apply (rule triple_bind [OF triple_io_of stored]; simp)
    done
  show ?thesis
    unfolding getRate_def
    by (rule triple_bind [OF cfg], rule triple_option, rule triple_seq [where Q' = "\<lambda>_. True"], simp add: triple_def service_down_def,
        rule triple_throw, simp, rule triple_bind [OF rates_call found])
qed

section \<open>Properties\<close>

text \<open>
  A rate is accepted only at the price the exchange provider quotes at that moment: when a rate
  passes the validation, it is a stored rate with that id and a positive price, and the provider, asked
  during the validation, quotes exactly this price for its currency, the selling price to a buyer and the
  buying price to a seller.
\<close>

theorem validated_rate_is_quoted:
  fixes w :: "('s, 'm) exchange_world_scheme"
  assumes "value_of (validateRateOrThrow M X rateId ty w) = Inr r"
  shows "r \<in> set (rate_rows w) \<and> er_id r = rateId \<and> 0 < er_rate r
    \<and> quotes M (outbox w) ty (if ty = BUY then er_buying r else er_selling r) (er_rate r)"
proof (cases rule: rates.findOne_cases [of "\<lambda>r. er_id r = rateId" w])
  case (1 e fs)
  then show ?thesis using assms by (simp add: validateRateOrThrow_def bind_run)
next
  case (2 fs)
  obtain rate where f: "List.find (\<lambda>r. er_id r = rateId) (rate_rows w) = Some rate"
    using assms 2 by (cases "List.find (\<lambda>r. er_id r = rateId) (rate_rows w)") (auto simp: validateRateOrThrow_def bind_run)
  let ?c = "if ty = BUY then er_buying rate else er_selling rate"
  let ?w = "w\<lparr>faults := fs\<rparr>"
  have pos: "\<not> er_rate rate \<le> 0" "er_provider rate \<noteq> []"
    using assms 2 f by (auto simp: validateRateOrThrow_def bind_run split: if_splits)
  have run: "validateRateOrThrow M X rateId ty w = bind (getRate M X ?c ty) (\<lambda>q. if qt_rate q \<noteq> er_rate rate
      then throw (BadRequest ''Exchange rate mismatch'') else ret rate) ?w"
    unfolding validateRateOrThrow_def by (simp add: bind_run [of "repo_findOne rate_table (\<lambda>r. er_id r = rateId)"] 2 f pos)
  obtain q w' where q: "getRate M X ?c ty ?w = (Inr q, w')" "qt_rate q = er_rate rate" "r = rate"
    using assms unfolding run by (auto simp: bind_run split: prod.splits sum.splits if_splits)
  have "quotes M (outbox w) ty ?c (qt_rate q)"
    using triple_ok [OF getRate_quotes, of ?w "outbox w" M X ?c ty q w'] q(1) by simp
  then show ?thesis using q f pos by (auto dest: find_Some_in)
qed

text \<open>
  The effective naira rate is the provider's rate on what is left after the dollar fees: the two ways
  the code computes it agree, so neither the larger amount nor the larger rate is ever better.
\<close>

theorem effective_rate_exact:
  assumes "amount \<noteq> 0"
  shows "getRateInNGN amount r networkFee withdrawalFee = (amount - (networkFee + withdrawalFee)) * r / amount"
  using assms by (simp add: getRateInNGN_def Let_def field_simps)

section \<open>Instances\<close>

definition demo_exchange_config :: exchange_config where
  "demo_exchange_config = \<lparr>xc_provider = ''zerohash'', xc_underlying = ''USDC.ETH'', xc_production = True, xc_exchange = ''yellowcard''\<rparr>"

definition demo_rate :: rate_row where
  "demo_rate = \<lparr>er_id = ''r'', er_provider = ''yellowcard'', er_buying = ''NGN'', er_selling = ''USD'', er_rate = 150000,
     er_provider_rate = 150000, er_ref = ''ref''\<rparr>"

definition demo_rate_config :: rate_config_row where
  "demo_rate_config = \<lparr>rc_id = ''c'', rc_provider = ''yellowcard'', rc_active = True, rc_exchange = None, rc_description = None\<rparr>"

definition demo_rate_world :: "keyspace exchange_world" where
  "demo_rate_world = \<lparr>rds = Map.empty, now = 0, faults = [], outbox = [], draws = 0, wallets = [demo_wallet], txs = [demo_tx], fwts = [demo_fwt],
     rate_rows = [demo_rate], rate_config_rows = [demo_rate_config], account_rows = [], card_rows = []\<rparr>"

definition demo_rates_env :: "keyspace money_env" where
  "demo_rates_env = demo_money_env\<lparr>m_ext := \<lambda>_ _ _. Inr (JArr [JObj [(''code'', JStr ''NGN''), (''buy'', JNum 1400), (''sell'', JNum 1500)]])\<rparr>"

lemma validated_rate_is_quoted_witness:
  "quotes demo_rates_env [] BUY ''NGN'' 150000"
proof -
  have "value_of (validateRateOrThrow demo_rates_env demo_exchange_config ''r'' BUY demo_rate_world) = Inr demo_rate"
    by code_simp
  from validated_rate_is_quoted [OF this] show ?thesis by (simp add: demo_rate_world_def demo_rate_def)
qed

lemma effective_rate_exact_witness: "getRateInNGN 100 1500 1 1 = 1470"
  using effective_rate_exact [of 100 1500 1 1] by simp

end
