(* ===== verification/VirtualAccounts.thy ===== *)
theory VirtualAccounts
  imports Rates
begin

text \<open>
  \<^verbatim>\<open>VirtualAccountService\<close> (\<^verbatim>\<open>src/modules/virtualAccount/virtualAccount.service.ts\<close>): the bank accounts users
  are paid on, one main account per user and provider and one account per exchange. The table has the unique
  index of the migrations on main accounts; the provider and the user's profile are collaborators. The
  properties are the typing of the table, which every operation keeps, and that an exchange gets one account
  only.
\<close>

section \<open>Creating accounts\<close>

record account_request =
  aq_wallet :: "string option"
  aq_transaction :: "string option"
  aq_bvn :: "string option"

definition or_null :: "string option \<Rightarrow> string option" where
  "or_null s = (if given s then s else None)"

text \<open>The unique index on \<^verbatim>\<open>(user_id, provider, type)\<close> of accounts without a transaction.\<close>

definition main_key :: "account_row \<Rightarrow> string \<times> string \<times> account_type" where
  "main_key a = (ac_user a, ac_provider a, ac_type a)"

definition insert_account :: "account_row \<Rightarrow> (('s, 'm) exchange_world_scheme, account_row) io" where
  "insert_account a = bind get_state (\<lambda>w.
     if ac_transaction a = None \<and> list_ex (\<lambda>x. ac_transaction x = None \<and> main_key x = main_key a) (account_rows w)
     then andthen db_step (throw (UniqueViolation ''virtual_accounts_user_provider_type_main_unique''))
     else repo_create account_table a)"

definition account_payload :: "json \<Rightarrow> account_request \<Rightarrow> string \<Rightarrow> json" where
  "account_payload user d ref = JObj [(''address'', jfield ''address_line1'' (jfield ''userProfile'' user)),
     (''bvn'', case aq_bvn d of None \<Rightarrow> JNull | Some b \<Rightarrow> JStr b), (''date_of_birth'', jfield ''dob'' (jfield ''userProfile'' user)),
     (''email'', jfield ''email'' user), (''first_name'', jfield ''first_name'' user), (''gender'', jfield ''gender'' (jfield ''userProfile'' user)),
     (''last_name'', jfield ''last_name'' user), (''phone_number'', jfield ''phone_number'' user), (''ref'', JStr ref)]"

definition new_account :: "string \<Rightarrow> string \<Rightarrow> account_request \<Rightarrow> account_type \<Rightarrow> json \<Rightarrow> json \<Rightarrow> account_row" where
  "new_account i userId d ty user reply = (let profile = jfield ''userProfile'' user; field = (\<lambda>k. js_text (jfield k reply)) in
     \<lparr>ac_id = i, ac_user = userId, ac_wallet = or_null (aq_wallet d), ac_name = field ''account_name'', ac_number = field ''account_number'',
      ac_bank = field ''bank_name'', ac_bank_ref = field ''provider_ref'', ac_routing = field ''account_number'', ac_provider = field ''provider_name'',
      ac_type = ty, ac_transaction = (if ty = EXCHANGE_ACCOUNT then or_null (aq_transaction d) else None), ac_deletion = None,
      ac_profile = [(''address'', jfield ''address_line1'' profile), (''city'', jfield ''city'' profile),
        (''postal_code'', jfield ''postal_code'' profile), (''state'', jfield ''state_or_province'' profile)]\<rparr>)"

definition account_wanted :: "string \<Rightarrow> account_request \<Rightarrow> account_type \<Rightarrow> account_row \<Rightarrow> bool" where
  "account_wanted userId d ty a \<longleftrightarrow> ac_user a = userId \<and> ac_type a = ty \<and> ac_wallet a = or_null (aq_wallet d)
     \<and> (ty = EXCHANGE_ACCOUNT \<longrightarrow> ac_transaction a = or_null (aq_transaction d))"

definition provide_account :: "'s money_env \<Rightarrow> string \<Rightarrow> account_request \<Rightarrow> account_type \<Rightarrow> (('s, 'm) exchange_world_scheme, account_row) io" where
  "provide_account M userId d ty =
     bind (ext_call M ''userRepository.findOne'' (JStr userId)) (\<lambda>user.
     if user = JNull then throw undefined_row
     else if \<not> js_truthy (jfield ''userProfile'' user) then throw (InternalError ''User Date of birth is required'')
     else bind (new_value M) (\<lambda>ref.
      bind (ext_call M ''waas.findOrCreateVirtualAccount'' (account_payload user d ref)) (\<lambda>reply.
      if reply = JNull then throw undefined_row
      else bind (new_value M) (\<lambda>i. insert_account (new_account i userId d ty user reply)))))"

definition account_create :: "'s money_env \<Rightarrow> string \<Rightarrow> account_request \<Rightarrow> account_type \<Rightarrow> bool
    \<Rightarrow> (('s, 'm) exchange_world_scheme, account_row) io" where
  "account_create M userId d ty forceCreate =
     bind (if forceCreate then ret None else repo_findOne account_table (account_wanted userId d ty)) (\<lambda>existing. case existing of
       Some a \<Rightarrow> ret a
     | None \<Rightarrow> catch (provide_account M userId d ty)
         (\<lambda>e. throw (InternalError (''Failed to create virtual account: '' @ message e))))"

section \<open>Finding accounts\<close>

definition account_of :: "string \<Rightarrow> account_request \<Rightarrow> account_type \<Rightarrow> account_row \<Rightarrow> bool" where
  "account_of userId d ty a \<longleftrightarrow> ac_user a = userId \<and> ac_type a = ty
     \<and> (ty = EXCHANGE_ACCOUNT \<longrightarrow> ac_transaction a = or_null (aq_transaction d))"

definition account_again :: "string \<Rightarrow> account_request \<Rightarrow> account_type \<Rightarrow> account_row \<Rightarrow> bool" where
  "account_again userId d ty a \<longleftrightarrow> ac_user a = userId \<and> ac_type a = ty
     \<and> (ty = EXCHANGE_ACCOUNT \<and> given (aq_transaction d) \<longrightarrow> ac_transaction a = aq_transaction d)"

definition is_unique_error :: "exn \<Rightarrow> bool" where
  "is_unique_error e = (case e of UniqueViolation _ \<Rightarrow> True | _ \<Rightarrow> False)"

definition findOrCreateVirtualAccount :: "'s money_env \<Rightarrow> string \<Rightarrow> account_request \<Rightarrow> account_type
    \<Rightarrow> (('s, 'm) exchange_world_scheme, account_row) io" where
  "findOrCreateVirtualAccount M userId d ty = catch
     (bind (repo_findOne account_table (account_of userId d ty)) (\<lambda>found. case found of
         Some a \<Rightarrow> ret a
       | None \<Rightarrow> account_create M userId d ty False))
     (\<lambda>e. bind (if is_unique_error e then repo_findOne account_table (account_again userId d ty) else ret None) (\<lambda>found. case found of
         Some a \<Rightarrow> ret a
       | None \<Rightarrow> throw (InternalError ''Something went wrong While fetching virtualAccount'')))"

definition findOneByUserIdOrThrow :: "'s money_env \<Rightarrow> string \<Rightarrow> (('s, 'm) exchange_world_scheme, account_row) io" where
  "findOneByUserIdOrThrow M userId =
     bind (repo_findOne account_table (\<lambda>a. ac_user a = userId \<and> ac_provider a = waas_provider M \<and> ac_type a = MAIN_ACCOUNT)) (\<lambda>found. case found of
       None \<Rightarrow> throw (InternalError ''Virtual account not found'') | Some a \<Rightarrow> ret a)"

definition findOrThrowVirtualAccountByUserId :: "string \<Rightarrow> account_type \<Rightarrow> (('s, 'm) exchange_world_scheme, account_row) io" where
  "findOrThrowVirtualAccountByUserId userId ty =
     bind (repo_findOne account_table (\<lambda>a. ac_user a = userId \<and> ac_type a = ty)) (\<lambda>found. case found of
       None \<Rightarrow> throw (InternalError ''Virtual account not found'') | Some a \<Rightarrow> ret a)"

definition accounts_findAll :: "string \<Rightarrow> string option \<Rightarrow> (('s, 'm) exchange_world_scheme, account_row list) io" where
  "accounts_findAll userId walletId = catch
     (repo_findSync account_table (\<lambda>a. ac_user a = userId \<and> ac_type a = MAIN_ACCOUNT \<and> (given walletId \<longrightarrow> ac_wallet a = walletId)))
     (\<lambda>_. throw (InternalError ''Something went wrong While fetching virtualAccount''))"

definition getVirtualAccountsForTransaction :: "string \<Rightarrow> (('s, 'm) exchange_world_scheme, account_row list) io" where
  "getVirtualAccountsForTransaction tid = repo_findSync account_table (\<lambda>a. ac_transaction a = Some tid)"

section \<open>Accounts of exchanges\<close>

definition type_text :: "transaction_type \<Rightarrow> string" where
  "type_text t = (case t of T_DEPOSIT \<Rightarrow> ''deposit'' | T_WITHDRAWAL \<Rightarrow> ''withdrawal'' | T_TRANSFER \<Rightarrow> ''transfer''
     | T_TRANSFER_OUT \<Rightarrow> ''transfer_out'' | T_TRANSFER_IN \<Rightarrow> ''transfer_in'' | T_EXCHANGE \<Rightarrow> ''exchange'' | T_FEE \<Rightarrow> ''fee''
     | T_REFUND \<Rightarrow> ''refund'' | T_PAYMENT \<Rightarrow> ''payment'' | T_REWARD \<Rightarrow> ''reward'')"

definition createExchangeVirtualAccountForTransaction :: "'s money_env \<Rightarrow> string \<Rightarrow> (('s, 'm) exchange_world_scheme, account_row) io" where
  "createExchangeVirtualAccountForTransaction M tid =
     bind (repo_findById tx_table tid) (\<lambda>found. case found of
         None \<Rightarrow> throw (InternalError (''Transaction with ID '' @ tid @ '' not found''))
       | Some tx \<Rightarrow>
           if tx_type tx \<noteq> T_EXCHANGE
           then throw (InternalError (''Transaction '' @ tid @ '' is not an exchange transaction. Type: '' @ type_text (tx_type tx)))
           else account_create M (tx_user tx) \<lparr>aq_wallet = None, aq_transaction = Some tid, aq_bvn = None\<rparr> EXCHANGE_ACCOUNT True)"

definition unscheduleVirtualAccountDeletion :: "string \<Rightarrow> (('s, 'm) exchange_world_scheme, account_row option) io" where
  "unscheduleVirtualAccountDeletion i =
     bind (repo_findById account_table i) (\<lambda>found. case found of
         None \<Rightarrow> throw (InternalError (''Virtual account with ID '' @ i @ '' not found''))
       | Some a \<Rightarrow>
           if ac_deletion a = None then throw (InternalError (''Virtual account '' @ i @ '' is not scheduled for deletion''))
           else andthen (repo_update_id account_table i (\<lambda>r. r\<lparr>ac_deletion := None\<rparr>)) (repo_findById account_table i))"

definition seven_days :: int where
  "seven_days = 7 * 24 * 60 * 60 * 1000"

text \<open>The account is created when there is none, and then scheduled for deletion.\<close>

definition scheduleExchangeVirtualAccountDeletion :: "'s money_env \<Rightarrow> string \<Rightarrow> string \<Rightarrow> (('s, 'm) exchange_world_scheme, unit) io" where
  "scheduleExchangeVirtualAccountDeletion M userId tid = catch
     (bind (findOrCreateVirtualAccount M userId \<lparr>aq_wallet = None, aq_transaction = Some tid, aq_bvn = None\<rparr> EXCHANGE_ACCOUNT) (\<lambda>a.
      when_do (ac_id a \<noteq> []) (bind get_now (\<lambda>t.
        andthen (repo_update_id account_table (ac_id a) (\<lambda>r. r\<lparr>ac_deletion := Some (t + seven_days)\<rparr>)) (ret ())))))
     (\<lambda>_. ret ())"

section \<open>Transfers to other banks\<close>

record bank_transfer =
  bt_amount :: rat
  bt_account :: string
  bt_bank_ref :: "string option"
  bt_name :: "string option"

record bank_transfer_meta =
  bn_description :: string
  bn_fees :: "rat option"
  bn_transaction :: "string option"
  bn_fwt :: "string option"
  bn_status :: "tx_status option"
  bn_reference :: "string option"

definition bank_description :: "bank_transfer_meta \<Rightarrow> string" where
  "bank_description m = (if bn_description m = [] then ''Transfer to other bank'' else bn_description m)"

text \<open>The amount is stored as it was given, in main units; the column takes integers only.\<close>

definition integer_column :: "rat \<Rightarrow> exn + int" where
  "integer_column x = (if of_int \<lfloor>x\<rfloor> = x then Inr \<lfloor>x\<rfloor> else Inl (DbError ''invalid input syntax for type bigint''))"

definition bank_tx :: "string \<Rightarrow> account_row \<Rightarrow> bank_transfer \<Rightarrow> bank_transfer_meta \<Rightarrow> int \<Rightarrow> wallet_row \<Rightarrow> int \<Rightarrow> string \<Rightarrow> string \<Rightarrow> tx_row" where
  "bank_tx userId va d m amount wallet signed external reference = blank_tx\<lparr>tx_user := userId, tx_amount := amount, tx_type := T_TRANSFER_OUT,
     tx_category := C_FIAT, tx_scope := S_EXTERNAL, tx_before := fw_balance wallet, tx_after := fw_balance wallet + signed, tx_asset := ''NGN'',
     tx_status := PENDING, tx_external := Some external, tx_reference := reference, tx_description := bank_description m,
     tx_meta := [(''source'', JStr (ac_number va)), (''destination'', JStr (bt_account d)), (''description'', JStr (bank_description m)),
       (''source_bank'', JStr (ac_bank va))]\<rparr>"

definition bank_request :: "account_row \<Rightarrow> bank_transfer \<Rightarrow> string \<Rightarrow> json" where
  "bank_request va d reference = JObj [(''amount'', JDec (bt_amount d)), (''transactionReference'', JStr reference),
     (''sender'', JObj [(''accountNumber'', JStr (ac_number va)), (''accountName'', JStr (ac_name va)), (''bankName'', JStr (ac_bank va))]),
     (''receiver'', JObj [(''accountNumber'', JStr (bt_account d)), (''bankRef'', case bt_bank_ref d of None \<Rightarrow> JNull | Some b \<Rightarrow> JStr b),
       (''accountName'', case bt_name d of None \<Rightarrow> JNull | Some b \<Rightarrow> JStr b)]),
     (''transactionType'', JStr ''INTRA_BANK''), (''description'', JStr ''Transfer to other bank''), (''currency'', JStr ''NGN'')]"

definition bank_balance_meta :: "account_row \<Rightarrow> bank_transfer \<Rightarrow> bank_transfer_meta \<Rightarrow> balance_meta" where
  "bank_balance_meta va d m = \<lparr>bm_description = Some (bank_description m), bm_provider = None, bm_provider_reference = None, bm_provider_fee = None,
     bm_provider_metadata = [], bm_source = Some (ac_number va), bm_destination = Some (bt_account d), bm_fwt = bn_fwt m\<rparr>"

definition bank_transaction :: "'s money_env \<Rightarrow> string \<Rightarrow> account_row \<Rightarrow> bank_transfer \<Rightarrow> bank_transfer_meta \<Rightarrow> wallet_row \<Rightarrow> int \<Rightarrow> string
    \<Rightarrow> (('s, 'm) money_world_scheme, tx_row option) io" where
  "bank_transaction M userId va d m wallet signed reference =
     (if given (bn_transaction m) then repo_findOne tx_table (\<lambda>r. tx_id r = the (bn_transaction m))
      else bind (generateTransactionReference M) (\<lambda>own. bind (io_of (integer_column (bt_amount d))) (\<lambda>n.
        bind (insert_tx M (bank_tx userId va d m n wallet signed reference own)) (\<lambda>t. ret (Some t)))))"

definition bankTransferKey :: "string \<Rightarrow> string" where
  "bankTransferKey userId = ''virtual-account-service:'' @ userId @ '':transfer-to-other-bank''"

definition transferSection :: "'s money_env \<Rightarrow> string \<Rightarrow> bank_transfer \<Rightarrow> bank_transfer_meta \<Rightarrow> (('s, 'm) exchange_world_scheme, json) io" where
  "transferSection M userId d m = catch
     (bind (findOrThrowVirtualAccountByUserId userId MAIN_ACCOUNT) (\<lambda>va.
      bind (if given (bn_reference m) then ret (the (bn_reference m)) else generateTransactionReference M) (\<lambda>reference.
      bind (getUserWallet M userId ''NGN'') (\<lambda>wallet.
      bind (io_of (formatCurrencyAmountToSmallestUnit (bt_amount d + (case bn_fees m of None \<Rightarrow> 0 | Some f \<Rightarrow> f)) ''NGN'')) (\<lambda>amount.
      bind (bank_transaction M userId va d m wallet (- amount) reference) (\<lambda>transaction.
      bind (ext_call M ''waas.transferToOtherBank'' (bank_request va d reference)) (\<lambda>response.
      bind (ext_call M ''waas.getTransactionStatus'' (JObj [(''transactionRef'', JStr reference)])) (\<lambda>answer.
      if answer = JNull then throw undefined_row
      else if jfield ''status'' answer = JStr ''FAILED'' then throw (InternalError ''Transaction failed'')
      else case transaction of None \<Rightarrow> throw undefined_row
       | Some t \<Rightarrow> (let st = (case bn_status m of None \<Rightarrow> COMPLETED | Some s \<Rightarrow> s) in
           andthen (updateBalance M (fw_id wallet) (- amount) (tx_id t) F_TRANSFER_OUT st (bank_balance_meta va d m) False)
           (andthen (tx_updateStatus M (tx_id t) st None all_notifications) (ret response)))))))))))
     (\<lambda>e. throw (InternalError (message e)))"

definition transferToOtherBank :: "'s money_env \<Rightarrow> string \<Rightarrow> bank_transfer \<Rightarrow> bank_transfer_meta \<Rightarrow> (('s, 'm) exchange_world_scheme, json) io" where
  "transferToOtherBank M userId d m = locked_wait M (bankTransferKey userId) (transferSection M userId d m)"

section \<open>The typing of the table\<close>

text \<open>
  Identifiers are unique; only exchange accounts belong to a transaction; and a user has at most one account
  of a provider and type that belongs to none.
\<close>

definition accounts_typed :: "('s, 'm) exchange_world_scheme \<Rightarrow> bool" where
  "accounts_typed w \<longleftrightarrow> distinct (map ac_id (account_rows w))
     \<and> (\<forall>a \<in> set (account_rows w). ac_type a = MAIN_ACCOUNT \<longrightarrow> ac_transaction a = None)
     \<and> distinct (map main_key (filter (\<lambda>a. ac_transaction a = None) (account_rows w)))"

lemma accounts_frame [simp]:
  "accounts_typed (w\<lparr>faults := fs\<rparr>) = accounts_typed w" "accounts_typed (w\<lparr>outbox := ob\<rparr>) = accounts_typed w"
  "accounts_typed (w\<lparr>draws := n\<rparr>) = accounts_typed w"
  by (simp_all add: accounts_typed_def)

lemma insert_account_typed:
  assumes "ac_type a = MAIN_ACCOUNT \<longrightarrow> ac_transaction a = None"
  shows "triple accounts_typed (insert_account a) (\<lambda>x w. x = a \<and> a \<in> set (account_rows w) \<and> accounts_typed w) (\<lambda>_. accounts_typed)"
proof -
  have new: "accounts_typed (w\<lparr>faults := fs, account_rows := a # account_rows w\<rparr>)"
    if "accounts_typed w" "\<not> (ac_transaction a = None \<and> list_ex (\<lambda>x. ac_transaction x = None \<and> main_key x = main_key a) (account_rows w))"
      "ac_id a \<notin> ac_id ` set (account_rows w)" for w :: "('s, 'm) exchange_world_scheme" and fs
    using that assms by (auto simp: accounts_typed_def list_ex_iff)
  show ?thesis
    unfolding triple_def
  proof (intro allI impI)
    fix w :: "('s, 'm) exchange_world_scheme"
    assume t: "accounts_typed w"
    obtain v fs where "db_step w = (v, w\<lparr>faults := fs\<rparr>)" by (rule db_step_cases)
    then show "case fst (insert_account a w) of Inr x \<Rightarrow> x = a \<and> a \<in> set (account_rows (snd (insert_account a w))) \<and> accounts_typed (snd (insert_account a w))
        | Inl e \<Rightarrow> accounts_typed (snd (insert_account a w))"
      using new [OF t] t by (cases rule: vaccounts.create_cases [of a w]; cases v) (auto simp: insert_account_def andthen_run)
  qed
qed

text \<open>Programs that do not write the table keep its typing; a change of the scheduled deletion too.\<close>

lemma account_reads:
  "triple (accounts_typed :: ('s, 'm) exchange_world_scheme \<Rightarrow> bool) (repo_findOne account_table P) (\<lambda>x w. (\<forall>a. x = Some a \<longrightarrow> P a \<and> a \<in> set (account_rows w)) \<and> accounts_typed w) (\<lambda>_. accounts_typed)"
proof -
  have "case fst (repo_findOne account_table P w) of Inr x \<Rightarrow> (\<forall>a. x = Some a \<longrightarrow> P a \<and> a \<in> set (account_rows (snd (repo_findOne account_table P w))))
        \<and> accounts_typed (snd (repo_findOne account_table P w))
      | Inl e \<Rightarrow> accounts_typed (snd (repo_findOne account_table P w))" if "accounts_typed w" for w :: "('s, 'm) exchange_world_scheme"
    using that by (cases rule: vaccounts.findOne_cases [of P w]) (auto dest: find_Some_in)
  then show ?thesis by (simp add: triple_def)
qed

lemma account_calls [keeps_intros]:
  "keeps accounts_typed (ext_call M nm p)" "keeps accounts_typed (new_value M)"
  by (simp_all add: keeps_def ext_call_def call_ext_def new_value_def)

lemma account_tx_read [keeps_intros]: "keeps (accounts_typed :: ('s, 'm) exchange_world_scheme \<Rightarrow> bool) (repo_findById tx_table i)"
proof -
  have "accounts_typed (snd (repo_findById tx_table i w))" if "accounts_typed w" for w :: "('s, 'm) exchange_world_scheme"
    using that unfolding repo_findById_def by (cases rule: txs.findOne_cases [of "\<lambda>r. row_id tx_table r = i" w]) simp_all
  then show ?thesis by (simp add: keeps_def)
qed

definition deletion_only :: "(account_row \<Rightarrow> account_row) \<Rightarrow> bool" where
  "deletion_only f \<longleftrightarrow> (\<forall>a. ac_id (f a) = ac_id a \<and> ac_type (f a) = ac_type a \<and> ac_transaction (f a) = ac_transaction a \<and> main_key (f a) = main_key a)"

lemma account_update_typed [keeps_intros]:
  assumes "deletion_only f"
  shows "keeps accounts_typed (repo_update_id account_table i f)"
  unfolding keeps_def
proof (intro allI impI)
  fix w :: "('s, 'm) exchange_world_scheme"
  assume t: "accounts_typed w"
  show "accounts_typed (snd (repo_update_id account_table i f w))"
  proof (cases rule: vaccounts.update_id_cases [of i f w])
    case (3 r fs)
    let ?rest = "filter (\<lambda>x. ac_id x \<noteq> i) (account_rows w)"
    have r: "r \<in> set (account_rows w)" "ac_id r = i" using 3(1) by (auto dest: find_Some_in)
    have d: "distinct (map ac_id ?rest)" using t by (simp add: accounts_typed_def distinct_map_filter)
    have m: "distinct (map main_key (filter (\<lambda>a. ac_transaction a = None) ?rest))"
    proof -
      have "distinct (map main_key (filter (\<lambda>x. ac_id x \<noteq> i) (filter (\<lambda>a. ac_transaction a = None) (account_rows w))))"
        using t unfolding accounts_typed_def by (blast intro: distinct_map_filter)
      then show ?thesis by (simp add: conj_commute)
    qed
    have other: "main_key x \<noteq> main_key r" if "x \<in> set ?rest" "ac_transaction x = None" "ac_transaction r = None" for x
    proof
      assume "main_key x = main_key r"
      moreover have "inj_on main_key (set (filter (\<lambda>a. ac_transaction a = None) (account_rows w)))"
        using t by (simp add: accounts_typed_def distinct_map)
      ultimately have "x = r" using that r(1) by (auto dest: inj_onD)
      with that(1) r(2) show False by simp
    qed
    have other': "main_key r \<notin> main_key ` set (filter (\<lambda>a. ac_transaction a = None) ?rest)" if "ac_transaction r = None"
    proof
      assume "main_key r \<in> main_key ` set (filter (\<lambda>a. ac_transaction a = None) ?rest)"
      then obtain x where "main_key r = main_key x" "x \<in> set ?rest" "ac_transaction x = None" by auto
      with other [of x] that show False by simp
    qed
    have f: "ac_id (f r) = ac_id r" "ac_type (f r) = ac_type r" "ac_transaction (f r) = ac_transaction r" "main_key (f r) = main_key r"
      using assms by (auto simp: deletion_only_def)
    have "ac_type r = MAIN_ACCOUNT \<longrightarrow> ac_transaction r = None" using t r(1) by (simp add: accounts_typed_def)
    moreover have "\<forall>a \<in> set ?rest. ac_type a = MAIN_ACCOUNT \<longrightarrow> ac_transaction a = None" using t by (simp add: accounts_typed_def)
    ultimately have "accounts_typed (w\<lparr>faults := fs, account_rows := f r # ?rest\<rparr>)"
      using d m other' f r(2) by (simp add: accounts_typed_def image_iff) blast
    then show ?thesis using 3(2) by (simp add: replace_row_def)
  qed (use t in simp_all)
qed

lemma new_account_typed: "ac_type (new_account i u d ty user reply) = ty"
    "ac_user (new_account i u d ty user reply) = u"
    "ac_transaction (new_account i u d ty user reply) = (if ty = EXCHANGE_ACCOUNT then or_null (aq_transaction d) else None)"
  by (simp_all add: new_account_def Let_def)

text \<open>An account of the wanted type, user and transaction, that is in the table.\<close>

abbreviation provided :: "string \<Rightarrow> account_request \<Rightarrow> account_type \<Rightarrow> account_row \<Rightarrow> ('s, 'm) exchange_world_scheme \<Rightarrow> bool" where
  "provided u d ty a w \<equiv> account_of u d ty a \<and> a \<in> set (account_rows w) \<and> accounts_typed w"

lemma provide_typed: "triple accounts_typed (provide_account M u d ty) (provided u d ty) (\<lambda>_. accounts_typed)"
proof -
  have call: "triple accounts_typed (ext_call M nm p) (\<lambda>_. accounts_typed) (\<lambda>_. accounts_typed)"
    "triple accounts_typed (new_value M) (\<lambda>_. accounts_typed) (\<lambda>_. accounts_typed)" for nm p
    using account_calls by (simp_all add: keeps_triple)
  have ins: "triple accounts_typed (insert_account (new_account i u d ty user reply)) (provided u d ty) (\<lambda>_. accounts_typed)" for i user reply
    by (rule triple_conseq [OF insert_account_typed]; cases ty; auto simp: new_account_typed account_of_def)
  show ?thesis
    unfolding provide_account_def
    by (rule triple_bind [OF call(1)], rule triple_if, rule triple_throw, simp, rule triple_if, rule triple_throw, simp,
        rule triple_bind [OF call(2)], rule triple_bind [OF call(1)], rule triple_if, rule triple_throw, simp, rule triple_bind [OF call(2) ins])
qed

lemma create_typed: "triple accounts_typed (account_create M u d ty force) (provided u d ty) (\<lambda>_. accounts_typed)"
proof -
  let ?Q = "\<lambda>x w. (\<forall>a. x = Some a \<longrightarrow> account_of u d ty a \<and> a \<in> set (account_rows w)) \<and> accounts_typed w"
  have look: "triple accounts_typed (if force then ret None else repo_findOne account_table (account_wanted u d ty)) ?Q (\<lambda>_. accounts_typed)"
    by (rule triple_if, rule triple_ret, simp, rule triple_conseq [OF account_reads]) (auto simp: account_wanted_def account_of_def)
  have rest: "triple (?Q x) (case x of Some a \<Rightarrow> ret a | None \<Rightarrow> catch (provide_account M u d ty)
      (\<lambda>e. throw (InternalError (''Failed to create virtual account: '' @ message e)))) (provided u d ty) (\<lambda>_. accounts_typed)" for x
  proof (rule triple_option)
    assume "x = None"
    then show "triple (?Q x) (catch (provide_account M u d ty) (\<lambda>e. throw (InternalError (''Failed to create virtual account: '' @ message e))))
      (provided u d ty) (\<lambda>_. accounts_typed)"
      by (intro triple_conseq [OF triple_catch [OF provide_typed triple_throw]]) auto
  qed (rule triple_ret, simp)
  show ?thesis unfolding account_create_def by (rule triple_bind [OF look rest])
qed

lemma find_or_create_typed:
  "triple accounts_typed (findOrCreateVirtualAccount M u d ty) (\<lambda>a w. account_again u d ty a \<and> a \<in> set (account_rows w) \<and> accounts_typed w)
    (\<lambda>_. accounts_typed)"
proof -
  let ?Q = "\<lambda>a w. account_again u d ty a \<and> a \<in> set (account_rows w) \<and> accounts_typed w"
  let ?F = "\<lambda>x w. (\<forall>a. x = Some a \<longrightarrow> account_again u d ty a \<and> a \<in> set (account_rows w)) \<and> accounts_typed w"
  have weaker: "account_again u d ty a" if "account_of u d ty a" for a
    using that by (auto simp: account_of_def account_again_def or_null_def)
  have first: "triple accounts_typed (bind (repo_findOne account_table (account_of u d ty)) (\<lambda>found. case found of
      Some a \<Rightarrow> ret a | None \<Rightarrow> account_create M u d ty False)) ?Q (\<lambda>_. accounts_typed)"
    by (rule triple_bind [OF account_reads], rule triple_option, rule triple_conseq [OF create_typed])
       (auto intro: weaker triple_ret)
  have again: "triple accounts_typed (if is_unique_error e then repo_findOne account_table (account_again u d ty) else ret None) ?F (\<lambda>_. accounts_typed)" for e
    by (rule triple_if, rule triple_conseq [OF account_reads], simp_all, rule triple_ret, simp)
  have handler: "triple accounts_typed (bind (if is_unique_error e then repo_findOne account_table (account_again u d ty) else ret None) (\<lambda>found. case found of
      Some a \<Rightarrow> ret a | None \<Rightarrow> throw (InternalError ''Something went wrong While fetching virtualAccount''))) ?Q (\<lambda>_. accounts_typed)" for e
    by (rule triple_bind [OF again], rule triple_option, rule triple_throw, simp, rule triple_ret, simp)
  show ?thesis unfolding findOrCreateVirtualAccount_def by (rule triple_catch [OF first handler])
qed

lemma deletion_updates [keeps_intros]:
  "keeps accounts_typed (repo_update_id account_table i (\<lambda>r. r\<lparr>ac_deletion := x\<rparr>))"
  by (rule account_update_typed) (simp add: deletion_only_def main_key_def)

lemma account_find_keeps [keeps_intros]: "keeps accounts_typed (repo_findById account_table i)"
  unfolding keeps_triple repo_findById_def by (rule triple_conseq [OF account_reads]) simp_all

lemma account_operations [keeps_intros]:
  "keeps accounts_typed (account_create M u d ty force)" "keeps accounts_typed (findOrCreateVirtualAccount M u d ty)"
  unfolding keeps_triple by (rule triple_conseq [OF create_typed] triple_conseq [OF find_or_create_typed]; simp)+

section \<open>Properties\<close>

text \<open>
  C39: the table of virtual accounts stays typed whatever is done and wherever it fails: finding or creating an
  account, creating one for an exchange, and scheduling and unscheduling its deletion keep the identifiers
  unique, transactions on exchange accounts only, and one account per user, provider and type without a
  transaction; and the account found or created is in the table, of the wanted user and type, and of the wanted
  transaction if one was named.
\<close>

theorem virtual_accounts_typed:
  fixes w :: "('s, 'm) exchange_world_scheme"
  assumes "accounts_typed w"
  shows "(case findOrCreateVirtualAccount M u d ty w of
      (Inr a, w') \<Rightarrow> account_again u d ty a \<and> a \<in> set (account_rows w') \<and> accounts_typed w' | (Inl _, w') \<Rightarrow> accounts_typed w')
    \<and> accounts_typed (snd (createExchangeVirtualAccountForTransaction M tid w))
    \<and> accounts_typed (snd (scheduleExchangeVirtualAccountDeletion M u tid w))
    \<and> accounts_typed (snd (unscheduleVirtualAccountDeletion i w))"
proof -
  have found: "case findOrCreateVirtualAccount M u d ty w of
      (Inr a, w') \<Rightarrow> account_again u d ty a \<and> a \<in> set (account_rows w') \<and> accounts_typed w' | (Inl _, w') \<Rightarrow> accounts_typed w'"
    using find_or_create_typed [of M u d ty] assms
    by (auto simp: triple_def split: prod.splits sum.splits dest!: spec [of _ w])
  have k: "keeps (accounts_typed :: ('s, 'm) exchange_world_scheme \<Rightarrow> bool) (createExchangeVirtualAccountForTransaction M tid)"
    "keeps (accounts_typed :: ('s, 'm) exchange_world_scheme \<Rightarrow> bool) (scheduleExchangeVirtualAccountDeletion M u tid)"
    "keeps (accounts_typed :: ('s, 'm) exchange_world_scheme \<Rightarrow> bool) (unscheduleVirtualAccountDeletion i)"
    unfolding createExchangeVirtualAccountForTransaction_def scheduleExchangeVirtualAccountDeletion_def unscheduleVirtualAccountDeletion_def
    by (intro keeps_intros)+
  show ?thesis using found keepsD [OF k(1), of w] keepsD [OF k(2), of w] keepsD [OF k(3), of w] assms by simp
qed

text \<open>
  Without being forced, creating an account for an exchange that has one gives that account back, whatever
  happened to it in the meantime, without asking the provider; nothing but the read is done.
\<close>

theorem exchange_account_reused:
  assumes "faults w = []" "List.find (account_wanted u d ty) (account_rows w) = Some a"
  shows "account_create M u d ty False w = (Inr a, w)"
  using assms by (simp add: account_create_def bind_run vaccounts.findOne_calm)

section \<open>Instances\<close>

definition demo_exchange_account :: account_row where
  "demo_exchange_account = \<lparr>ac_id = ''a'', ac_user = ''u'', ac_wallet = None, ac_name = ''Ada'', ac_number = ''0123'', ac_bank = ''Paga'',
     ac_bank_ref = ''ref'', ac_routing = ''0123'', ac_provider = ''paga'', ac_type = EXCHANGE_ACCOUNT, ac_transaction = Some ''t'',
     ac_deletion = Some 5, ac_profile = []\<rparr>"

definition demo_request :: account_request where
  "demo_request = \<lparr>aq_wallet = None, aq_transaction = Some ''t'', aq_bvn = None\<rparr>"

definition demo_accounts :: "keyspace exchange_world" where
  "demo_accounts = demo_rate_world\<lparr>account_rows := [demo_exchange_account]\<rparr>"

lemma demo_accounts_typed: "accounts_typed demo_accounts"
  by (simp add: accounts_typed_def demo_accounts_def demo_exchange_account_def)

lemma virtual_accounts_typed_witness:
  "accounts_typed (snd (scheduleExchangeVirtualAccountDeletion demo_money_env ''u'' ''t2'' demo_accounts))"
  using virtual_accounts_typed [OF demo_accounts_typed] by blast

lemma exchange_account_reused_witness:
  "account_create demo_money_env ''u'' demo_request EXCHANGE_ACCOUNT False demo_accounts = (Inr demo_exchange_account, demo_accounts)"
  by (rule exchange_account_reused)
     (simp_all add: demo_accounts_def demo_rate_world_def demo_exchange_account_def demo_request_def account_wanted_def or_null_def given_def)

end
