(* ===== verification/NgUsdExchange.thy ===== *)
theory NgUsdExchange
  imports VirtualAccounts
begin

text \<open>
  Exchanging naira for dollars: \<^verbatim>\<open>NgToUsdExchangeService\<close> and \<^verbatim>\<open>NgToUsdExchangeEscrowService\<close>
  (\<^verbatim>\<open>src/modules/exchange/fiat-exchange/ng-to-usd-exchange.service/\<close>) and the job that executes an exchange
  (\<^verbatim>\<open>src/services/queue/processors/exchange/execute-ng-usd-exchange.processor.ts\<close>). An offer is kept in
  Redis for ten minutes; the job checks it, records the transactions, takes the naira into escrow and sends it
  to the exchange provider. Exchange and bank providers, profiles and the provider's own ledger are
  collaborators; numbers of the source are exact rationals, and \<open>None\<close> is a number that is not one.
\<close>

section \<open>Numbers\<close>

definition js_number :: "string \<Rightarrow> json \<Rightarrow> rat option" where
  "js_number k d = (case jfield k d of JNum n \<Rightarrow> Some (of_int n) | JDec x \<Rightarrow> Some x | _ \<Rightarrow> None)"

text \<open>\<^verbatim>\<open>Number(x.toFixed(2))\<close>: the nearest hundredth, halves away from zero.\<close>

definition to_fixed2 :: "rat \<Rightarrow> rat" where
  "to_fixed2 x = (if x < 0 then - of_int \<lfloor>- x * 100 + 1 / 2\<rfloor> / 100 else of_int \<lfloor>x * 100 + 1 / 2\<rfloor> / 100)"

text \<open>The conversion to main units as the sum of two such amounts uses it: \<^verbatim>\<open>null\<close> cannot be added.\<close>

definition main_unit :: "rat option \<Rightarrow> string \<Rightarrow> exn + rat option" where
  "main_unit x c = (case getCurrency c of
      None \<Rightarrow> Inl (PlainError ''Unexpected type of argument in function add'')
    | Some cur \<Rightarrow> Inr (map_option (\<lambda>y. y / of_int (minorUnit cur)) x))"

definition add_numbers :: "rat option \<Rightarrow> rat option \<Rightarrow> rat option" where
  "add_numbers x y = (case (x, y) of (Some a, Some b) \<Rightarrow> Some (a + b) | _ \<Rightarrow> None)"

text \<open>A balance is never below a number that is not one.\<close>

definition check_balance :: "string \<Rightarrow> rat option \<Rightarrow> string \<Rightarrow> (('s, 'm) money_world_scheme, unit) io" where
  "check_balance userId amount c = (case amount of
      Some a \<Rightarrow> checkIfUserHasEnoughBalanceOrThrow userId a c
    | None \<Rightarrow> andthen (find_wallet userId c) (bind (io_of (formatCurrencyAmountToSmallestUnit 0 c)) (\<lambda>_. ret ())))"

section \<open>What is kept in Redis\<close>

definition exchangeDataKey :: "string \<Rightarrow> string" where
  "exchangeDataKey transactionReference = ''ng-to-usd-exchange:transaction-reference:'' @ transactionReference"

definition cardFundingContextKey :: "string \<Rightarrow> string" where
  "cardFundingContextKey transactionReference = ''card_funding_context:'' @ transactionReference"

definition stored_json :: "rtext option \<Rightarrow> exn + json option" where
  "stored_json v = (case v of None \<Rightarrow> Inr None | Some (Json j) \<Rightarrow> Inr (Some j)
     | Some (Raw s) \<Rightarrow> if s = [] then Inr None else Inl (PlainError ''Unexpected token in JSON''))"

definition storeTransactionData :: "'s redis_env \<Rightarrow> string \<Rightarrow> json \<Rightarrow> (('s, 'm) base_scheme, unit) io" where
  "storeTransactionData E ref d = andthen (rc_set E (exchangeDataKey ref) (Json d) (Some 600)) (ret ())"

definition removeTransactionData :: "'s redis_env \<Rightarrow> string \<Rightarrow> (('s, 'm) base_scheme, unit) io" where
  "removeTransactionData E ref = andthen (rc_del E (exchangeDataKey ref)) (ret ())"

definition getTransactionData :: "'s redis_env \<Rightarrow> string \<Rightarrow> (('s, 'm) base_scheme, json option) io" where
  "getTransactionData E ref = bind (rc_get E (exchangeDataKey ref)) (\<lambda>v. io_of (stored_json v))"

definition storeCardFundingContext :: "'s redis_env \<Rightarrow> string \<Rightarrow> json \<Rightarrow> (('s, 'm) base_scheme, unit) io" where
  "storeCardFundingContext E ref d = andthen (rc_set E (cardFundingContextKey ref) (Json d) (Some 3600)) (ret ())"

definition getCardFundingContext :: "'s redis_env \<Rightarrow> string \<Rightarrow> (('s, 'm) base_scheme, json option) io" where
  "getCardFundingContext E ref = bind (rc_get E (cardFundingContextKey ref)) (\<lambda>v. io_of (stored_json v))"

definition updateCardFundingContext :: "'s redis_env \<Rightarrow> string \<Rightarrow> json \<Rightarrow> (('s, 'm) base_scheme, unit) io" where
  "updateCardFundingContext E ref d = andthen (rc_set E (cardFundingContextKey ref) (Json d) (Some 3600)) (ret ())"

definition removeCardFundingContext :: "'s redis_env \<Rightarrow> string \<Rightarrow> (('s, 'm) base_scheme, unit) io" where
  "removeCardFundingContext E ref = andthen (rc_del E (cardFundingContextKey ref)) (ret ())"

section \<open>Checks\<close>

definition getUserCountryAndProfileOrThrow :: "'s money_env \<Rightarrow> string \<Rightarrow> (('s, 'm) dbase_scheme, json) io" where
  "getUserCountryAndProfileOrThrow M userId = bind (ext_call M ''userRepository.findOne'' (JStr userId)) (\<lambda>user.
     if user = JNull then throw (BadRequest ''User not found'') else ret user)"

definition validateRateIsToBuyDollarOrThrow :: "string \<Rightarrow> (('s, 'm) exchange_world_scheme, rate_row) io" where
  "validateRateIsToBuyDollarOrThrow rateId = bind (repo_findOne rate_table (\<lambda>r. er_id r = rateId)) (\<lambda>found. case found of
       None \<Rightarrow> throw (BadRequest ''Rate not found or expired'')
     | Some rate \<Rightarrow> if to_lower (er_buying rate) \<noteq> ''usd'' then throw (BadRequest ''Rate is not to buy dollar'') else ret rate)"

definition validateUserLimitsOrThrow :: "'s money_env \<Rightarrow> string \<Rightarrow> string \<Rightarrow> rat \<Rightarrow> (('s, 'm) dbase_scheme, unit) io" where
  "validateUserLimitsOrThrow M userId from_code amount =
     bind (ext_call M ''getAssetLimits'' (JObj [(''userId'', JStr userId), (''asset'', JStr from_code)])) (\<lambda>limits.
     if \<not> js_truthy limits then throw (BadRequest ''User limits not found'')
     else if (case js_number ''minimum_transaction_amount'' limits of None \<Rightarrow> False | Some m \<Rightarrow> amount < m)
       then throw (BadRequest ''Amount is less than the minimum amount'')
     else if (case js_number ''maximum_transaction_amount'' limits of None \<Rightarrow> False | Some m \<Rightarrow> m < amount)
       then throw (BadRequest ''Amount is greater than the maximum amount'')
     else ret ())"

definition calculateNgnWithdrawalFee :: "rat \<Rightarrow> (('s, 'm) exchange_world_scheme, rat) io" where
  "calculateNgnWithdrawalFee amount = bind (repo_findOne rate_config_table (\<lambda>r. rc_provider r = ''yellowcard'')) (\<lambda>config.
     ret (case Option.bind (Option.bind config rc_exchange) ngn_withdrawal_fee of
         None \<Rightarrow> 0
       | Some f \<Rightarrow> (let fee = (if nf_percentage f then amount * (nf_value f / 100) else nf_value f)
           in to_fixed2 (if nf_cap f < fee then nf_cap f else fee))))"

text \<open>The deposit channel and a bank that serves it.\<close>

definition has_status :: "string \<Rightarrow> json \<Rightarrow> bool" where
  "has_status s j \<longleftrightarrow> jfield ''status'' j = JStr s"

definition channel_refs :: "json \<Rightarrow> json list" where
  "channel_refs bank = (case jfield ''channelRefs'' bank of JArr xs \<Rightarrow> xs | _ \<Rightarrow> [])"

definition js_list :: "json \<Rightarrow> exn + json list" where
  "js_list j = (case j of JArr xs \<Rightarrow> Inr xs | _ \<Rightarrow> Inl (PlainError ''find is not a function''))"

definition opt_json :: "json option \<Rightarrow> json" where
  "opt_json x = (case x of None \<Rightarrow> JNull | Some j \<Rightarrow> j)"

definition active_pair :: "json list \<Rightarrow> json list \<Rightarrow> json option \<times> json option" where
  "active_pair channels networks =
     (let ch = List.find (\<lambda>c. has_status ''active'' c \<and> jfield ''rampType'' c = JStr ''deposit'') channels
      in (ch, List.find (\<lambda>n. has_status ''active'' n \<and> jfield ''ref'' (opt_json ch) \<in> set (channel_refs n)) networks))"

definition getActiveDepositChannelOrThrow :: "'s money_env \<Rightarrow> string \<Rightarrow> (('s, 'm) dbase_scheme, json option \<times> json option) io" where
  "getActiveDepositChannelOrThrow M c = catch
     (let query = JObj [(''countryCode'', case getCurrencyCountryCode c of None \<Rightarrow> JNull | Some cc \<Rightarrow> JStr cc)] in
      bind (ext_call M ''getChannels'' query) (\<lambda>channels. bind (ext_call M ''getBanks'' query) (\<lambda>networks.
      if \<not> js_truthy channels then throw (BadRequest ''No active deposit channel found for the country'')
      else if \<not> js_truthy networks then throw (BadRequest ''No active bank found for the country'')
      else bind (io_of (js_list channels)) (\<lambda>cs. bind (io_of (js_list networks)) (\<lambda>ns.
        if cs = [] then throw (BadRequest ''No active deposit channel found for the country'')
        else if ns = [] then throw (BadRequest ''No active bank found for the country'')
        else ret (active_pair cs ns))))))
     (\<lambda>e. throw (InternalError (message e)))"

section \<open>Where the dollars go\<close>

record wallet_address =
  wa_address :: string
  wa_currency :: string
  wa_network :: string

fun split_dot :: "string \<Rightarrow> string list" where
  "split_dot [] = [[]]"
| "split_dot (c # cs) = (if c = CHR ''.'' then [] # split_dot cs else (case split_dot cs of [] \<Rightarrow> [[c]] | p # ps \<Rightarrow> (c # p) # ps))"

definition lower_is :: "string \<Rightarrow> json \<Rightarrow> string \<Rightarrow> bool" where
  "lower_is k j s \<longleftrightarrow> (case jfield k j of JStr t \<Rightarrow> to_lower t = to_lower s | _ \<Rightarrow> False)"

definition address_of :: "json \<Rightarrow> wallet_address" where
  "address_of a = (let parts = split_dot (js_text (jfield ''asset'' a)) in
     \<lparr>wa_address = js_text (jfield ''address'' a), wa_currency = hd parts,
      wa_network = (case tl parts of [] \<Rightarrow> ''ERC20'' | n # _ \<Rightarrow> if n = [] then ''ERC20'' else n)\<rparr>)"

definition getUserWalletAddressOrFail :: "'s money_env \<Rightarrow> exchange_config \<Rightarrow> json \<Rightarrow> (('s, 'm) dbase_scheme, wallet_address) io" where
  "getUserWalletAddressOrFail M X user =
     bind (ext_call M ''getDepositAddresses'' user) (\<lambda>answer. bind (io_of (js_list answer)) (\<lambda>addresses.
     let underlying = (if xc_production X then xc_underlying X else ''USDC.ETH'') in
     if addresses = [] then throw (BadRequest ''User has no deposit address, please add a deposit address to continue'')
     else if underlying = [] then throw (BadRequest ''Default underlying currency not found, please contact support'')
     else case List.find (\<lambda>a. lower_is ''asset'' a underlying) addresses of
         None \<Rightarrow> throw (BadRequest ''User has no deposit address for the default underlying currency'')
       | Some a \<Rightarrow> if \<not> js_truthy (jfield ''address'' a) then throw (BadRequest ''User has no deposit address for the default underlying currency'')
           else ret (address_of a)))"

section \<open>The pay-in request\<close>

definition getKycDetailsFromProviderOrThrow :: "'s money_env \<Rightarrow> string \<Rightarrow> (('s, 'm) dbase_scheme, json) io" where
  "getKycDetailsFromProviderOrThrow M userId = bind (ext_call M ''getKycDetailsByUserId'' (JStr userId)) (\<lambda>k.
     if \<not> js_truthy k then throw (BadRequest ''User has not done kyc, please complete your kyc to continue'') else ret k)"

record payin_options =
  po_user :: json
  po_amount :: rat
  po_reference :: string
  po_channel :: json
  po_network :: json
  po_transfer :: json
  po_from :: string
  po_address :: "wallet_address option"

definition test_address :: wallet_address where
  "test_address = \<lparr>wa_address = ''0xde0B295669a9FD93d5F28D9Ec85E40f4cb697BAe'', wa_currency = ''USDT'', wa_network = ''ERC20''\<rparr>"

definition payin_payload :: "payin_options \<Rightarrow> wallet_address \<Rightarrow> json" where
  "payin_payload o' a = JObj [(''localAmount'', JDec (po_amount o')), (''channelRef'', po_channel o'), (''transactionRef'', JStr (po_reference o')),
     (''customerType'', JStr ''institution''), (''transferType'', po_transfer o'), (''userId'', jfield ''id'' (po_user o')),
     (''networkRef'', po_network o'), (''receiver'', JObj [(''walletAddress'', JStr (wa_address a)), (''cryptoCurrency'', JStr (wa_currency a)),
       (''cryptoNetwork'', JStr (wa_network a))]), (''currencyCode'', JStr (po_from o'))]"

definition payInKey :: "string \<Rightarrow> string" where
  "payInKey userId = ''exchange-service:'' @ userId @ '':create-pay-in-request''"

definition payInSection :: "'s money_env \<Rightarrow> exchange_config \<Rightarrow> payin_options \<Rightarrow> (('s, 'm) dbase_scheme, json) io" where
  "payInSection M X o' = (let userId = js_text (jfield ''id'' (po_user o')) in
     bind (getUserCountryAndProfileOrThrow M userId) (\<lambda>user.
     bind (getKycDetailsFromProviderOrThrow M userId) (\<lambda>kyc.
     bind (case po_address o' of Some a \<Rightarrow> ret a | None \<Rightarrow> getUserWalletAddressOrFail M X (po_user o')) (\<lambda>a.
     if \<not> js_truthy (jfield ''country'' user) then throw undefined_row
     else ext_call M ''createPayInRequest'' (payin_payload o' (if xc_production X then a else test_address))))))"

definition createPayInRequest :: "'s money_env \<Rightarrow> exchange_config \<Rightarrow> payin_options \<Rightarrow> (('s, 'm) dbase_scheme, json) io" where
  "createPayInRequest M X o' = locked M (payInKey (js_text (jfield ''id'' (po_user o')))) 5 (payInSection M X o')"

section \<open>Making an offer\<close>

record initiate_dto =
  in_rate :: string
  in_from :: string
  in_to :: string
  in_amount :: rat

record exchange_offer =
  of_source :: string
  of_local :: rat
  of_receive :: "rat option"
  of_total :: rat
  of_fee_usd :: "rat option"
  of_fee_local :: rat
  of_minimum :: "rat option"
  of_maximum :: "rat option"
  of_rate :: "rat option"
  of_expires :: int
  of_request :: json

text \<open>The sum of three amounts of the provider's answer.\<close>

definition fees_of :: "string \<Rightarrow> json \<Rightarrow> rat" where
  "fees_of suffix r = js_rat (jfield (''fee'' @ suffix) r) + js_rat (jfield (''networkFee'' @ suffix) r) + js_rat (jfield (''partnerFee'' @ suffix) r)"

definition crypto_amount :: "json \<Rightarrow> exn + rat option" where
  "crypto_amount r = (case jfield ''receiverCryptoInfo'' r of JNull \<Rightarrow> Inl undefined_row | c \<Rightarrow> Inr (js_number ''cryptoAmount'' c))"

definition number_json :: "rat option \<Rightarrow> json" where
  "number_json x = (case x of None \<Rightarrow> JNull | Some y \<Rightarrow> JDec y)"

definition rate_json :: "rate_row \<Rightarrow> json" where
  "rate_json r = JObj [(''id'', JStr (er_id r)), (''provider'', JStr (er_provider r)), (''buying_currency_code'', JStr (er_buying r)),
     (''selling_currency_code'', JStr (er_selling r)), (''rate'', JNum (er_rate r)), (''provider_rate'', JNum (er_provider_rate r)),
     (''provider_rate_ref'', JStr (er_ref r))]"

definition exchange_data :: "string \<Rightarrow> json \<Rightarrow> json \<Rightarrow> initiate_dto \<Rightarrow> wallet_address \<Rightarrow> rate_row \<Rightarrow> int \<Rightarrow> json" where
  "exchange_data ref ch net d a rate expires = JObj [(''transactionReference'', JStr ref), (''activeChannelRef'', jfield ''ref'' ch),
     (''activeNetworkRef'', jfield ''ref'' net), (''transferType'', jfield ''rampType'' ch), (''fromCurrency'', JStr (in_from d)),
     (''amount'', JDec (in_amount d)), (''from'', JStr (in_from d)), (''to'', JStr (in_to d)), (''destinationWalletAddress'', JStr (wa_address a)),
     (''rate'', rate_json rate), (''minimumLocalAmount'', jfield ''min'' ch), (''maximumLocalAmount'', jfield ''max'' ch),
     (''expirationTime'', JNum expires), (''rateInMainUnit'', number_json (formatCurrencyAmountToMainUnit (er_rate rate) (in_from d)))]"

definition exchangeLockKey :: "string \<Rightarrow> string \<Rightarrow> string \<Rightarrow> string" where
  "exchangeLockKey userId from_code to_code = ''exchange:'' @ userId @ '':'' @ from_code @ ''-'' @ to_code"

definition offer_of :: "string \<Rightarrow> initiate_dto \<Rightarrow> json \<Rightarrow> rat option \<Rightarrow> rat \<Rightarrow> json \<Rightarrow> rat option \<Rightarrow> int \<Rightarrow> exchange_offer" where
  "offer_of ref d ch rateMain fee request receive expires =
     (let feeLocal = fees_of ''Local'' request; pay = in_amount d - feeLocal in
     \<lparr>of_source = ref, of_local = pay, of_receive = receive, of_total = (pay + feeLocal) + fee,
      of_fee_usd = add_numbers (Some (fees_of ''USD'' request)) (case rateMain of None \<Rightarrow> None | Some r \<Rightarrow> if r = 0 then None else Some (fee / r)),
      of_fee_local = feeLocal + fee, of_minimum = js_number ''min'' ch, of_maximum = js_number ''max'' ch, of_rate = rateMain,
      of_expires = expires, of_request = request\<rparr>)"

text \<open>\<^verbatim>\<open>EXCHANGE_EXPIRATION_TIME_IN_MINUTES\<close>, in milliseconds; a time written as SQL text is kept as its milliseconds.\<close>

definition offer_lifetime :: int where
  "offer_lifetime = 10 * 60 * 1000"

text \<open>The part after the checks: the offer is stored, the request made, the fees added up.\<close>

definition placeOffer :: "'s money_env \<Rightarrow> exchange_config \<Rightarrow> string \<Rightarrow> initiate_dto \<Rightarrow> json \<Rightarrow> rate_row \<Rightarrow> json \<Rightarrow> json \<Rightarrow> wallet_address
    \<Rightarrow> (('s, 'm) exchange_world_scheme, exchange_offer) io" where
  "placeOffer M X ref d user rate ch net a =
     bind get_now (\<lambda>t.
     andthen (storeTransactionData (m_redis M) ref (exchange_data ref ch net d a rate (t + offer_lifetime)))
     (bind (createPayInRequest M X \<lparr>po_user = user, po_amount = in_amount d, po_reference = ref, po_channel = jfield ''ref'' ch,
        po_network = jfield ''ref'' net, po_transfer = jfield ''rampType'' ch, po_from = in_from d, po_address = Some a\<rparr>) (\<lambda>request.
      bind (io_of (crypto_amount request)) (\<lambda>receive.
      bind (calculateNgnWithdrawalFee (in_amount d)) (\<lambda>fee.
      bind get_now (\<lambda>t'.
      ret (offer_of ref d ch (formatCurrencyAmountToMainUnit (er_rate rate) (in_from d)) fee request receive (t' + offer_lifetime))))))))"

definition checkOffer :: "'s money_env \<Rightarrow> exchange_config \<Rightarrow> string \<Rightarrow> initiate_dto \<Rightarrow> wallet_address option \<Rightarrow> string
    \<Rightarrow> (('s, 'm) exchange_world_scheme, exchange_offer) io" where
  "checkOffer M X userId d dest ref =
     bind (validateRateIsToBuyDollarOrThrow (in_rate d)) (\<lambda>rate.
     andthen (validateUserLimitsOrThrow M userId (in_from d) (in_amount d))
     (bind (getUserCountryAndProfileOrThrow M userId) (\<lambda>user.
      andthen (checkIfUserHasEnoughBalanceOrThrow (js_text (jfield ''id'' user)) (in_amount d) (in_from d))
      (bind (getActiveDepositChannelOrThrow M (in_from d)) (\<lambda>(channel, network). case channel of
          None \<Rightarrow> throw undefined_row
        | Some ch \<Rightarrow>
            if (case js_number ''min'' ch of None \<Rightarrow> False | Some m \<Rightarrow> in_amount d < m) then throw (BadRequest ''Amount is less than the minimum amount'')
            else if (case js_number ''max'' ch of None \<Rightarrow> False | Some m \<Rightarrow> m < in_amount d) then throw (BadRequest ''Amount is greater than the maximum amount'')
            else andthen (validateRateOrThrow M X (in_rate d) SELL)
             (bind (case dest of Some a \<Rightarrow> ret a | None \<Rightarrow> getUserWalletAddressOrFail M X user) (\<lambda>a. case network of
                 None \<Rightarrow> throw undefined_row
               | Some net \<Rightarrow> placeOffer M X ref d user rate ch net a)))))))"

definition initializeNgToUSDExchange :: "'s money_env \<Rightarrow> exchange_config \<Rightarrow> string \<Rightarrow> initiate_dto \<Rightarrow> wallet_address option
    \<Rightarrow> (('s, 'm) exchange_world_scheme, exchange_offer) io" where
  "initializeNgToUSDExchange M X userId d dest =
     bind (generateTransactionReference M) (\<lambda>ref.
     locked M (exchangeLockKey userId (in_from d) (in_to d)) 5 (catch (checkOffer M X userId d dest ref) (\<lambda>e.
       bind (getTransactionData (m_redis M) ref) (\<lambda>stored.
       andthen (when_do (stored \<noteq> None) (removeTransactionData (m_redis M) ref))
       (throw (InternalError (message e)))))))"

section \<open>Recording, refunding and failing an exchange\<close>

record source_request =
  sr_user :: person
  sr_amount :: rat
  sr_from :: string
  sr_to :: string
  sr_channel :: json
  sr_network :: json
  sr_transfer :: json
  sr_destination :: json
  sr_rate :: json
  sr_reference :: string
  sr_provider :: string
  sr_fee :: rat
  sr_fee_usd :: rat
  sr_ngn_fee :: rat
  sr_receive :: "rat option"
  sr_pay :: "rat option"

definition exchange_text :: "string \<Rightarrow> string" where
  "exchange_text c = ''Exchange from '' @ (case map_of SUPPORTED_CURRENCIES (to_upper c) of Some cur \<Rightarrow> walletName cur | None \<Rightarrow> c @ '' Wallet'')"

definition source_tx :: "source_request \<Rightarrow> int \<Rightarrow> int \<Rightarrow> int \<Rightarrow> int \<Rightarrow> wallet_row \<Rightarrow> int \<Rightarrow> tx_row" where
  "source_tx q amount fee feeUsd ngnFee wallet expires = (let f = to_upper (sr_from q); t = to_upper (sr_to q) in
     blank_tx\<lparr>tx_amount := amount, tx_asset := f, tx_status := INITIATED, tx_before := fw_balance wallet,
       tx_after := fw_balance wallet - (amount + fee + ngnFee), tx_reference := sr_reference q, tx_type := T_EXCHANGE, tx_category := C_FIAT,
       tx_scope := S_INTERNAL, tx_description := exchange_text f, tx_external := Some (sr_provider q),
       tx_meta := [(''source_user_id'', JStr (pn_id (sr_user q))), (''source_currency'', JStr f), (''destination_user_id'', JStr (pn_id (sr_user q))),
         (''destination_currency'', JStr t), (''destination_name'', JStr (person_name (sr_user q))), (''expires_at'', JNum expires), (''active_channel_ref'', sr_channel q),
         (''active_network_ref'', sr_network q), (''transfer_type'', sr_transfer q), (''destination_wallet_address'', sr_destination q),
         (''rate_id'', jfield ''id'' (sr_rate q)), (''rate'', jfield ''rate'' (sr_rate q)), (''from'', JStr f), (''to'', JStr t),
         (''local_fee'', JNum fee), (''usd_fee'', JNum feeUsd), (''usd_amount'', number_json (sr_receive q)), (''local_amount'', number_json (sr_pay q))]\<rparr>)"

definition source_entry :: "source_request \<Rightarrow> int \<Rightarrow> int \<Rightarrow> int \<Rightarrow> wallet_row \<Rightarrow> tx_row \<Rightarrow> fwt_row" where
  "source_entry q amount fee ngnFee wallet t = (let f = to_upper (sr_from q) in
     blank_fwt\<lparr>ft_amount := amount, ft_currency := f, ft_status := INITIATED, ft_wallet := fw_id wallet, ft_transaction := tx_id t,
       ft_type := F_EXCHANGE, ft_reference := Some (sr_provider q), ft_before := fw_balance wallet, ft_after := fw_balance wallet - (amount + fee + ngnFee),
       ft_meta := [(''source_user_id'', JStr (pn_id (sr_user q))), (''source_currency'', JStr f), (''source_name'', JStr (person_name (sr_user q))),
         (''destination_user_id'', JStr (pn_id (sr_user q))), (''destination_currency'', JStr (to_upper (sr_to q))),
         (''destination_name'', JStr (person_name (sr_user q))), (''destination_wallet_address'', sr_destination q)],
       ft_destination := Some (person_name (sr_user q)), ft_source := Some (person_name (sr_user q)), ft_description := Some (exchange_text f)\<rparr>)"

definition createAllSourceTransactionsOrThrow :: "'s money_env \<Rightarrow> source_request \<Rightarrow> (('s, 'm) money_world_scheme, tx_row \<times> fwt_row option) io" where
  "createAllSourceTransactionsOrThrow M q = catch
     (bind (repo_findOne tx_table (\<lambda>r. tx_reference r = sr_reference q)) (\<lambda>existing. case existing of
        Some t \<Rightarrow> bind (repo_findOne fwt_table (\<lambda>r. ft_transaction r = tx_id t)) (\<lambda>f. ret (t, f))
      | None \<Rightarrow>
          bind (getUserWallet M (pn_id (sr_user q)) (to_upper (sr_from q))) (\<lambda>wallet.
          bind (io_of (formatCurrencyAmountToSmallestUnit (sr_amount q) (to_upper (sr_from q)))) (\<lambda>amount.
          bind (io_of (formatCurrencyAmountToSmallestUnit (to_fixed2 (sr_fee q)) (to_upper (sr_from q)))) (\<lambda>fee.
          bind (io_of (formatCurrencyAmountToSmallestUnit (to_fixed2 (sr_fee_usd q)) (to_upper (sr_to q)))) (\<lambda>feeUsd.
          bind (io_of (formatCurrencyAmountToSmallestUnit (to_fixed2 (sr_ngn_fee q)) ''NGN'')) (\<lambda>ngnFee.
          transaction
            (bind get_now (\<lambda>now. bind (tx_create M (pn_id (sr_user q)) (source_tx q amount fee feeUsd ngnFee wallet (now + offer_lifetime))) (\<lambda>t.
             bind (fwt_create M (pn_id (sr_user q)) (source_entry q amount fee ngnFee wallet t)) (\<lambda>f. ret (t, Some f))))))))))))
     (\<lambda>e. throw (InternalError (message e)))"

definition updateTransactionsWithFees :: "tx_row \<Rightarrow> fwt_row \<Rightarrow> rat \<Rightarrow> rat \<Rightarrow> rat option \<Rightarrow> rat option \<Rightarrow> rat
    \<Rightarrow> (('s, 'm) money_world_scheme, unit) io" where
  "updateTransactionsWithFees t f totalFee totalFeeUSD receive pay ngnFee =
     bind (io_of (formatCurrencyAmountToSmallestUnit (to_fixed2 totalFee) (js_text (jfield ''source_currency'' (JObj (tx_meta t)))))) (\<lambda>fee.
     bind (io_of (formatCurrencyAmountToSmallestUnit (to_fixed2 totalFeeUSD) (js_text (jfield ''destination_currency'' (JObj (tx_meta t)))))) (\<lambda>feeUsd.
     bind (io_of (formatCurrencyAmountToSmallestUnit (to_fixed2 ngnFee) ''NGN'')) (\<lambda>ngn.
     transaction
       (andthen (repo_update_id tx_table (tx_id t) (\<lambda>r. r\<lparr>tx_after := tx_after t - ngn,
          tx_meta := [(''local_fee'', JNum fee), (''usd_fee'', JNum feeUsd), (''usd_amount'', number_json receive), (''local_amount'', number_json pay)] @ tx_meta t\<rparr>))
       (andthen (repo_update_id fwt_table (ft_id f) (\<lambda>r. r\<lparr>ft_after := tx_after t - ngn, ft_fee := Some fee,
          ft_meta := [(''local_fee'', JNum fee), (''usd_fee'', JNum feeUsd)] @ ft_meta f\<rparr>))
       (ret ()))))))"

definition deductFundsFromUser :: "'s money_env \<Rightarrow> tx_row \<Rightarrow> fwt_row \<Rightarrow> int \<Rightarrow> (('s, 'm) money_world_scheme, unit) io" where
  "deductFundsFromUser M t f amountInSmallestUnit =
     andthen (updateBalance M (ft_wallet f) (- amountInSmallestUnit) (tx_id t) F_EXCHANGE PENDING (entry_meta (ft_id f)) False)
     (moveMoneyToEscrow (m_redis M) (tx_id t) amountInSmallestUnit)"

definition give_back_text :: "int \<Rightarrow> string \<Rightarrow> string" where
  "give_back_text amount currency = ''Refund of '' @ show_int amount @ '' to your '' @ currency @ '' wallet''"

definition give_back_tx :: "int \<Rightarrow> string \<Rightarrow> string \<Rightarrow> wallet_row \<Rightarrow> string \<Rightarrow> tx_row" where
  "give_back_tx amount userId currency wallet reference = blank_tx\<lparr>tx_amount := amount, tx_asset := currency, tx_status := PENDING,
     tx_type := T_REFUND, tx_category := C_FIAT, tx_scope := S_INTERNAL, tx_reference := reference, tx_description := give_back_text amount currency,
     tx_before := fw_balance wallet, tx_after := fw_balance wallet + amount, tx_meta := refund_parties userId currency\<rparr>"

definition give_back_entry :: "int \<Rightarrow> string \<Rightarrow> string \<Rightarrow> wallet_row \<Rightarrow> tx_row \<Rightarrow> fwt_row" where
  "give_back_entry amount userId currency wallet refund = blank_fwt\<lparr>ft_transaction := tx_id refund, ft_amount := amount, ft_currency := currency,
     ft_status := COMPLETED, ft_wallet := fw_id wallet, ft_type := F_REFUND, ft_reference := Some (tx_reference refund),
     ft_description := Some (give_back_text amount currency), ft_before := fw_balance wallet, ft_after := fw_balance wallet + amount,
     ft_meta := refund_parties userId currency\<rparr>"

definition ledger_deposit :: "account_row \<Rightarrow> int \<Rightarrow> string \<Rightarrow> string \<Rightarrow> json" where
  "ledger_deposit va amount reference currency = JObj [(''accountNumber'', JStr (ac_number va)), (''amount'', JNum amount),
     (''referenceNumber'', JStr reference), (''fee'', JNum 0), (''currency'', JStr ''NGN''), (''description'', JStr (give_back_text amount currency))]"

definition createRefundTransactionAndFiatTransaction :: "'s money_env \<Rightarrow> int \<Rightarrow> string \<Rightarrow> string \<Rightarrow> wallet_row
    \<Rightarrow> (('s, 'm) exchange_world_scheme, unit) io" where
  "createRefundTransactionAndFiatTransaction M escrowAmount userId currency wallet = transaction
     (bind (generateTransactionReference M) (\<lambda>reference.
      andthen (when_do (to_lower (waas_provider M) \<noteq> ''paga'') (bind (findOneByUserIdOrThrow M userId) (\<lambda>va.
        andthen (ext_call M ''pagaLedger.depositMoney'' (ledger_deposit va escrowAmount reference currency)) (ret ()))))
      (bind (tx_create M userId (give_back_tx escrowAmount userId currency wallet reference)) (\<lambda>refund.
       bind (fwt_create M userId (give_back_entry escrowAmount userId currency wallet refund)) (\<lambda>entry.
       andthen (updateBalance M (fw_id wallet) escrowAmount (tx_id refund) F_REFUND COMPLETED (entry_meta (ft_id entry)) True)
       (andthen (tx_updateStatus M (tx_id refund) COMPLETED (Some no_meta) all_notifications) (ret ())))))))"

text \<open>What is in escrow is refunded once the records are marked; without an entry there is nothing to mark.\<close>

definition refundEscrow :: "'s money_env \<Rightarrow> tx_row \<Rightarrow> fwt_row \<Rightarrow> (('s, 'm) exchange_world_scheme, unit) io" where
  "refundEscrow M t f = bind (getEscrowAmount (m_redis M) (tx_id t)) (\<lambda>escrowAmount. case escrowAmount of
       None \<Rightarrow> ret ()
     | Some a \<Rightarrow> when_do (0 < a)
        (bind (getUserWallet M (tx_user t) (ft_currency f)) (\<lambda>wallet.
         andthen (createRefundTransactionAndFiatTransaction M a (tx_user t) (ft_currency f) wallet)
         (releaseMoneyFromEscrow (m_redis M) (tx_id t)))))"

definition updateSourceTransactionsToFailed :: "'s money_env \<Rightarrow> string \<Rightarrow> string \<Rightarrow> (('s, 'm) exchange_world_scheme, unit) io" where
  "updateSourceTransactionsToFailed M tid errorMessage =
     bind (repo_findOne tx_table (\<lambda>r. tx_id r = tid)) (\<lambda>parent. case parent of
       None \<Rightarrow> ret ()
     | Some t \<Rightarrow>
         if tx_status t = FAILED \<or> tx_status t = COMPLETED then ret ()
         else bind (repo_findOne fwt_table (\<lambda>r. ft_transaction r = tx_id t)) (\<lambda>entry.
          bind (transaction
            (andthen (tx_updateStatus M (tx_id t) FAILED (Some (failure_meta (take 255 errorMessage))) all_notifications)
             (case entry of None \<Rightarrow> throw undefined_row
              | Some f \<Rightarrow> andthen (fwt_updateStatus M (ft_id f) FAILED (failure_meta (take 255 errorMessage))) (ret f)))) (\<lambda>f.
          refundEscrow M t f)))"

definition validateTransactionToExecuteExchangeOrThrow :: "string \<Rightarrow> string \<Rightarrow> (('s, 'm) money_world_scheme, tx_row) io" where
  "validateTransactionToExecuteExchangeOrThrow tid userId =
     bind (repo_findOne tx_table (\<lambda>r. tx_id r = tid)) (\<lambda>found. case found of
       None \<Rightarrow> throw (BadRequest ''Transaction not found'')
     | Some t \<Rightarrow>
         if tx_status t = COMPLETED then throw (BadRequest ''Transaction is already completed'')
         else if tx_status t = FAILED then throw (BadRequest ''Transaction is already failed'')
         else if tx_status t = CANCELLED then throw (BadRequest ''Transaction is already cancelled'')
         else if tx_type t \<noteq> T_EXCHANGE then throw (BadRequest ''Transaction is not an exchange transaction'')
         else if tx_user t \<noteq> userId then throw (BadRequest ''Transaction is not for the user'')
         else if tx_status t \<noteq> INITIATED then throw (BadRequest ''Transaction is not initiated'')
         else bind get_now (\<lambda>now.
           if (case jfield ''expires_at'' (JObj (tx_meta t)) of JNum e \<Rightarrow> e < now | _ \<Rightarrow> False) then throw (BadRequest ''Transaction has expired'') else ret t))"

section \<open>Accepting an offer\<close>

record ng_job =
  nj_reference :: string
  nj_account :: string
  nj_rate :: json
  nj_user :: string
  nj_card :: bool
  nj_card_tx :: "string option"
  nj_deposit :: "string option"

definition ng_job_json :: "ng_job \<Rightarrow> json" where
  "ng_job_json j = JObj [(''transactionReference'', JStr (nj_reference j)), (''accountNumber'', JStr (nj_account j)), (''rateId'', nj_rate j),
     (''userId'', JStr (nj_user j))]"

definition queueExecuteNgToUSDExchange :: "'s money_env \<Rightarrow> ng_job \<Rightarrow> (('s, 'm) dbase_scheme, json) io" where
  "queueExecuteNgToUSDExchange M j = ext_call M ''addJob:execute-ng-usd-exchange'' (ng_job_json j)"

definition executeExchangeKey :: "string \<Rightarrow> string \<Rightarrow> string" where
  "executeExchangeKey userId tid = ''exchange:'' @ userId @ '':'' @ tid"

record exchange_ticket =
  et_reference :: json
  et_job :: json

definition acceptOffer :: "'s money_env \<Rightarrow> string \<Rightarrow> string \<Rightarrow> (('s, 'm) exchange_world_scheme, exchange_ticket) io" where
  "acceptOffer M userId tid =
     bind (getTransactionData (m_redis M) tid) (\<lambda>found. case found of
         None \<Rightarrow> throw (BadRequest ''Transaction data not found'')
       | Some d \<Rightarrow>
           bind (findOrCreateVirtualAccount M userId \<lparr>aq_wallet = None, aq_transaction = Some tid, aq_bvn = None\<rparr> MAIN_ACCOUNT) (\<lambda>va.
           if ac_number va = [] then throw (BadRequest ''Virtual account number is missing'')
           else if ac_name va = [] then throw (BadRequest ''Virtual account name is missing'')
           else bind (queueExecuteNgToUSDExchange M \<lparr>nj_reference = tid, nj_account = ac_number va, nj_rate = jfield ''id'' (jfield ''rate'' d),
               nj_user = userId, nj_card = False, nj_card_tx = None, nj_deposit = None\<rparr>) (\<lambda>job.
             if \<not> js_truthy (jfield ''id'' job) then throw (InternalError ''Failed to initiate exchange transaction'')
             else ret \<lparr>et_reference = jfield ''transactionReference'' d, et_job = jfield ''id'' job\<rparr>)))"

definition executeExchange :: "'s money_env \<Rightarrow> string \<Rightarrow> string \<Rightarrow> (('s, 'm) exchange_world_scheme, exchange_ticket) io" where
  "executeExchange M userId tid = locked M (executeExchangeKey userId tid) 5 (catch (acceptOffer M userId tid) (\<lambda>e.
     andthen (updateSourceTransactionsToFailed M tid (message e)) (throw (InternalError (message e)))))"

section \<open>The job\<close>

definition lower_includes :: "string \<Rightarrow> json \<Rightarrow> json \<Rightarrow> bool" where
  "lower_includes k j n \<longleftrightarrow> (case jfield k j of JStr t \<Rightarrow> str_includes (case n of JStr s \<Rightarrow> to_lower s | _ \<Rightarrow> ''undefined'') (to_lower t) | _ \<Rightarrow> False)"

definition tx_by_reference :: "string \<Rightarrow> (('s, 'm) money_world_scheme, tx_row) io" where
  "tx_by_reference ref = bind (repo_findOne tx_table (\<lambda>r. tx_reference r = ref)) (\<lambda>found. case found of
     None \<Rightarrow> throw (NotFound ''Transaction with specified filters not found'') | Some t \<Rightarrow> ret t)"

definition entry_of_tx :: "string \<Rightarrow> (('s, 'm) money_world_scheme, fwt_row) io" where
  "entry_of_tx tid = bind (repo_findOne fwt_table (\<lambda>r. ft_transaction r = tid)) (\<lambda>found. case found of
     None \<Rightarrow> throw (NotFound ''Fiat wallet transaction not found'') | Some f \<Rightarrow> ret f)"

definition from_code :: "tx_row \<Rightarrow> string" where
  "from_code t = js_text (jfield ''from'' (JObj (tx_meta t)))"

definition feeRecord :: "'s money_env \<Rightarrow> string \<Rightarrow> rat \<Rightarrow> (('s, 'm) exchange_world_scheme, unit) io" where
  "feeRecord M userId fee =
     bind (generateTransactionReference M) (\<lambda>reference.
     bind (io_of (formatCurrencyAmountToSmallestUnit fee ''NGN'')) (\<lambda>amount.
     bind (findOneByUserIdOrThrow M userId) (\<lambda>va.
     bind (ext_call M ''pagaLedgerAccount.findOne'' (JStr (ac_number va))) (\<lambda>ledger.
     transaction (bind (ext_call M ''pagaLedgerTransaction.create'' (JObj [(''account_number'', JStr (ac_number va)), (''amount'', JNum amount),
         (''status'', JStr ''PENDING''), (''reference_number'', JStr reference), (''balance_before'', jfield ''available_balance'' ledger)])) (\<lambda>lt.
       andthen (ext_call M ''pagaLedgerAccount.updateBalance'' (JObj [(''account_number'', JStr (ac_number va)), (''amount'', JNum (- amount)),
         (''transaction'', jfield ''id'' lt)])) (ret ())))))))"

definition bank_payment :: "exchange_config \<Rightarrow> rat \<Rightarrow> json \<Rightarrow> json \<Rightarrow> string \<Rightarrow> string \<Rightarrow> json" where
  "bank_payment X amount bankInfo bank sender ref = JObj [(''amount'', JDec amount),
     (''receiver'', JObj [(''accountNumber'', if xc_production X then jfield ''accountNumber'' bankInfo else JStr ''0361222682''),
       (''bankCode'', jfield ''nibssBankCode'' bank), (''bankRef'', jfield ''bankRef'' bank)]),
     (''sender'', JObj [(''accountNumber'', JStr sender), (''bankCode'', jfield ''nibssBankCode'' bank)]), (''transactionReference'', JStr ref),
     (''transactionType'', JStr ''INTRA_BANK''), (''currency'', JStr ''NGN''), (''description'', JStr ''Exchange of currency'')]"

text \<open>The naira is taken into escrow, unless the exchange is completed, and then paid to the exchange provider's bank account.\<close>

definition takeFunds :: "'s money_env \<Rightarrow> tx_row \<Rightarrow> fwt_row \<Rightarrow> rat \<Rightarrow> (('s, 'm) exchange_world_scheme, unit) io" where
  "takeFunds M t f amount =
     andthen (getUserWallet M (tx_user t) (from_code t))
     (bind (io_of (formatCurrencyAmountToSmallestUnit amount (from_code t))) (\<lambda>n.
      bind (calculateNgnWithdrawalFee amount) (\<lambda>fee.
      bind (io_of (formatCurrencyAmountToSmallestUnit fee ''NGN'')) (\<lambda>feeSmall.
      if tx_status t = COMPLETED then ret () else deductFundsFromUser M t f (n + feeSmall)))))"

definition payBank :: "'s money_env \<Rightarrow> exchange_config \<Rightarrow> rat \<Rightarrow> json \<Rightarrow> json \<Rightarrow> string \<Rightarrow> string \<Rightarrow> string \<Rightarrow> (('s, 'm) exchange_world_scheme, json) io" where
  "payBank M X amount bankInfo bank sender userId ref =
     bind (ext_call M ''transferToOtherBank'' (bank_payment X amount bankInfo bank sender ref)) (\<lambda>response.
     if response = JNull then throw undefined_row
     else bind (ext_call M ''getTransactionStatus'' (JObj [(''transactionRef'', jfield ''transactionReference'' response)])) (\<lambda>answer.
     if answer = JNull then throw undefined_row
     else if lower_is ''status'' answer ''FAILED'' then throw (BadRequest ''Failed to perform exchange'')
     else bind (calculateNgnWithdrawalFee amount) (\<lambda>fee.
      andthen (when_do (0 < fee \<and> to_lower (waas_provider M) = ''paga'') (feeRecord M userId fee)) (ret response))))"

definition sendMoneyToYellowcard :: "'s money_env \<Rightarrow> exchange_config \<Rightarrow> rat \<Rightarrow> string \<Rightarrow> json \<Rightarrow> string \<Rightarrow> (('s, 'm) exchange_world_scheme, json) io" where
  "sendMoneyToYellowcard M X amount senderAccountNumber bankInfo ref =
     bind (ext_call M ''getBankList'' JNull) (\<lambda>answer. bind (io_of (js_list answer)) (\<lambda>banks.
     if bankInfo = JNull \<and> banks \<noteq> [] then throw undefined_row
     else case List.find (\<lambda>b. lower_includes ''bankName'' b (jfield ''name'' bankInfo)) banks of
       None \<Rightarrow> throw (BadRequest ''Bank not found'')
     | Some bank \<Rightarrow>
         bind (tx_by_reference ref) (\<lambda>t. bind (entry_of_tx (tx_id t)) (\<lambda>f.
         andthen (takeFunds M t f amount) (payBank M X amount bankInfo bank senderAccountNumber (tx_user t) ref)))))"

text \<open>A card funding waits for the provider's webhook.\<close>

definition card_waits :: "'s money_env \<Rightarrow> ng_job \<Rightarrow> (('s, 'm) exchange_world_scheme, json) io" where
  "card_waits M j = bind (tx_by_reference (nj_reference j)) (\<lambda>t.
     andthen (tx_updateStatus M (tx_id t) PENDING (Some no_meta) no_notifications)
     (andthen (when_do (given (nj_card_tx j)) (andthen (repo_update_where card_table (\<lambda>r. cx_id r = the (nj_card_tx j))
         (\<lambda>r. r\<lparr>cx_status := ''pending'', cx_exchange := Some (tx_id t)\<rparr>)) (ret ())))
     (ret (JObj [(''status'', JStr ''processing''), (''exchangeTransactionRef'', JStr (nj_reference j))]))))"

definition accept_failed :: "'s money_env \<Rightarrow> ng_job \<Rightarrow> exn \<Rightarrow> (('s, 'm) exchange_world_scheme, json) io" where
  "accept_failed M j e = bind (tx_by_reference (nj_reference j)) (\<lambda>t.
     if tx_status t = COMPLETED \<or> tx_status t = FAILED then ret JNull
     else andthen (updateSourceTransactionsToFailed M (tx_id t) (message e)) (throw (InternalError (message e))))"

definition payProvider :: "'s money_env \<Rightarrow> exchange_config \<Rightarrow> ng_job \<Rightarrow> json \<Rightarrow> (('s, 'm) exchange_world_scheme, json) io" where
  "payProvider M X j request = catch
     (bind (ext_call M ''acceptPayInRequest'' (JObj [(''ref'', jfield ''ref'' request)])) (\<lambda>accepted.
      if accepted = JNull then throw undefined_row
      else andthen (sendMoneyToYellowcard M X (js_rat (jfield ''convertedAmount'' accepted)) (nj_account j) (jfield ''bankInfo'' accepted) (nj_reference j))
       (if nj_card j then card_waits M j else ret JNull)))
     (accept_failed M j)"

definition amount_to_check :: "ng_job \<Rightarrow> json \<Rightarrow> rat \<Rightarrow> exn + rat option" where
  "amount_to_check j d ngnFee =
     (if nj_card j then Inr (add_numbers (js_number ''amount'' d) (Some ngnFee))
      else (case main_unit (js_number ''amount'' d) (js_text (jfield ''fromCurrency'' d)) of Inl e \<Rightarrow> Inl e
        | Inr a \<Rightarrow> (case main_unit (js_number ''totalFee'' d) (js_text (jfield ''fromCurrency'' d)) of Inl e \<Rightarrow> Inl e
            | Inr b \<Rightarrow> Inr (add_numbers a b))))"

definition source_request_of :: "ng_job \<Rightarrow> json \<Rightarrow> json \<Rightarrow> json \<Rightarrow> rat \<Rightarrow> rat option \<Rightarrow> source_request" where
  "source_request_of j user d request ngnFee receive = \<lparr>sr_user = person_of user, sr_amount = js_rat (jfield ''amount'' d),
     sr_from = js_text (jfield ''from'' d), sr_to = js_text (jfield ''to'' d), sr_channel = jfield ''activeChannelRef'' d,
     sr_network = jfield ''activeNetworkRef'' d, sr_transfer = jfield ''transferType'' d,
     sr_destination = (if nj_card j \<and> given (nj_deposit j) then JStr (the (nj_deposit j)) else jfield ''destinationWalletAddress'' d),
     sr_rate = jfield ''rate'' d, sr_reference = nj_reference j, sr_provider = js_text (jfield ''ref'' request), sr_fee = fees_of ''Local'' request,
     sr_fee_usd = fees_of ''USD'' request, sr_ngn_fee = ngnFee, sr_receive = receive,
     sr_pay = add_numbers (js_number ''amount'' d) (Some (- fees_of ''Local'' request))\<rparr>"

definition runNgExchange :: "'s money_env \<Rightarrow> exchange_config \<Rightarrow> ng_job \<Rightarrow> (('s, 'm) exchange_world_scheme, json) io" where
  "runNgExchange M X j =
     bind (getTransactionData (m_redis M) (nj_reference j)) (\<lambda>found. case found of
         None \<Rightarrow> throw (BadRequest ''Transaction data not found'')
       | Some d \<Rightarrow>
           bind (getUserCountryAndProfileOrThrow M (nj_user j)) (\<lambda>user.
           bind (ext_call M ''getPayInRequestByTransactionRef'' (JStr (nj_reference j))) (\<lambda>request.
           if \<not> js_truthy request then throw (BadRequest ''Pay in request not found'')
           else bind (io_of (crypto_amount request)) (\<lambda>receive.
            bind (calculateNgnWithdrawalFee (js_rat (jfield ''amount'' d))) (\<lambda>ngnFee.
            bind (io_of (amount_to_check j d ngnFee)) (\<lambda>amountWithFees.
            andthen (check_balance (nj_user j) amountWithFees (js_text (jfield ''fromCurrency'' d)))
            (andthen (createAllSourceTransactionsOrThrow M (source_request_of j user d request ngnFee receive))
            (andthen (validateRateOrThrow M X (js_text (nj_rate j)) SELL)
            (if nj_account j = [] then throw (BadRequest ''Account number is required for transfer'')
             else payProvider M X j request)))))))))"

definition declined_reason :: "string \<Rightarrow> string" where
  "declined_reason m = (let e = (if m = [] then ''Unknown error'' else m) in if 255 < length e then take 252 e @ ''...'' else e)"

definition processExecuteNgToUSDExchange :: "'s money_env \<Rightarrow> exchange_config \<Rightarrow> ng_job \<Rightarrow> (('s, 'm) exchange_world_scheme, json) io" where
  "processExecuteNgToUSDExchange M X j = catch (runNgExchange M X j) (\<lambda>e.
     andthen (when_do (nj_card j \<and> given (nj_card_tx j)) (andthen (repo_update_where card_table (\<lambda>r. cx_id r = the (nj_card_tx j))
         (\<lambda>r. r\<lparr>cx_status := ''declined'', cx_reason := Some (declined_reason (message e))\<rparr>)) (ret ())))
     (throw e))"

text \<open>The queue runs a job that throws again, three times in all.\<close>

primrec ng_attempts :: "nat \<Rightarrow> 's money_env \<Rightarrow> exchange_config \<Rightarrow> ng_job \<Rightarrow> (('s, 'm) exchange_world_scheme, json) io" where
  "ng_attempts 0 M X j = processExecuteNgToUSDExchange M X j"
| "ng_attempts (Suc n) M X j = catch (processExecuteNgToUSDExchange M X j) (\<lambda>_. ng_attempts n M X j)"

end
