(* ===== verification/UsdExchange.thy ===== *)
theory UsdExchange
  imports NgUsdExchange
begin

text \<open>
  Exchanging dollars for naira: \<^verbatim>\<open>FiatExchangeService\<close> (\<^verbatim>\<open>src/modules/exchange/fiat-exchange/fiat-exchange.service.ts\<close>),
  the job that executes an exchange (\<^verbatim>\<open>src/services/queue/processors/exchange/exchange.processor.ts\<close>) and the
  repetition of a failed one (\<^verbatim>\<open>src/modules/exchange/exchange-retry.service.ts\<close>). The dollar provider is asked
  to send a coin to an address of the exchange provider, which pays naira to the user's account. Profiles,
  verification data and both providers are collaborators; a date of birth is passed on as it is stored.
\<close>

section \<open>The way of a payout\<close>

text \<open>\<^verbatim>\<open>!x || !Array.isArray(x) || x.length === 0\<close>\<close>

definition some_array :: "json \<Rightarrow> json list option" where
  "some_array j = (case j of JArr (x # xs) \<Rightarrow> Some (x # xs) | _ \<Rightarrow> None)"

record paga_config =
  pb_code :: string
  pb_ref :: string
  pb_name :: string

definition pagaBankConfig :: "exchange_config \<Rightarrow> paga_config" where
  "pagaBankConfig X = (if xc_production X
     then \<lparr>pb_code = ''327'', pb_ref = ''e5d96690-40d3-48f4-a745-b9e74566edc4'', pb_name = ''Paga''\<rparr>
     else \<lparr>pb_code = ''221'', pb_ref = ''3d4d08c1-4811-4fee-9349-a302328e55c1'', pb_name = ''Stanbic''\<rparr>)"

definition is_paga :: "paga_config \<Rightarrow> json \<Rightarrow> bool" where
  "is_paga c b \<longleftrightarrow> lower_is ''status'' b ''active'' \<and> (lower_includes ''name'' b (JStr (pb_name c)) \<or> lower_is ''code'' b (pb_code c)
     \<or> lower_is ''ref'' b (pb_ref c))"

definition withdraw_channel :: "json list \<Rightarrow> json option" where
  "withdraw_channel cs = List.find (\<lambda>c. has_status ''active'' c \<and> jfield ''rampType'' c = JStr ''withdraw'') cs"

definition country_query :: "string \<Rightarrow> json" where
  "country_query cc = JObj [(''countryCode'', JStr cc)]"

definition paga_bank :: "exchange_config \<Rightarrow> json \<Rightarrow> json list \<Rightarrow> exn + json" where
  "paga_bank X channel banks = (case List.find (is_paga (pagaBankConfig X)) banks of
      None \<Rightarrow> Inl (BadRequest ''Paga bank not found or inactive'')
    | Some b \<Rightarrow> if \<not> lower_includes ''name'' b (JStr (pb_name (pagaBankConfig X))) then Inl (BadRequest ''Paga bank not found or inactive'')
        else if jfield ''ref'' channel \<notin> set (channel_refs b) then Inl (BadRequest ''Channel not found: Paga does not support the withdrawal channel'')
        else Inr b)"

definition getYellowCardChannelAndBank :: "'s money_env \<Rightarrow> exchange_config \<Rightarrow> string \<Rightarrow> (('s, 'm) dbase_scheme, json \<times> json) io" where
  "getYellowCardChannelAndBank M X cc =
     bind (ext_call M ''getChannels'' (country_query cc)) (\<lambda>channels. case some_array channels of
         None \<Rightarrow> throw (BadRequest (''No channels found for '' @ cc))
       | Some cs \<Rightarrow> (case withdraw_channel cs of
           None \<Rightarrow> throw (BadRequest (''No active withdrawal channel found for '' @ cc))
         | Some channel \<Rightarrow> bind (ext_call M ''getBanks'' (country_query cc)) (\<lambda>banks. case some_array banks of
             None \<Rightarrow> throw (BadRequest (''No banks found for '' @ cc))
           | Some bs \<Rightarrow> bind (io_of (paga_bank X channel bs)) (\<lambda>bank. ret (channel, bank)))))"

section \<open>The person an exchange is for\<close>

text \<open>The checks of the job, one after the other.\<close>

definition user_details :: "json \<Rightarrow> exn + unit" where
  "user_details u =
     (if \<not> js_truthy u then Inl (BadRequest ''User not found'')
      else if \<not> js_truthy (jfield ''country'' u) then Inl (BadRequest ''User country information is required for exchange operations'')
      else if \<not> js_truthy (jfield ''code'' (jfield ''country'' u)) then Inl (BadRequest ''User country code is required for exchange operations'')
      else if \<not> js_truthy (jfield ''userProfile'' u) then Inl (BadRequest ''User profile is required for exchange operations'')
      else if \<not> js_truthy (jfield ''address_line1'' (jfield ''userProfile'' u)) then Inl (BadRequest ''User address information is required for exchange operations'')
      else if \<not> js_truthy (jfield ''dob'' (jfield ''userProfile'' u)) then Inl (BadRequest ''User date of birth information is required for exchange operations'')
      else if \<not> js_truthy (jfield ''first_name'' u) then Inl (BadRequest ''User first name is required for exchange operations'')
      else if \<not> js_truthy (jfield ''last_name'' u) then Inl (BadRequest ''User last name is required for exchange operations'')
      else if \<not> js_truthy (jfield ''email'' u) then Inl (BadRequest ''User email is required for exchange operations'')
      else if \<not> js_truthy (jfield ''phone_number'' u) then Inl (BadRequest ''User phone number is required for exchange operations'')
      else Inr ())"

definition kyc_details :: "json \<Rightarrow> json \<Rightarrow> exn + unit" where
  "kyc_details u k = (let d = jfield ''data'' k in
     if \<not> js_truthy d then Inl (BadRequest ''User KYC details are required for exchange operations'')
     else if \<not> js_truthy (jfield ''number'' (jfield ''idDocument'' d)) then Inl (BadRequest ''User KYC ID document number is required for exchange operations'')
     else if \<not> js_truthy (jfield ''type'' (jfield ''idDocument'' d)) then Inl (BadRequest ''User KYC ID document type is required for exchange operations'')
     else if jfield ''code'' (jfield ''country'' u) = JStr ''NG'' \<and> \<not> js_truthy (jfield ''idNumber'' d)
       then Inl (BadRequest ''BVN information is required for Nigerian users'')
     else Inr ())"

definition validateUserDetailsForExchange :: "'s money_env \<Rightarrow> (json \<Rightarrow> exn + unit) \<Rightarrow> string \<Rightarrow> (('s, 'm) dbase_scheme, json) io" where
  "validateUserDetailsForExchange M check userId = bind (ext_call M ''userRepository.findOne'' (JStr userId)) (\<lambda>u.
     bind (io_of (check u)) (\<lambda>_. ret u))"

definition validateKycDetailsForExchange :: "'s money_env \<Rightarrow> (json \<Rightarrow> json \<Rightarrow> exn + unit) \<Rightarrow> json \<Rightarrow> (('s, 'm) dbase_scheme, json) io" where
  "validateKycDetailsForExchange M check u = bind (ext_call M ''getKycDetailsByUserId'' (jfield ''id'' u)) (\<lambda>k.
     bind (io_of (check u k)) (\<lambda>_. ret k))"

text \<open>The same checks in the repetition of an exchange, as a loop over required fields.\<close>

primrec require_all :: "(json \<times> string) list \<Rightarrow> exn + unit" where
  "require_all [] = Inr ()"
| "require_all (f # fs) = (case f of (v, field) \<Rightarrow>
     if \<not> js_truthy v then Inl (BadRequest (field @ '' is required for exchange operations'')) else require_all fs)"

definition retry_user_details :: "json \<Rightarrow> exn + unit" where
  "retry_user_details u =
     (if \<not> js_truthy u then Inl (BadRequest ''User not found'')
      else require_all [(jfield ''country'' u, ''User country information''), (jfield ''code'' (jfield ''country'' u), ''User country code''),
        (jfield ''userProfile'' u, ''User profile''), (jfield ''address_line1'' (jfield ''userProfile'' u), ''User address information''),
        (jfield ''dob'' (jfield ''userProfile'' u), ''User date of birth information''), (jfield ''first_name'' u, ''User first name''),
        (jfield ''last_name'' u, ''User last name''), (jfield ''email'' u, ''User email''), (jfield ''phone_number'' u, ''User phone number'')])"

definition retry_kyc_details :: "json \<Rightarrow> json \<Rightarrow> exn + unit" where
  "retry_kyc_details u k = (let d = jfield ''data'' k in
     case require_all [(d, ''User KYC details''), (jfield ''number'' (jfield ''idDocument'' d), ''User KYC ID document number''),
        (jfield ''type'' (jfield ''idDocument'' d), ''User KYC ID document type'')] of
       Inl e \<Rightarrow> Inl e
     | Inr _ \<Rightarrow> if jfield ''code'' (jfield ''country'' u) = JStr ''NG'' \<and> \<not> js_truthy (jfield ''idNumber'' d)
         then Inl (BadRequest ''BVN information is required for Nigerian users'') else Inr ())"

section \<open>The payout request\<close>

definition getBankAccountAndName :: "exchange_config \<Rightarrow> account_row \<Rightarrow> string \<times> string" where
  "getBankAccountAndName X va = (if xc_production X then ac_number va else ''1111111111'', ac_name va)"

definition sender_info :: "json \<Rightarrow> json \<Rightarrow> json" where
  "sender_info u k = (let d = jfield ''data'' k; cc = jfield ''code'' (jfield ''country'' u) in
     JObj ([(''fullName'', JStr (js_text (jfield ''first_name'' u) @ '' '' @ js_text (jfield ''last_name'' u))), (''email'', jfield ''email'' u),
       (''phoneNumber'', jfield ''phone_number'' u), (''countryCode'', cc), (''address'', jfield ''address_line1'' (jfield ''userProfile'' u)),
       (''idType'', JStr (to_upper (js_text (jfield ''type'' (jfield ''idDocument'' d))))), (''idNumber'', jfield ''number'' (jfield ''idDocument'' d)),
       (''dob'', jfield ''dob'' (jfield ''userProfile'' u))]
      @ (if cc = JStr ''NG'' then [(''additionalIdNumber'', jfield ''idNumber'' d), (''additionalIdType'', JStr ''BVN'')] else [])))"

definition payout_payload :: "json \<Rightarrow> json \<Rightarrow> string \<times> string \<Rightarrow> json \<Rightarrow> json \<Rightarrow> string \<Rightarrow> rat \<Rightarrow> string \<Rightarrow> string \<Rightarrow> json" where
  "payout_payload u k account channel bank ref amount coin network = JObj [
     (''cryptoInfo'', JObj [(''cryptoAmount'', JDec amount), (''cryptoCurrency'', JStr coin),
       (''cryptoNetwork'', JStr (if network = ''ETH'' then ''ERC20'' else network))]),
     (''channelRef'', jfield ''ref'' channel), (''transactionRef'', JStr ref), (''narration'', JStr ''other''), (''sender'', sender_info u k),
     (''destination'', JObj [(''accountNumber'', JStr (fst account)), (''accountName'', JStr (snd account)), (''bankRef'', jfield ''ref'' bank),
       (''transferType'', JStr ''bank'')]), (''userId'', jfield ''id'' u)]"

definition bad_underlying :: "exchange_config \<Rightarrow> string" where
  "bad_underlying X = ''Invalid underlying currency format: '' @ xc_underlying X @ ''. Expected format: CURRENCY.NETWORK''"

definition createYellowCardPayoutRequest :: "'s money_env \<Rightarrow> exchange_config \<Rightarrow> string \<Rightarrow> string \<times> string \<Rightarrow> json \<Rightarrow> json \<Rightarrow> string \<Rightarrow> rat
    \<Rightarrow> (('s, 'm) dbase_scheme, json) io" where
  "createYellowCardPayoutRequest M X userId account channel bank ref amount =
     bind (validateUserDetailsForExchange M user_details userId) (\<lambda>u.
     bind (validateKycDetailsForExchange M kyc_details u) (\<lambda>k.
     case split_dot (xc_underlying X) of
       [coin, network] \<Rightarrow> ext_call M ''createPayOutRequest'' (payout_payload u k account channel bank ref amount coin network)
     | _ \<Rightarrow> throw (InternalError (bad_underlying X))))"

section \<open>The job\<close>

record usd_job =
  uj_user :: string
  uj_participant :: string
  uj_tx :: "tx_row option"
  uj_amount :: rat
  uj_country :: string
  uj_account :: "account_row option"
  uj_entry :: fwt_row
  uj_rate :: string

definition validateExchangeJobData :: "usd_job \<Rightarrow> exn + (tx_row \<times> account_row)" where
  "validateExchangeJobData j =
     (if uj_user j = [] then Inl (BadRequest ''User ID is required'')
      else if uj_participant j = [] then Inl (BadRequest ''Participant code is required'')
      else case uj_tx j of
        None \<Rightarrow> Inl (BadRequest ''Source transaction is required'')
      | Some t \<Rightarrow>
          if tx_id t = [] then Inl (BadRequest ''Source transaction ID is required'')
          else if tx_reference t = [] then Inl (BadRequest ''Source transaction reference is required'')
          else if uj_amount j \<le> 0 then Inl (BadRequest ''Valid amount greater than 0 is required'')
          else if uj_country j = [] then Inl (BadRequest ''Destination country code is required'')
          else case uj_account j of
            None \<Rightarrow> Inl (BadRequest ''Virtual account is required'')
          | Some va \<Rightarrow>
              if ac_number va = [] then Inl (BadRequest ''Virtual account number is required'')
              else if ac_name va = [] then Inl (BadRequest ''Virtual account name is required'')
              else Inr (t, va))"

definition exchange_down :: "string \<Rightarrow> (('s, 'm) dbase_scheme, 'a) io" where
  "exchange_down reason = andthen (service_down ''currency_exchange'' (PlainError reason)) (throw (BadRequest reason))"

definition payout_address :: "json \<Rightarrow> json" where
  "payout_address payout = jfield ''walletAddress'' (jfield ''cryptoInfo'' payout)"

definition withdrawal_request :: "exchange_config \<Rightarrow> usd_job \<Rightarrow> tx_row \<Rightarrow> json \<Rightarrow> json" where
  "withdrawal_request X j t address = JObj [(''transactionRef'', JStr (tx_reference t)), (''withdrawalAddress'', address),
     (''providerUserRef'', JStr (uj_participant j)), (''amount'', JDec (uj_amount j)), (''asset'', JStr (xc_underlying X)),
     (''provider'', JStr (xc_provider X))]"

text \<open>A patch leaves a column alone whose value is undefined.\<close>

definition patched :: "json \<Rightarrow> string \<Rightarrow> string" where
  "patched j old = (case j of JStr s \<Rightarrow> s | _ \<Rightarrow> old)"

definition patched_opt :: "json \<Rightarrow> string option \<Rightarrow> string option" where
  "patched_opt j old = (case j of JStr s \<Rightarrow> Some s | _ \<Rightarrow> old)"

definition submitted_tx :: "tx_row \<Rightarrow> json \<Rightarrow> json \<Rightarrow> tx_row \<Rightarrow> tx_row" where
  "submitted_tx t payout request r = r\<lparr>tx_status := PROCESSING, tx_external := patched_opt (jfield ''providerRef'' request) (tx_external r),
     tx_reference := patched (jfield ''sequenceRef'' payout) (tx_reference r),
     tx_meta := [(''destination_provider_ref'', jfield ''ref'' payout), (''destination_provider_request_ref'', jfield ''providerRef'' request),
       (''source_withdrawal_request_ref'', jfield ''clientWithdrawalRequestRef'' request), (''destination_wallet_address'', payout_address payout),
       (''shared_blockchain_transaction_ref'', jfield ''blockchainTransactionRef'' request)] @ tx_meta t\<rparr>"

definition submitted_entry :: "json \<Rightarrow> fwt_row \<Rightarrow> fwt_row" where
  "submitted_entry request r = r\<lparr>ft_status := PROCESSING, ft_request_ref := patched_opt (jfield ''providerRef'' request) (ft_request_ref r)\<rparr>"

text \<open>From the payout on: the coin is sent to the address the exchange provider gave, and the records say so.\<close>

definition sendCoin :: "'s money_env \<Rightarrow> exchange_config \<Rightarrow> usd_job \<Rightarrow> tx_row \<Rightarrow> json \<Rightarrow> (('s, 'm) money_world_scheme, unit) io" where
  "sendCoin M X j t payout =
     (if \<not> js_truthy payout then exchange_down ''Failed to create YellowCard payout request''
      else if \<not> js_truthy (payout_address payout) then exchange_down ''YellowCard wallet address not found in payout response''
      else bind (ext_call M ''createWithdrawalRequest'' (withdrawal_request X j t (payout_address payout))) (\<lambda>request.
        if request = JNull then throw undefined_row
        else andthen (repo_update_id tx_table (tx_id t) (submitted_tx t payout request))
         (andthen (repo_update_id fwt_table (ft_id (uj_entry j)) (submitted_entry request))
         (service_up ''currency_exchange''))))"

definition submitExchange :: "'s money_env \<Rightarrow> exchange_config \<Rightarrow> usd_job \<Rightarrow> tx_row \<Rightarrow> account_row \<Rightarrow> (('s, 'm) exchange_world_scheme, unit) io" where
  "submitExchange M X j t va =
     bind (getYellowCardChannelAndBank M X (uj_country j)) (\<lambda>(channel, bank).
     andthen (validateRateOrThrow M X (uj_rate j) BUY)
     (bind (createYellowCardPayoutRequest M X (uj_user j) (getBankAccountAndName X va) channel bank (tx_reference t) (uj_amount j))
       (sendCoin M X j t)))"

section \<open>A failed exchange\<close>

text \<open>
  \<open>errors e\<close> is what the exception carries in \<^verbatim>\<open>response.data.errors\<close>. The pair is the recorded reason
  and the message of the exception that is thrown.
\<close>

definition failure_texts :: "(exn \<Rightarrow> json) \<Rightarrow> exn \<Rightarrow> exn + string \<times> string" where
  "failure_texts errors e =
     (if js_truthy (errors e) then (case errors e of
          JArr (x # _) \<Rightarrow> (case x of JStr s \<Rightarrow> Inr (s, s) | _ \<Rightarrow> Inl (PlainError ''failureReason.toLowerCase is not a function''))
        | _ \<Rightarrow> Inr (''Withdrawal request failed'', ''Exchange failed to initiate''))
      else if message e \<noteq> [] then Inr (message e, message e)
      else Inr (''Withdrawal request failed'', ''Exchange failed to initiate''))"

definition parseExchangeError :: "(exn \<Rightarrow> json) \<Rightarrow> exn \<Rightarrow> exn + string \<times> string" where
  "parseExchangeError errors e = (case failure_texts errors e of Inl x \<Rightarrow> Inl x
     | Inr (reason, friendly) \<Rightarrow>
         if str_includes ''insufficient balance'' (to_lower reason)
         then (let reason' = ''Insufficient balance: '' @ reason in Inr (reason', ''Insufficient balance: '' @ reason'))
         else Inr (reason, friendly))"

definition permanentFailurePatterns :: "string list" where
  "permanentFailurePatterns = [''paga bank not found'', ''paga does not support'', ''no channels found'', ''no active withdrawal channel found'',
     ''no banks found'', ''channel not found'', ''user not found'', ''user country information is required'', ''user profile is required'',
     ''user kyc'', ''bvn information is required'', ''invalid underlying currency format'']"

definition isPermanentFailure :: "string \<Rightarrow> bool" where
  "isPermanentFailure m = list_ex (\<lambda>p. str_includes p (to_lower m)) permanentFailurePatterns"

text \<open>The column takes 255 characters.\<close>

definition record_failure :: "string \<Rightarrow> string \<Rightarrow> (('s, 'm) money_world_scheme, unit) io" where
  "record_failure tid reason =
     (if 255 < length reason then andthen db_step (throw (DbError ''value too long for type character varying(255)''))
      else andthen (repo_update_id tx_table tid (\<lambda>r. r\<lparr>tx_status := FAILED, tx_failure := Some reason\<rparr>)) (ret ()))"

definition drop_account :: "account_row \<Rightarrow> (('s, 'm) exchange_world_scheme, unit) io" where
  "drop_account va = when_do (ac_type va = EXCHANGE_ACCOUNT \<and> ac_id va \<noteq> []) (bind get_now (\<lambda>t.
     andthen (repo_update_id account_table (ac_id va) (\<lambda>r. r\<lparr>ac_deletion := Some (t + seven_days)\<rparr>)) (ret ())))"

definition exchangeFailed :: "(exn \<Rightarrow> json) \<Rightarrow> usd_job \<Rightarrow> tx_row \<Rightarrow> account_row \<Rightarrow> exn \<Rightarrow> (('s, 'm) exchange_world_scheme, unit) io" where
  "exchangeFailed errors j t va e =
     andthen (service_down ''currency_exchange'' e)
     (bind (io_of (parseExchangeError errors e)) (\<lambda>(reason, friendly).
      andthen (record_failure (tx_id t) reason)
      (andthen (repo_update_id fwt_table (ft_id (uj_entry j)) (\<lambda>r. r\<lparr>ft_status := FAILED\<rparr>))
      (andthen (drop_account va)
      (if isPermanentFailure (message e) then ret () else throw (BadRequest friendly))))))"

definition processExchange :: "'s money_env \<Rightarrow> exchange_config \<Rightarrow> (exn \<Rightarrow> json) \<Rightarrow> usd_job \<Rightarrow> (('s, 'm) exchange_world_scheme, unit) io" where
  "processExchange M X errors j = bind (io_of (validateExchangeJobData j)) (\<lambda>(t, va).
     catch (submitExchange M X j t va) (exchangeFailed errors j t va))"

text \<open>The queue runs a job that throws again, three times in all.\<close>

primrec usd_attempts :: "nat \<Rightarrow> 's money_env \<Rightarrow> exchange_config \<Rightarrow> (exn \<Rightarrow> json) \<Rightarrow> usd_job \<Rightarrow> (('s, 'm) exchange_world_scheme, unit) io" where
  "usd_attempts 0 M X errors j = processExchange M X errors j"
| "usd_attempts (Suc n) M X errors j = catch (processExchange M X errors j) (\<lambda>_. usd_attempts n M X errors j)"

definition usd_job_json :: "usd_job \<Rightarrow> json" where
  "usd_job_json j = JObj [(''userId'', JStr (uj_user j)), (''participantCode'', JStr (uj_participant j)),
     (''sourceTransaction'', case uj_tx j of None \<Rightarrow> JNull | Some t \<Rightarrow> JStr (tx_id t)), (''amount'', JDec (uj_amount j)),
     (''destinationCountryCode'', JStr (uj_country j)), (''virtualAccount'', case uj_account j of None \<Rightarrow> JNull | Some va \<Rightarrow> JStr (ac_id va)),
     (''sourceFiatWalletTransaction'', JStr (ft_id (uj_entry j))), (''rateId'', JStr (uj_rate j))]"

definition queueExchange :: "'s money_env \<Rightarrow> usd_job \<Rightarrow> (('s, 'm) dbase_scheme, json) io" where
  "queueExchange M j = ext_call M ''addJob:exchange'' (usd_job_json j)"

section \<open>Asking for an exchange\<close>

record exchange_dto =
  xd_from :: string
  xd_to :: string
  xd_amount :: rat
  xd_rate :: string
  xd_transaction :: "string option"

definition validateKycVerification :: "'s money_env \<Rightarrow> string \<Rightarrow> (('s, 'm) dbase_scheme, unit) io" where
  "validateKycVerification M userId = bind (ext_call M ''kycVerificationService.findByUserId'' (JStr userId)) (\<lambda>k.
     if \<not> js_truthy k then throw (BadRequest ''KYC verification required for exchange transactions'')
     else if \<not> js_truthy (jfield ''provider_ref'' k)
       then throw (BadRequest ''KYC verification is incomplete. Please complete your verification to continue'')
     else ret ())"

definition pending_exchange :: "exchange_config \<Rightarrow> string \<Rightarrow> fwt_row \<Rightarrow> bool" where
  "pending_exchange X userId r \<longleftrightarrow> ft_user r = userId \<and> ft_type r = F_EXCHANGE \<and> ft_status r = PENDING \<and> ft_provider r = Some (xc_provider X)"

definition checkPendingExchangeTransaction :: "exchange_config \<Rightarrow> string \<Rightarrow> (('s, 'm) money_world_scheme, unit) io" where
  "checkPendingExchangeTransaction X userId =
     bind (repo_findOne fwt_table (pending_exchange X userId)) (\<lambda>found.
     if found \<noteq> None then throw (Conflict ''You already have a pending exchange transaction. Please wait for it to complete or contact support.'')
     else ret ())"

definition validateWalletAndBalance :: "'s money_env \<Rightarrow> exchange_config \<Rightarrow> string \<Rightarrow> string \<Rightarrow> rat \<Rightarrow> (('s, 'm) money_world_scheme, wallet_row \<times> int) io" where
  "validateWalletAndBalance M X userId currency amount =
     andthen (checkPendingExchangeTransaction X userId)
     (bind (getUserWallet M userId currency) (\<lambda>sourceWallet.
      if fw_balance sourceWallet < 0 then throw (InternalError ''Invalid wallet state'')
      else bind (io_of (formatCurrencyAmountToSmallestUnit amount currency)) (\<lambda>transactionAmount.
       if transactionAmount \<le> 0 then throw (BadRequest ''Invalid transaction amount'')
       else if fw_balance sourceWallet < transactionAmount then throw (BadRequest ''Insufficient balance for exchange'')
       else ret (sourceWallet, transactionAmount))))"

definition usable_rate :: "rate_row option \<Rightarrow> exn + rate_row" where
  "usable_rate r = (case r of
      None \<Rightarrow> Inl (BadRequest ''Exchange rate not found'')
    | Some x \<Rightarrow> if er_rate x \<le> 0 then Inl (BadRequest ''Invalid exchange rate'')
        else if er_provider x = [] then Inl (InternalError ''Exchange rate provider is missing'') else Inr x)"

definition usd_source_tx :: "exchange_dto \<Rightarrow> string \<Rightarrow> wallet_row \<Rightarrow> int \<Rightarrow> rate_row \<Rightarrow> string \<Rightarrow> tx_row" where
  "usd_source_tx d participant wallet amount rate reference = blank_tx\<lparr>tx_type := T_EXCHANGE, tx_category := C_FIAT, tx_scope := S_INTERNAL,
     tx_status := INITIATED, tx_amount := amount, tx_asset := xd_from d, tx_before := fw_balance wallet, tx_after := fw_balance wallet - amount,
     tx_reference := reference @ ''-OUT'', tx_external := None, tx_description := exchange_text (xd_from d),
     tx_meta := [(''from_currency'', JStr (xd_from d)), (''to_currency'', JStr (xd_to d)), (''original_amount'', JDec (xd_amount d)),
       (''participant_code'', JStr participant), (''rate'', JNum (er_rate rate)), (''provider_rate'', JNum (er_provider_rate rate)),
       (''rate_id'', JStr (er_id rate))]\<rparr>"

definition usd_source_entry :: "exchange_config \<Rightarrow> exchange_dto \<Rightarrow> string \<Rightarrow> wallet_row \<Rightarrow> int \<Rightarrow> rate_row \<Rightarrow> tx_row \<Rightarrow> fwt_row" where
  "usd_source_entry X d participant wallet amount rate t = blank_fwt\<lparr>ft_transaction := tx_id t, ft_wallet := fw_id wallet, ft_type := F_EXCHANGE,
     ft_amount := - amount, ft_before := fw_balance wallet, ft_after := fw_balance wallet - amount, ft_currency := xd_from d,
     ft_status := INITIATED, ft_provider := Some (xc_provider X), ft_reference := None, ft_description := Some (exchange_text (xd_from d)),
     ft_source := Some (xd_from d @ '' Wallet''), ft_destination := Some (xd_to d @ '' Wallet''),
     ft_meta := [(''exchange_type'', JStr ''source''), (''participant_code'', JStr participant), (''rate'', JNum (er_rate rate)),
       (''provider_rate'', JNum (er_provider_rate rate)), (''rate_id'', JStr (er_id rate)), (''expected_amount'', JNum amount),
       (''rate_provider'', JStr (er_provider rate)), (''exchange_rate_ref'', JStr (er_ref rate))]\<rparr>"

definition createSourceTransactions :: "'s money_env \<Rightarrow> exchange_config \<Rightarrow> string \<Rightarrow> string \<Rightarrow> exchange_dto
    \<Rightarrow> (('s, 'm) exchange_world_scheme, tx_row \<times> fwt_row) io" where
  "createSourceTransactions M X userId participant d =
     bind (generateTransactionReference M) (\<lambda>reference.
     bind (validateWalletAndBalance M X userId (xd_from d) (xd_amount d)) (\<lambda>(wallet, amount).
     bind (repo_findOne rate_table (\<lambda>r. er_id r = xd_rate d)) (\<lambda>found.
     bind (io_of (usable_rate found)) (\<lambda>rate.
     bind (tx_create M userId (usd_source_tx d participant wallet amount rate reference)) (\<lambda>t.
     bind (fwt_create M userId (usd_source_entry X d participant wallet amount rate t)) (\<lambda>f. ret (t, f)))))))"

definition getValidatedVirtualAccount :: "'s money_env \<Rightarrow> string \<Rightarrow> account_type \<Rightarrow> string option \<Rightarrow> (('s, 'm) exchange_world_scheme, account_row) io" where
  "getValidatedVirtualAccount M userId ty tid =
     bind (findOrCreateVirtualAccount M userId \<lparr>aq_wallet = None, aq_transaction = tid, aq_bvn = None\<rparr> ty) (\<lambda>va.
     if ac_type va \<noteq> ty then throw (BadRequest ''Virtual account type mismatch'')
     else if ac_number va = [] then throw (BadRequest ''Virtual account number is missing'')
     else if ac_name va = [] then throw (BadRequest ''Virtual account name is missing'')
     else ret va)"

text \<open>The database transaction: the records, the account and the job.\<close>

definition recordExchange :: "'s money_env \<Rightarrow> exchange_config \<Rightarrow> string \<Rightarrow> string \<Rightarrow> exchange_dto
    \<Rightarrow> (('s, 'm) exchange_world_scheme, exchange_ticket) io" where
  "recordExchange M X userId participant d =
     bind (createSourceTransactions M X userId participant d) (\<lambda>(t, f).
     bind (getValidatedVirtualAccount M userId EXCHANGE_ACCOUNT (Some (tx_id t))) (\<lambda>va.
     case getCurrencyCountryCode (xd_to d) of
       None \<Rightarrow> throw (BadRequest (''Unsupported destination currency: '' @ xd_to d))
     | Some cc \<Rightarrow> if cc = [] then throw (BadRequest (''Unsupported destination currency: '' @ xd_to d))
       else bind (queueExchange M \<lparr>uj_user = userId, uj_participant = participant, uj_tx = Some t, uj_amount = xd_amount d, uj_country = cc,
           uj_account = Some va, uj_entry = f, uj_rate = xd_rate d\<rparr>) (\<lambda>job.
         if \<not> js_truthy (jfield ''id'' job) then throw (InternalError ''Failed to initiate exchange transaction'')
         else ret \<lparr>et_reference = JStr (tx_id t), et_job = jfield ''id'' job\<rparr>)))"

definition exchangeSection :: "'s money_env \<Rightarrow> exchange_config \<Rightarrow> string \<Rightarrow> exchange_dto \<Rightarrow> (('s, 'm) exchange_world_scheme, exchange_ticket) io" where
  "exchangeSection M X userId d =
     andthen (validateRateOrThrow M X (xd_rate d) BUY)
     (bind (ext_call M ''getExternalAccountForTransaction'' (JObj [(''userId'', JStr userId), (''provider'', JStr (xc_provider X))])) (\<lambda>account.
      if account = JNull then throw undefined_row
      else transaction (recordExchange M X userId (js_text (jfield ''participant_code'' account)) d)))"

definition exchange_limit_query :: "string \<Rightarrow> int \<Rightarrow> string \<Rightarrow> json" where
  "exchange_limit_query userId amountInSmallestUnit c = JObj [(''user'', JStr userId), (''amount'', JNum amountInSmallestUnit),
     (''currency'', JStr c), (''type'', JStr ''exchange'')]"

definition naira_to_dollars :: "exchange_dto \<Rightarrow> bool" where
  "naira_to_dollars d \<longleftrightarrow> to_lower (xd_from d) = ''ngn'' \<and> to_lower (xd_to d) = ''usd''"

definition exchange :: "'s money_env \<Rightarrow> exchange_config \<Rightarrow> string \<Rightarrow> exchange_dto \<Rightarrow> (('s, 'm) exchange_world_scheme, exchange_ticket) io" where
  "exchange M X userId d =
     andthen (validateKycVerification M userId)
     (bind (io_of (formatCurrencyAmountToSmallestUnit (xd_amount d) (xd_from d))) (\<lambda>amountInSmallestUnit.
      andthen (ext_call M ''validateLimit'' (exchange_limit_query userId amountInSmallestUnit (xd_from d)))
      (if naira_to_dollars d \<and> given (xd_transaction d) then executeExchange M userId (the (xd_transaction d))
       else if naira_to_dollars d then throw (InternalError ''Please Update to the latest version of the app to continue with this feature'')
       else locked M (exchangeLockKey userId (xd_from d) (xd_to d)) 5 (exchangeSection M X userId d))))"

end
