(* ===== verification/ExchangeRetry.thy ===== *)
theory ExchangeRetry
  imports UsdExchange
begin

text \<open>
  Repeating a failed exchange of dollars for naira: \<^verbatim>\<open>ExchangeRetryService\<close>
  (\<^verbatim>\<open>src/modules/exchange/exchange-retry.service.ts\<close>). The dollars have reached the exchange provider, which is
  asked again to pay naira; the record of the incoming naira is marked to be reconciled, or created.
\<close>

section \<open>The transaction that is repeated\<close>

definition validateAndGetParentTransaction :: "string \<Rightarrow> (('s, 'm) money_world_scheme, tx_row) io" where
  "validateAndGetParentTransaction tid = bind (repo_findById tx_table tid) (\<lambda>found. case found of
       None \<Rightarrow> throw (NotFound (''Parent transaction with ID '' @ tid @ '' not found''))
     | Some t \<Rightarrow>
         if tx_type t \<noteq> T_EXCHANGE
         then throw (BadRequest (''Transaction '' @ tid @ '' is not an exchange transaction. Type: '' @ type_text (tx_type t)))
         else if to_upper (tx_asset t) \<noteq> ''USD''
         then throw (BadRequest (''Transaction '' @ tid @ '' is not a USD transaction. Asset: '' @ tx_asset t))
         else ret t)"

definition createNewVirtualAccountForRetry :: "'s money_env \<Rightarrow> tx_row \<Rightarrow> (('s, 'm) exchange_world_scheme, account_row) io" where
  "createNewVirtualAccountForRetry M t =
     account_create M (tx_user t) \<lparr>aq_wallet = None, aq_transaction = Some (tx_id t), aq_bvn = None\<rparr> EXCHANGE_ACCOUNT False"

definition destination_country :: "tx_row \<Rightarrow> string" where
  "destination_country t = (case jfield ''destination_country_code'' (JObj (tx_meta t)) of JStr (c # cs) \<Rightarrow> c # cs | _ \<Rightarrow> ''NG'')"

definition retryPayoutRequest :: "'s money_env \<Rightarrow> exchange_config \<Rightarrow> string \<Rightarrow> string \<times> string \<Rightarrow> json \<Rightarrow> json \<Rightarrow> string \<Rightarrow> rat
    \<Rightarrow> (('s, 'm) dbase_scheme, json) io" where
  "retryPayoutRequest M X userId account channel bank ref amount =
     bind (validateUserDetailsForExchange M retry_user_details userId) (\<lambda>u.
     bind (validateKycDetailsForExchange M retry_kyc_details u) (\<lambda>k.
     case split_dot (xc_underlying X) of
       [coin, network] \<Rightarrow> ext_call M ''createPayOutRequest'' (payout_payload u k account channel bank ref amount coin network)
     | _ \<Rightarrow> throw (BadRequest (bad_underlying X))))"

section \<open>The incoming naira\<close>

definition calculateFeeInNgn :: "rat \<Rightarrow> rat \<Rightarrow> bool \<Rightarrow> int \<Rightarrow> rat" where
  "calculateFeeInNgn usdAmount feeValue isPercentage exchangeRate =
     (if isPercentage then usdAmount * (feeValue / 100) else feeValue) * of_int exchangeRate"

definition fee_in_ngn :: "rat \<Rightarrow> fee_config option \<Rightarrow> int \<Rightarrow> rat" where
  "fee_in_ngn usd f rate = (case f of None \<Rightarrow> calculateFeeInNgn usd 0 False rate
     | Some c \<Rightarrow> calculateFeeInNgn usd (fc_value c) (fc_percentage c) rate)"

text \<open>What arrives, in kobo: a configuration without fees of an exchange is a \<^verbatim>\<open>TypeError\<close>.\<close>

definition koboAmount :: "rat \<Rightarrow> int \<Rightarrow> fiat_exchange \<Rightarrow> int" where
  "koboAmount usd rate fees = \<lfloor>of_int rate * usd - (fee_in_ngn usd (disbursement_fee fees) rate + fee_in_ngn usd (partner_fee fees) rate)\<rfloor>"

definition incoming_tx :: "tx_row \<Rightarrow> rate_row \<Rightarrow> wallet_row \<Rightarrow> int \<Rightarrow> string \<Rightarrow> string option \<Rightarrow> tx_row" where
  "incoming_tx parent rate wallet kobo reference external = blank_tx\<lparr>tx_type := T_EXCHANGE, tx_category := C_FIAT, tx_scope := S_INTERNAL, tx_status := INITIATED,
     tx_amount := kobo, tx_asset := ''NGN'', tx_before := fw_balance wallet, tx_after := fw_balance wallet + kobo, tx_reference := reference,
     tx_meta := [(''rate'', JNum (er_rate rate)), (''rate_id'', JStr (er_id rate)),
       (''shared_blockchain_transaction_ref'', jfield ''shared_blockchain_transaction_ref'' (JObj (tx_meta parent))),
       (''created_by_provider'', JStr ''exchange_retry'')],
     tx_parent := Some (tx_id parent), tx_description := ''Exchanged USD to NGN'', tx_external := external\<rparr>"

definition incoming_entry :: "exchange_config \<Rightarrow> wallet_row \<Rightarrow> int \<Rightarrow> string option \<Rightarrow> tx_row \<Rightarrow> fwt_row" where
  "incoming_entry X wallet kobo external t = blank_fwt\<lparr>ft_transaction := tx_id t, ft_amount := kobo, ft_currency := ''NGN'', ft_status := PROCESSING,
     ft_wallet := fw_id wallet, ft_type := F_EXCHANGE, ft_reference := external, ft_before := fw_balance wallet,
     ft_after := fw_balance wallet + kobo, ft_meta := [(''source_currency'', JStr ''USD'')], ft_source := Some ''USD Wallet'',
     ft_destination := Some ''NGN Wallet'', ft_description := Some ''OnRamp USD to NGN (Retry)'', ft_provider := Some (xc_exchange X)\<rparr>"

definition exchange_fees :: "rate_config_row option \<Rightarrow> fiat_exchange option" where
  "exchange_fees c = (case c of Some r \<Rightarrow> if rc_active r then rc_exchange r else None | None \<Rightarrow> None)"

text \<open>Nothing is created without a rate, a provider configuration that is active, or after any exception.\<close>

definition createIncomingNgnTransaction :: "'s money_env \<Rightarrow> exchange_config \<Rightarrow> tx_row \<Rightarrow> string option
    \<Rightarrow> (('s, 'm) exchange_world_scheme, tx_row option) io" where
  "createIncomingNgnTransaction M X parent external = catch
     (let rateId = jfield ''rate_id'' (JObj (tx_meta parent)) in
      if \<not> js_truthy rateId then ret None
      else bind (repo_findOne rate_table (\<lambda>r. JStr (er_id r) = rateId)) (\<lambda>found. case found of
          None \<Rightarrow> ret None
        | Some rate \<Rightarrow> bind (repo_findOne rate_config_table (\<lambda>r. rc_provider r = xc_exchange X)) (\<lambda>config.
            case exchange_fees config of
              None \<Rightarrow> ret None
            | Some fees \<Rightarrow> (let kobo = koboAmount (of_int (tx_amount parent) / 100) (er_rate rate) fees in
                bind (getUserWallet M (tx_user parent) ''NGN'') (\<lambda>wallet.
                transaction (bind (generateTransactionReference M) (\<lambda>reference.
                  bind (tx_create M (tx_user parent) (incoming_tx parent rate wallet kobo reference external)) (\<lambda>t.
                  andthen (fwt_create M (tx_user parent) (incoming_entry X wallet kobo external t)) (ret (Some t))))))))))
     (\<lambda>_. ret None)"

definition reconciled_tx :: "tx_row \<Rightarrow> int \<Rightarrow> tx_row \<Rightarrow> tx_row" where
  "reconciled_tx child t r = r\<lparr>tx_status := RECONCILE,
     tx_meta := [(''retry_initiated_at'', JNum t), (''previous_status'', JStr (status_text (tx_status child)))] @ tx_meta child\<rparr>"

definition reconciled_entry :: "fwt_row \<Rightarrow> int \<Rightarrow> fwt_row \<Rightarrow> fwt_row" where
  "reconciled_entry f t r = r\<lparr>ft_status := RECONCILE,
     ft_meta := [(''retry_initiated_at'', JNum t), (''previous_status'', JStr (status_text (ft_status f)))] @ ft_meta f\<rparr>"

definition reconcileChild :: "tx_row \<Rightarrow> (('s, 'm) money_world_scheme, unit) io" where
  "reconcileChild child = bind get_now (\<lambda>t.
     andthen (repo_update_id tx_table (tx_id child) (reconciled_tx child t))
     (bind (repo_findOne fwt_table (\<lambda>r. ft_transaction r = tx_id child)) (\<lambda>entry. case entry of
         None \<Rightarrow> ret ()
       | Some f \<Rightarrow> bind get_now (\<lambda>t'. andthen (repo_update_id fwt_table (ft_id f) (reconciled_entry f t')) (ret ())))))"

definition handleNgnChildTransaction :: "'s money_env \<Rightarrow> exchange_config \<Rightarrow> tx_row \<Rightarrow> string option \<Rightarrow> (('s, 'm) exchange_world_scheme, unit) io" where
  "handleNgnChildTransaction M X parent external =
     bind (repo_findOne tx_table (\<lambda>r. tx_parent r = Some (tx_id parent) \<and> tx_asset r = ''NGN'')) (\<lambda>child. case child of
         None \<Rightarrow> andthen (createIncomingNgnTransaction M X parent external) (ret ())
       | Some c \<Rightarrow> if tx_status c = FAILED then reconcileChild c else ret ())"

section \<open>The repetition\<close>

definition retry_count :: "tx_row \<Rightarrow> int" where
  "retry_count t = (case jfield ''retry_count'' (JObj (tx_meta t)) of JNum n \<Rightarrow> n | _ \<Rightarrow> 0)"

definition previous_refs :: "tx_row \<Rightarrow> json list" where
  "previous_refs t = (case jfield ''previous_provider_refs'' (JObj (tx_meta t)) of JArr xs \<Rightarrow> xs | _ \<Rightarrow> [])"

definition retried_tx :: "tx_row \<Rightarrow> account_row \<Rightarrow> json \<Rightarrow> int \<Rightarrow> tx_row \<Rightarrow> tx_row" where
  "retried_tx t va payout stamp r = r\<lparr>tx_reference := patched (jfield ''sequenceRef'' payout) (tx_reference r),
     tx_meta := [(''retry_count'', JNum (retry_count t + 1)), (''retry_at'', JNum stamp), (''retry_yellowcard_ref'', jfield ''ref'' payout),
       (''retry_yellowcard_sequence_ref'', jfield ''sequenceRef'' payout), (''retry_new_virtual_account_id'', JStr (ac_id va)),
       (''retry_new_virtual_account_number'', JStr (ac_number va)), (''retry_destination_wallet_address'', payout_address payout),
       (''destination_provider_ref'', jfield ''ref'' payout), (''previous_provider_refs'', JArr (previous_refs t @ [jfield ''ref'' payout])),
       (''destination_provider_request_ref'', jfield ''providerRef'' payout)] @ tx_meta t\<rparr>"

record retry_ticket =
  rt_parent :: string
  rt_account :: string
  rt_sequence :: json

definition retryExchange :: "'s money_env \<Rightarrow> exchange_config \<Rightarrow> string \<Rightarrow> (('s, 'm) exchange_world_scheme, retry_ticket) io" where
  "retryExchange M X tid =
     bind (validateAndGetParentTransaction tid) (\<lambda>t.
     bind (createNewVirtualAccountForRetry M t) (\<lambda>va.
     bind (getYellowCardChannelAndBank M X (destination_country t)) (\<lambda>(channel, bank).
     bind (generateTransactionReference M) (\<lambda>reference.
     bind (retryPayoutRequest M X (tx_user t) (getBankAccountAndName X va) channel bank reference (of_int (tx_amount t) / 100)) (\<lambda>payout.
     if \<not> js_truthy payout then throw (BadRequest ''Failed to create YellowCard payout request'')
     else andthen (handleNgnChildTransaction M X t (patched_opt (jfield ''sequenceRef'' payout) None))
      (bind get_now (\<lambda>stamp. andthen (repo_update_id tx_table (tx_id t) (retried_tx t va payout stamp))
       (ret \<lparr>rt_parent = tid, rt_account = ac_number va, rt_sequence = jfield ''sequenceRef'' payout\<rparr>))))))))"

end
