(* ===== verification/StableCoins.thy ===== *)
theory StableCoins
  imports Prelude
begin

text \<open>
  The stablecoin catalogue (\<^verbatim>\<open>src/config/onedosh/stablecoins.config.ts\<close>): the development and the
  production list and the look-ups by symbol, provider asset and network. Whether the process runs in
  production is the argument \<open>isProd\<close> of every look-up.
\<close>

section \<open>The catalogue\<close>

datatype crypto_network = SOL | TRON | ETH | BTC | ERC20 | BASECHAIN

record provider_asset =
  asset_id :: string
  map_name :: "string option"
  map_symbol :: "string option"
  native_asset :: "string option"

record stable_coin =
  coin_name :: string
  coin_symbol :: string
  coin_type :: string
  decimals :: int
  image_url :: string
  provider_mappings :: "(string \<times> provider_asset) list"
  network :: crypto_network
  is_active :: bool

definition DevStableCoinsConfiguration :: "stable_coin list" where
  "DevStableCoinsConfiguration = [
     \<lparr>coin_name = ''USD Coin'', coin_symbol = ''USDC'', coin_type = ''ERC20'', decimals = 6,
      image_url = ''/public/images/usdc_erc20.png'',
      provider_mappings = [
        (''fireblocks'', \<lparr>asset_id = ''USDC_ETH_TEST5_0GER'', map_name = Some ''USDC'', map_symbol = Some ''USDC'', native_asset = Some ''ETH_TEST5''\<rparr>),
        (''rain'', \<lparr>asset_id = ''USDC'', map_name = Some ''USDC'', map_symbol = Some ''USDC'', native_asset = Some ''11155111''\<rparr>),
        (''custom'', \<lparr>asset_id = ''USDC'', map_name = Some ''USDC'', map_symbol = Some ''USDC'', native_asset = Some ''eth_test''\<rparr>)],
      network = ETH, is_active = True\<rparr>,
     \<lparr>coin_name = ''USD Coin'', coin_symbol = ''USDC'', coin_type = ''ERC20'', decimals = 6,
      image_url = ''/public/images/usdc_erc20.png'',
      provider_mappings = [
        (''fireblocks'', \<lparr>asset_id = ''USDC_BASECHAIN_ETH_TEST5_8SH8'', map_name = Some ''USDT'', map_symbol = Some ''USDT'', native_asset = Some ''BASECHAIN_ETH_TEST5''\<rparr>),
        (''custom'', \<lparr>asset_id = ''USDC'', map_name = Some ''USDC'', map_symbol = Some ''USDC'', native_asset = Some ''base_eth''\<rparr>)],
      network = BASECHAIN, is_active = True\<rparr>,
     \<lparr>coin_name = ''USD Coin'', coin_symbol = ''USDC'', coin_type = ''SPL'', decimals = 6,
      image_url = ''/public/images/usdc_solana.png'',
      provider_mappings = [
        (''fireblocks'', \<lparr>asset_id = ''USDC_SOL_TEST5_ABC123'', map_name = Some ''USDC'', map_symbol = Some ''USDC'', native_asset = Some ''SOL_TEST''\<rparr>),
        (''rain'', \<lparr>asset_id = ''USDC'', map_name = Some ''USDC'', map_symbol = Some ''USDC'', native_asset = Some ''901''\<rparr>),
        (''custom'', \<lparr>asset_id = ''USDC'', map_name = Some ''USDC'', map_symbol = Some ''USDC'', native_asset = Some ''sol_test''\<rparr>)],
      network = SOL, is_active = True\<rparr>]"

definition ProdStableCoinsConfiguration :: "stable_coin list" where
  "ProdStableCoinsConfiguration = [
     \<lparr>coin_name = ''USD Coin'', coin_symbol = ''USDC'', coin_type = ''ERC20'', decimals = 6,
      image_url = ''/public/images/usdc_erc20.png'',
      provider_mappings = [
        (''rain'', \<lparr>asset_id = ''USDC'', map_name = Some ''USDC'', map_symbol = Some ''USDC'', native_asset = Some ''1''\<rparr>),
        (''custom'', \<lparr>asset_id = ''USDC'', map_name = Some ''USDC'', map_symbol = Some ''USDC'', native_asset = Some ''eth''\<rparr>)],
      network = ETH, is_active = True\<rparr>,
     \<lparr>coin_name = ''USD Coin'', coin_symbol = ''USDC'', coin_type = ''SPL'', decimals = 6,
      image_url = ''/public/images/usdc_solana.png'',
      provider_mappings = [
        (''rain'', \<lparr>asset_id = ''USDC'', map_name = Some ''USDC'', map_symbol = Some ''USDC'', native_asset = Some ''900''\<rparr>),
        (''custom'', \<lparr>asset_id = ''USDC'', map_name = Some ''USDC'', map_symbol = Some ''USDC'', native_asset = Some ''sol''\<rparr>)],
      network = SOL, is_active = True\<rparr>]"

definition StableCoinsConfiguration :: "bool \<Rightarrow> stable_coin list" where
  "StableCoinsConfiguration isProd = (if isProd then ProdStableCoinsConfiguration else DevStableCoinsConfiguration)"

definition DEFAULT_STABLECOIN_SYMBOL :: string where
  "DEFAULT_STABLECOIN_SYMBOL = ''USDC''"

definition DEFAULT_NETWORK :: "bool \<Rightarrow> crypto_network" where
  "DEFAULT_NETWORK isProd = (if isProd then SOL else ETH)"

section \<open>StableCoinsService\<close>

record stable_asset =
  sa_id :: string
  sa_name :: string
  sa_symbol :: string
  sa_type :: string
  nativeAsset :: string
  imageUrl :: string
  sa_decimals :: int
  sa_network :: "crypto_network option"

definition resolvedProvider :: "bool \<Rightarrow> string option \<Rightarrow> string" where
  "resolvedProvider isProd provider = (case provider of
     None \<Rightarrow> if isProd then ''rain'' else ''fireblocks''
   | Some p \<Rightarrow> if p = [] then (if isProd then ''rain'' else ''fireblocks'') else p)"

definition mapping :: "stable_coin \<Rightarrow> string \<Rightarrow> provider_asset option" where
  "mapping coin p = map_of (provider_mappings coin) p"

definition to_asset :: "string \<Rightarrow> bool \<Rightarrow> stable_coin \<Rightarrow> stable_asset" where
  "to_asset p with_network coin = \<lparr>
     sa_id = (case mapping coin p of None \<Rightarrow> to_lower (coin_symbol coin)
       | Some m \<Rightarrow> if asset_id m = [] then to_lower (coin_symbol coin) else asset_id m),
     sa_name = coin_name coin, sa_symbol = coin_symbol coin, sa_type = coin_type coin,
     nativeAsset = (case mapping coin p of None \<Rightarrow> ''USD''
       | Some m \<Rightarrow> (case native_asset m of None \<Rightarrow> ''USD'' | Some n \<Rightarrow> if n = [] then ''USD'' else n)),
     imageUrl = image_url coin, sa_decimals = decimals coin,
     sa_network = (if with_network then Some (network coin) else None)\<rparr>"

definition getSupportedStableCoins :: "bool \<Rightarrow> string option \<Rightarrow> stable_asset list" where
  "getSupportedStableCoins isProd provider =
     map (to_asset (resolvedProvider isProd provider) True) (filter is_active (StableCoinsConfiguration isProd))"

definition getStableCoinConfigBySymbol :: "bool \<Rightarrow> string \<Rightarrow> stable_coin option" where
  "getStableCoinConfigBySymbol isProd symbol =
     List.find (\<lambda>coin. coin_symbol coin = to_upper symbol \<and> is_active coin) (StableCoinsConfiguration isProd)"

definition getProviderAssetId :: "bool \<Rightarrow> string \<Rightarrow> string option \<Rightarrow> string option" where
  "getProviderAssetId isProd symbol provider = (case getStableCoinConfigBySymbol isProd symbol of
      None \<Rightarrow> None | Some coin \<Rightarrow> map_option asset_id (mapping coin (resolvedProvider isProd provider)))"

definition getProviderNativeAsset :: "bool \<Rightarrow> string \<Rightarrow> string option \<Rightarrow> string option" where
  "getProviderNativeAsset isProd symbol provider = (case getStableCoinConfigBySymbol isProd symbol of
      None \<Rightarrow> None | Some coin \<Rightarrow> Option.bind (mapping coin (resolvedProvider isProd provider)) native_asset)"

definition getStableCoinByProviderAssetId :: "bool \<Rightarrow> string \<Rightarrow> string \<Rightarrow> stable_coin option" where
  "getStableCoinByProviderAssetId isProd provider assetId =
     List.find (\<lambda>coin. is_active coin \<and> map_option asset_id (mapping coin provider) = Some assetId) (StableCoinsConfiguration isProd)"

definition getStableCoinsByNetwork :: "bool \<Rightarrow> crypto_network \<Rightarrow> stable_coin list" where
  "getStableCoinsByNetwork isProd n = filter (\<lambda>coin. is_active coin \<and> network coin = n) (StableCoinsConfiguration isProd)"

definition getStableCoinsByProvider :: "bool \<Rightarrow> string \<Rightarrow> stable_coin list" where
  "getStableCoinsByProvider isProd p = filter (\<lambda>coin. is_active coin \<and> mapping coin p \<noteq> None) (StableCoinsConfiguration isProd)"

text \<open>The external assets as the list of their ids.\<close>

definition mapExternalAssetsToStableCoins :: "bool \<Rightarrow> string list \<Rightarrow> string option \<Rightarrow> stable_asset list" where
  "mapExternalAssetsToStableCoins isProd externalIds provider = (let p = resolvedProvider isProd provider in
     concat (map (\<lambda>i. case getStableCoinByProviderAssetId isProd p i of None \<Rightarrow> [] | Some coin \<Rightarrow> [to_asset p False coin]) externalIds))"

definition getAllSupportedCryptoCurrencies :: "bool \<Rightarrow> string list" where
  "getAllSupportedCryptoCurrencies isProd = map coin_symbol (filter is_active (StableCoinsConfiguration isProd))"

definition getStableCoinsConfiguration :: "bool \<Rightarrow> stable_coin list" where
  "getStableCoinsConfiguration isProd = filter is_active (StableCoinsConfiguration isProd)"

definition getDefaultStablecoinSymbol :: string where
  "getDefaultStablecoinSymbol = DEFAULT_STABLECOIN_SYMBOL"

definition getDefaultNetwork :: "bool \<Rightarrow> crypto_network" where
  "getDefaultNetwork isProd = DEFAULT_NETWORK isProd"

definition getDefaultStableCoin :: "bool \<Rightarrow> string option \<Rightarrow> stable_asset option" where
  "getDefaultStableCoin isProd provider = (let p = resolvedProvider isProd provider in
     case List.find (\<lambda>coin. is_active coin \<and> coin_symbol coin = DEFAULT_STABLECOIN_SYMBOL \<and> network coin = DEFAULT_NETWORK isProd)
         (StableCoinsConfiguration isProd) of
       Some coin \<Rightarrow> Some (to_asset p False coin)
     | None \<Rightarrow> map_option (to_asset p False)
         (List.find (\<lambda>coin. is_active coin \<and> coin_symbol coin = DEFAULT_STABLECOIN_SYMBOL) (StableCoinsConfiguration isProd)))"

section \<open>Properties\<close>

text \<open>
  The default stablecoin exists in both environments and is the coin of the default network, but
  the look-ups by symbol and by Rain asset never find it in production: they give the Ethereum coin,
  because all USDC coins share one symbol and one Rain asset id.
\<close>

theorem default_coin_lookup:
  "map_option sa_type (getDefaultStableCoin isProd None) = Some (if isProd then ''SPL'' else ''ERC20'')
    \<and> map_option network (getStableCoinConfigBySymbol isProd ''usdc'') = Some ETH
    \<and> map_option network (getStableCoinByProviderAssetId isProd ''rain'' ''USDC'') = Some ETH
    \<and> getProviderNativeAsset True ''USDC'' (Some ''rain'') = Some ''1''
    \<and> map_option nativeAsset (getDefaultStableCoin True (Some ''rain'')) = Some ''900''"
proof -
  have up: "to_upper ''usdc'' = ''USDC''" "to_upper ''USDC'' = ''USDC''" by code_simp+
  show ?thesis
    by (cases isProd) (simp_all add: getDefaultStableCoin_def getStableCoinConfigBySymbol_def getStableCoinByProviderAssetId_def
      getProviderNativeAsset_def StableCoinsConfiguration_def DevStableCoinsConfiguration_def ProdStableCoinsConfiguration_def
      resolvedProvider_def mapping_def to_asset_def DEFAULT_STABLECOIN_SYMBOL_def DEFAULT_NETWORK_def up)
qed

end
