(* ===== verification/Zerohash.thy ===== *)
theory Zerohash
  imports ExchangeRetry StableCoins
begin

text \<open>
  The webhooks of the dollar provider: \<^verbatim>\<open>ZerohashWebhookService\<close>
  (\<^verbatim>\<open>src/modules/webhooks/zerohash/zerohash-webhook.service.ts\<close>). The provider reports the status of linked bank
  accounts, of payments and trades, and the movements of a user's dollar account: settlements and transfers
  carry the new balance, a withdrawal or a deposit the change. The state adds the external accounts
  of the users and the blockchain transactions a deposit is found by. Aggregates, loyalty points and the closing
  of an external account are collaborators.
\<close>

section \<open>Rows and payloads\<close>

record external_account =
  xa_id :: string
  xa_user :: string
  xa_participant :: "string option"
  xa_provider :: string
  xa_ref :: "string option"
  xa_kyc :: "string option"
  xa_status :: string

record chain_row =
  ch_id :: string
  ch_hash :: string
  ch_main :: "string option"

record 's webhook_world = "'s exchange_world" +
  external_rows :: "external_account list"
  chain_rows :: "chain_row list"

definition external_table :: "(external_account, ('s, 'm) webhook_world_scheme) table" where
  "external_table = \<lparr>rows_of = external_rows, set_rows = (\<lambda>rs w. w\<lparr>external_rows := rs\<rparr>), row_id = xa_id\<rparr>"

definition chain_table :: "(chain_row, ('s, 'm) webhook_world_scheme) table" where
  "chain_table = \<lparr>rows_of = chain_rows, set_rows = (\<lambda>rs w. w\<lparr>chain_rows := rs\<rparr>), row_id = ch_id\<rparr>"

interpretation externals: row_store external_table
  by unfold_locales (simp_all add: external_table_def)

interpretation chain_txs: row_store chain_table
  by unfold_locales (simp_all add: chain_table_def)

lemma webhook_tables [simp]:
  "rows_of external_table = external_rows" "set_rows external_table rs w = w\<lparr>external_rows := rs\<rparr>" "row_id external_table = xa_id"
  "rows_of chain_table = chain_rows" "set_rows chain_table cs w = w\<lparr>chain_rows := cs\<rparr>" "row_id chain_table = ch_id"
  by (simp_all add: external_table_def chain_table_def)

record movement =
  mv_id :: string
  mv_type :: string
  mv_change :: string
  mv_trade :: "string option"
  mv_transfer :: "string option"
  mv_withdrawal :: "string option"
  mv_deposit :: "string option"

record balance_payload =
  bp_participant :: string
  bp_group :: string
  bp_account :: string
  bp_asset :: string
  bp_balance :: string
  bp_stamp :: int
  bp_client :: "string option"
  bp_movements :: "movement list"

record payment_payload =
  pp_participant :: "string option"
  pp_obo :: "string option"
  pp_transaction :: string
  pp_status :: string
  pp_reason_code :: "string option"
  pp_reason :: "string option"
  pp_ach :: "string option"
  pp_rejected :: "string option"
  pp_stamp :: int

record trade_payload =
  tp_client :: string
  tp_state :: string
  tp_trade :: "string option"
  tp_fields :: "(string \<times> json) list"

definition text_json :: "string option \<Rightarrow> json" where
  "text_json x = (case x of None \<Rightarrow> JNull | Some s \<Rightarrow> JStr s)"

definition movement_json :: "movement \<Rightarrow> json" where
  "movement_json m = JObj [(''movement_id'', JStr (mv_id m)), (''movement_type'', JStr (mv_type m)), (''change'', JStr (mv_change m)),
     (''trade_id'', text_json (mv_trade m)), (''transfer_request_id'', text_json (mv_transfer m)),
     (''withdrawal_request_id'', text_json (mv_withdrawal m)), (''deposit_reference_id'', text_json (mv_deposit m))]"

definition balance_json :: "balance_payload \<Rightarrow> json" where
  "balance_json p = JObj [(''participant_code'', JStr (bp_participant p)), (''account_group'', JStr (bp_group p)), (''account_type'', JStr (bp_account p)),
     (''asset'', JStr (bp_asset p)), (''balance'', JStr (bp_balance p)), (''timestamp'', JNum (bp_stamp p)),
     (''client_transfer_id'', text_json (bp_client p)), (''movements'', JArr (map movement_json (bp_movements p)))]"

definition payment_json :: "payment_payload \<Rightarrow> json" where
  "payment_json p = JObj [(''participant_code'', text_json (pp_participant p)), (''transaction_id'', JStr (pp_transaction p)),
     (''payment_status'', JStr (pp_status p)), (''reason_code'', text_json (pp_reason_code p)), (''reason_description'', text_json (pp_reason p)),
     (''ach_failure_reason'', text_json (pp_ach p)), (''rejected_reason'', text_json (pp_rejected p)), (''timestamp'', JNum (pp_stamp p))]"

definition trade_json :: "trade_payload \<Rightarrow> json" where
  "trade_json p = JObj ([(''client_trade_id'', JStr (tp_client p)), (''trade_state'', JStr (tp_state p)), (''trade_id'', text_json (tp_trade p))] @ tp_fields p)"

section \<open>Values\<close>

text \<open>
  \<^verbatim>\<open>Number(text)\<close> for decimal texts; other notations of JavaScript numbers do not occur in the provider's amounts
  and count as no number.
\<close>

definition plain_decimal :: "string \<Rightarrow> bool" where
  "plain_decimal s = (let u = (if s \<noteq> [] \<and> hd s = CHR ''-'' then tl s else s); rest = dropWhile is_digit u in
     takeWhile is_digit u \<noteq> [] \<and> (rest = [] \<or> hd rest = CHR ''.'' \<and> list_all is_digit (tl rest)))"

definition js_Number :: "string \<Rightarrow> rat option" where
  "js_Number s = (let t = trim s in if t = [] then Some 0 else if plain_decimal t then parse_decimal t else None)"

text \<open>An amount in smallest units; one that is not a number is refused by the column it would be written to.\<close>

definition smallest_units :: "string \<Rightarrow> string \<Rightarrow> exn + int" where
  "smallest_units s c = (case js_Number s of
      Some x \<Rightarrow> formatCurrencyAmountToSmallestUnit x c
    | None \<Rightarrow> Inl (DbError ''invalid input syntax for type bigint: NaN''))"

definition is_not_found :: "exn \<Rightarrow> bool" where
  "is_not_found e = (case e of NotFound _ \<Rightarrow> True | _ \<Rightarrow> False)"

definition find_tx :: "(tx_row \<Rightarrow> bool) \<Rightarrow> (('s, 'm) money_world_scheme, tx_row) io" where
  "find_tx P = bind (repo_findOne tx_table P) (\<lambda>found. case found of
     None \<Rightarrow> throw (NotFound ''Transaction with specified filters not found'') | Some t \<Rightarrow> ret t)"

definition find_entry :: "(fwt_row \<Rightarrow> bool) \<Rightarrow> (('s, 'm) money_world_scheme, fwt_row) io" where
  "find_entry P = bind (repo_findOne fwt_table P) (\<lambda>found. case found of
     None \<Rightarrow> throw (NotFound ''Fiat wallet transaction not found'') | Some f \<Rightarrow> ret f)"

definition find_external :: "(external_account \<Rightarrow> bool) \<Rightarrow> (('s, 'm) webhook_world_scheme, external_account) io" where
  "find_external P = bind (repo_findOne external_table P) (\<lambda>found. case found of
     None \<Rightarrow> throw (NotFound ''External account not found'') | Some x \<Rightarrow> ret x)"

text \<open>\<^verbatim>\<open>ExternalAccountService.update\<close> without a user, as the webhooks call it.\<close>

definition external_update :: "string \<Rightarrow> (external_account \<Rightarrow> external_account) \<Rightarrow> (('s, 'm) webhook_world_scheme, unit) io" where
  "external_update i g = andthen (find_external (\<lambda>x. xa_id x = i)) (andthen (repo_update_where external_table (\<lambda>x. xa_id x = i) g) (ret ()))"

definition isSupportedStablecoin :: "bool \<Rightarrow> string \<Rightarrow> bool" where
  "isSupportedStablecoin isProd asset = (case split_dot asset of
      coin # net # _ \<Rightarrow> coin \<in> set (getAllSupportedCryptoCurrencies isProd) \<and> net \<in> {''SOL'', ''TRON'', ''ETH'', ''BTC''}
    | _ \<Rightarrow> False)"

definition isValidBalanceChangePayload :: "bool \<Rightarrow> balance_payload \<Rightarrow> bool" where
  "isValidBalanceChangePayload isProd p =
     (if bp_participant p = [] \<or> bp_asset p = [] then False
      else if bp_account p = ''collateral'' then
        (if list_ex (\<lambda>m. mv_type m = ''withdrawal_confirmed'') (bp_movements p) then isSupportedStablecoin isProd (bp_asset p) else False)
      else if bp_account p \<noteq> ''available'' then False
      else isSupportedStablecoin isProd (bp_asset p))"

definition isValidMovement :: "movement \<Rightarrow> bool" where
  "isValidMovement m =
     (if mv_change m = [] then False
      else if mv_type m \<in> {''final_settlement'', ''final_settlement_outstanding''} \<and> \<not> given (mv_trade m) then False
      else if mv_type m = ''transfer'' \<and> \<not> given (mv_transfer m) then False
      else if mv_type m = ''withdrawal_confirmed'' \<and> \<not> given (mv_withdrawal m) then False
      else if mv_type m = ''withdrawal_pending'' \<and> \<not> given (mv_withdrawal m) then False
      else if mv_type m = ''deposit'' \<and> \<not> given (mv_deposit m) then False
      else mv_type m \<in> {''final_settlement'', ''final_settlement_outstanding'', ''transfer'', ''withdrawal_confirmed'', ''withdrawal_pending'', ''deposit''})"

definition mapPaymentStatusToTransactionStatus :: "string \<Rightarrow> tx_status option" where
  "mapPaymentStatusToTransactionStatus s = map_of
     [(''submitted'', PENDING), (''pending'', PENDING), (''pending_trade'', PENDING), (''posted'', PROCESSING), (''settled'', SETTLED),
      (''cancelled'', CANCELLED), (''failed'', FAILED), (''returned'', FAILED), (''rejected'', FAILED), (''retried'', PROCESSING)] s"

definition mapTradeStateToTransactionStatus :: "string \<Rightarrow> tx_status option" where
  "mapTradeStateToTransactionStatus s = map_of
     [(''active'', PENDING), (''pending'', PENDING), (''accepted'', PROCESSING), (''terminated'', COMPLETED), (''rejected'', FAILED),
      (''cancelled'', CANCELLED), (''expired'', FAILED), (''settled'', COMPLETED)] s"

definition named_reason :: "string \<Rightarrow> string option \<Rightarrow> string list" where
  "named_reason label x = (if given x then [label @ '': '' @ the x] else [])"

fun join_comma :: "string list \<Rightarrow> string" where
  "join_comma [] = []"
| "join_comma [s] = s"
| "join_comma (s # ss) = s @ '', '' @ join_comma ss"

definition buildFailureReason :: "string option \<Rightarrow> string option \<Rightarrow> string option \<Rightarrow> string option \<Rightarrow> string" where
  "buildFailureReason reasonCode reasonDescription achFailureReason rejectedReason =
     (let reasons = named_reason ''Code'' reasonCode @ named_reason ''Description'' reasonDescription
        @ named_reason ''ACH Failure'' achFailureReason @ named_reason ''Rejected'' rejectedReason
      in if reasons \<noteq> [] then join_comma reasons else ''Payment failed'')"

definition extractParticipantCode :: "payment_payload \<Rightarrow> exn + string" where
  "extractParticipantCode p = (if given (pp_participant p) then Inr (the (pp_participant p))
     else if given (pp_obo p) then Inr (the (pp_obo p)) else Inl (BadRequest ''Missing participant_code''))"

definition buildProviderMetadata :: "payment_payload \<Rightarrow> (string \<times> json) list" where
  "buildProviderMetadata p = [(''zerohash_payment_status'', JStr (pp_status p)), (''reason_code'', text_json (pp_reason_code p)),
     (''reason_description'', text_json (pp_reason p)), (''ach_failure_reason'', text_json (pp_ach p)), (''rejected_reason'', text_json (pp_rejected p))]"

text \<open>The webhooks kept with a record: those before, the last four of them, and this one.\<close>

definition webhook_history :: "(string \<times> json) list \<Rightarrow> json list" where
  "webhook_history meta = (case jfield ''webhook_payloads'' (JObj meta) of JArr xs \<Rightarrow> xs | _ \<Rightarrow> [])"

definition mergeMetadataWithWebhookPayload :: "(string \<times> json) list \<Rightarrow> (string \<times> json) list \<Rightarrow> string \<Rightarrow> json \<Rightarrow> int \<Rightarrow> (string \<times> json) list" where
  "mergeMetadataWithWebhookPayload existing newMetadata eventType payload t = (let old = webhook_history existing in
     (''webhook_payloads'', JArr (drop (length old - 4) old @ [JObj [(''timestamp'', JNum t), (''event_type'', JStr eventType), (''payload'', payload)]]))
       # newMetadata @ existing)"

section \<open>External accounts\<close>

definition getExternalAccount :: "string \<Rightarrow> (('s, 'm) webhook_world_scheme, external_account option) io" where
  "getExternalAccount userRef = catch (bind (find_external (\<lambda>x. xa_participant x = Some userRef)) (\<lambda>x. ret (Some x)))
     (\<lambda>e. if is_not_found e then ret None else throw (InternalError ''Failed to fetch external account for participant''))"

definition participantKey :: "string \<Rightarrow> string" where
  "participantKey userRef = ''external_account_participant_'' @ userRef"

text \<open>The account is read before the lock is taken, and compared inside it. A payload without a status gives none.\<close>

definition processParticipantStatusChanged :: "'s money_env \<Rightarrow> string \<Rightarrow> string option \<Rightarrow> (('s, 'm) webhook_world_scheme, unit) io" where
  "processParticipantStatusChanged M userRef rawStatus = bind (getExternalAccount userRef) (\<lambda>found. case found of
       None \<Rightarrow> ret ()
     | Some x \<Rightarrow> (let participantStatus = map_option to_lower rawStatus; currentStatus = map_option to_lower (xa_kyc x) in
         locked_wait M (participantKey userRef)
          (if currentStatus = participantStatus then ret ()
           else if currentStatus = Some ''approved'' \<and> participantStatus = Some ''submitted'' then ret ()
           else external_update (xa_id x) (\<lambda>r. r\<lparr>xa_kyc := (case participantStatus of None \<Rightarrow> xa_kyc r | s \<Rightarrow> s)\<rparr>))))"

definition accountStatusKey :: "string \<Rightarrow> string" where
  "accountStatusKey ref = ''external_account_status_'' @ ref"

definition processExternalAccountStatusChanged :: "'s money_env \<Rightarrow> string \<Rightarrow> string \<Rightarrow> (('s, 'm) webhook_world_scheme, unit) io" where
  "processExternalAccountStatusChanged M ref rawStatus = (let externalStatus = to_lower rawStatus in
     if ref = [] \<or> externalStatus = [] then throw (BadRequest ''Missing external_account_id or status'')
     else bind (catch (bind (find_external (\<lambda>x. xa_ref x = Some ref)) (\<lambda>x. ret (Some x))) (\<lambda>e. if is_not_found e then ret None else throw e)) (\<lambda>found.
      case found of
        None \<Rightarrow> ret ()
      | Some x \<Rightarrow> (let currentStatus = to_lower (xa_status x) in
          if externalStatus = currentStatus then ret ()
          else locked_wait M (accountStatusKey ref)
           (if externalStatus = ''closed'' \<or> externalStatus = ''revoked'' then andthen (ext_call M ''closeExternalAccount'' (JStr (xa_id x))) (ret ())
            else if externalStatus = ''pending'' \<and> currentStatus \<noteq> ''pending'' then ret ()
            else external_update (xa_id x) (\<lambda>r. r\<lparr>xa_status := externalStatus\<rparr>)))))"

section \<open>Settlements\<close>

text \<open>The fee of the provider: that of the entry, else one in the metadata of the transaction.\<close>

definition number_or_null :: "json \<Rightarrow> json" where
  "number_or_null j = (case j of JNum n \<Rightarrow> JNum n | JDec d \<Rightarrow> JDec d | _ \<Rightarrow> JNull)"

definition provider_fee :: "fwt_row \<Rightarrow> (string \<times> json) list \<Rightarrow> json" where
  "provider_fee f meta = (case ft_fee f of Some n \<Rightarrow> JNum n
     | None \<Rightarrow> (let own = number_or_null (jfield ''fee'' (JObj meta)) in
         if own \<noteq> JNull then own else number_or_null (jfield ''fee'' (jfield ''provider_metadata'' (JObj meta)))))"

text \<open>The aggregate of the day; its errors are logged.\<close>

definition trackAggregate :: "'s money_env \<Rightarrow> json \<Rightarrow> int \<Rightarrow> (('s, 'm) dbase_scheme, unit) io" where
  "trackAggregate M ty amount = quietly (ext_call M ''transactionAggregate.findAndUpdate'' (JObj [(''provider'', JStr ''zerohash''), (''type'', ty), (''amount'', JNum amount)]))"

definition fiat_text :: "fiat_type \<Rightarrow> json" where
  "fiat_text ty = JStr (case ty of F_DEPOSIT \<Rightarrow> ''deposit'' | F_WITHDRAWAL \<Rightarrow> ''withdrawal'' | F_TRANSFER_IN \<Rightarrow> ''transfer_in'' | F_TRANSFER_OUT \<Rightarrow> ''transfer_out''
     | F_PAYMENT \<Rightarrow> ''payment'' | F_REFUND \<Rightarrow> ''refund'' | F_FEE \<Rightarrow> ''fee'' | F_ADJUSTMENT \<Rightarrow> ''adjustment'' | F_EXCHANGE \<Rightarrow> ''exchange''
     | F_REVERSAL \<Rightarrow> ''reversal'' | F_REWARD \<Rightarrow> ''reward'')"

definition status_meta_of :: "(string \<times> json) list \<Rightarrow> int option \<Rightarrow> string option \<Rightarrow> status_meta" where
  "status_meta_of meta after ref = no_meta\<lparr>sm_metadata := Some meta, sm_balance_after := after, sm_reference := ref\<rparr>"

definition findFiatWalletTransactionByTradeId :: "external_account \<Rightarrow> string \<Rightarrow> (('s, 'm) money_world_scheme, fwt_row option) io" where
  "findFiatWalletTransactionByTradeId x tradeId =
     repo_findOne fwt_table (\<lambda>r. ft_user r = xa_user x \<and> ft_provider r = Some (xa_provider x) \<and> ft_reference r = Some tradeId)"

definition handleClientTransferIdTransaction :: "'s money_env \<Rightarrow> string option \<Rightarrow> string \<Rightarrow> string \<Rightarrow> string
    \<Rightarrow> (('s, 'm) money_world_scheme, bool) io" where
  "handleClientTransferIdTransaction M client userId fid tradeId =
     (if \<not> given client then ret False
      else catch (bind (repo_findOne tx_table (\<lambda>r. tx_reference r = the client \<and> tx_user r = userId)) (\<lambda>found. case found of
           None \<Rightarrow> ret False
         | Some t \<Rightarrow> andthen (tx_updateStatus M (tx_id t) COMPLETED None all_notifications)
            (andthen (fwt_updateStatus M fid COMPLETED (no_meta\<lparr>sm_reference := Some tradeId\<rparr>)) (ret True))))
       (\<lambda>e. if is_not_found e then ret False else throw e))"

definition bonusKey :: "string \<Rightarrow> string" where
  "bonusKey userId = ''first_deposit_bonus_'' @ userId"

definition completed_deposits :: "string \<Rightarrow> (('s, 'm) money_world_scheme, nat) io" where
  "completed_deposits userId = andthen db_step (bind get_state (\<lambda>w. ret (min 2 (length (filter (\<lambda>r. ft_user r = userId \<and> ft_type r = F_DEPOSIT
     \<and> ft_status r = COMPLETED \<and> ft_currency r = ''USD'') (fwts w))))))"

definition points_request :: "external_account \<Rightarrow> fwt_row \<Rightarrow> string \<Rightarrow> string \<Rightarrow> json" where
  "points_request x f event provider = JObj [(''user_id'', JStr (xa_user x)), (''event_code'', JStr event), (''source_reference'', JStr provider),
     (''amount'', JNum (ft_amount f)), (''fiat_wallet_id'', JStr (ft_wallet f)), (''external_account_id'', JStr (xa_id x)),
     (''participant_code'', text_json (xa_participant x))]"

definition creditFirstDeposit :: "'s money_env \<Rightarrow> exchange_config \<Rightarrow> fwt_row \<Rightarrow> external_account \<Rightarrow> (('s, 'm) money_world_scheme, unit) io" where
  "creditFirstDeposit M X f x = bind (completed_deposits (xa_user x)) (\<lambda>n.
     if n \<noteq> 1 then ret ()
     else bind (ext_call M ''creditPoints'' (points_request x f ''FIRST_DEPOSIT_USD'' (xc_provider X))) (\<lambda>first.
      if first = JNull then throw undefined_row
      else if js_truthy (jfield ''is_duplicate'' first) then ret ()
      else bind (ext_call M ''doshPointsAccount.findOrCreate'' (JStr (xa_user x))) (\<lambda>points.
       if points = JNull then throw undefined_row
       else if jfield ''usd_fiat_rewards_enabled'' points = JBool True then
         bind (ext_call M ''creditPoints'' (points_request x f ''FIRST_DEPOSIT_USD_MATCH'' (xc_provider X))) (\<lambda>matched.
         if matched = JNull then throw undefined_row
         else when_do (\<not> js_truthy (jfield ''is_duplicate'' matched))
          (andthen (ext_call M ''queueCreditFirstDepositReward'' (points_request x f ''FIRST_DEPOSIT_USD_MATCH'' (xc_provider X))) (ret ())))
       else ret ())))"

definition handleFirstDepositBonus :: "'s money_env \<Rightarrow> exchange_config \<Rightarrow> fwt_row \<Rightarrow> external_account \<Rightarrow> (('s, 'm) money_world_scheme, unit) io" where
  "handleFirstDepositBonus M X f x = locked_wait M (bonusKey (xa_user x)) (catch (creditFirstDeposit M X f x) (\<lambda>_. ret ()))"

definition handlePostSettlementActions :: "'s money_env \<Rightarrow> exchange_config \<Rightarrow> fwt_row \<Rightarrow> external_account \<Rightarrow> balance_payload
    \<Rightarrow> (('s, 'm) money_world_scheme, unit) io" where
  "handlePostSettlementActions M X f x p =
     andthen (when_do (ft_type f = F_DEPOSIT) (handleFirstDepositBonus M X f x))
     (when_do (ft_type f = F_REWARD) (catch (andthen (repo_update_id fwt_table (ft_id f) (\<lambda>r. r\<lparr>ft_settled := Some (bp_stamp p)\<rparr>)) (ret ())) (\<lambda>_. ret ())))"

text \<open>The new balance is written as it is reported, whatever it was, and the records completed.\<close>

definition settlement_meta :: "balance_payload \<Rightarrow> movement \<Rightarrow> string \<Rightarrow> (string \<times> json) list" where
  "settlement_meta p m tradeId = [(''settlement_trade_id'', JStr tradeId), (''settlement_balance'', JStr (bp_balance p)),
     (''settlement_asset'', JStr (bp_asset p)), (''settlement_timestamp'', JNum (bp_stamp p)), (''movement_id'', JStr (mv_id m))]"

definition writeBalance :: "'s money_env \<Rightarrow> wallet_row \<Rightarrow> int \<Rightarrow> string \<Rightarrow> fwt_row \<Rightarrow> (('s, 'm) money_world_scheme, unit) io" where
  "writeBalance M wallet newBalance tid f = andthen (updateBalanceWithTransaction M (fw_id wallet) (newBalance - fw_balance wallet) tid (ft_type f) COMPLETED
     (entry_meta (ft_id f)) wallet (fw_balance wallet) newBalance) (ret ())"

definition completeSettled :: "'s money_env \<Rightarrow> fwt_row \<Rightarrow> int \<Rightarrow> int \<Rightarrow> (string \<times> json) list \<Rightarrow> (('s, 'm) money_world_scheme, unit) io" where
  "completeSettled M f newBalance amount merged =
     andthen (when_do (ft_fee f = None) (andthen (repo_findOne tx_table (\<lambda>r. tx_id r = ft_transaction f)) (ret ())))
     (andthen (tx_updateStatus M (ft_transaction f) COMPLETED (Some (status_meta_of merged (Some newBalance) None)) all_notifications)
      (trackAggregate M (fiat_text (ft_type f)) amount))"

definition updateWalletBalanceFromPayload :: "'s money_env \<Rightarrow> exchange_config \<Rightarrow> balance_payload \<Rightarrow> string \<Rightarrow> external_account \<Rightarrow> movement
    \<Rightarrow> fwt_row \<Rightarrow> (('s, 'm) money_world_scheme, unit) io" where
  "updateWalletBalanceFromPayload M X p tradeId x m f =
     (if \<not> isSupportedStablecoin (xc_production X) (bp_asset p) then throw (PlainError (''Unsupported crypto asset: '' @ bp_asset p))
      else bind (handleClientTransferIdTransaction M (bp_client p) (xa_user x) (ft_id f) tradeId) (\<lambda>handled.
       if handled then ret ()
       else bind (getUserWallet M (xa_user x) (ft_currency f)) (\<lambda>wallet. bind get_now (\<lambda>t.
        let merged = mergeMetadataWithWebhookPayload (ft_meta f) (settlement_meta p m tradeId) ''account_balance.changed'' (balance_json p) t in
        andthen (transaction (bind (io_of (smallest_units (bp_balance p) ''USD'')) (\<lambda>newBalance.
          andthen (writeBalance M wallet newBalance (ft_transaction f) f)
          (andthen (repo_update_id fwt_table (ft_id f) (\<lambda>r. r\<lparr>ft_meta := merged\<rparr>))
           (when_do (ft_transaction f \<noteq> []) (completeSettled M f newBalance (newBalance - fw_balance wallet) merged))))))
        (handlePostSettlementActions M X f x p)))))"

section \<open>Transfers between users\<close>

definition determineCurrentTransaction :: "tx_row \<Rightarrow> tx_row \<Rightarrow> string \<Rightarrow> tx_row option" where
  "determineCurrentTransaction senderTx receiverTx userId =
     (if tx_user senderTx = userId then Some senderTx else if tx_user receiverTx = userId then Some receiverTx else None)"

definition reference_text :: "json \<Rightarrow> string" where
  "reference_text j = (case j of JStr s \<Rightarrow> s | JNull \<Rightarrow> ''undefined'' | _ \<Rightarrow> [])"

text \<open>The names of the two users are only shown in messages; a failing look-up is logged.\<close>

definition transferNames :: "'s money_env \<Rightarrow> tx_row \<Rightarrow> tx_row \<Rightarrow> (('s, 'm) dbase_scheme, unit) io" where
  "transferNames M current other = quietly (andthen (ext_call M ''findActiveById'' (JStr (tx_user current))) (ext_call M ''findActiveById'' (JStr (tx_user other))))"

definition settleTransfer :: "'s money_env \<Rightarrow> balance_payload \<Rightarrow> string \<Rightarrow> json \<Rightarrow> tx_row \<Rightarrow> fwt_row \<Rightarrow> wallet_row \<Rightarrow> int
    \<Rightarrow> (('s, 'm) money_world_scheme, unit) io" where
  "settleTransfer M p request client current f wallet t = transaction
     (bind (io_of (smallest_units (bp_balance p) (ft_currency f))) (\<lambda>newBalance.
      andthen (writeBalance M wallet newBalance (tx_id current) f)
      (andthen (repo_update_id fwt_table (ft_id f) (\<lambda>r. r\<lparr>ft_request_ref := Some request,
          ft_meta := mergeMetadataWithWebhookPayload (ft_meta f) [] ''account_balance.changed'' (balance_json p) t\<rparr>))
      (andthen (tx_updateStatus M (tx_id current) COMPLETED (Some (status_meta_of
          (mergeMetadataWithWebhookPayload (tx_meta current) [] ''account_balance.changed'' (balance_json p) t) (Some newBalance)
          (case client of JStr s \<Rightarrow> Some s | _ \<Rightarrow> None))) all_notifications)
       (trackAggregate M (JStr (type_text (tx_type current))) \<bar>newBalance - fw_balance wallet\<bar>)))))"

definition transferRecords :: "'s money_env \<Rightarrow> external_account \<Rightarrow> balance_payload \<Rightarrow> string \<Rightarrow> json \<Rightarrow> (('s, 'm) money_world_scheme, unit) io" where
  "transferRecords M x p request client =
     bind (repo_findOne tx_table (\<lambda>r. tx_reference r = reference_text client @ ''-OUT'')) (\<lambda>sent.
     bind (repo_findOne tx_table (\<lambda>r. tx_reference r = reference_text client @ ''-IN'')) (\<lambda>received.
     case (sent, received) of
       (Some s, Some r) \<Rightarrow> (case determineCurrentTransaction s r (xa_user x) of
           None \<Rightarrow> ret ()
         | Some current \<Rightarrow>
             bind (find_entry (\<lambda>e. ft_transaction e = tx_id current)) (\<lambda>f.
             bind (getUserWallet M (xa_user x) (ft_currency f)) (\<lambda>wallet. bind get_now (\<lambda>t.
             andthen (transferNames M current (if tx_id current = tx_id s then r else s))
             (settleTransfer M p request client current f wallet t)))))
     | _ \<Rightarrow> ret ()))"

definition processTransferMovement :: "'s money_env \<Rightarrow> movement \<Rightarrow> external_account \<Rightarrow> balance_payload \<Rightarrow> (('s, 'm) money_world_scheme, unit) io" where
  "processTransferMovement M m x p = (let request = the (mv_transfer m) in
     bind (attempt (ext_call M ''getTransferDetails'' (JStr request))) (\<lambda>details. case details of
         Inl _ \<Rightarrow> ret ()
       | Inr d \<Rightarrow> if d = JNull then ret ()
           else catch (transferRecords M x p request (jfield ''providerReference'' d)) (\<lambda>e. if is_not_found e then ret () else throw e)))"

section \<open>Payments and trades\<close>

definition updateFiatWalletTransactionIfNeeded :: "'s money_env \<Rightarrow> tx_row \<Rightarrow> tx_status \<Rightarrow> payment_payload \<Rightarrow> string option
    \<Rightarrow> (('s, 'm) exchange_world_scheme, unit) io" where
  "updateFiatWalletTransactionIfNeeded M t st p failureReason =
     (if st \<noteq> FAILED \<and> st \<noteq> CANCELLED then ret ()
      else catch (bind (find_entry (\<lambda>r. ft_transaction r = tx_id t)) (\<lambda>f. bind get_now (\<lambda>n.
        andthen (fwt_updateStatus M (ft_id f) st (no_meta\<lparr>sm_failure := failureReason, sm_metadata :=
          Some (mergeMetadataWithWebhookPayload (ft_meta f) (buildProviderMetadata p) ''payment_status_changed'' (payment_json p) n)\<rparr>))
        (when_do (tx_type t = T_EXCHANGE) (scheduleExchangeVirtualAccountDeletion M (tx_user t) (tx_id t)))))) (\<lambda>_. ret ()))"

definition updateFiatWalletTransactionSettled :: "tx_row \<Rightarrow> payment_payload \<Rightarrow> (('s, 'm) money_world_scheme, unit) io" where
  "updateFiatWalletTransactionSettled t p = catch
     (bind (find_entry (\<lambda>r. ft_transaction r = tx_id t)) (\<lambda>f. bind get_now (\<lambda>n.
      andthen (repo_update_id fwt_table (ft_id f) (\<lambda>r. r\<lparr>ft_settled := Some (pp_stamp p),
        ft_meta := mergeMetadataWithWebhookPayload (ft_meta f) (buildProviderMetadata p) ''payment_status_changed'' (payment_json p) n\<rparr>)) (ret ()))))
     (\<lambda>_. ret ())"

definition processPaymentStatusChanged :: "'s money_env \<Rightarrow> payment_payload \<Rightarrow> (('s, 'm) exchange_world_scheme, unit) io" where
  "processPaymentStatusChanged M p =
     (if pp_transaction p = [] \<or> pp_status p = [] then ret ()
      else bind (find_tx (\<lambda>r. tx_external r = Some (pp_transaction p))) (\<lambda>t.
       case mapPaymentStatusToTransactionStatus (to_lower (pp_status p)) of
         None \<Rightarrow> ret ()
       | Some st \<Rightarrow>
           (let failureReason = (if st = FAILED then Some (buildFailureReason (pp_reason_code p) (pp_reason p) (pp_ach p) (pp_rejected p)) else None) in
            bind get_now (\<lambda>n.
            andthen (attempt (find_entry (\<lambda>r. ft_transaction r = tx_id t)))
            (andthen (io_of (extractParticipantCode p))
             (if st = SETTLED then updateFiatWalletTransactionSettled t p
              else if tx_status t = COMPLETED \<and> st \<noteq> COMPLETED then ret ()
              else andthen (tx_updateStatus M (tx_id t) st (Some (no_meta\<lparr>sm_failure := failureReason, sm_metadata :=
                  Some (mergeMetadataWithWebhookPayload (tx_meta t) (buildProviderMetadata p) ''payment_status_changed'' (payment_json p) n)\<rparr>)) all_notifications)
               (updateFiatWalletTransactionIfNeeded M t st p failureReason)))))))"

definition trade_fields :: "trade_payload \<Rightarrow> (string \<times> json) list" where
  "trade_fields p = [(''zerohash_trade_state'', JStr (to_lower (tp_state p))), (''trade_id'', text_json (tp_trade p))] @ tp_fields p"

definition processTradeStatusChanged :: "'s money_env \<Rightarrow> trade_payload \<Rightarrow> (('s, 'm) money_world_scheme, unit) io" where
  "processTradeStatusChanged M p =
     (if tp_client p = [] \<or> tp_state p = [] then ret ()
      else case mapTradeStateToTransactionStatus (to_lower (tp_state p)) of
        None \<Rightarrow> ret ()
      | Some st \<Rightarrow> catch (bind (find_entry (\<lambda>r. ft_quote_ref r = Some (tp_client p))) (\<lambda>f. bind get_now (\<lambda>n.
          andthen (fwt_updateStatus M (ft_id f) st (no_meta\<lparr>
            sm_reference := (if given (tp_trade p) \<and> ft_reference f \<noteq> tp_trade p then tp_trade p else None),
            sm_metadata := Some (mergeMetadataWithWebhookPayload (ft_meta f) (trade_fields p) ''trade.status_changed'' (trade_json p) n)\<rparr>)) (ret ()))))
          (\<lambda>e. if is_not_found e then ret () else throw e))"

section \<open>The incoming naira\<close>

text \<open>Unlike the retry, a missing fee is no fee here, and a record that is there is kept.\<close>

definition is_incoming :: "tx_row \<Rightarrow> tx_row \<Rightarrow> bool" where
  "is_incoming parent r \<longleftrightarrow> tx_parent r = Some (tx_id parent) \<and> tx_asset r = ''NGN''"

definition webhook_kobo :: "rat \<Rightarrow> int \<Rightarrow> fiat_exchange option \<Rightarrow> int" where
  "webhook_kobo usd rate fees = \<lfloor>of_int rate * usd - (fee_in_ngn usd (Option.bind fees disbursement_fee) rate + fee_in_ngn usd (Option.bind fees partner_fee) rate)\<rfloor>"

definition webhook_tx :: "tx_row \<Rightarrow> rate_row \<Rightarrow> wallet_row \<Rightarrow> int \<Rightarrow> string \<Rightarrow> string \<Rightarrow> tx_row" where
  "webhook_tx parent rate wallet kobo reference sequenceId = blank_tx\<lparr>tx_type := T_EXCHANGE, tx_category := C_FIAT, tx_scope := S_INTERNAL, tx_status := INITIATED,
     tx_amount := kobo, tx_asset := ''NGN'', tx_before := fw_balance wallet, tx_after := fw_balance wallet + kobo, tx_reference := reference,
     tx_meta := [(''rate'', JNum (er_rate rate)), (''rate_id'', JStr (er_id rate)),
       (''shared_blockchain_transaction_ref'', jfield ''shared_blockchain_transaction_ref'' (JObj (tx_meta parent))),
       (''created_by_provider'', JStr ''zerohash'')],
     tx_parent := Some (tx_id parent), tx_description := ''Exchanged USD to NGN'', tx_external := Some sequenceId\<rparr>"

definition webhook_entry :: "exchange_config \<Rightarrow> wallet_row \<Rightarrow> int \<Rightarrow> string \<Rightarrow> tx_row \<Rightarrow> fwt_row" where
  "webhook_entry X wallet kobo sequenceId t = blank_fwt\<lparr>ft_transaction := tx_id t, ft_amount := kobo, ft_currency := ''NGN'', ft_status := PROCESSING,
     ft_wallet := fw_id wallet, ft_type := F_EXCHANGE, ft_reference := Some sequenceId, ft_before := fw_balance wallet,
     ft_after := fw_balance wallet + kobo, ft_meta := [(''source_currency'', JStr ''USD'')], ft_source := Some ''USD Wallet'',
     ft_destination := Some ''NGN Wallet'', ft_description := Some ''OnRamp USD to NGN'', ft_provider := Some (xc_exchange X)\<rparr>"

text \<open>
  Inside the database transaction the record is looked for again. The row \<^verbatim>\<open>updateStatus\<close> returns is fetched without its
  entry, so the status of the entry is never updated there.
\<close>

definition recordIncoming :: "'s money_env \<Rightarrow> exchange_config \<Rightarrow> tx_row \<Rightarrow> rate_row \<Rightarrow> wallet_row \<Rightarrow> int \<Rightarrow> string
    \<Rightarrow> (('s, 'm) money_world_scheme, tx_row) io" where
  "recordIncoming M X parent rate wallet kobo sequenceId = transaction
     (bind (repo_findOne tx_table (is_incoming parent)) (\<lambda>again. case again of
         Some t \<Rightarrow> bind (tx_updateStatus M (tx_id t) PROCESSING (Some no_meta) all_notifications) (\<lambda>u. case u of
             None \<Rightarrow> throw undefined_row | Some r \<Rightarrow> ret r)
       | None \<Rightarrow> bind (generateTransactionReference M) (\<lambda>reference.
           bind (tx_create M (tx_user parent) (webhook_tx parent rate wallet kobo reference sequenceId)) (\<lambda>t.
           andthen (fwt_create M (tx_user parent) (webhook_entry X wallet kobo sequenceId t)) (ret t)))))"

definition newIncoming :: "'s money_env \<Rightarrow> exchange_config \<Rightarrow> tx_row \<Rightarrow> string \<Rightarrow> (('s, 'm) exchange_world_scheme, tx_row option) io" where
  "newIncoming M X parent sequenceId =
     (let rateId = jfield ''rate_id'' (JObj (tx_meta parent)) in
      if \<not> js_truthy rateId then ret None
      else bind (repo_findOne rate_table (\<lambda>r. JStr (er_id r) = rateId)) (\<lambda>found. case found of
          None \<Rightarrow> ret None
        | Some rate \<Rightarrow> bind (repo_findOne rate_config_table (\<lambda>r. rc_provider r = xc_exchange X)) (\<lambda>config. case config of
              None \<Rightarrow> ret None
            | Some c \<Rightarrow>
                if \<not> rc_active c then ret None
                else bind (getUserWallet M (tx_user parent) ''NGN'') (\<lambda>wallet.
                 bind (recordIncoming M X parent rate wallet (webhook_kobo (of_int (tx_amount parent) / 100) (er_rate rate) (rc_exchange c)) sequenceId)
                  (\<lambda>t. ret (Some t))))))"

definition webhook_incoming :: "'s money_env \<Rightarrow> exchange_config \<Rightarrow> tx_row \<Rightarrow> string \<Rightarrow> (('s, 'm) exchange_world_scheme, tx_row option) io" where
  "webhook_incoming M X parent sequenceId = catch
     (bind (repo_findOne tx_table (is_incoming parent)) (\<lambda>existing. case existing of
         Some t \<Rightarrow> ret (Some t) | None \<Rightarrow> newIncoming M X parent sequenceId))
     (\<lambda>_. ret None)"

section \<open>Withdrawals\<close>

definition withdrawalKey :: "string \<Rightarrow> string" where
  "withdrawalKey request = ''withdrawal_'' @ request"

definition exchangeWebhookKey :: "string \<Rightarrow> string" where
  "exchangeWebhookKey tid = ''exchange_webhook_'' @ tid"

text \<open>The lock the three providers' webhooks of one exchange share: four minutes, sixty tries.\<close>

definition exchange_locked :: "'s money_env \<Rightarrow> string \<Rightarrow> (('s, 'm) dbase_scheme, 'a) io \<Rightarrow> (('s, 'm) dbase_scheme, 'a) io" where
  "exchange_locked M tid cb = bind (new_value M) (\<lambda>own. withLockN (m_redis M) own (exchangeWebhookKey tid) (Some 240000) 60 4000 cb)"

text \<open>What left the wallet is kept in its credit balance until the exchange provider has paid.\<close>

definition moveToCredit :: "string \<Rightarrow> int \<Rightarrow> (('s, 'm) money_world_scheme, unit) io" where
  "moveToCredit walletId change = bind (repo_findById wallet_table walletId) (\<lambda>sourceWallet. case sourceWallet of
       None \<Rightarrow> ret ()
     | Some sw \<Rightarrow> andthen (repo_update_id wallet_table (fw_id sw) (\<lambda>r. r\<lparr>fw_balance := fw_balance sw - \<bar>change\<bar>, fw_credit := fw_credit sw + \<bar>change\<bar>\<rparr>)) (ret ()))"

definition transaction_hash :: "json \<Rightarrow> (string \<times> json) list" where
  "transaction_hash details = (if js_truthy (jfield ''externalReference'' details) then [(''transactionHash'', jfield ''externalReference'' details)] else [])"

definition confirmed_statuses :: "string list" where
  "confirmed_statuses = [''confirmed'', ''completed'', ''settled'', ''approved'']"

definition is_confirmed :: "json \<Rightarrow> bool" where
  "is_confirmed details = (case jfield ''status'' details of JStr s \<Rightarrow> to_lower s \<in> set confirmed_statuses | _ \<Rightarrow> False)"

definition inline_tx :: "tx_row \<Rightarrow> fwt_row \<Rightarrow> external_account \<Rightarrow> json \<Rightarrow> int \<Rightarrow> tx_row \<Rightarrow> tx_row" where
  "inline_tx t f x details n r = r\<lparr>tx_status := COMPLETED, tx_meta := transaction_hash details @
     [(''balance_after'', JNum (ft_before f + ft_amount f)), (''completed_at'', JNum n), (''participant_code'', text_json (xa_participant x)),
      (''description'', JStr (tx_description t)), (''source'', text_json (ft_source f)), (''destination'', text_json (ft_destination f)),
      (''provider_fee'', provider_fee f (tx_meta t)), (''completed_via_inline_check'', JBool True)] @ tx_meta t\<rparr>"

definition inline_entry :: "fwt_row \<Rightarrow> json \<Rightarrow> int \<Rightarrow> fwt_row \<Rightarrow> fwt_row" where
  "inline_entry f details n r = r\<lparr>ft_status := COMPLETED, ft_after := ft_before f + ft_amount f, ft_completed := Some n,
     ft_meta := [(''completed_via_inline_check'', JBool True), (''withdrawal_status'', jfield ''status'' details), (''withdrawal_confirmed_at'', JNum n)] @ ft_meta f\<rparr>"

definition inlineSection :: "'s money_env \<Rightarrow> exchange_config \<Rightarrow> tx_row \<Rightarrow> fwt_row \<Rightarrow> external_account \<Rightarrow> json \<Rightarrow> string
    \<Rightarrow> (('s, 'm) exchange_world_scheme, unit) io" where
  "inlineSection M X t f x details request = bind (find_entry (\<lambda>r. ft_id r = ft_id f)) (\<lambda>current.
     if ft_status current = COMPLETED then ret ()
     else andthen (moveToCredit (ft_wallet f) (ft_amount f)) (bind get_now (\<lambda>n.
      andthen (repo_update_id tx_table (tx_id t) (inline_tx t f x details n))
      (andthen (trackAggregate M (fiat_text (ft_type f)) \<bar>ft_amount f\<bar>)
      (andthen (repo_update_id fwt_table (ft_id f) (inline_entry f details n))
      (andthen (webhook_incoming M X t request) (ret ())))))))"

definition checkAndCompleteUsdWithdrawal :: "'s money_env \<Rightarrow> exchange_config \<Rightarrow> string \<Rightarrow> string \<Rightarrow> (('s, 'm) webhook_world_scheme, bool) io" where
  "checkAndCompleteUsdWithdrawal M X tid userId = catch
     (bind (repo_findOne fwt_table (\<lambda>r. ft_transaction r = tid \<and> ft_user r = userId)) (\<lambda>found. case found of
         None \<Rightarrow> ret False
       | Some f \<Rightarrow>
           if \<not> given (ft_request_ref f) then ret False
           else (let request = the (ft_request_ref f) in
            bind (ext_call M ''getWithdrawalDetails'' (JStr request)) (\<lambda>details.
            if details = JNull then throw undefined_row
            else if \<not> is_confirmed details then ret False
            else bind (find_tx (\<lambda>r. tx_id r = tid)) (\<lambda>t.
             bind (find_external (\<lambda>x. xa_user x = userId)) (\<lambda>x.
             andthen (locked_wait M (withdrawalKey request) (inlineSection M X t f x details request)) (ret True)))))))
     (\<lambda>_. ret False)"

text \<open>The message the exchange provider would send is sent by the server itself, outside production.\<close>

definition mockPaymentCompleteWebhook :: "'s money_env \<Rightarrow> balance_payload \<Rightarrow> tx_row \<Rightarrow> (('s, 'm) dbase_scheme, unit) io" where
  "mockPaymentCompleteWebhook M p t = catch
     (case bp_movements p of
        [] \<Rightarrow> throw undefined_row
      | m # _ \<Rightarrow> andthen (ext_call M ''postYellowCardWebhook'' (JObj [(''event'', JStr ''payment.complete''), (''id'', JStr (mv_id m)),
          (''sequenceId'', JStr (tx_reference t)), (''status'', JStr ''completed''), (''executedAt'', JNum (bp_stamp p)), (''sessionId'', JStr (tx_id t))])) (ret ()))
     (\<lambda>_. throw (BadRequest ''Error mocking payment complete webhook''))"

definition confirmed_meta :: "json \<Rightarrow> balance_payload \<Rightarrow> (string \<times> json) list" where
  "confirmed_meta details p = [(''withdrawal_status'', jfield ''status'' details), (''withdrawal_confirmed_at'', JNum (bp_stamp p))]"

definition confirmed_status :: "tx_row \<Rightarrow> json \<Rightarrow> int \<Rightarrow> status_meta" where
  "confirmed_status t details after = no_meta\<lparr>sm_balance_after := Some after,
     sm_metadata := (if transaction_hash details = [] then None else Some (transaction_hash details @ tx_meta t))\<rparr>"

definition completeConfirmed :: "'s money_env \<Rightarrow> exchange_config \<Rightarrow> string \<Rightarrow> balance_payload \<Rightarrow> tx_row \<Rightarrow> fwt_row \<Rightarrow> json \<Rightarrow> int
    \<Rightarrow> (('s, 'm) exchange_world_scheme, unit) io" where
  "completeConfirmed M X request p t f details change = (let after = ft_before f + change in
     andthen (moveToCredit (ft_wallet f) change)
     (andthen (when_do (ft_transaction f \<noteq> [])
       (andthen (tx_updateStatus M (ft_transaction f) COMPLETED (Some (confirmed_status t details after)) no_notifications)
        (trackAggregate M (fiat_text (ft_type f)) \<bar>change\<bar>)))
     (bind get_now (\<lambda>n.
      andthen (repo_update_id fwt_table (ft_id f) (\<lambda>r. r\<lparr>ft_status := COMPLETED, ft_after := after, ft_completed := Some n,
        ft_meta := mergeMetadataWithWebhookPayload (ft_meta f) (confirmed_meta details p) ''account_balance.changed'' (balance_json p) n\<rparr>))
      (andthen (exchange_locked M (tx_id t) (andthen (webhook_incoming M X t request) (ret ())))
       (when_do (\<not> xc_production X) (mockPaymentCompleteWebhook M p t)))))))"

definition confirmWithdrawal :: "'s money_env \<Rightarrow> exchange_config \<Rightarrow> string \<Rightarrow> string \<Rightarrow> string \<Rightarrow> balance_payload
    \<Rightarrow> (('s, 'm) exchange_world_scheme, unit) io" where
  "confirmWithdrawal M X request userId change p =
     bind (find_entry (\<lambda>r. ft_request_ref r = Some request \<and> ft_user r = userId)) (\<lambda>f.
     bind (find_tx (\<lambda>r. tx_id r = ft_transaction f)) (\<lambda>t.
     if ft_status f = COMPLETED then ret ()
     else if ft_status f \<noteq> PROCESSING then ret ()
     else bind (ext_call M ''getWithdrawalDetails'' (JStr request)) (\<lambda>details.
      if details = JNull then throw undefined_row
      else bind (io_of (smallest_units change (ft_currency f))) (\<lambda>n. completeConfirmed M X request p t f details n))))"

definition processWithdrawalConfirmed :: "'s money_env \<Rightarrow> exchange_config \<Rightarrow> movement \<Rightarrow> external_account \<Rightarrow> balance_payload
    \<Rightarrow> (('s, 'm) exchange_world_scheme, unit) io" where
  "processWithdrawalConfirmed M X m x p = (let request = the (mv_withdrawal m) in
     locked_wait M (withdrawalKey request) (catch (confirmWithdrawal M X request (xa_user x) (mv_change m) p) (\<lambda>_. ret ())))"

definition pendingMain :: "fwt_row \<Rightarrow> (('s, 'm) money_world_scheme, bool) io" where
  "pendingMain f = (if ft_transaction f = [] then ret True
     else bind (repo_findById tx_table (ft_transaction f)) (\<lambda>main. case main of
         None \<Rightarrow> throw undefined_row
       | Some t \<Rightarrow> if tx_status t = COMPLETED then ret False
           else bind get_now (\<lambda>n. andthen (repo_update_id tx_table (ft_transaction f) (\<lambda>r. r\<lparr>tx_status := PROCESSING, tx_processed := Some n\<rparr>)) (ret True))))"

definition pendingSection :: "string \<Rightarrow> string \<Rightarrow> balance_payload \<Rightarrow> (('s, 'm) money_world_scheme, unit) io" where
  "pendingSection request userId p =
     bind (find_entry (\<lambda>r. ft_request_ref r = Some request \<and> ft_user r = userId)) (\<lambda>f.
     if ft_status f = COMPLETED then ret ()
     else bind (pendingMain f) (\<lambda>open_still.
      when_do open_still (bind get_now (\<lambda>n.
       andthen (repo_update_id fwt_table (ft_id f) (\<lambda>r. r\<lparr>ft_status := PROCESSING, ft_processed := Some n,
         ft_meta := mergeMetadataWithWebhookPayload (ft_meta f) [(''withdrawal_status'', JStr ''pending''), (''withdrawal_pending_at'', JNum (bp_stamp p))]
           ''account_balance.changed'' (balance_json p) n\<rparr>)) (ret ())))))"

definition processWithdrawalPending :: "'s money_env \<Rightarrow> movement \<Rightarrow> external_account \<Rightarrow> balance_payload \<Rightarrow> (('s, 'm) money_world_scheme, unit) io" where
  "processWithdrawalPending M m x p = (let request = the (mv_withdrawal m) in
     locked_wait M (withdrawalKey request) (catch (pendingSection request (xa_user x) p) (\<lambda>_. ret ())))"

section \<open>Deposits\<close>

definition placeholder_tx :: "string \<Rightarrow> int \<Rightarrow> string \<Rightarrow> int \<Rightarrow> tx_row" where
  "placeholder_tx depositReferenceId amount reference n = blank_tx\<lparr>tx_amount := amount, tx_asset := ''USD'', tx_status := RECONCILE, tx_before := 0,
     tx_after := 0, tx_reference := reference, tx_type := T_EXCHANGE, tx_category := C_FIAT, tx_scope := S_INTERNAL,
     tx_description := ''Exchange pending reconciliation'', tx_external := Some depositReferenceId,
     tx_meta := [(''zerohash_webhook_received_at'', JNum n)]\<rparr>"

definition createPlaceholderTransactionForReconciliation :: "'s money_env \<Rightarrow> string \<Rightarrow> string \<Rightarrow> int \<Rightarrow> (('s, 'm) money_world_scheme, tx_row) io" where
  "createPlaceholderTransactionForReconciliation M userId depositReferenceId amount =
     bind (generateTransactionReference M) (\<lambda>reference. bind get_now (\<lambda>n. tx_create M userId (placeholder_tx depositReferenceId amount reference n)))"

definition deposit_meta :: "string \<Rightarrow> balance_payload \<Rightarrow> chain_row \<Rightarrow> balance_meta" where
  "deposit_meta ref p c = \<lparr>bm_description = Some ''Crypto deposit to USD wallet'', bm_provider = Some ''zerohash'', bm_provider_reference = Some ref,
     bm_provider_fee = None, bm_provider_metadata = [(''deposit_reference_id'', JStr ref), (''asset'', JStr (bp_asset p)),
       (''account_group'', JStr (bp_group p)), (''movement_type'', JStr ''deposit''), (''webhook_timestamp'', JNum (bp_stamp p)),
       (''blockchain_wallet_transaction_id'', JStr (ch_id c))],
     bm_source = None, bm_destination = Some ''USD Fiat Wallet'', bm_fwt = None\<rparr>"

text \<open>The credit of a deposit the program knows, and then the exchange the deposit completes, or the record of one to be found.\<close>

definition creditDeposit :: "'s money_env \<Rightarrow> string \<Rightarrow> string \<Rightarrow> exn + int \<Rightarrow> balance_payload \<Rightarrow> chain_row \<Rightarrow> string \<Rightarrow> (('s, 'm) money_world_scheme, unit) io" where
  "creditDeposit M userId ref amount p c main = bind (getUserWallet M userId ''USD'') (\<lambda>wallet. bind (io_of amount) (\<lambda>a.
     andthen (updateBalance M (fw_id wallet) a main F_DEPOSIT COMPLETED (deposit_meta ref p c) False) (ret ())))"

definition settleDeposit :: "'s money_env \<Rightarrow> string \<Rightarrow> string \<Rightarrow> exn + int \<Rightarrow> (('s, 'm) money_world_scheme, unit) io" where
  "settleDeposit M userId ref amount = bind (repo_findOne tx_table (\<lambda>r. tx_external r = Some ref)) (\<lambda>found. case found of
       None \<Rightarrow> bind (io_of amount) (\<lambda>a. andthen (createPlaceholderTransactionForReconciliation M userId ref a) (ret ()))
     | Some t \<Rightarrow> if tx_type t = T_EXCHANGE then bind (io_of amount) (\<lambda>a. completeExchangeTransaction M t a) else ret ())"

definition depositSteps :: "'s money_env \<Rightarrow> string \<Rightarrow> string \<Rightarrow> exn + int \<Rightarrow> balance_payload \<Rightarrow> (('s, 'm) webhook_world_scheme, unit) io" where
  "depositSteps M userId ref amount p = bind (repo_findOne chain_table (\<lambda>c. ch_hash c = ref)) (\<lambda>chain. case chain of
       None \<Rightarrow> settleDeposit M userId ref amount
     | Some c \<Rightarrow> if \<not> given (ch_main c) then ret ()
         else andthen (creditDeposit M userId ref amount p c (the (ch_main c))) (settleDeposit M userId ref amount))"

definition processDepositMovement :: "'s money_env \<Rightarrow> movement \<Rightarrow> external_account \<Rightarrow> balance_payload \<Rightarrow> (('s, 'm) webhook_world_scheme, unit) io" where
  "processDepositMovement M m x p =
     catch (depositSteps M (xa_user x) (the (mv_deposit m)) (smallest_units (mv_change m) ''USD'') p) (\<lambda>_. ret ())"

section \<open>Movements\<close>

definition processSettlement :: "'s money_env \<Rightarrow> exchange_config \<Rightarrow> movement \<Rightarrow> external_account \<Rightarrow> balance_payload
    \<Rightarrow> (('s, 'm) money_world_scheme, unit) io" where
  "processSettlement M X m x p = (let tradeId = the (mv_trade m) in
     bind (findFiatWalletTransactionByTradeId x tradeId) (\<lambda>first.
     bind (case first of Some f \<Rightarrow> ret (Some f) | None \<Rightarrow> andthen (sleep 1000) (findFiatWalletTransactionByTradeId x tradeId)) (\<lambda>found.
     case found of None \<Rightarrow> ret () | Some f \<Rightarrow> updateWalletBalanceFromPayload M X p tradeId x m f)))"

definition processMovement :: "'s money_env \<Rightarrow> exchange_config \<Rightarrow> external_account \<Rightarrow> balance_payload \<Rightarrow> movement
    \<Rightarrow> (('s, 'm) webhook_world_scheme, unit) io" where
  "processMovement M X x p m =
     (if \<not> isValidMovement m then ret ()
      else if js_Number (mv_change m) = Some 0 then ret ()
      else catch
       (if mv_type m \<in> {''final_settlement'', ''final_settlement_outstanding''} then processSettlement M X m x p
        else if mv_type m = ''transfer'' then processTransferMovement M m x p
        else if mv_type m = ''withdrawal_confirmed'' then processWithdrawalConfirmed M X m x p
        else if mv_type m = ''withdrawal_pending'' then processWithdrawalPending M m x p
        else processDepositMovement M m x p)
       (\<lambda>_. ret ()))"

primrec processMovements :: "'s money_env \<Rightarrow> exchange_config \<Rightarrow> external_account \<Rightarrow> balance_payload \<Rightarrow> movement list
    \<Rightarrow> (('s, 'm) webhook_world_scheme, unit) io" where
  "processMovements M X x p [] = ret ()"
| "processMovements M X x p (m # ms) = andthen (processMovement M X x p m) (processMovements M X x p ms)"

definition processAccountBalanceChanged :: "'s money_env \<Rightarrow> exchange_config \<Rightarrow> balance_payload \<Rightarrow> (('s, 'm) webhook_world_scheme, unit) io" where
  "processAccountBalanceChanged M X p =
     (if \<not> isValidBalanceChangePayload (xc_production X) p then ret ()
      else bind (getExternalAccount (bp_participant p)) (\<lambda>found. case found of
          None \<Rightarrow> ret () | Some x \<Rightarrow> processMovements M X x p (bp_movements p)))"

datatype zerohash_event = ParticipantStatus string "string option" | ExternalAccountStatus string string | ParticipantUpdated
  | AccountBalance balance_payload | PaymentStatus payment_payload | TradeStatus trade_payload | UnknownEvent

fun zerohash_processWebhook :: "'s money_env \<Rightarrow> exchange_config \<Rightarrow> zerohash_event \<Rightarrow> (('s, 'm) webhook_world_scheme, unit) io" where
  "zerohash_processWebhook M X (ParticipantStatus u s) = processParticipantStatusChanged M u s"
| "zerohash_processWebhook M X (ExternalAccountStatus i s) = processExternalAccountStatusChanged M i s"
| "zerohash_processWebhook M X ParticipantUpdated = ret ()"
| "zerohash_processWebhook M X (AccountBalance p) = processAccountBalanceChanged M X p"
| "zerohash_processWebhook M X (PaymentStatus p) = processPaymentStatusChanged M p"
| "zerohash_processWebhook M X (TradeStatus p) = processTradeStatusChanged M p"
| "zerohash_processWebhook M X UnknownEvent = ret ()"

end
