(* ===== verification/YellowCard.thy ===== *)
theory YellowCard
  imports Zerohash NgUsdExchange
begin

text \<open>
  The webhooks of the exchange provider: \<^verbatim>\<open>YellowCardWebhookService\<close>
  (\<^verbatim>\<open>src/modules/webhooks/yellowcard/yellowcard-webhook.service.ts\<close>). Payments report that the provider has paid out
  the naira of an exchange of dollars, collections that it has received the naira of an exchange into dollars,
  settlements that it has received dollars. The job of the second version of the exchange, whose records a completed
  collection completes, is \<^verbatim>\<open>execute-new-ng-usd-exchange.processor.ts\<close>.
\<close>

section \<open>Payloads and look-ups\<close>

record yc_payload =
  yc_event :: string
  yc_type :: "string option"
  yc_hash :: "string option"
  yc_sequence :: string
  yc_settlement_hash :: "string option"

datatype yc_category = SETTLEMENT | PAYMENT | COLLECTION

definition getEventCategory :: "string \<Rightarrow> yc_category option" where
  "getEventCategory event = map_of [(''collection'', COLLECTION), (''payment'', PAYMENT), (''settlement'', SETTLEMENT)]
     (takeWhile (\<lambda>c. c \<noteq> CHR ''.'') (to_lower event))"

definition isEventType :: "string \<Rightarrow> string \<Rightarrow> bool" where
  "isEventType event expected \<longleftrightarrow> event \<noteq> [] \<and> expected \<noteq> [] \<and> to_lower event = to_lower expected"

text \<open>
  The repository leaves out the conditions whose value is undefined (\<^verbatim>\<open>skipUndefined\<close>): without a value every row
  matches, and the one updated last is found.
\<close>

definition field_matches :: "string option \<Rightarrow> string option \<Rightarrow> bool" where
  "field_matches wanted x = (wanted = None \<or> x = wanted)"

definition text_of :: "json \<Rightarrow> string option" where
  "text_of j = (case j of JStr s \<Rightarrow> Some s | _ \<Rightarrow> None)"

definition getTransactionBySequenceRef :: "string \<Rightarrow> (('s, 'm) money_world_scheme, tx_row) io" where
  "getTransactionBySequenceRef ref = bind (repo_findOne tx_table (\<lambda>r. tx_reference r = ref)) (\<lambda>found. case found of
     None \<Rightarrow> throw (BadRequest ''Transaction not found'') | Some t \<Rightarrow> ret t)"

text \<open>A transaction and its entry, in one database transaction and without a message.\<close>

definition updateBothStatuses :: "'s money_env \<Rightarrow> string \<Rightarrow> tx_status \<Rightarrow> (('s, 'm) money_world_scheme, unit) io" where
  "updateBothStatuses M tid st = bind (find_entry (\<lambda>r. ft_transaction r = tid)) (\<lambda>f. transaction
     (andthen (tx_updateStatus M tid st (Some no_meta) no_notifications) (andthen (fwt_updateStatus M (ft_id f) st no_meta) (ret ()))))"

definition topup_request :: "string \<Rightarrow> int \<Rightarrow> string \<Rightarrow> json \<Rightarrow> string \<Rightarrow> json" where
  "topup_request account amount from_account reference from_name = JObj [(''account_number'', JStr account), (''amount'', JDec (of_int amount / 100)),
     (''source_account_number'', JStr from_account), (''reference_number'', reference), (''source_account_name'', JStr from_name),
     (''description'', JStr ''OnRamp USD to NGN'')]"

section \<open>Settlements\<close>

definition handleWalletWithdrawal :: "'s money_env \<Rightarrow> tx_row \<Rightarrow> (('s, 'm) exchange_world_scheme, unit) io" where
  "handleWalletWithdrawal M t = bind (find_tx (\<lambda>r. tx_parent r = Some (tx_id t))) (\<lambda>child.
     if tx_status t = COMPLETED \<and> tx_status child = PROCESSING then throw (BadRequest ''This Transaction is processing Already'')
     else bind (find_entry (\<lambda>r. ft_transaction r = tx_id child)) (\<lambda>entry.
      andthen (updateBothStatuses M (tx_id child) PENDING)
      (bind (findOneByUserIdOrThrow M (tx_user t)) (\<lambda>account.
       andthen (ext_call M ''pagaLedgerAccount.topUp'' (topup_request (ac_number account) (ft_amount entry) ''0810130115'' (text_json (ft_reference entry)) ''Yellow Card Intl''))
        (ret ())))))"

definition handleSuccessfulSettlementTopUp :: "'s money_env \<Rightarrow> yc_payload \<Rightarrow> (('s, 'm) exchange_world_scheme, unit) io" where
  "handleSuccessfulSettlementTopUp M p = bind (find_tx (\<lambda>r. field_matches (yc_hash p) (tx_external r))) (handleWalletWithdrawal M)"

definition handleSettlement :: "'s money_env \<Rightarrow> yc_payload \<Rightarrow> (('s, 'm) exchange_world_scheme, unit) io" where
  "handleSettlement M p = (if map_option to_lower (yc_type p) = Some ''topup'' \<and> to_lower (yc_event p) = ''settlement.complete''
     then handleSuccessfulSettlementTopUp M p else ret ())"

section \<open>Payments\<close>

text \<open>The incoming naira is recorded by the webhooks of the dollar provider; it may not be there yet.\<close>

fun childTries :: "string \<Rightarrow> int \<Rightarrow> nat \<Rightarrow> (('s, 'm) money_world_scheme, (tx_row \<times> fwt_row option) option) io" where
  "childTries parent delay 0 = ret None"
| "childTries parent delay (Suc n) = bind (repo_findOne tx_table (\<lambda>r. tx_parent r = Some parent)) (\<lambda>child. case child of
      Some c \<Rightarrow> bind get_state (\<lambda>w. ret (Some (c, List.find (\<lambda>f. ft_transaction f = tx_id c) (fwts w))))
    | None \<Rightarrow> if n = 0 then ret None else andthen (sleep delay) (childTries parent delay n))"

definition child_tries :: "exchange_config \<Rightarrow> nat" where
  "child_tries X = (if xc_production X then 30 else 1)"

definition child_delay :: "exchange_config \<Rightarrow> int" where
  "child_delay X = (if xc_production X then 4000 else 100)"

definition mockTopUp :: "'s money_env \<Rightarrow> tx_row \<Rightarrow> tx_row \<Rightarrow> (('s, 'm) exchange_world_scheme, unit) io" where
  "mockTopUp M parent child = catch
     (bind (findOrCreateVirtualAccount M (tx_user parent) \<lparr>aq_wallet = None, aq_transaction = Some (tx_id parent), aq_bvn = None\<rparr> EXCHANGE_ACCOUNT) (\<lambda>account.
      andthen (ext_call M ''pagaLedgerAccount.topUp'' (topup_request (ac_number account) (tx_amount child) ''1100056479'' (JStr (tx_reference child)) ''USDC Wallet''))
       (ret ())))
     (\<lambda>_. ret ())"

definition updateIncomingTransaction :: "'s money_env \<Rightarrow> exchange_config \<Rightarrow> tx_row \<Rightarrow> (('s, 'm) exchange_world_scheme, unit) io" where
  "updateIncomingTransaction M X parent = catch
     (bind (childTries (tx_id parent) (child_delay X) (child_tries X)) (\<lambda>found. case found of
         None \<Rightarrow> ret ()
       | Some (child, entry) \<Rightarrow>
           if tx_status child = COMPLETED then ret ()
           else andthen (tx_updateStatus M (tx_id child) PROCESSING (Some no_meta) all_notifications)
            (andthen (case entry of None \<Rightarrow> ret () | Some f \<Rightarrow> andthen (fwt_updateStatus M (ft_id f) PROCESSING no_meta) (ret ()))
             (when_do (\<not> xc_production X) (mockTopUp M parent child)))))
     (\<lambda>e. throw (BadRequest (message e)))"

text \<open>The amount of the entry is negative: what the provider has paid out leaves the credit balance.\<close>

definition deductUserUSDCreditBalance :: "tx_row \<Rightarrow> (('s, 'm) money_world_scheme, unit) io" where
  "deductUserUSDCreditBalance t = catch
     (bind (repo_findOne fwt_table (\<lambda>r. ft_transaction r = tx_id t)) (\<lambda>entry. case entry of
         None \<Rightarrow> throw undefined_row
       | Some f \<Rightarrow> bind get_state (\<lambda>w. case List.find (\<lambda>v. fw_id v = ft_wallet f) (wallets w) of
             None \<Rightarrow> throw undefined_row
           | Some v \<Rightarrow> andthen (repo_update_id wallet_table (fw_id v) (\<lambda>r. r\<lparr>fw_credit := fw_credit v + ft_amount f\<rparr>)) (ret ()))))
     (\<lambda>_. throw (BadRequest ''Error deducting user USDC credit balance''))"

definition completePayment :: "'s money_env \<Rightarrow> exchange_config \<Rightarrow> tx_row \<Rightarrow> (('s, 'm) webhook_world_scheme, unit) io" where
  "completePayment M X t = catch
     (exchange_locked M (tx_id t)
       (andthen (when_do (tx_status t \<noteq> COMPLETED)
         (andthen (checkAndCompleteUsdWithdrawal M X (tx_id t) (tx_user t)) (andthen (reconcileUsdBalanceFromProvider M (xc_underlying X) (tx_user t)) (ret ()))))
        (updateIncomingTransaction M X t)))
     (\<lambda>e. throw (BadRequest (message e)))"

definition handlePaymentComplete :: "'s money_env \<Rightarrow> exchange_config \<Rightarrow> yc_payload \<Rightarrow> (('s, 'm) webhook_world_scheme, unit) io" where
  "handlePaymentComplete M X p = bind (getTransactionBySequenceRef (yc_sequence p)) (\<lambda>t.
     andthen (deductUserUSDCreditBalance t) (completePayment M X t))"

text \<open>A missing child is an exception of the look-up, so no failed one is ever created.\<close>

definition handlePaymentFailed :: "'s money_env \<Rightarrow> yc_payload \<Rightarrow> (('s, 'm) exchange_world_scheme, unit) io" where
  "handlePaymentFailed M p = bind (getTransactionBySequenceRef (yc_sequence p)) (\<lambda>parent.
     bind (find_tx (\<lambda>r. tx_parent r = Some (tx_id parent))) (\<lambda>child.
     if tx_status child = COMPLETED then ret ()
     else andthen (updateBothStatuses M (tx_id child) FAILED) (scheduleExchangeVirtualAccountDeletion M (tx_user parent) (tx_id parent))))"

definition handlePaymentCancelled :: "'s money_env \<Rightarrow> yc_payload \<Rightarrow> (('s, 'm) exchange_world_scheme, unit) io" where
  "handlePaymentCancelled M p = bind (getTransactionBySequenceRef (yc_sequence p)) (\<lambda>t.
     andthen (updateBothStatuses M (tx_id t) CANCELLED) (scheduleExchangeVirtualAccountDeletion M (tx_user t) (tx_id t)))"

definition handlePaymentExpired :: "'s money_env \<Rightarrow> yc_payload \<Rightarrow> (('s, 'm) exchange_world_scheme, unit) io" where
  "handlePaymentExpired M p = bind (find_tx (\<lambda>r. tx_reference r = yc_sequence p)) (\<lambda>t.
     andthen (updateBothStatuses M (tx_id t) FAILED) (scheduleExchangeVirtualAccountDeletion M (tx_user t) (tx_id t)))"

definition handleExchangeWebhook :: "'s money_env \<Rightarrow> exchange_config \<Rightarrow> yc_payload \<Rightarrow> (('s, 'm) webhook_world_scheme, unit) io" where
  "handleExchangeWebhook M X p = catch
     (bind (ext_call M ''getPayOutRequestByTransactionRef'' (JStr (yc_sequence p))) (\<lambda>request.
      if \<not> js_truthy request then throw (BadRequest ''Payment transaction not found'')
      else if isEventType (yc_event p) ''PAYMENT.COMPLETE'' then handlePaymentComplete M X p
      else if isEventType (yc_event p) ''PAYMENT.FAILED'' then handlePaymentFailed M p
      else if isEventType (yc_event p) ''PAYMENT.CANCELLED'' then handlePaymentCancelled M p
      else if isEventType (yc_event p) ''PAYMENT.EXPIRED'' then handlePaymentExpired M p
      else ret ()))
     (\<lambda>_. throw (BadRequest ''Error handling payment webhook''))"

section \<open>Collections\<close>

text \<open>The records of the exchange, by the job of its second version.\<close>

definition updateAllSourceTransactionsToSuccessful :: "'s money_env \<Rightarrow> tx_row \<Rightarrow> fwt_row option \<Rightarrow> (('s, 'm) money_world_scheme, unit) io" where
  "updateAllSourceTransactionsToSuccessful M t entry = transaction
     (andthen (tx_updateStatus M (tx_id t) COMPLETED (Some no_meta) no_notifications)
      (case entry of None \<Rightarrow> throw undefined_row | Some f \<Rightarrow> andthen (fwt_updateStatus M (ft_id f) COMPLETED no_meta) (ret ())))"

definition collection_tx :: "json \<Rightarrow> (('s, 'm) money_world_scheme, tx_row) io" where
  "collection_tx c = find_tx (\<lambda>r. field_matches (text_of (jfield ''ref'' c)) (tx_external r))"

definition handleCollectionCompleted :: "'s money_env \<Rightarrow> json \<Rightarrow> (('s, 'm) exchange_world_scheme, unit) io" where
  "handleCollectionCompleted M c = bind (find_tx (\<lambda>r. field_matches (text_of (jfield ''transactionRef'' c)) (Some (tx_reference r)))) (\<lambda>t.
     bind (repo_findOne fwt_table (\<lambda>r. ft_transaction r = tx_id t)) (\<lambda>entry.
     andthen (updateAllSourceTransactionsToSuccessful M t entry) (releaseMoneyFromEscrow (m_redis M) (tx_id t))))"

definition handleCollectionFailed :: "'s money_env \<Rightarrow> json \<Rightarrow> (('s, 'm) exchange_world_scheme, unit) io" where
  "handleCollectionFailed M c = bind (collection_tx c) (\<lambda>t. updateSourceTransactionsToFailed M (tx_id t) ''Collection failed'')"

definition handleCollectionCancelled :: "'s money_env \<Rightarrow> json \<Rightarrow> (('s, 'm) exchange_world_scheme, unit) io" where
  "handleCollectionCancelled M c = bind (collection_tx c) (\<lambda>t. updateSourceTransactionsToFailed M (tx_id t) ''Collection cancelled or expired'')"

definition handleCollectionSettlementProcessing :: "'s money_env \<Rightarrow> json \<Rightarrow> (('s, 'm) exchange_world_scheme, unit) io" where
  "handleCollectionSettlementProcessing M c = bind (collection_tx c) (\<lambda>t. bind (find_tx (\<lambda>r. tx_parent r = Some (tx_id t))) (\<lambda>receiver.
     updateBothStatuses M (tx_id receiver) PROCESSING))"

definition currency_field :: "string \<Rightarrow> string \<Rightarrow> tx_row \<Rightarrow> string" where
  "currency_field k other t = (let s = js_text (jfield k (JObj (tx_meta t))) in if s = [] then other else to_upper s)"

definition usd_units :: "tx_row \<Rightarrow> string \<Rightarrow> exn + int" where
  "usd_units t c = (case js_number ''usd_amount'' (JObj (tx_meta t)) of
      Some x \<Rightarrow> formatCurrencyAmountToSmallestUnit x c
    | None \<Rightarrow> Inl (DbError ''invalid input syntax for type bigint: NaN''))"

text \<open>The metadata of the two records, and what the entry of the user's dollars holds.\<close>

definition collected_meta :: "tx_row \<Rightarrow> person \<Rightarrow> string \<Rightarrow> string \<Rightarrow> (string \<times> json) list" where
  "collected_meta parent u from_c to_c = [(''source_user_id'', JStr (pn_id u)), (''source_currency'', JStr from_c), (''destination_user_id'', JStr (pn_id u)),
     (''destination_currency'', JStr to_c), (''destination_name'', JStr (person_name u)),
     (''destination_wallet_address'', jfield ''destination_wallet_address'' (JObj (tx_meta parent))), (''rate_id'', jfield ''rate_id'' (JObj (tx_meta parent))),
     (''from'', JStr from_c), (''to'', JStr to_c), (''rate'', jfield ''rate'' (JObj (tx_meta parent)))]"

definition collected_entry :: "tx_row \<Rightarrow> person \<Rightarrow> string \<Rightarrow> string \<Rightarrow> wallet_row \<Rightarrow> int \<Rightarrow> string \<Rightarrow> string option \<Rightarrow> fwt_row" where
  "collected_entry parent u from_c to_c wallet amount tid reference = blank_fwt\<lparr>ft_amount := amount, ft_currency := to_c, ft_status := INITIATED,
     ft_wallet := fw_id wallet, ft_transaction := tid, ft_type := F_EXCHANGE, ft_reference := reference,
     ft_before := fw_balance wallet, ft_after := fw_balance wallet + amount,
     ft_meta := [(''source_user_id'', JStr (pn_id u)), (''source_currency'', JStr from_c), (''source_name'', JStr (person_name u)),
       (''destination_user_id'', JStr (pn_id u)), (''destination_currency'', JStr to_c), (''destination_name'', JStr (person_name u)),
       (''destination_wallet_address'', jfield ''destination_wallet_address'' (JObj (tx_meta parent)))],
     ft_destination := Some (person_name u), ft_source := Some (person_name u), ft_description := Some (exchange_text from_c)\<rparr>"

definition reconciled_row :: "tx_row \<Rightarrow> tx_row \<Rightarrow> person \<Rightarrow> string \<Rightarrow> string \<Rightarrow> wallet_row \<Rightarrow> int \<Rightarrow> tx_row \<Rightarrow> tx_row" where
  "reconciled_row placeholder parent u from_c to_c wallet n r = r\<lparr>tx_amount := tx_amount placeholder, tx_parent := Some (tx_id parent), tx_asset := to_c,
     tx_status := PENDING, tx_before := fw_balance wallet, tx_after := fw_balance wallet + tx_amount placeholder, tx_type := T_EXCHANGE,
     tx_category := C_FIAT, tx_scope := S_INTERNAL, tx_description := exchange_text from_c,
     tx_meta := [(''yellowcard_webhook_received_at'', JNum n), (''reconciled'', JBool True)] @ collected_meta parent u from_c to_c @ tx_meta placeholder\<rparr>"

definition reconcilePlaceholderTransaction :: "'s money_env \<Rightarrow> tx_row \<Rightarrow> tx_row \<Rightarrow> person \<Rightarrow> wallet_row \<Rightarrow> string \<Rightarrow> string
    \<Rightarrow> (('s, 'm) money_world_scheme, unit) io" where
  "reconcilePlaceholderTransaction M placeholder parent u wallet from_c to_c = catch
     (bind (transaction (bind get_now (\<lambda>n.
        bind (repo_update_id tx_table (tx_id placeholder) (reconciled_row placeholder parent u from_c to_c wallet n)) (\<lambda>updated. case updated of
          None \<Rightarrow> throw undefined_row
        | Some t \<Rightarrow> andthen (fwt_create M (pn_id u) (collected_entry parent u from_c to_c wallet (tx_amount placeholder) (tx_id t) (tx_external placeholder)))
            (ret t))))) (\<lambda>t.
      completeExchangeTransaction M t (tx_amount placeholder)))
     (\<lambda>_. throw (BadRequest ''Error reconciling placeholder transaction''))"

definition collected_tx :: "tx_row \<Rightarrow> person \<Rightarrow> string \<Rightarrow> string \<Rightarrow> wallet_row \<Rightarrow> int \<Rightarrow> string \<Rightarrow> string option \<Rightarrow> tx_row" where
  "collected_tx parent u from_c to_c wallet amount reference hash = blank_tx\<lparr>tx_amount := amount, tx_parent := Some (tx_id parent), tx_asset := to_c,
     tx_status := PENDING, tx_before := fw_balance wallet, tx_after := fw_balance wallet + amount, tx_reference := reference, tx_type := T_EXCHANGE,
     tx_category := C_FIAT, tx_scope := S_INTERNAL, tx_description := exchange_text from_c, tx_external := hash,
     tx_meta := collected_meta parent u from_c to_c\<rparr>"

definition newPendingUSD :: "'s money_env \<Rightarrow> tx_row \<Rightarrow> person \<Rightarrow> wallet_row \<Rightarrow> string \<Rightarrow> string \<Rightarrow> string option \<Rightarrow> (('s, 'm) money_world_scheme, unit) io" where
  "newPendingUSD M parent u wallet from_c to_c hash = transaction
     (bind (generateTransactionReference M) (\<lambda>reference. bind (io_of (usd_units parent to_c)) (\<lambda>amount.
      bind (tx_create M (pn_id u) (collected_tx parent u from_c to_c wallet amount reference hash)) (\<lambda>t.
      andthen (fwt_create M (pn_id u) (collected_entry parent u from_c to_c wallet amount (tx_id t) (Some (tx_reference t)))) (ret ())))))"

definition createPendingUSDTransaction :: "'s money_env \<Rightarrow> tx_row \<Rightarrow> string option \<Rightarrow> string option \<Rightarrow> (('s, 'm) money_world_scheme, unit) io" where
  "createPendingUSDTransaction M parent hash settlementHash = catch
     (bind (ext_call M ''userService.findByUserId'' (JStr (tx_user parent))) (\<lambda>user.
      if user = JNull then throw undefined_row
      else let u = person_of user; from_c = currency_field ''from'' ''NGN'' parent; to_c = currency_field ''to'' ''USD'' parent;
               h = (if given settlementHash then settlementHash else hash) in
       bind (getUserWallet M (pn_id u) to_c) (\<lambda>wallet.
       bind (repo_findOne tx_table (\<lambda>r. field_matches h (tx_external r) \<and> tx_status r = RECONCILE \<and> tx_type r = T_EXCHANGE)) (\<lambda>existing. case existing of
           Some placeholder \<Rightarrow> reconcilePlaceholderTransaction M placeholder parent u wallet from_c to_c
         | None \<Rightarrow> newPendingUSD M parent u wallet from_c to_c h))))
     (\<lambda>_. throw (BadRequest ''Error creating pending USD transaction''))"

definition external_transfer :: "json \<Rightarrow> tx_row \<Rightarrow> json" where
  "external_transfer c parent = JObj [(''amount'', jfield ''cryptoAmount'' (jfield ''receiverCryptoInfo'' c)),
     (''destinationAddress'', jfield ''destination_wallet_address'' (JObj (tx_meta parent)))]"

definition handleCollectionSettlementCompleted :: "'s money_env \<Rightarrow> exchange_config \<Rightarrow> json \<Rightarrow> yc_payload \<Rightarrow> (('s, 'm) exchange_world_scheme, unit) io" where
  "handleCollectionSettlementCompleted M X c p = bind (collection_tx c) (\<lambda>parent.
     if xc_production X then createPendingUSDTransaction M parent (yc_hash p) (yc_settlement_hash p)
     else if jfield ''receiverCryptoInfo'' c = JNull then throw undefined_row
     else bind (ext_call M ''fireblocks.externalTransfer'' (external_transfer c parent)) (\<lambda>sent.
      if sent = JNull then throw undefined_row
      else createPendingUSDTransaction M parent (text_of (jfield ''transactionId'' sent)) (yc_settlement_hash p)))"

definition handleCollectionWebhook :: "'s money_env \<Rightarrow> exchange_config \<Rightarrow> yc_payload \<Rightarrow> (('s, 'm) exchange_world_scheme, unit) io" where
  "handleCollectionWebhook M X p = bind (ext_call M ''getPayInRequestByTransactionRef'' (JStr (yc_sequence p))) (\<lambda>c.
     if \<not> js_truthy c then throw (BadRequest ''Collection not found'')
     else if isEventType (yc_event p) ''COLLECTION.COMPLETE'' then handleCollectionCompleted M c
     else if isEventType (yc_event p) ''COLLECTION.FAILED'' then handleCollectionFailed M c
     else if isEventType (yc_event p) ''COLLECTION.SETTLEMENT_PENDING'' then handleCollectionSettlementProcessing M c
     else if isEventType (yc_event p) ''COLLECTION.SETTLEMENT_COMPLETE'' then handleCollectionSettlementCompleted M X c p
     else if isEventType (yc_event p) ''COLLECTION.CANCELLED'' \<or> isEventType (yc_event p) ''COLLECTION.EXPIRED'' then handleCollectionCancelled M c
     else ret ())"

section \<open>The entry\<close>

definition yellowcard_processWebhook :: "'s money_env \<Rightarrow> exchange_config \<Rightarrow> yc_payload \<Rightarrow> (('s, 'm) webhook_world_scheme, unit) io" where
  "yellowcard_processWebhook M X p = (case getEventCategory (yc_event p) of
       Some SETTLEMENT \<Rightarrow> handleSettlement M p
     | Some PAYMENT \<Rightarrow> handleExchangeWebhook M X p
     | Some COLLECTION \<Rightarrow> handleCollectionWebhook M X p
     | None \<Rightarrow> ret ())"

end
