(* ===== verification/PagaLedger.thy ===== *)
theory PagaLedger
  imports YellowCard
begin

text \<open>
  The books of naira at the bank: \<^verbatim>\<open>PagaLedgerAccountService\<close> and \<^verbatim>\<open>PagaLedgerTransactionService\<close>
  (\<^verbatim>\<open>src/modules/pagaLedgerAccount/\<close>, \<^verbatim>\<open>src/modules/pagaLedgerTransaction/\<close>). Every virtual account has
  a ledger account, whose balance moves with a ledger transaction; a deposit records one that is pending, adds the amount
  and marks it successful. The state adds the two tables. The exchanges of naira into dollars call the same services as
  collaborators.
\<close>

section \<open>Rows\<close>

datatype ledger_status = L_PENDING | L_SUCCESSFUL | L_FAILED

datatype ledger_type = CREDIT | DEBIT

record ledger_account =
  la_id :: string
  la_email :: string
  la_phone :: "string option"
  la_number :: string
  la_name :: string
  la_balance :: int

record ledger_tx =
  lt_id :: string
  lt_account :: string
  lt_amount :: int
  lt_fee :: int
  lt_status :: ledger_status
  lt_reference :: string
  lt_tx_reference :: string
  lt_before :: int
  lt_after :: int
  lt_type :: ledger_type
  lt_currency :: string
  lt_description :: "string option"

record 's ledger_world = "'s webhook_world" +
  ledger_accounts :: "ledger_account list"
  ledger_txs :: "ledger_tx list"

definition ledger_table :: "(ledger_account, ('s, 'm) ledger_world_scheme) table" where
  "ledger_table = \<lparr>rows_of = ledger_accounts, set_rows = (\<lambda>rs w. w\<lparr>ledger_accounts := rs\<rparr>), row_id = la_id\<rparr>"

definition ledger_tx_table :: "(ledger_tx, ('s, 'm) ledger_world_scheme) table" where
  "ledger_tx_table = \<lparr>rows_of = ledger_txs, set_rows = (\<lambda>rs w. w\<lparr>ledger_txs := rs\<rparr>), row_id = lt_id\<rparr>"

interpretation ledgers: row_store ledger_table
  by unfold_locales (simp_all add: ledger_table_def)

interpretation ledger_rows: row_store ledger_tx_table
  by unfold_locales (simp_all add: ledger_tx_table_def)

lemma ledger_tables [simp]:
  "rows_of ledger_table = ledger_accounts" "set_rows ledger_table rs w = w\<lparr>ledger_accounts := rs\<rparr>" "row_id ledger_table = la_id"
  "rows_of ledger_tx_table = ledger_txs" "set_rows ledger_tx_table ts w = w\<lparr>ledger_txs := ts\<rparr>" "row_id ledger_tx_table = lt_id"
  by (simp_all add: ledger_table_def ledger_tx_table_def)

section \<open>Ledger transactions\<close>

text \<open>A reference is recorded once. Every error is an internal one, with the message of what happened.\<close>

definition ledgerTx_create :: "'s money_env \<Rightarrow> ledger_tx \<Rightarrow> (('s, 'm) ledger_world_scheme, ledger_tx) io" where
  "ledgerTx_create M data = catch
     (bind (repo_findOne ledger_tx_table (\<lambda>t. lt_reference t = lt_reference data)) (\<lambda>existing.
      if existing \<noteq> None then throw (BadRequest ''Paga ledger transaction with reference_number already exists'')
      else bind (new_value M) (\<lambda>i. repo_create ledger_tx_table (data\<lparr>lt_id := i\<rparr>))))
     (\<lambda>e. throw (InternalError (message e)))"

definition ledgerTx_update :: "string \<Rightarrow> ledger_status \<Rightarrow> (('s, 'm) ledger_world_scheme, ledger_tx option) io" where
  "ledgerTx_update i st = catch
     (bind (repo_findById ledger_tx_table i) (\<lambda>existing.
      if existing = None then throw (NotFound (''Paga ledger transaction with ID '' @ i @ '' not found''))
      else repo_update_id ledger_tx_table i (\<lambda>t. t\<lparr>lt_status := st\<rparr>)))
     (\<lambda>_. throw (InternalError ''Failed to update Paga ledger transaction status''))"

definition ledgerTx_findAll :: "nat option \<Rightarrow> nat option \<Rightarrow> (('s, 'm) ledger_world_scheme, ledger_tx page) io" where
  "ledgerTx_findAll pg sz = catch (findAll ledger_tx_table (\<lambda>_. True) pg sz) (\<lambda>_. throw (InternalError ''Failed to retrieve Paga ledger transactions''))"

definition ledgerTx_findOne :: "(ledger_tx \<Rightarrow> bool) \<Rightarrow> (('s, 'm) ledger_world_scheme, ledger_tx option) io" where
  "ledgerTx_findOne P = catch (repo_findOne ledger_tx_table P) (\<lambda>_. throw (InternalError ''Failed to find Paga ledger transaction''))"

definition ledgerTx_delete :: "string \<Rightarrow> (('s, 'm) ledger_world_scheme, unit) io" where
  "ledgerTx_delete i = catch
     (bind (repo_findById ledger_tx_table i) (\<lambda>existing.
      if existing = None then throw (NotFound (''Paga ledger transaction with ID '' @ i @ '' not found''))
      else andthen (repo_delete ledger_tx_table i) (ret ())))
     (\<lambda>_. throw (InternalError ''Failed to delete Paga ledger transaction''))"

section \<open>Ledger accounts\<close>

text \<open>Account numbers are unique.\<close>

definition insert_ledger :: "'s money_env \<Rightarrow> ledger_account \<Rightarrow> (('s, 'm) ledger_world_scheme, ledger_account) io" where
  "insert_ledger M data = bind (new_value M) (\<lambda>i. bind get_state (\<lambda>w.
     if list_ex (\<lambda>a. la_number a = la_number data) (ledger_accounts w)
     then andthen db_step (throw (UniqueViolation ''paga_ledger_accounts_account_number_unique''))
     else repo_create ledger_table (data\<lparr>la_id := i\<rparr>)))"

definition ledger_create :: "'s money_env \<Rightarrow> ledger_account \<Rightarrow> (('s, 'm) ledger_world_scheme, ledger_account) io" where
  "ledger_create M data = catch (insert_ledger M data) (\<lambda>_. throw (InternalError ''Failed to create Paga ledger account''))"

definition find_ledger :: "string \<Rightarrow> (('s, 'm) ledger_world_scheme, ledger_account option) io" where
  "find_ledger number = repo_findOne ledger_table (\<lambda>a. la_number a = number)"

definition no_ledger :: "string \<Rightarrow> exn" where
  "no_ledger number = NotFound (''Paga ledger account with account number '' @ number @ '' not found'')"

definition ledger_update :: "string \<Rightarrow> (ledger_account \<Rightarrow> ledger_account) \<Rightarrow> (('s, 'm) ledger_world_scheme, ledger_account) io" where
  "ledger_update number g = catch
     (bind (find_ledger number) (\<lambda>existing.
      if existing = None then throw (no_ledger number)
      else repo_update_where ledger_table (\<lambda>a. la_number a = number) g))
     (\<lambda>_. throw (InternalError ''Failed to update Paga ledger account''))"

definition ledger_findAll :: "nat option \<Rightarrow> nat option \<Rightarrow> (('s, 'm) ledger_world_scheme, ledger_account page) io" where
  "ledger_findAll pg sz = catch (findAll ledger_table (\<lambda>_. True) pg sz) (\<lambda>_. throw (InternalError ''Failed to retrieve Paga ledger accounts''))"

definition ledger_findOne :: "(ledger_account \<Rightarrow> bool) \<Rightarrow> (('s, 'm) ledger_world_scheme, ledger_account option) io" where
  "ledger_findOne P = catch (repo_findOne ledger_table P) (\<lambda>_. throw (InternalError ''Failed to find Paga ledger account''))"

definition ledger_findOrCreate :: "'s money_env \<Rightarrow> ledger_account \<Rightarrow> (('s, 'm) ledger_world_scheme, ledger_account) io" where
  "ledger_findOrCreate M data = catch
     (bind (ledger_findOne (\<lambda>a. la_number a = la_number data)) (\<lambda>existing. case existing of Some a \<Rightarrow> ret a | None \<Rightarrow> ledger_create M data))
     (\<lambda>_. throw (InternalError ''Failed to find or create Paga ledger account''))"

definition ledger_delete :: "string \<Rightarrow> (('s, 'm) ledger_world_scheme, unit) io" where
  "ledger_delete i = catch
     (bind (repo_findById ledger_table i) (\<lambda>existing.
      if existing = None then throw (NotFound (''Paga ledger account with ID '' @ i @ '' not found''))
      else andthen (repo_delete ledger_table i) (ret ())))
     (\<lambda>_. throw (InternalError ''Failed to delete Paga ledger account''))"

section \<open>Moving a balance\<close>

definition ledger_moveBalance :: "ledger_account \<Rightarrow> int \<Rightarrow> string \<Rightarrow> (('s, 'm) ledger_world_scheme, ledger_account option) io" where
  "ledger_moveBalance existing amountToUpdate tid = catch
     (bind (repo_update_id ledger_table (la_id existing) (\<lambda>a. a\<lparr>la_balance := la_balance existing + amountToUpdate\<rparr>)) (\<lambda>updated.
      andthen (ledgerTx_update tid L_SUCCESSFUL) (ret updated)))
     (\<lambda>_. throw (BadRequest ''Failed to update account balance and transaction status''))"

definition ledgerBalanceKey :: "string \<Rightarrow> string" where
  "ledgerBalanceKey number = ''paga-ledger-account:'' @ number @ '':balance-update''"

definition ledgerBalanceSection :: "string \<Rightarrow> int \<Rightarrow> string \<Rightarrow> bool \<Rightarrow> (('s, 'm) ledger_world_scheme, ledger_account option) io" where
  "ledgerBalanceSection number amountToUpdate tid inTrx = catch
     (bind (find_ledger number) (\<lambda>found. case found of
         None \<Rightarrow> throw (no_ledger number)
       | Some existing \<Rightarrow> bind (ledgerTx_findOne (\<lambda>t. lt_id t = tid \<and> lt_account t = number)) (\<lambda>t.
           if t = None then throw (NotFound (''Paga ledger transaction with ID '' @ tid @ '' not found for account '' @ number))
           else if inTrx then ledger_moveBalance existing amountToUpdate tid
           else transaction (ledger_moveBalance existing amountToUpdate tid))))
     (\<lambda>_. throw (InternalError ''Failed to update Paga ledger account balance''))"

definition ledger_updateBalance :: "'s money_env \<Rightarrow> string \<Rightarrow> int \<Rightarrow> string \<Rightarrow> bool \<Rightarrow> (('s, 'm) ledger_world_scheme, ledger_account option) io" where
  "ledger_updateBalance M number amountToUpdate tid inTrx =
     locked M (ledgerBalanceKey number) 5 (ledgerBalanceSection number amountToUpdate tid inTrx)"

record deposit_order =
  do_amount :: int
  do_reference :: string
  do_fee :: int
  do_account :: string
  do_currency :: string
  do_description :: "string option"

definition deposit_row :: "deposit_order \<Rightarrow> ledger_account \<Rightarrow> ledger_tx" where
  "deposit_row d a = \<lparr>lt_id = [], lt_account = do_account d, lt_amount = do_amount d, lt_fee = do_fee d, lt_status = L_PENDING,
     lt_reference = do_reference d, lt_tx_reference = do_reference d, lt_before = la_balance a,
     lt_after = la_balance a + (do_amount d - do_fee d), lt_type = CREDIT, lt_currency = do_currency d, lt_description = do_description d\<rparr>"

text \<open>An error after the record was made marks it failed, if that can be done, and is thrown again.\<close>

definition depositBooked :: "'s money_env \<Rightarrow> deposit_order \<Rightarrow> ledger_tx \<Rightarrow> (('s, 'm) ledger_world_scheme, ledger_account option) io" where
  "depositBooked M d t = catch (ledger_updateBalance M (do_account d) (do_amount d - do_fee d) (lt_id t) True) (\<lambda>e.
     andthen (catch (andthen (ledgerTx_update (lt_id t) L_FAILED) (ret ())) (\<lambda>_. ret ())) (throw e))"

definition depositSection :: "'s money_env \<Rightarrow> deposit_order \<Rightarrow> (('s, 'm) ledger_world_scheme, ledger_account option) io" where
  "depositSection M d = bind (find_ledger (do_account d)) (\<lambda>found. case found of
       None \<Rightarrow> throw (no_ledger (do_account d))
     | Some a \<Rightarrow> bind (ledgerTx_create M (deposit_row d a)) (depositBooked M d))"

definition depositKey :: "deposit_order \<Rightarrow> string" where
  "depositKey d = ''paga-ledger-account:'' @ do_account d @ ''-'' @ do_reference d @ '':deposit-money''"

definition depositMoney :: "'s money_env \<Rightarrow> deposit_order \<Rightarrow> (('s, 'm) ledger_world_scheme, ledger_account option) io" where
  "depositMoney M d = (if do_amount d \<le> 0 then throw (BadRequest ''Amount must be greater than zero'')
     else if do_fee d < 0 then throw (BadRequest ''Fee cannot be negative'')
     else locked M (depositKey d) 5 (depositSection M d))"

section \<open>Top-ups of the other environments\<close>

record top_up =
  tu_account :: string
  tu_amount :: rat
  tu_from :: string
  tu_reference :: "string option"
  tu_name :: string
  tu_description :: "string option"

text \<open>\<open>digest\<close> is the keyed SHA-512 of the relay's signature.\<close>

definition relay_payload :: "(string \<Rightarrow> string) \<Rightarrow> top_up \<Rightarrow> json" where
  "relay_payload digest b = (let ref = text_json (tu_reference b) in
     JObj [(''accountNumber'', JStr (tu_account b)), (''amount'', JStr (show_dec (tu_amount b))), (''transactionReference'', ref),
       (''fundingTransactionReference'', ref), (''fundingPaymentReference'', ref), (''accountName'', JStr (tu_name b)), (''clearingFeeAmount'', JStr ''0''),
       (''payerDetails'', JObj [(''paymentReferenceNumber'', ref), (''narration'', JStr (tu_from b)), (''payerBankName'', JStr (tu_from b)),
          (''payerName'', JStr (tu_name b)), (''paymentMethod'', JStr ''BANK_TRANSFER''), (''payerBankAccountNumber'', JStr (tu_from b))]),
       (''instantSettlementStatus'', JStr ''1''), (''narration'', text_json (tu_description b)),
       (''hash'', JStr (digest (''0'' @ tu_account b @ show_dec (tu_amount b) @ ''0''))), (''statusCode'', JStr ''0''), (''statusMessage'', JStr ''success'')])"

definition topUp :: "exchange_config \<Rightarrow> (string \<Rightarrow> string) \<Rightarrow> top_up \<Rightarrow> (('s, 'm) ledger_world_scheme, unit) io" where
  "topUp X digest b = (if xc_production X then throw (BadRequest ''This endpoint is not available in production'')
     else bind (ledgerTx_findOne (\<lambda>t. field_matches (tu_reference b) (Some (lt_reference t)))) (\<lambda>existing.
      if existing \<noteq> None then throw (BadRequest ''Reference number already in use'')
      else if (case tu_reference b of None \<Rightarrow> False | Some s \<Rightarrow> length s < 15 \<or> 30 < length s) then throw (BadRequest ''Reference number must be 15 - 30 characters'')
      else emit ''pagaWebhookRelay'' (relay_payload digest b)))"

section \<open>Reconciliation\<close>

definition ledger_total :: "('s, 'm) ledger_world_scheme \<Rightarrow> int" where
  "ledger_total w = sum_list (map la_balance (ledger_accounts w))"

definition ledger_getTotalUserBalances :: "(('s, 'm) ledger_world_scheme, int) io" where
  "ledger_getTotalUserBalances = andthen db_step (bind get_state (\<lambda>w. ret (ledger_total w)))"

definition getTotalAccountsCount :: "(('s, 'm) ledger_world_scheme, nat) io" where
  "getTotalAccountsCount = andthen db_step (bind get_state (\<lambda>w. ret (length (ledger_accounts w))))"

record dashboard =
  db_business :: int
  db_total :: int
  db_difference :: int
  db_needs_top_up :: bool
  db_required :: int
  db_accounts :: nat
  db_generated :: int

definition js_round :: "rat \<Rightarrow> int" where
  "js_round x = \<lfloor>x + 1 / 2\<rfloor>"

definition dashboard_of :: "rat \<Rightarrow> int \<Rightarrow> nat \<Rightarrow> int \<Rightarrow> dashboard" where
  "dashboard_of available totalUserBalances totalAccounts t = (let kobo = js_round (available * 100); difference = kobo - totalUserBalances;
       needs = kobo < totalUserBalances
     in \<lparr>db_business = kobo, db_total = totalUserBalances, db_difference = difference, db_needs_top_up = needs,
         db_required = (if needs then \<bar>difference\<bar> else 0), db_accounts = totalAccounts, db_generated = t\<rparr>)"

definition getDashboardAnalytics :: "'s money_env \<Rightarrow> (('s, 'm) ledger_world_scheme, dashboard) io" where
  "getDashboardAnalytics M = catch
     (bind (promise_all [bind (ext_call M ''getBusinessAccountBalance'' JNull) (\<lambda>b.
          if b = JNull then throw undefined_row else ret (js_rat (jfield ''availableBalance'' b))),
        map_io of_int ledger_getTotalUserBalances, map_io of_nat getTotalAccountsCount]) (\<lambda>xs.
      bind get_now (\<lambda>t. ret (dashboard_of (xs ! 0) \<lfloor>xs ! 1\<rfloor> (nat \<lfloor>xs ! 2\<rfloor>) t))))
     (\<lambda>_. throw (InternalError ''Failed to fetch Paga dashboard analytics''))"

definition getTotalUserBalances :: "(('s, 'm) ledger_world_scheme, int \<times> nat) io" where
  "getTotalUserBalances = catch
     (bind (promise_all [ledger_getTotalUserBalances, map_io int getTotalAccountsCount]) (\<lambda>xs. ret (xs ! 0, nat (xs ! 1))))
     (\<lambda>_. throw (InternalError ''Failed to fetch total user balances''))"

end
