(* ===== verification/Paga.thy ===== *)
theory Paga
  imports PagaLedger
begin

text \<open>
  The webhook of the naira bank: \<^verbatim>\<open>PagaWebhookService\<close> (\<^verbatim>\<open>src/modules/webhooks/paga/paga-webhook.service.ts\<close>). The
  bank reports naira that arrived on a virtual account. On an ordinary account they are a deposit of the user, on
  the account of an exchange they are its proceeds; either way the ledger account and the wallet are credited in
  one database transaction, and the messages are sent after it.
\<close>

section \<open>Payloads\<close>

record paga_payload =
  pg_status :: string
  pg_reference :: string
  pg_account :: string
  pg_amount :: string
  pg_clearing :: string
  pg_payer :: string
  pg_payer_account :: string
  pg_payer_bank :: string

datatype paga_status = PAGA_SUCCESS | PAGA_PENDING | PAGA_FAILED

definition transformToTransactionStatus :: "string \<Rightarrow> paga_status" where
  "transformToTransactionStatus s = (if to_lower s = ''success'' then PAGA_SUCCESS
     else if to_lower s = ''failed'' then PAGA_FAILED else PAGA_PENDING)"

text \<open>Amounts come with commas; one that is not a number is refused where it would be written.\<close>

definition without_commas :: "paga_payload \<Rightarrow> paga_payload" where
  "without_commas p = p\<lparr>pg_amount := filter (\<lambda>c. c \<noteq> CHR '','') (pg_amount p)\<rparr>"

definition paga_amount :: "paga_payload \<Rightarrow> exn + int" where
  "paga_amount p = smallest_units (pg_amount p) ''NGN''"

definition top_up_text :: "paga_payload \<Rightarrow> string" where
  "top_up_text p = ''Wallet top up of '' @ pg_amount p @ '' from '' @ pg_payer p"

definition paga_order :: "string \<Rightarrow> int \<Rightarrow> paga_payload \<Rightarrow> deposit_order" where
  "paga_order number amount p = \<lparr>do_amount = amount, do_reference = pg_reference p, do_fee = 0, do_account = number,
     do_currency = ''NGN'', do_description = Some (top_up_text p)\<rparr>"

definition in_app_only :: notify_options where
  "in_app_only = \<lparr>no_in_app = True, no_email = False, no_push = False\<rparr>"

section \<open>Messages\<close>

definition sendDepositSuccessfulPushNotification :: "'s money_env \<Rightarrow> tx_row \<Rightarrow> int \<Rightarrow> (('s, 'm) dbase_scheme, unit) io" where
  "sendDepositSuccessfulPushNotification M t amount = bind (ext_call M ''userProfileService.findByUserId'' (JStr (tx_user t))) (\<lambda>profile.
     if profile = JNull then throw undefined_row
     else when_do (js_truthy (jfield ''notification_token'' profile))
      (andthen (ext_call M ''sendPushNotification'' (JObj [(''token'', jfield ''notification_token'' profile), (''amount'', JDec (of_int amount / 100))])) (ret ())))"

definition first_truthy :: "json list \<Rightarrow> string \<Rightarrow> json" where
  "first_truthy js d = (case List.find js_truthy js of None \<Rightarrow> JStr d | Some j \<Rightarrow> j)"

definition mail_currencies :: "tx_row \<Rightarrow> tx_row \<Rightarrow> exn + unit" where
  "mail_currencies t parent = (let f = (\<lambda>k r. jfield k (JObj (tx_meta r))) in
     case locale_string (first_truthy [f ''to_currency'' t, f ''local_currency'' t] ''NGN'') of Inl e \<Rightarrow> Inl e
     | Inr _ \<Rightarrow> locale_string (first_truthy [f ''from_currency'' parent, f ''source_currency'' parent] ''USD''))"

definition sendDepositSuccessfulEmail :: "'s money_env \<Rightarrow> tx_row \<Rightarrow> int \<Rightarrow> (('s, 'm) money_world_scheme, unit) io" where
  "sendDepositSuccessfulEmail M t amount = bind (ext_call M ''userService.findByUserId'' (JStr (tx_user t))) (\<lambda>user.
     if tx_type t = T_EXCHANGE then
       bind (repo_findOne tx_table (\<lambda>r. Some (tx_id r) = tx_parent t)) (\<lambda>found. case found of
           None \<Rightarrow> throw undefined_row
         | Some parent \<Rightarrow> bind (ext_call M ''userService.findByUserId'' (JStr (tx_user parent))) (\<lambda>sender.
            andthen (io_of (mail_currencies t parent))
            (if user = JNull then throw undefined_row else andthen (ext_call M ''sendMail'' (tx_payload t)) (ret ()))))
     else andthen (ext_call M ''sendMail'' (JObj [(''transactionId'', JStr (tx_id t)), (''amount'', JNum amount), (''description'', JStr (tx_description t)),
        (''sender_bank'', jfield ''sender_bank'' (JObj (tx_meta t)))])) (ret ()))"

definition sendCurrencyConversionEmail :: "'s money_env \<Rightarrow> tx_row \<Rightarrow> exn + int \<Rightarrow> json \<Rightarrow> tx_row \<Rightarrow> (('s, 'm) webhook_world_scheme, unit) io" where
  "sendCurrencyConversionEmail M parent toAmount rate child = bind (ext_call M ''userService.findByUserId'' (JStr (tx_user parent))) (\<lambda>user.
     if \<not> js_truthy (jfield ''email'' user) then ret ()
     else bind (repo_findSync external_table (\<lambda>x. xa_user x = tx_user parent)) (\<lambda>accounts.
      andthen (ext_call M ''sendMail'' (JObj [(''fromAmount'', JDec (of_int (tx_amount parent) / 100)), (''toAmount'', case toAmount of Inl _ \<Rightarrow> JNull | Inr n \<Rightarrow> JDec (of_int n / 100)),
        (''exchangeRate'', rate), (''transactionId'', JStr (tx_id child)), (''orderNumber'', text_json (tx_external child)),
        (''accountId'', text_json (Option.bind (List.find (\<lambda>x. given (xa_participant x) \<and> xa_provider x \<noteq> []) accounts) xa_participant))])) (ret ())))"

section \<open>Deposits\<close>

definition payer_meta :: "paga_payload \<Rightarrow> (string \<times> json) list" where
  "payer_meta p = [(''source'', JStr (pg_payer p)), (''destination'', JStr (pg_account p)), (''sender_name'', JStr (pg_payer p)),
     (''sender_account_number'', JStr (pg_payer_account p)), (''sender_bank'', JStr (pg_payer_bank p))]"

definition paga_tx :: "paga_payload \<Rightarrow> wallet_row \<Rightarrow> int \<Rightarrow> tx_row" where
  "paga_tx p wallet amount = blank_tx\<lparr>tx_reference := pg_reference p, tx_external := Some (pg_reference p), tx_asset := ''NGN'', tx_amount := amount,
     tx_before := fw_balance wallet, tx_after := fw_balance wallet + amount, tx_type := T_DEPOSIT, tx_category := C_FIAT, tx_scope := S_EXTERNAL,
     tx_status := PENDING, tx_description := top_up_text p, tx_meta := payer_meta p\<rparr>"

definition paga_entry :: "'s money_env \<Rightarrow> paga_payload \<Rightarrow> wallet_row \<Rightarrow> int \<Rightarrow> int \<Rightarrow> tx_row \<Rightarrow> int \<Rightarrow> fwt_row" where
  "paga_entry M p wallet amount fee t n = blank_fwt\<lparr>ft_transaction := tx_id t, ft_status := PENDING, ft_amount := amount, ft_before := fw_balance wallet,
     ft_after := fw_balance wallet + amount, ft_type := F_DEPOSIT, ft_description := Some (top_up_text p), ft_currency := ''NGN'',
     ft_provider := Some (waas_provider M), ft_reference := Some (pg_reference p), ft_source := Some (pg_payer p), ft_destination := Some (pg_account p),
     ft_processed := Some n, ft_meta := payer_meta p, ft_wallet := fw_id wallet, ft_fee := Some fee\<rparr>"

text \<open>The two records are made one after the other, outside a database transaction.\<close>

definition createTransactionAndFiatWalletTransaction :: "'s money_env \<Rightarrow> string \<Rightarrow> paga_payload \<Rightarrow> wallet_row
    \<Rightarrow> (('s, 'm) money_world_scheme, tx_row \<times> fwt_row) io" where
  "createTransactionAndFiatWalletTransaction M userId p wallet = bind (io_of (paga_amount p)) (\<lambda>amount.
     bind (tx_create M userId (paga_tx p wallet amount)) (\<lambda>t.
     bind (io_of (smallest_units (pg_clearing p) ''NGN'')) (\<lambda>fee. bind get_now (\<lambda>n.
     bind (fwt_create M userId (paga_entry M p wallet amount fee t n)) (\<lambda>f. ret (t, f))))))"

definition updateFiatWalletTransactionAndTransaction :: "'s money_env \<Rightarrow> string \<Rightarrow> string \<Rightarrow> tx_status \<Rightarrow> (('s, 'm) money_world_scheme, unit) io" where
  "updateFiatWalletTransactionAndTransaction M tid fid st =
     andthen (tx_updateStatus M tid st (Some no_meta) in_app_only) (andthen (fwt_updateStatus M fid st no_meta) (ret ()))"

definition deposit_movement :: "paga_payload \<Rightarrow> string \<Rightarrow> balance_meta" where
  "deposit_movement p fid = \<lparr>bm_description = Some (top_up_text p), bm_provider = None, bm_provider_reference = None, bm_provider_fee = None,
     bm_provider_metadata = [], bm_source = Some (pg_payer p), bm_destination = Some (pg_account p), bm_fwt = Some fid\<rparr>"

definition bookDeposit :: "'s money_env \<Rightarrow> paga_payload \<Rightarrow> tx_row \<Rightarrow> fwt_row option \<Rightarrow> int \<Rightarrow> (('s, 'm) ledger_world_scheme, unit) io" where
  "bookDeposit M p t entry amount = transaction
     (andthen (depositMoney M (paga_order (pg_account p) amount p))
      (case entry of None \<Rightarrow> throw undefined_row
       | Some f \<Rightarrow> andthen (updateBalance M (ft_wallet f) amount (tx_id t) F_DEPOSIT COMPLETED (deposit_movement p (ft_id f)) True)
          (updateFiatWalletTransactionAndTransaction M (tx_id t) (ft_id f) COMPLETED)))"

definition updateTransactionBalanceAfter :: "int \<Rightarrow> tx_row \<Rightarrow> (('s, 'm) money_world_scheme, unit) io" where
  "updateTransactionBalanceAfter amount t = andthen (repo_update_id tx_table (tx_id t) (\<lambda>r. r\<lparr>tx_after := tx_before t + amount\<rparr>)) (ret ())"

definition handleSuccessfulTransaction :: "'s money_env \<Rightarrow> paga_payload \<Rightarrow> tx_row \<Rightarrow> fwt_row option \<Rightarrow> (('s, 'm) ledger_world_scheme, unit) io" where
  "handleSuccessfulTransaction M p t entry = bind (io_of (paga_amount p)) (\<lambda>amount.
     andthen (bookDeposit M p t entry amount)
     (andthen (updateTransactionBalanceAfter amount t)
     (andthen (sendDepositSuccessfulPushNotification M t amount)
     (sendDepositSuccessfulEmail M t amount))))"

definition depositReported :: "'s money_env \<Rightarrow> paga_payload \<Rightarrow> tx_row \<Rightarrow> fwt_row option \<Rightarrow> (('s, 'm) ledger_world_scheme, string) io" where
  "depositReported M p t entry = (case transformToTransactionStatus (pg_status p) of
       PAGA_SUCCESS \<Rightarrow> andthen (handleSuccessfulTransaction M p t entry) (ret ''Transaction completed'')
     | PAGA_FAILED \<Rightarrow> (case entry of None \<Rightarrow> throw undefined_row
         | Some f \<Rightarrow> andthen (transaction (updateFiatWalletTransactionAndTransaction M (tx_id t) (ft_id f) FAILED)) (ret ''Transaction failed''))
     | PAGA_PENDING \<Rightarrow> ret ''Transaction pending'')"

definition depositWebhook :: "'s money_env \<Rightarrow> paga_payload \<Rightarrow> string \<Rightarrow> (('s, 'm) ledger_world_scheme, string) io" where
  "depositWebhook M p userId = bind (getUserWallet M userId ''NGN'') (\<lambda>wallet.
     bind (repo_findOne tx_table (\<lambda>t. tx_reference t = pg_reference p)) (\<lambda>found. case found of
         Some t \<Rightarrow> if tx_status t = COMPLETED then ret ''Transaction already completed''
           else bind (repo_findOne fwt_table (\<lambda>f. ft_transaction f = tx_id t)) (depositReported M p t)
       | None \<Rightarrow> bind (createTransactionAndFiatWalletTransaction M userId p wallet) (\<lambda>(t, f). depositReported M p t (Some f))))"

section \<open>Exchanges\<close>

definition main_account :: "wallet_row \<Rightarrow> ('s, 'm) exchange_world_scheme \<Rightarrow> account_row option" where
  "main_account wallet w = List.find (\<lambda>a. ac_wallet a = Some (fw_id wallet) \<and> ac_type a = MAIN_ACCOUNT) (account_rows w)"

definition paid_out :: "tx_row \<Rightarrow> int \<Rightarrow> int \<Rightarrow> tx_row \<Rightarrow> tx_row" where
  "paid_out child amount before r = r\<lparr>tx_amount := amount, tx_before := before, tx_after := before + amount,
     tx_meta := (''old_amount'', JNum (tx_amount child)) # tx_meta child\<rparr>"

definition exchange_movement :: "fwt_row option \<Rightarrow> balance_meta" where
  "exchange_movement entry = \<lparr>bm_description = Some ''Exchange USD to NGN'', bm_provider = None, bm_provider_reference = None, bm_provider_fee = None,
     bm_provider_metadata = [], bm_source = None, bm_destination = None, bm_fwt = map_option ft_id entry\<rparr>"

text \<open>Without a main account the new amounts are kept, and nothing is credited.\<close>

definition creditProceeds :: "'s money_env \<Rightarrow> paga_payload \<Rightarrow> tx_row \<Rightarrow> fwt_row option \<Rightarrow> tx_row \<Rightarrow> int \<Rightarrow> int \<Rightarrow> (('s, 'm) ledger_world_scheme, unit) io" where
  "creditProceeds M p child entry parent amount before = transaction
     (andthen (repo_update_id tx_table (tx_id child) (paid_out child amount before))
     (bind (repo_findOne wallet_table (\<lambda>r. fw_user r = tx_user parent \<and> fw_asset r = ''NGN'')) (\<lambda>found. case found of
        None \<Rightarrow> throw undefined_row
      | Some wallet \<Rightarrow> bind get_state (\<lambda>w. case main_account wallet w of
          None \<Rightarrow> ret ()
        | Some a \<Rightarrow> andthen (depositMoney M (paga_order (ac_number a) amount p))
            (andthen (updateBalance M (fw_id wallet) amount (tx_id child) F_EXCHANGE COMPLETED (exchange_movement entry) True)
            (andthen (tx_updateStatus M (tx_id child) COMPLETED (Some no_meta) all_notifications) (ret ())))))))"

definition exchange_rate :: "tx_row \<Rightarrow> tx_row \<Rightarrow> json" where
  "exchange_rate child parent = (let r = jfield ''rate'' (JObj (tx_meta child)) in if js_truthy r then r else jfield ''rate'' (JObj (tx_meta parent)))"

definition paga_completeExchangeTransaction :: "'s money_env \<Rightarrow> paga_payload \<Rightarrow> tx_row \<Rightarrow> fwt_row option \<Rightarrow> tx_row \<Rightarrow> (('s, 'm) ledger_world_scheme, unit) io" where
  "paga_completeExchangeTransaction M p child entry parent = bind (getUserWallet M (tx_user parent) ''NGN'') (\<lambda>wallet.
     bind (io_of (paga_amount p)) (\<lambda>amount.
     andthen (creditProceeds M p child entry parent amount (fw_balance wallet))
     (sendCurrencyConversionEmail M parent (Inr amount) (exchange_rate child parent) child)))"

definition no_movement :: balance_meta where
  "no_movement = \<lparr>bm_description = None, bm_provider = None, bm_provider_reference = None, bm_provider_fee = None,
     bm_provider_metadata = [], bm_source = None, bm_destination = None, bm_fwt = None\<rparr>"

text \<open>What the exchange was to give, in kobo; the fees of a configuration are optional.\<close>

definition paga_kobo :: "rat \<Rightarrow> int \<Rightarrow> fiat_exchange option \<Rightarrow> int" where
  "paga_kobo usd rate fees = \<lfloor>of_int rate * usd - (fee_in_ngn usd (Option.bind fees disbursement_fee) rate + fee_in_ngn usd (Option.bind fees partner_fee) rate)\<rfloor>"

definition proceeds_tx :: "paga_payload \<Rightarrow> tx_row \<Rightarrow> rate_row \<Rightarrow> wallet_row \<Rightarrow> int \<Rightarrow> int \<Rightarrow> string \<Rightarrow> tx_row" where
  "proceeds_tx p parent rate wallet kobo amount reference = blank_tx\<lparr>tx_type := T_EXCHANGE, tx_category := C_FIAT, tx_scope := S_INTERNAL,
     tx_status := PROCESSING, tx_amount := amount, tx_asset := ''NGN'', tx_before := fw_balance wallet, tx_after := fw_balance wallet + kobo,
     tx_reference := reference,
     tx_meta := [(''rate'', JNum (er_rate rate)), (''rate_id'', JStr (er_id rate)),
       (''shared_blockchain_transaction_ref'', jfield ''shared_blockchain_transaction_ref'' (JObj (tx_meta parent))),
       (''actual_amount'', JNum kobo), (''created_by_provider'', JStr ''paga'')],
     tx_parent := Some (tx_id parent), tx_description := ''Exchanged USD to NGN'', tx_external := Some (pg_reference p)\<rparr>"

definition proceeds_entry :: "exchange_config \<Rightarrow> paga_payload \<Rightarrow> wallet_row \<Rightarrow> int \<Rightarrow> int \<Rightarrow> tx_row \<Rightarrow> fwt_row" where
  "proceeds_entry X p wallet kobo amount t = blank_fwt\<lparr>ft_transaction := tx_id t, ft_amount := amount, ft_currency := ''NGN'', ft_status := PROCESSING,
     ft_wallet := fw_id wallet, ft_type := F_EXCHANGE, ft_reference := Some (pg_reference p), ft_before := fw_balance wallet,
     ft_after := fw_balance wallet + kobo, ft_meta := [(''source_currency'', JStr ''USD'')], ft_source := Some ''USD Wallet'',
     ft_destination := Some ''NGN Wallet'', ft_description := Some ''OnRamp USD to NGN'', ft_provider := Some (xc_exchange X)\<rparr>"

definition user_main_account :: "string \<Rightarrow> (('s, 'm) exchange_world_scheme, account_row option) io" where
  "user_main_account userId = repo_findOne account_table (\<lambda>a. ac_user a = userId \<and> ac_type a = MAIN_ACCOUNT)"

text \<open>The child another webhook has made meanwhile: without a main account its ledger is skipped, its wallet is not.\<close>

definition completeFound :: "'s money_env \<Rightarrow> paga_payload \<Rightarrow> tx_row \<Rightarrow> wallet_row \<Rightarrow> tx_row \<Rightarrow> fwt_row option \<Rightarrow> (('s, 'm) ledger_world_scheme, unit) io" where
  "completeFound M p parent wallet child entry = when_do (tx_status child \<noteq> COMPLETED) (bind (io_of (paga_amount p)) (\<lambda>amount.
     andthen (repo_update_id tx_table (tx_id child) (paid_out child amount (fw_balance wallet)))
     (bind (user_main_account (tx_user parent)) (\<lambda>main.
     andthen (case main of None \<Rightarrow> ret () | Some a \<Rightarrow> andthen (depositMoney M (paga_order (ac_number a) amount p)) (ret ()))
     (andthen (updateBalance M (fw_id wallet) amount (tx_id child) F_EXCHANGE COMPLETED no_movement True)
     (andthen (tx_updateStatus M (tx_id child) COMPLETED None all_notifications)
      (case entry of None \<Rightarrow> ret () | Some f \<Rightarrow> andthen (fwt_updateStatus M (ft_id f) COMPLETED no_meta) (ret ()))))))))"

definition createProceeds :: "'s money_env \<Rightarrow> exchange_config \<Rightarrow> paga_payload \<Rightarrow> tx_row \<Rightarrow> rate_row \<Rightarrow> wallet_row \<Rightarrow> int \<Rightarrow> (('s, 'm) ledger_world_scheme, tx_row) io" where
  "createProceeds M X p parent rate wallet kobo = bind (generateTransactionReference M) (\<lambda>reference. bind (io_of (paga_amount p)) (\<lambda>amount.
     bind (tx_create M (tx_user parent) (proceeds_tx p parent rate wallet kobo amount reference)) (\<lambda>t.
     bind (fwt_create M (tx_user parent) (proceeds_entry X p wallet kobo amount t)) (\<lambda>f.
     bind (user_main_account (tx_user parent)) (\<lambda>main. case main of
         None \<Rightarrow> ret t
       | Some a \<Rightarrow> andthen (depositMoney M (paga_order (ac_number a) amount p))
          (andthen (updateBalance M (fw_id wallet) amount (tx_id t) F_EXCHANGE COMPLETED no_movement True)
          (andthen (tx_updateStatus M (tx_id t) COMPLETED None all_notifications)
          (andthen (fwt_updateStatus M (ft_id f) COMPLETED no_meta) (ret t)))))))))"

definition is_proceeds :: "tx_row \<Rightarrow> tx_row \<Rightarrow> bool" where
  "is_proceeds parent r \<longleftrightarrow> tx_parent r = Some (tx_id parent) \<and> tx_asset r = ''NGN''"

definition recordProceeds :: "'s money_env \<Rightarrow> exchange_config \<Rightarrow> paga_payload \<Rightarrow> tx_row \<Rightarrow> rate_row \<Rightarrow> wallet_row \<Rightarrow> int \<Rightarrow> (('s, 'm) ledger_world_scheme, tx_row) io" where
  "recordProceeds M X p parent rate wallet kobo = transaction
     (bind (repo_findOne tx_table (is_proceeds parent)) (\<lambda>existing. case existing of
        Some c \<Rightarrow> bind get_state (\<lambda>w. andthen (completeFound M p parent wallet c (List.find (\<lambda>f. ft_transaction f = tx_id c) (fwts w))) (ret c))
      | None \<Rightarrow> createProceeds M X p parent rate wallet kobo))"

definition createCompletedExchangeTransaction :: "'s money_env \<Rightarrow> exchange_config \<Rightarrow> paga_payload \<Rightarrow> tx_row \<Rightarrow> (('s, 'm) ledger_world_scheme, unit) io" where
  "createCompletedExchangeTransaction M X p parent = (let rateId = jfield ''rate_id'' (JObj (tx_meta parent)) in
     if \<not> js_truthy rateId then ret ()
     else bind (repo_findOne rate_table (\<lambda>r. JStr (er_id r) = rateId)) (\<lambda>found. case found of
         None \<Rightarrow> ret ()
       | Some rate \<Rightarrow> bind (repo_findOne rate_config_table (\<lambda>r. rc_provider r = xc_exchange X)) (\<lambda>config. case config of
           None \<Rightarrow> ret ()
         | Some c \<Rightarrow> (let kobo = paga_kobo (of_int (tx_amount parent) / 100) (er_rate rate) (rc_exchange c) in
             if \<not> rc_active c \<or> kobo < 0 then ret ()
             else bind (getUserWallet M (tx_user parent) ''NGN'') (\<lambda>wallet.
              bind (recordProceeds M X p parent rate wallet kobo)
               (sendCurrencyConversionEmail M parent (paga_amount p) (JNum (er_rate rate))))))))"

fun proceedsTries :: "tx_row \<Rightarrow> int \<Rightarrow> nat \<Rightarrow> (('s, 'm) money_world_scheme, (tx_row \<times> fwt_row option) option) io" where
  "proceedsTries parent delay 0 = ret None"
| "proceedsTries parent delay (Suc n) = bind (repo_findOne tx_table (is_proceeds parent)) (\<lambda>child. case child of
      Some c \<Rightarrow> bind get_state (\<lambda>w. ret (Some (c, List.find (\<lambda>f. ft_transaction f = tx_id c) (fwts w))))
    | None \<Rightarrow> if n = 0 then ret None else andthen (sleep delay) (proceedsTries parent delay n))"

definition proceeds_tries :: "exchange_config \<Rightarrow> nat" where
  "proceeds_tries X = (if xc_production X then 3 else 1)"

definition proceedsArrived :: "'s money_env \<Rightarrow> exchange_config \<Rightarrow> paga_payload \<Rightarrow> tx_row \<Rightarrow> (('s, 'm) ledger_world_scheme, unit) io" where
  "proceedsArrived M X p parent = bind (proceedsTries parent (child_delay X) (proceeds_tries X)) (\<lambda>found. case found of
       Some (child, entry) \<Rightarrow> if tx_status child = COMPLETED then ret () else paga_completeExchangeTransaction M p child entry parent
     | None \<Rightarrow> createCompletedExchangeTransaction M X p parent)"

text \<open>The parent is read before the lock is taken, and its status compared inside it.\<close>

definition handleExchangeTransaction :: "'s money_env \<Rightarrow> exchange_config \<Rightarrow> paga_payload \<Rightarrow> account_row \<Rightarrow> (('s, 'm) ledger_world_scheme, unit) io" where
  "handleExchangeTransaction M X p va = (if \<not> given (ac_transaction va) then ret ()
     else bind (repo_findById tx_table (the (ac_transaction va))) (\<lambda>found. case found of
         None \<Rightarrow> ret ()
       | Some parent \<Rightarrow> exchange_locked M (tx_id parent)
           (andthen (when_do (tx_status parent \<noteq> COMPLETED)
             (andthen (checkAndCompleteUsdWithdrawal M X (tx_id parent) (tx_user parent))
             (andthen (reconcileUsdBalanceFromProvider M (xc_underlying X) (tx_user parent)) (ret ()))))
            (proceedsArrived M X p parent))))"

section \<open>The entry\<close>

text \<open>The user of a virtual account is there with it, by its foreign key. Rows older than the types count as main accounts.\<close>

definition handlePersistentAccountWebhook :: "'s money_env \<Rightarrow> exchange_config \<Rightarrow> paga_payload \<Rightarrow> (('s, 'm) ledger_world_scheme, string) io" where
  "handlePersistentAccountWebhook M X payload = (let p = without_commas payload in
     bind (repo_findOne account_table (\<lambda>a. ac_number a = pg_account p)) (\<lambda>found. case found of
         None \<Rightarrow> ret ''User not found''
       | Some va \<Rightarrow> if ac_type va \<noteq> EXCHANGE_ACCOUNT then depositWebhook M p (ac_user va)
           else andthen (handleExchangeTransaction M X p va) (ret ''Exchange transaction completed'')))"

end
