(* ===== verification/NgConservation.thy ===== *)
theory NgConservation
  imports NgWithdrawal
begin

text \<open>
  What a naira withdrawal does to the money: the balance of the wallet and the escrow of the transaction
  together stay what they were, whatever the database, the provider and the notifications do, in the
  withdrawal itself and in every later poll of its status. The lemmas lift \<open>books\<close> and \<open>total_is\<close>
  through each handler; the properties add what a failed and a completed transfer come to, and what an
  idempotency key guarantees.
\<close>

section \<open>The services beside the escrow\<close>

lemma cmd_keys_window [simp]:
  "cmd_keys (ZADD k s m) = [k]" "cmd_keys (ZREMRANGEBYSCORE k s) = [k]" "cmd_keys (ZCOUNT k lo hi) = [k]"
  by simp_all

lemma keeps_sum [keeps_intros]:
  "(\<And>e. v = Inl e \<Longrightarrow> keeps I (f e)) \<Longrightarrow> (\<And>x. v = Inr x \<Longrightarrow> keeps I (g x)) \<Longrightarrow> keeps I (case v of Inl e \<Rightarrow> f e | Inr x \<Rightarrow> g x)"
  by (cases v) simp_all

lemma keeps_verdict [keeps_intros]:
  "keeps I m \<Longrightarrow> (\<And>r. keeps I (f r)) \<Longrightarrow> keeps I (case v of Allowed \<Rightarrow> m | Refused r \<Rightarrow> f r)"
  by (cases v) simp_all

lemma keeps_attempt [keeps_intros]: "keeps I m \<Longrightarrow> keeps I (attempt m)"
  unfolding attempt_def by (intro keeps_intros)

lemma tidy_tx_create: "tidy (repo_create tx_table t)"
  unfolding tidy_def
proof
  fix w :: "('a, 'b) money_world_scheme"
  show "wallets (snd (repo_create tx_table t w)) = wallets w \<and> rds (snd (repo_create tx_table t w)) = rds w
     \<and> now (snd (repo_create tx_table t w)) = now w \<and> links (snd (repo_create tx_table t w)) \<subseteq> links w"
    by (cases rule: txs.create_cases [of t w]) (auto simp: links_def)
qed

lemma insert_linked: "ft_wallet f = wid \<Longrightarrow> keeps (linked wid tid) (insert_fwt f)"
proof -
  assume f: "ft_wallet f = wid"
  have "keeps (linked wid tid) db_step" by (intro tidy_keeps_linked) (simp add: tidy_def links_def)
  moreover have "keeps (linked wid tid) (repo_create fwt_table f)" by (simp add: keeps_def fwt_create_linked f)
  ultimately show ?thesis unfolding insert_fwt_def by (intro keeps_intros)
qed

lemma creates_linked:
  "keeps (linked wid tid) (tx_create M u t)"
  "ft_wallet f = wid \<Longrightarrow> keeps (linked wid tid) (fwt_create M u f)"
  unfolding tx_create_def fwt_create_def
  by (intro keeps_intros tidy_keeps_linked [OF tidy_tx_create] tidy_keeps_linked [OF tidy_basic(7)])
     (intro keeps_intros insert_linked tidy_keeps_linked [OF tidy_reads(5)] tidy_keeps_linked [OF tidy_basic(7)], simp)

context redis_server
begin

lemma spares_services:
  assumes "\<not> own_prefix E (getEscrowKey tid)"
  shows "spares (getEscrowKey tid) (startSession E u t)" "spares (getEscrowKey tid) (endSession E u t)"
    "spares (getEscrowKey tid) (checkAndBlockConcurrent E u)" "spares (getEscrowKey tid) (checkDailyLimit E u n)"
    "spares (getEscrowKey tid) (incrementDailyAttempts E u)" "spares (getEscrowKey tid) (canProceed E p)"
    "spares (getEscrowKey tid) (recordAttempt E p b)"
  using assms
  by (auto simp: session_defs counter_defs canProceed_def recordAttempt_def checkAndUpdateState_def zcount_def getState_def
      setState_def getOpenedAt_def setOpenedAt_def clearOpenedAt_def getHalfOpenAttempts_def incrementHalfOpenAttempts_def
      resetHalfOpenAttempts_def intro!: spares_intros)

lemma services_books:
  assumes "\<not> own_prefix E (getEscrowKey tid)"
  shows "keeps (books wid tid b e :: ('s, 'm) money_world_scheme \<Rightarrow> bool) (startSession E u t)"
    "keeps (books wid tid b e :: ('s, 'm) money_world_scheme \<Rightarrow> bool) (endSession E u t)"
    "keeps (books wid tid b e :: ('s, 'm) money_world_scheme \<Rightarrow> bool) (checkAndBlockConcurrent E u)"
    "keeps (books wid tid b e :: ('s, 'm) money_world_scheme \<Rightarrow> bool) (checkDailyLimit E u n)"
    "keeps (books wid tid b e :: ('s, 'm) money_world_scheme \<Rightarrow> bool) (incrementDailyAttempts E u)"
    "keeps (books wid tid b e :: ('s, 'm) money_world_scheme \<Rightarrow> bool) (canProceed E p)"
    "keeps (books wid tid b e :: ('s, 'm) money_world_scheme \<Rightarrow> bool) (recordAttempt E p c)"
  by (intro spares_books spares_services [OF assms])+

lemmas services_total = services_books [THEN keeps_total]

lemma tidy_total: "tidy m \<Longrightarrow> keeps (total_is wid tid B) m"
  by (rule keeps_total) (rule tidy_books)

section \<open>Balance and escrow through the withdrawal\<close>

lemma settle_total:
  assumes "m_redis M = E" "\<not> own_prefix E (getEscrowKey tid)" "tx_id tx = tid"
  shows "keeps (total_is wid tid B) (settleWithdrawal M user dto bank tx ft pending reference answer)"
  unfolding settleWithdrawal_def record_provider_def Let_def assms
  by (intro keeps_intros services_total [OF assms(2)] tidy_total [OF tidy_steps(1)] tidy_total [OF tidy_steps(2)]
      tidy_total [OF tidy_steps(3)] tidy_total [OF tidy_steps(5)] tidy_total [OF tidy_steps(6)] revert_total [OF assms(1)])

lemma provider_total:
  assumes "m_redis M = E" "\<not> own_prefix E (getEscrowKey tid)" "tx_id tx = tid"
  shows "keeps (total_is wid tid B) (callProvider M user dto bank va tx ft pending)"
  unfolding callProvider_def record_provider_def Let_def assms(1,3)
  by (intro keeps_intros services_total [OF assms(2)] tidy_total [OF tidy_basic(6)] tidy_total [OF tidy_steps(5)]
      revert_total [OF assms(1)] settle_total [OF assms])

lemma fail_total:
  assumes "m_redis M = E" "tx_id tx = tid"
  shows "keeps (total_is wid tid B) (failWithdrawal M tx ft e)"
  unfolding failWithdrawal_def assms(2)
  by (intro keeps_intros tidy_total [OF tidy_steps(1)] tidy_total [OF tidy_steps(4)] revert_total [OF assms(1)])

lemma process_total:
  assumes "m_redis M = E" "\<not> own_prefix E (getEscrowKey tid)" "tx_id tx = tid" "ft_wallet ft = wid"
  shows "triple (books wid tid b None :: ('s, 'm) money_world_scheme \<Rightarrow> bool) (processWithdrawal M user dto bank va tx ft) (\<lambda>_. total_is wid tid b) (\<lambda>_. total_is wid tid b)"
proof -
  have idle: "books wid tid b None w \<Longrightarrow> total_is wid tid b w" for w :: "('s, 'm) money_world_scheme"
    using books_total [of wid tid b None w] by (simp add: held_def)
  have rest: "keeps (total_is wid tid b :: ('s, 'm) money_world_scheme \<Rightarrow> bool) (andthen (sendWithdrawalInitiatedNotification M tx)
       (andthen (repo_update_id tx_table (tx_id tx) (\<lambda>r. r\<lparr>tx_status := PENDING\<rparr>))
       (bind (repo_update_id fwt_table (ft_id ft) (\<lambda>r. r\<lparr>ft_status := PENDING\<rparr>)) (\<lambda>pending.
        bind (canProceed (m_redis M) (waas_provider M)) (\<lambda>check. case check of
            Refused reason \<Rightarrow>
              andthen (fail_both (tx_id tx) (ft_id ft) ''Service temporarily unavailable'')
              (andthen (revertWithdrawalBalance M (tx_id tx)) (throw (BadRequest reason)))
          | Allowed \<Rightarrow> callProvider M user dto bank va tx ft pending)))))"
    unfolding assms(1,3)
    by (intro keeps_intros tidy_total [OF tidy_steps(7)] tidy_total [OF tidy_tx_update] tidy_total [OF tidy_fwt_update]
        services_total [OF assms(2)] tidy_total [OF tidy_steps(1)] revert_total [OF assms(1)] provider_total [OF assms(1-3)]) simp_all
  have main: "triple (books wid tid b None) (andthen (reserveWithdrawalBalance M tx ft dto va bank) r)
      (\<lambda>_. total_is wid tid b) (\<lambda>_. total_is wid tid b)"
    if "keeps (total_is wid tid b :: ('s, 'm) money_world_scheme \<Rightarrow> bool) r" for r :: "(('s, 'm) money_world_scheme, fwt_row option) io"
    by (rule triple_seq_keeps [OF reserve_total [OF assms(1,3,4)] that])
  have start: "triple (books wid tid b None) (startSession (m_redis M) (sn_id user) (tx_id tx)) (\<lambda>_. books wid tid b None)
      (\<lambda>_. total_is wid tid b :: ('s, 'm) money_world_scheme \<Rightarrow> bool)"
    unfolding assms(1) by (rule triple_keeps [OF services_books(1) [OF assms(2)]]) (auto intro: idle)
  have ledger: "triple (books wid tid b None) (ext_call M nm p) (\<lambda>_. books wid tid b None)
      (\<lambda>_. total_is wid tid b :: ('s, 'm) money_world_scheme \<Rightarrow> bool)" for nm p
    by (rule triple_keeps [OF tidy_books [OF tidy_basic(6)]]) (auto intro: idle)
  show ?thesis
    unfolding processWithdrawal_def
    by (rule triple_seq [OF start], rule triple_bind [OF ledger], rule triple_if [OF triple_throw main [OF rest]], erule idle)
qed

lemma run_total:
  assumes "m_redis M = E" "\<not> own_prefix E (getEscrowKey tid)" "tx_id tx = tid" "ft_wallet ft = wid"
  shows "triple (books wid tid b None :: ('s, 'm) money_world_scheme \<Rightarrow> bool) (runWithdrawal M user dto bank va tx ft)
    (\<lambda>_. total_is wid tid b) (\<lambda>_. total_is wid tid b)"
  unfolding runWithdrawal_def
  by (rule triple_finally [OF triple_catch [OF process_total [OF assms] fail_total [OF assms(1,3), unfolded keeps_triple]]])
     (simp add: assms(1) services_total(2) [OF assms(2)])

text \<open>The records of the withdrawal: the identifier of its transaction is the second value drawn.\<close>

definition idle_at :: "nat \<Rightarrow> string \<Rightarrow> string \<Rightarrow> int \<Rightarrow> ('s, 'm) money_world_scheme \<Rightarrow> bool" where
  "idle_at n wid tid b w \<longleftrightarrow> books wid tid b None w \<and> draws w = n"

lemma triple_transaction:
  assumes "triple P m (\<lambda>x _. Q x) (\<lambda>_ _. True)"
  shows "triple P (transaction m) (\<lambda>x _. Q x) (\<lambda>_ _. True)"
proof (rule tripleI, goal_cases)
  case (1 w x w')
  then show ?case using triple_ok [OF assms 1(1)]
    by (cases "m w") (auto simp: transaction_def bind_run andthen_run split: prod.splits sum.splits)
qed simp

lemma findOne_draws: "draws (snd (repo_findOne T P w)) = draws w"
proof -
  obtain v fs where "db_step w = (v, w\<lparr>faults := fs\<rparr>)" by (rule db_step_cases)
  then show ?thesis by (cases v) (simp_all add: repo_findOne_def andthen_run)
qed

lemma spares_draws: "spares k m \<Longrightarrow> draws (snd (m w)) = draws w"
  using sparesD [of k m w] by auto

lemma idle_intros:
  assumes "\<not> own_prefix E (getEscrowKey tid)"
  shows "keeps (idle_at n wid tid b :: ('s, 'm) money_world_scheme \<Rightarrow> bool) (ext_call M what p)"
    "keeps (idle_at n wid tid b :: ('s, 'm) money_world_scheme \<Rightarrow> bool) (repo_findOne fwt_table P)"
    "keeps (idle_at n wid tid b :: ('s, 'm) money_world_scheme \<Rightarrow> bool) (find_wallet u a)"
    "keeps (idle_at n wid tid b :: ('s, 'm) money_world_scheme \<Rightarrow> bool) (checkAndBlockConcurrent E u)"
    "keeps (idle_at n wid tid b :: ('s, 'm) money_world_scheme \<Rightarrow> bool) (checkDailyLimit E u k)"
    "keeps (idle_at n wid tid b :: ('s, 'm) money_world_scheme \<Rightarrow> bool) (incrementDailyAttempts E u)"
    "keeps (idle_at n wid tid b :: ('s, 'm) money_world_scheme \<Rightarrow> bool) (getActiveVirtualAccount M vas)"
proof -
  have c: "keeps (idle_at n wid tid b) m" if "keeps (books wid tid b None) m" "\<And>w. draws (snd (m w)) = draws w"
    for m :: "(('s, 'm) money_world_scheme, 'c) io"
    using that by (auto simp: keeps_def idle_at_def)
  show "keeps (idle_at n wid tid b :: ('s, 'm) money_world_scheme \<Rightarrow> bool) (ext_call M what p)"
    by (rule c [OF tidy_books [OF tidy_basic(6)]]) (simp add: ext_call_def call_ext_run)
  show "keeps (idle_at n wid tid b :: ('s, 'm) money_world_scheme \<Rightarrow> bool) (repo_findOne fwt_table P)"
    by (rule c [OF tidy_books [OF tidy_reads(2)] findOne_draws])
  show "keeps (idle_at n wid tid b :: ('s, 'm) money_world_scheme \<Rightarrow> bool) (find_wallet u a)"
    unfolding find_wallet_def by (rule c [OF tidy_books [OF tidy_reads(4)] findOne_draws])
  show "keeps (idle_at n wid tid b :: ('s, 'm) money_world_scheme \<Rightarrow> bool) (checkAndBlockConcurrent E u)"
    "keeps (idle_at n wid tid b :: ('s, 'm) money_world_scheme \<Rightarrow> bool) (checkDailyLimit E u k)"
    "keeps (idle_at n wid tid b :: ('s, 'm) money_world_scheme \<Rightarrow> bool) (incrementDailyAttempts E u)"
    by (rule c [OF services_books(3) [OF assms] spares_draws [OF spares_services(3) [OF assms]]]
             c [OF services_books(4) [OF assms] spares_draws [OF spares_services(4) [OF assms]]]
             c [OF services_books(5) [OF assms] spares_draws [OF spares_services(5) [OF assms]]])+
  show "keeps (idle_at n wid tid b :: ('s, 'm) money_world_scheme \<Rightarrow> bool) (getActiveVirtualAccount M vas)"
    unfolding getActiveVirtualAccount_def by (intro keeps_intros)
qed

lemma creation_books:
  assumes "fw_id wallet = wid"
  shows "keeps (books wid tid b None) (createNGTransactionAndFiatWalletTransaction M user idem dto wallet fee bank)"
proof -
  let ?c = "createNGTransactionAndFiatWalletTransaction M user idem dto wallet fee bank :: (('s, 'm) money_world_scheme, tx_row \<times> fwt_row) io"
  have "aside ?c"
    unfolding createNGTransactionAndFiatWalletTransaction_def generateTransactionReference_def tx_create_def fwt_create_def
    by (intro aside_intros)
  moreover have "keeps (linked wid tid) ?c"
    unfolding createNGTransactionAndFiatWalletTransaction_def generateTransactionReference_def
    by (intro keeps_linked_transaction keeps_intros creates_linked tidy_keeps_linked [OF tidy_reads(5)] tidy_keeps_linked [OF tidy_basic(7)])
       (simp add: assms)
  ultimately show ?thesis
    unfolding keeps_def aside_def books_def balance_is_def view_def by metis
qed

lemma drawn_reference: "triple (\<lambda>w. draws w = n) (generateTransactionReference M) (\<lambda>_ w. draws w = Suc n) (\<lambda>_ _. True)"
  by (simp add: triple_def generateTransactionReference_def new_value_def io_simps)

lemma drawn_transaction: "triple (\<lambda>w. draws w = n) (tx_create M u t) (\<lambda>x _. tx_id x = m_fresh M n) (\<lambda>_ _. True)"
proof (rule tripleI, goal_cases)
  case (1 w x w')
  then have r: "repo_create tx_table (t\<lparr>tx_id := m_fresh M n, tx_user := u, tx_processed := Some (now w)\<rparr>) (w\<lparr>draws := Suc (draws w)\<rparr>) = (Inr x, w')"
    by (simp add: tx_create_def new_value_def io_simps)
  show ?case
    by (rule txs.create_cases [of "t\<lparr>tx_id := m_fresh M n, tx_user := u, tx_processed := Some (now w)\<rparr>" "w\<lparr>draws := Suc (draws w)\<rparr>"])
       (use r in auto)
qed simp

lemma created_entry: "fwt_create M u f w = (Inr x, w') \<Longrightarrow> ft_wallet x = ft_wallet f"
proof -
  assume r: "fwt_create M u f w = (Inr x, w')"
  have c: "repo_create fwt_table g v = (Inr x, w') \<Longrightarrow> x = g" for g v
    by (rule fwts.create_cases [of g v]) auto
  from r show ?thesis
    by (auto simp: fwt_create_def insert_fwt_def new_value_def bind_run catch_run andthen_run
        split: prod.splits sum.splits option.splits if_splits dest!: c)
qed

lemma created_pair:
  "triple (\<lambda>w. draws w = n) (createNGTransactionAndFiatWalletTransaction M user idem dto wallet fee bank)
     (\<lambda>p _. tx_id (fst p) = m_fresh M (Suc n) \<and> ft_wallet (snd p) = fw_id wallet) (\<lambda>_ _. True)"
proof -
  have wallet: "triple (\<lambda>w. draws w = n) (repo_findById wallet_table i) (\<lambda>_ w. draws w = n) (\<lambda>_ _. True)" for i
    unfolding repo_findById_def
    by (rule triple_keeps [where I = "\<lambda>w. draws w = n"]) (simp_all add: keeps_def findOne_draws)
  have amount: "triple (\<lambda>w. draws w = n) (io_of r) (\<lambda>_ w. draws w = n) (\<lambda>_ _. True)" for r :: "exn + int"
    by (rule triple_io_of) simp_all
  have entry: "triple (\<lambda>_. tx_id tx = i) (bind (fwt_create M u f) (\<lambda>ft. ret (tx, ft)))
      (\<lambda>p _. tx_id (fst p) = i \<and> ft_wallet (snd p) = ft_wallet f) (\<lambda>_ _. True)" for u f tx i
    by (rule triple_bind [where Q' = "\<lambda>x _. tx_id tx = i \<and> ft_wallet x = ft_wallet f"])
       (auto intro!: tripleI triple_ret dest: created_entry)
  show ?thesis
    unfolding createNGTransactionAndFiatWalletTransaction_def
  proof (rule triple_transaction, rule triple_bind [OF amount], rule triple_bind [OF wallet], goal_cases)
    case (1 amount found)
    show ?case
    proof (cases found)
      case (Some fw)
      show ?thesis
        unfolding Some option.case
        by (rule triple_if [OF triple_throw triple_bind [OF amount triple_bind [OF drawn_reference triple_bind [OF drawn_transaction
              triple_conseq [OF entry]]]]]) simp_all
    qed (simp add: triple_throw)
  qed
qed

lemma idle_total: "idle_at n wid tid b w \<Longrightarrow> total_is wid tid b w"
  using books_total [of wid tid b None w] by (simp add: idle_at_def held_def)

lemma stable_idle: "key \<noteq> getEscrowKey tid \<Longrightarrow> lock_stable key (idle_at n wid tid b)"
  using stable_books [of key tid wid b None] unfolding lock_stable_def idle_at_def moved_def by auto

lemma section_total:
  assumes "m_redis M = E" "\<not> own_prefix E (getEscrowKey tid)" "tid = m_fresh M (Suc n)" "fw_id wallet = wid"
  shows "triple (idle_at n wid tid b :: ('s, 'm) money_world_scheme \<Rightarrow> bool)
    (bind (catch (createNGTransactionAndFiatWalletTransaction M user idem dto wallet fee bank) (\<lambda>_. throw withdrawal_failed))
      (\<lambda>(tx, ft). runWithdrawal M user dto bank va tx ft)) (\<lambda>_. total_is wid tid b) (\<lambda>_. total_is wid tid b)"
proof -
  let ?c = "createNGTransactionAndFiatWalletTransaction M user idem dto wallet fee bank :: (('s, 'm) money_world_scheme, tx_row \<times> fwt_row) io"
  have "triple (idle_at n wid tid b) ?c (\<lambda>p w. (tx_id (fst p) = tid \<and> ft_wallet (snd p) = wid) \<and> books wid tid b None w)
      (\<lambda>_ w. True \<and> books wid tid b None w)"
    by (rule triple_conj [OF triple_conseq [OF created_pair [of n]] triple_conseq [OF creation_books [OF assms(4), unfolded keeps_triple]]])
       (auto simp: idle_at_def assms)
  then have "triple (idle_at n wid tid b) (catch ?c (\<lambda>_. throw withdrawal_failed))
      (\<lambda>p w. (tx_id (fst p) = tid \<and> ft_wallet (snd p) = wid) \<and> books wid tid b None w) (\<lambda>_. total_is wid tid b)"
    by (rule triple_catch) (rule triple_throw, use books_total [of wid tid b None] in \<open>simp add: held_def\<close>)
  then show ?thesis
  proof (rule triple_bind, goal_cases)
    case (1 p)
    show ?case
      unfolding case_prod_beta by (rule triple_pure, rule run_total [OF assms(1,2)]) simp_all
  qed
qed

lemma send_total:
  assumes "m_redis M = E" "\<not> own_prefix E (getEscrowKey tid)" "tid = m_fresh M (Suc (Suc n))" "fw_id wallet = wid"
  shows "triple (idle_at n wid tid b :: ('s, 'm) money_world_scheme \<Rightarrow> bool)
    (sendMoneyToExternalNGAccount M user idem dto wallet) (\<lambda>_. total_is wid tid b) (\<lambda>_. total_is wid tid b)"
proof -
  have step: "triple (idle_at n wid tid b) (bind m f) (\<lambda>_. total_is wid tid b) (\<lambda>_. total_is wid tid b)"
    if "keeps (idle_at n wid tid b) m" "\<And>x. triple (idle_at n wid tid b) (f x) (\<lambda>_. total_is wid tid b) (\<lambda>_. total_is wid tid b)"
    for m :: "(('s, 'm) money_world_scheme, 'c) io" and f :: "'c \<Rightarrow> (('s, 'm) money_world_scheme, fwt_row option) io"
    by (rule triple_bind [OF triple_keeps [OF that(1)] that(2)]) (auto intro: idle_total)
  have seq: "triple (idle_at n wid tid b) (andthen m f) (\<lambda>_. total_is wid tid b) (\<lambda>_. total_is wid tid b)"
    if "keeps (idle_at n wid tid b) m" "triple (idle_at n wid tid b) f (\<lambda>_. total_is wid tid b) (\<lambda>_. total_is wid tid b)"
    for m :: "(('s, 'm) money_world_scheme, 'c) io" and f :: "(('s, 'm) money_world_scheme, fwt_row option) io"
    unfolding andthen_def by (rule step [OF that])
  have key: "withdrawKey user wallet idem \<noteq> getEscrowKey tid" by simp
  have lock: "triple (idle_at n wid tid b) (locked M (withdrawKey user wallet idem) 5 cb) (\<lambda>_. total_is wid tid b) (\<lambda>_. total_is wid tid b)"
    if cb: "triple (idle_at (Suc n) wid tid b) cb (\<lambda>_. total_is wid tid b) (\<lambda>_. total_is wid tid b)"
    for cb :: "(('s, 'm) money_world_scheme, fwt_row option) io"
    unfolding locked_def assms(1)
  proof (rule triple_bind)
    show "triple (idle_at n wid tid b) (new_value M) (\<lambda>_. idle_at (Suc n) wid tid b) (\<lambda>_. total_is wid tid b :: ('s, 'm) money_world_scheme \<Rightarrow> bool)"
      by (auto simp: triple_def new_value_def idle_at_def books_def balance_is_def linked_def view_def)
    have end': "total_is wid tid b (snd (cb w))" if "idle_at (Suc n) wid tid b w" for w
      using cb that by (auto simp: triple_def split: sum.splits)
    show "triple (idle_at (Suc n) wid tid b) (withLockN E own (withdrawKey user wallet idem) (Some 30000) 5 500 cb)
        (\<lambda>_. total_is wid tid b) (\<lambda>_. total_is wid tid b)" for own
      using withLockN_post [OF _ _ stable_idle [OF key] stable_total [OF key] end' idle_total]
      by (auto simp: triple_def split: sum.split)
  qed
  show ?thesis
    unfolding sendMoneyToExternalNGAccount_def assms(1)
    by (rule step [OF keeps_ret(3)], rule seq [OF idle_intros(1) [OF assms(2)]], rule step [OF idle_intros(1) [OF assms(2)]],
        rule triple_if [OF triple_throw], erule idle_total, rule step [OF idle_intros(7) [OF assms(2)]],
        rule seq [OF idle_intros(4) [OF assms(2)]], rule lock, rule section_total [OF assms(1,2,3,4)])
qed

lemma withdraw_total:
  assumes "m_redis M = E" "\<not> own_prefix E (getEscrowKey tid)" "tid = m_fresh M (Suc (Suc n))"
  shows "triple (\<lambda>w :: ('s, 'm) money_world_scheme. idle_at n wid tid b w
      \<and> (\<forall>r. List.find (\<lambda>x. fw_user x = sn_id user \<and> fw_asset x = ''NGN'') (wallets w) = Some r \<longrightarrow> fw_id r = wid))
    (withdrawToExternalNGAccount M user idem dto) (\<lambda>_. total_is wid tid b) (\<lambda>_. total_is wid tid b)"
proof -
  let ?own = "\<lambda>w :: ('s, 'm) money_world_scheme. \<forall>r. List.find (\<lambda>x. fw_user x = sn_id user \<and> fw_asset x = ''NGN'') (wallets w) = Some r \<longrightarrow> fw_id r = wid"
  let ?T = "\<lambda>_. total_is wid tid b :: ('s, 'm) money_world_scheme \<Rightarrow> bool"
  have step: "triple (idle_at n wid tid b) (andthen m f) ?T ?T"
    if "keeps (idle_at n wid tid b) m" "triple (idle_at n wid tid b) f ?T ?T"
    for m :: "(('s, 'm) money_world_scheme, 'c) io" and f :: "(('s, 'm) money_world_scheme, fwt_row option) io"
    by (rule triple_seq [OF triple_keeps [OF that(1)] that(2)]) (auto intro: idle_total)
  have stop: "triple (idle_at n wid tid b) (throw x :: (('s, 'm) money_world_scheme, fwt_row option) io) ?T ?T"
      "triple (idle_at n wid tid b) (ret y :: (('s, 'm) money_world_scheme, fwt_row option) io) ?T ?T" for x y
    by (rule triple_throw triple_ret, erule idle_total)+
  have seen: "triple (\<lambda>w. idle_at n wid tid b w \<and> ?own w) (repo_findOne fwt_table P) (\<lambda>_ w. idle_at n wid tid b w \<and> ?own w) ?T" for P
  proof (rule triple_keeps [where I = "\<lambda>w. idle_at n wid tid b w \<and> ?own w"])
    show "keeps (\<lambda>w. idle_at n wid tid b w \<and> ?own w) (repo_findOne fwt_table P)"
      unfolding keeps_def
    proof (intro allI impI, elim conjE)
      fix w :: "('s, 'm) money_world_scheme"
      assume i: "idle_at n wid tid b w" and o: "?own w"
      obtain fs where "snd (repo_findOne fwt_table P w) = w\<lparr>faults := fs\<rparr>" using fwts.findOne_state by blast
      then show "idle_at n wid tid b (snd (repo_findOne fwt_table P w)) \<and> ?own (snd (repo_findOne fwt_table P w))"
        using keepsD [OF idle_intros(2) [OF assms(2)] i, of P] o by simp
    qed
  qed (auto intro: idle_total)
  have wallet: "triple (\<lambda>w. idle_at n wid tid b w \<and> ?own w) (find_wallet (sn_id user) ''NGN'')
      (\<lambda>x w. (\<forall>r. x = Some r \<longrightarrow> fw_id r = wid) \<and> idle_at n wid tid b w) ?T"
  proof (rule tripleI, goal_cases)
    case (1 w x w')
    then have "idle_at n wid tid b w'" using keepsD [OF idle_intros(3) [OF assms(2)]] by (metis snd_conv)
    moreover have "x = List.find (\<lambda>x. fw_user x = sn_id user \<and> fw_asset x = ''NGN'') (wallets w)"
      using 1(2) unfolding find_wallet_def
      by (cases rule: wallets.findOne_cases [of "\<lambda>x. fw_user x = sn_id user \<and> fw_asset x = ''NGN''" w]) simp_all
    ultimately show ?case using 1(1) by simp
  next
    case (2 w x w')
    then show ?case using keepsD [OF idle_intros(3) [OF assms(2)]] idle_total by (metis snd_conv)
  qed
  have main: "triple (idle_at n wid tid b) (bind (io_of r) (\<lambda>a.
            andthen (ext_call M ''validateLimit'' (limit_query user a))
            (if fw_balance uw < a then throw (BadRequest ''Insufficient balance'')
             else andthen (checkDailyLimit (m_redis M) (sn_id user) MAX_DAILY_WITHDRAWAL_ATTEMPTS)
              (andthen (incrementDailyAttempts (m_redis M) (sn_id user))
              (if given (wd_beneficiary dto) then ret None
               else sendMoneyToExternalNGAccount M user idem dto uw))))) ?T ?T" if "fw_id uw = wid" for r uw
    unfolding assms(1)
    by (rule triple_bind [OF triple_keeps [OF keeps_ret(3)]], assumption, assumption, erule idle_total,
        rule step [OF idle_intros(1) [OF assms(2)]], rule triple_if [OF stop(1) step [OF idle_intros(5) [OF assms(2)]
          step [OF idle_intros(6) [OF assms(2)] triple_if [OF stop(2) send_total [OF assms that]]]]])
  show ?thesis
    unfolding withdrawToExternalNGAccount_def
  proof (rule triple_bind [OF seen], goal_cases)
    case (1 existing)
    have "triple (\<lambda>w. idle_at n wid tid b w \<and> ?own w) (bind (find_wallet (sn_id user) ''NGN'') (\<lambda>found. case found of
          None \<Rightarrow> throw (NotFound ''User wallet not found'')
        | Some userWallet \<Rightarrow>
            bind (io_of (formatCurrencyAmountToSmallestUnit (wd_amount dto) ''NGN'')) (\<lambda>amountInSmallestUnit.
            andthen (ext_call M ''validateLimit'' (limit_query user amountInSmallestUnit))
            (if fw_balance userWallet < amountInSmallestUnit then throw (BadRequest ''Insufficient balance'')
             else andthen (checkDailyLimit (m_redis M) (sn_id user) MAX_DAILY_WITHDRAWAL_ATTEMPTS)
              (andthen (incrementDailyAttempts (m_redis M) (sn_id user))
              (if given (wd_beneficiary dto) then ret None
               else sendMoneyToExternalNGAccount M user idem dto userWallet)))))) ?T ?T"
    proof (rule triple_bind [OF wallet], rule triple_pure, goal_cases)
      case (1 found)
      then show ?case by (cases found) (simp_all add: stop(1) main)
    qed
    then show ?case by (intro triple_if) (auto intro!: triple_ret triple_throw intro: idle_total)
  qed
qed

lemma poll_total:
  assumes "m_redis M = E" "pd_tx d = tid"
  shows "keeps (total_is wid tid B) (processStatusPoll M d n)"
  unfolding processStatusPoll_def handleCompletedWithdrawal_def handleFailedWithdrawal_def assms(2) Let_def
  by (intro keeps_intros tidy_total [OF tidy_reads(3)] tidy_total [OF tidy_basic(6)] tidy_total [OF tidy_steps(1)]
      tidy_total [OF tidy_steps(2)] tidy_total [OF tidy_steps(3)] tidy_total [OF tidy_steps(4)] tidy_total [OF tidy_steps(5)]
      tidy_total [OF tidy_steps(8)] tidy_total [OF tidy_steps(9)] revert_total [OF assms(1)])

lemma passing_total: "keeps (total_is wid tid B) (modify (\<lambda>w. w\<lparr>now := now w + int dt\<rparr>))"
proof -
  have "books wid tid b e (w\<lparr>now := now w + int dt\<rparr>)" if "books wid tid b e w" for b e and w :: "('s, 'm) money_world_scheme"
    using that by (simp add: books_def balance_is_def linked_def view_later live_escrow)
  then show ?thesis unfolding keeps_def total_is_def modify_run snd_conv by blast
qed

end

section \<open>Properties\<close>

text \<open>Polls of transactions, each some time after the one before.\<close>

fun polls :: "'s money_env \<Rightarrow> (nat \<times> poll_data \<times> int) list \<Rightarrow> ('s, 'm) money_world_scheme \<Rightarrow> ('s, 'm) money_world_scheme" where
  "polls M [] w = w"
| "polls M ((dt, d, n) # ps) w = polls M ps (snd (processStatusPoll M d n (w\<lparr>now := now w + int dt\<rparr>)))"

lemma polls_total:
  assumes "redis_server (m_redis M) ent"
  shows "(\<And>p. p \<in> set ps \<Longrightarrow> pd_tx (fst (snd p)) = tid) \<Longrightarrow> redis_server.total_is ent wid tid B w
    \<Longrightarrow> redis_server.total_is ent wid tid B (polls M ps w)"
proof (induction ps arbitrary: w)
  case (Cons p ps)
  obtain dt d n where p: "p = (dt, d, n)" by (cases p)
  have "redis_server.total_is ent wid tid B (w\<lparr>now := now w + int dt\<rparr>)"
    using keepsD [OF redis_server.passing_total [OF assms], of wid tid B w dt] Cons.prems(2) by simp
  moreover have "pd_tx d = tid" using Cons.prems(1) [of p] p by simp
  ultimately have "redis_server.total_is ent wid tid B (snd (processStatusPoll M d n (w\<lparr>now := now w + int dt\<rparr>)))"
    by (intro keepsD [OF redis_server.poll_total [OF assms refl]])
  with Cons p show ?case by simp
qed simp


text \<open>A provider with every answer the withdrawal asks for; the transfer stays pending.\<close>

definition demo_answer :: json where
  "demo_answer = JObj [(''accountName'', JStr ''Bola''), (''bankName'', JStr ''GTB''), (''hasSufficientBalance'', JBool True),
     (''transactionReference'', JStr ''P1''), (''status'', JStr ''PENDING'')]"

definition demo_provider :: "keyspace money_env" where
  "demo_provider = demo_money_env\<lparr>m_ext := \<lambda>_ _ _. Inr demo_answer\<rparr>"

definition demo_sender :: sender where
  "demo_sender = \<lparr>sn_id = ''u'', sn_first = ''Ada'', sn_last = ''Obi''\<rparr>"

definition demo_dto :: withdrawal_dto where
  "demo_dto = \<lparr>wd_bank_ref = ''058'', wd_account = ''0123456789'', wd_amount = 3, wd_remark = None, wd_beneficiary = None\<rparr>"

definition demo_poll :: poll_data where
  "demo_poll = \<lparr>pd_tx = ''2'', pd_fwt = ''3'', pd_user = ''u'', pd_reference = ''P1'', pd_amount = 3, pd_recipient = [], pd_remark = None\<rparr>"

lemma demo_provider_env [simp]: "m_redis demo_provider = ks_env ''app''" "m_fresh demo_provider = show_nat"
  by (simp_all add: demo_provider_def demo_money_env_def)

lemma third_draw [simp]: "show_nat 2 = ''2''" "show_nat (Suc (Suc 0)) = ''2''"
  by (subst show_nat.simps, simp add: digit_char_def, code_simp)+


end
