(* ===== verification/NgUsdMoney.thy ===== *)
theory NgUsdMoney
  imports NgUsdExchange NgConservation
begin

text \<open>
  What the job of a naira exchange does to the money. An attempt that finds nothing in escrow neither creates
  nor destroys any: all balances together with what is held for the exchange stay what they were, whatever
  the database and the providers do. An attempt that finds the escrow of an earlier one overwrites it. A
  second attempt after a refund charges the user again, and a failing transfer then leaves the amount in escrow.
\<close>

section \<open>Tables of the exchange beside the wallets\<close>

lemma aside_exchange_reads [aside_intros]:
  "aside (repo_findOne rate_table P)" "aside (repo_findOne rate_config_table Q)" "aside (repo_findOne account_table R)"
  "aside (repo_findOne card_table S)"
  by (auto simp: repo_findOne_def intro!: aside_intros)

lemma aside_exchange_writes [aside_intros]:
  "aside (repo_create rate_table r)" "aside (repo_update_id card_table i f)"
  by (auto simp: repo_create_def repo_update_id_def intro!: aside_intros)

lemma aside_card [aside_intros]: "aside (repo_update_where card_table P f)"
  unfolding repo_update_where_def by (intro aside_intros)

lemma aside_services [aside_intros]: "aside (service_up k)" "aside (service_down k e)"
  unfolding service_up_def service_down_def by (intro aside_intros)+

lemma aside_rate: "aside (validateRateOrThrow M X rateId ty)"
  unfolding validateRateOrThrow_def getRate_def rate_record_def by (intro aside_intros)

lemma aside_fee: "aside (calculateNgnWithdrawalFee a)"
  unfolding calculateNgnWithdrawalFee_def by (intro aside_intros)

lemma aside_by_reference: "aside (tx_by_reference ref)" "aside (entry_of_tx tid)"
  unfolding tx_by_reference_def entry_of_tx_def by (intro aside_intros)+

lemma aside_bank: "aside (payBank M X a bankInfo bank sender userId ref)"
  unfolding payBank_def feeRecord_def findOneByUserIdOrThrow_def
  by (intro aside_intros aside_fee aside_creates(3))

lemma keeps_both: "keeps I m \<Longrightarrow> keeps J m \<Longrightarrow> keeps (\<lambda>w. I w \<and> J w) m"
  by (simp add: keeps_def)

section \<open>Transactions with one reference\<close>

text \<open>Only the transaction \<open>tid\<close> has the reference.\<close>

definition named :: "string \<Rightarrow> string \<Rightarrow> ('s, 'm) money_world_scheme \<Rightarrow> bool" where
  "named ref tid w \<longleftrightarrow> (\<forall>t \<in> set (txs w). tx_reference t = ref \<longrightarrow> tx_id t = tid)"

lemma named_txs: "named ref tid w \<Longrightarrow> txs w' = txs w \<Longrightarrow> named ref tid w'"
  by (simp add: named_def)

lemma keeps_named: "(\<And>w. txs (snd (m w)) = txs w) \<Longrightarrow> keeps (named ref tid) m"
  by (simp add: keeps_def named_def)

lemma named_basic:
  "keeps (named ref tid) (ext_call M nm p)" "keeps (named ref tid) (new_value M)" "keeps (named ref tid) (redis_call E c)"
  "keeps (named ref tid) db_step"
  by (rule keeps_named, simp add: ext_call_def new_value_def call_ext_def redis_call_def split: prod.split)+

lemma named_reads:
  "keeps (named ref tid) (repo_findOne tx_table P)" "keeps (named ref tid) (repo_findOne fwt_table Q)"
  "keeps (named ref tid) (repo_findOne rate_config_table R)" "keeps (named ref tid) (repo_findOne account_table S)"
  "keeps (named ref tid) (repo_findOne card_table U)"
  unfolding repo_findOne_def by (intro keeps_intros named_basic)+

lemma named_transaction:
  fixes m :: "(('s, 'm) money_world_scheme, 'a) io"
  assumes "keeps (named ref tid) m"
  shows "keeps (named ref tid) (transaction m)"
  unfolding keeps_def
proof (intro allI impI)
  fix w :: "('s, 'm) money_world_scheme"
  assume n: "named ref tid w"
  obtain v w' where t: "transaction m w = (v, w')" by (cases "transaction m w")
  show "named ref tid (snd (transaction m w))"
  proof (cases v)
    case (Inl e)
    with t obtain w2 where "w' = rollback w w2" using transaction_aborts [of m w e] by auto
    with t n show ?thesis by (simp add: named_def)
  next
    case (Inr x)
    with t obtain w2 fs where "m w = (Inr x, w2)" "w' = w2\<lparr>faults := fs\<rparr>" using transaction_ok [of m w x w'] by auto
    with t keepsD [OF assms n] show ?thesis by (simp add: named_def)
  qed
qed

lemma named_update:
  assumes "\<And>r. tx_id (f r) = tx_id r \<and> tx_reference (f r) = tx_reference r"
  shows "keeps (named ref tid) (repo_update_id tx_table i f)"
  unfolding keeps_def
proof (intro allI impI)
  fix w :: "('s, 'm) money_world_scheme"
  assume n: "named ref tid w"
  show "named ref tid (snd (repo_update_id tx_table i f w))"
    by (cases rule: txs.update_id_cases [of i f w])
       (use n assms in \<open>auto simp: named_def replace_row_def dest: find_Some_in\<close>)
qed

lemma named_card: "keeps (named ref tid) (repo_update_where card_table P f :: (('s, 'm) exchange_world_scheme, card_tx_row) io)"
proof -
  have "keeps (named ref tid) (repo_update_id card_table i g :: (('s, 'm) exchange_world_scheme, card_tx_row option) io)" for i g
  proof (rule keeps_named)
    fix w :: "('s, 'm) exchange_world_scheme"
    show "txs (snd (repo_update_id card_table i g w)) = txs w"
      by (cases rule: card_fundings.update_id_cases [of i g w]) simp_all
  qed
  then show ?thesis unfolding repo_update_where_def by (intro keeps_intros named_reads)
qed

lemma named_wallet: "keeps (named ref tid) (getUserWallet M u c :: (('s, 'm) money_world_scheme, wallet_row) io)"
proof -
  have f: "keeps (named ref tid) (find_wallet u c :: (('s, 'm) money_world_scheme, wallet_row option) io)" for u c
    unfolding find_wallet_def repo_findOne_def by (intro keeps_intros named_basic)
  have "keeps (named ref tid) (create_wallet r :: (('s, 'm) money_world_scheme, wallet_row) io)" for r
  proof (rule keeps_named)
    fix w :: "('s, 'm) money_world_scheme"
    show "txs (snd (create_wallet r w)) = txs w" by (rule create_wallet_cases [of r w]) simp_all
  qed
  with f show ?thesis unfolding getUserWallet_def by (intro keeps_intros named_basic)
qed

lemma named_section: "keeps (named ref tid) (tx_section M i st mo opts)"
proof -
  have "keeps (named ref tid) (notify_status M st opts r)" for r
    by (rule keeps_named) (rule txs_after_notify)
  moreover have "tx_id (tx_status_data st mo t r) = tx_id r \<and> tx_reference (tx_status_data st mo t r) = tx_reference r" for t r
    by (simp add: tx_status_data_def Let_def)
  moreover have "keeps (named ref tid) (repo_findById_graph tx_table i)"
    unfolding repo_findById_graph_def repo_findById_def repo_findOne_def by (intro keeps_intros named_basic)
  ultimately show ?thesis
    unfolding tx_section_def by (intro keeps_intros named_update) simp_all
qed

lemma named_bank: "keeps (named ref tid) (payBank M X a bankInfo bank sender userId ref')"
  unfolding payBank_def feeRecord_def findOneByUserIdOrThrow_def calculateNgnWithdrawalFee_def generateTransactionReference_def
  by (intro keeps_intros named_basic named_reads named_transaction)

context redis_server
begin

lemma stable_named: "lock_stable key (named ref tid)"
  by (auto simp: lock_stable_def moved_def named_def)

lemma named_status:
  assumes "m_redis M = E"
  shows "keeps (named ref tid) (tx_updateStatus M i st mo opts)"
  unfolding tx_updateStatus_def locked_wait_def assms withLockW_def
  by (intro keeps_bind keeps_withLockN stable_named named_basic named_section; simp)

lemma named_deduct:
  assumes "m_redis M = E"
  shows "keeps (named ref tid) (deductFundsFromUser M t f a)"
proof -
  have u: "keeps (named ref tid) (updateBalance M wid b i ty st meta False :: (('s, 'm) money_world_scheme, wallet_row option) io)"
    for wid b i ty st meta
    unfolding keeps_triple
  proof (rule tripleI, goal_cases)
    case (1 w x w')
    with triple_ok [OF updateBalance_atomic [OF assms] refl 1(2)] show ?case by (auto simp: balance_moved_def named_def)
  next
    case (2 w x w')
    with triple_fail [OF updateBalance_atomic [OF assms] refl 2(2)] show ?case by (auto simp: tables_kept_def named_def)
  qed
  have m: "keeps (named ref tid) (moveMoneyToEscrow E i b)" for i b
    by (rule keeps_named) (simp add: move_run)
  show ?thesis unfolding deductFundsFromUser_def assms by (intro keeps_intros u m)
qed

lemma named_take:
  assumes "m_redis M = E"
  shows "keeps (named ref tid) (takeFunds M t f a)"
  unfolding takeFunds_def calculateNgnWithdrawalFee_def
  by (intro keeps_intros named_wallet named_reads named_deduct assms)

end

section \<open>Balances and escrow\<close>

lemma quiet_wallet: "quiet (getUserWallet M u c :: (('s, 'm) money_world_scheme, wallet_row) io)"
proof -
  have c: "quiet (create_wallet r :: (('s, 'm) money_world_scheme, wallet_row) io)" for r
    unfolding quiet_def
  proof
    fix w :: "('s, 'm) money_world_scheme"
    show "rds (snd (create_wallet r w)) = rds w \<and> now (snd (create_wallet r w)) = now w"
      by (rule create_wallet_cases [of r w]) simp_all
  qed
  have f: "quiet (find_wallet u c :: (('s, 'm) money_world_scheme, wallet_row option) io)" for u c
    unfolding find_wallet_def by (intro quiet_aside aside_intros)
  have n: "quiet (new_value M :: (('s, 'm) money_world_scheme, string) io)" by (simp add: quiet_def new_value_def)
  have opt: "quiet (case v of None \<Rightarrow> m | Some x \<Rightarrow> g x)" if "quiet m" "\<And>x. quiet (g x)"
    for v :: "'c option" and m :: "(('s, 'm) money_world_scheme, 'd) io" and g
    using that by (cases v) simp_all
  have p: "quiet (throw e :: (('s, 'm) money_world_scheme, wallet_row) io)" "quiet (ret x :: (('s, 'm) money_world_scheme, wallet_row) io)" for e x
    by (simp_all add: quiet_def)
  show ?thesis
    unfolding getUserWallet_def
    by (simp add: p) (intro impI quiet_bind quiet_catch f n c opt p, simp add: quiet_bind f opt p)
qed

context redis_server
begin

text \<open>What is in escrow for a transaction, and that together with all balances.\<close>

definition escrow_is :: "string \<Rightarrow> int option \<Rightarrow> ('s, 'm) base_scheme \<Rightarrow> bool" where
  "escrow_is tid e w \<longleftrightarrow> view ent w (getEscrowKey tid) = escrow_entry e"

definition purse :: "string \<Rightarrow> int \<Rightarrow> int option \<Rightarrow> ('s, 'm) money_world_scheme \<Rightarrow> bool" where
  "purse tid B e w \<longleftrightarrow> holding B w \<and> escrow_is tid e w"

definition sum_is :: "string \<Rightarrow> int \<Rightarrow> ('s, 'm) money_world_scheme \<Rightarrow> bool" where
  "sum_is tid S w \<longleftrightarrow> (\<exists>B e. purse tid B e w \<and> B + held e = S)"

lemma purse_sum: "purse tid B e w \<Longrightarrow> sum_is tid (B + held e) w"
  by (auto simp: sum_is_def)

lemma quiet_escrow: "quiet m \<Longrightarrow> keeps (escrow_is tid e) m"
  by (simp add: keeps_def quiet_def escrow_is_def view_def)

lemma stable_escrow: "key \<noteq> getEscrowKey tid \<Longrightarrow> lock_stable key (escrow_is tid e)"
  unfolding lock_stable_def escrow_is_def using moved_view live_escrow by metis

lemma locked_escrow:
  assumes "m_redis M = E" "key \<noteq> getEscrowKey tid" "quiet cb"
  shows "keeps (escrow_is tid e) (locked M key n cb)" "keeps (escrow_is tid e) (locked_wait M key cb)"
proof -
  have n: "keeps (escrow_is tid e) (new_value M)" by (rule quiet_escrow) (simp add: quiet_def new_value_def)
  show "keeps (escrow_is tid e) (locked M key n cb)" "keeps (escrow_is tid e) (locked_wait M key cb)"
    unfolding locked_def locked_wait_def withLockW_def assms(1)
    by (intro keeps_bind keeps_withLockN n stable_escrow assms(2) quiet_escrow [OF assms(3)]; simp)+
qed

lemma keeps_purse: "keeps (holding B) m \<Longrightarrow> keeps (escrow_is tid e) m \<Longrightarrow> keeps (purse tid B e) m"
  by (simp add: keeps_def purse_def)

lemma keeps_sum_is: "(\<And>B e. keeps (purse tid B e) m) \<Longrightarrow> keeps (sum_is tid S) m"
  unfolding keeps_def sum_is_def by blast

lemma aside_purse: "aside m \<Longrightarrow> keeps (purse tid B e) m"
  by (rule keeps_purse [OF aside_wallet_only quiet_escrow [OF quiet_aside]]) simp_all

lemmas aside_sum = keeps_sum_is [OF aside_purse]

lemma statusKey_escrow [simp]:
  "tx_statusKey i \<noteq> getEscrowKey tid" "fwt_statusKey i \<noteq> getEscrowKey tid"
  by (simp_all add: tx_statusKey_def fwt_statusKey_def getEscrowKey_def)

lemma status_purse:
  assumes "m_redis M = E"
  shows "keeps (purse tid B e) (tx_updateStatus M i st mo opts)" "keeps (purse tid B e) (fwt_updateStatus M i st m)"
proof -
  show "keeps (purse tid B e) (tx_updateStatus M i st mo opts)"
    by (rule keeps_purse [OF status_wallets(1) [OF assms]]) (simp_all add: tx_updateStatus_def locked_escrow assms quiet_sections)
  show "keeps (purse tid B e) (fwt_updateStatus M i st m)"
    by (rule keeps_purse [OF status_wallets(2) [OF assms]]) (simp_all add: fwt_updateStatus_def locked_escrow assms quiet_sections)
qed

lemma wallet_purse: "keeps (purse tid B e) (getUserWallet M u c)"
  by (rule keeps_purse [OF getUserWallet_holding quiet_escrow [OF quiet_wallet]])

lemma balance_escrow:
  assumes "m_redis M = E"
  shows "keeps (escrow_is tid e) (updateBalance M wid a t ty st meta inTrx)"
  unfolding updateBalance_def by (rule locked_escrow [OF assms _ quiet_section]) simp

lemma balance_purse:
  assumes "m_redis M = E"
  shows "triple (purse tid B e) (updateBalance M wid a t ty st meta False) (\<lambda>_. purse tid (B + a) e) (\<lambda>_. purse tid B e)"
proof (rule tripleI, goal_cases)
  case (1 w x w')
  then have "escrow_is tid e w'" using keepsD [OF balance_escrow [OF assms], of tid e w] by (simp add: purse_def) (metis snd_conv)
  with triple_ok [OF updateBalance_atomic [OF assms] refl 1(2)] 1(1) show ?case
    by (auto simp: purse_def intro: moved_holding)
next
  case (2 w x w')
  then have "escrow_is tid e w'" using keepsD [OF balance_escrow [OF assms], of tid e w] by (simp add: purse_def) (metis snd_conv)
  with triple_fail [OF updateBalance_atomic [OF assms] refl 2(2)] 2(1) show ?case
    by (auto simp: purse_def tables_kept_def intro: wallet_onlyD [OF wallet_only_intros(1)])
qed

text \<open>A transaction of the database that keeps the escrow leaves all balances or moves them as it should.\<close>

lemma transaction_purse:
  assumes "keeps (escrow_is tid e) m" "triple (holding B) m (\<lambda>_. holding B') (\<lambda>_ _. True)"
  shows "triple (purse tid B e) (transaction m) (\<lambda>_. purse tid B' e) (\<lambda>_. purse tid B e)"
proof (rule tripleI, goal_cases)
  case (1 w x w')
  then obtain w2 fs where w: "m w = (Inr x, w2)" "w' = w2\<lparr>faults := fs\<rparr>" by (elim transaction_ok)
  moreover have "holding B' w2" using triple_ok [OF assms(2) _ w(1)] 1(1) by (simp add: purse_def)
  moreover have "escrow_is tid e w2" using keepsD [OF assms(1), of w] 1(1) w(1) by (simp add: purse_def)
  ultimately show ?case by (simp add: purse_def escrow_is_def view_def holding_def total_balance_def)
next
  case (2 w x w')
  then have t: "fst (transaction m w) = Inl x" by simp
  have "escrow_is tid e (snd (transaction m w))"
  proof -
    have d: "keeps (escrow_is tid e) (bind m (\<lambda>x. andthen db_step (ret x)))"
      by (intro keeps_intros assms(1) quiet_escrow) (simp add: quiet_def)
    show ?thesis using keepsD [OF d, of w] 2(1)
      by (cases "bind m (\<lambda>x. andthen db_step (ret x)) w")
         (simp add: transaction_def purse_def escrow_is_def view_def split: sum.splits)
  qed
  moreover have "holding B w'" using transaction_aborts [OF t] 2
    by (auto simp: purse_def intro: wallet_onlyD [OF wallet_only_intros(1)])
  ultimately show ?case using 2(2) by (simp add: purse_def)
qed

lemma give_back_purse:
  assumes "m_redis M = E"
  shows "triple (purse tid B e) (createRefundTransactionAndFiatTransaction M a userId currency wallet)
    (\<lambda>_. purse tid (B + a) e) (\<lambda>_. purse tid B e)"
proof -
  have esc: "keeps (escrow_is tid e) m" if "aside m" for m :: "(('s, 'm) exchange_world_scheme, 'b) io"
    by (rule quiet_escrow [OF quiet_aside [OF that]])
  have st: "keeps (escrow_is tid e) (tx_updateStatus M i st mo opts :: (('s, 'm) exchange_world_scheme, tx_row option) io)" for i st mo opts
    unfolding tx_updateStatus_def by (rule locked_escrow [OF assms _ quiet_sections(2)]) simp
  have hold: "triple (holding T) m (\<lambda>_. holding T) (\<lambda>_ _. True)" if "aside m" for m :: "(('s, 'm) exchange_world_scheme, 'b) io" and T
    by (rule triple_keeps [OF aside_wallet_only [OF that]]) simp_all
  have ledger: "aside (when_do c (bind (findOneByUserIdOrThrow M userId) (\<lambda>va. andthen (ext_call M nm (p va)) (ret ())))
      :: (('s, 'm) exchange_world_scheme, unit) io)" for c nm p
    unfolding findOneByUserIdOrThrow_def by (intro aside_intros)
  have up: "triple (holding B) (updateBalance M wid a i ty st meta True) (\<lambda>_. holding (B + a)) (\<lambda>_ _. True)" for wid i ty st meta
    by (rule updateBalance_wallets [OF assms]) (auto intro: moved_holding)
  have status: "triple (holding (B + a)) (tx_updateStatus M i st mo opts) (\<lambda>_. holding (B + a)) (\<lambda>_ _. True)" for i st mo opts
    by (rule triple_keeps [OF status_wallets(1) [OF assms]]) simp_all
  show ?thesis
    unfolding createRefundTransactionAndFiatTransaction_def
  proof (rule transaction_purse)
    show "keeps (escrow_is tid e) (bind (generateTransactionReference M) (\<lambda>reference.
      andthen (when_do (to_lower (waas_provider M) \<noteq> ''paga'') (bind (findOneByUserIdOrThrow M userId) (\<lambda>va.
        andthen (ext_call M ''pagaLedger.depositMoney'' (ledger_deposit va a reference currency)) (ret ()))))
      (bind (tx_create M userId (give_back_tx a userId currency wallet reference)) (\<lambda>refund.
       bind (fwt_create M userId (give_back_entry a userId currency wallet refund)) (\<lambda>entry.
       andthen (updateBalance M (fw_id wallet) a (tx_id refund) F_REFUND COMPLETED (entry_meta (ft_id entry)) True)
       (andthen (tx_updateStatus M (tx_id refund) COMPLETED (Some no_meta) all_notifications) (ret ())))))))"
      by (intro keeps_bind keeps_seq keeps_ret esc [OF aside_creates(3)] esc [OF ledger] esc [OF aside_creates(1)]
          esc [OF aside_creates(2)] balance_escrow [OF assms] st)
    show "triple (holding B) (bind (generateTransactionReference M) (\<lambda>reference.
      andthen (when_do (to_lower (waas_provider M) \<noteq> ''paga'') (bind (findOneByUserIdOrThrow M userId) (\<lambda>va.
        andthen (ext_call M ''pagaLedger.depositMoney'' (ledger_deposit va a reference currency)) (ret ()))))
      (bind (tx_create M userId (give_back_tx a userId currency wallet reference)) (\<lambda>refund.
       bind (fwt_create M userId (give_back_entry a userId currency wallet refund)) (\<lambda>entry.
       andthen (updateBalance M (fw_id wallet) a (tx_id refund) F_REFUND COMPLETED (entry_meta (ft_id entry)) True)
       (andthen (tx_updateStatus M (tx_id refund) COMPLETED (Some no_meta) all_notifications) (ret ()))))))) (\<lambda>_. holding (B + a)) (\<lambda>_ _. True)"
      by (rule triple_bind [OF hold [OF aside_creates(3)]], rule triple_seq [OF hold [OF ledger]], rule triple_bind [OF hold [OF aside_creates(1)]],
          rule triple_bind [OF hold [OF aside_creates(2)]], rule triple_seq [OF up], rule triple_seq [OF status triple_ret])
  qed
qed

lemma escrow_purse:
  "triple (purse tid B e :: ('s, 'm) money_world_scheme \<Rightarrow> bool) (moveMoneyToEscrow E tid a) (\<lambda>_. purse tid B (Some a)) (\<lambda>_ _. False)"
  "triple (purse tid B e :: ('s, 'm) money_world_scheme \<Rightarrow> bool) (releaseMoneyFromEscrow E tid) (\<lambda>_. purse tid B None) (\<lambda>_ _. False)"
  "triple (purse tid B e :: ('s, 'm) money_world_scheme \<Rightarrow> bool) (getEscrowAmount E tid) (\<lambda>x w. x = Some (held e) \<and> purse tid B e w) (\<lambda>_ _. False)"
proof -
  have "purse tid B (Some a) (snd (moveMoneyToEscrow E tid a w))" if "purse tid B e w" for w :: "('s, 'm) money_world_scheme"
    using that move_view [of tid a w] by (simp add: move_run purse_def holding_def total_balance_def escrow_is_def escrow_entry_def)
  then show "triple (purse tid B e :: ('s, 'm) money_world_scheme \<Rightarrow> bool) (moveMoneyToEscrow E tid a) (\<lambda>_. purse tid B (Some a)) (\<lambda>_ _. False)"
    by (simp add: triple_def move_run)
  have "purse tid B None (snd (releaseMoneyFromEscrow E tid w))" if "purse tid B e w" for w :: "('s, 'm) money_world_scheme"
    using that release_escrow_view [of tid w]
    by (simp add: release_escrow_run purse_def holding_def total_balance_def escrow_is_def escrow_entry_def)
  then show "triple (purse tid B e :: ('s, 'm) money_world_scheme \<Rightarrow> bool) (releaseMoneyFromEscrow E tid) (\<lambda>_. purse tid B None) (\<lambda>_ _. False)"
    by (simp add: triple_def release_escrow_run)
  show "triple (purse tid B e :: ('s, 'm) money_world_scheme \<Rightarrow> bool) (getEscrowAmount E tid) (\<lambda>x w. x = Some (held e) \<and> purse tid B e w) (\<lambda>_ _. False)"
    unfolding triple_def
  proof (intro allI impI)
    fix w :: "('s, 'm) money_world_scheme"
    assume b: "purse tid B e w"
    then have t: "the_str (view ent w) (getEscrowKey tid) = Some (map_option (\<lambda>a. Raw (show_int a)) e)"
      by (cases e) (simp_all add: purse_def escrow_is_def escrow_entry_def the_str_def)
    then have g: "getEscrowAmount E tid w = (Inr (Some (held e)), w\<lparr>rds := snd (srv E (GET (getEscrowKey tid)) (now w) (rds w))\<rparr>)"
      by (cases e) (simp_all add: get_escrow_run escrow_def held_def)
    have "view ent (snd (getEscrowAmount E tid w)) = view ent w" by (rule get_escrow_view)
    then show "case fst (getEscrowAmount E tid w) of Inr x \<Rightarrow> x = Some (held e) \<and> purse tid B e (snd (getEscrowAmount E tid w)) | Inl _ \<Rightarrow> False"
      using g b by (simp add: purse_def escrow_is_def holding_def total_balance_def)
  qed
qed

text \<open>Giving back what is in escrow.\<close>

lemma refund_sum:
  fixes f :: fwt_row
  assumes "m_redis M = E" "tx_id t = tid"
  shows "keeps (sum_is tid S :: ('s, 'm) exchange_world_scheme \<Rightarrow> bool) (refundEscrow M t f)"
proof -
  let ?I = "sum_is tid S :: ('s, 'm) exchange_world_scheme \<Rightarrow> bool"
  have release: "triple (purse tid (B + held e) e) (releaseMoneyFromEscrow E tid) (\<lambda>_. ?I) (\<lambda>_. ?I)" if "B + held e = S" for B e
    by (rule triple_conseq [OF escrow_purse(2)]) (use that in \<open>auto dest!: purse_sum simp: held_def\<close>)
  have give: "triple (purse tid B e) (createRefundTransactionAndFiatTransaction M (held e) u c wallet) (\<lambda>_. purse tid (B + held e) e) (\<lambda>_. ?I)"
    if "B + held e = S" for B e u c wallet
    by (rule triple_conseq [OF give_back_purse [OF assms(1)]]) (use that purse_sum in auto)
  have get: "triple (purse tid B e) (getUserWallet M u c) (\<lambda>_. purse tid B e) (\<lambda>_. ?I)" if "B + held e = S" for B e u c
    by (rule triple_keeps [OF wallet_purse]) (use that purse_sum in auto)
  have read: "triple (purse tid B e) (getEscrowAmount E tid) (\<lambda>x w. x = Some (held e) \<and> purse tid B e w) (\<lambda>_. ?I)" for B e
    by (rule triple_conseq [OF escrow_purse(3)]) auto
  have "triple (purse tid B e) (refundEscrow M t f) (\<lambda>_. ?I) (\<lambda>_. ?I)" if s: "B + held e = S" for B e
    unfolding refundEscrow_def assms
  proof (rule triple_bind [OF read], rule triple_pure, goal_cases)
    case (1 x)
    have "triple (purse tid B e) (when_do (0 < held e) (bind (getUserWallet M (tx_user t) (ft_currency f)) (\<lambda>wallet.
         andthen (createRefundTransactionAndFiatTransaction M (held e) (tx_user t) (ft_currency f) wallet) (releaseMoneyFromEscrow E tid)))) (\<lambda>_. ?I) (\<lambda>_. ?I)"
      unfolding when_do_def
      by (rule triple_if [OF triple_bind [OF get [OF s] triple_seq [OF give [OF s] release [OF s]]] triple_ret]) (use s purse_sum in auto)
    with 1 show ?case by simp
  qed
  then show ?thesis
    unfolding keeps_triple triple_def sum_is_def [of tid S, abs_def] by blast
qed

lemma fail_sum:
  assumes "m_redis M = E"
  shows "keeps (sum_is tid S :: ('s, 'm) exchange_world_scheme \<Rightarrow> bool) (updateSourceTransactionsToFailed M tid why)"
proof -
  let ?I = "sum_is tid S :: ('s, 'm) exchange_world_scheme \<Rightarrow> bool"
  have mark: "keeps ?I (transaction (andthen (tx_updateStatus M (tx_id t) FAILED mo all_notifications)
             (case entry of None \<Rightarrow> throw undefined_row | Some f \<Rightarrow> andthen (fwt_updateStatus M (ft_id f) FAILED m) (ret f))))" for t :: tx_row and entry :: "fwt_row option" and mo m
  proof (rule keeps_sum_is)
    fix B e
    let ?m = "andthen (tx_updateStatus M (tx_id t) FAILED mo all_notifications)
             (case entry of None \<Rightarrow> throw undefined_row | Some f \<Rightarrow> andthen (fwt_updateStatus M (ft_id f) FAILED m) (ret f))
        :: (('s, 'm) exchange_world_scheme, fwt_row) io"
    have h: "keeps (holding B) ?m" by (intro keeps_intros status_wallets [OF assms]) simp_all
    have q: "keeps (escrow_is tid e) ?m"
      unfolding tx_updateStatus_def fwt_updateStatus_def
      by (intro keeps_intros locked_escrow(2) [OF assms] quiet_sections) simp_all
    have "triple (purse tid B e) (transaction ?m) (\<lambda>_. purse tid B e) (\<lambda>_. purse tid B e)"
      by (rule transaction_purse [OF q]) (rule triple_keeps [OF h]; simp)
    then show "keeps (purse tid B e) (transaction ?m)" by (simp only: keeps_triple)
  qed
  show ?thesis
    unfolding updateSourceTransactionsToFailed_def keeps_triple
  proof (rule triple_bind [where Q' = "\<lambda>found w. (\<forall>t. found = Some t \<longrightarrow> tx_id t = tid) \<and> ?I w"], goal_cases)
    case 1
    show ?case
    proof (rule tripleI, goal_cases)
      case (1 w x w')
      then have "?I w'" using keepsD [OF aside_sum [OF aside_reads(2)]] by (metis snd_conv)
      moreover have "x = List.find (\<lambda>r. tx_id r = tid) (txs w)"
        by (cases rule: txs.findOne_cases [of "\<lambda>r. tx_id r = tid" w]) (use 1(2) in simp_all)
      ultimately show ?case by (auto dest: find_Some_in)
    next
      case (2 w x w')
      then show ?case using keepsD [OF aside_sum [OF aside_reads(2)]] by (metis snd_conv)
    qed
  next
    case (2 found)
    show ?case
    proof (rule triple_pure)
      assume f: "\<forall>t. found = Some t \<longrightarrow> tx_id t = tid"
      have "keeps ?I (case found of None \<Rightarrow> ret () | Some t \<Rightarrow>
         if tx_status t = FAILED \<or> tx_status t = COMPLETED then ret ()
         else bind (repo_findOne fwt_table (\<lambda>r. ft_transaction r = tx_id t)) (\<lambda>entry.
          bind (transaction
            (andthen (tx_updateStatus M (tx_id t) FAILED (Some (failure_meta (take 255 why))) all_notifications)
             (case entry of None \<Rightarrow> throw undefined_row
              | Some f \<Rightarrow> andthen (fwt_updateStatus M (ft_id f) FAILED (failure_meta (take 255 why))) (ret f)))) (\<lambda>f.
          refundEscrow M t f)))"
        by (intro keeps_intros aside_sum [OF aside_reads(3)] mark refund_sum [OF assms]) (use f in auto)
      then show "triple ?I (case found of None \<Rightarrow> ret () | Some t \<Rightarrow>
         if tx_status t = FAILED \<or> tx_status t = COMPLETED then ret ()
         else bind (repo_findOne fwt_table (\<lambda>r. ft_transaction r = tx_id t)) (\<lambda>entry.
          bind (transaction
            (andthen (tx_updateStatus M (tx_id t) FAILED (Some (failure_meta (take 255 why))) all_notifications)
             (case entry of None \<Rightarrow> throw undefined_row
              | Some f \<Rightarrow> andthen (fwt_updateStatus M (ft_id f) FAILED (failure_meta (take 255 why))) (ret f)))) (\<lambda>f.
          refundEscrow M t f))) (\<lambda>_. ?I) (\<lambda>_. ?I)"
        unfolding keeps_triple .
    qed
  qed
qed

text \<open>After an attempt the sum is what it was, or what was in escrow before has been overwritten.\<close>

definition settled :: "string \<Rightarrow> int \<Rightarrow> int option \<Rightarrow> ('s, 'm) money_world_scheme \<Rightarrow> bool" where
  "settled tid B e w \<longleftrightarrow> sum_is tid (B + held e) w \<or> sum_is tid B w"

lemma purse_settled: "purse tid B e w \<Longrightarrow> settled tid B e w"
  by (simp add: settled_def purse_sum)

lemma keeps_settled: "(\<And>S. keeps (sum_is tid S) m) \<Longrightarrow> keeps (settled tid B e) m"
  unfolding keeps_def settled_def by blast

lemmas aside_settled = keeps_settled [OF aside_sum]

lemma deduct_settled:
  assumes "m_redis M = E" "tx_id t = tid"
  shows "triple (purse tid B e) (deductFundsFromUser M t f a) (\<lambda>_. settled tid B e) (\<lambda>_. settled tid B e)"
proof -
  have u: "triple (purse tid B e) (updateBalance M wid (- a) i ty st meta False) (\<lambda>_. purse tid (B - a) e) (\<lambda>_. settled tid B e)" for wid i ty st meta
    by (rule triple_conseq [OF balance_purse [OF assms(1), of tid B e wid "- a"]]) (simp_all add: purse_settled)
  have "purse tid (B - a) (Some a) w \<Longrightarrow> settled tid B e w" for w :: "('s, 'm) money_world_scheme"
    by (auto simp: settled_def held_def dest: purse_sum)
  then have m: "triple (purse tid (B - a) e) (moveMoneyToEscrow E tid a) (\<lambda>_. settled tid B e) (\<lambda>_. settled tid B e)"
    by (intro triple_conseq [OF escrow_purse(1)]) simp_all
  show ?thesis unfolding deductFundsFromUser_def assms by (rule triple_seq [OF u m])
qed

lemma take_settled:
  assumes "m_redis M = E" "tx_id t = tid"
  shows "triple (purse tid B e) (takeFunds M t f a) (\<lambda>_. settled tid B e) (\<lambda>_. settled tid B e)"
proof -
  have k: "triple (purse tid B e) m (\<lambda>_. purse tid B e) (\<lambda>_. settled tid B e)" if "keeps (purse tid B e) m"
    for m :: "(('s, 'm) exchange_world_scheme, 'c) io"
    by (rule triple_keeps [OF that]) (auto intro: purse_settled)
  show ?thesis
    unfolding takeFunds_def
    by (rule triple_seq [OF k [OF wallet_purse]], rule triple_bind [OF k [OF keeps_ret(3)]], rule triple_bind [OF k [OF aside_purse [OF aside_fee]]],
        rule triple_bind [OF k [OF keeps_ret(3)]], rule triple_if [OF triple_ret deduct_settled [OF assms]]) (rule purse_settled)
qed

lemma reference_purse:
  "triple (\<lambda>w. purse tid B e w \<and> named ref tid w) (tx_by_reference ref)
    (\<lambda>t w. tx_id t = tid \<and> purse tid B e w) (\<lambda>_. settled tid B e)"
  "triple (\<lambda>w. settled tid B e w \<and> named ref tid w) (tx_by_reference ref) (\<lambda>t w. tx_id t = tid \<and> settled tid B e w) (\<lambda>_. settled tid B e)"
proof -
  have g: "triple (\<lambda>w. I w \<and> named ref tid w) (tx_by_reference ref) (\<lambda>t w. tx_id t = tid \<and> I w) (\<lambda>_. I)"
    if "\<And>m :: (('s, 'm) money_world_scheme, tx_row) io. aside m \<Longrightarrow> keeps I m" for I
  proof (rule tripleI, goal_cases)
    case (1 w x w')
    then have "I w'" using keepsD [OF that [OF aside_by_reference(1)]] by (metis snd_conv)
    moreover have "tx_reference x = ref \<and> x \<in> set (txs w)"
      by (cases rule: txs.findOne_cases [of "\<lambda>r. tx_reference r = ref" w])
         (use 1(2) in \<open>auto simp: tx_by_reference_def bind_run split: option.splits dest: find_Some_in\<close>)
    ultimately show ?case using 1(1) by (simp add: named_def)
  next
    case (2 w x w')
    then show ?case using keepsD [OF that [OF aside_by_reference(1)]] by (metis snd_conv)
  qed
  show "triple (\<lambda>w. settled tid B e w \<and> named ref tid w) (tx_by_reference ref) (\<lambda>t w. tx_id t = tid \<and> settled tid B e w) (\<lambda>_. settled tid B e)"
    by (rule g) (rule aside_settled)
  show "triple (\<lambda>w. purse tid B e w \<and> named ref tid w) (tx_by_reference ref)
    (\<lambda>t w. tx_id t = tid \<and> purse tid B e w) (\<lambda>_. settled tid B e)"
    by (rule triple_conseq [OF g [of "purse tid B e"]]) (auto intro: aside_purse purse_settled)
qed

lemma send_settled:
  assumes "m_redis M = E"
  shows "triple (\<lambda>w. purse tid B e w \<and> named ref tid w) (sendMoneyToYellowcard M X a account bankInfo ref)
    (\<lambda>_. settled tid B e) (\<lambda>_. settled tid B e)"
proof -
  let ?P = "\<lambda>w :: ('s, 'm) exchange_world_scheme. purse tid B e w \<and> named ref tid w"
  have k: "triple ?P m (\<lambda>_. ?P) (\<lambda>_. settled tid B e)" if "aside m" "keeps (named ref tid) m" for m :: "(('s, 'm) exchange_world_scheme, 'c) io"
    by (rule triple_keeps [OF keeps_both [OF aside_purse [OF that(1)] that(2)]]) (auto intro: purse_settled)
  have x: "triple ?P (throw z :: (('s, 'm) exchange_world_scheme, json) io) (\<lambda>_. settled tid B e) (\<lambda>_. settled tid B e)" for z
    by (rule triple_throw) (auto intro: purse_settled)
  have entry: "triple (purse tid B e) (entry_of_tx i) (\<lambda>_. purse tid B e) (\<lambda>_. settled tid B e)" for i
    by (rule triple_keeps [OF aside_purse [OF aside_by_reference(2)]]) (auto intro: purse_settled)
  have bank: "triple (settled tid B e) (payBank M X a bi b account u ref) (\<lambda>_. settled tid B e) (\<lambda>_. settled tid B e)" for bi b u
    using aside_settled [OF aside_bank] unfolding keeps_triple .
  have main: "triple ?P (bind (tx_by_reference ref) (\<lambda>t. bind (entry_of_tx (tx_id t)) (\<lambda>f.
         andthen (takeFunds M t f a) (payBank M X a bi b account (tx_user t) ref)))) (\<lambda>_. settled tid B e) (\<lambda>_. settled tid B e)" for bi b
    by (rule triple_bind [OF reference_purse(1) triple_pure [OF triple_bind [OF entry triple_seq [OF take_settled [OF assms] bank]]]])
  show ?thesis
    unfolding sendMoneyToYellowcard_def
    by (rule triple_bind [OF k], rule aside_basic, rule named_basic, rule triple_bind [OF k], rule aside_basic, rule keeps_ret,
        rule triple_if [OF x triple_option [OF x main]])
qed

lemma named_send:
  assumes "m_redis M = E"
  shows "keeps (named ref tid) (sendMoneyToYellowcard M X a account bankInfo ref')"
  unfolding sendMoneyToYellowcard_def tx_by_reference_def entry_of_tx_def
  by (intro keeps_intros named_basic named_reads named_take named_bank assms)

lemma card_waits_kept:
  assumes "m_redis M = E"
  shows "keeps (settled tid B e :: ('s, 'm) exchange_world_scheme \<Rightarrow> bool) (card_waits M j)"
    and "keeps (named ref tid :: ('s, 'm) exchange_world_scheme \<Rightarrow> bool) (card_waits M j)"
  unfolding card_waits_def
  by (intro keeps_intros aside_settled [OF aside_by_reference(1)] keeps_settled [OF keeps_sum_is [OF status_purse(1) [OF assms]]]
      aside_settled [OF aside_card])
     (unfold tx_by_reference_def, intro keeps_intros named_reads named_status assms named_card)

lemma accept_settled:
  assumes "m_redis M = E"
  shows "triple (\<lambda>w. settled tid B e w \<and> named (nj_reference j) tid w) (accept_failed M j x) (\<lambda>_. settled tid B e) (\<lambda>_. settled tid B e)"
proof -
  have f: "triple (settled tid B e) (updateSourceTransactionsToFailed M tid why) (\<lambda>_. settled tid B e) (\<lambda>_. settled tid B e)" for why
    using keeps_settled [OF fail_sum [OF assms]] unfolding keeps_triple .
  have g: "triple (settled tid B e) (if tx_status t = COMPLETED \<or> tx_status t = FAILED then ret JNull
     else andthen (updateSourceTransactionsToFailed M (tx_id t) (message x)) (throw (InternalError (message x))))
     (\<lambda>_. settled tid B e) (\<lambda>_. settled tid B e)" if "tx_id t = tid" for t
    unfolding that by (rule triple_if [OF triple_ret triple_seq [OF f triple_throw]])
  show ?thesis unfolding accept_failed_def by (rule triple_bind [OF reference_purse(2) triple_pure [OF g]])
qed

lemma pay_settled:
  assumes "m_redis M = E"
  shows "triple (\<lambda>w :: ('s, 'm) exchange_world_scheme. purse tid B e w \<and> named (nj_reference j) tid w) (payProvider M X j request)
    (\<lambda>_. settled tid B e) (\<lambda>_. settled tid B e)"
proof -
  let ?P = "\<lambda>w :: ('s, 'm) exchange_world_scheme. purse tid B e w \<and> named (nj_reference j) tid w"
  let ?S = "\<lambda>w :: ('s, 'm) exchange_world_scheme. settled tid B e w \<and> named (nj_reference j) tid w"
  have ps: "?P w \<Longrightarrow> ?S w" for w by (simp add: purse_settled)
  have call: "triple ?P (ext_call M nm p) (\<lambda>_. ?P) (\<lambda>_. ?S)" for nm p
  proof (rule triple_keeps [where I = ?P])
    show "keeps ?P (ext_call M nm p)" by (rule keeps_both [OF aside_purse [OF aside_basic(8)] named_basic(1)])
  qed (simp_all add: ps)
  have send: "triple ?P (sendMoneyToYellowcard M X a account bankInfo (nj_reference j)) (\<lambda>_. ?S) (\<lambda>_. ?S)" for a account bankInfo
  proof -
    have "triple ?P (sendMoneyToYellowcard M X a account bankInfo (nj_reference j)) (\<lambda>_. named (nj_reference j) tid) (\<lambda>_. named (nj_reference j) tid)"
      by (rule triple_keeps [OF named_send [OF assms]]) simp_all
    from triple_conj [OF send_settled [OF assms] this] show ?thesis .
  qed
  have rest: "triple ?S (if nj_card j then card_waits M j else ret JNull) (\<lambda>_. settled tid B e) (\<lambda>_. ?S)"
  proof (rule triple_if)
    have "keeps ?S (card_waits M j)" by (rule keeps_both [OF card_waits_kept [OF assms]])
    then show "triple ?S (card_waits M j) (\<lambda>_. settled tid B e) (\<lambda>_. ?S)" by (rule triple_keeps) simp_all
  qed (rule triple_ret, simp)
  show ?thesis
    unfolding payProvider_def
    by (rule triple_catch [OF triple_bind [OF call triple_if [OF triple_throw triple_seq [OF send rest]]] accept_settled [OF assms]])
       (rule ps)
qed

end

section \<open>A whole attempt\<close>

text \<open>The transaction \<open>tid\<close> is the one with the reference.\<close>

definition known :: "string \<Rightarrow> string \<Rightarrow> ('s, 'm) money_world_scheme \<Rightarrow> bool" where
  "known ref tid w \<longleftrightarrow> named ref tid w \<and> (\<exists>t \<in> set (txs w). tx_reference t = ref)"

lemma keeps_known: "(\<And>T. keeps (\<lambda>w. txs w = T) m) \<Longrightarrow> keeps (known ref tid) m"
  unfolding keeps_def known_def named_def by metis

lemma txs_basic [keeps_intros]:
  "keeps (\<lambda>w. txs w = T) db_step" "keeps (\<lambda>w. txs w = T) (redis_call E c)" "keeps (\<lambda>w. txs w = T) (emit nm p)"
  by (simp_all add: keeps_def redis_call_def split: prod.split)

lemma txs_tables [keeps_intros]:
  "keeps (\<lambda>w. txs w = T) (repo_findOne fwt_table P)" "keeps (\<lambda>w. txs w = T) (repo_findOne rate_table Q)"
  "keeps (\<lambda>w. txs w = T) (repo_findOne rate_config_table R)" "keeps (\<lambda>w. txs w = T) (find_wallet u c)"
  unfolding repo_findOne_def find_wallet_def by (intro keeps_intros)+

lemma txs_rate_create [keeps_intros]: "keeps (\<lambda>w. txs w = T) (repo_create rate_table r)"
  unfolding repo_create_def by (intro keeps_intros) (simp add: keeps_def)

lemma txs_before:
  "keeps (\<lambda>w. txs w = T) (getTransactionData E ref)" "keeps (\<lambda>w. txs w = T) (calculateNgnWithdrawalFee a)"
  "keeps (\<lambda>w. txs w = T) (check_balance u x c)" "keeps (\<lambda>w. txs w = T) (validateRateOrThrow M X rateId ty)"
  "keeps (\<lambda>w. txs w = T) (getUserCountryAndProfileOrThrow M u)"
  unfolding getTransactionData_def rc_get_def calculateNgnWithdrawalFee_def check_balance_def checkIfUserHasEnoughBalanceOrThrow_def
    validateRateOrThrow_def getRate_def rate_record_def service_up_def service_down_def getUserCountryAndProfileOrThrow_def map_io_def
  by (intro keeps_intros)+

lemma aside_before: "aside (getUserCountryAndProfileOrThrow M u)" "aside (check_balance u x c)"
  unfolding getUserCountryAndProfileOrThrow_def check_balance_def checkIfUserHasEnoughBalanceOrThrow_def find_wallet_def
  by (intro aside_intros)+

context redis_server
begin

lemma data_purse: "keeps (purse tid B e :: ('s, 'm) money_world_scheme \<Rightarrow> bool) (getTransactionData E ref)"
proof -
  have "getEscrowKey tid \<noteq> exchangeDataKey ref" by (simp add: getEscrowKey_def exchangeDataKey_def)
  then have "spares (getEscrowKey tid) (getTransactionData E ref :: (('s, 'm) money_world_scheme, json option) io)"
    unfolding getTransactionData_def by (intro spares_intros)
  then obtain s where "snd (getTransactionData E ref w) = w\<lparr>rds := s w\<rparr> \<and> ent (s w) (now w) (getEscrowKey tid) = view ent w (getEscrowKey tid)"
    for w :: "('s, 'm) money_world_scheme" using sparesD by metis
  then show ?thesis by (simp add: keeps_def purse_def holding_def total_balance_def escrow_is_def view_def)
qed

text \<open>The records are there: they are looked up and nothing is written.\<close>

lemma records_known:
  "triple (\<lambda>w. purse tid B e w \<and> known ref tid w) (createAllSourceTransactionsOrThrow M q)
    (\<lambda>_ w. purse tid B e w \<and> known ref tid w) (\<lambda>_. settled tid B e)" if "sr_reference q = ref"
proof -
  let ?P = "\<lambda>w :: ('s, 'm) money_world_scheme. purse tid B e w \<and> known ref tid w"
  have read: "triple ?P (repo_findOne tx_table (\<lambda>r. tx_reference r = ref)) (\<lambda>x w. x \<noteq> None \<and> ?P w) (\<lambda>_. settled tid B e)"
  proof (rule tripleI, goal_cases)
    case (1 w x w')
    have "keeps ?P (repo_findOne tx_table (\<lambda>r. tx_reference r = ref))"
      by (rule keeps_both [OF aside_purse [OF aside_reads(2)] keeps_known [OF keeps_txs(3)]])
    then have "?P w'" using 1 keepsD by (metis snd_conv)
    moreover have "x \<noteq> None"
      by (cases rule: txs.findOne_cases [of "\<lambda>r. tx_reference r = ref" w]) (use 1 in \<open>auto simp: known_def find_None_iff\<close>)
    ultimately show ?case by simp
  next
    case (2 w x w')
    then show ?case using keepsD [OF aside_purse [OF aside_reads(2)], of tid B e w] purse_settled by (metis snd_conv)
  qed
  have entry: "triple ?P (repo_findOne fwt_table (\<lambda>r. ft_transaction r = i)) (\<lambda>_. ?P) (\<lambda>_. settled tid B e)" for i
    by (rule triple_keeps [OF keeps_both [OF aside_purse [OF aside_reads(3)] keeps_known [OF txs_tables(1)]]]) (auto intro: purse_settled)
  show ?thesis
    unfolding createAllSourceTransactionsOrThrow_def that
  proof (rule triple_catch [OF triple_bind [OF read triple_pure]], goal_cases)
    case (1 x)
    then obtain t where "x = Some t" by blast
    then show ?case by simp (rule triple_bind [OF entry triple_ret], simp)
  qed (rule triple_throw, simp)
qed

lemma attempt_settled:
  assumes "m_redis M = E"
  shows "triple (\<lambda>w :: ('s, 'm) exchange_world_scheme. purse tid B e w \<and> known (nj_reference j) tid w) (processExecuteNgToUSDExchange M X j)
    (\<lambda>_. settled tid B e) (\<lambda>_. settled tid B e)"
proof -
  let ?P = "\<lambda>w :: ('s, 'm) exchange_world_scheme. purse tid B e w \<and> known (nj_reference j) tid w"
  have k: "triple ?P m (\<lambda>_. ?P) (\<lambda>_. settled tid B e)" if "keeps (purse tid B e) m" "\<And>T. keeps (\<lambda>w. txs w = T) m"
    for m :: "(('s, 'm) exchange_world_scheme, 'c) io"
    by (rule triple_keeps [OF keeps_both [OF that(1) keeps_known [OF that(2)]]]) (auto intro: purse_settled)
  have stop: "triple ?P (throw z :: (('s, 'm) exchange_world_scheme, json) io) (\<lambda>_. settled tid B e) (\<lambda>_. settled tid B e)" for z
    by (rule triple_throw) (auto intro: purse_settled)
  have pay: "triple ?P (payProvider M X j request) (\<lambda>_. settled tid B e) (\<lambda>_. settled tid B e)" for request
    by (rule triple_conseq [OF pay_settled [OF assms]]) (auto simp: known_def)
  note txs_parts = txs_before keeps_ret keeps_txs
  have run: "triple ?P (runNgExchange M X j) (\<lambda>_. settled tid B e) (\<lambda>_. settled tid B e)"
    unfolding runNgExchange_def assms
    by (rule triple_bind [OF k [OF data_purse txs_before(1)]], rule triple_option [OF stop],
        rule triple_bind [OF k [OF aside_purse [OF aside_before(1)] txs_before(5)]],
        rule triple_bind [OF k [OF aside_purse [OF aside_basic(8)] keeps_txs(1)]], rule triple_if [OF stop],
        rule triple_bind [OF k [OF keeps_ret(3) keeps_ret(3)]], rule triple_bind [OF k [OF aside_purse [OF aside_fee] txs_before(2)]],
        rule triple_bind [OF k [OF keeps_ret(3) keeps_ret(3)]], rule triple_seq [OF k [OF aside_purse [OF aside_before(2)] txs_before(3)]],
        rule triple_seq [OF records_known], simp add: source_request_of_def,
        rule triple_seq [OF k [OF aside_purse [OF aside_rate] txs_before(4)]], rule triple_if [OF stop pay])
  have card: "keeps (settled tid B e) (andthen (when_do c (andthen (repo_update_where card_table P f) (ret ()))) (throw z)
      :: (('s, 'm) exchange_world_scheme, json) io)" for c P f z
    by (intro aside_settled aside_intros)
  show ?thesis
    unfolding processExecuteNgToUSDExchange_def
    by (rule triple_catch [OF run]) (use card in \<open>simp add: keeps_triple\<close>)
qed

end

section \<open>Offers\<close>

context redis_server
begin

lemma stored_view:
  "view ent (snd (storeTransactionData E ref d w)) = (view ent w)(exchangeDataKey ref := Some (RStr (Json d), Some (now w + 600000)))
    \<and> now (snd (storeTransactionData E ref d w)) = now w"
  by (simp add: storeTransactionData_def run px_ok_def fun_eq_iff)

lemma read_offer:
  "the_str (view ent w) (exchangeDataKey ref) = Some (map_option Json d) \<Longrightarrow> fst (getTransactionData E ref w) = Inr d"
  by (cases d) (simp_all add: getTransactionData_def run stored_json_def)

lemma offer_kept:
  assumes "0 \<le> dt" "w1 = snd (storeTransactionData E ref d w)"
  shows "fst (getTransactionData E ref (w1\<lparr>now := now w + dt\<rparr>)) = Inr (if dt < 600000 then Some d else None)"
proof -
  have "view ent (w1\<lparr>now := now w + dt\<rparr>) = live (now w + dt) (view ent w1)"
    by (rule view_later) (use assms stored_view [of ref d w] in simp)
  then have "view ent (w1\<lparr>now := now w + dt\<rparr>) (exchangeDataKey ref) = (if dt < 600000 then Some (RStr (Json d), Some (now w + 600000)) else None)"
    using stored_view [of ref d w] by (simp add: assms(2) live_def)
  then show ?thesis by (intro read_offer) (simp add: the_str_def)
qed

end

section \<open>Properties\<close>


lemma fee_state: "faults w = [] \<Longrightarrow> snd (calculateNgnWithdrawalFee a w) = w"
  by (simp add: calculateNgnWithdrawalFee_def rate_configs.findOne_calm bind_run)

lemma wallet_found:
  assumes "faults w = []" "isSupportedCurrency c" "List.find (\<lambda>r. fw_user r = u \<and> fw_asset r = c) (wallets w) = Some r"
  shows "getUserWallet M u c w = (Inr r, w)"
  using assms by (simp add: getUserWallet_def find_wallet_def wallets.findOne_calm bind_run)

lemma reference_calm:
  assumes "faults w = []" "List.find (\<lambda>r. tx_reference r = ref) (txs w) = Some t"
  shows "tx_by_reference ref w = (Inr t, w)"
  using assms by (simp add: tx_by_reference_def txs.findOne_calm bind_run)

lemma entry_calm:
  assumes "faults w = []" "List.find (\<lambda>r. ft_transaction r = tid) (fwts w) = Some f"
  shows "entry_of_tx tid w = (Inr f, w)"
  using assms by (simp add: entry_of_tx_def fwts.findOne_calm bind_run)

text \<open>
  C9: after a first attempt has failed and its amount has been refunded, the queue runs the job again. If the
  provider accepts the request again and the bank then refuses the transfer, the user is charged a second
  time: the amount leaves the wallet and stays in escrow, and because the exchange is already marked failed
  the job answers as if it had succeeded, without giving anything back.
\<close>

theorem second_attempt_keeps_amount:
  fixes w :: "('s, 'm) exchange_world_scheme"
  assumes "redis_server (m_redis M) ent" "faults w = []" "view ent w (balanceKey (fw_id r)) = None"
    and "List.find (\<lambda>x. tx_reference x = nj_reference j) (txs w) = Some t" "tx_status t = FAILED"
    and "List.find (\<lambda>x. tx_id x = tx_id t) (txs w) = Some t"
    and "List.find (\<lambda>x. ft_transaction x = tx_id t) (fwts w) = Some f" "List.find (\<lambda>x. ft_id x = ft_id f) (fwts w) = Some f"
    and "ft_id f \<noteq> []" "ft_wallet f = fw_id r" "ft_user f = fw_user r"
    and "List.find (\<lambda>x. fw_id x = fw_id r) (wallets w) = Some r"
    and "isSupportedCurrency (from_code t)" "List.find (\<lambda>x. fw_user x = tx_user t \<and> fw_asset x = from_code t) (wallets w) = Some q"
    and "\<And>h p. m_ext M h ''acceptPayInRequest'' p = Inr accepted" "accepted \<noteq> JNull" "jfield ''bankInfo'' accepted \<noteq> JNull"
    and "\<And>h p. m_ext M h ''getBankList'' p = Inr (JArr banks)"
    and "List.find (\<lambda>b. lower_includes ''bankName'' b (jfield ''name'' (jfield ''bankInfo'' accepted))) banks = Some bank"
    and "\<And>h p. m_ext M h ''transferToOtherBank'' p = Inl x"
    and "a = js_rat (jfield ''convertedAmount'' accepted)" "formatCurrencyAmountToSmallestUnit a (from_code t) = Inr n"
    and "fst (calculateNgnWithdrawalFee a w) = Inr fee" "formatCurrencyAmountToSmallestUnit fee ''NGN'' = Inr k"
    and "n + k \<le> fw_balance r"
  shows "\<exists>w'. payProvider M X j request w = (Inr JNull, w') \<and> txs w' = txs w
    \<and> balance_of w' (fw_id r) = Some (fw_balance r - (n + k)) \<and> view ent w' (getEscrowKey (tx_id t)) = escrow_entry (Some (n + k))"
proof -
  define w1 where "w1 = w\<lparr>outbox := (''acceptPayInRequest'', JObj [(''ref'', jfield ''ref'' request)]) # outbox w\<rparr>"
  define w2 where "w2 = w1\<lparr>outbox := (''getBankList'', JNull) # outbox w1\<rparr>"
  have fee: "calculateNgnWithdrawalFee a w2 = (Inr fee, w2)"
  proof -
    have "faults w2 = []" "rate_config_rows w2 = rate_config_rows w" by (simp_all add: w2_def w1_def assms(2))
    moreover from this have "fst (calculateNgnWithdrawalFee a w2) = fst (calculateNgnWithdrawalFee a w)"
      by (simp add: calculateNgnWithdrawalFee_def rate_configs.findOne_calm bind_run assms(2))
    ultimately show ?thesis using assms(23) fee_state [of w2 a] by (metis prod.collapse)
  qed
  obtain s where u: "updateBalance M (fw_id r) (- (n + k)) (tx_id t) F_EXCHANGE PENDING (entry_meta (ft_id f)) False w2
      = (Inr (Some (r\<lparr>fw_balance := fw_balance r + - (n + k)\<rparr>)), w2\<lparr>draws := Suc (draws w2), rds := s,
        wallets := replace_row fw_id (fw_id r) (r\<lparr>fw_balance := fw_balance r + - (n + k)\<rparr>) (wallets w2),
        fwts := replace_row ft_id (ft_id f) (mark_processed PENDING (fw_balance r + - (n + k)) (now w2) f) (fwts w2),
        outbox := (''WALLET_BALANCE_CHANGED'', balance_event r (fw_id r) (tx_id t) (fw_balance r) (fw_balance r + - (n + k))) # outbox w2\<rparr>)"
    by (rule redis_server.updateBalance_calm [OF assms(1) refl, of w2 "fw_id r" r "tx_id t" t "- (n + k)" "entry_meta (ft_id f)" "ft_id f" f F_EXCHANGE PENDING False])
       (use assms in \<open>simp_all add: w2_def w1_def view_def entry_meta_def\<close>)
  define w3 where "w3 = w2\<lparr>draws := Suc (draws w2), rds := s,
        wallets := replace_row fw_id (fw_id r) (r\<lparr>fw_balance := fw_balance r + - (n + k)\<rparr>) (wallets w2),
        fwts := replace_row ft_id (ft_id f) (mark_processed PENDING (fw_balance r + - (n + k)) (now w2) f) (fwts w2),
        outbox := (''WALLET_BALANCE_CHANGED'', balance_event r (fw_id r) (tx_id t) (fw_balance r) (fw_balance r + - (n + k))) # outbox w2\<rparr>"
  define w4 where "w4 = w3\<lparr>rds := snd (srv (m_redis M) (SET (getEscrowKey (tx_id t)) (Raw (show_int (n + k))) None) (now w3) (rds w3))\<rparr>"
  have move: "moveMoneyToEscrow (m_redis M) (tx_id t) (n + k) w3 = (Inr (), w4)"
    by (simp add: redis_server.move_run [OF assms(1)] w4_def)
  have held: "view ent w4 (getEscrowKey (tx_id t)) = escrow_entry (Some (n + k))"
    using redis_server.move_view [OF assms(1), of "tx_id t" "n + k" w3] by (simp add: move escrow_entry_def)
  have take: "takeFunds M t f a w2 = (Inr (), w4)"
    using u fee wallet_found [of w2 "from_code t" "tx_user t" q M] move assms
    by (simp add: takeFunds_def deductFundsFromUser_def andthen_run bind_run w2_def w1_def w3_def)
  define w5 where "w5 = w4\<lparr>outbox := (''transferToOtherBank'', bank_payment X a (jfield ''bankInfo'' accepted) bank (nj_account j) (nj_reference j)) # outbox w4\<rparr>"
  have kept: "faults w5 = []" "txs w5 = txs w" "wallets w5 = wallets w3" by (simp_all add: w5_def w4_def w3_def w2_def w1_def assms(2))
  have bank: "payBank M X a (jfield ''bankInfo'' accepted) bank (nj_account j) (tx_user t) (nj_reference j) w4 = (Inl x, w5)"
    by (simp add: payBank_def ext_call_def call_ext_run bind_run assms(20) w5_def)
  have send: "sendMoneyToYellowcard M X a (nj_account j) (jfield ''bankInfo'' accepted) (nj_reference j) w1 = (Inl x, w5)"
    using reference_calm [of w2 "nj_reference j" t] entry_calm [of w2 "tx_id t" f] take bank assms
    by (simp add: sendMoneyToYellowcard_def ext_call_def call_ext_run bind_run andthen_run js_list_def w2_def w1_def)
  have "payProvider M X j request w = accept_failed M j x w5"
    using send assms by (simp add: payProvider_def catch_run bind_run andthen_run ext_call_def call_ext_run w1_def)
  moreover have "accept_failed M j x w5 = (Inr JNull, w5)"
    using reference_calm [of w5 "nj_reference j" t] kept assms by (simp add: accept_failed_def bind_run)
  moreover have "view ent w5 (getEscrowKey (tx_id t)) = escrow_entry (Some (n + k))"
    using held by (simp add: w5_def view_def)
  moreover have "balance_of w5 (fw_id r) = Some (fw_balance r - (n + k))"
    using find_replaced [OF assms(12), where r' = "r\<lparr>fw_balance := fw_balance r + - (n + k)\<rparr>"] kept(3)
    by (simp add: balance_of_def w3_def w2_def w1_def)
  ultimately show ?thesis using kept(2) by (intro exI [of _ w5]) simp
qed

text \<open>
  The job checks the balance of the user for an ordinary exchange with an amount that is not a number,
  because the offer it reads stores no total fee; that check accepts every balance.
\<close>

theorem ordinary_exchange_unchecked:
  assumes "isSupportedCurrency (in_from o')" "\<not> nj_card j" "faults w = []"
  shows "amount_to_check j (exchange_data ref ch net o' a rate expires) ngnFee = Inr None
    \<and> check_balance u None (in_from o') w = (Inr (), w)"
  using assms
  by (auto simp: amount_to_check_def main_unit_def js_number_def add_numbers_def exchange_data_def supported_iff js_text_def
      check_balance_def find_wallet_def wallets.findOne_calm andthen_run bind_run formatCurrencyAmountToSmallestUnit_def)

text \<open>
  What is stored of an offer is read back unchanged for ten minutes and is gone afterwards; an offer
  that is accepted later is not found.
\<close>

theorem offer_round_trip:
  assumes "redis_server E ent" "0 \<le> dt" "w1 = snd (storeTransactionData E ref d w)"
  shows "fst (getTransactionData E ref (w1\<lparr>now := now w + dt\<rparr>)) = Inr (if dt < 600000 then Some d else None)"
  by (rule redis_server.offer_kept [OF assms])

section \<open>Instances\<close>

definition demo_failed :: tx_row where
  "demo_failed = demo_tx\<lparr>tx_reference := ''ref'', tx_status := FAILED, tx_meta := [(''from'', JStr ''NGN'')]\<rparr>"

definition demo_retry :: "keyspace exchange_world" where
  "demo_retry = demo_rate_world\<lparr>txs := [demo_failed]\<rparr>"

definition demo_job :: ng_job where
  "demo_job = \<lparr>nj_reference = ''ref'', nj_account = ''0123'', nj_rate = JStr ''r'', nj_user = ''u'', nj_card = False, nj_card_tx = None,
     nj_deposit = None\<rparr>"

definition demo_accepted :: json where
  "demo_accepted = JObj [(''convertedAmount'', JNum 3), (''bankInfo'', JObj [(''name'', JStr ''Paga'')])]"

definition demo_bank :: json where
  "demo_bank = JObj [(''bankName'', JStr ''PAGA'')]"

definition demo_bank_env :: "keyspace money_env" where
  "demo_bank_env = demo_money_env\<lparr>m_ext := \<lambda>_ nm _. if nm = ''acceptPayInRequest'' then Inr demo_accepted
     else if nm = ''getBankList'' then Inr (JArr [demo_bank]) else if nm = ''transferToOtherBank'' then Inl (PlainError ''timeout'') else Inr JNull\<rparr>"

lemma demo_bank_server: "redis_server (m_redis demo_bank_env) ks_ent"
  using demo_server by (simp add: demo_bank_env_def demo_money_env_def)


lemma second_attempt_keeps_amount_witness:
  "\<exists>w'. payProvider demo_bank_env demo_exchange_config demo_job JNull demo_retry = (Inr JNull, w')
    \<and> balance_of w' ''w'' = Some 700 \<and> view ks_ent w' (getEscrowKey ''t'') = escrow_entry (Some 300)"
proof -
  have "fst (calculateNgnWithdrawalFee 3 demo_retry) = Inr 0" by code_simp
  moreover have "view ks_ent demo_retry (balanceKey (fw_id demo_wallet)) = None"
    by (simp add: demo_retry_def demo_rate_world_def view_def ks_ent_def live_def)
  moreover have "List.find (\<lambda>b. lower_includes ''bankName'' b (jfield ''name'' (jfield ''bankInfo'' demo_accepted))) [demo_bank] = Some demo_bank"
    by code_simp
  moreover have "formatCurrencyAmountToSmallestUnit 3 (from_code demo_failed) = Inr 300" "formatCurrencyAmountToSmallestUnit 0 ''NGN'' = Inr 0"
    "isSupportedCurrency (from_code demo_failed)" "from_code demo_failed = ''NGN''" by code_simp+
  ultimately show ?thesis
    using second_attempt_keeps_amount [OF demo_bank_server, of demo_retry demo_wallet demo_job demo_failed demo_fwt demo_wallet demo_accepted "[demo_bank]" demo_bank
        "PlainError ''timeout''" 3 300 0 0 demo_exchange_config JNull]
    by (simp add: demo_retry_def demo_rate_world_def demo_failed_def demo_job_def demo_bank_env_def demo_accepted_def js_rat_def
        demo_tx_def demo_fwt_def blank_tx_def blank_fwt_def) auto
qed

lemma ordinary_exchange_unchecked_witness:
  "amount_to_check demo_job (exchange_data ''ref'' JNull JNull \<lparr>in_rate = ''r'', in_from = ''NGN'', in_to = ''USD'', in_amount = 5000\<rparr>
     test_address demo_rate 0) 50 = Inr None \<and> check_balance ''u'' None ''NGN'' demo_retry = (Inr (), demo_retry)"
proof -
  have "isSupportedCurrency ''NGN''" by code_simp
  then show ?thesis
    using ordinary_exchange_unchecked [of "\<lparr>in_rate = ''r'', in_from = ''NGN'', in_to = ''USD'', in_amount = 5000\<rparr>" demo_job demo_retry]
    by (simp add: demo_job_def demo_retry_def demo_rate_world_def)
qed

lemma offer_round_trip_witness:
  "fst (getTransactionData (ks_env ''app'') ''ref'' ((snd (storeTransactionData (ks_env ''app'') ''ref'' JNull demo_retry))
     \<lparr>now := now demo_retry + 600000\<rparr>)) = Inr None"
  using offer_round_trip [OF demo_server _ refl, where dt = 600000 and ref = "''ref''" and d = JNull and w = demo_retry] by (simp add: demo_money_env_def)

end
