(* ===== verification/UsdMoney.thy ===== *)
theory UsdMoney
  imports ExchangeRetry NgUsdMoney
begin

text \<open>
  What the exchange of dollars does: it reserves nothing, sends at most one coin in every attempt of its job,
  and records its failures; a repetition asks the provider as the job did, and sends no coin.
\<close>

section \<open>Counting the calls of a collaborator\<close>

definition calls :: "string \<Rightarrow> ('s, 'm) dbase_scheme \<Rightarrow> nat" where
  "calls nm w = length (filter (\<lambda>c. fst c = nm) (outbox w))"

definition at_most :: "string \<Rightarrow> nat \<Rightarrow> (('s, 'm) dbase_scheme, 'a) io \<Rightarrow> bool" where
  "at_most nm k m \<longleftrightarrow> (\<forall>w. calls nm (snd (m w)) \<le> calls nm w + k)"

named_theorems call_intros \<open>programs that do not call a collaborator\<close>

lemma at_mostD: "at_most nm k m \<Longrightarrow> calls nm (snd (m w)) \<le> calls nm w + k"
  by (simp add: at_most_def)

lemma at_most_frame: "(\<And>w. outbox (snd (m w)) = outbox w) \<Longrightarrow> at_most nm k m"
  by (simp add: at_most_def calls_def)

lemma calls_state [simp]:
  "calls nm (w\<lparr>faults := fs\<rparr>) = calls nm w" "calls nm (w\<lparr>rds := s\<rparr>) = calls nm w" "calls nm (w\<lparr>now := t\<rparr>) = calls nm w"
  "calls nm (w\<lparr>draws := d\<rparr>) = calls nm w" "calls nm (w\<lparr>outbox := (n, p) # outbox w\<rparr>) = (if n = nm then 1 else 0) + calls nm w"
  by (simp_all add: calls_def)

lemma at_most_basic [call_intros]:
  "at_most nm k (ret x)" "at_most nm k (throw e)" "at_most nm k (io_of r)" "at_most nm k get_state" "at_most nm k get_now"
  "at_most nm k db_step" "at_most nm k (new_value M)"
  by (simp_all add: at_most_def calls_def new_value_def db_step_def split: list.split option.split)

lemma at_most_call: "at_most nm 1 (ext_call M n p)" "at_most nm 1 (emit n p)"
  by (simp_all add: at_most_def ext_call_def call_ext_def)

lemma at_most_other [call_intros]: "n \<noteq> nm \<Longrightarrow> at_most nm k (ext_call M n p)" "n \<noteq> nm \<Longrightarrow> at_most nm k (emit n p)"
  by (simp_all add: at_most_def ext_call_def call_ext_def)

lemma at_most_bind: "at_most nm a m \<Longrightarrow> (\<And>x. at_most nm b (f x)) \<Longrightarrow> at_most nm (a + b) (bind m f)"
  unfolding at_most_def by (simp add: bind_run split: prod.split sum.split) (metis add.assoc add_le_mono1 le_add1 le_trans snd_conv)

lemma at_most_catch: "at_most nm a m \<Longrightarrow> (\<And>e. at_most nm b (h e)) \<Longrightarrow> at_most nm (a + b) (catch m h)"
  unfolding at_most_def by (simp add: catch_run split: prod.split sum.split) (metis add.assoc add_le_mono1 le_add1 le_trans snd_conv)

lemma at_most_seq: "at_most nm a m \<Longrightarrow> at_most nm b n \<Longrightarrow> at_most nm (a + b) (andthen m n)"
  by (simp add: andthen_def at_most_bind)

lemma at_most_sum: "at_most nm a m \<Longrightarrow> (\<And>x. at_most nm b (f x)) \<Longrightarrow> k = a + b \<Longrightarrow> at_most nm k (bind m f)"
  by (simp add: at_most_bind)

lemma at_most_le: "at_most nm a m \<Longrightarrow> a \<le> b \<Longrightarrow> at_most nm b m"
  unfolding at_most_def by (meson add_left_mono le_trans)

text \<open>A silent first part costs nothing, and neither does a silent handler.\<close>

lemma call_then [call_intros]:
  "at_most nm 0 m \<Longrightarrow> (\<And>x. at_most nm k (f x)) \<Longrightarrow> at_most nm k (bind m f)"
  "at_most nm 0 m \<Longrightarrow> at_most nm k n \<Longrightarrow> at_most nm k (andthen m n)"
  "at_most nm k m \<Longrightarrow> (\<And>e. at_most nm 0 (h e)) \<Longrightarrow> at_most nm k (catch m h)"
  using at_most_bind [of nm 0 m k f] at_most_seq [of nm 0 m k n] at_most_catch [of nm k m 0 h] by simp_all

lemma call_cases [call_intros]:
  "(b \<Longrightarrow> at_most nm k m) \<Longrightarrow> (\<not> b \<Longrightarrow> at_most nm k n) \<Longrightarrow> at_most nm k (if b then m else n)"
  "(b \<Longrightarrow> at_most nm k u) \<Longrightarrow> at_most nm k (when_do b u)"
  "at_most nm k m \<Longrightarrow> (\<And>x. v = Some x \<Longrightarrow> at_most nm k (g x)) \<Longrightarrow> at_most nm k (case v of None \<Rightarrow> m | Some x \<Rightarrow> g x)"
  "(\<And>x y. p = (x, y) \<Longrightarrow> at_most nm k (h x y)) \<Longrightarrow> at_most nm k (case p of (x, y) \<Rightarrow> h x y)"
  "at_most nm k (f z) \<Longrightarrow> at_most nm k (let x = z in f x)"
  by (auto simp: when_do_def at_most_basic split: option.split prod.split)

lemma call_transaction [call_intros]: "at_most nm k m \<Longrightarrow> at_most nm k (transaction m)"
proof -
  assume "at_most nm k m"
  then have "at_most nm k (bind m (\<lambda>x. andthen db_step (ret x)))"
    using at_most_bind [of nm k m 0 "\<lambda>x. andthen db_step (ret x)"] by (simp add: at_most_basic call_then)
  then show ?thesis
    by (auto simp: at_most_def transaction_def calls_def split: prod.split sum.split)
       (metis snd_conv)+
qed

lemma calls_reads [call_intros]:
  "at_most nm k (repo_findOne T P)" "at_most nm k (repo_findById T i)" "at_most nm k (find_wallet u c)"
proof -
  have r: "at_most nm k (repo_findOne T P)" for T :: "('r, ('s, 'm) dbase_scheme) table" and P
    unfolding repo_findOne_def by (intro call_intros)
  show "at_most nm k (repo_findOne T P)" by (rule r)
  show "at_most nm k (repo_findById T i)" unfolding repo_findById_def by (rule r)
  show "at_most nm k (find_wallet u c)" unfolding find_wallet_def by (rule r)
qed

lemma calls_writes [call_intros]:
  "at_most nm k (repo_create tx_table t)" "at_most nm k (repo_create fwt_table f)" "at_most nm k (repo_create rate_table r)"
  "at_most nm k (repo_create wallet_table v)" "at_most nm k (repo_create account_table a)"
  "at_most nm k (repo_update_id tx_table i gt)" "at_most nm k (repo_update_id fwt_table i gf)" "at_most nm k (repo_update_id account_table i ga)"
  unfolding repo_create_def repo_update_id_def by (intro call_intros, simp add: at_most_def calls_def)+

lemma calls_services [call_intros]:
  "''SERVICE_STATUS_SUCCESS'' \<noteq> nm \<Longrightarrow> at_most nm n (service_up k)" "''SERVICE_STATUS_FAILURE'' \<noteq> nm \<Longrightarrow> at_most nm n (service_down k e)"
  unfolding service_up_def service_down_def by (intro call_intros; simp)+

text \<open>The two calls that move money.\<close>

abbreviation payout_calls :: "string \<Rightarrow> bool" where
  "payout_calls nm \<equiv> nm = ''createPayOutRequest'' \<or> nm = ''createWithdrawalRequest''"

lemma calls_rate: "payout_calls nm \<Longrightarrow> at_most nm 0 (validateRateOrThrow M X r ty)"
  unfolding validateRateOrThrow_def getRate_def rate_record_def by (intro call_intros) auto

lemma calls_route: "payout_calls nm \<Longrightarrow> at_most nm 0 (getYellowCardChannelAndBank M X cc)"
  unfolding getYellowCardChannelAndBank_def by (intro call_intros) (auto split: json.split)

lemma calls_checks:
  "payout_calls nm \<Longrightarrow> at_most nm 0 (validateUserDetailsForExchange M cu u)" "payout_calls nm \<Longrightarrow> at_most nm 0 (validateKycDetailsForExchange M ck v)"
  unfolding validateUserDetailsForExchange_def validateKycDetailsForExchange_def by (intro call_intros; auto)+

lemma calls_list: "at_most nm k e \<Longrightarrow> (\<And>x y. at_most nm k (f x y)) \<Longrightarrow> at_most nm k (case xs of [x, y] \<Rightarrow> f x y | _ \<Rightarrow> e)"
  by (auto split: list.split)

lemma calls_payout:
  "at_most ''createPayOutRequest'' 1 (createYellowCardPayoutRequest M X u a c b r n)"
  "at_most ''createWithdrawalRequest'' 0 (createYellowCardPayoutRequest M X u a c b r n)"
  "at_most ''createPayOutRequest'' 1 (retryPayoutRequest M X u a c b r n)"
  "at_most ''createWithdrawalRequest'' 0 (retryPayoutRequest M X u a c b r n)"
  unfolding createYellowCardPayoutRequest_def retryPayoutRequest_def
  by (intro call_then(1) calls_checks calls_list at_most_basic at_most_call(1) at_most_other(1); simp)+

lemma calls_coin:
  "at_most ''createPayOutRequest'' 0 (sendCoin M X j t p)" "at_most ''createWithdrawalRequest'' 1 (sendCoin M X j t p)"
proof -
  have rest: "at_most nm 0 (if request = JNull then throw undefined_row
      else andthen (repo_update_id tx_table (tx_id t) (submitted_tx t p request))
        (andthen (repo_update_id fwt_table (ft_id (uj_entry j)) (submitted_entry request)) (service_up ''currency_exchange'')))"
    if "payout_calls nm" for nm request
    using that by (intro call_intros) auto
  have down: "at_most nm k (exchange_down reason)" if "payout_calls nm" for nm k reason
    using that unfolding exchange_down_def by (intro call_intros) auto
  show "at_most ''createPayOutRequest'' 0 (sendCoin M X j t p)"
    unfolding sendCoin_def by (intro call_cases(1) down call_then(1) rest at_most_other(1); simp)
  show "at_most ''createWithdrawalRequest'' 1 (sendCoin M X j t p)"
    unfolding sendCoin_def
    by (intro call_cases(1) down at_most_sum [where a = 1 and b = 0] at_most_call(1) rest; simp)
qed

lemma calls_failed: "payout_calls nm \<Longrightarrow> at_most nm 0 (exchangeFailed errors j t va e)"
  unfolding exchangeFailed_def record_failure_def drop_account_def by (intro call_intros) auto

lemma calls_submit:
  assumes "payout_calls nm"
  shows "at_most nm 1 (submitExchange M X j t va)"
proof -
  have "at_most nm 1 (bind (createYellowCardPayoutRequest M X u a c b r n) (sendCoin M X j t))" for u a c b r n
    using assms
  proof
    assume nm: "nm = ''createPayOutRequest''"
    show ?thesis unfolding nm by (rule at_most_sum [OF calls_payout(1) calls_coin(1)]) simp
  next
    assume nm: "nm = ''createWithdrawalRequest''"
    show ?thesis unfolding nm by (rule at_most_sum [OF calls_payout(2) calls_coin(2)]) simp
  qed
  then show ?thesis
    unfolding submitExchange_def using assms
    by (intro call_then(1) [OF calls_route] call_then(2) [OF calls_rate] call_cases(4)) simp_all
qed

lemma calls_process: "payout_calls nm \<Longrightarrow> at_most nm 1 (processExchange M X errors j)"
  unfolding processExchange_def
  by (intro call_then(1) at_most_basic call_cases(4) call_then(3) calls_submit calls_failed; simp)

lemma calls_attempts: "payout_calls nm \<Longrightarrow> at_most nm (Suc n) (usd_attempts n M X errors j)"
proof (induction n)
  case (Suc n)
  show ?case
    unfolding usd_attempts.simps
    by (rule at_most_le [OF at_most_catch [OF calls_process [OF Suc.prems] Suc.IH [OF Suc.prems]]]) simp
qed (use calls_process in simp)

section \<open>What an exchange leaves alone\<close>

text \<open>The rows there were are still there; new wallets are empty and new entries initiated.\<close>

definition spared :: "wallet_row list \<Rightarrow> fwt_row list \<Rightarrow> ('s, 'm) money_world_scheme \<Rightarrow> bool" where
  "spared W F w \<longleftrightarrow> (\<exists>ws. wallets w = ws @ W \<and> (\<forall>r \<in> set ws. fw_balance r = 0))
     \<and> (\<exists>fs. fwts w = fs @ F \<and> (\<forall>f \<in> set fs. ft_status f = INITIATED))"

lemma spared_frame: "(\<And>w. wallets (snd (m w)) = wallets w \<and> fwts (snd (m w)) = fwts w) \<Longrightarrow> keeps (spared W F) m"
  by (simp add: keeps_def spared_def)

lemma spared_state [simp]:
  "spared W F (w\<lparr>faults := fs\<rparr>) = spared W F w" "spared W F (w\<lparr>draws := d\<rparr>) = spared W F w" "spared W F (w\<lparr>outbox := ob\<rparr>) = spared W F w"
  "spared W F (w\<lparr>txs := ts\<rparr>) = spared W F w" "spared W F (rollback w w') = spared W F w"
  by (simp_all add: spared_def)

lemma spared_exchange_state [simp]:
  "spared W F (w\<lparr>rate_rows := rs\<rparr>) = spared W F w" "spared W F (w\<lparr>account_rows := as\<rparr>) = spared W F w"
  by (simp_all add: spared_def)

lemma spared_basic [keeps_intros]:
  "keeps (spared W F) (ext_call M nm p)" "keeps (spared W F) (emit nm p)" "keeps (spared W F) (new_value M)" "keeps (spared W F) db_step"
  by (simp_all add: keeps_def ext_call_def call_ext_def new_value_def spared_def)

lemma spared_reads [keeps_intros]: "keeps (spared W F) (repo_findOne T P)" "keeps (spared W F) (repo_findById T i)" "keeps (spared W F) (find_wallet u c)"
proof -
  have r: "keeps (spared W F) (repo_findOne T P)" for T :: "('r, ('s, 'm) money_world_scheme) table" and P
    unfolding repo_findOne_def by (intro keeps_intros)
  show "keeps (spared W F) (repo_findOne T P)" by (rule r)
  show "keeps (spared W F) (repo_findById T i)" unfolding repo_findById_def by (rule r)
  show "keeps (spared W F) (find_wallet u c)" unfolding find_wallet_def by (rule r)
qed

lemma spared_creates [keeps_intros]:
  "keeps (spared W F) (repo_create tx_table t)" "keeps (spared W F) (repo_create rate_table r)" "keeps (spared W F) (repo_create account_table a)"
  unfolding repo_create_def by (intro keeps_intros, simp add: keeps_def)+

lemma spared_entry: "ft_status f = INITIATED \<Longrightarrow> keeps (spared W F) (insert_fwt f)"
  unfolding insert_fwt_def repo_create_def
  by (intro keeps_intros) (auto simp: keeps_def spared_def)

lemma spared_wallet [keeps_intros]: "keeps (spared W F) (getUserWallet M u c)"
proof -
  have c: "keeps (spared W F) (create_wallet r)" if "fw_balance r = 0" for r
    unfolding keeps_def
  proof (intro allI impI)
    fix w :: "('s, 'm) money_world_scheme"
    assume "spared W F w"
    with that show "spared W F (snd (create_wallet r w))"
      by (cases rule: create_wallet_cases [of r w]) (auto simp: spared_def)
  qed
  show ?thesis unfolding getUserWallet_def by (intro keeps_intros c) simp
qed

lemma spared_transaction [keeps_intros]:
  fixes m :: "(('s, 'm) money_world_scheme, 'a) io"
  assumes "keeps (spared W F) m"
  shows "keeps (spared W F) (transaction m)"
  unfolding keeps_def
proof (intro allI impI)
  fix w :: "('s, 'm) money_world_scheme"
  assume n: "spared W F w"
  obtain v w' where t: "transaction m w = (v, w')" by (cases "transaction m w")
  show "spared W F (snd (transaction m w))"
  proof (cases v)
    case (Inl e)
    with t obtain w2 where "w' = rollback w w2" using transaction_aborts [of m w e] by auto
    with t n show ?thesis by simp
  next
    case (Inr x)
    with t obtain w2 fs where "m w = (Inr x, w2)" "w' = w2\<lparr>faults := fs\<rparr>" using transaction_ok [of m w x w'] by auto
    with t keepsD [OF assms n] show ?thesis by simp
  qed
qed

lemma spared_list [keeps_intros]: "keeps I e \<Longrightarrow> (\<And>x xs. keeps I (f x xs)) \<Longrightarrow> keeps I (case v of [] \<Rightarrow> e | x # xs \<Rightarrow> f x xs)"
  by (cases v) simp_all

lemma spared_rate [keeps_intros]: "keeps (spared W F) (validateRateOrThrow M X r ty)"
  unfolding validateRateOrThrow_def getRate_def rate_record_def service_up_def service_down_def by (intro keeps_intros)

lemma spared_account [keeps_intros]:
  "keeps (spared W F) (account_create M u d ty force)" "keeps (spared W F) (findOrCreateVirtualAccount M u d ty)"
  "keeps (spared W F) (getValidatedVirtualAccount M u ty tid)"
  unfolding getValidatedVirtualAccount_def findOrCreateVirtualAccount_def account_create_def provide_account_def insert_account_def
  by (intro keeps_intros)+

lemma spared_record [keeps_intros]: "keeps (spared W F) (recordExchange M X u p d)"
proof -
  have entry: "keeps (spared W F) (fwt_create M u (usd_source_entry X d p wallet a r t))" for wallet a r t
    unfolding fwt_create_def
    by (intro keeps_intros spared_entry) (simp add: usd_source_entry_def)
  show ?thesis
    unfolding recordExchange_def createSourceTransactions_def validateWalletAndBalance_def checkPendingExchangeTransaction_def
      generateTransactionReference_def tx_create_def queueExchange_def
    by (intro keeps_intros entry)
qed

lemma spared_section: "keeps (spared W F) (exchangeSection M X u d)"
  unfolding exchangeSection_def by (intro keeps_intros)

context redis_server
begin

lemma spared_locked: "m_redis M = E \<Longrightarrow> keeps (spared W F) cb \<Longrightarrow> keeps (spared W F) (locked M key n cb)"
proof -
  assume M: "m_redis M = E" and cb: "keeps (spared W F) cb"
  have "lock_stable key (spared W F)" by (auto simp: lock_stable_def moved_def spared_def)
  then show ?thesis unfolding locked_def M by (intro keeps_bind spared_basic keeps_withLockN cb) simp_all
qed

lemma spared_exchange:
  assumes "m_redis M = E" "\<not> naira_to_dollars d"
  shows "keeps (spared W F) (exchange M X u d)"
  unfolding exchange_def validateKycVerification_def using assms(2)
  by (intro keeps_intros spared_locked [OF assms(1) spared_section]) simp_all

end

lemma aside_splits [aside_intros]:
  "(\<And>x y. p = (x, y) \<Longrightarrow> aside (f x y)) \<Longrightarrow> aside (case p of (x, y) \<Rightarrow> f x y)"
  "aside e \<Longrightarrow> (\<And>x xs. aside (g x xs)) \<Longrightarrow> aside (case l of [] \<Rightarrow> e | x # xs \<Rightarrow> g x xs)"
  by (simp_all split: prod.split list.split)

lemma aside_account [aside_intros]: "aside (repo_update_id account_table i f)"
  unfolding repo_update_id_def by (auto intro!: aside_intros)

lemma aside_process: "aside (processExchange M X errors j)"
  unfolding processExchange_def submitExchange_def exchangeFailed_def record_failure_def drop_account_def sendCoin_def exchange_down_def
    getYellowCardChannelAndBank_def createYellowCardPayoutRequest_def validateUserDetailsForExchange_def validateKycDetailsForExchange_def
  by (intro aside_intros aside_rate)

lemma aside_attempts: "aside (usd_attempts n M X errors j)"
  by (induction n) (simp_all add: aside_process aside_catch)

section \<open>A failed exchange\<close>

text \<open>No fault is left and the records of the job are in their tables.\<close>

definition recorded :: "string \<Rightarrow> string \<Rightarrow> ('s, 'm) exchange_world_scheme \<Rightarrow> bool" where
  "recorded tid fid w \<longleftrightarrow> faults w = [] \<and> tid \<in> tx_id ` set (txs w) \<and> fid \<in> ft_id ` set (fwts w)"

lemma recorded_frame [keeps_intros]:
  "keeps (recorded tid fid) (ext_call M nm p)" "keeps (recorded tid fid) (emit nm p)" "keeps (recorded tid fid) (new_value M)"
  "keeps (recorded tid fid) db_step"
  by (simp_all add: keeps_def ext_call_def call_ext_def new_value_def recorded_def db_step_def)

lemma recorded_reads [keeps_intros]: "keeps (recorded tid fid) (repo_findOne T P)"
  unfolding repo_findOne_def by (intro keeps_intros)

lemma recorded_rates [keeps_intros]: "keeps (recorded tid fid) (repo_create rate_table r)"
  unfolding repo_create_def by (intro keeps_intros) (simp add: keeps_def recorded_def)

lemma kept_ids:
  "(\<And>r. rid (f r) = rid r) \<Longrightarrow> List.find (\<lambda>r. rid r = i) rs = Some r \<Longrightarrow> rid ` set (replace_row rid i (f r) rs) = rid ` set rs"
  by (auto simp: replace_row_def image_iff dest!: find_Some_in)

lemma recorded_updates [keeps_intros]:
  "keeps (recorded tid fid) (repo_update_id tx_table i (submitted_tx t p q))" "keeps (recorded tid fid) (repo_update_id fwt_table i (submitted_entry q))"
proof -
  have t: "tx_id (submitted_tx t p q r) = tx_id r" for r by (simp add: submitted_tx_def)
  have f: "ft_id (submitted_entry q r) = ft_id r" for r by (simp add: submitted_entry_def)
  note k = kept_ids [where rid = tx_id and f = "submitted_tx t p q", OF t] kept_ids [where rid = ft_id and f = "submitted_entry q", OF f]
  show "keeps (recorded tid fid) (repo_update_id tx_table i (submitted_tx t p q))" "keeps (recorded tid fid) (repo_update_id fwt_table i (submitted_entry q))"
    by (auto simp: keeps_def recorded_def txs.update_id_calm fwts.update_id_calm k split: option.split)
qed

lemma recorded_submit: "keeps (recorded tid fid) (submitExchange M X j t va)"
  unfolding submitExchange_def sendCoin_def exchange_down_def getYellowCardChannelAndBank_def createYellowCardPayoutRequest_def
    validateUserDetailsForExchange_def validateKycDetailsForExchange_def validateRateOrThrow_def getRate_def rate_record_def
    service_up_def service_down_def
  by (intro keeps_intros)

section \<open>Properties\<close>

text \<open>
  C11: an exchange of dollars reserves nothing. Whatever the database and the providers do, the wallets there were are
  what they were, and a wallet that is added is empty; the entries it adds are initiated, so the check for a pending
  exchange of the user finds what it found before; and no attempt of the job touches a wallet. Requests for
  the same balance can follow each other.
\<close>

theorem exchange_reserves_nothing:
  fixes w :: "('s, 'm) exchange_world_scheme"
  assumes "redis_server (m_redis M) ent" "\<not> naira_to_dollars d" "exchange M X u d w = (v, w')"
  shows "(\<exists>ws. wallets w' = ws @ wallets w \<and> (\<forall>r \<in> set ws. fw_balance r = 0))
    \<and> (\<exists>f \<in> set (fwts w'). pending_exchange X u f) = (\<exists>f \<in> set (fwts w). pending_exchange X u f)
    \<and> wallets (snd (usd_attempts n M X errors j w)) = wallets w"
proof -
  have "keeps (spared (wallets w) (fwts w) :: ('s, 'm) exchange_world_scheme \<Rightarrow> bool) (exchange M X u d)"
    by (rule redis_server.spared_exchange [OF assms(1) refl assms(2)])
  then have "spared (wallets w) (fwts w) (snd (exchange M X u d w))" by (rule keepsD) (simp add: spared_def)
  then obtain ws fs where s: "wallets w' = ws @ wallets w" "\<forall>r \<in> set ws. fw_balance r = 0"
      "fwts w' = fs @ fwts w" "\<forall>f \<in> set fs. ft_status f = INITIATED"
    by (auto simp: spared_def assms(3))
  have "\<not> pending_exchange X u f" if "f \<in> set fs" for f using s(4) that by (simp add: pending_exchange_def)
  then have "(\<exists>f \<in> set (fwts w'). pending_exchange X u f) = (\<exists>f \<in> set (fwts w). pending_exchange X u f)"
    unfolding s(3) by auto
  moreover have "wallets (snd (usd_attempts n M X errors j w)) = wallets w"
    using aside_attempts unfolding aside_def by blast
  ultimately show ?thesis using s(1,2) by blast
qed

text \<open>
  A repeated exchange asks the exchange provider for the payout that the job asks for: with the same account, route,
  reference and amount, both leave the same state, and one returns an answer just when the other returns it. Their
  checks of the user agree on every user, in the exceptions too.
\<close>

lemma same_user_checks: "retry_user_details = user_details"
  by (rule ext) (simp add: retry_user_details_def user_details_def)

lemma same_kyc_checks: "(retry_kyc_details u k = Inr x) = (kyc_details u k = Inr x)"
  by (auto simp: retry_kyc_details_def kyc_details_def Let_def)

theorem retry_asks_the_same:
  "snd (retryPayoutRequest M X u a c b ref n w) = snd (createYellowCardPayoutRequest M X u a c b ref n w)
    \<and> (fst (retryPayoutRequest M X u a c b ref n w) = Inr p) = (fst (createYellowCardPayoutRequest M X u a c b ref n w) = Inr p)
    \<and> retry_user_details = user_details"
proof -
  have k: "(\<exists>e. retry_kyc_details u k = Inl e) = (\<exists>e. kyc_details u k = Inl e)" for u k
    using same_kyc_checks [of u k "()"] by (metis old.sum.exhaust old.unit.exhaust sum.distinct(1))
  show ?thesis
    unfolding retryPayoutRequest_def createYellowCardPayoutRequest_def same_user_checks validateKycDetailsForExchange_def bind_run io_of_def
    using k same_kyc_checks
    by (auto split: prod.splits sum.splits list.split)
qed

text \<open>
  C12: a failed attempt is recorded while the database answers: the transaction and its entry are failed, with the reason
  read from the exception if it fits the column, an exchange account is scheduled to be deleted in seven days, no
  wallet has changed, and the job ends for good exactly when the message names a failure that is permanent; else it throws
  the text for the user, and the queue tries again.
\<close>

lemma submit_kept:
  assumes "submitExchange M X j t va w = (Inl e, w1)"
  shows "wallets w1 = wallets w \<and> now w1 = now w"
proof -
  have "aside (submitExchange M X j t va)"
    unfolding submitExchange_def sendCoin_def exchange_down_def getYellowCardChannelAndBank_def createYellowCardPayoutRequest_def
      validateUserDetailsForExchange_def validateKycDetailsForExchange_def
    by (intro aside_intros aside_rate)
  with assms show ?thesis by (metis aside_def snd_conv)
qed

lemma find_member: "i \<in> rid ` set rs \<Longrightarrow> \<exists>r. List.find (\<lambda>r. rid r = i) rs = Some r \<and> rid r = i"
  by (induction rs) auto

theorem failed_exchange_recorded:
  fixes w :: "('s, 'm) exchange_world_scheme"
  assumes "validateExchangeJobData j = Inr (t, va)" "submitExchange M X j t va w = (Inl e, w1)"
    and "parseExchangeError errors e = Inr (reason, friendly)" "length reason \<le> 255"
    and "faults w = []" "tx_id t \<in> tx_id ` set (txs w)" "ft_id (uj_entry j) \<in> ft_id ` set (fwts w)"
  shows "\<exists>r f w2. processExchange M X errors j w = (if isPermanentFailure (message e) then Inr () else Inl (BadRequest friendly), w2)
    \<and> List.find (\<lambda>r. tx_id r = tx_id t) (txs w2) = Some r \<and> tx_status r = FAILED \<and> tx_failure r = Some reason
    \<and> List.find (\<lambda>f. ft_id f = ft_id (uj_entry j)) (fwts w2) = Some f \<and> ft_status f = FAILED
    \<and> (ac_type va = EXCHANGE_ACCOUNT \<and> ac_id va \<noteq> [] \<longrightarrow> (\<forall>a. List.find (\<lambda>a. ac_id a = ac_id va) (account_rows w2) = Some a
        \<longrightarrow> ac_deletion a = Some (now w + seven_days)))
    \<and> wallets w2 = wallets w"
proof -
  have "recorded (tx_id t) (ft_id (uj_entry j)) (snd (submitExchange M X j t va w))"
    by (rule keepsD [OF recorded_submit]) (use assms(5-7) in \<open>simp add: recorded_def\<close>)
  then have w1: "faults w1 = []" "tx_id t \<in> tx_id ` set (txs w1)" "ft_id (uj_entry j) \<in> ft_id ` set (fwts w1)"
    by (simp_all add: assms(2) recorded_def)
  obtain r f where rf: "List.find (\<lambda>r. tx_id r = tx_id t) (txs w1) = Some r" "tx_id r = tx_id t"
      "List.find (\<lambda>f. ft_id f = ft_id (uj_entry j)) (fwts w1) = Some f" "ft_id f = ft_id (uj_entry j)"
    using find_member [OF w1(2)] find_member [OF w1(3)] by auto
  define r' where "r' = r\<lparr>tx_status := FAILED, tx_failure := Some reason\<rparr>"
  define f' where "f' = f\<lparr>ft_status := FAILED\<rparr>"
  define w2 where "w2 = w1\<lparr>outbox := (''SERVICE_STATUS_FAILURE'', JObj [(''serviceKey'', JStr ''currency_exchange''), (''reason'', JStr (message e))]) # outbox w1,
     txs := replace_row tx_id (tx_id t) r' (txs w1), fwts := replace_row ft_id (ft_id (uj_entry j)) f' (fwts w1)\<rparr>"
  have k: "wallets w1 = wallets w" "now w1 = now w" using submit_kept [OF assms(2)] by simp_all
  obtain w3 where d: "drop_account va w2 = (Inr (), w3)" "txs w3 = txs w2" "fwts w3 = fwts w2" "wallets w3 = wallets w2"
      "ac_type va = EXCHANGE_ACCOUNT \<and> ac_id va \<noteq> [] \<longrightarrow> (\<forall>a. List.find (\<lambda>a. ac_id a = ac_id va) (account_rows w3) = Some a
        \<longrightarrow> ac_deletion a = Some (now w + seven_days))"
  proof (cases "ac_type va = EXCHANGE_ACCOUNT \<and> ac_id va \<noteq> []")
    case True
    show thesis
    proof (cases "List.find (\<lambda>a. ac_id a = ac_id va) (account_rows w2)")
      case None
      with True w1(1) show thesis
        by (intro that [of w2]) (simp_all add: drop_account_def when_do_def bind_run andthen_run vaccounts.update_id_calm w2_def)
    next
      case (Some a)
      then have "ac_id (a\<lparr>ac_deletion := Some (now w1 + seven_days)\<rparr>) = ac_id va" by (auto dest: find_Some_in)
      from find_replaced [OF Some this] True w1(1) Some k show thesis
        by (intro that [of "w2\<lparr>account_rows := replace_row ac_id (ac_id va) (a\<lparr>ac_deletion := Some (now w1 + seven_days)\<rparr>) (account_rows w2)\<rparr>"])
           (simp_all add: drop_account_def when_do_def bind_run andthen_run vaccounts.update_id_calm w2_def)
    qed
  qed (intro that [of w2], auto simp: drop_account_def when_do_def)
  have "exchangeFailed errors j t va e w1 = (if isPermanentFailure (message e) then Inr () else Inl (BadRequest friendly), w3)"
    using assms(3,4) w1(1) rf d(1)
    by (simp add: exchangeFailed_def service_down_def emit_def io_of_def andthen_run bind_run record_failure_def txs.update_id_calm
        fwts.update_id_calm w2_def r'_def f'_def)
  then have "processExchange M X errors j w = (if isPermanentFailure (message e) then Inr () else Inl (BadRequest friendly), w3)"
    using assms(1,2) by (simp add: processExchange_def io_of_def bind_run catch_run)
  moreover have "List.find (\<lambda>r. tx_id r = tx_id t) (txs w3) = Some r'" "List.find (\<lambda>f. ft_id f = ft_id (uj_entry j)) (fwts w3) = Some f'"
    using find_replaced [where rid = tx_id, OF rf(1), of r'] find_replaced [where rid = ft_id, OF rf(3), of f'] rf(2,4)
    by (simp_all add: d w2_def r'_def f'_def)
  ultimately show ?thesis using d k by (intro exI [of _ r'] exI [of _ f'] exI [of _ w3]) (simp add: r'_def f'_def w2_def)
qed

section \<open>A small instance\<close>

definition demo_person :: json where
  "demo_person = JObj [(''id'', JStr ''u''), (''country'', JObj [(''code'', JStr ''US'')]), (''userProfile'', JObj [(''address_line1'', JStr ''1 Way''), (''dob'', JStr ''1990'')]),
     (''first_name'', JStr ''Ada''), (''last_name'', JStr ''Obi''), (''email'', JStr ''a@b''), (''phone_number'', JStr ''1'')]"

definition demo_kyc :: json where
  "demo_kyc = JObj [(''provider_ref'', JStr ''k''), (''data'', JObj [(''idDocument'', JObj [(''number'', JStr ''7''), (''type'', JStr ''PASSPORT'')])])]"

definition demo_replies :: "(string \<times> json) list" where
  "demo_replies = [(''getChannels'', JArr [JObj [(''status'', JStr ''active''), (''rampType'', JStr ''withdraw''), (''ref'', JStr ''c'')]]),
     (''getBanks'', JArr [JObj [(''status'', JStr ''active''), (''name'', JStr ''Paga''), (''ref'', JStr ''b''), (''channelRefs'', JArr [JStr ''c''])]]),
     (''getExchangeRates'', JArr [JObj [(''code'', JStr ''NGN''), (''buy'', JNum 1400), (''sell'', JNum 1500)]]),
     (''userRepository.findOne'', demo_person), (''getKycDetailsByUserId'', demo_kyc), (''kycVerificationService.findByUserId'', demo_kyc),
     (''createPayOutRequest'', JObj [(''cryptoInfo'', JObj [(''walletAddress'', JStr ''0x'')]), (''ref'', JStr ''p''), (''sequenceRef'', JStr ''s'')]),
     (''createWithdrawalRequest'', JObj [(''providerRef'', JStr ''z'')]), (''getExternalAccountForTransaction'', JObj [(''participant_code'', JStr ''pc'')]),
     (''waas.findOrCreateVirtualAccount'', JObj [(''account_name'', JStr ''Ada''), (''account_number'', JStr ''0123''), (''bank_name'', JStr ''Paga''),
       (''provider_name'', JStr ''paga'')]), (''addJob:exchange'', JObj [(''id'', JStr ''1'')])]"

definition demo_usd_env :: "keyspace money_env" where
  "demo_usd_env = demo_money_env\<lparr>m_ext := \<lambda>_ nm _. Inr (case map_of demo_replies nm of None \<Rightarrow> JNull | Some r \<Rightarrow> r)\<rparr>"

definition demo_usd_wallet :: wallet_row where
  "demo_usd_wallet = \<lparr>fw_id = ''d'', fw_user = ''u'', fw_asset = ''USD'', fw_balance = 5000, fw_credit = 0, fw_status = ''active'', fw_accounts = []\<rparr>"

definition demo_usd_tx :: tx_row where
  "demo_usd_tx = blank_tx\<lparr>tx_id := ''x'', tx_user := ''u'', tx_asset := ''USD'', tx_amount := 4000, tx_reference := ''ref-OUT'', tx_type := T_EXCHANGE,
     tx_status := INITIATED\<rparr>"

definition demo_usd_entry :: fwt_row where
  "demo_usd_entry = blank_fwt\<lparr>ft_id := ''e'', ft_transaction := ''x'', ft_wallet := ''d'', ft_user := ''u'', ft_amount := - 4000\<rparr>"

definition demo_usd_account :: account_row where
  "demo_usd_account = \<lparr>ac_id = ''a'', ac_user = ''u'', ac_wallet = None, ac_name = ''Ada'', ac_number = ''0123'', ac_bank = ''Paga'', ac_bank_ref = [],
     ac_routing = [], ac_provider = ''paga'', ac_type = EXCHANGE_ACCOUNT, ac_transaction = Some ''x'', ac_deletion = None, ac_profile = []\<rparr>"

definition demo_usd :: "keyspace exchange_world" where
  "demo_usd = demo_rate_world\<lparr>wallets := [demo_usd_wallet], txs := [demo_usd_tx], fwts := [demo_usd_entry], account_rows := [demo_usd_account]\<rparr>"

definition demo_usd_job :: usd_job where
  "demo_usd_job = \<lparr>uj_user = ''u'', uj_participant = ''pc'', uj_tx = Some demo_usd_tx, uj_amount = 40, uj_country = ''NG'', uj_account = Some demo_usd_account,
     uj_entry = demo_usd_entry, uj_rate = ''r''\<rparr>"

definition demo_dto :: exchange_dto where
  "demo_dto = \<lparr>xd_from = ''USD'', xd_to = ''NGN'', xd_amount = 40, xd_rate = ''r'', xd_transaction = None\<rparr>"

text \<open>The database fails when the records of the sent coin are written.\<close>

definition demo_usd_broken :: "keyspace exchange_world" where
  "demo_usd_broken = demo_usd\<lparr>faults := [None, None, None, Some (DbError ''connection lost'')]\<rparr>"

text \<open>
  C40: in every attempt the job asks for one payout and sends one coin at most: with the two repetitions of the queue
  a job moves at most three coins. It has no other guard: when the records cannot be written after the coin was
  sent, the next attempt sends another one, so the bound is reached by two attempts.
\<close>

theorem one_coin_per_attempt:
  fixes w :: "('s, 'm) exchange_world_scheme"
  shows "calls ''createPayOutRequest'' (snd (usd_attempts n M X errors j w)) \<le> calls ''createPayOutRequest'' w + Suc n
    \<and> calls ''createWithdrawalRequest'' (snd (usd_attempts n M X errors j w)) \<le> calls ''createWithdrawalRequest'' w + Suc n
    \<and> calls ''createWithdrawalRequest'' (snd (usd_attempts 1 demo_usd_env demo_exchange_config (\<lambda>_. JNull) demo_usd_job demo_usd_broken)) = 2"
proof -
  have "calls ''createWithdrawalRequest'' (snd (usd_attempts 1 demo_usd_env demo_exchange_config (\<lambda>_. JNull) demo_usd_job demo_usd_broken)) = 2"
    by code_simp
  moreover have "calls nm (snd (usd_attempts n M X errors j w)) \<le> calls nm w + Suc n" if "payout_calls nm" for nm
    by (rule at_mostD [OF calls_attempts [OF that]])
  ultimately show ?thesis by simp
qed

section \<open>Witnesses\<close>

lemma demo_usd_server: "redis_server (m_redis demo_usd_env) ks_ent"
  using demo_server by (simp add: demo_usd_env_def demo_money_env_def)

lemma exchange_reserves_nothing_witness:
  "wallets (snd (usd_attempts 2 demo_usd_env demo_exchange_config (\<lambda>_. JNull) demo_usd_job demo_usd)) = [demo_usd_wallet]"
proof -
  have d: "\<not> naira_to_dollars demo_dto" by code_simp
  obtain v w' where e: "exchange demo_usd_env demo_exchange_config ''u'' demo_dto demo_usd = (v, w')" by (cases "exchange demo_usd_env demo_exchange_config ''u'' demo_dto demo_usd")
  from exchange_reserves_nothing [OF demo_usd_server d e] show ?thesis by (simp add: demo_usd_def)
qed

lemma failed_exchange_recorded_witness:
  "fst (processExchange demo_money_env demo_exchange_config (\<lambda>_. JNull) demo_usd_job demo_usd) = Inr ()
    \<and> map tx_failure (txs (snd (processExchange demo_money_env demo_exchange_config (\<lambda>_. JNull) demo_usd_job demo_usd))) = [Some ''No channels found for NG'']"
proof -
  let ?e = "BadRequest ''No channels found for NG''"
  have j: "validateExchangeJobData demo_usd_job = Inr (demo_usd_tx, demo_usd_account)" by code_simp
  have "fst (submitExchange demo_money_env demo_exchange_config demo_usd_job demo_usd_tx demo_usd_account demo_usd) = Inl ?e" by code_simp
  then obtain w1 where s: "submitExchange demo_money_env demo_exchange_config demo_usd_job demo_usd_tx demo_usd_account demo_usd = (Inl ?e, w1)"
    by (metis prod.collapse)
  have p: "parseExchangeError (\<lambda>_. JNull) ?e = Inr (''No channels found for NG'', ''No channels found for NG'')" by code_simp
  have i: "isPermanentFailure (message ?e)" by code_simp
  have t: "map tx_id (txs (snd (processExchange demo_money_env demo_exchange_config (\<lambda>_. JNull) demo_usd_job demo_usd))) = [''x'']"
    "tx_id demo_usd_tx = ''x''" by code_simp+
  from failed_exchange_recorded [OF j s p] i obtain r f w2 where
    w2: "processExchange demo_money_env demo_exchange_config (\<lambda>_. JNull) demo_usd_job demo_usd = (Inr (), w2)"
      "List.find (\<lambda>r. tx_id r = tx_id demo_usd_tx) (txs w2) = Some r" "tx_failure r = Some ''No channels found for NG''"
    by (auto simp: demo_usd_def demo_rate_world_def demo_usd_job_def)
  moreover from t w2(1) obtain r' where "txs w2 = [r']" by auto
  ultimately show ?thesis by (auto split: if_splits)
qed

end
