(* ===== verification/UsdRecords.thy ===== *)
theory UsdRecords
  imports UsdMoney
begin

text \<open>
  What an accepted exchange of dollars has written: its transaction, the entry that belongs to it and the
  exchange account of the transaction; and what a repetition changes.
\<close>

section \<open>The records of an accepted exchange\<close>

text \<open>The amounts and the links of a transaction and its entry.\<close>

definition made :: "string \<Rightarrow> exchange_dto \<Rightarrow> tx_row \<Rightarrow> fwt_row \<Rightarrow> bool" where
  "made u d t f \<longleftrightarrow> tx_user t = u \<and> tx_type t = T_EXCHANGE \<and> tx_status t = INITIATED \<and> tx_asset t = xd_from d
     \<and> formatCurrencyAmountToSmallestUnit (xd_amount d) (xd_from d) = Inr (tx_amount t) \<and> 0 < tx_amount t \<and> tx_amount t \<le> tx_before t
     \<and> tx_after t = tx_before t - tx_amount t \<and> ft_user f = u \<and> ft_transaction f = tx_id t \<and> ft_amount f = - tx_amount t \<and> ft_status f = INITIATED"

definition in_tables :: "tx_row \<Rightarrow> fwt_row \<Rightarrow> ('s, 'm) exchange_world_scheme \<Rightarrow> bool" where
  "in_tables t f w \<longleftrightarrow> t \<in> set (txs w) \<and> f \<in> set (fwts w)"

lemma typed_frame: "(\<And>w. account_rows (snd (m w)) = account_rows w) \<Longrightarrow> keeps (accounts_typed :: ('s, 'm) exchange_world_scheme \<Rightarrow> bool) m"
  by (simp add: keeps_def accounts_typed_def)

lemma typed_step [keeps_intros]:
  "keeps (accounts_typed :: ('s, 'm) exchange_world_scheme \<Rightarrow> bool) db_step" "keeps (accounts_typed :: ('s, 'm) exchange_world_scheme \<Rightarrow> bool) (emit nm p)"
proof -
  have "accounts_typed (snd (db_step w))" if "accounts_typed w" for w :: "('s, 'm) exchange_world_scheme"
    using that by (cases rule: db_step_cases [of w]) simp
  then show "keeps (accounts_typed :: ('s, 'm) exchange_world_scheme \<Rightarrow> bool) db_step" by (simp add: keeps_def)
  show "keeps (accounts_typed :: ('s, 'm) exchange_world_scheme \<Rightarrow> bool) (emit nm p)" by (simp add: keeps_def)
qed

lemma typed_reads [keeps_intros]: "keeps (accounts_typed :: ('s, 'm) exchange_world_scheme \<Rightarrow> bool) (repo_findOne T P)"
  unfolding repo_findOne_def by (intro keeps_intros)

lemma typed_money [simp]:
  "accounts_typed (w\<lparr>txs := ts\<rparr>) = accounts_typed w" "accounts_typed (w\<lparr>fwts := fs\<rparr>) = accounts_typed w"
  "accounts_typed (w\<lparr>wallets := ws\<rparr>) = accounts_typed w" "accounts_typed (w\<lparr>rate_rows := rs\<rparr>) = accounts_typed w"
  by (simp_all add: accounts_typed_def)

lemma typed_creates [keeps_intros]:
  "keeps (accounts_typed :: ('s, 'm) exchange_world_scheme \<Rightarrow> bool) (repo_create tx_table t)"
  "keeps (accounts_typed :: ('s, 'm) exchange_world_scheme \<Rightarrow> bool) (repo_create fwt_table f)"
  "keeps (accounts_typed :: ('s, 'm) exchange_world_scheme \<Rightarrow> bool) (repo_create wallet_table v)"
  unfolding repo_create_def by (intro keeps_intros, simp add: keeps_def)+

lemma typed_wallet [keeps_intros]: "keeps (accounts_typed :: ('s, 'm) exchange_world_scheme \<Rightarrow> bool) (getUserWallet M u c)"
  unfolding getUserWallet_def find_wallet_def create_wallet_def by (intro keeps_intros)

lemma written_tx:
  "triple accounts_typed (tx_create M u (usd_source_tx d p wallet n r ref))
     (\<lambda>t (w :: ('s, 'm) exchange_world_scheme). t \<in> set (txs w) \<and> (\<exists>i s. t = (usd_source_tx d p wallet n r ref)\<lparr>tx_id := i, tx_user := u, tx_processed := Some s\<rparr>)
        \<and> accounts_typed w) (\<lambda>_ _. True)"
proof (rule tripleI, goal_cases)
  case (1 w t w')
  let ?w = "w\<lparr>draws := Suc (draws w)\<rparr>"
  let ?r = "(usd_source_tx d p wallet n r ref)\<lparr>tx_id := m_fresh M (draws w), tx_user := u, tx_processed := Some (now w)\<rparr>"
  have "repo_create tx_table ?r ?w = (Inr t, w')"
    using 1(2) by (simp add: tx_create_def bind_run new_value_def get_now_def draw_def)
  then show ?case
    using 1(1) by (cases rule: txs.create_cases [of ?r ?w]) auto
qed simp

lemma written_entry:
  "triple (\<lambda>w :: ('s, 'm) exchange_world_scheme. t \<in> set (txs w) \<and> accounts_typed w) (fwt_create M u (usd_source_entry X d p wallet n r t))
     (\<lambda>f w. f \<in> set (fwts w) \<and> (\<exists>i. f = (usd_source_entry X d p wallet n r t)\<lparr>ft_id := i, ft_user := u\<rparr>) \<and> t \<in> set (txs w) \<and> accounts_typed w) (\<lambda>_ _. True)"
proof -
  have ins: "triple (\<lambda>w :: ('s, 'm) exchange_world_scheme. t \<in> set (txs w) \<and> accounts_typed w) (insert_fwt g)
      (\<lambda>f w. f \<in> set (fwts w) \<and> f = g \<and> t \<in> set (txs w) \<and> accounts_typed w) (\<lambda>_ _. True)" for g
  proof (rule tripleI, goal_cases)
    case (1 w f w')
    then have "repo_create fwt_table g w = (Inr f, w')"
      by (auto simp: insert_fwt_def bind_run andthen_run get_state_def split: if_splits sum.splits prod.splits)
    then show ?case using 1(1) by (cases rule: fwts.create_cases [of g w]) auto
  qed simp
  have k: "keeps (\<lambda>w :: ('s, 'm) exchange_world_scheme. t \<in> set (txs w) \<and> accounts_typed w) (new_value M)"
    by (simp add: keeps_def new_value_def)
  have r: "keeps (\<lambda>w :: ('s, 'm) exchange_world_scheme. t \<in> set (txs w) \<and> accounts_typed w) (repo_findById wallet_table i)" for i
    unfolding keeps_def repo_findById_def
  proof (intro allI impI)
    fix w :: "('s, 'm) exchange_world_scheme"
    assume "t \<in> set (txs w) \<and> accounts_typed w"
    then show "t \<in> set (txs (snd (repo_findOne wallet_table (\<lambda>r. row_id wallet_table r = i) w))) \<and> accounts_typed (snd (repo_findOne wallet_table (\<lambda>r. row_id wallet_table r = i) w))"
      by (cases rule: wallets.findOne_cases [of "\<lambda>r. row_id wallet_table r = i" w]) simp_all
  qed
  let ?P = "\<lambda>w :: ('s, 'm) exchange_world_scheme. t \<in> set (txs w) \<and> accounts_typed w"
  have body: "triple ?P (bind (new_value M) (\<lambda>i. insert_fwt ((usd_source_entry X d p wallet n r t)\<lparr>ft_id := i, ft_user := u\<rparr>)))
     (\<lambda>f w. f \<in> set (fwts w) \<and> (\<exists>i. f = (usd_source_entry X d p wallet n r t)\<lparr>ft_id := i, ft_user := u\<rparr>) \<and> t \<in> set (txs w) \<and> accounts_typed w) (\<lambda>_ _. True)"
    by (rule triple_bind [where Q' = "\<lambda>_. ?P"], rule triple_keeps [OF k], simp_all, rule triple_conseq [OF ins]) auto
  have look: "triple ?P (repo_findById wallet_table i) (\<lambda>_. ?P) (\<lambda>_ _. True)" for i
    by (rule triple_keeps [OF r]) simp_all
  have rest: "triple ?P (if x = None then throw (NotFound ''Fiat wallet not found'')
      else catch (bind (new_value M) (\<lambda>i. insert_fwt ((usd_source_entry X d p wallet n r t)\<lparr>ft_id := i, ft_user := u\<rparr>)))
       (\<lambda>_. throw (BadRequest ''Failed to create fiat wallet transaction'')))
     (\<lambda>f w. f \<in> set (fwts w) \<and> (\<exists>i. f = (usd_source_entry X d p wallet n r t)\<lparr>ft_id := i, ft_user := u\<rparr>) \<and> t \<in> set (txs w) \<and> accounts_typed w) (\<lambda>_ _. True)"
    for x :: "wallet_row option"
    by (rule triple_if, rule triple_throw, simp, rule triple_catch [OF body], rule triple_throw, simp)
  show ?thesis unfolding fwt_create_def by (rule triple_bind [OF look rest])
qed

lemma checked_wallet:
  "triple accounts_typed (validateWalletAndBalance M X u c a)
     (\<lambda>(wallet, n) w :: ('s, 'm) exchange_world_scheme. formatCurrencyAmountToSmallestUnit a c = Inr n \<and> 0 < n \<and> n \<le> fw_balance wallet \<and> accounts_typed w)
     (\<lambda>_ _. True)"
proof -
  have pend: "triple (accounts_typed :: ('s, 'm) exchange_world_scheme \<Rightarrow> bool) (checkPendingExchangeTransaction X u) (\<lambda>_. accounts_typed) (\<lambda>_ _. True)"
    unfolding checkPendingExchangeTransaction_def by (rule triple_keeps [where I = accounts_typed]) (intro keeps_intros, simp_all)
  have wallet: "triple (accounts_typed :: ('s, 'm) exchange_world_scheme \<Rightarrow> bool) (getUserWallet M u c) (\<lambda>_. accounts_typed) (\<lambda>_ _. True)"
    by (rule triple_keeps [OF typed_wallet]) simp_all
  show ?thesis
    unfolding validateWalletAndBalance_def
    by (rule triple_seq [OF pend], rule triple_bind [OF wallet], rule triple_if, rule triple_throw, simp,
        rule triple_bind [OF triple_io_of [where Q = "\<lambda>n w. formatCurrencyAmountToSmallestUnit a c = Inr n \<and> accounts_typed w" and R = "\<lambda>_ _. True"]],
        simp, simp, (rule triple_if, rule triple_throw, simp)+, rule triple_ret, simp)
qed

lemma source_made:
  "triple accounts_typed (createSourceTransactions M X u p d)
     (\<lambda>(t, f) w :: ('s, 'm) exchange_world_scheme. made u d t f \<and> in_tables t f w \<and> accounts_typed w) (\<lambda>_ _. True)"
proof -
  let ?A = "accounts_typed :: ('s, 'm) exchange_world_scheme \<Rightarrow> bool"
  have ref: "triple ?A (generateTransactionReference M) (\<lambda>_. ?A) (\<lambda>_ _. True)"
    unfolding generateTransactionReference_def by (rule triple_keeps [where I = ?A]) (intro keeps_intros, simp_all)
  have rate: "triple ?A (repo_findOne rate_table P) (\<lambda>_. ?A) (\<lambda>_ _. True)" for P
    by (rule triple_keeps [OF typed_reads]) simp_all
  have entry: "triple (\<lambda>w. t \<in> set (txs w) \<and> (\<exists>i s. t = (usd_source_tx d p wallet n r ref)\<lparr>tx_id := i, tx_user := u, tx_processed := Some s\<rparr>) \<and> ?A w)
      (bind (fwt_create M u (usd_source_entry X d p wallet n r t)) (\<lambda>f. ret (t, f)))
      (\<lambda>(t, f) w. made u d t f \<and> in_tables t f w \<and> ?A w) (\<lambda>_ _. True)"
    if n: "formatCurrencyAmountToSmallestUnit (xd_amount d) (xd_from d) = Inr n" "0 < n" "n \<le> fw_balance wallet" for t wallet n r ref
  proof -
    have m: "made u d t f" if "\<exists>i s. t = (usd_source_tx d p wallet n r ref)\<lparr>tx_id := i, tx_user := u, tx_processed := Some s\<rparr>"
        "\<exists>i. f = (usd_source_entry X d p wallet n r t)\<lparr>ft_id := i, ft_user := u\<rparr>" for f
      using that n by (auto simp: made_def usd_source_tx_def usd_source_entry_def)
    show ?thesis
    proof (rule tripleI, goal_cases)
      case (1 w x w')
      then obtain f where f: "fwt_create M u (usd_source_entry X d p wallet n r t) w = (Inr f, w')" "x = (t, f)"
        by (auto simp: bind_run split: sum.splits prod.splits)
      from triple_ok [OF written_entry _ f(1)] 1(1) have "f \<in> set (fwts w')" "\<exists>i. f = (usd_source_entry X d p wallet n r t)\<lparr>ft_id := i, ft_user := u\<rparr>"
          "t \<in> set (txs w')" "?A w'" by auto
      with m [of f] 1(1) show ?case by (auto simp: f(2) in_tables_def)
    qed simp
  qed
  have tx: "triple (\<lambda>w. formatCurrencyAmountToSmallestUnit (xd_amount d) (xd_from d) = Inr n \<and> 0 < n \<and> n \<le> fw_balance wallet \<and> ?A w)
      (bind (repo_findOne rate_table (\<lambda>r. er_id r = xd_rate d)) (\<lambda>found. bind (io_of (usable_rate found)) (\<lambda>rate.
        bind (tx_create M u (usd_source_tx d p wallet n rate ref)) (\<lambda>t. bind (fwt_create M u (usd_source_entry X d p wallet n rate t)) (\<lambda>f. ret (t, f))))))
      (\<lambda>(t, f) w. made u d t f \<and> in_tables t f w \<and> ?A w) (\<lambda>_ _. True)" for wallet n ref
    by (rule triple_pure, rule triple_pure, rule triple_pure, rule triple_bind [OF rate],
        rule triple_bind [OF triple_io_of [where Q = "\<lambda>_. ?A" and R = "\<lambda>_ _. True"]], simp, simp,
        rule triple_bind [OF written_tx], rule entry)
  show ?thesis
    unfolding createSourceTransactions_def
    by (rule triple_bind [OF ref], rule triple_bind [OF checked_wallet]) (simp add: tx split: prod.split)
qed

section \<open>The account of the exchange\<close>

lemma tables_frame [keeps_intros]:
  "keeps (in_tables t f) (ext_call M nm p)" "keeps (in_tables t f) (new_value M)" "keeps (in_tables t f) db_step"
  by (simp_all add: keeps_def in_tables_def ext_call_def call_ext_def new_value_def)

lemma tables_account [keeps_intros]:
  "keeps (in_tables t f) (repo_findOne T P)" "keeps (in_tables t f) (repo_create account_table a)" "keeps (in_tables t f) (insert_account a)"
proof -
  have c: "keeps (in_tables t f) (repo_create account_table a)" for a
    unfolding repo_create_def by (intro keeps_intros) (simp add: keeps_def in_tables_def)
  show "keeps (in_tables t f) (repo_findOne T P)" unfolding repo_findOne_def by (intro keeps_intros)
  show "keeps (in_tables t f) (repo_create account_table a)" by (rule c)
  show "keeps (in_tables t f) (insert_account a)" unfolding insert_account_def by (intro keeps_intros c)
qed

lemma tables_provided: "keeps (in_tables t f) (findOrCreateVirtualAccount M u q ty)"
  unfolding findOrCreateVirtualAccount_def account_create_def provide_account_def by (intro keeps_intros)

abbreviation account_for :: "string \<Rightarrow> tx_row \<Rightarrow> account_row \<Rightarrow> bool" where
  "account_for u t va \<equiv> account_again u \<lparr>aq_wallet = None, aq_transaction = Some (tx_id t), aq_bvn = None\<rparr> EXCHANGE_ACCOUNT va"

text \<open>The state after an accepted exchange; it does not depend on Redis or the clock.\<close>

definition accepted :: "string \<Rightarrow> exchange_dto \<Rightarrow> exchange_ticket \<Rightarrow> ('s, 'm) exchange_world_scheme \<Rightarrow> bool" where
  "accepted u d ticket w \<longleftrightarrow> (\<exists>t f va. et_reference ticket = JStr (tx_id t) \<and> made u d t f \<and> in_tables t f w
     \<and> account_for u t va \<and> va \<in> set (account_rows w) \<and> ac_number va \<noteq> [] \<and> ac_name va \<noteq> []) \<and> js_truthy (et_job ticket)"

lemma accepted_faults: "accepted u d ticket (w\<lparr>faults := fs\<rparr>) = accepted u d ticket w"
  by (simp add: accepted_def in_tables_def)

lemma accepted_clock: "accepted u d ticket (w\<lparr>rds := s, now := n\<rparr>) = accepted u d ticket w"
  by (simp add: accepted_def in_tables_def)

lemma account_made:
  "triple (\<lambda>w. in_tables t f w \<and> accounts_typed w) (getValidatedVirtualAccount M u EXCHANGE_ACCOUNT (Some (tx_id t)))
     (\<lambda>va w. in_tables t f w \<and> account_for u t va \<and> va \<in> set (account_rows w) \<and> ac_number va \<noteq> [] \<and> ac_name va \<noteq> []) (\<lambda>_ _. True)"
proof -
  let ?q = "\<lparr>aq_wallet = None, aq_transaction = Some (tx_id t), aq_bvn = None\<rparr>"
  have "triple (\<lambda>w. in_tables t f w \<and> accounts_typed w) (findOrCreateVirtualAccount M u ?q EXCHANGE_ACCOUNT)
     (\<lambda>va w. in_tables t f w \<and> account_for u t va \<and> va \<in> set (account_rows w)) (\<lambda>_ _. True)"
  proof (rule tripleI, goal_cases)
    case (1 w va w')
    with triple_ok [OF find_or_create_typed _ 1(2)] keepsD [OF tables_provided, of t f w M u ?q EXCHANGE_ACCOUNT] show ?case by auto
  qed simp
  then show ?thesis
    unfolding getValidatedVirtualAccount_def
    by (rule triple_bind) (intro triple_if triple_throw triple_ret; simp)
qed

lemma record_accepted: "triple accounts_typed (recordExchange M X u p d) (accepted u d) (\<lambda>_ _. True)"
proof (rule tripleI, goal_cases)
  case (1 w ticket w')
  obtain t f w1 where c: "createSourceTransactions M X u p d w = (Inr (t, f), w1)"
    using 1(2) by (auto simp: recordExchange_def bind_run split: sum.splits prod.splits)
  have t: "made u d t f" "in_tables t f w1" "accounts_typed w1" using triple_ok [OF source_made 1(1) c] by simp_all
  obtain va w2 where a: "getValidatedVirtualAccount M u EXCHANGE_ACCOUNT (Some (tx_id t)) w1 = (Inr va, w2)"
    using 1(2) c by (auto simp: recordExchange_def bind_run split: sum.splits prod.splits)
  have va: "in_tables t f w2" "account_for u t va" "va \<in> set (account_rows w2)" "ac_number va \<noteq> []" "ac_name va \<noteq> []"
    using triple_ok [OF account_made _ a, of f] t by simp_all
  show ?case
    using 1(2) c a va t(1)
    by (auto simp: recordExchange_def bind_run queueExchange_def ext_call_def call_ext_def accepted_def in_tables_def
        split: option.splits if_splits sum.splits intro!: exI [of _ t] exI [of _ f] exI [of _ va])
qed simp

lemma typed_create_rate [keeps_intros]: "keeps (accounts_typed :: ('s, 'm) exchange_world_scheme \<Rightarrow> bool) (repo_create rate_table r)"
  unfolding repo_create_def by (intro keeps_intros) (simp add: keeps_def)

lemma typed_rate: "keeps (accounts_typed :: ('s, 'm) exchange_world_scheme \<Rightarrow> bool) (validateRateOrThrow M X r ty)"
  unfolding validateRateOrThrow_def getRate_def rate_record_def service_up_def service_down_def by (intro keeps_intros)

lemma section_accepted: "triple accounts_typed (exchangeSection M X u d) (accepted u d) (\<lambda>_ _. True)"
proof -
  let ?A = "accounts_typed :: ('s, 'm) exchange_world_scheme \<Rightarrow> bool"
  have commit: "triple ?A (transaction (recordExchange M X u p d)) (accepted u d) (\<lambda>_ _. True)" for p
  proof (rule tripleI, goal_cases)
    case (1 w ticket w')
    obtain w3 fs where "recordExchange M X u p d w = (Inr ticket, w3)" "w' = w3\<lparr>faults := fs\<rparr>"
      by (rule transaction_ok [OF 1(2)])
    with triple_ok [OF record_accepted 1(1)] show ?case by (simp add: accepted_faults)
  qed simp
  have rate: "triple ?A (validateRateOrThrow M X (xd_rate d) BUY) (\<lambda>_. ?A) (\<lambda>_ _. True)"
    by (rule triple_keeps [OF typed_rate]) simp_all
  have call: "triple ?A (ext_call M nm q) (\<lambda>_. ?A) (\<lambda>_ _. True)" for nm q
    by (rule triple_keeps [OF account_calls(1)]) simp_all
  show ?thesis
    unfolding exchangeSection_def
    by (rule triple_seq [OF rate], rule triple_bind [OF call], rule triple_if, rule triple_throw, simp, rule commit)
qed

section \<open>Under the lock\<close>

lemma quiet_splits:
  "(\<And>x y. p = (x, y) \<Longrightarrow> quiet (f x y)) \<Longrightarrow> quiet (case p of (x, y) \<Rightarrow> f x y)"
  "quiet m \<Longrightarrow> (\<And>x. v = Some x \<Longrightarrow> quiet (g x)) \<Longrightarrow> quiet (case v of None \<Rightarrow> m | Some x \<Rightarrow> g x)"
  "(b \<Longrightarrow> quiet m) \<Longrightarrow> (\<not> b \<Longrightarrow> quiet n) \<Longrightarrow> quiet (if b then m else n)"
  by (simp_all split: prod.split option.split)

lemma aside_findOrCreate: "aside (getValidatedVirtualAccount M u ty tid)"
proof -
  have c: "aside (repo_create account_table a)" for a
    by (auto simp: repo_create_def intro!: aside_intros)
  show ?thesis
    unfolding getValidatedVirtualAccount_def findOrCreateVirtualAccount_def account_create_def provide_account_def insert_account_def
    by (intro aside_intros c)
qed

lemma quiet_exchange: "quiet (exchangeSection M X u d)"
proof -
  have pend: "aside (checkPendingExchangeTransaction X u)" "aside (generateTransactionReference M)" "aside (queueExchange M j)"
    "aside (tx_create M u t)" "aside (fwt_create M u f)" for u j t f
    unfolding checkPendingExchangeTransaction_def generateTransactionReference_def queueExchange_def tx_create_def fwt_create_def
    by (intro aside_intros)+
  show ?thesis
    unfolding exchangeSection_def recordExchange_def createSourceTransactions_def validateWalletAndBalance_def
    by (intro quiet_seq quiet_bind quiet_transaction quiet_splits quiet_wallet quiet_aside pend aside_rate aside_findOrCreate
        aside_basic aside_exchange_reads)
qed


lemma demo_usd_typed: "accounts_typed demo_usd"
  by (simp add: accounts_typed_def demo_usd_def demo_usd_account_def)


end
