(* ===== verification/RetryMoney.thy ===== *)
theory RetryMoney
  imports UsdRecords
begin

text \<open>
  What the repetition of an exchange leaves alone: it sends no coin, touches no wallet there was, and changes
  no status but that of a failed transaction of the incoming naira.
\<close>

section \<open>Statuses\<close>

text \<open>Rows of \<open>T\<close> keep their parent and, but for failed children of \<open>tid\<close>, their status.\<close>

definition kept_status :: "string \<Rightarrow> tx_row \<Rightarrow> tx_row \<Rightarrow> bool" where
  "kept_status tid r0 r \<longleftrightarrow> tx_parent r = tx_parent r0
     \<and> (tx_status r = tx_status r0 \<or> tx_status r0 = FAILED \<and> tx_status r = RECONCILE \<and> tx_parent r0 = Some tid)"

definition statuses :: "string \<Rightarrow> tx_row list \<Rightarrow> ('s, 'm) money_world_scheme \<Rightarrow> bool" where
  "statuses tid T w \<longleftrightarrow> tx_id ` set T \<subseteq> tx_id ` set (txs w)
     \<and> (\<forall>r \<in> set (txs w). \<forall>r0 \<in> set T. tx_id r = tx_id r0 \<longrightarrow> kept_status tid r0 r)"

lemma statuses_frame: "(\<And>w. txs (snd (m w)) = txs w) \<Longrightarrow> keeps (statuses tid T) m"
  by (simp add: keeps_def statuses_def)

lemma statuses_state [simp]: "statuses tid T (w\<lparr>faults := fs\<rparr>) = statuses tid T w" "statuses tid T (rollback w w') = statuses tid T w"
  by (simp_all add: statuses_def)

lemma statuses_basic [keeps_intros]:
  "keeps (statuses tid T) (ext_call M nm p)" "keeps (statuses tid T) (new_value M)" "keeps (statuses tid T) db_step"
  by (rule statuses_frame, simp add: ext_call_def new_value_def call_ext_def)+

lemma statuses_reads [keeps_intros]: "keeps (statuses tid T) (repo_findOne Tb P)" "keeps (statuses tid T) (repo_findById Tb i)"
  unfolding repo_findById_def repo_findOne_def by (intro keeps_intros)+

lemma statuses_tables [keeps_intros]:
  "keeps (statuses tid T) (repo_create fwt_table f)" "keeps (statuses tid T) (repo_create wallet_table v)"
  "keeps (statuses tid T) (repo_create account_table a)" "keeps (statuses tid T) (repo_update_id fwt_table i g)"
  unfolding repo_create_def repo_update_id_def by (intro keeps_intros statuses_frame, simp)+

lemma statuses_create [keeps_intros]:
  "keeps (statuses tid T :: ('s, 'm) money_world_scheme \<Rightarrow> bool) (repo_create tx_table t)"
  unfolding keeps_def
proof (intro allI impI)
  fix w :: "('s, 'm) money_world_scheme"
  assume n: "statuses tid T w"
  show "statuses tid T (snd (repo_create tx_table t w))"
    by (cases rule: txs.create_cases [of t w]) (use n in \<open>auto simp: statuses_def image_iff\<close>)
qed

lemma statuses_transaction [keeps_intros]:
  fixes m :: "(('s, 'm) money_world_scheme, 'a) io"
  assumes "keeps (statuses tid T) m"
  shows "keeps (statuses tid T) (transaction m)"
  unfolding keeps_def
proof (intro allI impI)
  fix w :: "('s, 'm) money_world_scheme"
  assume n: "statuses tid T w"
  obtain v w' where t: "transaction m w = (v, w')" by (cases "transaction m w")
  show "statuses tid T (snd (transaction m w))"
  proof (cases v)
    case (Inl e)
    with t obtain w2 where "w' = rollback w w2" using transaction_aborts [of m w e] by auto
    with t n show ?thesis by simp
  next
    case (Inr x)
    with t obtain w2 fs where "m w = (Inr x, w2)" "w' = w2\<lparr>faults := fs\<rparr>" using transaction_ok [of m w x w'] by auto
    with t keepsD [OF assms n] show ?thesis by simp
  qed
qed

lemma statuses_update:
  assumes "\<And>r. tx_id (g r) = tx_id r \<and> tx_parent (g r) = tx_parent r \<and> tx_status (g r) = tx_status r"
  shows "keeps (statuses tid T :: ('s, 'm) money_world_scheme \<Rightarrow> bool) (repo_update_id tx_table i g)"
  unfolding keeps_def
proof (intro allI impI)
  fix w :: "('s, 'm) money_world_scheme"
  assume n: "statuses tid T w"
  show "statuses tid T (snd (repo_update_id tx_table i g w))"
  proof (cases rule: txs.update_id_cases [of i g w])
    case (3 r fs)
    then have r: "r \<in> set (txs w)" "tx_id r = i" by (auto dest: find_Some_in)
    have "tx_id ` set (replace_row tx_id i (g r) (txs w)) = tx_id ` set (txs w)"
      by (rule kept_ids) (use assms 3(1) in simp_all)
    moreover have "kept_status tid r0 (g r)" if "r0 \<in> set T" "tx_id (g r) = tx_id r0" for r0
      using n r(1) that assms [of r] by (auto simp: statuses_def kept_status_def)
    ultimately show ?thesis using n 3(2) by (auto simp: statuses_def replace_row_def)
  qed (use n in simp_all)
qed

text \<open>The update of a failed child, which is in the table.\<close>

lemma statuses_reconcile:
  fixes w :: "('s, 'm) money_world_scheme"
  assumes "statuses tid T w" "c \<in> set (txs w)" "tx_parent c = Some tid" "tx_status c = FAILED"
  shows "statuses tid T (snd (repo_update_id tx_table (tx_id c) (reconciled_tx c s) w))"
proof (cases rule: txs.update_id_cases [of "tx_id c" "reconciled_tx c s" w])
  case (3 r fs)
  then have r: "r \<in> set (txs w)" "tx_id r = tx_id c" by (auto dest: find_Some_in)
  let ?g = "reconciled_tx c s"
  have g: "tx_id (?g x) = tx_id x" "tx_parent (?g x) = tx_parent x" "tx_status (?g x) = RECONCILE" for x by (simp_all add: reconciled_tx_def)
  have "tx_id ` set (replace_row tx_id (tx_id c) (?g r) (txs w)) = tx_id ` set (txs w)"
    by (rule kept_ids) (use g(1) 3(1) in simp_all)
  moreover have "kept_status tid r0 (?g r)" if "r0 \<in> set T" "tx_id (?g r) = tx_id r0" for r0
  proof -
    have "tx_id c = tx_id r0" "tx_id r = tx_id r0" using that(2) r(2) g(1) by simp_all
    then have "kept_status tid r0 c" "kept_status tid r0 r" using assms(1,2) r(1) that(1) unfolding statuses_def by metis+
    then show ?thesis using assms(3,4) by (auto simp: kept_status_def g)
  qed
  ultimately show ?thesis using assms(1) 3(2) by (auto simp: statuses_def replace_row_def)
qed (use assms(1) in simp_all)

lemma statuses_wallet [keeps_intros]: "keeps (statuses tid T :: ('s, 'm) money_world_scheme \<Rightarrow> bool) (getUserWallet M u c)"
  unfolding getUserWallet_def find_wallet_def create_wallet_def by (intro keeps_intros)

lemma statuses_account [keeps_intros]:
  "keeps (statuses tid T :: ('s, 'm) exchange_world_scheme \<Rightarrow> bool) (account_create M u d ty force)"
  unfolding account_create_def provide_account_def insert_account_def by (intro keeps_intros)

lemma statuses_incoming [keeps_intros]:
  "keeps (statuses tid T :: ('s, 'm) exchange_world_scheme \<Rightarrow> bool) (createIncomingNgnTransaction M X t e)"
  unfolding createIncomingNgnTransaction_def generateTransactionReference_def tx_create_def fwt_create_def insert_fwt_def
  by (intro keeps_intros)

lemma statuses_child:
  fixes w :: "('s, 'm) money_world_scheme"
  assumes "statuses tid T w" "c \<in> set (txs w)" "tx_parent c = Some tid" "tx_status c = FAILED"
  shows "statuses tid T (snd (reconcileChild c w))"
proof -
  have rest: "keeps (statuses tid T :: ('s, 'm) money_world_scheme \<Rightarrow> bool) (bind (repo_findOne fwt_table (\<lambda>r. ft_transaction r = tx_id c))
      (\<lambda>entry. case entry of None \<Rightarrow> ret () | Some f \<Rightarrow> bind get_now (\<lambda>t'. andthen (repo_update_id fwt_table (ft_id f) (reconciled_entry f t')) (ret ()))))"
    by (intro keeps_intros)
  obtain v w1 where u: "repo_update_id tx_table (tx_id c) (reconciled_tx c (now w)) w = (v, w1)"
    by (cases "repo_update_id tx_table (tx_id c) (reconciled_tx c (now w)) w")
  have w1: "statuses tid T w1" using statuses_reconcile [OF assms, of "now w"] u by simp
  have n: "get_now w = (Inr (now w), w)" by (simp add: get_now_def)
  show ?thesis
    using keepsD [OF rest w1] w1 by (cases v) (simp_all add: reconcileChild_def bind_run [of _ _ w] n andthen_run u)
qed

lemma statuses_handle:
  assumes "tx_id t = tid"
  shows "keeps (statuses tid T :: ('s, 'm) exchange_world_scheme \<Rightarrow> bool) (handleNgnChildTransaction M X t e)"
proof -
  let ?P = "\<lambda>r. tx_parent r = Some (tx_id t) \<and> tx_asset r = ''NGN''"
  have new: "keeps (statuses tid T :: ('s, 'm) exchange_world_scheme \<Rightarrow> bool) (andthen (createIncomingNgnTransaction M X t e) (ret ()))"
    by (intro keeps_intros)
  show ?thesis
    unfolding keeps_def
  proof (intro allI impI)
    fix w :: "('s, 'm) exchange_world_scheme"
    assume n: "statuses tid T w"
    show "statuses tid T (snd (handleNgnChildTransaction M X t e w))"
    proof (cases rule: txs.findOne_cases [of ?P w])
      case (1 x fs)
      then show ?thesis using n by (simp add: handleNgnChildTransaction_def bind_run)
    next
      case (2 fs)
      let ?w = "w\<lparr>faults := fs\<rparr>"
      show ?thesis
      proof (cases "List.find ?P (txs w)")
        case None
        have "statuses tid T (snd (andthen (createIncomingNgnTransaction M X t e) (ret ()) ?w))" by (rule keepsD [OF new]) (simp add: n)
        then show ?thesis using 2 None by (simp add: handleNgnChildTransaction_def bind_run)
      next
        case (Some c)
        then have "?P c" "c \<in> set (txs w)" by (auto dest: find_Some_in)
        then have "tx_status c = FAILED \<Longrightarrow> statuses tid T (snd (reconcileChild c ?w))"
          using n assms by (intro statuses_child) simp_all
        then show ?thesis using 2 Some n by (simp add: handleNgnChildTransaction_def bind_run)
      qed
    qed
  qed
qed

lemma statuses_payout [keeps_intros]:
  "keeps (statuses tid T :: ('s, 'm) exchange_world_scheme \<Rightarrow> bool) (getYellowCardChannelAndBank M X cc)"
  "keeps (statuses tid T :: ('s, 'm) exchange_world_scheme \<Rightarrow> bool) (retryPayoutRequest M X u a ch b ref n)"
  unfolding getYellowCardChannelAndBank_def retryPayoutRequest_def validateUserDetailsForExchange_def validateKycDetailsForExchange_def
  by (intro keeps_intros)+

lemma parent_found:
  assumes "validateAndGetParentTransaction tid w = (Inr t, w1)"
  shows "tx_id t = tid"
  using assms
  by (cases rule: txs.findOne_cases [of "\<lambda>r. row_id tx_table r = tid" w])
     (auto simp: validateAndGetParentTransaction_def repo_findById_def bind_run split: option.splits if_splits dest: find_Some_in)

lemma statuses_retry:
  fixes w :: "('s, 'm) exchange_world_scheme"
  assumes "statuses tid T w"
  shows "statuses tid T (snd (retryExchange M X tid w))"
proof -
  let ?S = "statuses tid T :: ('s, 'm) exchange_world_scheme \<Rightarrow> bool"
  have upd: "keeps ?S (repo_update_id tx_table i (retried_tx t va p s))" for i t va p s
    by (rule statuses_update) (simp add: retried_tx_def)
  have rest: "keeps ?S (bind (createNewVirtualAccountForRetry M t) (\<lambda>va. bind (getYellowCardChannelAndBank M X (destination_country t)) (\<lambda>(channel, bank).
     bind (generateTransactionReference M) (\<lambda>reference.
     bind (retryPayoutRequest M X (tx_user t) (getBankAccountAndName X va) channel bank reference (of_int (tx_amount t) / 100)) (\<lambda>payout.
     if \<not> js_truthy payout then throw (BadRequest ''Failed to create YellowCard payout request'')
     else andthen (handleNgnChildTransaction M X t (patched_opt (jfield ''sequenceRef'' payout) None))
      (bind get_now (\<lambda>stamp. andthen (repo_update_id tx_table (tx_id t) (retried_tx t va payout stamp))
       (ret \<lparr>rt_parent = tid, rt_account = ac_number va, rt_sequence = jfield ''sequenceRef'' payout\<rparr>))))))))"
    if "tx_id t = tid" for t
    unfolding createNewVirtualAccountForRetry_def generateTransactionReference_def
    by (intro keeps_intros statuses_handle [OF that] upd)
  have first: "keeps ?S (validateAndGetParentTransaction tid)"
    unfolding validateAndGetParentTransaction_def by (intro keeps_intros)
  obtain v w1 where v: "validateAndGetParentTransaction tid w = (v, w1)" by (cases "validateAndGetParentTransaction tid w")
  have w1: "?S w1" using keepsD [OF first assms] v by simp
  show ?thesis
  proof (cases v)
    case (Inl e)
    then show ?thesis using v w1 by (simp add: retryExchange_def bind_run)
  next
    case (Inr t)
    from keepsD [OF rest [OF parent_found] w1, of w t] show ?thesis using v Inr unfolding retryExchange_def bind_run [of _ _ w] by simp
  qed
qed

section \<open>Calls and wallets\<close>

lemma calls_insert [call_intros]: "at_most nm k (insert_account a)" "at_most nm k (insert_fwt f)" "at_most nm k (create_wallet r)"
  unfolding insert_account_def insert_fwt_def create_wallet_def by (intro call_intros)+

lemma calls_retry_account: "payout_calls nm \<Longrightarrow> at_most nm 0 (account_create M u d ty force)"
  unfolding account_create_def provide_account_def by (intro call_intros) auto

lemma calls_wallet [call_intros]: "at_most nm 0 (getUserWallet M u c)"
  unfolding getUserWallet_def by (intro call_intros)

lemma calls_handle: "at_most nm 0 (handleNgnChildTransaction M X t e)"
  unfolding handleNgnChildTransaction_def createIncomingNgnTransaction_def reconcileChild_def generateTransactionReference_def tx_create_def fwt_create_def
  by (intro call_intros)

text \<open>Wallets that are added are empty.\<close>

definition grown :: "wallet_row list \<Rightarrow> ('s, 'm) money_world_scheme \<Rightarrow> bool" where
  "grown W w \<longleftrightarrow> (\<exists>ws. wallets w = ws @ W \<and> (\<forall>r \<in> set ws. fw_balance r = 0))"

lemma grown_aside: "aside m \<Longrightarrow> keeps (grown W) m"
  by (simp add: aside_def keeps_def grown_def)

lemma grown_wallet: "keeps (grown W) (getUserWallet M u c)"
proof -
  have c: "keeps (grown W) (create_wallet r)" if "fw_balance r = 0" for r
    unfolding keeps_def
  proof (intro allI impI)
    fix w :: "('s, 'm) money_world_scheme"
    assume "grown W w"
    with that show "grown W (snd (create_wallet r w))"
      by (cases rule: create_wallet_cases [of r w]) (auto simp: grown_def)
  qed
  have a: "keeps (grown W) (find_wallet u c)" "keeps (grown W) (new_value M)" for u c
    unfolding find_wallet_def by (intro grown_aside aside_intros)+
  show ?thesis unfolding getUserWallet_def by (intro keeps_intros c a) simp
qed

lemma aside_retry:
  "aside (account_create M u d ty force)" "aside (getYellowCardChannelAndBank M X cc)" "aside (retryPayoutRequest M X u a ch b ref n)"
  "aside (tx_create M u t)" "aside (fwt_create M u f)" "aside (generateTransactionReference M)" "aside (reconcileChild c)"
  "aside (validateAndGetParentTransaction tid)"
proof -
  have c: "aside (repo_create account_table a)" for a by (auto simp: repo_create_def intro!: aside_intros)
  show "aside (account_create M u d ty force)"
    unfolding account_create_def provide_account_def insert_account_def by (intro aside_intros c)
  show "aside (getYellowCardChannelAndBank M X cc)" "aside (retryPayoutRequest M X u a ch b ref n)" "aside (tx_create M u t)" "aside (fwt_create M u f)"
    "aside (generateTransactionReference M)" "aside (reconcileChild c)" "aside (validateAndGetParentTransaction tid)"
    unfolding getYellowCardChannelAndBank_def retryPayoutRequest_def validateUserDetailsForExchange_def validateKycDetailsForExchange_def
      tx_create_def fwt_create_def generateTransactionReference_def reconcileChild_def validateAndGetParentTransaction_def
    by (intro aside_intros)+
qed

lemma grown_retry: "keeps (grown W) (retryExchange M X tid)"
proof -
  have t: "aside (transaction (bind (generateTransactionReference M) (\<lambda>reference. bind (tx_create M u (g reference)) (\<lambda>t.
      andthen (fwt_create M u (h t)) (ret (Some t))))))" for u g h
    by (intro aside_intros aside_retry)
  have new: "keeps (grown W) (createIncomingNgnTransaction M X t e)" for t e
    unfolding createIncomingNgnTransaction_def
    by (intro keeps_catch keeps_Let keeps_if keeps_ret keeps_bind keeps_option grown_wallet grown_aside [OF t] grown_aside aside_exchange_reads)
  have child: "keeps (grown W) (handleNgnChildTransaction M X t e)" for t e
    unfolding handleNgnChildTransaction_def
    by (intro keeps_bind keeps_option keeps_seq keeps_if keeps_ret new grown_aside aside_retry aside_reads)
  show ?thesis
    unfolding retryExchange_def createNewVirtualAccountForRetry_def
    by (intro keeps_bind keeps_pair keeps_if keeps_seq keeps_ret keeps_get_now child grown_aside aside_retry aside_writes)
qed

section \<open>Properties\<close>

text \<open>
  C13: repeating an exchange sends no coin. Whatever the database and the providers do, one payout is requested at most and no
  withdrawal; the wallets there were are untouched and one that is added is empty; and every transaction there was keeps its
  status, except that a failed child of the repeated one may become one to be reconciled. The status of the repeated
  transaction is not looked at: any exchange of dollars is accepted, a completed one too.
\<close>

theorem retry_sends_no_coin:
  fixes w :: "('s, 'm) exchange_world_scheme"
  assumes "distinct (map tx_id (txs w))" "retryExchange M X tid w = (v, w')"
  shows "calls ''createWithdrawalRequest'' w' \<le> calls ''createWithdrawalRequest'' w
    \<and> calls ''createPayOutRequest'' w' \<le> calls ''createPayOutRequest'' w + 1
    \<and> (\<exists>ws. wallets w' = ws @ wallets w \<and> (\<forall>r \<in> set ws. fw_balance r = 0))
    \<and> (\<forall>r \<in> set (txs w). \<forall>r' \<in> set (txs w'). tx_id r' = tx_id r \<longrightarrow> tx_status r' = tx_status r
        \<or> tx_status r = FAILED \<and> tx_status r' = RECONCILE \<and> tx_parent r = Some tid)
    \<and> (\<forall>t s. tx_type t = T_EXCHANGE \<and> to_upper (tx_asset t) = ''USD'' \<longrightarrow>
        fst (validateAndGetParentTransaction (tx_id t) (w\<lparr>faults := [], txs := t\<lparr>tx_status := s\<rparr> # txs w\<rparr>)) = Inr (t\<lparr>tx_status := s\<rparr>))"
proof -
  have first: "at_most nm 0 (validateAndGetParentTransaction tid :: (('s, 'm) exchange_world_scheme, tx_row) io)"
    "at_most nm 0 (generateTransactionReference M :: (('s, 'm) exchange_world_scheme, string) io)" for nm
    unfolding validateAndGetParentTransaction_def generateTransactionReference_def by (intro call_intros)+
  have last: "at_most nm 0 ((if \<not> js_truthy payout then throw (BadRequest ''Failed to create YellowCard payout request'')
     else andthen (handleNgnChildTransaction M X t (patched_opt (jfield ''sequenceRef'' payout) None))
      (bind get_now (\<lambda>stamp. andthen (repo_update_id tx_table (tx_id t) (retried_tx t va payout stamp)) (ret (tk va payout))))) :: (('s, 'm) exchange_world_scheme, 'k) io)"
    for nm payout t va and tk :: "account_row \<Rightarrow> json \<Rightarrow> 'k"
    by (intro call_intros calls_handle)
  have k: "at_most nm k (retryExchange M X tid :: (('s, 'm) exchange_world_scheme, retry_ticket) io)" if nm: "payout_calls nm" and p: "\<And>u a c b r n. at_most nm k (retryPayoutRequest M X u a c b r n :: (('s, 'm) exchange_world_scheme, json) io)" for nm k
    unfolding retryExchange_def createNewVirtualAccountForRetry_def
    by (intro call_then(1) first calls_retry_account [OF nm] calls_route [OF nm] call_cases(4) at_most_sum [OF p last]) simp
  have "at_most ''createWithdrawalRequest'' 0 (retryExchange M X tid :: (('s, 'm) exchange_world_scheme, retry_ticket) io)"
    "at_most ''createPayOutRequest'' 1 (retryExchange M X tid :: (('s, 'm) exchange_world_scheme, retry_ticket) io)"
    by (rule k, simp, rule calls_payout)+
  then have c: "calls ''createWithdrawalRequest'' w' \<le> calls ''createWithdrawalRequest'' w" "calls ''createPayOutRequest'' w' \<le> calls ''createPayOutRequest'' w + 1"
    using assms(2) at_mostD [of _ _ "retryExchange M X tid" w] by fastforce+
  have "grown (wallets w) w'" using keepsD [OF grown_retry, of "wallets w" w M X tid] assms(2) by (simp add: grown_def)
  then have g: "\<exists>ws. wallets w' = ws @ wallets w \<and> (\<forall>r \<in> set ws. fw_balance r = 0)" by (simp add: grown_def)
  have "statuses tid (txs w) w"
    using assms(1) by (auto simp: statuses_def kept_status_def distinct_map inj_on_def)
  from statuses_retry [OF this] have "statuses tid (txs w) w'" using assms(2) by (metis snd_conv)
  then have s: "\<forall>r \<in> set (txs w). \<forall>r' \<in> set (txs w'). tx_id r' = tx_id r \<longrightarrow> tx_status r' = tx_status r
        \<or> tx_status r = FAILED \<and> tx_status r' = RECONCILE \<and> tx_parent r = Some tid"
    by (auto simp: statuses_def kept_status_def)
  have "fst (validateAndGetParentTransaction (tx_id t) (w\<lparr>faults := [], txs := t\<lparr>tx_status := s\<rparr> # txs w\<rparr>)) = Inr (t\<lparr>tx_status := s\<rparr>)"
    if "tx_type t = T_EXCHANGE" "to_upper (tx_asset t) = ''USD''" for t s
    using that by (simp add: validateAndGetParentTransaction_def bind_run txs.findById_calm)
  with c g s show ?thesis by blast
qed

lemma retry_sends_no_coin_witness:
  "calls ''createWithdrawalRequest'' (snd (retryExchange demo_usd_env demo_exchange_config ''x'' demo_usd)) = 0"
proof -
  obtain v w' where r: "retryExchange demo_usd_env demo_exchange_config ''x'' demo_usd = (v, w')" by (cases "retryExchange demo_usd_env demo_exchange_config ''x'' demo_usd")
  have "distinct (map tx_id (txs demo_usd))" by (simp add: demo_usd_def)
  from conjunct1 [OF retry_sends_no_coin [OF this r]] have "calls ''createWithdrawalRequest'' w' = 0"
    by (simp add: calls_def demo_usd_def demo_rate_world_def)
  then show ?thesis by (simp only: r snd_conv)
qed

end
