(* ===== verification/TxInvariant.thy ===== *)
theory TxInvariant
  imports Zerohash RetryMoney
begin

text \<open>
  Invariants of one table. A condition that looks at one table only is kept by every program that does not write that
  table, whatever else it does: reads, calls of collaborators, locks, and by a database transaction whose body keeps it.
  The locale \<open>table_invariant\<close> says so once, for what is \<open>seen\<close> of the state; \<open>tx_invariant\<close> and \<open>wallet_view\<close> are its
  instances for the transactions and the wallets, and \<open>webhook_invariant\<close> names the writes a condition has to survive to
  be kept by every webhook of the dollar provider.
\<close>

section \<open>Conditions on one table\<close>

locale table_invariant =
  fixes I :: "('s, 'm) dbase_scheme \<Rightarrow> bool" and seen :: "('s, 'm) dbase_scheme \<Rightarrow> 'v"
  assumes only_seen: "seen w = seen w' \<Longrightarrow> I w = I w'"
    and seen_base: "seen (w\<lparr>rds := s, now := t, faults := fs, outbox := ob, draws := d\<rparr>) = seen w"
begin

lemma seen_steps [simp]:
  "seen (w\<lparr>rds := s\<rparr>) = seen w" "seen (w\<lparr>now := t\<rparr>) = seen w" "seen (w\<lparr>faults := fs\<rparr>) = seen w"
  "seen (w\<lparr>outbox := ob\<rparr>) = seen w" "seen (w\<lparr>draws := d\<rparr>) = seen w" "seen (rollback w w') = seen w"
proof -
  show "seen (w\<lparr>rds := s\<rparr>) = seen w" using seen_base [where w = w and s = s and t = "now w" and fs = "faults w" and ob = "outbox w" and d = "draws w"] by simp
  show "seen (w\<lparr>now := t\<rparr>) = seen w" using seen_base [where w = w and s = "rds w" and t = t and fs = "faults w" and ob = "outbox w" and d = "draws w"] by simp
  show "seen (w\<lparr>faults := fs\<rparr>) = seen w" using seen_base [where w = w and s = "rds w" and t = "now w" and fs = fs and ob = "outbox w" and d = "draws w"] by simp
  show "seen (w\<lparr>outbox := ob\<rparr>) = seen w" using seen_base [where w = w and s = "rds w" and t = "now w" and fs = "faults w" and ob = ob and d = "draws w"] by simp
  show "seen (w\<lparr>draws := d\<rparr>) = seen w" using seen_base [where w = w and s = "rds w" and t = "now w" and fs = "faults w" and ob = "outbox w" and d = d] by simp
  show "seen (rollback w w') = seen w" unfolding rollback_def by (rule seen_base)
qed

lemma frame: "(\<And>w. seen (snd (m w)) = seen w) \<Longrightarrow> keeps I m"
  unfolding keeps_def using only_seen by blast

lemma steps [keeps_intros]:
  "keeps I (ext_call M nm p)" "keeps I (emit nm p)" "keeps I (new_value M)" "keeps I db_step" "keeps I (sleep d)"
  "keeps I (redis_call E c)"
  by (rule frame; simp add: ext_call_def call_ext_def new_value_def redis_call_def db_step_def split: prod.split list.split option.split)+

lemma reads [keeps_intros]: "keeps I (repo_findOne T P)" "keeps I (repo_findById T i)" "keeps I (repo_findById_graph T i)"
  unfolding repo_findById_graph_def repo_findById_def repo_findOne_def by (intro keeps_intros)+

lemma mapped: "keeps I m \<Longrightarrow> keeps I (map_io f m)"
  unfolding map_io_def by (intro keeps_intros)

lemma body_of_transaction [keeps_intros]:
  assumes "keeps I m"
  shows "keeps I (transaction m)"
  unfolding keeps_def
proof (intro allI impI)
  fix w :: "('s, 'm) dbase_scheme"
  assume n: "I w"
  obtain v w' where t: "transaction m w = (v, w')" by (cases "transaction m w")
  show "I (snd (transaction m w))"
  proof (cases v)
    case (Inl e)
    with t obtain w2 where "w' = rollback w w2" using transaction_aborts [of m w e] by auto
    then show ?thesis using t n only_seen [of w "rollback w w2"] by simp
  next
    case (Inr x)
    with t obtain w2 fs where "m w = (Inr x, w2)" "w' = w2\<lparr>faults := fs\<rparr>" using transaction_ok [of m w x w'] by auto
    then show ?thesis using t keepsD [OF assms n] only_seen [of w2 "w2\<lparr>faults := fs\<rparr>"] by simp
  qed
qed

lemma lock_steps: "keeps I (release E l)" "keeps I (acquireTries E l delay n)"
proof -
  have s: "keeps I (save E k)" for k unfolding save_def by (intro keeps_intros mapped)
  show "keeps I (release E l)" unfolding release_def by (intro keeps_intros)
  show "keeps I (acquireTries E l delay n)"
    by (induction n) (simp_all only: acquireTries.simps, (intro keeps_intros s; assumption?)+)
qed

lemma locks [keeps_intros]:
  assumes "keeps I cb"
  shows "keeps I (locked M key n cb)" "keeps I (locked_wait M key cb)" "keeps I (exchange_locked M tid cb)"
proof -
  have "keeps I (withLockN E own k t tries d cb)" for E own k t tries d
    unfolding withLockN_def by (intro keeps_intros lock_steps assms)
  then show "keeps I (locked M key n cb)" "keeps I (locked_wait M key cb)" "keeps I (exchange_locked M tid cb)"
    unfolding locked_def locked_wait_def withLockW_def exchange_locked_def by (intro keeps_intros; assumption)+
qed

lemma messages [keeps_intros]:
  "keeps I (quietly (ext_call M nm p))" "keeps I (trackAggregate M ty a)" "keeps I (transferNames M t t')"
  "keeps I (generateTransactionReference M)" "keeps I (mockPaymentCompleteWebhook M bp tx)"
  unfolding trackAggregate_def transferNames_def quietly_def generateTransactionReference_def mockPaymentCompleteWebhook_def
  by (intro keeps_intros)+

end

section \<open>Conditions on the transactions\<close>

locale tx_invariant = table_invariant I txs for I :: "('s, 'm) money_world_scheme \<Rightarrow> bool"
begin

lemma other_tables [keeps_intros]:
  "keeps I (repo_create fwt_table f)" "keeps I (repo_create wallet_table v)"
  "keeps I (repo_update_id fwt_table i g)" "keeps I (repo_update_id wallet_table i h)"
  unfolding repo_create_def repo_update_id_def by (intro keeps_intros frame; simp)+

lemma entries [keeps_intros]: "keeps I (insert_fwt f)" "keeps I (fwt_create M u f)" "keeps I (fwt_updateStatus M i st meta)"
  unfolding insert_fwt_def fwt_create_def fwt_updateStatus_def fwt_section_def by (intro keeps_intros)+

lemma wallet_services [keeps_intros]:
  "keeps I (getUserWallet M u c)" "keeps I (updateBalanceWithTransaction M wid a tid ty st meta wallet before after)"
  "keeps I (updateBalance M wid a tid ty st meta inTrx)" "keeps I (moveToCredit wid a)" "keeps I (writeBalance M wallet b tid f)"
proof -
  show b: "keeps I (updateBalanceWithTransaction M wid a tid ty st meta wallet before after)" for wid a tid ty st meta wallet before after
    unfolding updateBalanceWithTransaction_def record_movement_def createFiatWalletTransaction_def balance_changed_def
    by (intro keeps_intros)
  show "keeps I (getUserWallet M u c)" unfolding getUserWallet_def find_wallet_def create_wallet_def by (intro keeps_intros)
  show "keeps I (updateBalance M wid a tid ty st meta inTrx)"
    unfolding updateBalance_def balanceSection_def wallet_findById_def by (intro keeps_intros b)
  show "keeps I (moveToCredit wid a)" unfolding moveToCredit_def by (intro keeps_intros)
  show "keeps I (writeBalance M wallet b tid f)" unfolding writeBalance_def by (intro keeps_intros b)
qed

end

locale status_invariant = tx_invariant +
  assumes section_keeps: "keeps I (tx_section M j st mo opts)"
begin

lemma status_services [keeps_intros]: "keeps I (tx_updateStatus M j st mo opts)" "keeps I (completeExchangeTransaction M t a)"
proof -
  show u: "keeps I (tx_updateStatus M j st mo opts)" for j st mo opts
    unfolding tx_updateStatus_def by (intro keeps_intros section_keeps)
  show "keeps I (completeExchangeTransaction M t a)" unfolding completeExchangeTransaction_def creditExchange_def by (intro keeps_intros u)
qed

lemma settlement_services [keeps_intros]:
  "keeps I (processSettlement M X m x p)" "keeps I (processTransferMovement M m x p)" "keeps I (processTradeStatusChanged M tp)"
  unfolding processSettlement_def updateWalletBalanceFromPayload_def handleClientTransferIdTransaction_def completeSettled_def
    handlePostSettlementActions_def handleFirstDepositBonus_def creditFirstDeposit_def completed_deposits_def findFiatWalletTransactionByTradeId_def
    processTransferMovement_def transferRecords_def settleTransfer_def processTradeStatusChanged_def find_entry_def
  by (intro keeps_intros)+

end

section \<open>Every webhook of the dollar provider\<close>

text \<open>The writes of the webhooks to the transactions, other than changes of status.\<close>

locale webhook_invariant = status_invariant I for I :: "('s, 'm) webhook_world_scheme \<Rightarrow> bool" +
  assumes incoming_keeps: "keeps I (recordIncoming M X parent rate wallet kobo ref)"
    and placeholder_keeps: "keeps I (createPlaceholderTransactionForReconciliation M u ref amount)"
    and inline_keeps: "keeps I (repo_update_id tx_table j (inline_tx t f x details n))"
    and pending_keeps: "keeps I (pendingSection request u p)"
begin

lemma exchange_services [keeps_intros]:
  "keeps I (webhook_incoming M X t ref)" "keeps I (scheduleExchangeVirtualAccountDeletion M u tid)"
proof -
  have a: "keeps I (repo_create account_table a)" "keeps I (repo_update_id account_table i g)" for a i g
    unfolding repo_create_def repo_update_id_def by (intro keeps_intros frame; simp)+
  show "keeps I (webhook_incoming M X t ref)" unfolding webhook_incoming_def newIncoming_def by (intro keeps_intros incoming_keeps)
  show "keeps I (scheduleExchangeVirtualAccountDeletion M u tid)"
    unfolding scheduleExchangeVirtualAccountDeletion_def findOrCreateVirtualAccount_def account_create_def provide_account_def insert_account_def
    by (intro keeps_intros a)
qed

lemma external_services [keeps_intros]: "keeps I (external_update i g)" "keeps I (getExternalAccount u)"
proof -
  have e: "keeps I (repo_update_id external_table i g)" for i g
    unfolding repo_update_id_def by (intro keeps_intros frame; simp)
  show "keeps I (external_update i g)" unfolding external_update_def find_external_def repo_update_where_def by (intro keeps_intros e)
  show "keeps I (getExternalAccount u)" unfolding getExternalAccount_def find_external_def by (intro keeps_intros)
qed

lemma movements [keeps_intros]: "keeps I (processMovement M X x p m)"
  unfolding processMovement_def processWithdrawalConfirmed_def confirmWithdrawal_def completeConfirmed_def processWithdrawalPending_def
    processDepositMovement_def depositSteps_def settleDeposit_def creditDeposit_def find_entry_def find_tx_def Let_def
  by (intro keeps_intros pending_keeps placeholder_keeps)

lemma every_webhook: "keeps I (zerohash_processWebhook M X e)"
proof -
  have ms: "keeps I (processMovements M X x p ms)" for x p ms 
    by (induction ms) (simp_all only: processMovements.simps, (intro keeps_intros; assumption?)+)
  have p: "keeps I (processPaymentStatusChanged M pp)" for pp
    unfolding processPaymentStatusChanged_def updateFiatWalletTransactionIfNeeded_def updateFiatWalletTransactionSettled_def find_tx_def find_entry_def
    by (intro keeps_intros)
  have b: "keeps I (processAccountBalanceChanged M X p)" for p
    unfolding processAccountBalanceChanged_def by (intro keeps_intros ms)
  have x: "keeps I (processParticipantStatusChanged M u s)" "keeps I (processExternalAccountStatusChanged M u s')" for u s s'
    unfolding processParticipantStatusChanged_def processExternalAccountStatusChanged_def find_external_def by (intro keeps_intros)+
  show ?thesis by (cases e) (simp_all only: zerohash_processWebhook.simps p b x, (intro keeps_intros)+)
qed

lemma inline_check [keeps_intros]: "keeps I (checkAndCompleteUsdWithdrawal M X tid u)"
  unfolding checkAndCompleteUsdWithdrawal_def inlineSection_def find_entry_def find_tx_def find_external_def
  by (intro keeps_intros inline_keeps)

end

section \<open>Conditions on the wallets\<close>

lemma aside_section: "aside (tx_section M i st mo opts)"
  unfolding tx_section_def repo_findById_graph_def notify_status_def createNotification_def sendTransactionPushNotification_def quietly_def
    sendTransactionEmailNotification_def getParentTransaction_def
  by (auto intro!: aside_intros)

lemma aside_entry_section: "aside (fwt_section i st m)"
  unfolding fwt_section_def by (auto intro!: aside_intros)

locale wallet_view = table_invariant I wallets for I :: "('s, 'm) exchange_world_scheme \<Rightarrow> bool"
begin

lemma spared_wallets: "aside m \<Longrightarrow> keeps I m"
  by (rule frame) (simp add: aside_def)

lemma status_changes [keeps_intros]: "keeps I (tx_updateStatus M i st mo opts)" "keeps I (fwt_updateStatus M i st meta)"
  unfolding tx_updateStatus_def fwt_updateStatus_def by (intro keeps_intros spared_wallets aside_section aside_entry_section)+

lemma creations [keeps_intros]: "keeps I (tx_create M u t)" "keeps I (fwt_create M u f)" "keeps I (repo_update_id tx_table i g)" "keeps I (repo_update_id fwt_table i h)"
  unfolding tx_create_def fwt_create_def by (intro spared_wallets aside_intros)+

lemma accounts [keeps_intros]: "keeps I (scheduleExchangeVirtualAccountDeletion M u tid)"
  unfolding scheduleExchangeVirtualAccountDeletion_def findOrCreateVirtualAccount_def account_create_def provide_account_def insert_account_def
  by (intro keeps_intros spared_wallets aside_account) (simp_all add: repo_create_def aside_intros)

lemma after_settlement [keeps_intros]: "keeps I (completeSettled M f newBalance amount merged)" "keeps I (handlePostSettlementActions M Y f x p)"
  unfolding completeSettled_def handlePostSettlementActions_def handleFirstDepositBonus_def creditFirstDeposit_def completed_deposits_def
  by (intro keeps_intros)+

end

text \<open>The two writes of the withdrawals to the wallets: a new one, and what is moved to the credit balance.\<close>

locale wallet_invariant = wallet_view +
  assumes new_wallet: "keeps I (getUserWallet M u c)"
    and to_credit: "keeps I (moveToCredit wid a)"
begin

lemma incoming [keeps_intros]: "keeps I (webhook_incoming M X t ref)"
  unfolding webhook_incoming_def newIncoming_def recordIncoming_def by (intro keeps_intros new_wallet)

lemma withdrawals:
  "keeps I (processWithdrawalConfirmed M X m x p)" "keeps I (processWithdrawalPending M m x p)" "keeps I (inlineSection M X t f x details request)"
  unfolding processWithdrawalConfirmed_def confirmWithdrawal_def completeConfirmed_def processWithdrawalPending_def pendingSection_def pendingMain_def
    inlineSection_def find_entry_def find_tx_def Let_def
  by (intro keeps_intros to_credit)+

lemma reports: "keeps I (processPaymentStatusChanged M pp)" "keeps I (processTradeStatusChanged M tp)"
  unfolding processPaymentStatusChanged_def updateFiatWalletTransactionIfNeeded_def updateFiatWalletTransactionSettled_def find_tx_def find_entry_def
    processTradeStatusChanged_def
  by (intro keeps_intros)+

end

end
