(* ===== verification/ZerohashMoney.thy ===== *)
theory ZerohashMoney
  imports TxInvariant
begin

text \<open>
  What the webhooks of the dollar provider keep, whatever they report, in whatever order and whatever fails: a completed
  transaction stays completed, an exchange gets at most one record of its incoming naira, and a confirmed withdrawal moves
  its amount from the balance of a wallet to its credit balance and nowhere else.
\<close>

section \<open>A completed transaction\<close>

definition completed :: "string \<Rightarrow> ('s, 'm) money_world_scheme \<Rightarrow> bool" where
  "completed i w \<longleftrightarrow> status_of w i = Some COMPLETED"

lemma completed_update:
  fixes w :: "('s, 'm) money_world_scheme"
  assumes "completed i w" "\<And>r. tx_id (g r) = tx_id r" "i \<noteq> j \<or> (\<forall>r. tx_status (g r) = COMPLETED)"
  shows "completed i (snd (repo_update_id tx_table j g w))"
proof (cases rule: txs.update_id_cases [of j g w])
  case (3 r fs)
  then have f: "List.find (\<lambda>r. tx_id r = j) (txs w) = Some r" and id: "tx_id (g r) = j" using assms(2) by (auto dest: find_Some_in)
  show ?thesis
  proof (cases "i = j")
    case True
    with assms(3) have "tx_status (g r) = COMPLETED" by blast
    with True 3 show ?thesis by (simp add: completed_def status_of_def find_replaced [OF f id])
  next
    case False
    with 3 assms(1) show ?thesis by (simp add: completed_def status_of_def find_replaced [OF f id])
  qed
qed (use assms(1) in \<open>simp_all add: completed_def status_of_def\<close>)

lemma completed_create:
  shows "keeps (completed i :: ('s, 'm) money_world_scheme \<Rightarrow> bool) (repo_create tx_table t)"
  unfolding keeps_def
proof (intro allI impI)
  fix w :: "('s, 'm) money_world_scheme"
  assume c: "completed i w"
  show "completed i (snd (repo_create tx_table t w))"
    by (cases rule: txs.create_cases [of t w]) (use c in \<open>auto simp: completed_def status_of_def image_iff dest!: find_Some_in\<close>)
qed

lemma completed_section: "keeps (completed i :: ('s, 'm) money_world_scheme \<Rightarrow> bool) (tx_section M j st mo opts)"
  using keeps_terminal [of i COMPLETED M j st mo opts] by (simp add: completed_def [abs_def] terminal_def)

interpretation completed_tx: status_invariant "completed i" for i
  by unfold_locales (rule completed_section | simp add: completed_def status_of_def)+

text \<open>A pending withdrawal looks at the status of the row before it writes one.\<close>

lemma completed_pending: "keeps (completed i :: ('s, 'm) money_world_scheme \<Rightarrow> bool) (pendingSection request u p)"
proof -
  have "keeps (completed i :: ('s, 'm) money_world_scheme \<Rightarrow> bool) (pendingMain f)" for f
    unfolding keeps_def
  proof (intro allI impI)
    fix w :: "('s, 'm) money_world_scheme"
    assume c: "completed i w"
    let ?g = "\<lambda>n r. r\<lparr>tx_status := PROCESSING, tx_processed := Some n\<rparr>"
    show "completed i (snd (pendingMain f w))"
    proof (cases rule: txs.findOne_cases [of "\<lambda>r. tx_id r = ft_transaction f" w])
      case (1 e fs)
      with c show ?thesis by (simp add: pendingMain_def repo_findById_def bind_run completed_def status_of_def)
    next
      case (2 fs)
      define w1 where "w1 = w\<lparr>faults := fs\<rparr>"
      have c1: "completed i w1" using c by (simp add: w1_def completed_def status_of_def)
      have "completed i (snd (repo_update_id tx_table (ft_transaction f) (?g n) w1))" if "i \<noteq> ft_transaction f" for n
        by (rule completed_update [OF c1]) (use that in simp_all)
      then have u: "completed i (snd (repo_update_id tx_table (ft_transaction f) (?g (now w)) w1))" if "tx_status t \<noteq> COMPLETED"
        "List.find (\<lambda>r. tx_id r = ft_transaction f) (txs w) = Some t" for t
        using that c by (cases "i = ft_transaction f") (auto simp: completed_def status_of_def)
      have n: "now w1 = now w" by (simp add: w1_def)
      show ?thesis
      proof (cases "List.find (\<lambda>r. tx_id r = ft_transaction f) (txs w)")
        case None
        with 2 c c1 show ?thesis by (simp add: pendingMain_def repo_findById_def bind_run w1_def)
      next
        case (Some t)
        show ?thesis
        proof (cases "tx_status t = COMPLETED \<or> ft_transaction f = []")
          case True
          with 2 Some c c1 show ?thesis by (auto simp: pendingMain_def repo_findById_def bind_run w1_def)
        next
          case False
          with 2 Some have "snd (pendingMain f w) = snd (repo_update_id tx_table (ft_transaction f) (?g (now w)) w1)"
            by (simp add: pendingMain_def repo_findById_def bind_run andthen_run w1_def [symmetric] n split: prod.split sum.split)
          with u [of t] False Some show ?thesis by simp
        qed
      qed
    qed
  qed
  then show ?thesis unfolding pendingSection_def find_entry_def by (intro keeps_intros)
qed

interpretation completed_webhook: webhook_invariant "completed i" for i
proof unfold_locales
  fix M X parent rate wallet kobo ref u amount j t f x details n request p
  show "keeps (completed i) (recordIncoming M X parent rate wallet kobo ref)"
    unfolding recordIncoming_def tx_create_def by (intro keeps_intros completed_create)
  show "keeps (completed i) (createPlaceholderTransactionForReconciliation M u ref amount)"
    unfolding createPlaceholderTransactionForReconciliation_def tx_create_def by (intro keeps_intros completed_create)
  show "keeps (completed i) (repo_update_id tx_table j (inline_tx t f x details n))"
    unfolding keeps_def by (auto intro!: completed_update simp: inline_tx_def)
  show "keeps (completed i) (pendingSection request u p)" by (rule completed_pending)
qed

section \<open>One record of the incoming naira\<close>

definition incoming_count :: "string \<Rightarrow> ('s, 'm) money_world_scheme \<Rightarrow> nat" where
  "incoming_count tid w = length (filter (\<lambda>r. tx_parent r = Some tid \<and> tx_asset r = ''NGN'') (txs w))"

definition one_incoming :: "string \<Rightarrow> ('s, 'm) money_world_scheme \<Rightarrow> bool" where
  "one_incoming tid w \<longleftrightarrow> incoming_count tid w \<le> 1"

text \<open>There is room for a record: none yet, or it would belong to another exchange.\<close>

definition has_room :: "string \<Rightarrow> string \<Rightarrow> ('s, 'm) money_world_scheme \<Rightarrow> bool" where
  "has_room tid pid w \<longleftrightarrow> one_incoming tid w \<and> (pid = tid \<longrightarrow> incoming_count tid w = 0)"

interpretation room: tx_invariant "has_room tid pid" for tid pid
  by unfold_locales (simp_all add: has_room_def one_incoming_def incoming_count_def)

lemma replaced_count:
  "r \<in> set rs \<Longrightarrow> (Q r' \<longrightarrow> Q r) \<Longrightarrow> rid r = i \<Longrightarrow> length (filter Q (replace_row rid i r' rs)) \<le> length (filter Q rs)"
proof -
  have other: "length (filter Q (filter (\<lambda>x. rid x \<noteq> i) rs)) \<le> length (filter Q rs)" for rs
    by (induction rs) auto
  have member: "r \<in> set rs \<Longrightarrow> Q r \<Longrightarrow> rid r = i \<Longrightarrow> Suc (length (filter Q (filter (\<lambda>x. rid x \<noteq> i) rs))) \<le> length (filter Q rs)" for rs
    by (induction rs) (use other in auto)
  assume "r \<in> set rs" "Q r' \<longrightarrow> Q r" "rid r = i"
  with other [of rs] member [of rs] show ?thesis by (simp add: replace_row_def)
qed

lemma count_update:
  fixes w :: "('s, 'm) money_world_scheme"
  assumes "\<And>r. tx_parent (g r) = tx_parent r \<and> tx_asset (g r) = tx_asset r"
  shows "incoming_count tid (snd (repo_update_id tx_table j g w)) \<le> incoming_count tid w"
proof (cases rule: txs.update_id_cases [of j g w])
  case (3 r fs)
  then have "r \<in> set (txs w)" "tx_id r = j" by (auto dest: find_Some_in)
  then show ?thesis
    using 3 assms replaced_count [of r "txs w" "\<lambda>r. tx_parent r = Some tid \<and> tx_asset r = ''NGN''" "g r" tx_id j]
    by (simp add: incoming_count_def)
qed (simp_all add: incoming_count_def)

lemma one_update:
  assumes "\<And>r. tx_parent (g r) = tx_parent r \<and> tx_asset (g r) = tx_asset r"
  shows "keeps (one_incoming tid :: ('s, 'm) money_world_scheme \<Rightarrow> bool) (repo_update_id tx_table j g)"
  unfolding keeps_def one_incoming_def using count_update [OF assms] le_trans by blast

interpretation one_record: tx_invariant "one_incoming tid" for tid
  by unfold_locales (simp_all add: one_incoming_def incoming_count_def)

lemma one_section: "keeps (one_incoming tid :: ('s, 'm) money_world_scheme \<Rightarrow> bool) (tx_section M j st mo opts)"
  unfolding tx_section_def notify_status_def createNotification_def sendTransactionPushNotification_def quietly_def
    sendTransactionEmailNotification_def getParentTransaction_def
  by (intro keeps_intros one_update) (simp_all add: tx_status_data_def Let_def)

interpretation one_status: status_invariant "one_incoming tid" for tid
  by unfold_locales (rule one_section)

lemma count_create:
  "incoming_count tid (snd (repo_create tx_table t w)) \<le> incoming_count tid w + (if tx_parent t = Some tid then 1 else 0)"
  by (cases rule: txs.create_cases [of t w]) (simp_all add: incoming_count_def)

lemma one_create: "tx_parent t \<noteq> Some tid \<Longrightarrow> keeps (one_incoming tid :: ('s, 'm) money_world_scheme \<Rightarrow> bool) (repo_create tx_table t)"
  unfolding keeps_def one_incoming_def using count_create [of tid t] by (auto intro: order_trans)

lemma room_create:
  assumes "tx_parent t = Some pid"
  shows "triple (has_room tid pid :: ('s, 'm) money_world_scheme \<Rightarrow> bool) (repo_create tx_table t) (\<lambda>_. one_incoming tid) (\<lambda>_. one_incoming tid)"
proof -
  have "one_incoming tid (snd (repo_create tx_table t w))" if "has_room tid pid w" for w :: "('s, 'm) money_world_scheme"
    using count_create [of tid t w] that assms by (auto simp: has_room_def one_incoming_def split: if_splits)
  then show ?thesis by (auto simp: triple_def split: sum.split)
qed

lemma looked_up:
  "triple (one_incoming tid :: ('s, 'm) money_world_scheme \<Rightarrow> bool) (repo_findOne tx_table (is_incoming parent))
     (\<lambda>x w. one_incoming tid w \<and> (x = None \<longrightarrow> has_room tid (tx_id parent) w)) (\<lambda>_. one_incoming tid)"
proof (rule tripleI, goal_cases)
  case (1 w x w')
  then show ?case
    by (cases rule: txs.findOne_cases [of "is_incoming parent" w])
      (auto simp: has_room_def one_incoming_def incoming_count_def is_incoming_def find_None_iff filter_empty_conv)
next
  case (2 w e w')
  then show ?case
    by (cases rule: txs.findOne_cases [of "is_incoming parent" w]) (auto simp: one_incoming_def incoming_count_def)
qed

lemma recorded:
  "triple (has_room tid (tx_id parent) :: ('s, 'm) money_world_scheme \<Rightarrow> bool)
     (tx_create M u (webhook_tx parent rate wallet kobo reference ref)) (\<lambda>_. one_incoming tid) (\<lambda>_. one_incoming tid)"
proof -
  have one: "has_room tid p w \<Longrightarrow> one_incoming tid w" for p and w :: "('s, 'm) money_world_scheme" by (simp add: has_room_def)
  have clock: "triple P get_now (\<lambda>_. P) R" for P :: "('s, 'm) money_world_scheme \<Rightarrow> bool" and R by (simp add: triple_def get_now_def bind_run)
  show ?thesis unfolding tx_create_def
    by (intro triple_bind [where Q' = "\<lambda>_. has_room tid (tx_id parent)"] clock triple_keeps [OF room.steps(3)] room_create one; assumption?)
      (simp add: webhook_tx_def)
qed

lemma one_record_incoming: "keeps (one_incoming tid :: ('s, 'm) money_world_scheme \<Rightarrow> bool) (recordIncoming M X parent rate wallet kobo ref)"
proof -
  have one: "has_room tid p w \<Longrightarrow> one_incoming tid w" for p and w :: "('s, 'm) money_world_scheme" by (simp add: has_room_def)
  have existing: "keeps (one_incoming tid :: ('s, 'm) money_world_scheme \<Rightarrow> bool) (bind (tx_updateStatus M (tx_id t) PROCESSING (Some no_meta) all_notifications)
      (\<lambda>u. case u of None \<Rightarrow> throw undefined_row | Some r \<Rightarrow> ret r))" for t
    by (intro keeps_intros)
  have new: "triple (has_room tid (tx_id parent) :: ('s, 'm) money_world_scheme \<Rightarrow> bool) (bind (generateTransactionReference M) (\<lambda>reference.
           bind (tx_create M (tx_user parent) (webhook_tx parent rate wallet kobo reference ref)) (\<lambda>t.
           andthen (fwt_create M (tx_user parent) (webhook_entry X wallet kobo ref t)) (ret t)))) (\<lambda>_. one_incoming tid) (\<lambda>_. one_incoming tid)"
    by (rule triple_bind [where Q' = "\<lambda>_. has_room tid (tx_id parent)"], rule triple_keeps [OF room.messages(4)])
      (assumption | rule one | (rule triple_to_keeps [OF recorded], intro keeps_intros))+
  show ?thesis unfolding recordIncoming_def
    by (intro one_record.body_of_transaction, unfold keeps_triple, rule triple_bind [OF looked_up])
      (auto split: option.split intro: triple_conseq [OF new] triple_conseq [OF existing [unfolded keeps_triple]])
qed

lemma one_pending: "keeps (one_incoming tid :: ('s, 'm) money_world_scheme \<Rightarrow> bool) (pendingSection request u p)"
  unfolding pendingSection_def pendingMain_def find_entry_def by (intro keeps_intros one_update) simp_all

lemma one_placeholder: "keeps (one_incoming tid :: ('s, 'm) money_world_scheme \<Rightarrow> bool) (createPlaceholderTransactionForReconciliation M u ref amount)"
  unfolding createPlaceholderTransactionForReconciliation_def tx_create_def
  by (intro keeps_intros one_create) (simp add: placeholder_tx_def blank_tx_def)

interpretation one_webhook: webhook_invariant "one_incoming tid" for tid
  by unfold_locales (rule one_record_incoming one_placeholder one_pending one_update | simp add: inline_tx_def)+

section \<open>What a wallet holds\<close>

definition holdings :: "('s, 'm) money_world_scheme \<Rightarrow> string \<Rightarrow> int" where
  "holdings w i = (case List.find (\<lambda>r. fw_id r = i) (wallets w) of None \<Rightarrow> 0 | Some r \<Rightarrow> fw_balance r + fw_credit r)"

definition holdings_are :: "(string \<Rightarrow> int) \<Rightarrow> ('s, 'm) money_world_scheme \<Rightarrow> bool" where
  "holdings_are h w \<longleftrightarrow> holdings w = h"

interpretation held: table_invariant "holdings_are h" wallets for h
  by unfold_locales (simp_all add: holdings_are_def holdings_def [abs_def])

lemma held_create: "fw_balance r + fw_credit r = 0 \<Longrightarrow> keeps (holdings_are h :: ('s, 'm) money_world_scheme \<Rightarrow> bool) (create_wallet r)"
  unfolding keeps_def
proof (intro allI impI)
  fix w :: "('s, 'm) money_world_scheme"
  assume z: "fw_balance r + fw_credit r = 0" and h: "holdings_are h w"
  have new: "holdings (set_rows wallet_table (r # wallets w) (w\<lparr>faults := fs\<rparr>)) = holdings w" if "fw_id r \<notin> fw_id ` set (wallets w)" for fs
  proof
    fix i
    have "List.find (\<lambda>x. fw_id x = fw_id r) (wallets w) = None" unfolding find_None_iff using that by (metis image_eqI)
    then show "holdings (set_rows wallet_table (r # wallets w) (w\<lparr>faults := fs\<rparr>)) i = holdings w i" using z by (auto simp: holdings_def)
  qed
  have "holdings_are h (snd (repo_create wallet_table r w))"
    by (cases rule: wallets.create_cases [of r w]) (use h new in \<open>auto simp: holdings_are_def holdings_def [abs_def]\<close>)
  moreover have "holdings_are h (snd (db_step w))" using keepsD [OF held.steps(4) h] .
  ultimately show "holdings_are h (snd (create_wallet r w))"
    by (auto simp: create_wallet_def bind_run andthen_run split: prod.split sum.split)
qed

lemma held_new_wallet: "keeps (holdings_are h :: ('s, 'm) money_world_scheme \<Rightarrow> bool) (getUserWallet M u c)"
  unfolding getUserWallet_def find_wallet_def by (intro keeps_intros held_create) simp

lemma held_to_credit: "keeps (holdings_are h :: ('s, 'm) money_world_scheme \<Rightarrow> bool) (moveToCredit wid a)"
  unfolding keeps_def
proof (intro allI impI)
  fix w :: "('s, 'm) money_world_scheme"
  assume h: "holdings_are h w"
  show "holdings_are h (snd (moveToCredit wid a w))"
  proof (cases rule: wallets.findOne_cases [of "\<lambda>r. fw_id r = wid" w])
    case (1 e fs)
    with h show ?thesis by (simp add: moveToCredit_def repo_findById_def bind_run holdings_are_def holdings_def [abs_def])
  next
    case (2 fs)
    show ?thesis
    proof (cases "List.find (\<lambda>r. fw_id r = wid) (wallets w)")
      case None
      with h 2 show ?thesis by (simp add: moveToCredit_def repo_findById_def bind_run holdings_are_def holdings_def [abs_def])
    next
      case (Some sw)
      then have id: "fw_id sw = wid" by (auto dest: find_Some_in)
      define g where "g = (\<lambda>r::wallet_row. r\<lparr>fw_balance := fw_balance sw - \<bar>a\<bar>, fw_credit := fw_credit sw + \<bar>a\<bar>\<rparr>)"
      define w1 where "w1 = w\<lparr>faults := fs\<rparr>"
      have step: "snd (moveToCredit wid a w) = snd (repo_update_id wallet_table wid g w1)"
        using 2 Some by (simp add: moveToCredit_def repo_findById_def bind_run andthen_run id g_def w1_def split: prod.split sum.split)
      have h1: "holdings_are h w1" using h by (simp add: w1_def holdings_are_def holdings_def [abs_def])
      have f1: "List.find (\<lambda>r. fw_id r = wid) (wallets w1) = Some sw" using Some by (simp add: w1_def)
      show ?thesis unfolding step
      proof (cases rule: wallets.update_id_cases [of wid g w1])
        case (3 r fs')
        have "fw_id (g sw) = wid" by (simp add: g_def id)
        from find_replaced [OF f1 this] have "holdings (snd (repo_update_id wallet_table wid g w1)) i = holdings w1 i" for i
          using 3 f1 by (simp add: holdings_def g_def)
        with h1 show "holdings_are h (snd (repo_update_id wallet_table wid g w1))" by (simp add: holdings_are_def fun_eq_iff)
      qed (use h1 in \<open>simp_all add: holdings_are_def holdings_def [abs_def]\<close>)
    qed
  qed
qed

interpretation held_wallets: wallet_invariant "holdings_are h" for h
  by unfold_locales (rule held_new_wallet held_to_credit)+

end
