(* ===== verification/ZerohashReports.thy ===== *)
theory ZerohashReports
  imports ZerohashMoney UsdMoney TxReview
begin

text \<open>
  The properties of the dollar provider's webhooks: sequences of deliveries, what they keep, what a repeated
  confirmation of a withdrawal does, and what an interrupted one leaves behind.
\<close>

section \<open>Deliveries one after the other\<close>

text \<open>
  The provider delivers events, repeats them and reorders them; in between a user's retry may look up a
  withdrawal. Each is run to its end whatever it answers.
\<close>

datatype delivery = Reported zerohash_event | LookedUp string string

fun deliver :: "'s money_env \<Rightarrow> exchange_config \<Rightarrow> delivery list \<Rightarrow> ('s, 'm) webhook_world_scheme \<Rightarrow> ('s, 'm) webhook_world_scheme" where
  "deliver M X [] w = w"
| "deliver M X (Reported e # ds) w = deliver M X ds (snd (zerohash_processWebhook M X e w))"
| "deliver M X (LookedUp tid u # ds) w = deliver M X ds (snd (checkAndCompleteUsdWithdrawal M X tid u w))"

context webhook_invariant
begin

lemma delivered: "I w \<Longrightarrow> I (deliver M X ds w)"
proof (induction ds arbitrary: w)
  case (Cons d ds)
  show ?case
  proof (cases d)
    case (Reported e)
    then show ?thesis using Cons keepsD [OF every_webhook Cons.prems] by simp
  next
    case (LookedUp tid u)
    then show ?thesis using Cons keepsD [OF inline_check Cons.prems] by simp
  qed
qed simp

end

section \<open>A repeated confirmation\<close>

interpretation tables: table_invariant "\<lambda>w. wallets w = W \<and> txs w = T \<and> fwts w = F" "\<lambda>w. (wallets w, txs w, fwts w)" for W T F
  by unfold_locales simp_all

lemma entry_found:
  assumes "List.find P F = Some f"
  shows "triple (\<lambda>w::('s, 'm) money_world_scheme. wallets w = W \<and> txs w = T \<and> fwts w = F) (find_entry P)
    (\<lambda>x w. x = f \<and> wallets w = W \<and> txs w = T \<and> fwts w = F) (\<lambda>_ w. wallets w = W \<and> txs w = T \<and> fwts w = F)"
proof (rule tripleI, goal_cases)
  case (1 w x w')
  then show ?case
    by (cases rule: fwts.findOne_cases [of P w]) (auto simp: find_entry_def bind_run assms)
next
  case (2 w e w')
  then show ?case
    by (cases rule: fwts.findOne_cases [of P w]) (auto simp: find_entry_def bind_run assms)
qed

lemma after_entry:
  assumes "List.find P F = Some f" "keeps (\<lambda>w::('s, 'm) money_world_scheme. wallets w = W \<and> txs w = T \<and> fwts w = F) (k f)"
  shows "keeps (\<lambda>w. wallets w = W \<and> txs w = T \<and> fwts w = F) (bind (find_entry P) k)"
proof -
  have "triple (\<lambda>w. x = f \<and> wallets w = W \<and> txs w = T \<and> fwts w = F) (k x) (\<lambda>_ w. wallets w = W \<and> txs w = T \<and> fwts w = F)
      (\<lambda>_ w. wallets w = W \<and> txs w = T \<and> fwts w = F)" for x
    by (cases "x = f") (use assms(2) in \<open>simp_all add: keeps_triple triple_def\<close>)
  then show ?thesis unfolding keeps_triple by (rule triple_bind [OF entry_found [OF assms(1)]])
qed

lemma confirmation_reads:
  assumes f: "List.find (\<lambda>r. ft_request_ref r = Some request \<and> ft_user r = u) F = Some f" "ft_status f = COMPLETED"
  shows "keeps (\<lambda>w::('s, 'm) exchange_world_scheme. wallets w = W \<and> txs w = T \<and> fwts w = F) (confirmWithdrawal M X request u change p)"
    "keeps (\<lambda>w::('s, 'm) money_world_scheme. wallets w = W \<and> txs w = T \<and> fwts w = F) (pendingSection request u p)"
proof -
  show "keeps (\<lambda>w::('s, 'm) exchange_world_scheme. wallets w = W \<and> txs w = T \<and> fwts w = F) (confirmWithdrawal M X request u change p)"
    unfolding confirmWithdrawal_def find_tx_def by (rule after_entry [OF f(1)]) (simp only: f(2) refl if_True, intro keeps_intros)
  show "keeps (\<lambda>w::('s, 'm) money_world_scheme. wallets w = W \<and> txs w = T \<and> fwts w = F) (pendingSection request u p)"
    unfolding pendingSection_def by (rule after_entry [OF f(1)]) (simp only: f(2) refl if_True, intro keeps_intros)
qed

section \<open>An interrupted confirmation\<close>

lemma move_entries: "fwts (snd (moveToCredit wid a w)) = fwts w"
  for w :: "('s, 'm) money_world_scheme"
proof -
  have r: "fwts (snd (repo_findOne wallet_table P v)) = fwts v" for P and v :: "('s, 'm) money_world_scheme"
    by (cases rule: wallets.findOne_cases [of P v]) simp_all
  have u: "fwts (snd (repo_update_id wallet_table i g v)) = fwts v" for i g and v :: "('s, 'm) money_world_scheme"
    by (cases rule: wallets.update_id_cases [of i g v]) simp_all
  show ?thesis
    using r [of "\<lambda>r. fw_id r = wid" w] u [of "wid"]
    by (auto simp: moveToCredit_def repo_findById_def bind_run andthen_run split: prod.split sum.split option.split)
      (metis snd_conv u)+
qed

lemma interrupted:
  assumes "moveToCredit (ft_wallet f) n w = (Inr (), w1)" "ft_transaction f \<noteq> []"
    "tx_updateStatus M (ft_transaction f) COMPLETED (Some (confirmed_status t details (ft_before f + n))) no_notifications w1 = (Inl e, w2)"
  shows "completeConfirmed M X request p t f details n w = (Inl e, w2)"
  using assms by (simp add: completeConfirmed_def Let_def andthen_run when_do_def)

lemma moved_to_credit:
  fixes w :: "('s, 'm) money_world_scheme"
  assumes "moveToCredit wid a w = (Inr (), w')" "balance_of w wid = Some b"
  shows "balance_of w' wid = Some (b - \<bar>a\<bar>)"
proof (cases rule: wallets.findOne_cases [of "\<lambda>r. fw_id r = wid" w])
  case (1 e fs)
  with assms show ?thesis by (simp add: moveToCredit_def repo_findById_def bind_run)
next
  case (2 fs)
  from assms(2) obtain sw where sw: "List.find (\<lambda>r. fw_id r = wid) (wallets w) = Some sw" "fw_balance sw = b" by (auto simp: balance_of_def)
  then have id: "fw_id sw = wid" by (auto dest: find_Some_in)
  define g where "g = (\<lambda>r::wallet_row. r\<lparr>fw_balance := fw_balance sw - \<bar>a\<bar>, fw_credit := fw_credit sw + \<bar>a\<bar>\<rparr>)"
  define w1 where "w1 = w\<lparr>faults := fs\<rparr>"
  have f1: "List.find (\<lambda>r. fw_id r = wid) (wallets w1) = Some sw" using sw by (simp add: w1_def)
  have g: "fw_id (g sw) = wid" by (simp add: g_def id)
  have "andthen (repo_update_id wallet_table wid g) (ret ()) w1 = (Inr (), w')"
    using assms(1) 2 sw by (simp add: moveToCredit_def repo_findById_def bind_run id g_def w1_def)
  then show ?thesis
  proof (cases rule: wallets.update_id_cases [of wid g w1])
    case (3 r fs')
    from 3 f1 have "r = sw" by simp
    with 3 have "repo_update_id wallet_table wid g w1 = (Inr (Some (g sw)), w1\<lparr>faults := fs', wallets := replace_row fw_id wid (g sw) (wallets w1)\<rparr>)" by simp
    with \<open>andthen _ _ w1 = _\<close> have "w' = w1\<lparr>faults := fs', wallets := replace_row fw_id wid (g sw) (wallets w1)\<rparr>" by (simp add: andthen_run)
    then show ?thesis using find_replaced [OF f1 g, of wid] sw by (simp add: balance_of_def g_def)
  qed (use f1 in \<open>simp_all add: andthen_run\<close>)
qed

interpretation ledger: table_invariant "\<lambda>w. wallets w = W \<and> fwts w = F" "\<lambda>w. (wallets w, fwts w)" for W F
  by unfold_locales simp_all

lemma status_entries:
  fixes w :: "('s, 'm) money_world_scheme"
  assumes "tx_updateStatus M i st mo opts w = (v, w')"
  shows "wallets w' = wallets w \<and> fwts w' = fwts w"
proof -
  have u: "keeps (\<lambda>w::('s, 'm) money_world_scheme. wallets w = W \<and> fwts w = F) (repo_update_id tx_table j g)" for W F j g
    unfolding keeps_def
  proof (intro allI impI)
    fix v :: "('s, 'm) money_world_scheme"
    assume "wallets v = W \<and> fwts v = F"
    then show "wallets (snd (repo_update_id tx_table j g v)) = W \<and> fwts (snd (repo_update_id tx_table j g v)) = F"
      by (cases rule: txs.update_id_cases [of j g v]) simp_all
  qed
  have "keeps (\<lambda>v::('s, 'm) money_world_scheme. wallets v = wallets w \<and> fwts v = fwts w) (tx_updateStatus M i st mo opts)"
    unfolding tx_updateStatus_def tx_section_def notify_status_def createNotification_def sendTransactionPushNotification_def quietly_def
      sendTransactionEmailNotification_def getParentTransaction_def
    by (intro ledger.locks keeps_intros u)
  from keepsD [OF this, of w] assms show ?thesis by simp
qed

section \<open>A settlement\<close>

definition standing :: "string \<Rightarrow> string \<Rightarrow> string \<Rightarrow> int \<Rightarrow> ('s, 'm) money_world_scheme \<Rightarrow> bool" where
  "standing wid u c n w \<longleftrightarrow> (\<exists>r \<in> set (wallets w). fw_id r = wid \<and> fw_user r = u \<and> fw_asset r = c \<and> fw_balance r = n)"

interpretation standing: wallet_view "standing wid u c n" for wid u c n
  by unfold_locales (simp_all add: standing_def)

lemma balance_written:
  "triple (\<lambda>w::('s, 'm) exchange_world_scheme. distinct (map fw_id (wallets w)) \<and> owned (fw_id wallet) u c w)
     (writeBalance M wallet n tid f) (\<lambda>_. standing (fw_id wallet) u c n) (\<lambda>_ _. True)"
proof -
  have set: "triple (\<lambda>w::('s, 'm) exchange_world_scheme. distinct (map fw_id (wallets w)) \<and> owned (fw_id wallet) u c w)
     (repo_update_id wallet_table (fw_id wallet) (\<lambda>r. r\<lparr>fw_balance := n\<rparr>)) (\<lambda>_. standing (fw_id wallet) u c n) (\<lambda>_ _. True)"
  proof (rule tripleI, goal_cases)
    case (1 w x w')
    from 1(1) obtain r where r: "r \<in> set (wallets w)" "fw_id r = fw_id wallet" "fw_user r = u" "fw_asset r = c" and d: "distinct (map fw_id (wallets w))"
      by (auto simp: owned_def)
    obtain r' where r': "List.find (\<lambda>x. fw_id x = fw_id wallet) (wallets w) = Some r'" "fw_id r' = fw_id wallet"
      using find_member [of "fw_id wallet" fw_id "wallets w"] r(1,2) by (metis image_eqI)
    then have "r' \<in> set (wallets w)" by (auto dest: find_Some_in)
    then have found: "List.find (\<lambda>x. fw_id x = fw_id wallet) (wallets w) = Some r" using d r r' by (metis distinct_map inj_onD)
    show ?case
      by (cases rule: wallets.update_id_cases [of "fw_id wallet" "\<lambda>r. r\<lparr>fw_balance := n\<rparr>" w])
        (use 1(2) found r in \<open>auto simp: standing_def replace_row_def\<close>)
  qed simp
  have rest: "keeps (standing (fw_id wallet) u c n :: ('s, 'm) exchange_world_scheme \<Rightarrow> bool) (record_movement M wallet i a tid ty st meta b b')"
      "keeps (standing (fw_id wallet) u c n :: ('s, 'm) exchange_world_scheme \<Rightarrow> bool) (balance_changed wallet i tid b b')" for i a ty st meta b b'
    unfolding record_movement_def createFiatWalletTransaction_def balance_changed_def
    by (intro standing.spared_wallets; auto intro!: aside_intros)+
  show ?thesis unfolding writeBalance_def updateBalanceWithTransaction_def
    by (intro triple_seq [where Q' = "standing (fw_id wallet) u c n"] triple_catch [where R' = "\<lambda>_ _. True"] triple_bind [OF set]
        triple_keeps [OF rest(1)] triple_keeps [OF rest(2)] triple_ret triple_throw; simp)
qed

lemma settled_wallet:
  assumes "\<not> given (bp_client p)" "isSupportedStablecoin (xc_production X) (bp_asset p)"
  shows "triple (funds_are h :: ('s, 'm) exchange_world_scheme \<Rightarrow> bool) (updateWalletBalanceFromPayload M X p tradeId x m f)
    (\<lambda>_ w. \<exists>wid n. smallest_units (bp_balance p) ''USD'' = Inr n \<and> standing wid (xa_user x) (ft_currency f) n w) (\<lambda>_ _. True)"
proof -
  let ?Q = "\<lambda>n wallet. standing (fw_id wallet) (xa_user x) (ft_currency f) n :: ('s, 'm) exchange_world_scheme \<Rightarrow> bool"
  let ?W = "\<lambda>wallet w::('s, 'm) exchange_world_scheme. funds_are h w \<and> owned (fw_id wallet) (xa_user x) (ft_currency f) w"
  have own: "triple (?W wallet) get_now (\<lambda>_. ?W wallet) R" for wallet R by (simp add: triple_def get_now_def bind_run)
  have actions: "keeps (?Q n wallet) (handlePostSettlementActions M X f x p)" for n wallet by (intro keeps_intros)
  have written: "triple (?W wallet) (writeBalance M wallet n tid f) (\<lambda>_. ?Q n wallet) (\<lambda>_ _. True)" for wallet n tid
    by (rule triple_conseq [OF balance_written]) (auto simp: funds_are_def)
  have body: "triple (?W wallet) (bind (io_of (smallest_units (bp_balance p) ''USD'')) (\<lambda>n. andthen (writeBalance M wallet n (ft_transaction f) f)
      (andthen (repo_update_id fwt_table (ft_id f) (\<lambda>r. r\<lparr>ft_meta := meta\<rparr>)) (when_do b (completeSettled M f n (n - fw_balance wallet) meta)))))
      (\<lambda>_ w. \<exists>n. smallest_units (bp_balance p) ''USD'' = Inr n \<and> ?Q n wallet w) (\<lambda>_ _. True)" for wallet meta b
  proof (cases "smallest_units (bp_balance p) ''USD''")
    case (Inl e)
    then show ?thesis by (simp add: triple_def bind_run)
  next
    case (Inr n)
    have rest: "keeps (?Q n wallet) (andthen (repo_update_id fwt_table (ft_id f) (\<lambda>r. r\<lparr>ft_meta := meta\<rparr>))
        (when_do b (completeSettled M f n (n - fw_balance wallet) meta)))" by (intro keeps_intros)
    have t: "triple (?W wallet) (andthen (writeBalance M wallet n (ft_transaction f) f)
      (andthen (repo_update_id fwt_table (ft_id f) (\<lambda>r. r\<lparr>ft_meta := meta\<rparr>)) (when_do b (completeSettled M f n (n - fw_balance wallet) meta))))
      (\<lambda>_. ?Q n wallet) (\<lambda>_ _. True)"
      by (rule triple_seq [OF written triple_keeps [OF rest]]) simp_all
    have io: "io_of (Inr n) = ret n" by (simp add: io_of_def fun_eq_iff)
    show ?thesis unfolding Inr io bind_ret_left by (rule triple_conseq [OF t]) auto
  qed
  have after: "triple (\<lambda>w. \<exists>n. smallest_units (bp_balance p) ''USD'' = Inr n \<and> ?Q n wallet w) (handlePostSettlementActions M X f x p)
      (\<lambda>_ w. \<exists>wid n. smallest_units (bp_balance p) ''USD'' = Inr n \<and> standing wid (xa_user x) (ft_currency f) n w) (\<lambda>_ _. True)" for wallet
  proof (rule triple_ex, rule triple_pure)
    fix n
    assume "smallest_units (bp_balance p) ''USD'' = Inr n"
    then show "triple (?Q n wallet) (handlePostSettlementActions M X f x p)
      (\<lambda>_ w. \<exists>wid n. smallest_units (bp_balance p) ''USD'' = Inr n \<and> standing wid (xa_user x) (ft_currency f) n w) (\<lambda>_ _. True)"
      by (intro triple_keeps [OF actions [of wallet n]]) auto
  qed
  have views: "wallet_only (?W wallet)" "wallet_only (\<lambda>w::('s, 'm) exchange_world_scheme. \<exists>n. smallest_units (bp_balance p) ''USD'' = Inr n \<and> ?Q n wallet w)" for wallet
    by (auto simp: wallet_only_def funds_are_def funds_def balance_of_def owned_def standing_def)
  show ?thesis
    unfolding updateWalletBalanceFromPayload_def handleClientTransferIdTransaction_def Let_def using assms
  proof (simp only: if_True if_False not_True_eq_False not_False_eq_True bind_ret_left)
    show "triple (funds_are h :: ('s, 'm) exchange_world_scheme \<Rightarrow> bool) (bind (getUserWallet M (xa_user x) (ft_currency f)) (\<lambda>wallet. bind get_now (\<lambda>t.
        andthen (transaction (bind (io_of (smallest_units (bp_balance p) ''USD'')) (\<lambda>newBalance.
          andthen (writeBalance M wallet newBalance (ft_transaction f) f)
          (andthen (repo_update_id fwt_table (ft_id f) (\<lambda>r. r\<lparr>ft_meta :=
             mergeMetadataWithWebhookPayload (ft_meta f) (settlement_meta p m tradeId) ''account_balance.changed'' (balance_json p) t\<rparr>))
           (when_do (ft_transaction f \<noteq> []) (completeSettled M f newBalance (newBalance - fw_balance wallet)
             (mergeMetadataWithWebhookPayload (ft_meta f) (settlement_meta p m tradeId) ''account_balance.changed'' (balance_json p) t)))))))
        (handlePostSettlementActions M X f x p))))
      (\<lambda>_ w. \<exists>wid n. smallest_units (bp_balance p) ''USD'' = Inr n \<and> standing wid (xa_user x) (ft_currency f) n w) (\<lambda>_ _. True)"
    proof (rule triple_bind [where Q' = ?W])
      show "triple (funds_are h :: ('s, 'm) exchange_world_scheme \<Rightarrow> bool) (getUserWallet M (xa_user x) (ft_currency f)) ?W (\<lambda>_ _. True)"
        by (rule triple_conseq [OF getUserWallet_funds]) simp_all
    qed (rule triple_bind [OF own], rule triple_seq [OF triple_conseq [OF triple_db_transaction [OF body views]] after], simp_all)
  qed
qed

section \<open>The properties\<close>

text \<open>
  Whatever the dollar provider reports and in whatever order, whatever a retry looks up in between and whatever fails,
  a transaction that is completed stays completed.
\<close>

theorem completed_stays_completed:
  fixes w :: "('s, 'm) webhook_world_scheme"
  assumes "status_of w i = Some COMPLETED"
  shows "status_of (deliver M X ds w) i = Some COMPLETED"
  using completed_webhook.delivered [of i w M X ds] assms by (simp add: completed_def)

text \<open>
  C20: however often the withdrawal of an exchange is reported or looked up, the exchange has at most one transaction of
  incoming naira.
\<close>

theorem one_incoming_record:
  fixes w :: "('s, 'm) webhook_world_scheme"
  assumes "length (filter (\<lambda>r. tx_parent r = Some tid \<and> tx_asset r = ''NGN'') (txs w)) \<le> 1"
  shows "length (filter (\<lambda>r. tx_parent r = Some tid \<and> tx_asset r = ''NGN'') (txs (deliver M X ds w))) \<le> 1"
  using one_webhook.delivered [of tid w M X ds] assms by (simp add: one_incoming_def incoming_count_def)

text \<open>
  C19: a report or a look-up of a withdrawal, and a report on a payment or a trade, change no wallet's balance and
  credit balance taken together: a confirmed withdrawal moves its amount from the one to the other.
\<close>

theorem withdrawals_conserve_holdings:
  fixes w :: "('s, 'm) exchange_world_scheme"
  shows "holdings (snd (processWithdrawalConfirmed M X m x p w)) = holdings w
    \<and> holdings (snd (processWithdrawalPending M m x p w)) = holdings w
    \<and> holdings (snd (inlineSection M X t f x details request w)) = holdings w
    \<and> holdings (snd (processPaymentStatusChanged M pp w)) = holdings w
    \<and> holdings (snd (processTradeStatusChanged M tp w)) = holdings w"
  using keepsD [OF held_wallets.withdrawals(1), of "holdings w" w M X m x p] keepsD [OF held_wallets.withdrawals(2), of "holdings w" w M m x p]
    keepsD [OF held_wallets.withdrawals(3), of "holdings w" w M X t f x details request]
    keepsD [OF held_wallets.reports(1), of "holdings w" w M pp] keepsD [OF held_wallets.reports(2), of "holdings w" w M tp]
  by (simp add: holdings_are_def)

text \<open>
  C21: once the entry of a withdrawal is completed, another confirmation of the withdrawal, or a late report that it is
  pending, changes no wallet, no transaction and no entry.
\<close>

theorem confirmed_once:
  fixes w :: "('s, 'm) exchange_world_scheme"
  assumes "List.find (\<lambda>r. ft_request_ref r = Some request \<and> ft_user r = xa_user x) (fwts w) = Some f" "ft_status f = COMPLETED"
    and "mv_withdrawal m = Some request"
    and "w' = snd (processWithdrawalConfirmed M X m x p w) \<or> w' = snd (processWithdrawalPending M m x p w)"
  shows "wallets w' = wallets w \<and> txs w' = txs w \<and> fwts w' = fwts w"
proof -
  let ?I = "\<lambda>v::('s, 'm) exchange_world_scheme. wallets v = wallets w \<and> txs v = txs w \<and> fwts v = fwts w"
  have "keeps ?I (processWithdrawalConfirmed M X m x p)" "keeps ?I (processWithdrawalPending M m x p)"
    unfolding processWithdrawalConfirmed_def processWithdrawalPending_def Let_def assms(3) option.sel
    by (intro tables.locks keeps_catch confirmation_reads [OF assms(1,2)] keeps_ret)+
  from keepsD [OF this(1), of w] keepsD [OF this(2), of w] assms(4) show ?thesis by auto
qed


text \<open>
  C24: a settlement without a transfer of the client leaves the wallet of its user with the balance that was reported, whatever
  it held before: reports delivered out of order leave an old balance.
\<close>

theorem settlement_writes_reported_balance:
  fixes w :: "('s, 'm) exchange_world_scheme"
  assumes "distinct (map fw_id (wallets w))" "\<not> given (bp_client p)"
    and "updateWalletBalanceFromPayload M X p tradeId x m f w = (Inr (), w')"
  shows "\<exists>n r. smallest_units (bp_balance p) ''USD'' = Inr n \<and> r \<in> set (wallets w') \<and> fw_user r = xa_user x \<and> fw_asset r = ft_currency f \<and> fw_balance r = n"
proof -
  have "isSupportedStablecoin (xc_production X) (bp_asset p)"
    using assms(3) by (cases "isSupportedStablecoin (xc_production X) (bp_asset p)") (auto simp: updateWalletBalanceFromPayload_def)
  moreover have "funds_are (funds w) w" using assms(1) by (simp add: funds_are_def)
  ultimately show ?thesis using triple_ok [OF settled_wallet [OF assms(2)] _ assms(3)] by (fastforce simp: standing_def)
qed

section \<open>Witnesses\<close>

definition demo_linked :: external_account where
  "demo_linked = \<lparr>xa_id = ''xa'', xa_user = ''u'', xa_participant = Some ''pc'', xa_provider = ''zerohash'', xa_ref = None, xa_kyc = None, xa_status = ''approved''\<rparr>"

definition demo_sent :: tx_row where
  "demo_sent = demo_usd_tx\<lparr>tx_status := PROCESSING\<rparr>"

definition demo_sent_entry :: fwt_row where
  "demo_sent_entry = demo_usd_entry\<lparr>ft_status := PROCESSING, ft_currency := ''USD'', ft_before := 5000, ft_request_ref := Some ''rq''\<rparr>"

definition demo_webhooks :: "keyspace webhook_world" where
  "demo_webhooks = \<lparr>rds = Map.empty, now = 0, faults = [], outbox = [], draws = 0, wallets = [demo_usd_wallet], txs = [demo_sent], fwts = [demo_sent_entry],
     rate_rows = [], rate_config_rows = [], account_rows = [], card_rows = [], external_rows = [demo_linked], chain_rows = []\<rparr>"

definition demo_webhook_env :: "keyspace money_env" where
  "demo_webhook_env = demo_money_env\<lparr>m_ext := \<lambda>_ nm _. Inr (if nm = ''getWithdrawalDetails'' then JObj [(''status'', JStr ''confirmed'')] else JNull)\<rparr>"

definition demo_confirmed :: movement where
  "demo_confirmed = \<lparr>mv_id = ''m'', mv_type = ''withdrawal_confirmed'', mv_change = ''-40'',
     mv_trade = None, mv_transfer = None, mv_withdrawal = Some ''rq'', mv_deposit = None\<rparr>"

definition demo_report :: balance_payload where
  "demo_report = \<lparr>bp_participant = ''pc'', bp_group = [], bp_account = ''available'', bp_asset = ''USDC.ETH'', bp_balance = ''10'', bp_stamp = 0,
     bp_client = None, bp_movements = [demo_confirmed]\<rparr>"

text \<open>The sixth access to the database fails.\<close>

definition demo_interrupted :: "keyspace webhook_world" where
  "demo_interrupted = demo_webhooks\<lparr>faults := [None, None, None, None, None, Some (DbError ''connection lost'')]\<rparr>"

lemma completed_stays_completed_witness:
  "status_of (deliver demo_webhook_env demo_exchange_config [Reported (AccountBalance demo_report), LookedUp ''x'' ''u'']
     (demo_webhooks\<lparr>txs := [demo_sent\<lparr>tx_status := COMPLETED\<rparr>]\<rparr>)) ''x'' = Some COMPLETED"
  by (rule completed_stays_completed) (simp add: status_of_def demo_sent_def demo_usd_tx_def)

lemma one_incoming_record_witness:
  "length (filter (\<lambda>r. tx_parent r = Some ''x'' \<and> tx_asset r = ''NGN'')
     (txs (deliver demo_webhook_env demo_exchange_config [Reported (AccountBalance demo_report), LookedUp ''x'' ''u''] demo_webhooks))) \<le> 1"
  by (rule one_incoming_record) (simp add: demo_webhooks_def demo_sent_def demo_usd_tx_def)

lemma confirmed_once_witness:
  "wallets (snd (processWithdrawalConfirmed demo_webhook_env demo_exchange_config demo_confirmed demo_linked demo_report
     (demo_webhooks\<lparr>fwts := [demo_sent_entry\<lparr>ft_status := COMPLETED, ft_user := ''u''\<rparr>]\<rparr>))) = [demo_usd_wallet]"
  using confirmed_once [where w = "demo_webhooks\<lparr>fwts := [demo_sent_entry\<lparr>ft_status := COMPLETED, ft_user := ''u''\<rparr>]\<rparr>" and request = "''rq''" and x = demo_linked
      and f = "demo_sent_entry\<lparr>ft_status := COMPLETED, ft_user := ''u''\<rparr>" and m = demo_confirmed and M = demo_webhook_env and X = demo_exchange_config and p = demo_report, OF _ _ _ disjI1 [OF refl]]
  by (simp add: demo_webhooks_def demo_sent_entry_def demo_linked_def demo_confirmed_def)

lemma twice_charged:
  "map (\<lambda>r. (fw_balance r, fw_credit r)) (wallets (snd (confirmWithdrawal demo_webhook_env demo_exchange_config ''rq'' ''u'' ''-40'' demo_report
     (snd (confirmWithdrawal demo_webhook_env demo_exchange_config ''rq'' ''u'' ''-40'' demo_report demo_interrupted))))) = [(- 3000, 8000)]"
  by code_simp

text \<open>The fourth access to the database fails.\<close>

definition demo_broken_status :: "keyspace webhook_world" where
  "demo_broken_status = demo_webhooks\<lparr>faults := [None, None, None, Some (DbError ''connection lost'')]\<rparr>"


definition demo_settled :: fwt_row where
  "demo_settled = demo_sent_entry\<lparr>ft_transaction := [], ft_type := F_EXCHANGE\<rparr>"

lemma settlement_writes_reported_balance_witness:
  "\<exists>n r. smallest_units ''10'' ''USD'' = Inr n
    \<and> r \<in> set (wallets (snd (updateWalletBalanceFromPayload demo_webhook_env demo_exchange_config demo_report ''tr'' demo_linked demo_confirmed demo_settled demo_webhooks)))
    \<and> fw_user r = ''u'' \<and> fw_asset r = ''USD'' \<and> fw_balance r = n"
proof -
  let ?run = "updateWalletBalanceFromPayload demo_webhook_env demo_exchange_config demo_report ''tr'' demo_linked demo_confirmed demo_settled demo_webhooks"
  have n: "smallest_units (bp_balance demo_report) ''USD'' = Inr 1000" "isSupportedStablecoin (xc_production demo_exchange_config) (bp_asset demo_report)"
    "isSupportedCurrency ''USD''" by code_simp+
  have f: "ft_id demo_settled = ''e''" "ft_user demo_settled = ''u''" "ft_currency demo_settled = ''USD''" "ft_transaction demo_settled = []"
      "ft_type demo_settled = F_EXCHANGE"
    by (simp_all add: demo_settled_def demo_sent_entry_def demo_usd_entry_def blank_fwt_def)
  have w: "wallets demo_webhooks = [demo_usd_wallet]" "fwts demo_webhooks = [demo_sent_entry]" "faults demo_webhooks = []" "xa_user demo_linked = ''u''"
      "bp_client demo_report = None" "ft_id demo_sent_entry = ''e''" "ft_user demo_sent_entry = ''u''"
    by (simp_all add: demo_webhooks_def demo_linked_def demo_report_def demo_sent_entry_def demo_usd_entry_def blank_fwt_def)
  have g: "getUserWallet demo_webhook_env ''u'' ''USD'' demo_webhooks = (Inr demo_usd_wallet, demo_webhooks)"
    using n(3) by (simp add: getUserWallet_def find_wallet_def bind_run wallets.findOne_calm w demo_usd_wallet_def)
  have b: "fst (writeBalance demo_webhook_env demo_usd_wallet 1000 [] demo_settled demo_webhooks) = Inr ()"
      "faults (snd (writeBalance demo_webhook_env demo_usd_wallet 1000 [] demo_settled demo_webhooks)) = []"
    by (simp_all add: writeBalance_def updateBalanceWithTransaction_def record_movement_def balance_changed_def entry_meta_def Let_def catch_run bind_run andthen_run
        wallets.update_id_calm fwts.findOne_calm fwts.update_id_calm w f demo_usd_wallet_def)
  then obtain w1 where w1: "writeBalance demo_webhook_env demo_usd_wallet 1000 [] demo_settled demo_webhooks = (Inr (), w1)" "faults w1 = []"
    by (metis prod.collapse)
  have "fst ?run = Inr ()"
    by (cases "List.find (\<lambda>r. ft_id r = ''e'') (fwts w1)")
      (simp_all add: updateWalletBalanceFromPayload_def Let_def handleClientTransferIdTransaction_def given_def handlePostSettlementActions_def when_do_def
        transaction_def bind_run andthen_run fwts.update_id_calm n w f g w1 demo_usd_wallet_def [symmetric])
  then have e: "?run = (Inr (), snd ?run)" by (metis prod.collapse)
  have d: "distinct (map fw_id (wallets demo_webhooks))" "\<not> given (bp_client demo_report)" by (simp_all add: demo_webhooks_def demo_report_def given_def)
  have u: "bp_balance demo_report = ''10''" "xa_user demo_linked = ''u''" "ft_currency demo_settled = ''USD''"
    by (simp_all add: demo_report_def demo_linked_def demo_settled_def demo_sent_entry_def)
  from settlement_writes_reported_balance [OF d e] show ?thesis unfolding u .
qed

end
