(* ===== verification/YellowCardMoney.thy ===== *)
theory YellowCardMoney
  imports YellowCard ZerohashReports
begin

text \<open>
  What the webhooks of the exchange provider keep, alone and together with those of the dollar provider, and what a
  repeated report of a payment does to the credit balance.
\<close>

section \<open>The webhooks of both providers\<close>

text \<open>
  To be kept by the webhooks of the exchange provider as well, a condition on the transactions has to survive the
  record of collected dollars and the record of a refund.
\<close>

locale exchange_invariant = webhook_invariant +
  assumes collected_keeps: "keeps I (createPendingUSDTransaction M parent h sh)"
    and given_back_keeps: "keeps I (createRefundTransactionAndFiatTransaction M a u c v)"
begin

lemma account_services [keeps_intros]: "keeps I (findOrCreateVirtualAccount M u d ty)" "keeps I (findOneByUserIdOrThrow M u)"
proof -
  have a: "keeps I (repo_create account_table a)" for a
    unfolding repo_create_def by (intro keeps_intros frame; simp)
  show "keeps I (findOrCreateVirtualAccount M u d ty)"
    unfolding findOrCreateVirtualAccount_def account_create_def provide_account_def insert_account_def by (intro keeps_intros a)
  show "keeps I (findOneByUserIdOrThrow M u)" unfolding findOneByUserIdOrThrow_def by (intro keeps_intros)
qed

lemma both_statuses [keeps_intros]: "keeps I (updateBothStatuses M tid st)" "keeps I (updateAllSourceTransactionsToSuccessful M t entry)"
  unfolding updateBothStatuses_def updateAllSourceTransactionsToSuccessful_def find_entry_def by (intro keeps_intros)+

lemma escrow_steps [keeps_intros]: "keeps I (releaseMoneyFromEscrow E tid)" "keeps I (getEscrowAmount E tid)"
  unfolding releaseMoneyFromEscrow_def getEscrowAmount_def rc_del_def rc_get_def
  by (intro keeps_intros mapped)+

lemma failed_exchange [keeps_intros]: "keeps I (updateSourceTransactionsToFailed M tid e)"
  unfolding updateSourceTransactionsToFailed_def refundEscrow_def by (intro keeps_intros given_back_keeps)

lemma collections [keeps_intros]: "keeps I (handleCollectionWebhook M X p)"
  unfolding handleCollectionWebhook_def handleCollectionCompleted_def handleCollectionFailed_def handleCollectionSettlementProcessing_def
    handleCollectionSettlementCompleted_def handleCollectionCancelled_def collection_tx_def find_tx_def
  by (intro keeps_intros collected_keeps)

lemma payments [keeps_intros]: "keeps I (handleExchangeWebhook M X p)"
proof -
  have c: "keeps I (childTries parent delay n)" for parent delay n
    by (induction n) (simp_all only: childTries.simps, (intro keeps_intros; assumption?)+)
  have r: "keeps I (reconcileUsdBalanceFromProvider M dc u)" for dc u
    unfolding reconcileUsdBalanceFromProvider_def reconcileSection_def find_wallet_def by (intro keeps_intros)
  show ?thesis
    unfolding handleExchangeWebhook_def handlePaymentComplete_def handlePaymentFailed_def handlePaymentCancelled_def handlePaymentExpired_def
      completePayment_def updateIncomingTransaction_def mockTopUp_def deductUserUSDCreditBalance_def getTransactionBySequenceRef_def find_tx_def
    by (intro keeps_intros c r)
qed

lemma settlements [keeps_intros]: "keeps I (handleSettlement M p)"
  unfolding handleSettlement_def handleSuccessfulSettlementTopUp_def handleWalletWithdrawal_def find_tx_def find_entry_def by (intro keeps_intros)

lemma every_yellowcard: "keeps I (yellowcard_processWebhook M X p)"
  unfolding yellowcard_processWebhook_def
  by (cases "getEventCategory (yc_event p)"; simp only: option.case yc_category.case split: yc_category.split) (intro keeps_intros impI conjI)+

end

section \<open>A completed transaction\<close>

text \<open>
  The placeholder a collection takes over is written without a look at its status, so the identifiers have to be distinct:
  then it is the row that was found, which waits to be reconciled.
\<close>

definition distinct_txs :: "('s, 'm) money_world_scheme \<Rightarrow> bool" where
  "distinct_txs w \<longleftrightarrow> distinct (map tx_id (txs w))"

interpretation distinct_tx: tx_invariant distinct_txs
  by unfold_locales (simp_all add: distinct_txs_def)

lemma distinct_update:
  assumes "\<And>r. tx_id (g r) = tx_id r"
  shows "keeps (distinct_txs :: ('s, 'm) money_world_scheme \<Rightarrow> bool) (repo_update_id tx_table j g)"
  unfolding keeps_def
proof (intro allI impI)
  fix w :: "('s, 'm) money_world_scheme"
  assume d: "distinct_txs w"
  show "distinct_txs (snd (repo_update_id tx_table j g w))"
  proof (cases rule: txs.update_id_cases [of j g w])
    case (3 r fs)
    then have "tx_id (g r) = j" using assms by (auto dest: find_Some_in)
    then show ?thesis using 3 d by (auto simp: distinct_txs_def replace_row_def distinct_map inj_on_def)
  qed (use d in \<open>simp_all add: distinct_txs_def\<close>)
qed

lemma distinct_create: "keeps (distinct_txs :: ('s, 'm) money_world_scheme \<Rightarrow> bool) (repo_create tx_table t)"
  unfolding keeps_def
proof (intro allI impI)
  fix w :: "('s, 'm) money_world_scheme"
  assume d: "distinct_txs w"
  show "distinct_txs (snd (repo_create tx_table t w))"
    by (cases rule: txs.create_cases [of t w]) (use d in \<open>simp_all add: distinct_txs_def\<close>)
qed

interpretation distinct_status: status_invariant distinct_txs
proof
  show "keeps (distinct_txs :: ('s, 'm) money_world_scheme \<Rightarrow> bool) (tx_section M j st mo opts)" for M :: "'s money_env" and j st mo opts
    unfolding tx_section_def notify_status_def createNotification_def sendTransactionPushNotification_def quietly_def
      sendTransactionEmailNotification_def getParentTransaction_def
    by (intro keeps_intros distinct_update) (simp_all add: tx_status_data_def Let_def)
qed

definition firm :: "string \<Rightarrow> ('s, 'm) money_world_scheme \<Rightarrow> bool" where
  "firm i w \<longleftrightarrow> completed i w \<and> distinct_txs w"

lemma firm_both: "keeps (completed i) m \<Longrightarrow> keeps distinct_txs m \<Longrightarrow> keeps (firm i) m"
  by (simp add: keeps_def firm_def)

interpretation firm_status: status_invariant "firm i" for i
  by unfold_locales
    (simp add: firm_def completed_def status_of_def distinct_txs_def | rule firm_both [OF completed_section distinct_status.section_keeps])+

lemma firm_create: "keeps (firm i :: ('s, 'm) money_world_scheme \<Rightarrow> bool) (repo_create tx_table t)"
  by (rule firm_both [OF completed_create distinct_create])

lemma firm_update:
  assumes "\<And>r. tx_id (g r) = tx_id r" "i \<noteq> j \<or> (\<forall>r. tx_status (g r) = COMPLETED)"
  shows "keeps (firm i :: ('s, 'm) money_world_scheme \<Rightarrow> bool) (repo_update_id tx_table j g)"
  by (rule firm_both [OF _ distinct_update [OF assms(1)]]) (auto simp: keeps_def intro!: completed_update assms)

lemma distinct_pending: "keeps (distinct_txs :: ('s, 'm) money_world_scheme \<Rightarrow> bool) (pendingSection request u p)"
  unfolding pendingSection_def pendingMain_def find_entry_def by (intro keeps_intros distinct_update) simp_all

lemma firm_incoming: "keeps (firm i :: ('s, 'm) money_world_scheme \<Rightarrow> bool) (recordIncoming M X parent rate wallet kobo ref)"
  unfolding recordIncoming_def tx_create_def by (intro keeps_intros firm_create)

lemma firm_placeholder: "keeps (firm i :: ('s, 'm) money_world_scheme \<Rightarrow> bool) (createPlaceholderTransactionForReconciliation M u ref amount)"
  unfolding createPlaceholderTransactionForReconciliation_def tx_create_def by (intro keeps_intros firm_create)

interpretation firm_webhook: webhook_invariant "firm i" for i
  by unfold_locales (rule firm_incoming firm_placeholder firm_both [OF completed_pending distinct_pending] firm_update | simp add: inline_tx_def)+

text \<open>A row that waits to be reconciled is not the completed one.\<close>

lemma waiting_row:
  "triple (firm i :: ('s, 'm) money_world_scheme \<Rightarrow> bool) (repo_findOne tx_table (\<lambda>r. field_matches h (tx_external r) \<and> tx_status r = RECONCILE \<and> tx_type r = T_EXCHANGE))
     (\<lambda>x w. (\<forall>r. x = Some r \<longrightarrow> tx_id r \<noteq> i) \<and> firm i w) (\<lambda>_. firm i)"
    (is "triple _ (repo_findOne _ ?P) _ _")
proof (rule tripleI, goal_cases)
  case (1 w x w')
  have "tx_id r \<noteq> i" if "List.find ?P (txs w) = Some r" for r
  proof
    assume i: "tx_id r = i"
    from that have r: "r \<in> set (txs w)" "tx_status r = RECONCILE" by (auto dest: find_Some_in)
    from 1(1) obtain q where q: "List.find (\<lambda>r. tx_id r = i) (txs w) = Some q" "tx_status q = COMPLETED"
      by (auto simp: firm_def completed_def status_of_def)
    then have "q \<in> set (txs w)" "tx_id q = i" by (auto dest: find_Some_in)
    moreover have "inj_on tx_id (set (txs w))" using 1(1) by (simp add: firm_def distinct_txs_def distinct_map)
    ultimately have "q = r" using r(1) i by (auto dest: inj_onD)
    with r(2) q(2) show False by simp
  qed
  then show ?case using 1
    by (cases rule: txs.findOne_cases [of ?P w]) (auto simp: firm_def completed_def status_of_def distinct_txs_def)
next
  case (2 w e w')
  then show ?case by (cases rule: txs.findOne_cases [of ?P w]) (auto simp: firm_def completed_def status_of_def distinct_txs_def)
qed

lemma firm_reconciled:
  assumes "tx_id placeholder \<noteq> i"
  shows "keeps (firm i :: ('s, 'm) money_world_scheme \<Rightarrow> bool) (reconcilePlaceholderTransaction M placeholder parent u wallet f t)"
  unfolding reconcilePlaceholderTransaction_def
  by (intro keeps_intros firm_update) (use assms in \<open>simp_all add: reconciled_row_def\<close>)

lemma firm_collected: "keeps (firm i :: ('s, 'm) money_world_scheme \<Rightarrow> bool) (createPendingUSDTransaction M parent h sh)"
proof -
  have new: "keeps (firm i :: ('s, 'm) money_world_scheme \<Rightarrow> bool) (newPendingUSD M parent u wallet f t h')" for u wallet f t h'
    unfolding newPendingUSD_def tx_create_def by (intro keeps_intros firm_create)
  have row: "keeps (firm i :: ('s, 'm) money_world_scheme \<Rightarrow> bool) (bind (repo_findOne tx_table (\<lambda>r. field_matches h' (tx_external r) \<and> tx_status r = RECONCILE \<and> tx_type r = T_EXCHANGE))
      (\<lambda>existing. case existing of Some placeholder \<Rightarrow> reconcilePlaceholderTransaction M placeholder parent u wallet f t
        | None \<Rightarrow> newPendingUSD M parent u wallet f t h'))" for u wallet f t h'
    unfolding keeps_triple
    by (rule triple_bind [OF waiting_row], rule triple_pure) (auto simp: keeps_triple [symmetric] new firm_reconciled split: option.split)
  show ?thesis unfolding createPendingUSDTransaction_def Let_def by (intro keeps_intros row)
qed

lemma firm_given_back: "keeps (firm i :: ('s, 'm) exchange_world_scheme \<Rightarrow> bool) (createRefundTransactionAndFiatTransaction M a u c v)"
proof -
  have "keeps (firm i :: ('s, 'm) exchange_world_scheme \<Rightarrow> bool) (findOneByUserIdOrThrow M u)" unfolding findOneByUserIdOrThrow_def by (intro keeps_intros)
  then show ?thesis unfolding createRefundTransactionAndFiatTransaction_def tx_create_def by (intro keeps_intros firm_create)
qed

interpretation firm_exchange: exchange_invariant "firm i" for i
  by unfold_locales (rule firm_collected firm_given_back)+

section \<open>A payment reported again\<close>

interpretation same_wallets: wallet_view "\<lambda>w. wallets w = W" for W
  by unfold_locales simp_all

lemma payment_keeps_wallets:
  assumes "tx_status t = COMPLETED"
  shows "keeps (\<lambda>w::('s, 'm) webhook_world_scheme. wallets w = W) (completePayment M X t)"
proof -
  have c: "keeps (\<lambda>w::('s, 'm) webhook_world_scheme. wallets w = W) (childTries parent delay n)" for parent delay n
    by (induction n) (simp_all only: childTries.simps, (intro keeps_intros; assumption?)+)
  have a: "keeps (\<lambda>w::('s, 'm) webhook_world_scheme. wallets w = W) (findOrCreateVirtualAccount M u d ty)" for u d ty
    unfolding findOrCreateVirtualAccount_def account_create_def provide_account_def insert_account_def
    by (intro keeps_intros same_wallets.spared_wallets; simp add: repo_create_def aside_intros)
  show ?thesis unfolding completePayment_def updateIncomingTransaction_def mockTopUp_def
    using assms by (simp only: not_True_eq_False if_False when_do_def) (intro keeps_intros a c; simp)
qed

lemma deducted:
  fixes w :: "('s, 'm) money_world_scheme"
  assumes "faults w = []" "List.find (\<lambda>r. ft_transaction r = tx_id t) (fwts w) = Some f" "List.find (\<lambda>r. fw_id r = ft_wallet f) (wallets w) = Some v"
  shows "deductUserUSDCreditBalance t w = (Inr (), w\<lparr>wallets := replace_row fw_id (ft_wallet f) (v\<lparr>fw_credit := fw_credit v + ft_amount f\<rparr>) (wallets w)\<rparr>)"
proof -
  have "fw_id v = ft_wallet f" using assms(3) by (auto dest: find_Some_in)
  then show ?thesis using assms
    by (simp add: deductUserUSDCreditBalance_def catch_run bind_run andthen_run fwts.findOne_calm wallets.update_id_calm)
qed

text \<open>Deliveries of both providers, each run to its end.\<close>

datatype notice = FromCustodian delivery | FromExchange yc_payload

fun receive :: "'s money_env \<Rightarrow> exchange_config \<Rightarrow> notice list \<Rightarrow> ('s, 'm) webhook_world_scheme \<Rightarrow> ('s, 'm) webhook_world_scheme" where
  "receive M X [] w = w"
| "receive M X (FromCustodian d # ns) w = receive M X ns (deliver M X [d] w)"
| "receive M X (FromExchange p # ns) w = receive M X ns (snd (yellowcard_processWebhook M X p w))"

context exchange_invariant
begin

lemma received: "I w \<Longrightarrow> I (receive M X ns w)"
proof (induction ns arbitrary: w)
  case (Cons n ns)
  show ?case
  proof (cases n)
    case (FromCustodian d)
    then show ?thesis using Cons.IH [OF delivered [OF Cons.prems]] by simp
  next
    case (FromExchange p)
    then show ?thesis using Cons.IH keepsD [OF every_yellowcard Cons.prems] by simp
  qed
qed simp

end

section \<open>The properties\<close>

text \<open>
  C18: whatever the two providers report, in whatever order, how often, and whatever fails, a transaction that is completed
  stays completed, as long as identifiers are distinct.
\<close>

theorem completed_for_good:
  fixes w :: "('s, 'm) webhook_world_scheme"
  assumes "distinct (map tx_id (txs w))" "status_of w i = Some COMPLETED"
  shows "status_of (receive M X ns w) i = Some COMPLETED"
  using firm_exchange.received [of i w M X ns] assms by (simp add: firm_def completed_def distinct_txs_def)

text \<open>
  C23: a report of a completed payment takes the amount of the exchange from the credit balance whenever it is delivered:
  nothing remembers that it was, so a repeated report takes it again.
\<close>

theorem payment_charged_every_time:
  fixes w :: "('s, 'm) webhook_world_scheme"
  assumes "faults w = []" "List.find (\<lambda>r. tx_reference r = yc_sequence p) (txs w) = Some t" "tx_status t = COMPLETED"
    and "List.find (\<lambda>r. ft_transaction r = tx_id t) (fwts w) = Some f" "List.find (\<lambda>r. fw_id r = ft_wallet f) (wallets w) = Some v"
  shows "wallets (snd (handlePaymentComplete M X p w)) = replace_row fw_id (ft_wallet f) (v\<lparr>fw_credit := fw_credit v + ft_amount f\<rparr>) (wallets w)"
proof -
  let ?w1 = "w\<lparr>wallets := replace_row fw_id (ft_wallet f) (v\<lparr>fw_credit := fw_credit v + ft_amount f\<rparr>) (wallets w)\<rparr>"
  have "snd (handlePaymentComplete M X p w) = snd (completePayment M X t ?w1)"
    using assms(2) deducted [OF assms(1,4,5)]
    by (simp add: handlePaymentComplete_def getTransactionBySequenceRef_def bind_run andthen_run txs.findOne_calm [OF assms(1)])
  moreover have "wallets (snd (completePayment M X t ?w1)) = wallets ?w1"
    using keepsD [OF payment_keeps_wallets [OF assms(3)], of ?w1 "wallets ?w1"] by simp
  ultimately show ?thesis by simp
qed

section \<open>Witnesses\<close>

definition demo_payment :: yc_payload where
  "demo_payment = \<lparr>yc_event = ''PAYMENT.COMPLETE'', yc_type = None, yc_hash = None, yc_sequence = ''ref-OUT'', yc_settlement_hash = None\<rparr>"

definition demo_paid :: "keyspace webhook_world" where
  "demo_paid = demo_webhooks\<lparr>txs := [demo_sent\<lparr>tx_status := COMPLETED\<rparr>]\<rparr>"

lemma completed_for_good_witness:
  "status_of (receive demo_webhook_env demo_exchange_config [FromExchange demo_payment, FromCustodian (Reported (AccountBalance demo_report)), FromExchange demo_payment]
     demo_paid) ''x'' = Some COMPLETED"
  by (rule completed_for_good) (simp_all add: demo_paid_def status_of_def demo_sent_def demo_usd_tx_def)

lemma payment_charged_every_time_witness:
  "wallets (snd (handlePaymentComplete demo_webhook_env demo_exchange_config demo_payment demo_paid)) = [demo_usd_wallet\<lparr>fw_credit := - 4000\<rparr>]"
proof -
  have w: "faults demo_paid = []" "List.find (\<lambda>r. tx_reference r = yc_sequence demo_payment) (txs demo_paid) = Some (demo_sent\<lparr>tx_status := COMPLETED\<rparr>)"
    "List.find (\<lambda>r. ft_transaction r = tx_id (demo_sent\<lparr>tx_status := COMPLETED\<rparr>)) (fwts demo_paid) = Some demo_sent_entry"
    "List.find (\<lambda>r. fw_id r = ft_wallet demo_sent_entry) (wallets demo_paid) = Some demo_usd_wallet"
    by (simp_all add: demo_paid_def demo_webhooks_def demo_payment_def demo_sent_def demo_usd_tx_def demo_sent_entry_def demo_usd_entry_def demo_usd_wallet_def)
  from payment_charged_every_time [OF w(1,2) _ w(3,4), of demo_webhook_env demo_exchange_config] show ?thesis
    by (simp add: demo_paid_def demo_webhooks_def replace_row_def demo_sent_entry_def demo_usd_entry_def demo_usd_wallet_def)
qed

end
