(* ===== verification/PagaMoney.thy ===== *)
theory PagaMoney
  imports Paga YellowCardMoney
begin

text \<open>
  What the webhook of the naira bank keeps: the balance of every ledger account is what its successful transactions
  give, naira are credited to a wallet and to its ledger account together or not at all, and a reference is
  credited once. The exceptions are stated too: an account that is missing, and a deposit once reported as failed.
\<close>

section \<open>Conditions on part of the state\<close>

definition about :: "('w \<Rightarrow> 'v) \<Rightarrow> ('w \<Rightarrow> bool) \<Rightarrow> bool" where
  "about seen P \<longleftrightarrow> (\<forall>w w'. seen w = seen w' \<longrightarrow> P w = P w')"

lemma aboutD: "about seen P \<Longrightarrow> seen w = seen w' \<Longrightarrow> P w \<Longrightarrow> P w'"
  unfolding about_def by blast

lemma ended_triple:
  assumes "triple P m (\<lambda>_. Q) (\<lambda>_ _. True)" "keeps Q f"
  shows "triple P (finally_do m f) (\<lambda>_. Q) (\<lambda>_ _. True)"
proof (rule tripleI, goal_cases)
  case (1 w x w')
  obtain r w1 where m: "m w = (r, w1)" by (cases "m w")
  obtain d w2 where f: "f w1 = (d, w2)" by (cases "f w1")
  from 1(2) m f have "r = Inr x" "w2 = w'" by (auto simp: finally_do_def split: sum.splits)
  with triple_ok [OF assms(1) 1(1)] m keepsD [OF assms(2)] f show ?case by (metis snd_conv)
qed simp

text \<open>A part of the tables: what a lock, a transaction and their failures do to conditions on it.\<close>

locale state_view =
  fixes seen :: "('s, 'm) dbase_scheme \<Rightarrow> 'v"
  assumes base: "seen (w\<lparr>rds := s, now := t, faults := fs, outbox := ob, draws := d\<rparr>) = seen w"
begin

lemma conditions: "about seen P \<Longrightarrow> table_invariant P seen"
  by (rule table_invariant.intro, unfold about_def, blast) (rule base)

lemma basics:
  assumes "about seen P"
  shows "keeps P (new_value M)" "keeps P (acquireTries E l delay n)" "keeps P (release E l)"
proof -
  note c = conditions [OF assms]
  show "keeps P (new_value M)" by (rule table_invariant.steps(3) [OF c])
  show "keeps P (acquireTries E l delay n)" by (rule table_invariant.lock_steps(2) [OF c])
  show "keeps P (release E l)" by (rule table_invariant.lock_steps(1) [OF c])
qed

lemma lock_triple:
  assumes "about seen P" "about seen Q" "triple P cb (\<lambda>_. Q) (\<lambda>_ _. True)"
  shows "triple P (locked M key n cb) (\<lambda>_. Q) (\<lambda>_ _. True)"
proof -
  have f: "triple P (finally_do cb (release E l)) (\<lambda>_. Q) (\<lambda>_ _. True)" for E l
    by (rule ended_triple [OF assms(3) basics(3) [OF assms(2)]])
  have k: "triple P (case b of (ok, l) \<Rightarrow> if \<not> ok then throw e else finally_do cb (release E l)) (\<lambda>_. Q) (\<lambda>_ _. True)" for b e E
    by (cases b) (simp add: f triple_throw)
  have "triple P (withLockN E own key (Some 30000) n 500 cb) (\<lambda>_. Q) (\<lambda>_ _. True)" for E own
    unfolding withLockN_def
    by (rule triple_bind [where Q' = "\<lambda>_. P", OF triple_keeps [OF basics(2) [OF assms(1)]] k]) simp_all
  then show ?thesis unfolding locked_def
    by (intro triple_bind [where Q' = "\<lambda>_. P"] triple_keeps [OF basics(1) [OF assms(1)]]) simp_all
qed

lemma commit_triple:
  assumes "about seen P" "\<And>x. about seen (Q x)" "triple P m Q (\<lambda>_ _. True)"
  shows "triple P (transaction m) Q (\<lambda>_. P)"
proof (rule tripleI, goal_cases)
  case (1 w x w')
  then obtain w2 fs where "m w = (Inr x, w2)" "w' = w2\<lparr>faults := fs\<rparr>" by (elim transaction_ok)
  moreover have "seen (w2\<lparr>faults := fs\<rparr>) = seen w2"
    using table_invariant.seen_steps(3) [OF conditions [OF assms(1)]] .
  ultimately show ?case using triple_ok [OF assms(3) 1(1)] aboutD [OF assms(2)] by metis
next
  case (2 w e w')
  then obtain w2 where "w' = rollback w w2" using transaction_aborts [of m w e] by auto
  then show ?case using aboutD [OF assms(1) _ 2(1)] table_invariant.seen_steps(6) [OF conditions [OF assms(1)]] by metis
qed

end

text \<open>A condition that survives the writes of transactions and their entries, and one that survives those of wallets as well.\<close>

locale record_frame = table_invariant I seen for I :: "('s, 'm) ledger_world_scheme \<Rightarrow> bool" and seen :: "('s, 'm) ledger_world_scheme \<Rightarrow> 'v" +
  assumes record_writes: "keeps I (repo_create tx_table t)" "keeps I (repo_update_id tx_table i g)"
    "keeps I (repo_create fwt_table f)" "keeps I (repo_update_id fwt_table j h)"
begin

lemma record_services [keeps_intros]:
  "keeps I (tx_create M u t)" "keeps I (fwt_create M u f)" "keeps I (repo_update_id tx_table i g)" "keeps I (repo_update_id fwt_table j h)"
  "keeps I (tx_updateStatus M i st mo opts)" "keeps I (fwt_updateStatus M j st meta)"
  unfolding tx_create_def fwt_create_def insert_fwt_def tx_updateStatus_def tx_section_def notify_status_def createNotification_def
    sendTransactionPushNotification_def quietly_def sendTransactionEmailNotification_def getParentTransaction_def fwt_updateStatus_def fwt_section_def
  by (intro keeps_intros record_writes)+

lemma paga_messages [keeps_intros]:
  "keeps I (sendDepositSuccessfulPushNotification M t a)" "keeps I (sendDepositSuccessfulEmail M t a)"
  "keeps I (sendCurrencyConversionEmail M t x r c)" "keeps I (updateTransactionBalanceAfter a t)"
  "keeps I (createTransactionAndFiatWalletTransaction M u p v)" "keeps I (updateFiatWalletTransactionAndTransaction M i j st)"
proof -
  have "keeps I (repo_findSync external_table P)" for P unfolding repo_findSync_def by (intro keeps_intros)
  then show "keeps I (sendCurrencyConversionEmail M t x r c)" unfolding sendCurrencyConversionEmail_def by (intro keeps_intros)
qed (unfold sendDepositSuccessfulPushNotification_def sendDepositSuccessfulEmail_def updateTransactionBalanceAfter_def
    createTransactionAndFiatWalletTransaction_def updateFiatWalletTransactionAndTransaction_def, (intro keeps_intros)+)

end

locale purse_frame = record_frame +
  assumes wallet_writes: "keeps I (repo_create wallet_table v)" "keeps I (repo_update_id wallet_table k gg)"
begin

lemma purse_services [keeps_intros]: "keeps I (getUserWallet M u c)" "keeps I (updateBalance M wid a tid ty st meta inTrx)"
  "keeps I (moveToCredit wid a)"
  unfolding getUserWallet_def find_wallet_def create_wallet_def updateBalance_def balanceSection_def wallet_findById_def updateBalanceWithTransaction_def
    record_movement_def createFiatWalletTransaction_def balance_changed_def insert_fwt_def moveToCredit_def
  by (intro keeps_intros wallet_writes record_writes)+

end

section \<open>The books of the bank\<close>

definition net :: "ledger_tx \<Rightarrow> int" where
  "net t = lt_amount t - lt_fee t"

definition credited :: "string \<Rightarrow> ('s, 'm) ledger_world_scheme \<Rightarrow> int" where
  "credited number w = sum_list (map net (filter (\<lambda>t. lt_account t = number \<and> lt_status t = L_SUCCESSFUL) (ledger_txs w)))"

text \<open>\<open>off number d\<close>: the account lacks \<open>d\<close> of what its successful transactions give.\<close>

definition books_off :: "string \<Rightarrow> int \<Rightarrow> ('s, 'm) ledger_world_scheme \<Rightarrow> bool" where
  "books_off number d w \<longleftrightarrow> distinct (map la_id (ledger_accounts w)) \<and> distinct (map la_number (ledger_accounts w)) \<and> distinct (map lt_id (ledger_txs w))
     \<and> (\<forall>a \<in> set (ledger_accounts w). la_balance a = credited (la_number a) w + (if la_number a = number then d else 0))"

definition sound_books :: "('s, 'm) ledger_world_scheme \<Rightarrow> bool" where
  "sound_books w \<longleftrightarrow> books_off [] 0 w"

lemma books_zero: "books_off number 0 w = sound_books w"
  by (simp add: sound_books_def books_off_def)

interpretation bank: state_view "\<lambda>w. (ledger_accounts w, ledger_txs w)"
  by unfold_locales simp

interpretation both: state_view "\<lambda>w. (wallets w, ledger_accounts w)"
  by unfold_locales simp

lemma bank_about [simp]: "about (\<lambda>w. (ledger_accounts w, ledger_txs w)) (books_off number d)" "about (\<lambda>w. (ledger_accounts w, ledger_txs w)) sound_books"
  by (simp_all add: about_def books_off_def sound_books_def credited_def)

text \<open>The writes of the other tables.\<close>

lemma other_writes:
  fixes w :: "('s, 'm) ledger_world_scheme"
  shows "ledger_accounts (snd (repo_create tx_table t w)) = ledger_accounts w \<and> ledger_txs (snd (repo_create tx_table t w)) = ledger_txs w"
    "ledger_accounts (snd (repo_update_id tx_table i g w)) = ledger_accounts w \<and> ledger_txs (snd (repo_update_id tx_table i g w)) = ledger_txs w"
    "ledger_accounts (snd (repo_create fwt_table f w)) = ledger_accounts w \<and> ledger_txs (snd (repo_create fwt_table f w)) = ledger_txs w"
    "ledger_accounts (snd (repo_update_id fwt_table j h w)) = ledger_accounts w \<and> ledger_txs (snd (repo_update_id fwt_table j h w)) = ledger_txs w"
    "ledger_accounts (snd (repo_create wallet_table v w)) = ledger_accounts w \<and> ledger_txs (snd (repo_create wallet_table v w)) = ledger_txs w"
    "ledger_accounts (snd (repo_update_id wallet_table k gg w)) = ledger_accounts w \<and> ledger_txs (snd (repo_update_id wallet_table k gg w)) = ledger_txs w"
proof -
  show "ledger_accounts (snd (repo_create tx_table t w)) = ledger_accounts w \<and> ledger_txs (snd (repo_create tx_table t w)) = ledger_txs w"
    by (cases rule: txs.create_cases [of t w]) simp_all
  show "ledger_accounts (snd (repo_update_id tx_table i g w)) = ledger_accounts w \<and> ledger_txs (snd (repo_update_id tx_table i g w)) = ledger_txs w"
    by (cases rule: txs.update_id_cases [of i g w]) simp_all
  show "ledger_accounts (snd (repo_create fwt_table f w)) = ledger_accounts w \<and> ledger_txs (snd (repo_create fwt_table f w)) = ledger_txs w"
    by (cases rule: fwts.create_cases [of f w]) simp_all
  show "ledger_accounts (snd (repo_update_id fwt_table j h w)) = ledger_accounts w \<and> ledger_txs (snd (repo_update_id fwt_table j h w)) = ledger_txs w"
    by (cases rule: fwts.update_id_cases [of j h w]) simp_all
  show "ledger_accounts (snd (repo_create wallet_table v w)) = ledger_accounts w \<and> ledger_txs (snd (repo_create wallet_table v w)) = ledger_txs w"
    by (cases rule: wallets.create_cases [of v w]) simp_all
  show "ledger_accounts (snd (repo_update_id wallet_table k gg w)) = ledger_accounts w \<and> ledger_txs (snd (repo_update_id wallet_table k gg w)) = ledger_txs w"
    by (cases rule: wallets.update_id_cases [of k gg w]) simp_all
qed

lemma kept_about: "(\<And>w. seen (snd (m w)) = seen w) \<Longrightarrow> about seen P \<Longrightarrow> keeps P m"
  unfolding keeps_def by (blast intro: aboutD [OF _ sym])

lemma ledger_kept:
  assumes "about (\<lambda>w. (ledger_accounts w, ledger_txs w)) P"
  shows "keeps P (repo_create tx_table t)" "keeps P (repo_update_id tx_table i g)" "keeps P (repo_create fwt_table f)"
    "keeps P (repo_update_id fwt_table j h)" "keeps P (repo_create wallet_table v)" "keeps P (repo_update_id wallet_table k gg)"
  by (rule kept_about [OF _ assms], simp only: other_writes)+

interpretation books: purse_frame sound_books "\<lambda>w. (ledger_accounts w, ledger_txs w)"
proof (intro purse_frame.intro record_frame.intro record_frame_axioms.intro purse_frame_axioms.intro)
  show "table_invariant sound_books (\<lambda>w. (ledger_accounts w, ledger_txs w))" by (rule bank.conditions) simp
qed (rule ledger_kept, simp)+

text \<open>A pending transaction of an account, still to be credited.\<close>

definition pending_row :: "string \<Rightarrow> int \<Rightarrow> string \<Rightarrow> ('s, 'm) ledger_world_scheme \<Rightarrow> bool" where
  "pending_row number n tid w \<longleftrightarrow> (\<exists>t \<in> set (ledger_txs w). lt_id t = tid \<and> lt_account t = number \<and> lt_status t = L_PENDING \<and> net t = n)"

definition awaiting :: "string \<Rightarrow> int \<Rightarrow> string \<Rightarrow> ('s, 'm) ledger_world_scheme \<Rightarrow> bool" where
  "awaiting number n tid w \<longleftrightarrow> sound_books w \<and> pending_row number n tid w"

lemma awaiting_about [simp]: "about (\<lambda>w. (ledger_accounts w, ledger_txs w)) (awaiting number n tid)"
  "about (\<lambda>w. (ledger_accounts w, ledger_txs w)) (\<lambda>w. books_off number n w \<and> pending_row number n tid w)"
  "about (\<lambda>w. (ledger_accounts w, ledger_txs w)) (\<lambda>w. awaiting number n tid w \<and> a \<in> set (ledger_accounts w))"
  by (simp_all add: about_def awaiting_def pending_row_def books_off_def sound_books_def credited_def)

text \<open>
  The contract of a deposit: a condition \<open>P\<close> before it, \<open>C\<close> once the transaction is recorded, \<open>Q\<close> when it has succeeded,
  of which the record and the movement have to be shown.
\<close>

locale deposit_contract = state_view seen for seen :: "('s, 'm) ledger_world_scheme \<Rightarrow> 'v" +
  fixes d :: deposit_order and P Q :: "('s, 'm) ledger_world_scheme \<Rightarrow> bool" and C :: "string \<Rightarrow> ('s, 'm) ledger_world_scheme \<Rightarrow> bool"
  assumes sees: "seen w = seen w' \<Longrightarrow> ledger_accounts w = ledger_accounts w'"
    and conds: "about seen P" "about seen (C i)" "about seen Q"
    and recording: "triple P (ledgerTx_create M (deposit_row d a)) (\<lambda>t. C (lt_id t)) (\<lambda>_ _. True)"
    and moving: "la_number a = do_account d
      \<Longrightarrow> triple (\<lambda>w. C i w \<and> a \<in> set (ledger_accounts w)) (ledger_moveBalance a (do_amount d - do_fee d) i) (\<lambda>_. Q) (\<lambda>_ _. True)"
begin

lemma reading:
  assumes "about seen R"
  shows "triple R (find_ledger number) (\<lambda>x w. R w \<and> (\<forall>a. x = Some a \<longrightarrow> a \<in> set (ledger_accounts w) \<and> la_number a = number)) (\<lambda>_ _. True)"
proof (rule tripleI, goal_cases)
  case (1 w x w')
  then show ?case
    by (cases rule: ledgers.findOne_cases [of "\<lambda>a. la_number a = number" w])
      (use keepsD [OF table_invariant.reads(1) [OF conditions [OF assms]], of w ledger_table "\<lambda>a. la_number a = number"]
        in \<open>auto simp: find_ledger_def dest: find_Some_in\<close>)
qed simp

lemma section_moves: "triple (C i) (ledgerBalanceSection (do_account d) (do_amount d - do_fee d) i True) (\<lambda>_. Q) (\<lambda>_ _. True)"
proof -
  have found: "about seen (\<lambda>w. C i w \<and> (\<forall>a. x = Some a \<longrightarrow> a \<in> set (ledger_accounts w) \<and> la_number a = do_account d))" for x
    using conds(2) [of i] sees unfolding about_def by metis
  have "triple (\<lambda>w. C i w \<and> (\<forall>b. x = Some b \<longrightarrow> b \<in> set (ledger_accounts w) \<and> la_number b = do_account d))
     (case x of None \<Rightarrow> throw (no_ledger (do_account d)) | Some existing \<Rightarrow> bind (ledgerTx_findOne (\<lambda>t. lt_id t = i \<and> lt_account t = do_account d)) (\<lambda>t.
           if t = None then throw e else if True then ledger_moveBalance existing (do_amount d - do_fee d) i else m existing))
     (\<lambda>_. Q) (\<lambda>_ _. True)" for x e and m :: "ledger_account \<Rightarrow> (('s, 'm) ledger_world_scheme, ledger_account option) io"
  proof (cases x)
    case (Some b)
    let ?P = "\<lambda>w. C i w \<and> (\<forall>a. x = Some a \<longrightarrow> a \<in> set (ledger_accounts w) \<and> la_number a = do_account d)"
    have k: "keeps ?P (ledgerTx_findOne F)" for F unfolding ledgerTx_findOne_def
      by (intro keeps_intros table_invariant.reads(1) [OF conditions [OF found]])
    have "triple ?P (ledger_moveBalance b (do_amount d - do_fee d) i) (\<lambda>_. Q) (\<lambda>_ _. True)"
    proof (cases "la_number b = do_account d")
      case True
      show ?thesis by (rule triple_conseq [OF moving [OF True]]) (use Some in auto)
    qed (use Some in \<open>simp add: triple_def\<close>)
    then have m: "triple ?P (if t = None then throw e else if True then ledger_moveBalance b (do_amount d - do_fee d) i else m b) (\<lambda>_. Q) (\<lambda>_ _. True)" for t :: "ledger_tx option"
      by (simp add: triple_if triple_throw)
    have "triple ?P (bind (ledgerTx_findOne (\<lambda>t. lt_id t = i \<and> lt_account t = do_account d)) (\<lambda>t.
           if t = None then throw e else if True then ledger_moveBalance b (do_amount d - do_fee d) i else m b)) (\<lambda>_. Q) (\<lambda>_ _. True)"
      by (rule triple_bind [where Q' = "\<lambda>_. ?P", OF triple_keeps [OF k] m]) simp_all
    then show ?thesis by (simp add: Some)
  qed (simp add: triple_throw)
  then show ?thesis unfolding ledgerBalanceSection_def
    by (intro triple_catch [where R' = "\<lambda>_ _. True"] triple_bind [OF reading [OF conds(2)]]) (simp_all add: triple_throw)
qed

lemma booked: "triple (C (lt_id t)) (depositBooked M d t) (\<lambda>_. Q) (\<lambda>_ _. True)"
proof -
  have "triple (C (lt_id t)) (ledger_updateBalance M (do_account d) (do_amount d - do_fee d) (lt_id t) True) (\<lambda>_. Q) (\<lambda>_ _. True)"
    unfolding ledger_updateBalance_def by (rule lock_triple [OF conds(2,3) section_moves])
  moreover have "triple (\<lambda>_. True) (andthen m (throw e)) (\<lambda>_. Q) (\<lambda>_ _. True)" for m :: "(('s, 'm) ledger_world_scheme, unit) io" and e
    by (rule triple_seq [where Q' = "\<lambda>_. True"]) (simp_all add: triple_throw triple_def split: sum.split)
  ultimately show ?thesis unfolding depositBooked_def by (rule triple_catch)
qed

lemma deposit_triple: "triple P (depositMoney M d) (\<lambda>_. Q) (\<lambda>_ _. True)"
proof -
  have r: "triple P (bind (ledgerTx_create M (deposit_row d a)) (depositBooked M d)) (\<lambda>_. Q) (\<lambda>_ _. True)" for a
    by (rule triple_bind [OF recording booked])
  have "triple (\<lambda>w. P w \<and> R x w) (case x of None \<Rightarrow> throw e | Some a \<Rightarrow> bind (ledgerTx_create M (deposit_row d a)) (depositBooked M d))
      (\<lambda>_. Q) (\<lambda>_ _. True)" for x e and R :: "ledger_account option \<Rightarrow> ('s, 'm) ledger_world_scheme \<Rightarrow> bool"
    by (cases x) (auto intro: triple_throw triple_conseq [OF r])
  then have "triple P (depositSection M d) (\<lambda>_. Q) (\<lambda>_ _. True)"
    unfolding depositSection_def by (rule triple_bind [OF reading [OF conds(1)]])
  then show ?thesis unfolding depositMoney_def by (simp add: triple_if triple_throw lock_triple [OF conds(1,3)])
qed

end

lemma distinct_replaced: "distinct (map rid rs) \<Longrightarrow> rid r = i \<Longrightarrow> distinct (map rid (replace_row rid i r rs))"
  by (auto simp: replace_row_def distinct_map_filter)

lemma found_row: "distinct (map rid rs) \<Longrightarrow> r \<in> set rs \<Longrightarrow> List.find (\<lambda>x. rid x = rid r) rs = Some r"
  by (induction rs) auto

lemma account_step:
  "triple (\<lambda>w. awaiting number n tid w \<and> a \<in> set (ledger_accounts w) \<and> la_number a = number)
     (repo_update_id ledger_table (la_id a) (\<lambda>x. x\<lparr>la_balance := la_balance a + n\<rparr>))
     (\<lambda>_ w. books_off number n w \<and> pending_row number n tid w) (\<lambda>_ _. True)"
proof (rule tripleI, goal_cases)
  case (1 w x w')
  let ?a = "a\<lparr>la_balance := la_balance a + n\<rparr>"
  have d: "distinct (map la_id (ledger_accounts w))" "distinct (map la_number (ledger_accounts w))"
    and b: "\<forall>c \<in> set (ledger_accounts w). la_balance c = credited (la_number c) w"
    using 1(1) by (auto simp: awaiting_def sound_books_def books_off_def)
  have f: "List.find (\<lambda>x. la_id x = la_id a) (ledger_accounts w) = Some a" using found_row [OF d(1)] 1(1) by blast
  from 1(2) f obtain fs where w': "w' = (w\<lparr>faults := fs, ledger_accounts := replace_row la_id (la_id a) ?a (ledger_accounts w)\<rparr>)"
    by (cases rule: ledgers.update_id_cases [of "la_id a" "\<lambda>x. x\<lparr>la_balance := la_balance a + n\<rparr>" w]) auto
  have c: "credited k w' = credited k w" for k by (simp add: w' credited_def)
  have acc: "ledger_accounts w' = replace_row la_id (la_id a) ?a (ledger_accounts w)" "ledger_txs w' = ledger_txs w" by (simp_all add: w')
  have other: "la_number c \<noteq> la_number a" if "c \<in> set (ledger_accounts w)" "la_id c \<noteq> la_id a" for c
    using that d(2) 1(1) by (auto simp: distinct_map dest: inj_onD)
  then have "la_number a \<notin> la_number ` set (filter (\<lambda>x. la_id x \<noteq> la_id a) (ledger_accounts w))" by force
  then have "distinct (map la_number (ledger_accounts w'))"
    using d(2) by (simp add: w' replace_row_def distinct_map_filter)
  then show ?case
    using 1(1) distinct_replaced [OF d(1), of ?a "la_id a"] b other acc
    by (auto simp: books_off_def awaiting_def sound_books_def pending_row_def c replace_row_def)
qed simp

lemma credited_row:
  assumes "distinct (map lt_id ts)" "t \<in> set ts" "lt_status t = L_PENDING"
  shows "sum_list (map net (filter (\<lambda>t. lt_account t = k \<and> lt_status t = L_SUCCESSFUL) (replace_row lt_id (lt_id t) (t\<lparr>lt_status := L_SUCCESSFUL\<rparr>) ts)))
    = sum_list (map net (filter (\<lambda>t. lt_account t = k \<and> lt_status t = L_SUCCESSFUL) ts)) + (if lt_account t = k then net t else 0)"
proof -
  have "filter (\<lambda>u. lt_account u = k \<and> lt_status u = L_SUCCESSFUL) (filter (\<lambda>u. lt_id u \<noteq> lt_id t) ts)
      = filter (\<lambda>u. lt_account u = k \<and> lt_status u = L_SUCCESSFUL) ts"
    unfolding filter_filter
  proof (rule filter_cong [OF refl])
    fix u
    assume "u \<in> set ts"
    moreover have "inj_on lt_id (set ts)" using assms(1) by (simp add: distinct_map)
    ultimately have "lt_id u = lt_id t \<Longrightarrow> u = t" using assms(2) by (auto dest: inj_onD)
    then show "(lt_id u \<noteq> lt_id t \<and> lt_account u = k \<and> lt_status u = L_SUCCESSFUL) = (lt_account u = k \<and> lt_status u = L_SUCCESSFUL)"
      using assms(3) by auto
  qed
  then show ?thesis by (simp add: replace_row_def net_def)
qed

lemma success_step:
  "triple (\<lambda>w. books_off number n w \<and> pending_row number n tid w)
     (repo_update_id ledger_tx_table tid (\<lambda>t. t\<lparr>lt_status := L_SUCCESSFUL\<rparr>)) (\<lambda>_. sound_books) (\<lambda>_ _. True)"
proof (rule tripleI, goal_cases)
  case (1 w x w')
  then obtain t where t: "t \<in> set (ledger_txs w)" "lt_id t = tid" "lt_account t = number" "lt_status t = L_PENDING" "net t = n"
    by (auto simp: pending_row_def)
  have d: "distinct (map lt_id (ledger_txs w))" using 1(1) by (simp add: books_off_def)
  have f: "List.find (\<lambda>x. lt_id x = tid) (ledger_txs w) = Some t" using found_row [OF d t(1)] t(2) by simp
  from 1(2) f obtain fs where w': "w' = (w\<lparr>faults := fs, ledger_txs := replace_row lt_id tid (t\<lparr>lt_status := L_SUCCESSFUL\<rparr>) (ledger_txs w)\<rparr>)"
    by (cases rule: ledger_rows.update_id_cases [of tid "\<lambda>t. t\<lparr>lt_status := L_SUCCESSFUL\<rparr>" w]) auto
  have c: "credited k w' = credited k w + (if k = number then n else 0)" for k
    using credited_row [OF d t(1) t(4), of k] t by (auto simp: w' credited_def)
  show ?case
    using 1(1) distinct_replaced [OF d, of "t\<lparr>lt_status := L_SUCCESSFUL\<rparr>" tid] t(2)
    by (auto simp: sound_books_def books_off_def c) (simp_all add: w')
qed simp

lemma status_move:
  "triple (\<lambda>w. books_off number n w \<and> pending_row number n tid w) (ledgerTx_update tid L_SUCCESSFUL) (\<lambda>_. sound_books) (\<lambda>_ _. True)"
proof -
  let ?P = "\<lambda>w. books_off number n w \<and> pending_row number n tid w"
  have k: "keeps ?P (repo_findById ledger_tx_table tid)"
    by (rule table_invariant.reads(2) [OF bank.conditions [OF awaiting_about(2)]])
  show ?thesis unfolding ledgerTx_update_def
    by (intro triple_catch [where R' = "\<lambda>_ _. True"] triple_bind [where Q' = "\<lambda>_. ?P", OF triple_keeps [OF k]] triple_if success_step)
      (simp_all add: triple_throw)
qed

lemma books_move:
  assumes "la_number a = number"
  shows "triple (\<lambda>w. awaiting number n tid w \<and> a \<in> set (ledger_accounts w)) (ledger_moveBalance a n tid) (\<lambda>_. sound_books) (\<lambda>_ _. True)"
  unfolding ledger_moveBalance_def
proof (rule triple_catch [where R' = "\<lambda>_ _. True"], rule triple_bind)
  show "triple (\<lambda>w. awaiting number n tid w \<and> a \<in> set (ledger_accounts w)) (repo_update_id ledger_table (la_id a) (\<lambda>x. x\<lparr>la_balance := la_balance a + n\<rparr>))
      (\<lambda>_ w. books_off number n w \<and> pending_row number n tid w) (\<lambda>_ _. True)"
    by (rule triple_conseq [OF account_step]) (use assms in auto)
qed (simp_all add: triple_throw triple_seq [OF status_move] triple_ret)

lemma books_record:
  assumes "lt_status row = L_PENDING"
  shows "triple sound_books (ledgerTx_create M row) (\<lambda>t. awaiting (lt_account row) (net row) (lt_id t)) (\<lambda>_ _. True)"
proof -
  have c: "triple sound_books (repo_create ledger_tx_table (row\<lparr>lt_id := i\<rparr>)) (\<lambda>t. awaiting (lt_account row) (net row) (lt_id t)) (\<lambda>_ _. True)" for i
  proof (rule tripleI, goal_cases)
    case (1 w x w')
    then show ?case
      by (cases rule: ledger_rows.create_cases [of "row\<lparr>lt_id := i\<rparr>" w])
        (use assms in \<open>auto simp: awaiting_def sound_books_def books_off_def credited_def pending_row_def net_def\<close>)
  qed simp
  have f: "keeps sound_books (repo_findOne ledger_tx_table P)" for P by (rule books.reads(1))
  show ?thesis unfolding ledgerTx_create_def
    by (intro triple_catch [where R' = "\<lambda>_ _. True"] triple_bind [where Q' = "\<lambda>_. sound_books", OF triple_keeps [OF f]]
        triple_bind [where Q' = "\<lambda>_. sound_books", OF triple_keeps [OF books.steps(3)]] triple_if c) (simp_all add: triple_throw)
qed

interpretation books_deposit: deposit_contract "\<lambda>w. (ledger_accounts w, ledger_txs w)" d sound_books sound_books
    "awaiting (do_account d) (do_amount d - do_fee d)" for d
proof unfold_locales
  show "triple sound_books (ledgerTx_create M (deposit_row d a)) (\<lambda>t. awaiting (do_account d) (do_amount d - do_fee d) (lt_id t)) (\<lambda>_ _. True)" for M a
    using books_record [of "deposit_row d a" M] by (simp add: deposit_row_def net_def)
qed (simp_all add: books_move)

section \<open>Wallets and ledger together\<close>

text \<open>What the wallets hold beyond the ledger accounts.\<close>

definition ahead :: "int \<Rightarrow> ('s, 'm) ledger_world_scheme \<Rightarrow> bool" where
  "ahead g w \<longleftrightarrow> distinct (map fw_id (wallets w)) \<and> distinct (map la_id (ledger_accounts w)) \<and> total_balance w - ledger_total w = g"

lemma ahead_about [simp]: "about (\<lambda>w. (wallets w, ledger_accounts w)) (ahead g)"
  "about (\<lambda>w. (wallets w, ledger_accounts w)) (\<lambda>w. ahead g w \<and> a \<in> set (ledger_accounts w))"
  by (simp_all add: about_def ahead_def total_balance_def ledger_total_def)

lemma replaced_ledger:
  assumes "distinct (map la_id as)" "a \<in> set as"
  shows "sum_list (map la_balance (replace_row la_id (la_id a) (a\<lparr>la_balance := b\<rparr>) as)) = sum_list (map la_balance as) - la_balance a + b"
proof -
  have "sum_list (map la_balance (filter (\<lambda>x. la_id x \<noteq> la_id a) as)) = sum_list (map la_balance as) - la_balance a"
    using assms
  proof (induction as)
    case (Cons c as)
    then have "la_id c = la_id a \<Longrightarrow> filter (\<lambda>x. la_id x \<noteq> la_id a) as = as" by (auto simp: filter_id_conv image_iff)
    with Cons show ?case by auto
  qed simp
  then show ?thesis by (simp add: replace_row_def)
qed

lemma ahead_account:
  "triple (\<lambda>w. ahead g w \<and> a \<in> set (ledger_accounts w)) (repo_update_id ledger_table (la_id a) (\<lambda>x. x\<lparr>la_balance := la_balance a + n\<rparr>))
     (\<lambda>_. ahead (g - n)) (\<lambda>_ _. True)"
proof (rule tripleI, goal_cases)
  case (1 w x w')
  then have d: "distinct (map la_id (ledger_accounts w))" and a: "a \<in> set (ledger_accounts w)" by (simp_all add: ahead_def)
  from 1(2) found_row [OF d a] obtain fs
    where w': "w' = w\<lparr>faults := fs, ledger_accounts := replace_row la_id (la_id a) (a\<lparr>la_balance := la_balance a + n\<rparr>) (ledger_accounts w)\<rparr>"
    by (cases rule: ledgers.update_id_cases [of "la_id a" "\<lambda>x. x\<lparr>la_balance := la_balance a + n\<rparr>" w]) auto
  show ?case using 1(1) replaced_ledger [OF d a, of "la_balance a + n"] distinct_replaced [OF d, of "a\<lparr>la_balance := la_balance a + n\<rparr>" "la_id a"]
    by (simp add: w' ahead_def ledger_total_def total_balance_def)
qed simp

lemma ledger_rows_aside:
  "keeps (ahead g :: ('s, 'm) ledger_world_scheme \<Rightarrow> bool) (repo_create ledger_tx_table t)"
  "keeps (ahead g :: ('s, 'm) ledger_world_scheme \<Rightarrow> bool) (repo_update_id ledger_tx_table i h)"
proof -
  have "(wallets (snd (repo_create ledger_tx_table t w)), ledger_accounts (snd (repo_create ledger_tx_table t w))) = (wallets w, ledger_accounts w)"
    for w :: "('s, 'm) ledger_world_scheme"
    by (cases rule: ledger_rows.create_cases [of t w]) simp_all
  then show "keeps (ahead g :: ('s, 'm) ledger_world_scheme \<Rightarrow> bool) (repo_create ledger_tx_table t)" by (rule kept_about [OF _ ahead_about(1)])
  have "(wallets (snd (repo_update_id ledger_tx_table i h w)), ledger_accounts (snd (repo_update_id ledger_tx_table i h w))) = (wallets w, ledger_accounts w)"
    for w :: "('s, 'm) ledger_world_scheme"
    by (cases rule: ledger_rows.update_id_cases [of i h w]) simp_all
  then show "keeps (ahead g :: ('s, 'm) ledger_world_scheme \<Rightarrow> bool) (repo_update_id ledger_tx_table i h)" by (rule kept_about [OF _ ahead_about(1)])
qed

lemma both_kept:
  "keeps (ahead g :: ('s, 'm) ledger_world_scheme \<Rightarrow> bool) (repo_create tx_table t)"
  "keeps (ahead g :: ('s, 'm) ledger_world_scheme \<Rightarrow> bool) (repo_update_id tx_table i h)"
  "keeps (ahead g :: ('s, 'm) ledger_world_scheme \<Rightarrow> bool) (repo_create fwt_table f)"
  "keeps (ahead g :: ('s, 'm) ledger_world_scheme \<Rightarrow> bool) (repo_update_id fwt_table j k)"
proof -
  have w: "aside m \<Longrightarrow> (\<And>w. ledger_accounts (snd (m w)) = ledger_accounts w \<and> ledger_txs (snd (m w)) = ledger_txs w) \<Longrightarrow> keeps (ahead g) m"
    for m :: "(('s, 'm) ledger_world_scheme, 'b) io"
    by (rule kept_about [OF _ ahead_about(1)]) (simp add: aside_def)
  show "keeps (ahead g :: ('s, 'm) ledger_world_scheme \<Rightarrow> bool) (repo_create tx_table t)" by (rule w [OF aside_writes(1) other_writes(1)])
  show "keeps (ahead g :: ('s, 'm) ledger_world_scheme \<Rightarrow> bool) (repo_update_id tx_table i h)" by (rule w [OF aside_writes(3) other_writes(2)])
  show "keeps (ahead g :: ('s, 'm) ledger_world_scheme \<Rightarrow> bool) (repo_create fwt_table f)" by (rule w [OF aside_writes(2) other_writes(3)])
  show "keeps (ahead g :: ('s, 'm) ledger_world_scheme \<Rightarrow> bool) (repo_update_id fwt_table j k)" by (rule w [OF aside_writes(4) other_writes(4)])
qed

interpretation level: record_frame "ahead g" "\<lambda>w. (wallets w, ledger_accounts w)" for g
  by (intro record_frame.intro record_frame_axioms.intro both.conditions ahead_about both_kept)

lemma ahead_move:
  "triple (\<lambda>w. ahead g w \<and> a \<in> set (ledger_accounts w)) (ledger_moveBalance a n tid) (\<lambda>_. ahead (g - n)) (\<lambda>_ _. True)"
proof -
  have k: "keeps (ahead g) (ledgerTx_update tid st)" for g st
    unfolding ledgerTx_update_def by (intro keeps_intros ledger_rows_aside)
  show ?thesis unfolding ledger_moveBalance_def
    by (intro triple_catch [where R' = "\<lambda>_ _. True"] triple_bind [OF ahead_account] triple_seq [OF triple_keeps [OF k]] triple_ret triple_throw) simp_all
qed

interpretation level_deposit: deposit_contract "\<lambda>w. (wallets w, ledger_accounts w)" d "ahead g" "ahead (g - (do_amount d - do_fee d))" "\<lambda>_. ahead g" for d g
proof unfold_locales
  have "keeps (ahead g :: ('s, 'm) ledger_world_scheme \<Rightarrow> bool) (ledgerTx_create M row)" for M :: "'s money_env" and row
    unfolding ledgerTx_create_def by (intro keeps_intros ledger_rows_aside)
  then show "triple (ahead g :: ('s, 'm) ledger_world_scheme \<Rightarrow> bool) (ledgerTx_create M (deposit_row d a)) (\<lambda>_. ahead g) (\<lambda>_ _. True)" for M :: "'s money_env" and a
    by (intro triple_keeps) simp_all
qed (simp_all add: ahead_move)

interpretation bank_is: purse_frame "\<lambda>w. ledger_accounts w = A \<and> ledger_txs w = T" "\<lambda>w. (ledger_accounts w, ledger_txs w)" for A T
proof (intro purse_frame.intro record_frame.intro record_frame_axioms.intro purse_frame_axioms.intro)
  show "table_invariant (\<lambda>w. ledger_accounts w = A \<and> ledger_txs w = T) (\<lambda>w. (ledger_accounts w, ledger_txs w))"
    by (rule bank.conditions) (simp add: about_def)
qed (rule ledger_kept, simp add: about_def)+

lemma bank_untouched: "(\<And>A T. keeps (\<lambda>w. ledger_accounts w = A \<and> ledger_txs w = T) m) \<Longrightarrow>
    ledger_accounts (snd (m w)) = ledger_accounts w \<and> ledger_txs (snd (m w)) = ledger_txs w"
  by (rule keepsD) simp_all

lemma ahead_section:
  fixes wid :: string
  shows "triple (ahead g :: ('s, 'm) ledger_world_scheme \<Rightarrow> bool) (balanceSection M wid a tid ty st meta True) (\<lambda>_. ahead (g + a)) (\<lambda>_ _. True)"
proof (rule tripleI, goal_cases)
  case (1 w u w')
  have l: "keeps (\<lambda>w. ledger_accounts w = A \<and> ledger_txs w = T) (balanceSection M wid a tid ty st meta True)" for A T
    unfolding balanceSection_def wallet_findById_def updateBalanceWithTransaction_def record_movement_def createFiatWalletTransaction_def balance_changed_def
    by (intro keeps_intros bank_is.wallet_writes bank_is.record_writes)
  have "holding (total_balance w + a) w'"
    using moved_holding [OF _ section_ok [OF 1(2)], of "total_balance w"] 1(1) by (simp add: ahead_def holding_def)
  moreover have "ledger_accounts w' = ledger_accounts w" using bank_untouched [OF l, of w] 1(2) by simp
  ultimately show ?case using 1(1) by (simp add: ahead_def holding_def ledger_total_def)
qed simp

lemma ahead_balance:
  "triple (ahead g :: ('s, 'm) ledger_world_scheme \<Rightarrow> bool) (updateBalance M wid a tid ty st meta True) (\<lambda>_. ahead (g + a)) (\<lambda>_ _. True)"
  unfolding updateBalance_def by (rule both.lock_triple [OF ahead_about(1) ahead_about(1) ahead_section])

lemma ahead_wallet [keeps_intros]: "keeps (ahead g :: ('s, 'm) ledger_world_scheme \<Rightarrow> bool) (getUserWallet M u c)"
  unfolding keeps_def
proof (intro allI impI)
  fix w :: "('s, 'm) ledger_world_scheme"
  assume a: "ahead g w"
  then have "holding (total_balance w) (snd (getUserWallet M u c w))"
    by (intro keepsD [OF getUserWallet_holding]) (simp add: ahead_def holding_def)
  with a bank_untouched [OF bank_is.purse_services(1), of M u c w] show "ahead g (snd (getUserWallet M u c w))"
    by (simp add: ahead_def holding_def ledger_total_def)
qed

section \<open>Deposits\<close>

lemma paga_order_simps [simp]: "do_amount (paga_order n a p) = a" "do_fee (paga_order n a p) = 0" "do_account (paga_order n a p) = n"
  "do_reference (paga_order n a p) = pg_reference p"
  by (simp_all add: paga_order_def)

lemma deposit_level: "triple (ahead g) (depositMoney M (paga_order n a p)) (\<lambda>_. ahead (g - a)) (\<lambda>_ _. True)"
  using level_deposit.deposit_triple [of g M "paga_order n a p"] by simp

lemma level_again:
  assumes "keeps (ahead g) m"
  shows "triple (ahead g) m (\<lambda>_. ahead g) (\<lambda>_ _. True)"
  by (rule triple_keeps [OF assms]) simp_all

text \<open>A deposit into the ledger and then the same amount into a wallet leave the wallets as far ahead as they were.\<close>

lemma credited_level:
  assumes "\<And>h. keeps (ahead h :: ('s, 'm) ledger_world_scheme \<Rightarrow> bool) rest"
  shows "triple (ahead g) (andthen (depositMoney M (paga_order n a p)) (andthen (updateBalance M wid a tid ty st meta True) rest)) (\<lambda>_. ahead g) (\<lambda>_ _. True)"
proof -
  have "triple (ahead (g - a)) (updateBalance M wid a tid ty st meta True) (\<lambda>_. ahead g) (\<lambda>_ _. True)"
    by (rule triple_conseq [OF ahead_balance [of "g - a"]]) simp_all
  then show ?thesis by (rule triple_seq [OF deposit_level triple_seq [OF _ level_again [OF assms]]])
qed

lemma bookDeposit_level: "keeps (ahead g) (bookDeposit M p t entry a)"
proof -
  have "triple (ahead g) (andthen (depositMoney M (paga_order (pg_account p) a p)) (case entry of None \<Rightarrow> throw undefined_row
       | Some f \<Rightarrow> andthen (updateBalance M (ft_wallet f) a (tx_id t) F_DEPOSIT COMPLETED (deposit_movement p (ft_id f)) True)
          (updateFiatWalletTransactionAndTransaction M (tx_id t) (ft_id f) COMPLETED))) (\<lambda>_. ahead g) (\<lambda>_ _. True)"
  proof (cases entry)
    case None
    then show ?thesis by (auto intro: triple_seq [OF deposit_level] triple_throw)
  next
    case (Some f)
    then show ?thesis using credited_level [OF level.paga_messages(6)] by simp
  qed
  then show ?thesis unfolding bookDeposit_def keeps_triple by (rule both.commit_triple [OF ahead_about(1) ahead_about(1)])
qed

lemma deposits_level: "keeps (ahead g) (depositWebhook M p u)"
proof -
  have r: "keeps (ahead g) (depositReported M p t entry)" for t entry
    unfolding depositReported_def handleSuccessfulTransaction_def
    by (cases "transformToTransactionStatus (pg_status p)"; simp only: paga_status.case) (intro keeps_intros bookDeposit_level)+
  show ?thesis unfolding depositWebhook_def by (intro keeps_intros r)
qed

section \<open>Exchanges\<close>

lemma proceeds_level: "keeps (ahead g) (creditProceeds M p child entry parent a before)"
proof -
  have u: "keeps (ahead h) (andthen (tx_updateStatus M i COMPLETED mo opts) (ret ()))" for h i mo opts by (intro keeps_intros)
  let ?credit = "\<lambda>wallet acct. andthen (depositMoney M (paga_order (ac_number acct) a p))
            (andthen (updateBalance M (fw_id wallet) a (tx_id child) F_EXCHANGE COMPLETED (exchange_movement entry) True)
            (andthen (tx_updateStatus M (tx_id child) COMPLETED (Some no_meta) all_notifications) (ret ())))"
  have c: "triple (ahead g) (case main_account wallet w of None \<Rightarrow> ret () | Some acct \<Rightarrow> ?credit wallet acct) (\<lambda>_. ahead g) (\<lambda>_ _. True)" for wallet w
    by (cases "main_account wallet w") (auto intro: triple_ret credited_level [OF u])
  have d: "triple (ahead g) (case found of None \<Rightarrow> throw undefined_row | Some wallet \<Rightarrow> bind get_state (\<lambda>w. case main_account wallet w of None \<Rightarrow> ret ()
       | Some acct \<Rightarrow> ?credit wallet acct)) (\<lambda>_. ahead g) (\<lambda>_ _. True)" for found
    by (cases found) (auto intro: triple_throw triple_bind [where Q' = "\<lambda>_. ahead g"] level_again keeps_intros c)
  show ?thesis unfolding creditProceeds_def keeps_triple
    by (intro both.commit_triple ahead_about triple_seq [OF level_again] triple_bind [OF level_again d] keeps_intros)
qed

lemma exchange_level: "keeps (ahead g) (paga_completeExchangeTransaction M p child entry parent)"
  unfolding paga_completeExchangeTransaction_def by (intro keeps_intros proceeds_level)

lemma user_account_level: "keeps (ahead g) (user_main_account u)"
  unfolding user_main_account_def by (intro keeps_intros)

lemma new_proceeds_level: "triple (ahead g) (createProceeds M X p parent rate wallet kobo) (\<lambda>_. ahead g) (\<lambda>_ _. True)"
proof -
  have u: "keeps (ahead h) (andthen (tx_updateStatus M i COMPLETED mo opts) (andthen (fwt_updateStatus M j COMPLETED meta) (ret t)))" for h i j mo opts meta t
    by (intro keeps_intros)
  have c: "triple (ahead g) (case main of None \<Rightarrow> ret t
       | Some acct \<Rightarrow> andthen (depositMoney M (paga_order (ac_number acct) a p))
          (andthen (updateBalance M (fw_id wallet) a (tx_id t) F_EXCHANGE COMPLETED no_movement True)
          (andthen (tx_updateStatus M (tx_id t) COMPLETED None all_notifications)
          (andthen (fwt_updateStatus M (ft_id f) COMPLETED no_meta) (ret t))))) (\<lambda>_. ahead g) (\<lambda>_ _. True)" for main a t f
    by (cases main) (auto intro: triple_ret credited_level [OF u])
  show ?thesis unfolding createProceeds_def
    by (intro triple_bind [OF level_again] c keeps_intros user_account_level)
qed

text \<open>A child found late is credited with the ledger or, without a main account, without it.\<close>

lemma credit_alone:
  assumes "keeps (ahead (g + a)) rest"
  shows "triple (ahead g) (andthen (updateBalance M wid a tid ty st meta True) rest) (\<lambda>_. ahead (g + a)) (\<lambda>_ _. True)"
  by (rule triple_seq [OF ahead_balance level_again [OF assms]])

definition no_main_account :: "string \<Rightarrow> ('s, 'm) exchange_world_scheme \<Rightarrow> bool" where
  "no_main_account u w \<longleftrightarrow> (\<forall>a \<in> set (account_rows w). ac_user a = u \<longrightarrow> ac_type a \<noteq> MAIN_ACCOUNT)"

lemma unbooked_triple:
  assumes "tx_status child \<noteq> COMPLETED" "paga_amount p = Inr a"
  shows "triple (\<lambda>w::('s, 'm) ledger_world_scheme. no_main_account (tx_user parent) w \<and> ahead g w) (completeFound M p parent wallet child entry) (\<lambda>_. ahead (g + a)) (\<lambda>_ _. True)"
proof -
  let ?N = "\<lambda>w::('s, 'm) ledger_world_scheme. no_main_account (tx_user parent) w \<and> ahead g w"
  have seen: "about (\<lambda>w. (account_rows w, wallets w, ledger_accounts w)) ?N"
    by (simp add: about_def no_main_account_def ahead_def total_balance_def ledger_total_def)
  have u: "keeps ?N (repo_update_id tx_table i h)" for i h
  proof (rule kept_about [OF _ seen])
    fix w :: "('s, 'm) ledger_world_scheme"
    show "(account_rows (snd (repo_update_id tx_table i h w)), wallets (snd (repo_update_id tx_table i h w)), ledger_accounts (snd (repo_update_id tx_table i h w)))
      = (account_rows w, wallets w, ledger_accounts w)"
      by (cases rule: txs.update_id_cases [of i h w]) simp_all
  qed
  have f: "triple ?N (user_main_account (tx_user parent)) (\<lambda>x w. x = None \<and> ahead g w) (\<lambda>_ _. True)"
  proof (rule tripleI, goal_cases)
    case (1 w x w')
    then show ?case unfolding user_main_account_def
      by (cases rule: vaccounts.findOne_cases [of "\<lambda>a. ac_user a = tx_user parent \<and> ac_type a = MAIN_ACCOUNT" w])
        (auto simp: no_main_account_def find_None_iff ahead_def total_balance_def ledger_total_def)
  qed simp
  have r: "keeps (ahead (g + a)) (andthen (tx_updateStatus M (tx_id child) COMPLETED None all_notifications)
      (case entry of None \<Rightarrow> ret () | Some f \<Rightarrow> andthen (fwt_updateStatus M (ft_id f) COMPLETED no_meta) (ret ())))"
    by (intro keeps_intros)
  have c: "triple (\<lambda>w. main = None \<and> ahead g w) (andthen (case main of None \<Rightarrow> ret () | Some acct \<Rightarrow> andthen (depositMoney M (paga_order (ac_number acct) a p)) (ret ()))
     (andthen (updateBalance M (fw_id wallet) a (tx_id child) F_EXCHANGE COMPLETED no_movement True) (andthen (tx_updateStatus M (tx_id child) COMPLETED None all_notifications)
      (case entry of None \<Rightarrow> ret () | Some f \<Rightarrow> andthen (fwt_updateStatus M (ft_id f) COMPLETED no_meta) (ret ()))))) (\<lambda>_. ahead (g + a)) (\<lambda>_ _. True)" for main
    by (rule triple_pure) (simp add: andthen_def [of "ret ()"] bind_ret_left credit_alone [OF r])
  have io: "io_of (Inr a) = (ret a :: (('s, 'm) ledger_world_scheme, int) io)" by (simp add: io_of_def ret_def)
  have "(completeFound M p parent wallet child entry :: (('s, 'm) ledger_world_scheme, unit) io) = andthen (repo_update_id tx_table (tx_id child) (paid_out child a (fw_balance wallet)))
     (bind (user_main_account (tx_user parent)) (\<lambda>main. andthen (case main of None \<Rightarrow> ret () | Some acct \<Rightarrow> andthen (depositMoney M (paga_order (ac_number acct) a p)) (ret ()))
     (andthen (updateBalance M (fw_id wallet) a (tx_id child) F_EXCHANGE COMPLETED no_movement True) (andthen (tx_updateStatus M (tx_id child) COMPLETED None all_notifications)
      (case entry of None \<Rightarrow> ret () | Some f \<Rightarrow> andthen (fwt_updateStatus M (ft_id f) COMPLETED no_meta) (ret ()))))))"
    unfolding completeFound_def assms(2) io bind_ret_left using assms(1) by (simp add: when_do_def)
  then show ?thesis by (simp only:) (rule triple_seq [OF triple_keeps [OF u] triple_bind [OF f c]], simp_all)
qed

lemma unpaid_proceeds:
  fixes w :: "('s, 'm) ledger_world_scheme"
  assumes "\<forall>v \<in> set (wallets w). fw_user v = tx_user parent \<and> fw_asset v = ''NGN'' \<longrightarrow> main_account v w = None"
  shows "wallets (snd (creditProceeds M p child entry parent a before w)) = wallets w"
    "ledger_accounts (snd (creditProceeds M p child entry parent a before w)) = ledger_accounts w"
proof -
  let ?body = "andthen (repo_update_id tx_table (tx_id child) (paid_out child a before))
     (bind (repo_findOne wallet_table (\<lambda>r. fw_user r = tx_user parent \<and> fw_asset r = ''NGN'')) (\<lambda>found. case found of
        None \<Rightarrow> throw undefined_row
      | Some wallet \<Rightarrow> bind get_state (\<lambda>w. case main_account wallet w of
          None \<Rightarrow> ret ()
        | Some acct \<Rightarrow> andthen (depositMoney M (paga_order (ac_number acct) a p))
            (andthen (updateBalance M (fw_id wallet) a (tx_id child) F_EXCHANGE COMPLETED (exchange_movement entry) True)
            (andthen (tx_updateStatus M (tx_id child) COMPLETED (Some no_meta) all_notifications) (ret ()))))))"
  have read: "wallets (snd (bind (repo_findOne wallet_table (\<lambda>r. fw_user r = tx_user parent \<and> fw_asset r = ''NGN'')) (\<lambda>found. case found of
        None \<Rightarrow> throw undefined_row
      | Some wallet \<Rightarrow> bind get_state (\<lambda>w. case main_account wallet w of None \<Rightarrow> ret () | Some acct \<Rightarrow> k wallet acct)) v)) = wallets w
      \<and> ledger_accounts (snd (bind (repo_findOne wallet_table (\<lambda>r. fw_user r = tx_user parent \<and> fw_asset r = ''NGN'')) (\<lambda>found. case found of
        None \<Rightarrow> throw undefined_row
      | Some wallet \<Rightarrow> bind get_state (\<lambda>w. case main_account wallet w of None \<Rightarrow> ret () | Some acct \<Rightarrow> k wallet acct)) v)) = ledger_accounts w"
    if "wallets v = wallets w" "account_rows v = account_rows w" "ledger_accounts v = ledger_accounts w"
    for v :: "('s, 'm) ledger_world_scheme" and k
    using that assms
    by (cases rule: wallets.findOne_cases [of "\<lambda>r. fw_user r = tx_user parent \<and> fw_asset r = ''NGN''" v])
      (auto simp: bind_run main_account_def find_None_iff split: option.split dest!: find_Some_in)
  have body: "wallets (snd (?body w)) = wallets w \<and> ledger_accounts (snd (?body w)) = ledger_accounts w"
    by (cases rule: txs.update_id_cases [of "tx_id child" "paid_out child a before" w]) (simp_all add: andthen_run read)
  obtain v w' where t: "transaction ?body w = (v, w')" by (cases "transaction ?body w")
  have "wallets w' = wallets w \<and> ledger_accounts w' = ledger_accounts w"
  proof (cases v)
    case (Inl e)
    then obtain w2 where "w' = rollback w w2" using transaction_aborts [of ?body w e] t by auto
    then show ?thesis by (simp add: rollback_def)
  next
    case (Inr x)
    with t have "transaction ?body w = (Inr x, w')" by simp
    then obtain w2 fs where "?body w = (Inr x, w2)" "w' = w2\<lparr>faults := fs\<rparr>" by (rule transaction_ok)
    then show ?thesis using body by simp
  qed
  then show "wallets (snd (creditProceeds M p child entry parent a before w)) = wallets w"
    "ledger_accounts (snd (creditProceeds M p child entry parent a before w)) = ledger_accounts w"
    unfolding creditProceeds_def t by simp_all
qed

section \<open>Every webhook keeps the books\<close>

lemma books_deposits: "triple sound_books (depositMoney M d) (\<lambda>_. sound_books) (\<lambda>_ _. True)"
  by (rule books_deposit.deposit_triple)

lemma books_again: "keeps sound_books m \<Longrightarrow> triple sound_books m (\<lambda>_. sound_books) (\<lambda>_ _. True)"
  by (rule triple_keeps) simp_all

lemma books_then: "keeps sound_books rest \<Longrightarrow> triple sound_books (andthen (depositMoney M d) rest) (\<lambda>_. sound_books) (\<lambda>_ _. True)"
  by (rule triple_seq [OF books_deposits books_again])

lemma books_transaction: "triple sound_books m (\<lambda>_. sound_books) (\<lambda>_ _. True) \<Longrightarrow> keeps sound_books (transaction m)"
  unfolding keeps_triple by (rule bank.commit_triple) simp_all

lemma books_bookDeposit: "keeps sound_books (bookDeposit M p t entry a)"
  unfolding bookDeposit_def
  by (rule books_transaction) (cases entry; auto intro!: books_then keeps_intros)

lemma books_proceeds: "keeps sound_books (creditProceeds M p child entry parent a before)"
proof -
  have c: "triple sound_books (case main_account wallet w of None \<Rightarrow> ret () | Some acct \<Rightarrow> andthen (depositMoney M (paga_order (ac_number acct) a p))
            (andthen (updateBalance M (fw_id wallet) a (tx_id child) F_EXCHANGE COMPLETED (exchange_movement entry) True)
            (andthen (tx_updateStatus M (tx_id child) COMPLETED (Some no_meta) all_notifications) (ret ())))) (\<lambda>_. sound_books) (\<lambda>_ _. True)" for wallet w
    by (cases "main_account wallet w") (auto intro!: triple_ret books_then keeps_intros)
  have d: "triple sound_books (case found of None \<Rightarrow> throw undefined_row | Some wallet \<Rightarrow> bind get_state (\<lambda>w. case main_account wallet w of None \<Rightarrow> ret ()
       | Some acct \<Rightarrow> andthen (depositMoney M (paga_order (ac_number acct) a p))
            (andthen (updateBalance M (fw_id wallet) a (tx_id child) F_EXCHANGE COMPLETED (exchange_movement entry) True)
            (andthen (tx_updateStatus M (tx_id child) COMPLETED (Some no_meta) all_notifications) (ret ()))))) (\<lambda>_. sound_books) (\<lambda>_ _. True)" for found
    by (cases found) (auto intro: triple_throw triple_bind [where Q' = "\<lambda>_. sound_books"] books_again keeps_intros c)
  show ?thesis unfolding creditProceeds_def
    by (intro books_transaction triple_seq [OF books_again] triple_bind [OF books_again d] keeps_intros)
qed

lemma books_record_proceeds: "keeps sound_books (recordProceeds M X p parent rate wallet kobo)"
proof -
  have n: "triple sound_books (createProceeds M X p parent rate wallet kobo) (\<lambda>_. sound_books) (\<lambda>_ _. True)"
  proof -
    have c: "triple sound_books (case main of None \<Rightarrow> ret t
       | Some acct \<Rightarrow> andthen (depositMoney M (paga_order (ac_number acct) a p))
          (andthen (updateBalance M (fw_id wallet) a (tx_id t) F_EXCHANGE COMPLETED no_movement True)
          (andthen (tx_updateStatus M (tx_id t) COMPLETED None all_notifications)
          (andthen (fwt_updateStatus M (ft_id f) COMPLETED no_meta) (ret t))))) (\<lambda>_. sound_books) (\<lambda>_ _. True)" for main a t f
      by (cases main) (auto intro!: triple_ret books_then keeps_intros)
    show ?thesis unfolding createProceeds_def user_main_account_def
      by (intro triple_bind [OF books_again] c keeps_intros)
  qed
  have f: "triple sound_books (completeFound M p parent wallet child entry) (\<lambda>_. sound_books) (\<lambda>_ _. True)" for child entry
  proof -
    have d: "triple sound_books (case main of None \<Rightarrow> ret () | Some acct \<Rightarrow> andthen (depositMoney M (paga_order (ac_number acct) a p)) (ret ())) (\<lambda>_. sound_books) (\<lambda>_ _. True)"
      for main a
      by (cases main) (auto intro!: triple_ret books_then keeps_intros)
    show ?thesis unfolding completeFound_def user_main_account_def when_do_def
      by (intro triple_if triple_bind [OF books_again] triple_seq [OF books_again] triple_seq [OF d] books_again keeps_intros triple_ret) simp_all
  qed
  have e: "triple sound_books (case existing of
        Some c \<Rightarrow> bind get_state (\<lambda>w. andthen (completeFound M p parent wallet c (List.find (\<lambda>f. ft_transaction f = tx_id c) (fwts w))) (ret c))
      | None \<Rightarrow> createProceeds M X p parent rate wallet kobo) (\<lambda>_. sound_books) (\<lambda>_ _. True)" for existing
    by (cases existing) (auto intro!: n triple_bind [OF books_again] triple_seq [OF f] triple_ret keeps_intros)
  show ?thesis unfolding recordProceeds_def
    by (intro books_transaction triple_bind [OF books_again e] keeps_intros)
qed

lemma books_inline: "keeps sound_books (checkAndCompleteUsdWithdrawal M X tid u)" "keeps sound_books (reconcileUsdBalanceFromProvider M c u)"
proof -
  show "keeps sound_books (checkAndCompleteUsdWithdrawal M X tid u)"
    unfolding checkAndCompleteUsdWithdrawal_def inlineSection_def find_entry_def find_tx_def find_external_def webhook_incoming_def newIncoming_def
      recordIncoming_def
    by (intro keeps_intros)
  show "keeps sound_books (reconcileUsdBalanceFromProvider M c u)"
    unfolding reconcileUsdBalanceFromProvider_def reconcileSection_def find_wallet_def by (intro keeps_intros books.wallet_writes)
qed

lemma books_every_webhook: "keeps sound_books (handlePersistentAccountWebhook M X p)"
proof -
  have r: "keeps sound_books (depositReported M p t entry)" for p t entry
    unfolding depositReported_def handleSuccessfulTransaction_def
    by (cases "transformToTransactionStatus (pg_status p)"; simp only: paga_status.case) (intro keeps_intros books_bookDeposit)+
  have t: "keeps sound_books (proceedsTries parent delay n)" for parent delay n
    by (induction n) (simp_all only: proceedsTries.simps, (intro keeps_intros; assumption?)+)
  have a: "keeps sound_books (proceedsArrived M X p parent)" for p parent
    unfolding proceedsArrived_def paga_completeExchangeTransaction_def createCompletedExchangeTransaction_def
    by (intro keeps_intros t books_proceeds books_record_proceeds)
  show ?thesis unfolding handlePersistentAccountWebhook_def depositWebhook_def handleExchangeTransaction_def
    by (intro keeps_intros r a books_inline)
qed

section \<open>A reference is credited once\<close>

definition own_ids :: "('s, 'm) ledger_world_scheme \<Rightarrow> bool" where
  "own_ids w \<longleftrightarrow> distinct (map lt_id (ledger_txs w))"

definition ledgered :: "string \<Rightarrow> ('s, 'm) ledger_world_scheme \<Rightarrow> bool" where
  "ledgered ref w \<longleftrightarrow> own_ids w \<and> (\<exists>t \<in> set (ledger_txs w). lt_reference t = ref)"

lemma ledgered_about [simp]: "about (\<lambda>w. (ledger_accounts w, ledger_txs w)) (ledgered ref)"
  "about (\<lambda>w. (ledger_accounts w, ledger_txs w)) (\<lambda>_. b)" "about (\<lambda>w. (ledger_accounts w, ledger_txs w)) own_ids"
  by (simp_all add: about_def ledgered_def own_ids_def)

text \<open>A reference that is in the ledger is refused, one that is accepted is in it.\<close>

lemma refused_record:
  "triple (ledgered (lt_reference row)) (ledgerTx_create M row) (\<lambda>_ _. False) (\<lambda>_ _. True)"
proof -
  have f: "triple (ledgered (lt_reference row)) (repo_findOne ledger_tx_table (\<lambda>t. lt_reference t = lt_reference row)) (\<lambda>x _. x \<noteq> None) (\<lambda>_ _. True)"
  proof (rule tripleI, goal_cases)
    case (1 w x w')
    then have "List.find (\<lambda>t. lt_reference t = lt_reference row) (ledger_txs w) \<noteq> None" by (auto simp: ledgered_def find_None_iff simp del: not_None_eq)
    with 1(2) show ?case
      by (cases rule: ledger_rows.findOne_cases [of "\<lambda>t. lt_reference t = lt_reference row" w]) simp_all
  qed simp
  have "triple (\<lambda>_. x \<noteq> None) (if x \<noteq> None then throw e else m) (\<lambda>_ _. False) (\<lambda>_ _. True)"
    for x :: "ledger_tx option" and e and m :: "(('s, 'm) ledger_world_scheme, ledger_tx) io"
    by (cases x) (simp_all add: triple_throw triple_def)
  then show ?thesis unfolding ledgerTx_create_def
    by (rule triple_catch [where R' = "\<lambda>_ _. True", OF triple_bind [OF f]]) (simp add: triple_throw)
qed

interpretation refused: deposit_contract "\<lambda>w. (ledger_accounts w, ledger_txs w)" d "ledgered (do_reference d)" "\<lambda>_. False" "\<lambda>_ _. False" for d
proof unfold_locales
  show "triple (ledgered (do_reference d)) (ledgerTx_create M (deposit_row d a)) (\<lambda>t _. False) (\<lambda>_ _. True)" for M d a
    using refused_record [of "deposit_row d a" M] by (simp add: deposit_row_def)
qed (simp_all add: triple_def)

lemma kept_update: "keeps (ledgered ref :: ('s, 'm) ledger_world_scheme \<Rightarrow> bool) (repo_update_id ledger_tx_table i (\<lambda>t. t\<lparr>lt_status := st\<rparr>))"
  unfolding keeps_def
proof (intro allI impI)
  fix w :: "('s, 'm) ledger_world_scheme"
  assume l: "ledgered ref w"
  then obtain t where t: "t \<in> set (ledger_txs w)" "lt_reference t = ref" and d: "distinct (map lt_id (ledger_txs w))" by (auto simp: ledgered_def own_ids_def)
  show "ledgered ref (snd (repo_update_id ledger_tx_table i (\<lambda>t. t\<lparr>lt_status := st\<rparr>) w))"
  proof (cases rule: ledger_rows.update_id_cases [of i "\<lambda>t. t\<lparr>lt_status := st\<rparr>" w])
    case (3 r fs)
    then have r: "List.find (\<lambda>t. lt_id t = i) (ledger_txs w) = Some r" "lt_id r = i" by (auto dest: find_Some_in)
    have "distinct (map lt_id (replace_row lt_id i (r\<lparr>lt_status := st\<rparr>) (ledger_txs w)))" by (rule distinct_replaced [OF d]) (simp add: r)
    moreover have "\<exists>t \<in> set (replace_row lt_id i (r\<lparr>lt_status := st\<rparr>) (ledger_txs w)). lt_reference t = ref"
    proof (cases "lt_id t = i")
      case True
      with found_row [OF d t(1)] r have "t = r" by simp
      then show ?thesis using t by (auto simp: replace_row_def)
    qed (use t in \<open>auto simp: replace_row_def\<close>)
    ultimately show ?thesis using 3 by (simp add: ledgered_def own_ids_def)
  qed (use l in \<open>simp_all add: ledgered_def own_ids_def\<close>)
qed

lemma accepted_record: "triple own_ids (ledgerTx_create M row) (\<lambda>_. ledgered (lt_reference row)) (\<lambda>_ _. True)"
proof -
  have c: "triple own_ids (repo_create ledger_tx_table (row\<lparr>lt_id := i\<rparr>)) (\<lambda>_. ledgered (lt_reference row)) (\<lambda>_ _. True)" for i
  proof (rule tripleI, goal_cases)
    case (1 w x w')
    then show ?case by (cases rule: ledger_rows.create_cases [of "row\<lparr>lt_id := i\<rparr>" w]) (auto simp: ledgered_def own_ids_def)
  qed simp
  note i = bank.conditions [OF ledgered_about(3)]
  have n: "triple own_ids (bind (new_value M) (\<lambda>i. repo_create ledger_tx_table (row\<lparr>lt_id := i\<rparr>))) (\<lambda>_. ledgered (lt_reference row)) (\<lambda>_ _. True)"
    by (rule triple_bind [OF triple_keeps [OF table_invariant.steps(3) [OF i], where Q = "\<lambda>_. own_ids"] c]) simp_all
  show ?thesis unfolding ledgerTx_create_def
    by (rule triple_catch [where R' = "\<lambda>_ _. True", OF triple_bind [OF triple_keeps [OF table_invariant.reads(1) [OF i], where Q = "\<lambda>_. own_ids"]
        triple_if [OF triple_throw n]]]) (simp_all add: triple_throw)
qed

lemma ledgered_accounts: "keeps (ledgered r :: ('s, 'm) ledger_world_scheme \<Rightarrow> bool) (repo_update_id ledger_table j g)"
  unfolding keeps_def
proof (intro allI impI)
  fix w :: "('s, 'm) ledger_world_scheme"
  assume "ledgered r w"
  then show "ledgered r (snd (repo_update_id ledger_table j g w))"
    by (cases rule: ledgers.update_id_cases [of j g w]) (simp_all add: ledgered_def own_ids_def)
qed

lemma ledgered_move: "keeps (ledgered r) (ledger_moveBalance a n i)"
  unfolding ledger_moveBalance_def ledgerTx_update_def
  by (intro keeps_intros kept_update ledgered_accounts table_invariant.reads(2) [OF bank.conditions [OF ledgered_about(1)]])

interpretation accepted: deposit_contract "\<lambda>w. (ledger_accounts w, ledger_txs w)" d own_ids "ledgered (do_reference d)" "\<lambda>_. ledgered (do_reference d)" for d
proof unfold_locales
  show "triple own_ids (ledgerTx_create M (deposit_row d a)) (\<lambda>t. ledgered (do_reference d)) (\<lambda>_ _. True)" for M d a
    using accepted_record [of M "deposit_row d a"] by (simp add: deposit_row_def)
  show "triple (\<lambda>w. ledgered (do_reference d) w \<and> a \<in> set (ledger_accounts w)) (ledger_moveBalance a (do_amount d - do_fee d) i)
      (\<lambda>_. ledgered (do_reference d)) (\<lambda>_ _. True)" for d a i
    by (rule triple_keeps [OF ledgered_move]) simp_all
qed simp_all

text \<open>Nothing that was there is credited: the ledger is as it was, and so are the balances of the wallets.\<close>

definition uncredited :: "(string \<Rightarrow> int option) \<Rightarrow> ledger_account list \<Rightarrow> ledger_tx list \<Rightarrow> string \<Rightarrow> ('s, 'm) ledger_world_scheme \<Rightarrow> bool" where
  "uncredited W A T ref w \<longleftrightarrow> ledgered ref w \<and> ledger_accounts w = A \<and> ledger_txs w = T \<and> (\<forall>i b. W i = Some b \<longrightarrow> balance_of w i = Some b)"

interpretation money: state_view "\<lambda>w. (wallets w, ledger_accounts w, ledger_txs w)"
  by unfold_locales simp

lemma uncredited_about [simp]: "about (\<lambda>w. (wallets w, ledger_accounts w, ledger_txs w)) (uncredited W A T ref)"
  "about (\<lambda>w. (wallets w, ledger_accounts w, ledger_txs w)) (\<lambda>_. b)"
  by (simp_all add: about_def uncredited_def ledgered_def own_ids_def balance_of_def)

lemma uncredited_kept:
  "keeps (uncredited W A T ref :: ('s, 'm) ledger_world_scheme \<Rightarrow> bool) (repo_create tx_table t)"
  "keeps (uncredited W A T ref :: ('s, 'm) ledger_world_scheme \<Rightarrow> bool) (repo_update_id tx_table i h)"
  "keeps (uncredited W A T ref :: ('s, 'm) ledger_world_scheme \<Rightarrow> bool) (repo_create fwt_table f)"
  "keeps (uncredited W A T ref :: ('s, 'm) ledger_world_scheme \<Rightarrow> bool) (repo_update_id fwt_table j k)"
proof -
  have w: "aside m \<Longrightarrow> (\<And>w. ledger_accounts (snd (m w)) = ledger_accounts w \<and> ledger_txs (snd (m w)) = ledger_txs w) \<Longrightarrow> keeps (uncredited W A T ref) m"
    for m :: "(('s, 'm) ledger_world_scheme, 'b) io"
    by (rule kept_about [OF _ uncredited_about(1)]) (simp add: aside_def)
  show "keeps (uncredited W A T ref :: ('s, 'm) ledger_world_scheme \<Rightarrow> bool) (repo_create tx_table t)" by (rule w [OF aside_writes(1) other_writes(1)])
  show "keeps (uncredited W A T ref :: ('s, 'm) ledger_world_scheme \<Rightarrow> bool) (repo_update_id tx_table i h)" by (rule w [OF aside_writes(3) other_writes(2)])
  show "keeps (uncredited W A T ref :: ('s, 'm) ledger_world_scheme \<Rightarrow> bool) (repo_create fwt_table f)" by (rule w [OF aside_writes(2) other_writes(3)])
  show "keeps (uncredited W A T ref :: ('s, 'm) ledger_world_scheme \<Rightarrow> bool) (repo_update_id fwt_table j k)" by (rule w [OF aside_writes(4) other_writes(4)])
qed

interpretation once: record_frame "uncredited W A T ref" "\<lambda>w. (wallets w, ledger_accounts w, ledger_txs w)" for W A T ref
  by (intro record_frame.intro record_frame_axioms.intro money.conditions uncredited_about uncredited_kept)

lemma new_wallet_uncredited: "keeps (uncredited W A T ref :: ('s, 'm) ledger_world_scheme \<Rightarrow> bool) (repo_create wallet_table v)"
  unfolding keeps_def
proof (intro allI impI)
  fix w :: "('s, 'm) ledger_world_scheme"
  assume u: "uncredited W A T ref w"
  show "uncredited W A T ref (snd (repo_create wallet_table v w))"
  proof (cases rule: wallets.create_cases [of v w])
    case (1 e fs)
    then show ?thesis using u by (auto simp: uncredited_def ledgered_def own_ids_def balance_of_def)
  next
    case (2 fs)
    from u have o: "balance_of w i = Some b" if "W i = Some b" for i b using that by (simp add: uncredited_def)
    have "balance_of (w\<lparr>faults := fs, wallets := v # wallets w\<rparr>) i = Some b" if "W i = Some b" for i b
    proof -
      have "fw_id v \<noteq> i" using o [OF that] 2(1) by (auto simp: balance_of_def dest!: find_Some_in)
      then show ?thesis using o [OF that] by (simp add: balance_of_def)
    qed
    with 2 u show ?thesis by (auto simp: uncredited_def ledgered_def own_ids_def)
  qed
qed

lemma wallet_uncredited [keeps_intros]: "keeps (uncredited W A T ref) (getUserWallet M u c)"
  unfolding getUserWallet_def find_wallet_def create_wallet_def by (intro keeps_intros new_wallet_uncredited)

lemma refused_deposit:
  assumes "pg_reference p = ref"
  shows "keeps (uncredited W A T ref :: ('s, 'm) ledger_world_scheme \<Rightarrow> bool) (bookDeposit M p t entry a)"
proof -
  have d: "triple (uncredited W A T ref :: ('s, 'm) ledger_world_scheme \<Rightarrow> bool) (depositMoney M (paga_order n a p)) (\<lambda>_ _. False) (\<lambda>_ _. True)" for n
    by (rule triple_conseq [OF refused.deposit_triple [of "paga_order n a p"]]) (use assms in \<open>simp_all add: uncredited_def\<close>)
  have f: "triple (\<lambda>_. False) m (\<lambda>_ _. False) (\<lambda>_ _. True)" for m :: "(('s, 'm) ledger_world_scheme, 'b) io"
    by (simp add: triple_def)
  have "triple (uncredited W A T ref :: ('s, 'm) ledger_world_scheme \<Rightarrow> bool) (bookDeposit M p t entry a) (\<lambda>_ _. False) (\<lambda>_. uncredited W A T ref)"
    unfolding bookDeposit_def by (rule money.commit_triple [where Q = "\<lambda>_ _. False"], simp, simp, rule triple_seq, rule d, rule f)
  then show ?thesis unfolding keeps_triple by (rule triple_conseq) simp_all
qed

lemma repeated_deposit:
  assumes "pg_reference p = ref"
  shows "keeps (uncredited W A T ref) (depositWebhook M p u)"
proof -
  have r: "keeps (uncredited W A T ref) (depositReported M p t entry)" for t entry
    unfolding depositReported_def handleSuccessfulTransaction_def
    by (cases "transformToTransactionStatus (pg_status p)"; simp only: paga_status.case) (intro keeps_intros refused_deposit assms)+
  show ?thesis unfolding depositWebhook_def by (intro keeps_intros r)
qed

text \<open>A deposit that is answered as completed is in the ledger.\<close>

interpretation ids: purse_frame own_ids "\<lambda>w. (ledger_accounts w, ledger_txs w)"
proof (intro purse_frame.intro record_frame.intro record_frame_axioms.intro purse_frame_axioms.intro)
  show "table_invariant own_ids (\<lambda>w. (ledger_accounts w, ledger_txs w))" by (rule bank.conditions) simp
qed (rule ledger_kept, simp)+

interpretation in_ledger: purse_frame "ledgered ref" "\<lambda>w. (ledger_accounts w, ledger_txs w)" for ref
proof (intro purse_frame.intro record_frame.intro record_frame_axioms.intro purse_frame_axioms.intro)
  show "table_invariant (ledgered ref) (\<lambda>w. (ledger_accounts w, ledger_txs w))" by (rule bank.conditions) simp
qed (rule ledger_kept, simp)+

lemma booked_is_ledgered: "triple own_ids (bookDeposit M p t entry a) (\<lambda>_. ledgered (pg_reference p)) (\<lambda>_. own_ids)"
proof -
  have d: "triple own_ids (depositMoney M (paga_order n a p)) (\<lambda>_. ledgered (pg_reference p)) (\<lambda>_ _. True)" for n
    using accepted.deposit_triple [of M "paga_order n a p"] by simp
  have "keeps (ledgered (pg_reference p)) (case entry of None \<Rightarrow> throw undefined_row
       | Some f \<Rightarrow> andthen (updateBalance M (ft_wallet f) a (tx_id t) F_DEPOSIT COMPLETED (deposit_movement p (ft_id f)) True)
          (updateFiatWalletTransactionAndTransaction M (tx_id t) (ft_id f) COMPLETED))"
    by (intro keeps_intros)
  then show ?thesis unfolding bookDeposit_def
    by (intro bank.commit_triple triple_seq [OF d] triple_keeps) simp_all
qed

text \<open>
  The contract of a deposit's webhook: a condition \<open>P\<close> before it and \<open>Q\<close> once it is booked. The records and
  messages around it keep both, so an answer that the transaction is completed means \<open>Q\<close>.
\<close>

locale deposit_outcome = before: purse_frame P seen + after: purse_frame Q seen
  for P Q :: "('s, 'm) ledger_world_scheme \<Rightarrow> bool" and seen :: "('s, 'm) ledger_world_scheme \<Rightarrow> 'v" +
  fixes p :: paga_payload
  assumes booking: "paga_amount p = Inr a \<Longrightarrow> triple P (bookDeposit M p t entry a) (\<lambda>_. Q) (\<lambda>_. P)"
begin

lemma handled: "triple P (andthen (handleSuccessfulTransaction M p t entry) (ret x)) (\<lambda>_. Q) (\<lambda>_ _. True)"
proof -
  have k: "keeps Q (andthen (updateTransactionBalanceAfter a t) (andthen (sendDepositSuccessfulPushNotification M t a) (sendDepositSuccessfulEmail M t a)))" for a
    by (intro keeps_intros)
  have b: "triple P (andthen (bookDeposit M p t entry a) (andthen (updateTransactionBalanceAfter a t) (andthen (sendDepositSuccessfulPushNotification M t a)
      (sendDepositSuccessfulEmail M t a)))) (\<lambda>_. Q) (\<lambda>_ _. True)" if "paga_amount p = Inr a" for a
    by (rule triple_seq [OF triple_conseq [OF booking [OF that]] triple_keeps [OF k]]) simp_all
  have "triple P (handleSuccessfulTransaction M p t entry) (\<lambda>_. Q) (\<lambda>_ _. True)" unfolding handleSuccessfulTransaction_def
    by (rule triple_bind [where Q' = "\<lambda>a w. paga_amount p = Inr a \<and> P w"], rule triple_io_of, simp_all, rule triple_pure, rule b)
  then show ?thesis by (rule triple_seq [OF _ triple_ret]) simp
qed

lemma reported: "triple P (depositReported M p t entry) (\<lambda>x w. x = ''Transaction completed'' \<longrightarrow> Q w) (\<lambda>_ _. True)"
proof (cases "transformToTransactionStatus (pg_status p)")
  case PAGA_SUCCESS
  then show ?thesis unfolding depositReported_def by (simp add: triple_conseq [OF handled])
next
  case PAGA_FAILED
  have x: "triple (\<lambda>_. True) (andthen m (ret ''Transaction failed'')) (\<lambda>x w. x = ''Transaction completed'' \<longrightarrow> Q w) (\<lambda>_ _. True)"
    for m :: "(('s, 'm) ledger_world_scheme, unit) io"
    by (rule triple_seq [where Q' = "\<lambda>_. True"]) (simp_all add: triple_def split: sum.split)
  show ?thesis unfolding depositReported_def PAGA_FAILED paga_status.case
    by (cases entry; simp only: option.case) (rule triple_throw, simp, rule triple_conseq [OF x], simp_all)
qed (simp add: depositReported_def triple_ret)

lemma outcome: "triple P (depositWebhook M p u) (\<lambda>x w. x = ''Transaction completed'' \<longrightarrow> Q w) (\<lambda>_ _. True)"
proof -
  have o: "triple P m (\<lambda>_. P) (\<lambda>_ _. True)" if "keeps P m" for m :: "(('s, 'm) ledger_world_scheme, 'b) io"
    by (rule triple_keeps [OF that]) simp_all
  have c: "triple P (case x of (t, f) \<Rightarrow> depositReported M p t (Some f)) (\<lambda>x w. x = ''Transaction completed'' \<longrightarrow> Q w) (\<lambda>_ _. True)" for x
    by (cases x) (simp add: reported)
  have found: "triple P (case y of
         Some t \<Rightarrow> if tx_status t = COMPLETED then ret ''Transaction already completed''
           else bind (repo_findOne fwt_table (\<lambda>f. ft_transaction f = tx_id t)) (depositReported M p t)
       | None \<Rightarrow> bind (createTransactionAndFiatWalletTransaction M u p wallet) (\<lambda>(t, f). depositReported M p t (Some f)))
     (\<lambda>x w. x = ''Transaction completed'' \<longrightarrow> Q w) (\<lambda>_ _. True)" for y wallet
  proof (cases y)
    case None
    show ?thesis unfolding None option.case by (rule triple_bind [OF o c]) (intro keeps_intros)
  next
    case (Some t)
    show ?thesis unfolding Some option.case
      by (rule triple_if, rule triple_ret, simp, rule triple_bind [OF o reported]) (intro keeps_intros)
  qed
  show ?thesis unfolding depositWebhook_def
    by (rule triple_bind [OF o triple_bind [OF o found]]) (intro keeps_intros)+
qed

end

interpretation ledgered_outcome: deposit_outcome own_ids "ledgered (pg_reference p)" "\<lambda>w. (ledger_accounts w, ledger_txs w)" p for p
  by (intro deposit_outcome.intro deposit_outcome_axioms.intro ids.purse_frame_axioms in_ledger.purse_frame_axioms booked_is_ledgered)

lemma completed_is_ledgered:
  "triple own_ids (depositWebhook M p u) (\<lambda>x w. x = ''Transaction completed'' \<longrightarrow> ledgered (pg_reference p) w) (\<lambda>_ _. True)"
  by (rule ledgered_outcome.outcome)

end
