(* ===== verification/PagaReports.thy ===== *)
theory PagaReports
  imports PagaMoney
begin

text \<open>
  The properties of the webhook of the naira bank (\<^verbatim>\<open>paga-webhook.service.ts\<close>) over any reports and any failures: naira
  reach the wallet and the ledger together, the ledger adds up, a reference is credited once; and the exceptions the
  code makes, for accounts that are missing and deposits that were reported as failed before.
\<close>

section \<open>A small instance\<close>

text \<open>A Redis server without other clients: every key is free, and every lock is still held when it is released.\<close>

definition quiet_redis :: "unit redis_env" where
  "quiet_redis = \<lparr>srv = (\<lambda>c t s. (Inr (case c of SETNX _ _ _ \<Rightarrow> ROk | _ \<Rightarrow> RInt 1), ())), keyPrefix = ''app''\<rparr>"

definition demo_naira_env :: "unit money_env" where
  "demo_naira_env = \<lparr>m_redis = quiet_redis, m_fresh = show_nat, m_ext = (\<lambda>_ _ _. Inr (JObj [])), m_patience = 1,
     waas_provider = ''paga'', waas_bank_code = ''000''\<rparr>"

definition demo_naira_config :: exchange_config where
  "demo_naira_config = \<lparr>xc_provider = ''zerohash'', xc_underlying = ''USDC'', xc_production = True, xc_exchange = ''yellowcard''\<rparr>"

definition demo_ledger :: ledger_account where
  "demo_ledger = \<lparr>la_id = ''l'', la_email = ''ada@x.io'', la_phone = None, la_number = ''001'', la_name = ''Ada'', la_balance = 0\<rparr>"

definition demo_purse :: wallet_row where
  "demo_purse = \<lparr>fw_id = ''w'', fw_user = ''u'', fw_asset = ''NGN'', fw_balance = 0, fw_credit = 0, fw_status = ''active'', fw_accounts = []\<rparr>"

definition demo_main :: account_row where
  "demo_main = \<lparr>ac_id = ''v'', ac_user = ''u'', ac_wallet = Some ''w'', ac_name = ''Ada'', ac_number = ''001'', ac_bank = ''Paga'', ac_bank_ref = ''b'',
     ac_routing = ''1'', ac_provider = ''paga'', ac_type = MAIN_ACCOUNT, ac_transaction = None, ac_deletion = None, ac_profile = []\<rparr>"

definition demo_naira :: "unit ledger_world" where
  "demo_naira = \<lparr>rds = (), now = 0, faults = [], outbox = [], draws = 0, wallets = [demo_purse], txs = [], fwts = [],
     rate_rows = [], rate_config_rows = [], account_rows = [demo_main], card_rows = [], external_rows = [], chain_rows = [],
     ledger_accounts = [demo_ledger], ledger_txs = []\<rparr>"

definition demo_naira_report :: paga_payload where
  "demo_naira_report = \<lparr>pg_status = ''success'', pg_reference = ''r'', pg_account = ''001'', pg_amount = ''0.05'', pg_clearing = ''0'',
     pg_payer = ''Bob'', pg_payer_account = ''002'', pg_payer_bank = ''b''\<rparr>"

section \<open>Sequences of reports\<close>

primrec bank_reports :: "'s money_env \<Rightarrow> exchange_config \<Rightarrow> paga_payload list \<Rightarrow> ('s, 'm) ledger_world_scheme \<Rightarrow> ('s, 'm) ledger_world_scheme" where
  "bank_reports M X [] w = w"
| "bank_reports M X (p # ps) w = bank_reports M X ps (snd (handlePersistentAccountWebhook M X p w))"

primrec deposit_reports :: "'s money_env \<Rightarrow> (paga_payload \<times> string) list \<Rightarrow> ('s, 'm) ledger_world_scheme \<Rightarrow> ('s, 'm) ledger_world_scheme" where
  "deposit_reports M [] w = w"
| "deposit_reports M (d # ds) w = deposit_reports M ds (snd (depositWebhook M (fst d) (snd d) w))"

lemma reported_keeps:
  assumes "\<And>p. keeps I (handlePersistentAccountWebhook M X p)" "I w"
  shows "I (bank_reports M X ps w)"
  using assms(2) by (induction ps arbitrary: w) (simp_all add: keepsD [OF assms(1)])

lemma deposited_keeps:
  assumes "\<And>p u. (p, u) \<in> set ds \<Longrightarrow> keeps I (depositWebhook M p u)" "I w"
  shows "I (deposit_reports M ds w)"
  using assms
proof (induction ds arbitrary: w)
  case (Cons d ds)
  then have "I (snd (depositWebhook M (fst d) (snd d) w))" by (cases d) (auto intro: keepsD)
  with Cons show ?case by simp
qed simp

section \<open>What a completed deposit credits\<close>

definition ledger_holds :: "int \<Rightarrow> ('s, 'm) ledger_world_scheme \<Rightarrow> bool" where
  "ledger_holds n w \<longleftrightarrow> distinct (map la_id (ledger_accounts w)) \<and> ledger_total w = n"

lemma ledger_holds_about [simp]: "about (\<lambda>w. (ledger_accounts w, ledger_txs w)) (ledger_holds n)"
  "about (\<lambda>w. (ledger_accounts w, ledger_txs w)) (\<lambda>w. ledger_holds n w \<and> a \<in> set (ledger_accounts w))"
  by (simp_all add: about_def ledger_holds_def ledger_total_def)

interpretation holds: purse_frame "ledger_holds n" "\<lambda>w. (ledger_accounts w, ledger_txs w)" for n
proof (intro purse_frame.intro record_frame.intro record_frame_axioms.intro purse_frame_axioms.intro)
  show "table_invariant (ledger_holds n) (\<lambda>w. (ledger_accounts w, ledger_txs w))" by (rule bank.conditions) simp
qed (rule ledger_kept, simp)+

lemma holds_rows:
  "keeps (ledger_holds n :: ('s, 'm) ledger_world_scheme \<Rightarrow> bool) (repo_create ledger_tx_table t)"
  "keeps (ledger_holds n :: ('s, 'm) ledger_world_scheme \<Rightarrow> bool) (repo_update_id ledger_tx_table i h)"
proof -
  have s: "about ledger_accounts (ledger_holds n :: ('s, 'm) ledger_world_scheme \<Rightarrow> bool)" by (simp add: about_def ledger_holds_def ledger_total_def)
  have "ledger_accounts (snd (repo_create ledger_tx_table t w)) = ledger_accounts w" for w :: "('s, 'm) ledger_world_scheme"
    by (cases rule: ledger_rows.create_cases [of t w]) simp_all
  then show "keeps (ledger_holds n :: ('s, 'm) ledger_world_scheme \<Rightarrow> bool) (repo_create ledger_tx_table t)" by (rule kept_about [OF _ s])
  have "ledger_accounts (snd (repo_update_id ledger_tx_table i h w)) = ledger_accounts w" for w :: "('s, 'm) ledger_world_scheme"
    by (cases rule: ledger_rows.update_id_cases [of i h w]) simp_all
  then show "keeps (ledger_holds n :: ('s, 'm) ledger_world_scheme \<Rightarrow> bool) (repo_update_id ledger_tx_table i h)" by (rule kept_about [OF _ s])
qed

lemma holds_move:
  "triple (\<lambda>w. ledger_holds n w \<and> a \<in> set (ledger_accounts w)) (ledger_moveBalance a d tid) (\<lambda>_. ledger_holds (n + d)) (\<lambda>_ _. True)"
proof -
  have k: "keeps (ledger_holds m) (ledgerTx_update tid st)" for m st
    unfolding ledgerTx_update_def by (intro keeps_intros holds_rows)
  have u: "triple (\<lambda>w. ledger_holds n w \<and> a \<in> set (ledger_accounts w)) (repo_update_id ledger_table (la_id a) (\<lambda>x. x\<lparr>la_balance := la_balance a + d\<rparr>))
     (\<lambda>_. ledger_holds (n + d)) (\<lambda>_ _. True)"
  proof (rule tripleI, goal_cases)
    case (1 w x w')
    then have ids: "distinct (map la_id (ledger_accounts w))" and a: "a \<in> set (ledger_accounts w)" by (simp_all add: ledger_holds_def)
    from 1(2) found_row [OF ids a] obtain fs
      where w': "w' = w\<lparr>faults := fs, ledger_accounts := replace_row la_id (la_id a) (a\<lparr>la_balance := la_balance a + d\<rparr>) (ledger_accounts w)\<rparr>"
      by (cases rule: ledgers.update_id_cases [of "la_id a" "\<lambda>x. x\<lparr>la_balance := la_balance a + d\<rparr>" w]) auto
    show ?case using 1(1) replaced_ledger [OF ids a, of "la_balance a + d"] distinct_replaced [OF ids, of "a\<lparr>la_balance := la_balance a + d\<rparr>" "la_id a"]
      by (simp add: w' ledger_holds_def ledger_total_def)
  qed simp
  show ?thesis unfolding ledger_moveBalance_def
    by (intro triple_catch [where R' = "\<lambda>_ _. True"] triple_bind [OF u] triple_seq [OF triple_keeps [OF k]] triple_ret triple_throw) simp_all
qed

interpretation holds_deposit: deposit_contract "\<lambda>w. (ledger_accounts w, ledger_txs w)" d "ledger_holds n" "ledger_holds (n + (do_amount d - do_fee d))"
    "\<lambda>_. ledger_holds n" for d n
proof unfold_locales
  have "keeps (ledger_holds n :: ('s, 'm) ledger_world_scheme \<Rightarrow> bool) (ledgerTx_create M row)" for M :: "'s money_env" and row
    unfolding ledgerTx_create_def by (intro keeps_intros holds_rows)
  then show "triple (ledger_holds n :: ('s, 'm) ledger_world_scheme \<Rightarrow> bool) (ledgerTx_create M (deposit_row d a)) (\<lambda>_. ledger_holds n) (\<lambda>_ _. True)" for M :: "'s money_env" and a
    by (intro triple_keeps) simp_all
qed (simp_all add: holds_move)

lemma credits_ledger: "triple (ledger_holds n) (bookDeposit M p t entry a) (\<lambda>_. ledger_holds (n + a)) (\<lambda>_. ledger_holds n)"
proof -
  have d: "triple (ledger_holds n) (depositMoney M (paga_order k a p)) (\<lambda>_. ledger_holds (n + a)) (\<lambda>_ _. True)" for k
    using holds_deposit.deposit_triple [of n M "paga_order k a p"] by simp
  have "keeps (ledger_holds (n + a)) (case entry of None \<Rightarrow> throw undefined_row
       | Some f \<Rightarrow> andthen (updateBalance M (ft_wallet f) a (tx_id t) F_DEPOSIT COMPLETED (deposit_movement p (ft_id f)) True)
          (updateFiatWalletTransactionAndTransaction M (tx_id t) (ft_id f) COMPLETED))"
    by (intro keeps_intros)
  then show ?thesis unfolding bookDeposit_def
    by (intro bank.commit_triple triple_seq [OF d] triple_keeps) simp_all
qed

lemma credit_outcome:
  assumes "paga_amount p = Inr a"
  shows "deposit_outcome (ledger_holds n) (ledger_holds (n + a)) (\<lambda>w. (ledger_accounts w, ledger_txs w)) p"
  using assms by (intro deposit_outcome.intro deposit_outcome_axioms.intro holds.purse_frame_axioms) (simp add: credits_ledger)

section \<open>A status that is final\<close>

definition final :: "string \<Rightarrow> tx_status \<Rightarrow> ('s, 'm) money_world_scheme \<Rightarrow> bool" where
  "final i s w \<longleftrightarrow> status_of w i = Some s \<and> terminal s"

interpretation final_tx: status_invariant "final i s" for i s
proof unfold_locales
  show "keeps (final i s :: ('s, 'm) money_world_scheme \<Rightarrow> bool) (tx_section M j st mo opts)" for M :: "'s money_env" and j st mo opts
    using keeps_terminal [of i s M j st mo opts] by (simp add: final_def [abs_def])
qed (simp_all add: final_def status_of_def)

lemma final_create [keeps_intros]: "keeps (final i s :: ('s, 'm) money_world_scheme \<Rightarrow> bool) (repo_create tx_table t)"
  unfolding keeps_def
proof (intro allI impI)
  fix w :: "('s, 'm) money_world_scheme"
  assume "final i s w"
  then show "final i s (snd (repo_create tx_table t w))"
    by (cases rule: txs.create_cases [of t w]) (auto simp: final_def status_of_def image_iff dest!: find_Some_in)
qed

lemma final_update:
  assumes "\<And>r. tx_id (g r) = tx_id r" "\<And>r. tx_status (g r) = tx_status r"
  shows "keeps (final i s :: ('s, 'm) money_world_scheme \<Rightarrow> bool) (repo_update_id tx_table j g)"
  unfolding keeps_def
proof (intro allI impI)
  fix w :: "('s, 'm) money_world_scheme"
  assume f: "final i s w"
  show "final i s (snd (repo_update_id tx_table j g w))"
  proof (cases rule: txs.update_id_cases [of j g w])
    case (3 r fs)
    then have r: "List.find (\<lambda>r. tx_id r = j) (txs w) = Some r" and id: "tx_id (g r) = j" using assms(1) by (auto dest: find_Some_in)
    with 3 f show ?thesis by (cases "i = j") (simp_all add: final_def status_of_def find_replaced [OF r id] assms(2))
  qed (use f in \<open>simp_all add: final_def status_of_def\<close>)
qed

lemma final_deposits: "keeps (final i s :: ('s, 'm) ledger_world_scheme \<Rightarrow> bool) (depositWebhook M p u)"
proof -
  have l: "keeps (final i s :: ('s, 'm) ledger_world_scheme \<Rightarrow> bool) (repo_create ledger_tx_table t)"
    "keeps (final i s :: ('s, 'm) ledger_world_scheme \<Rightarrow> bool) (repo_update_id ledger_tx_table j h)"
    "keeps (final i s :: ('s, 'm) ledger_world_scheme \<Rightarrow> bool) (repo_update_id ledger_table j k)" for t j h k
    unfolding repo_create_def repo_update_id_def by (intro keeps_intros final_tx.frame; simp)+
  have d: "keeps (final i s :: ('s, 'm) ledger_world_scheme \<Rightarrow> bool) (depositMoney M d)" for d
    unfolding depositMoney_def depositSection_def find_ledger_def ledgerTx_create_def depositBooked_def ledger_updateBalance_def ledgerBalanceSection_def
      ledgerTx_findOne_def ledger_moveBalance_def ledgerTx_update_def
    by (intro keeps_intros l)
  have r: "keeps (final i s :: ('s, 'm) ledger_world_scheme \<Rightarrow> bool) (depositReported M p t entry)" for t entry
    unfolding depositReported_def handleSuccessfulTransaction_def bookDeposit_def updateFiatWalletTransactionAndTransaction_def
      updateTransactionBalanceAfter_def sendDepositSuccessfulPushNotification_def sendDepositSuccessfulEmail_def
    by (cases "transformToTransactionStatus (pg_status p)"; simp only: paga_status.case) (intro keeps_intros d final_update; simp)+
  show ?thesis unfolding depositWebhook_def createTransactionAndFiatWalletTransaction_def tx_create_def
    by (intro keeps_intros r)
qed

section \<open>Properties\<close>

lemma completed_amount:
  fixes w :: "('s, 'm) ledger_world_scheme"
  assumes "distinct (map la_id (ledger_accounts w))" "depositWebhook M p u w = (Inr ''Transaction completed'', w')"
  shows "\<exists>a. paga_amount p = Inr a \<and> ledger_total w' = ledger_total w + a"
proof -
  have h: "ledger_holds (ledger_total w) w" using assms(1) by (simp add: ledger_holds_def)
  have l: "ledger_total w' = m" if "deposit_outcome (ledger_holds (ledger_total w)) (ledger_holds m) (\<lambda>w :: ('s, 'm) ledger_world_scheme. (ledger_accounts w, ledger_txs w)) p" for m
    using triple_ok [OF deposit_outcome.outcome [OF that] h assms(2)] by (simp add: ledger_holds_def)
  show ?thesis
  proof (cases "paga_amount p")
    case (Inl e)
    then have "deposit_outcome (ledger_holds n) (ledger_holds m) (\<lambda>w :: ('s, 'm) ledger_world_scheme. (ledger_accounts w, ledger_txs w)) p" for n m
      by (intro deposit_outcome.intro deposit_outcome_axioms.intro holds.purse_frame_axioms) simp
    with l [of 0] l [of 1] show ?thesis by simp
  next
    case (Inr a)
    then show ?thesis using l [OF credit_outcome [OF Inr]] by blast
  qed
qed

text \<open>
  C14: whatever a report of a deposit does and whatever fails, the wallets stay as far ahead of the ledger as they were;
  and when it answers that the transaction is completed, both have grown by the amount that was reported.
\<close>

theorem deposit_credits_both:
  fixes w :: "('s, 'm) ledger_world_scheme"
  assumes "distinct (map fw_id (wallets w))" "distinct (map la_id (ledger_accounts w))" "depositWebhook M p u w = (r, w')"
  shows "total_balance w' - ledger_total w' = total_balance w - ledger_total w
    \<and> (r = Inr ''Transaction completed'' \<longrightarrow>
        (\<exists>a. paga_amount p = Inr a \<and> total_balance w' = total_balance w + a \<and> ledger_total w' = ledger_total w + a))"
proof -
  have level: "total_balance w' - ledger_total w' = total_balance w - ledger_total w"
    using keepsD [OF deposits_level, of "total_balance w - ledger_total w" w M p u] assms by (simp add: ahead_def)
  then show ?thesis using completed_amount [OF assms(2), of M p u w'] assms(3) by auto
qed

text \<open>
  C15: through any reports of the bank, on deposits and on exchanges, and whatever fails on the way, the balance of
  every ledger account is the sum of what its successful transactions added.
\<close>

theorem ledger_books_sound:
  fixes w :: "('s, 'm) ledger_world_scheme"
  assumes "sound_books w"
  shows "sound_books (bank_reports M X ps w)"
  by (rule reported_keeps [OF books_every_webhook assms])

text \<open>
  C16: after a deposit was answered as completed, later reports of its reference, in any number and with any other
  contents, change neither the ledger nor the balance of a wallet that exists.
\<close>

theorem reference_credited_once:
  fixes w :: "('s, 'm) ledger_world_scheme"
  assumes "distinct (map lt_id (ledger_txs w))" "depositWebhook M p u w = (Inr ''Transaction completed'', w1)"
    and "\<And>d. d \<in> set ds \<Longrightarrow> pg_reference (fst d) = pg_reference p"
  shows "ledger_accounts (deposit_reports M ds w1) = ledger_accounts w1 \<and> ledger_txs (deposit_reports M ds w1) = ledger_txs w1
    \<and> (\<forall>i b. balance_of w1 i = Some b \<longrightarrow> balance_of (deposit_reports M ds w1) i = Some b)"
proof -
  let ?U = "uncredited (balance_of w1) (ledger_accounts w1) (ledger_txs w1) (pg_reference p)"
  have "ledgered (pg_reference p) w1" using triple_ok [OF completed_is_ledgered _ assms(2)] assms(1) by (simp add: own_ids_def)
  then have "?U w1" by (simp add: uncredited_def)
  moreover have "keeps (?U :: ('s, 'm) ledger_world_scheme \<Rightarrow> bool) (depositWebhook M q v)" if "(q, v) \<in> set ds" for q v
    by (rule repeated_deposit) (use assms(3) [OF that] in simp)
  ultimately have "?U (deposit_reports M ds w1)" by (rule deposited_keeps [rotated])
  then show ?thesis by (simp add: uncredited_def)
qed

text \<open>
  C17: a deposit that was reported as failed and is then reported as successful is credited, to the wallet and to the
  ledger, but its transaction stays failed: a failed status is final.
\<close>

theorem failed_deposit_credited:
  fixes w :: "('s, 'm) ledger_world_scheme"
  assumes "distinct (map fw_id (wallets w))" "distinct (map la_id (ledger_accounts w))" "distinct (map tx_id (txs w))"
    and "List.find (\<lambda>t. tx_reference t = pg_reference p) (txs w) = Some t" "tx_status t = FAILED"
    and "paga_amount p = Inr a" "depositWebhook M p u w = (Inr ''Transaction completed'', w')"
  shows "total_balance w' = total_balance w + a \<and> ledger_total w' = ledger_total w + a \<and> status_of w' (tx_id t) = Some FAILED"
proof -
  have "List.find (\<lambda>r. tx_id r = tx_id t) (txs w) = Some t" using found_row [OF assms(3)] assms(4) by (auto dest: find_Some_in)
  then have f: "final (tx_id t) FAILED w" using assms(5) by (simp add: final_def status_of_def terminal_def)
  have "status_of w' (tx_id t) = Some FAILED" using keepsD [OF final_deposits f, of M p u] assms(7) by (simp add: final_def)
  moreover have "total_balance w' - ledger_total w' = total_balance w - ledger_total w"
    using keepsD [OF deposits_level, of "total_balance w - ledger_total w" w M p u] assms by (simp add: ahead_def)
  ultimately show ?thesis using completed_amount [OF assms(2,7)] assms(6) by auto
qed

text \<open>
  C25: when another report has recorded the proceeds of an exchange meanwhile and the user has no main account, the proceeds are
  credited to the wallet and not to the ledger, so that the wallets get ahead of it by the amount.
\<close>

theorem late_proceeds_unbooked:
  fixes w :: "('s, 'm) ledger_world_scheme"
  assumes "distinct (map fw_id (wallets w))" "distinct (map la_id (ledger_accounts w))" "no_main_account (tx_user parent) w"
    and "tx_status child \<noteq> COMPLETED" "paga_amount p = Inr a" "completeFound M p parent wallet child entry w = (Inr (), w')"
  shows "total_balance w' - ledger_total w' = total_balance w - ledger_total w + a"
  using triple_ok [OF unbooked_triple [OF assms(4,5)] _ assms(6), of "total_balance w - ledger_total w"] assms(1-3) by (simp add: ahead_def)

text \<open>
  C26: without a main account the proceeds of an exchange are not credited, to the wallet or to the ledger, although the webhook
  succeeds and its transaction now has the amount and the balances of a credit.
\<close>

theorem proceeds_not_paid:
  fixes w :: "('s, 'm) ledger_world_scheme"
  assumes "faults w = []" "List.find (\<lambda>r. tx_id r = tx_id child) (txs w) = Some r"
    and "List.find (\<lambda>v. fw_user v = tx_user parent \<and> fw_asset v = ''NGN'') (wallets w) = Some v" "main_account v w = None"
  shows "\<exists>w'. creditProceeds M p child entry parent a before w = (Inr (), w') \<and> wallets w' = wallets w \<and> ledger_accounts w' = ledger_accounts w
    \<and> txs w' = replace_row tx_id (tx_id child) (paid_out child a before r) (txs w)"
proof -
  let ?w = "w\<lparr>txs := replace_row tx_id (tx_id child) (paid_out child a before r) (txs w)\<rparr>"
  have "creditProceeds M p child entry parent a before w = (Inr (), ?w)" unfolding creditProceeds_def
    by (rule transaction_calm) (use assms in \<open>simp_all add: andthen_run bind_run txs.update_id_calm wallets.findOne_calm main_account_def\<close>)
  then show ?thesis by simp
qed

section \<open>Instances\<close>

lemma demo_completed:
  "depositWebhook demo_naira_env demo_naira_report ''u'' demo_naira
    = (Inr ''Transaction completed'', snd (depositWebhook demo_naira_env demo_naira_report ''u'' demo_naira))"
proof -
  have "fst (depositWebhook demo_naira_env demo_naira_report ''u'' demo_naira) = Inr ''Transaction completed''" by code_simp
  then show ?thesis by (metis prod.collapse)
qed

lemma demo_rows: "distinct (map fw_id (wallets demo_naira))" "distinct (map la_id (ledger_accounts demo_naira))"
  "distinct (map lt_id (ledger_txs demo_naira))" "total_balance demo_naira = 0" "ledger_total demo_naira = 0" "paga_amount demo_naira_report = Inr 5"
  by code_simp+

theorem deposit_credits_both_witness:
  "total_balance (snd (depositWebhook demo_naira_env demo_naira_report ''u'' demo_naira)) = 5
    \<and> ledger_total (snd (depositWebhook demo_naira_env demo_naira_report ''u'' demo_naira)) = 5"
  using deposit_credits_both [OF demo_rows(1,2) demo_completed] by (simp add: demo_rows)

theorem ledger_books_sound_witness:
  "sound_books (bank_reports demo_naira_env demo_naira_config [demo_naira_report, demo_naira_report\<lparr>pg_reference := ''s''\<rparr>] demo_naira)"
  by (rule ledger_books_sound) code_simp

theorem reference_credited_once_witness:
  "ledger_accounts (deposit_reports demo_naira_env [(demo_naira_report\<lparr>pg_amount := ''7''\<rparr>, ''u'')]
      (snd (depositWebhook demo_naira_env demo_naira_report ''u'' demo_naira)))
    = ledger_accounts (snd (depositWebhook demo_naira_env demo_naira_report ''u'' demo_naira))"
  using reference_credited_once [OF demo_rows(3) demo_completed, of "[(demo_naira_report\<lparr>pg_amount := ''7''\<rparr>, ''u'')]"] by simp

text \<open>The deposit was reported as failed before.\<close>

definition demo_unpaid :: tx_row where
  "demo_unpaid = (paga_tx demo_naira_report demo_purse 5)\<lparr>tx_id := ''t'', tx_user := ''u'', tx_status := FAILED\<rparr>"

definition demo_refused :: "unit ledger_world" where
  "demo_refused = demo_naira\<lparr>txs := [demo_unpaid], fwts := [(paga_entry demo_naira_env demo_naira_report demo_purse 5 0 demo_unpaid 0)
     \<lparr>ft_id := ''f'', ft_user := ''u'', ft_status := FAILED\<rparr>]\<rparr>"

theorem failed_deposit_credited_witness:
  "total_balance (snd (depositWebhook demo_naira_env demo_naira_report ''u'' demo_refused)) = 5
    \<and> status_of (snd (depositWebhook demo_naira_env demo_naira_report ''u'' demo_refused)) ''t'' = Some FAILED"
proof -
  let ?run = "depositWebhook demo_naira_env demo_naira_report ''u'' demo_refused"
  have "fst ?run = Inr ''Transaction completed''" by code_simp
  then have run: "?run = (Inr ''Transaction completed'', snd ?run)" by (metis prod.collapse)
  have rows: "distinct (map fw_id (wallets demo_refused))" "distinct (map la_id (ledger_accounts demo_refused))" "distinct (map tx_id (txs demo_refused))"
    "List.find (\<lambda>t. tx_reference t = pg_reference demo_naira_report) (txs demo_refused) = Some demo_unpaid" "tx_status demo_unpaid = FAILED"
    "total_balance demo_refused = 0" "tx_id demo_unpaid = ''t''"
    by code_simp+
  show ?thesis using failed_deposit_credited [OF rows(1-5) demo_rows(6) run] rows(6,7) by simp
qed

text \<open>The child of an exchange, whose user has no main account.\<close>

definition demo_child :: tx_row where
  "demo_child = demo_unpaid\<lparr>tx_status := PROCESSING, tx_type := T_EXCHANGE, tx_parent := Some ''p''\<rparr>"

definition demo_parent :: tx_row where
  "demo_parent = demo_child\<lparr>tx_id := ''p'', tx_asset := ''USD'', tx_parent := None\<rparr>"

definition demo_late :: "unit ledger_world" where
  "demo_late = demo_naira\<lparr>account_rows := [], txs := [demo_child, demo_parent]\<rparr>"

theorem late_proceeds_unbooked_witness:
  "total_balance (snd (completeFound demo_naira_env demo_naira_report demo_parent demo_purse demo_child None demo_late))
    - ledger_total (snd (completeFound demo_naira_env demo_naira_report demo_parent demo_purse demo_child None demo_late)) = 5"
proof -
  let ?run = "completeFound demo_naira_env demo_naira_report demo_parent demo_purse demo_child None demo_late"
  have "fst ?run = Inr ()" by code_simp
  then have run: "?run = (Inr (), snd ?run)" by (metis prod.collapse)
  have rows: "distinct (map fw_id (wallets demo_late))" "distinct (map la_id (ledger_accounts demo_late))" "tx_status demo_child \<noteq> COMPLETED"
    "total_balance demo_late = 0" "ledger_total demo_late = 0"
    by code_simp+
  have "no_main_account (tx_user demo_parent) demo_late" by (simp add: no_main_account_def demo_late_def)
  from late_proceeds_unbooked [OF rows(1,2) this rows(3) demo_rows(6) run] rows(4,5) show ?thesis by simp
qed

theorem proceeds_not_paid_witness:
  "\<exists>w'. creditProceeds demo_naira_env demo_naira_report demo_child None demo_parent 5 0 demo_late = (Inr (), w') \<and> wallets w' = [demo_purse]
    \<and> ledger_accounts w' = [demo_ledger]"
proof -
  have rows: "faults demo_late = []" "List.find (\<lambda>r. tx_id r = tx_id demo_child) (txs demo_late) = Some demo_child"
    "List.find (\<lambda>v. fw_user v = tx_user demo_parent \<and> fw_asset v = ''NGN'') (wallets demo_late) = Some demo_purse"
    "main_account demo_purse demo_late = None"
    "wallets demo_late = [demo_purse]" "ledger_accounts demo_late = [demo_ledger]"
    by code_simp+
  show ?thesis using proceeds_not_paid [OF rows(1-4), of demo_naira_env demo_naira_report None 5 0] unfolding rows(5,6) by blast
qed

end
