(* ===== verification/TierConfig.thy ===== *)
theory TierConfig
  imports Prelude
begin

text \<open>
  The limits of every verification tier (\<^verbatim>\<open>src/utils/tier.configs.ts\<close>), in minor units, and what it
  means for them to be consistent: every maximum is at least the limit on a shorter period, and a
  higher tier of a country allows everything the lower one does.
\<close>

section \<open>The configurations\<close>

record tier_config =
  minimum_balance :: "int"
  maximum_balance :: "int"
  minimum_per_deposit :: "int"
  maximum_per_deposit :: "int"
  maximum_daily_deposit :: "int"
  maximum_weekly_deposit :: "int"
  maximum_monthly_deposit :: "int"
  minimum_transaction_amount :: "int"
  maximum_transaction_amount :: "int"
  maximum_daily_transaction :: "int"
  maximum_weekly_transaction :: "int"
  maximum_monthly_transaction :: "int"
  minimum_per_withdrawal :: "int"
  maximum_per_withdrawal :: "int"
  maximum_daily_withdrawal :: "int"
  maximum_weekly_withdrawal :: "int"
  maximum_monthly_withdrawal :: "int"
  remittance_minimum_per_deposit :: "int"
  remittance_maximum_per_deposit :: "int"
  remittance_maximum_daily_deposit :: "int"
  remittance_maximum_weekly_deposit :: "int"
  remittance_maximum_monthly_deposit :: "int"
  remittance_minimum_transaction_amount :: "int"
  remittance_maximum_transaction_amount :: "int"
  remittance_maximum_daily_transaction :: "int"
  remittance_maximum_weekly_transaction :: "int"
  remittance_maximum_monthly_transaction :: "int"
  remittance_minimum_per_withdrawal :: "int"
  remittance_maximum_per_withdrawal :: "int"
  remittance_maximum_daily_withdrawal :: "int"
  remittance_maximum_weekly_withdrawal :: "int"
  remittance_maximum_monthly_withdrawal :: "int"
  total_spendable :: "int"
  total_receivable :: "int"
  maximum_pending_deposits_count :: "int option"
  maximum_pending_withdrawals_count :: "int option"
  maximum_weekly_deposit_count :: "int option"
  maximum_weekly_withdrawal_count :: "int option"

definition NGN_UNLIMITED :: int where
  "NGN_UNLIMITED = 1000000000000"

definition NGN_TOTAL_SPENDABLE :: int where
  "NGN_TOTAL_SPENDABLE = 10000000000000000"

definition USA_TOTAL_SPENDABLE :: int where
  "USA_TOTAL_SPENDABLE = 1000000000000000"

definition NGN_tier_1 :: tier_config where
  "NGN_tier_1 = \<lparr>
     minimum_balance = 0,
     maximum_balance = NGN_UNLIMITED,
     minimum_per_deposit = 100,
     maximum_per_deposit = 100000000,
     maximum_daily_deposit = 300000000,
     maximum_weekly_deposit = 500000000,
     maximum_monthly_deposit = 1000000000,
     minimum_transaction_amount = 100,
     maximum_transaction_amount = 100000000,
     maximum_daily_transaction = 300000000,
     maximum_weekly_transaction = 500000000,
     maximum_monthly_transaction = 1000000000,
     minimum_per_withdrawal = 100,
     maximum_per_withdrawal = 100000000,
     maximum_daily_withdrawal = 300000000,
     maximum_weekly_withdrawal = 500000000,
     maximum_monthly_withdrawal = 1000000000,
     remittance_minimum_per_deposit = 100,
     remittance_maximum_per_deposit = 100000000,
     remittance_maximum_daily_deposit = 300000000,
     remittance_maximum_weekly_deposit = 500000000,
     remittance_maximum_monthly_deposit = 1000000000,
     remittance_minimum_transaction_amount = 100,
     remittance_maximum_transaction_amount = 100000000,
     remittance_maximum_daily_transaction = 300000000,
     remittance_maximum_weekly_transaction = 500000000,
     remittance_maximum_monthly_transaction = 1000000000,
     remittance_minimum_per_withdrawal = 100,
     remittance_maximum_per_withdrawal = 100000000,
     remittance_maximum_daily_withdrawal = 300000000,
     remittance_maximum_weekly_withdrawal = 500000000,
     remittance_maximum_monthly_withdrawal = 1000000000,
     total_spendable = NGN_TOTAL_SPENDABLE,
     total_receivable = NGN_UNLIMITED,
     maximum_pending_deposits_count = None,
     maximum_pending_withdrawals_count = None,
     maximum_weekly_deposit_count = None,
     maximum_weekly_withdrawal_count = None\<rparr>"

definition NGN_tier_2 :: tier_config where
  "NGN_tier_2 = \<lparr>
     minimum_balance = 0,
     maximum_balance = NGN_UNLIMITED,
     minimum_per_deposit = 100,
     maximum_per_deposit = 200000000,
     maximum_daily_deposit = 500000000,
     maximum_weekly_deposit = 2000000000,
     maximum_monthly_deposit = 5000000000,
     minimum_transaction_amount = 100,
     maximum_transaction_amount = 200000000,
     maximum_daily_transaction = 500000000,
     maximum_weekly_transaction = 2000000000,
     maximum_monthly_transaction = 5000000000,
     minimum_per_withdrawal = 100,
     maximum_per_withdrawal = 200000000,
     maximum_daily_withdrawal = 500000000,
     maximum_weekly_withdrawal = 2000000000,
     maximum_monthly_withdrawal = 5000000000,
     remittance_minimum_per_deposit = 100,
     remittance_maximum_per_deposit = 200000000,
     remittance_maximum_daily_deposit = 500000000,
     remittance_maximum_weekly_deposit = 2000000000,
     remittance_maximum_monthly_deposit = 5000000000,
     remittance_minimum_transaction_amount = 100,
     remittance_maximum_transaction_amount = 200000000,
     remittance_maximum_daily_transaction = 500000000,
     remittance_maximum_weekly_transaction = 2000000000,
     remittance_maximum_monthly_transaction = 5000000000,
     remittance_minimum_per_withdrawal = 100,
     remittance_maximum_per_withdrawal = 200000000,
     remittance_maximum_daily_withdrawal = 500000000,
     remittance_maximum_weekly_withdrawal = 2000000000,
     remittance_maximum_monthly_withdrawal = 5000000000,
     total_spendable = NGN_TOTAL_SPENDABLE,
     total_receivable = NGN_UNLIMITED,
     maximum_pending_deposits_count = None,
     maximum_pending_withdrawals_count = None,
     maximum_weekly_deposit_count = None,
     maximum_weekly_withdrawal_count = None\<rparr>"

definition USA_tier_1 :: tier_config where
  "USA_tier_1 = \<lparr>
     minimum_balance = 0,
     maximum_balance = 2000000,
     minimum_per_deposit = 100,
     maximum_per_deposit = 250000,
     maximum_daily_deposit = 250000,
     maximum_weekly_deposit = 750000,
     maximum_monthly_deposit = 2000000,
     minimum_transaction_amount = 100,
     maximum_transaction_amount = 250000,
     maximum_daily_transaction = 250000,
     maximum_weekly_transaction = 750000,
     maximum_monthly_transaction = 2000000,
     minimum_per_withdrawal = 100,
     maximum_per_withdrawal = 250000,
     maximum_daily_withdrawal = 250000,
     maximum_weekly_withdrawal = 750000,
     maximum_monthly_withdrawal = 2000000,
     remittance_minimum_per_deposit = 100,
     remittance_maximum_per_deposit = 250000,
     remittance_maximum_daily_deposit = 250000,
     remittance_maximum_weekly_deposit = 750000,
     remittance_maximum_monthly_deposit = 2000000,
     remittance_minimum_transaction_amount = 100,
     remittance_maximum_transaction_amount = 250000,
     remittance_maximum_daily_transaction = 250000,
     remittance_maximum_weekly_transaction = 750000,
     remittance_maximum_monthly_transaction = 2000000,
     remittance_minimum_per_withdrawal = 100,
     remittance_maximum_per_withdrawal = 250000,
     remittance_maximum_daily_withdrawal = 250000,
     remittance_maximum_weekly_withdrawal = 750000,
     remittance_maximum_monthly_withdrawal = 2000000,
     total_spendable = USA_TOTAL_SPENDABLE,
     total_receivable = 2000000,
     maximum_pending_deposits_count = Some 3,
     maximum_pending_withdrawals_count = Some 2,
     maximum_weekly_deposit_count = Some 3,
     maximum_weekly_withdrawal_count = Some 5\<rparr>"

definition USA_tier_2 :: tier_config where
  "USA_tier_2 = \<lparr>
     minimum_balance = 0,
     maximum_balance = 2000000,
     minimum_per_deposit = 100,
     maximum_per_deposit = 250000,
     maximum_daily_deposit = 250000,
     maximum_weekly_deposit = 750000,
     maximum_monthly_deposit = 2000000,
     minimum_transaction_amount = 100,
     maximum_transaction_amount = 250000,
     maximum_daily_transaction = 250000,
     maximum_weekly_transaction = 750000,
     maximum_monthly_transaction = 2000000,
     minimum_per_withdrawal = 100,
     maximum_per_withdrawal = 250000,
     maximum_daily_withdrawal = 250000,
     maximum_weekly_withdrawal = 750000,
     maximum_monthly_withdrawal = 2000000,
     remittance_minimum_per_deposit = 100,
     remittance_maximum_per_deposit = 250000,
     remittance_maximum_daily_deposit = 250000,
     remittance_maximum_weekly_deposit = 750000,
     remittance_maximum_monthly_deposit = 2000000,
     remittance_minimum_transaction_amount = 100,
     remittance_maximum_transaction_amount = 250000,
     remittance_maximum_daily_transaction = 250000,
     remittance_maximum_weekly_transaction = 750000,
     remittance_maximum_monthly_transaction = 2000000,
     remittance_minimum_per_withdrawal = 100,
     remittance_maximum_per_withdrawal = 250000,
     remittance_maximum_daily_withdrawal = 250000,
     remittance_maximum_weekly_withdrawal = 750000,
     remittance_maximum_monthly_withdrawal = 2000000,
     total_spendable = USA_TOTAL_SPENDABLE,
     total_receivable = 2000000,
     maximum_pending_deposits_count = Some 3,
     maximum_pending_withdrawals_count = Some 2,
     maximum_weekly_deposit_count = Some 3,
     maximum_weekly_withdrawal_count = Some 5\<rparr>"

definition NGN_TIER_CONFIG :: "string \<Rightarrow> tier_config option" where
  "NGN_TIER_CONFIG = [''tier_1'' \<mapsto> NGN_tier_1, ''tier_2'' \<mapsto> NGN_tier_2]"

definition USA_TIER_CONFIG :: "string \<Rightarrow> tier_config option" where
  "USA_TIER_CONFIG = [''tier_1'' \<mapsto> USA_tier_1, ''tier_2'' \<mapsto> USA_tier_2]"

section \<open>Consistency\<close>

definition ascending :: "int list \<Rightarrow> bool" where
  "ascending xs = sorted xs"

text \<open>Per movement, day, week and month, for deposits, transactions and withdrawals of both kinds.\<close>

definition tier_wf :: "tier_config \<Rightarrow> bool" where
  "tier_wf c \<longleftrightarrow> minimum_balance c \<le> maximum_balance c
     \<and> ascending [1, minimum_per_deposit c, maximum_per_deposit c, maximum_daily_deposit c,
         maximum_weekly_deposit c, maximum_monthly_deposit c, maximum_balance c]
     \<and> ascending [1, minimum_transaction_amount c, maximum_transaction_amount c, maximum_daily_transaction c,
         maximum_weekly_transaction c, maximum_monthly_transaction c, total_spendable c]
     \<and> ascending [1, minimum_per_withdrawal c, maximum_per_withdrawal c, maximum_daily_withdrawal c,
         maximum_weekly_withdrawal c, maximum_monthly_withdrawal c, total_spendable c]
     \<and> ascending [1, remittance_minimum_per_deposit c, remittance_maximum_per_deposit c, remittance_maximum_daily_deposit c,
         remittance_maximum_weekly_deposit c, remittance_maximum_monthly_deposit c, total_receivable c]
     \<and> ascending [1, remittance_minimum_transaction_amount c, remittance_maximum_transaction_amount c,
         remittance_maximum_daily_transaction c, remittance_maximum_weekly_transaction c,
         remittance_maximum_monthly_transaction c, total_spendable c]
     \<and> ascending [1, remittance_minimum_per_withdrawal c, remittance_maximum_per_withdrawal c,
         remittance_maximum_daily_withdrawal c, remittance_maximum_weekly_withdrawal c,
         remittance_maximum_monthly_withdrawal c, total_spendable c]"

definition limits :: "tier_config \<Rightarrow> int list" where
  "limits c = [maximum_balance c, maximum_per_deposit c, maximum_daily_deposit c, maximum_weekly_deposit c,
     maximum_monthly_deposit c, maximum_transaction_amount c, maximum_daily_transaction c, maximum_weekly_transaction c,
     maximum_monthly_transaction c, maximum_per_withdrawal c, maximum_daily_withdrawal c, maximum_weekly_withdrawal c,
     maximum_monthly_withdrawal c, remittance_maximum_per_deposit c, remittance_maximum_daily_deposit c,
     remittance_maximum_weekly_deposit c, remittance_maximum_monthly_deposit c, remittance_maximum_transaction_amount c,
     remittance_maximum_daily_transaction c, remittance_maximum_weekly_transaction c, remittance_maximum_monthly_transaction c,
     remittance_maximum_per_withdrawal c, remittance_maximum_daily_withdrawal c, remittance_maximum_weekly_withdrawal c,
     remittance_maximum_monthly_withdrawal c, total_spendable c, total_receivable c]"

definition tier_leq :: "tier_config \<Rightarrow> tier_config \<Rightarrow> bool" where
  "tier_leq a b \<longleftrightarrow> list_all2 (\<le>) (limits a) (limits b)
     \<and> minimum_per_deposit b \<le> minimum_per_deposit a \<and> minimum_per_withdrawal b \<le> minimum_per_withdrawal a"

section \<open>Properties\<close>

text \<open>
  The configured limits are consistent: in every tier of both countries each limit is at most the
  limit on the next longer period, and tier 2 allows everything tier 1 does.
\<close>

theorem tiers_consistent:
  "list_all tier_wf [NGN_tier_1, NGN_tier_2, USA_tier_1, USA_tier_2]
    \<and> tier_leq NGN_tier_1 NGN_tier_2 \<and> tier_leq USA_tier_1 USA_tier_2"
  by (simp add: tier_wf_def tier_leq_def limits_def ascending_def NGN_tier_1_def NGN_tier_2_def USA_tier_1_def USA_tier_2_def
      NGN_UNLIMITED_def NGN_TOTAL_SPENDABLE_def USA_TOTAL_SPENDABLE_def)

end
