(* ===== verification/UserLimits.thy ===== *)
theory UserLimits
  imports TxStatus TierConfig
begin

text \<open>
  The tier of a user and the limits that go with it: \<^verbatim>\<open>UserTierService\<close>
  (\<^verbatim>\<open>src/modules/userTier/userTier.service.ts\<close>), the sums of past transactions
  (\<^verbatim>\<open>src/modules/transaction-sum/\<close>), the counts of \<^verbatim>\<open>FiatWalletTransactionRepository\<close> and the provider's
  weekly limit with its daily aggregates (\<^verbatim>\<open>src/modules/transactionAggregate/\<close>,
  \<^verbatim>\<open>src/modules/providerLimit/\<close>). The starts of the local day, week and month, which luxon computes, are
  arguments; days are counted from the epoch. The properties say which requests \<^verbatim>\<open>validateLimit\<close> accepts,
  how that relates to the limits shown to the user, and what it does not see.
\<close>

section \<open>Rows\<close>

record entry = fwt_row +
  ft_created :: int
  ft_deleted :: "int option"

record tier =
  tr_id :: string
  tr_name :: string
  tr_level :: int

record requirement =
  rq_id :: string
  rq_requirement :: "string option"

record config_row =
  cf_id :: string
  cf_tier :: string
  cf_country :: string
  cf_limits :: tier_config
  cf_requirements :: "requirement list"

record user_tier_row =
  ut_id :: string
  ut_user :: string
  ut_tier :: string

record kyc_row =
  ky_id :: string
  ky_user :: string
  ky_requirement :: string
  ky_status :: string

record country_row =
  co_id :: string
  co_code :: string

record aggregate_row =
  ag_id :: string
  ag_day :: int
  ag_provider :: string
  ag_type :: fiat_type
  ag_amount :: int

datatype provider_limit_type = WEEKLY_DEPOSIT | WEEKLY_WITHDRAWAL

record provider_limit_row =
  pl_provider :: string
  pl_type :: provider_limit_type
  pl_value :: int
  pl_currency :: string
  pl_active :: bool
  pl_deleted :: bool

record 's limit_world = "'s dbase" +
  entries :: "entry list"
  tiers :: "tier list"
  configs :: "config_row list"
  user_tiers :: "user_tier_row list"
  kycs :: "kyc_row list"
  countries :: "country_row list"
  aggregates :: "aggregate_row list"
  provider_limits :: "provider_limit_row list"

record calendar =
  cal_day :: "int \<Rightarrow> int"
  cal_week :: "int \<Rightarrow> int"
  cal_month :: "int \<Rightarrow> int"

definition user_tier_table :: "(user_tier_row, ('s, 'm) limit_world_scheme) table" where
  "user_tier_table = \<lparr>rows_of = user_tiers, set_rows = (\<lambda>rs w. w\<lparr>user_tiers := rs\<rparr>), row_id = ut_id\<rparr>"

definition aggregate_table :: "(aggregate_row, ('s, 'm) limit_world_scheme) table" where
  "aggregate_table = \<lparr>rows_of = aggregates, set_rows = (\<lambda>rs w. w\<lparr>aggregates := rs\<rparr>), row_id = ag_id\<rparr>"

interpretation user_tiers: row_store user_tier_table
  by unfold_locales (simp_all add: user_tier_table_def)

interpretation aggregates: row_store aggregate_table
  by unfold_locales (simp_all add: aggregate_table_def)

lemma limit_tables [simp]:
  "rows_of user_tier_table = user_tiers" "set_rows user_tier_table us w = w\<lparr>user_tiers := us\<rparr>" "row_id user_tier_table = ut_id"
  "rows_of aggregate_table = aggregates" "set_rows aggregate_table gs w = w\<lparr>aggregates := gs\<rparr>" "row_id aggregate_table = ag_id"
  by (simp_all add: user_tier_table_def aggregate_table_def)

text \<open>A query that reads what \<open>f\<close> says of the tables.\<close>

definition read_rows :: "(('s, 'm) dbase_scheme \<Rightarrow> 'a) \<Rightarrow> (('s, 'm) dbase_scheme, 'a) io" where
  "read_rows f = andthen db_step (bind get_state (\<lambda>w. ret (f w)))"

section \<open>The tier of a user\<close>

definition rethrow :: "(exn \<Rightarrow> bool) \<Rightarrow> string \<Rightarrow> ('w, 'a) io \<Rightarrow> ('w, 'a) io" where
  "rethrow own msg m = catch m (\<lambda>e. if own e then throw e else throw (InternalError msg))"

definition is_not_found :: "exn \<Rightarrow> bool" where
  "is_not_found e = (case e of NotFound _ \<Rightarrow> True | _ \<Rightarrow> False)"

definition user_tier_create :: "'s money_env \<Rightarrow> string \<Rightarrow> string \<Rightarrow> (('s, 'm) limit_world_scheme, user_tier_row) io" where
  "user_tier_create M userId tierId = rethrow (\<lambda>_. False) ''Error while creating UserTier''
     (bind (new_value M) (\<lambda>i. repo_create user_tier_table \<lparr>ut_id = i, ut_user = userId, ut_tier = tierId\<rparr>))"

definition user_tier_findOrCreate :: "'s money_env \<Rightarrow> string \<Rightarrow> string \<Rightarrow> (('s, 'm) limit_world_scheme, user_tier_row) io" where
  "user_tier_findOrCreate M userId tierId = rethrow (\<lambda>_. False) ''Error while finding or creating UserTier''
     (bind (repo_findOne user_tier_table (\<lambda>r. ut_user r = userId \<and> ut_tier r = tierId)) (\<lambda>userTier. case userTier of
         None \<Rightarrow> user_tier_create M userId tierId
       | Some r \<Rightarrow> ret r))"

definition tiers_of :: "string \<Rightarrow> ('s, 'm) limit_world_scheme \<Rightarrow> tier list" where
  "tiers_of userId w = sort_key tr_level (List.map_filter (\<lambda>u. List.find (\<lambda>t. tr_id t = ut_tier u) (tiers w))
     (filter (\<lambda>u. ut_user u = userId) (user_tiers w)))"

text \<open>The tiers of the user, lowest level first, each with its configurations and whether their country exists.\<close>

definition tier_configs :: "string \<Rightarrow> ('s, 'm) limit_world_scheme \<Rightarrow> (tier \<times> config_row \<times> bool) list" where
  "tier_configs userId w = concat (map (\<lambda>t. map (\<lambda>c. (t, c, list_ex (\<lambda>k. co_id k = cf_country c) (countries w)))
     (filter (\<lambda>c. cf_tier c = tr_id t) (configs w))) (tiers_of userId w))"

definition findUserApprovedVerifications :: "string \<Rightarrow> string list \<Rightarrow> (('s, 'm) limit_world_scheme, kyc_row list) io" where
  "findUserApprovedVerifications userId ids = (if ids = [] then ret []
     else read_rows (\<lambda>w. filter (\<lambda>k. ky_user k = userId \<and> ky_status k = ''approved'' \<and> ky_requirement k \<in> set ids) (kycs w)))"

definition all_approved :: "requirement list \<Rightarrow> kyc_row list \<Rightarrow> bool" where
  "all_approved reqs approved \<longleftrightarrow> length approved = length reqs
     \<and> list_all (\<lambda>r. list_ex (\<lambda>k. ky_requirement k = rq_id r) approved) reqs"

fun highest_tier :: "string \<Rightarrow> (tier \<times> config_row \<times> bool) list \<Rightarrow> tier option \<Rightarrow> (('s, 'm) limit_world_scheme, tier option) io" where
  "highest_tier userId [] highest = ret highest"
| "highest_tier userId ((t, c, known) # rest) highest =
     (if \<not> known \<or> cf_requirements c = [] then highest_tier userId rest highest
      else bind (findUserApprovedVerifications userId (map rq_id (cf_requirements c))) (\<lambda>approved.
        highest_tier userId rest
          (if all_approved (cf_requirements c) approved \<and> (case highest of None \<Rightarrow> True | Some h \<Rightarrow> tr_level h < tr_level t)
           then Some t else highest)))"

definition getUserCurrentTier :: "string \<Rightarrow> (('s, 'm) limit_world_scheme, tier option) io" where
  "getUserCurrentTier userId = rethrow (\<lambda>_. False) ''Error while getting user current tier''
     (bind (read_rows (tier_configs userId)) (\<lambda>cs. highest_tier userId cs None))"

definition find_config :: "string \<Rightarrow> string \<Rightarrow> ('s, 'm) limit_world_scheme \<Rightarrow> config_row option" where
  "find_config tierId countryId w = List.find (\<lambda>c. cf_tier c = tierId \<and> cf_country c = countryId) (configs w)"

definition getUserPendingKYCInTier :: "string \<Rightarrow> string \<Rightarrow> string \<Rightarrow> (('s, 'm) limit_world_scheme, string list) io" where
  "getUserPendingKYCInTier userId tierId countryId = rethrow is_not_found ''Error while getting user pending KYC in tier''
     (bind (read_rows (\<lambda>w. if list_ex (\<lambda>t. tr_id t = tierId) (tiers w) then Some (find_config tierId countryId w) else None)) (\<lambda>found.
      case found of
        None \<Rightarrow> throw (NotFound ''Tier not found'')
      | Some None \<Rightarrow> throw (NotFound (''Tier configuration not found for country '' @ countryId))
      | Some (Some c) \<Rightarrow>
          bind (findUserApprovedVerifications userId (map rq_id (cf_requirements c))) (\<lambda>approved.
          ret (List.map_filter rq_requirement
            (filter (\<lambda>r. \<not> list_ex (\<lambda>k. ky_requirement k = rq_id r) approved) (cf_requirements c))))))"

text \<open>Writing a property of an object: an existing one keeps its place.\<close>

fun put_property :: "string \<Rightarrow> 'a \<Rightarrow> (string \<times> 'a) list \<Rightarrow> (string \<times> 'a) list" where
  "put_property k v [] = [(k, v)]"
| "put_property k v ((k', v') # ps) = (if k = k' then (k, v) # ps else (k', v') # put_property k v ps)"

definition getTierVerifications :: "string \<Rightarrow> (('s, 'm) limit_world_scheme, (string \<times> string list) list) io" where
  "getTierVerifications tierId = rethrow is_not_found ''Error while getting tier verifications''
     (bind (read_rows (\<lambda>w. if list_ex (\<lambda>t. tr_id t = tierId) (tiers w)
        then Some (filter (\<lambda>c. cf_tier c = tierId \<and> list_ex (\<lambda>k. co_id k = cf_country c) (countries w)) (configs w)) else None)) (\<lambda>found.
      case found of
        None \<Rightarrow> throw (NotFound ''Tier not found'')
      | Some cs \<Rightarrow> ret (foldl (\<lambda>acc c. let rs = List.map_filter rq_requirement (cf_requirements c) in
            if rs = [] then acc else put_property (cf_country c) rs acc) [] cs)))"

definition isTierCompleted :: "string \<Rightarrow> string \<Rightarrow> string \<Rightarrow> (('s, 'm) limit_world_scheme, bool) io" where
  "isTierCompleted userId tierId countryId = rethrow (\<lambda>_. False) ''Error while checking tier completion''
     (bind (read_rows (find_config tierId countryId)) (\<lambda>found. case found of
        None \<Rightarrow> ret False
      | Some c \<Rightarrow> if cf_requirements c = [] then ret False
          else bind (findUserApprovedVerifications userId (map rq_id (cf_requirements c))) (\<lambda>approved.
            ret (all_approved (cf_requirements c) approved))))"

definition getAssetLimits :: "string \<Rightarrow> string \<Rightarrow> (('s, 'm) limit_world_scheme, config_row option) io" where
  "getAssetLimits userId asset = rethrow is_not_found ''Error while getting asset limits''
     (let normalizedAsset = trim (to_upper asset) in
      if \<not> isSupportedCurrency normalizedAsset then ret None
      else case getCurrencyCountryCode normalizedAsset of
          None \<Rightarrow> throw (NotFound (''Unable to determine country for asset '' @ asset))
        | Some cc \<Rightarrow> if cc = [] then throw (NotFound (''Unable to determine country for asset '' @ asset))
          else bind (read_rows (\<lambda>w. List.find (\<lambda>k. co_code k = cc) (countries w))) (\<lambda>country. case country of
              None \<Rightarrow> throw (NotFound (''Country not found for asset '' @ asset))
            | Some k \<Rightarrow> bind (getUserCurrentTier userId) (\<lambda>t. case t of
                None \<Rightarrow> ret None
              | Some tier \<Rightarrow> read_rows (find_config (tr_id tier) (co_id k)))))"

section \<open>What was moved before\<close>

definition live_entry :: "entry \<Rightarrow> bool" where
  "live_entry e \<longleftrightarrow> ft_status e \<noteq> FAILED \<and> ft_status e \<noteq> CANCELLED"

definition same_kind :: "string \<Rightarrow> fiat_type \<Rightarrow> string \<Rightarrow> entry \<Rightarrow> bool" where
  "same_kind userId ty currency e \<longleftrightarrow> ft_user e = userId \<and> ft_type e = ty \<and> ft_currency e = currency"

definition countPendingByUserAndType :: "string \<Rightarrow> fiat_type \<Rightarrow> string \<Rightarrow> (('s, 'm) limit_world_scheme, int) io" where
  "countPendingByUserAndType userId ty currency = read_rows (\<lambda>w.
     int (length (filter (\<lambda>e. same_kind userId ty currency e \<and> ft_settled e = None \<and> live_entry e) (entries w))))"

definition countTransactionsByTypeInPastWeek :: "string \<Rightarrow> fiat_type \<Rightarrow> string \<Rightarrow> (('s, 'm) limit_world_scheme, int) io" where
  "countTransactionsByTypeInPastWeek userId ty currency = bind get_now (\<lambda>t. read_rows (\<lambda>w.
     int (length (filter (\<lambda>e. same_kind userId ty currency e \<and> t - 7 * 86400000 \<le> ft_created e \<and> live_entry e) (entries w)))))"

text \<open>The sums by transaction type; a type without transactions sums to 0.\<close>

definition getFiatWalletTransactionSum :: "string \<Rightarrow> int \<Rightarrow> int \<Rightarrow> tx_status \<Rightarrow> string
    \<Rightarrow> (('s, 'm) limit_world_scheme, fiat_type \<Rightarrow> int) io" where
  "getFiatWalletTransactionSum asset startDate endDate st userId = read_rows (\<lambda>w ty.
     sum_list (map ft_amount (filter (\<lambda>e. ft_currency e = asset \<and> ft_status e = st \<and> ft_user e = userId
       \<and> startDate \<le> ft_created e \<and> ft_created e \<le> endDate \<and> ft_deleted e = None \<and> ft_type e = ty) (entries w))))"

definition past_sum :: "(int \<Rightarrow> int) \<Rightarrow> string \<Rightarrow> tx_status \<Rightarrow> string \<Rightarrow> (('s, 'm) limit_world_scheme, fiat_type \<Rightarrow> int) io" where
  "past_sum start asset st userId = bind get_now (\<lambda>t. getFiatWalletTransactionSum asset (start t) t st userId)"

definition getPastOneDayTransactionSum :: "calendar \<Rightarrow> string \<Rightarrow> tx_status \<Rightarrow> string \<Rightarrow> (('s, 'm) limit_world_scheme, fiat_type \<Rightarrow> int) io" where
  "getPastOneDayTransactionSum C = past_sum (cal_day C)"

definition getPastOneWeekTransactionSum :: "calendar \<Rightarrow> string \<Rightarrow> tx_status \<Rightarrow> string \<Rightarrow> (('s, 'm) limit_world_scheme, fiat_type \<Rightarrow> int) io" where
  "getPastOneWeekTransactionSum C = past_sum (cal_week C)"

definition getPastOneMonthTransactionSum :: "calendar \<Rightarrow> string \<Rightarrow> tx_status \<Rightarrow> string \<Rightarrow> (('s, 'm) limit_world_scheme, fiat_type \<Rightarrow> int) io" where
  "getPastOneMonthTransactionSum C = past_sum (cal_month C)"

definition past_sums :: "calendar \<Rightarrow> string \<Rightarrow> string \<Rightarrow> (('s, 'm) limit_world_scheme, (fiat_type \<Rightarrow> int) list) io" where
  "past_sums C currency userId = promise_all
     [getPastOneDayTransactionSum C currency COMPLETED userId, getPastOneWeekTransactionSum C currency COMPLETED userId,
      getPastOneMonthTransactionSum C currency COMPLETED userId, getPastOneDayTransactionSum C currency PENDING userId,
      getPastOneWeekTransactionSum C currency PENDING userId, getPastOneMonthTransactionSum C currency PENDING userId]"

section \<open>The provider's limit\<close>

definition day_of :: "int \<Rightarrow> int" where
  "day_of t = t div 86400000"

text \<open>\<^verbatim>\<open>new Date().toISOString().split('T')[0]\<close>: the day of the proleptic Gregorian calendar.\<close>

definition pad2 :: "int \<Rightarrow> string" where
  "pad2 n = (if n < 10 then ''0'' @ show_int n else show_int n)"

definition iso_date :: "int \<Rightarrow> string" where
  "iso_date d = (let z = d + 719468; era = z div 146097; doe = z mod 146097;
     yoe = (doe - doe div 1460 + doe div 36524 - doe div 146096) div 365; doy = doe - (365 * yoe + yoe div 4 - yoe div 100);
     mp = (5 * doy + 2) div 153; dd = doy - (153 * mp + 2) div 5 + 1; mm = (if mp < 10 then mp + 3 else mp - 9);
     yy = yoe + era * 400 + (if mm \<le> 2 then 1 else 0)
   in show_int yy @ ''-'' @ pad2 mm @ ''-'' @ pad2 dd)"

definition fiat_type_name :: "fiat_type \<Rightarrow> string" where
  "fiat_type_name ty = (case ty of F_DEPOSIT \<Rightarrow> ''deposit'' | F_WITHDRAWAL \<Rightarrow> ''withdrawal'' | F_TRANSFER_IN \<Rightarrow> ''transfer_in''
     | F_TRANSFER_OUT \<Rightarrow> ''transfer_out'' | F_PAYMENT \<Rightarrow> ''payment'' | F_REFUND \<Rightarrow> ''refund'' | F_FEE \<Rightarrow> ''fee''
     | F_ADJUSTMENT \<Rightarrow> ''adjustment'' | F_EXCHANGE \<Rightarrow> ''exchange'' | F_REVERSAL \<Rightarrow> ''reversal'' | F_REWARD \<Rightarrow> ''reward'')"

definition aggregateKey :: "int \<Rightarrow> string \<Rightarrow> fiat_type \<Rightarrow> string" where
  "aggregateKey day provider ty = ''transaction-aggregate:'' @ iso_date day @ '':'' @ provider @ '':'' @ fiat_type_name ty"

definition aggregateSection :: "'s money_env \<Rightarrow> int \<Rightarrow> string \<Rightarrow> fiat_type \<Rightarrow> int \<Rightarrow> (('s, 'm) limit_world_scheme, aggregate_row option) io" where
  "aggregateSection M today provider ty amount =
     bind (repo_findOne aggregate_table (\<lambda>g. ag_day g = today \<and> ag_provider g = provider \<and> ag_type g = ty)) (\<lambda>existing. case existing of
       Some g \<Rightarrow> repo_update_id aggregate_table (ag_id g) (\<lambda>r. r\<lparr>ag_amount := ag_amount g + amount\<rparr>)
     | None \<Rightarrow> bind (new_value M) (\<lambda>i. bind (repo_create aggregate_table
         \<lparr>ag_id = i, ag_day = today, ag_provider = provider, ag_type = ty, ag_amount = amount\<rparr>) (\<lambda>g. ret (Some g))))"

definition findAndUpdate :: "'s money_env \<Rightarrow> string \<Rightarrow> fiat_type \<Rightarrow> int \<Rightarrow> (('s, 'm) limit_world_scheme, aggregate_row option) io" where
  "findAndUpdate M provider ty amount = bind get_now (\<lambda>t.
     locked M (aggregateKey (day_of t) provider ty) 5 (aggregateSection M (day_of t) provider ty amount))"

definition getProviderLimitValue :: "string \<Rightarrow> provider_limit_type \<Rightarrow> string \<Rightarrow> (('s, 'm) limit_world_scheme, int) io" where
  "getProviderLimitValue provider lt currency =
     bind (read_rows (\<lambda>w. List.find (\<lambda>p. pl_provider p = provider \<and> pl_type p = lt \<and> pl_currency p = currency
       \<and> pl_active p \<and> \<not> pl_deleted p) (provider_limits w))) (\<lambda>found. case found of
       None \<Rightarrow> throw (NotFound (''Provider limit not found for provider='' @ provider))
     | Some p \<Rightarrow> ret (pl_value p))"

text \<open>The exception carries its \<^verbatim>\<open>LimitExceededExceptionType\<close>; the amounts in its message are not modelled.\<close>

definition exceeded :: "string \<Rightarrow> exn" where
  "exceeded limitType = LimitExceeded (limitType @ ''_EXCEEDED_EXCEPTION'')"

definition validateProviderPlatformWeeklyLimit :: "string \<Rightarrow> fiat_type \<Rightarrow> int \<Rightarrow> string \<Rightarrow> (('s, 'm) limit_world_scheme, unit) io" where
  "validateProviderPlatformWeeklyLimit provider ty amount currency = bind get_now (\<lambda>t.
     bind (read_rows (\<lambda>w. filter (\<lambda>g. ag_provider g = provider \<and> ag_type g = ty \<and> day_of (t - 7 * 86400000) \<le> ag_day g) (aggregates w))) (\<lambda>gs.
     let absoluteSum = \<bar>sum_list (map ag_amount gs)\<bar> in
     bind (attempt (getProviderLimitValue provider (if ty = F_DEPOSIT then WEEKLY_DEPOSIT else WEEKLY_WITHDRAWAL) currency)) (\<lambda>limit.
     case limit of
       Inl _ \<Rightarrow> ret ()
     | Inr l \<Rightarrow> if l < absoluteSum + amount then throw (exceeded ''PLATFORM_WEEKLY_LIMIT'') else ret ())))"

section \<open>Checking a request\<close>

definition limitKey :: "string \<Rightarrow> string \<Rightarrow> fiat_type \<Rightarrow> string" where
  "limitKey userId currency ty = ''user-limit-validation:'' @ userId @ '':'' @ currency @ '':'' @ fiat_type_name ty"

record amount_limits =
  al_single :: int
  al_daily :: int
  al_weekly :: int
  al_monthly :: int

definition limits_for :: "fiat_type \<Rightarrow> tier_config \<Rightarrow> amount_limits option" where
  "limits_for ty c = (case ty of
      F_DEPOSIT \<Rightarrow> Some \<lparr>al_single = maximum_per_deposit c, al_daily = maximum_daily_deposit c,
        al_weekly = maximum_weekly_deposit c, al_monthly = maximum_monthly_deposit c\<rparr>
    | F_WITHDRAWAL \<Rightarrow> Some \<lparr>al_single = maximum_per_withdrawal c, al_daily = maximum_daily_withdrawal c,
        al_weekly = maximum_weekly_withdrawal c, al_monthly = maximum_monthly_withdrawal c\<rparr>
    | F_TRANSFER_IN \<Rightarrow> Some \<lparr>al_single = maximum_transaction_amount c, al_daily = maximum_daily_transaction c,
        al_weekly = maximum_weekly_transaction c, al_monthly = maximum_monthly_transaction c\<rparr>
    | F_TRANSFER_OUT \<Rightarrow> Some \<lparr>al_single = maximum_transaction_amount c, al_daily = maximum_daily_transaction c,
        al_weekly = maximum_weekly_transaction c, al_monthly = maximum_monthly_transaction c\<rparr>
    | F_EXCHANGE \<Rightarrow> Some \<lparr>al_single = maximum_transaction_amount c, al_daily = maximum_daily_transaction c,
        al_weekly = maximum_weekly_transaction c, al_monthly = maximum_monthly_transaction c\<rparr>
    | _ \<Rightarrow> None)"

definition check_count :: "int option \<Rightarrow> (('w, int) io) \<Rightarrow> exn \<Rightarrow> ('w, unit) io" where
  "check_count limit count e = (case limit of
      None \<Rightarrow> ret ()
    | Some l \<Rightarrow> bind count (\<lambda>n. if l \<le> n then throw e else ret ()))"

definition validatePendingTransactionCountLimit :: "string \<Rightarrow> fiat_type \<Rightarrow> string \<Rightarrow> tier_config \<Rightarrow> (('s, 'm) limit_world_scheme, unit) io" where
  "validatePendingTransactionCountLimit userId ty currency c = andthen
     (if ty = F_DEPOSIT then check_count (maximum_pending_deposits_count c)
        (countPendingByUserAndType userId ty currency) (exceeded ''PENDING_LIMIT'') else ret ())
     (if ty = F_WITHDRAWAL then check_count (maximum_pending_withdrawals_count c)
        (countPendingByUserAndType userId ty currency) (exceeded ''PENDING_LIMIT'') else ret ())"

definition validateWeeklyTransactionCountLimit :: "string \<Rightarrow> fiat_type \<Rightarrow> string \<Rightarrow> tier_config \<Rightarrow> (('s, 'm) limit_world_scheme, unit) io" where
  "validateWeeklyTransactionCountLimit userId ty currency c = andthen
     (if ty = F_DEPOSIT then check_count (maximum_weekly_deposit_count c)
        (countTransactionsByTypeInPastWeek userId ty currency) (exceeded ''WEEKLY_COUNT_LIMIT'') else ret ())
     (if ty = F_WITHDRAWAL then check_count (maximum_weekly_withdrawal_count c)
        (countTransactionsByTypeInPastWeek userId ty currency) (exceeded ''WEEKLY_COUNT_LIMIT'') else ret ())"

definition validatePlatformWeeklyLimit :: "int \<Rightarrow> string \<Rightarrow> fiat_type \<Rightarrow> (('s, 'm) limit_world_scheme, unit) io" where
  "validatePlatformWeeklyLimit amount currency ty =
     (if ty \<noteq> F_DEPOSIT \<and> ty \<noteq> F_WITHDRAWAL then ret ()
      else if currency \<noteq> ''USD'' then ret ()
      else validateProviderPlatformWeeklyLimit ''zerohash'' ty amount currency)"

definition sum_key :: "fiat_type \<Rightarrow> fiat_type" where
  "sum_key ty = (if ty = F_DEPOSIT then F_DEPOSIT else if ty = F_EXCHANGE then F_EXCHANGE else F_WITHDRAWAL)"

definition current_sum :: "fiat_type \<Rightarrow> (fiat_type \<Rightarrow> int) \<Rightarrow> (fiat_type \<Rightarrow> int) \<Rightarrow> int" where
  "current_sum ty completed pending = (let s = completed (sum_key ty) + pending (sum_key ty) in
     if ty = F_WITHDRAWAL \<or> ty = F_EXCHANGE then \<bar>s\<bar> else s)"

definition check_sums :: "fiat_type \<Rightarrow> int \<Rightarrow> amount_limits \<Rightarrow> (fiat_type \<Rightarrow> int) list \<Rightarrow> ('w, unit) io" where
  "check_sums ty amount l ss =
     (let daily = current_sum ty (ss ! 0) (ss ! 3); weekly = current_sum ty (ss ! 1) (ss ! 4); monthly = current_sum ty (ss ! 2) (ss ! 5) in
      if al_daily l < daily + amount then throw (exceeded ''DAILY_LIMIT'')
      else if al_weekly l < weekly + amount then throw (exceeded ''WEEKLY_LIMIT'')
      else if al_monthly l < monthly + amount then throw (exceeded ''MONTHLY_LIMIT'')
      else ret ())"

definition limitSection :: "calendar \<Rightarrow> string \<Rightarrow> int \<Rightarrow> string \<Rightarrow> fiat_type \<Rightarrow> (('s, 'm) limit_world_scheme, unit) io" where
  "limitSection C userId amount currency ty = bind (getAssetLimits userId currency) (\<lambda>tierConfig. case tierConfig of
      None \<Rightarrow> throw (BadRequest ''User tier configuration not found'')
    | Some c \<Rightarrow> (case limits_for ty (cf_limits c) of
        None \<Rightarrow> ret ()
      | Some l \<Rightarrow>
          if al_single l < amount then throw (exceeded ''TRANSACTION_LIMIT'')
          else andthen (validatePendingTransactionCountLimit userId ty currency (cf_limits c))
           (andthen (validateWeeklyTransactionCountLimit userId ty currency (cf_limits c))
           (andthen (validatePlatformWeeklyLimit amount currency ty)
           (bind (past_sums C currency userId) (check_sums ty amount l))))))"

definition validateLimit :: "'s money_env \<Rightarrow> calendar \<Rightarrow> string \<Rightarrow> int \<Rightarrow> string \<Rightarrow> fiat_type \<Rightarrow> (('s, 'm) limit_world_scheme, unit) io" where
  "validateLimit M C userId amount currency ty =
     locked_wait M (limitKey userId currency ty) (limitSection C userId amount currency ty)"

section \<open>Showing the limits\<close>

record limit_detail =
  ld_limit :: int
  ld_spent :: int
  ld_remaining :: int

record count_detail =
  cd_limit :: int
  cd_current :: int
  cd_remaining :: int

record direction_limits =
  dl_single :: int
  dl_daily :: limit_detail
  dl_weekly :: limit_detail
  dl_monthly :: limit_detail
  dl_pending_count :: "count_detail option"
  dl_weekly_count :: "count_detail option"

record currency_limits =
  cl_currency :: string
  cl_send :: direction_limits
  cl_receive :: direction_limits

definition detail :: "int \<Rightarrow> int \<Rightarrow> limit_detail" where
  "detail limit spent = \<lparr>ld_limit = limit, ld_spent = spent, ld_remaining = max 0 (limit - spent)\<rparr>"

text \<open>A count limit of 0 is falsy: it is neither queried nor shown.\<close>

definition count_or_zero :: "int option \<Rightarrow> (('w, int) io) \<Rightarrow> ('w, int) io" where
  "count_or_zero limit count = (if limit = None \<or> limit = Some 0 then ret 0 else count)"

definition count_shown :: "int option \<Rightarrow> int \<Rightarrow> count_detail option" where
  "count_shown limit n = (case limit of None \<Rightarrow> None
     | Some l \<Rightarrow> if l = 0 then None else Some \<lparr>cd_limit = l, cd_current = n, cd_remaining = max 0 (l - n)\<rparr>)"

definition getCurrencyLimits :: "calendar \<Rightarrow> string \<Rightarrow> string \<Rightarrow> (('s, 'm) limit_world_scheme, currency_limits option) io" where
  "getCurrencyLimits C userId currency = bind (getAssetLimits userId currency) (\<lambda>tierConfig. case tierConfig of
      None \<Rightarrow> ret None
    | Some cf \<Rightarrow> let c = cf_limits cf in
        bind (past_sums C currency userId) (\<lambda>ss.
        bind (promise_all [count_or_zero (maximum_pending_deposits_count c) (countPendingByUserAndType userId F_DEPOSIT currency),
            count_or_zero (maximum_pending_withdrawals_count c) (countPendingByUserAndType userId F_WITHDRAWAL currency),
            count_or_zero (maximum_weekly_deposit_count c) (countTransactionsByTypeInPastWeek userId F_DEPOSIT currency),
            count_or_zero (maximum_weekly_withdrawal_count c) (countTransactionsByTypeInPastWeek userId F_WITHDRAWAL currency)]) (\<lambda>ns.
        let sent = (\<lambda>i. \<bar>(ss ! i) F_WITHDRAWAL + (ss ! (i + 3)) F_WITHDRAWAL\<bar>);
            received = (\<lambda>i. (ss ! i) F_DEPOSIT + (ss ! (i + 3)) F_DEPOSIT) in
        ret (Some \<lparr>cl_currency = to_upper currency,
          cl_send = \<lparr>dl_single = maximum_per_withdrawal c, dl_daily = detail (maximum_daily_withdrawal c) (sent 0),
            dl_weekly = detail (maximum_weekly_withdrawal c) (sent 1), dl_monthly = detail (maximum_monthly_withdrawal c) (sent 2),
            dl_pending_count = count_shown (maximum_pending_withdrawals_count c) (ns ! 1),
            dl_weekly_count = count_shown (maximum_weekly_withdrawal_count c) (ns ! 3)\<rparr>,
          cl_receive = \<lparr>dl_single = maximum_per_deposit c, dl_daily = detail (maximum_daily_deposit c) (received 0),
            dl_weekly = detail (maximum_weekly_deposit c) (received 1), dl_monthly = detail (maximum_monthly_deposit c) (received 2),
            dl_pending_count = count_shown (maximum_pending_deposits_count c) (ns ! 0),
            dl_weekly_count = count_shown (maximum_weekly_deposit_count c) (ns ! 2)\<rparr>\<rparr>))))"

definition getUserTransactionLimits :: "calendar \<Rightarrow> string \<Rightarrow> (('s, 'm) limit_world_scheme, currency_limits list) io" where
  "getUserTransactionLimits C userId = rethrow is_not_found ''Error while getting user transaction limits''
     (bind (promise_all (map (getCurrencyLimits C userId) SUPPORTED_CURRENCY_CODES)) (\<lambda>limits. ret (List.map_filter id limits)))"

section \<open>With a database that works\<close>

lemma read_calm [simp]: "faults w = [] \<Longrightarrow> read_rows f w = (Inr (f w), w)"
  by (simp add: read_rows_def io_simps)

definition approved_of :: "string \<Rightarrow> requirement list \<Rightarrow> ('s, 'm) limit_world_scheme \<Rightarrow> kyc_row list" where
  "approved_of userId reqs w = filter (\<lambda>k. ky_user k = userId \<and> ky_status k = ''approved'' \<and> ky_requirement k \<in> set (map rq_id reqs)) (kycs w)"

lemma approved_calm [simp]: "faults w = [] \<Longrightarrow> findUserApprovedVerifications userId (map rq_id reqs) w = (Inr (approved_of userId reqs w), w)"
  by (cases "reqs = []") (simp_all add: findUserApprovedVerifications_def approved_of_def)

text \<open>The configuration is complete for the user: its country exists and its requirements are approved.\<close>

definition met :: "string \<Rightarrow> ('s, 'm) limit_world_scheme \<Rightarrow> tier \<times> config_row \<times> bool \<Rightarrow> bool" where
  "met userId w x = (case x of (t, c, known) \<Rightarrow> known \<and> cf_requirements c \<noteq> []
     \<and> all_approved (cf_requirements c) (approved_of userId (cf_requirements c) w))"

fun best :: "tier option \<Rightarrow> tier list \<Rightarrow> tier option" where
  "best h [] = h"
| "best h (t # ts) = best (if (case h of None \<Rightarrow> True | Some h \<Rightarrow> tr_level h < tr_level t) then Some t else h) ts"

lemma highest_calm: "faults w = [] \<Longrightarrow> highest_tier userId cs h w = (Inr (best h (map fst (filter (met userId w) cs))), w)"
proof (induction userId cs h rule: highest_tier.induct)
  case (2 userId t c known rest highest)
  then show ?case by (auto simp: met_def bind_run)
qed simp

lemma best_some: "best (Some h) ts = Some t \<Longrightarrow> (t = h \<or> t \<in> set ts) \<and> tr_level h \<le> tr_level t \<and> (\<forall>t' \<in> set ts. tr_level t' \<le> tr_level t)"
proof (induction ts arbitrary: h)
  case (Cons a ts)
  then show ?case by (fastforce split: if_splits)
qed simp

lemma best_is_some: "\<exists>t. best (Some h) ts = Some t"
  by (induction ts arbitrary: h) simp_all

lemma best_none: "best None ts = None \<longleftrightarrow> ts = []"
proof (cases ts)
  case (Cons a as)
  then show ?thesis using best_is_some [of a as] by auto
qed simp

lemma best_spec: "best None ts = Some t \<Longrightarrow> t \<in> set ts \<and> (\<forall>t' \<in> set ts. tr_level t' \<le> tr_level t)"
  by (cases ts) (auto dest!: best_some)

definition current_tier :: "string \<Rightarrow> ('s, 'm) limit_world_scheme \<Rightarrow> tier option" where
  "current_tier userId w = best None (map fst (filter (met userId w) (tier_configs userId w)))"

lemma tier_calm: "faults w = [] \<Longrightarrow> getUserCurrentTier userId w = (Inr (current_tier userId w), w)"
  by (simp add: getUserCurrentTier_def rethrow_def catch_run bind_run highest_calm current_tier_def)

text \<open>Reading the sums.\<close>

definition moved_since :: "int \<Rightarrow> string \<Rightarrow> tx_status \<Rightarrow> string \<Rightarrow> fiat_type \<Rightarrow> ('s, 'm) limit_world_scheme \<Rightarrow> int" where
  "moved_since start asset st userId ty w = sum_list (map ft_amount (filter (\<lambda>e. ft_currency e = asset \<and> ft_status e = st
     \<and> ft_user e = userId \<and> start \<le> ft_created e \<and> ft_created e \<le> now w \<and> ft_deleted e = None \<and> ft_type e = ty) (entries w)))"

lemma past_sum_calm: "faults w = [] \<Longrightarrow> past_sum start asset st userId w = (Inr (\<lambda>ty. moved_since (start (now w)) asset st userId ty w), w)"
  by (simp add: past_sum_def getFiatWalletTransactionSum_def moved_since_def)

lemma past_sums_calm: "faults w = [] \<Longrightarrow> past_sums C currency userId w = (Inr (map (\<lambda>(start, st) ty. moved_since (start C (now w)) currency st userId ty w)
    [(cal_day, COMPLETED), (cal_week, COMPLETED), (cal_month, COMPLETED), (cal_day, PENDING), (cal_week, PENDING), (cal_month, PENDING)]), w)"
  by (simp add: past_sums_def getPastOneDayTransactionSum_def getPastOneWeekTransactionSum_def getPastOneMonthTransactionSum_def past_sum_calm)

text \<open>What the limits are compared with, in a period.\<close>

definition used :: "(calendar \<Rightarrow> int \<Rightarrow> int) \<Rightarrow> calendar \<Rightarrow> string \<Rightarrow> string \<Rightarrow> fiat_type \<Rightarrow> ('s, 'm) limit_world_scheme \<Rightarrow> int" where
  "used start C userId currency ty w = current_sum ty (\<lambda>ty. moved_since (start C (now w)) currency COMPLETED userId ty w)
     (\<lambda>ty. moved_since (start C (now w)) currency PENDING userId ty w)"

definition pending_count :: "string \<Rightarrow> fiat_type \<Rightarrow> string \<Rightarrow> ('s, 'm) limit_world_scheme \<Rightarrow> int" where
  "pending_count userId ty currency w = int (length (filter (\<lambda>e. same_kind userId ty currency e \<and> ft_settled e = None \<and> live_entry e) (entries w)))"

definition week_count :: "string \<Rightarrow> fiat_type \<Rightarrow> string \<Rightarrow> ('s, 'm) limit_world_scheme \<Rightarrow> int" where
  "week_count userId ty currency w = int (length (filter (\<lambda>e. same_kind userId ty currency e \<and> now w - 7 * 86400000 \<le> ft_created e \<and> live_entry e) (entries w)))"

definition below :: "int \<Rightarrow> int option \<Rightarrow> bool" where
  "below n limit \<longleftrightarrow> (case limit of None \<Rightarrow> True | Some l \<Rightarrow> n < l)"

definition counts_below :: "string \<Rightarrow> fiat_type \<Rightarrow> string \<Rightarrow> tier_config \<Rightarrow> ('s, 'm) limit_world_scheme \<Rightarrow> bool" where
  "counts_below userId ty currency c w \<longleftrightarrow>
     (ty = F_DEPOSIT \<longrightarrow> below (pending_count userId ty currency w) (maximum_pending_deposits_count c)
        \<and> below (week_count userId ty currency w) (maximum_weekly_deposit_count c))
   \<and> (ty = F_WITHDRAWAL \<longrightarrow> below (pending_count userId ty currency w) (maximum_pending_withdrawals_count c)
        \<and> below (week_count userId ty currency w) (maximum_weekly_withdrawal_count c))"

definition platform_room :: "fiat_type \<Rightarrow> int \<Rightarrow> string \<Rightarrow> ('s, 'm) limit_world_scheme \<Rightarrow> bool" where
  "platform_room ty amount currency w \<longleftrightarrow> (ty \<in> {F_DEPOSIT, F_WITHDRAWAL} \<and> currency = ''USD'' \<longrightarrow>
     (\<forall>p. List.find (\<lambda>p. pl_provider p = ''zerohash'' \<and> pl_type p = (if ty = F_DEPOSIT then WEEKLY_DEPOSIT else WEEKLY_WITHDRAWAL)
         \<and> pl_currency p = currency \<and> pl_active p \<and> \<not> pl_deleted p) (provider_limits w) = Some p \<longrightarrow>
       \<bar>sum_list (map ag_amount (filter (\<lambda>g. ag_provider g = ''zerohash'' \<and> ag_type g = ty \<and> day_of (now w - 7 * 86400000) \<le> ag_day g)
         (aggregates w)))\<bar> + amount \<le> pl_value p))"

text \<open>The program without the reads: the first check that fails.\<close>

lemma pending_calm: "faults w = [] \<Longrightarrow> countPendingByUserAndType userId ty currency w = (Inr (pending_count userId ty currency w), w)"
  and week_calm: "faults w = [] \<Longrightarrow> countTransactionsByTypeInPastWeek userId ty currency w = (Inr (week_count userId ty currency w), w)"
  by (simp_all add: countPendingByUserAndType_def pending_count_def countTransactionsByTypeInPastWeek_def week_count_def)

lemma check_count_calm: "count w = (Inr n, w) \<Longrightarrow> check_count limit count e w = (if below n limit then Inr () else Inl e, w)"
  by (simp add: check_count_def below_def bind_run split: option.split)

lemma counts_calm:
  assumes "faults w = []"
  shows "fst (andthen (validatePendingTransactionCountLimit userId ty currency c)
      (andthen (validateWeeklyTransactionCountLimit userId ty currency c) m) w) = Inr ()
    \<longleftrightarrow> counts_below userId ty currency c w \<and> fst (m w) = Inr ()"
    "counts_below userId ty currency c w \<Longrightarrow> andthen (validatePendingTransactionCountLimit userId ty currency c)
      (andthen (validateWeeklyTransactionCountLimit userId ty currency c) m) w = m w"
  using pending_calm [OF assms, of userId ty currency] week_calm [OF assms, of userId ty currency]
  by (auto simp: validatePendingTransactionCountLimit_def validateWeeklyTransactionCountLimit_def andthen_run
      check_count_calm counts_below_def split: if_splits)

lemma platform_calm:
  assumes "faults w = []"
  shows "validatePlatformWeeklyLimit amount currency ty w
    = (if platform_room ty amount currency w then Inr () else Inl (exceeded ''PLATFORM_WEEKLY_LIMIT''), w)"
proof -
  have a: "attempt (getProviderLimitValue provider lt cur) w = (case List.find (\<lambda>p. pl_provider p = provider \<and> pl_type p = lt
       \<and> pl_currency p = cur \<and> pl_active p \<and> \<not> pl_deleted p) (provider_limits w) of
       None \<Rightarrow> (Inr (Inl (NotFound (''Provider limit not found for provider='' @ provider))), w) | Some p \<Rightarrow> (Inr (Inr (pl_value p)), w))" for provider lt cur
    using assms by (simp add: attempt_def getProviderLimitValue_def catch_run bind_run split: option.split)
  show ?thesis
    using assms by (auto simp: validatePlatformWeeklyLimit_def validateProviderPlatformWeeklyLimit_def platform_room_def bind_run a Let_def
        split: option.split)
qed

definition sums_below :: "calendar \<Rightarrow> string \<Rightarrow> int \<Rightarrow> string \<Rightarrow> fiat_type \<Rightarrow> amount_limits \<Rightarrow> ('s, 'm) limit_world_scheme \<Rightarrow> bool" where
  "sums_below C userId amount currency ty l w \<longleftrightarrow> used cal_day C userId currency ty w + amount \<le> al_daily l
     \<and> used cal_week C userId currency ty w + amount \<le> al_weekly l \<and> used cal_month C userId currency ty w + amount \<le> al_monthly l"

lemma limit_section_calm:
  fixes w :: "('s, 'm) limit_world_scheme"
  assumes "faults w = []" "getAssetLimits userId currency w = (Inr (Some c), w)" "limits_for ty (cf_limits c) = Some l"
  shows "fst (limitSection C userId amount currency ty w) = Inr () \<longleftrightarrow>
    amount \<le> al_single l \<and> counts_below userId ty currency (cf_limits c) w \<and> platform_room ty amount currency w
    \<and> sums_below C userId amount currency ty l w"
proof -
  have s: "bind (past_sums C currency userId) (check_sums ty amount l) w = (if sums_below C userId amount currency ty l w then Inr ()
      else fst (check_sums ty amount l (map (\<lambda>(start, st) ty. moved_since (start C (now w)) currency st userId ty w)
    [(cal_day, COMPLETED), (cal_week, COMPLETED), (cal_month, COMPLETED), (cal_day, PENDING), (cal_week, PENDING), (cal_month, PENDING)]) w), w)"
    "fst (check_sums ty amount l (map (\<lambda>(start, st) ty. moved_since (start C (now w)) currency st userId ty w)
    [(cal_day, COMPLETED), (cal_week, COMPLETED), (cal_month, COMPLETED), (cal_day, PENDING), (cal_week, PENDING), (cal_month, PENDING)]) w) = Inr ()
      \<longleftrightarrow> sums_below C userId amount currency ty l w"
    using past_sums_calm [OF assms(1), of C currency userId]
    by (auto simp: bind_run check_sums_def Let_def sums_below_def used_def numeral_nat)
  show ?thesis
    using assms(2,3) counts_calm [OF assms(1), of userId ty currency "cf_limits c"] s
    by (auto simp: limitSection_def bind_run andthen_run platform_calm [OF assms(1)])
qed

text \<open>Programs that only read: a part of the schedule of failures is all they use up.\<close>

definition reads_only :: "(('s, 'm) dbase_scheme, 'a) io \<Rightarrow> bool" where
  "reads_only m \<longleftrightarrow> (\<forall>w. \<exists>n. snd (m w) = w\<lparr>faults := drop n (faults w)\<rparr>)"

named_theorems reads_intros \<open>programs that only read\<close>

lemma reads_onlyI: "(\<And>w. \<exists>n. snd (m w) = w\<lparr>faults := drop n (faults w)\<rparr>) \<Longrightarrow> reads_only m"
  by (simp add: reads_only_def)

lemma reads_onlyE:
  assumes "reads_only m" "m w = (v, w1)"
  obtains n where "w1 = w\<lparr>faults := drop n (faults w)\<rparr>"
  using assms unfolding reads_only_def by (metis snd_conv)

lemma read_twice: "\<exists>n. w\<lparr>faults := drop i (drop j (faults w))\<rparr> = w\<lparr>faults := drop n (faults w)\<rparr>"
  by (rule exI [of _ "i + j"]) simp

lemma reads_basic [reads_intros]: "reads_only (ret x)" "reads_only (throw e)" "reads_only get_now"
  by (auto intro!: reads_onlyI exI [of _ 0])

lemma reads_read_rows [reads_intros]: "reads_only (read_rows f)"
proof (rule reads_onlyI)
  fix w
  show "\<exists>n. snd (read_rows f w) = w\<lparr>faults := drop n (faults w)\<rparr>"
    by (cases "faults w")
       (auto simp: read_rows_def andthen_run db_step_run split: option.split intro: exI [of _ 0] exI [of _ 1])
qed

lemma reads_bind [reads_intros]:
  assumes "reads_only m" "\<And>x. reads_only (f x)"
  shows "reads_only (bind m f)"
proof (rule reads_onlyI)
  fix w
  obtain v w1 where m: "m w = (v, w1)" by (cases "m w")
  obtain n where n: "w1 = w\<lparr>faults := drop n (faults w)\<rparr>" by (rule reads_onlyE [OF assms(1) m])
  show "\<exists>n. snd (bind m f w) = w\<lparr>faults := drop n (faults w)\<rparr>"
  proof (cases v)
    case (Inr x)
    obtain v2 w2 where f: "f x w1 = (v2, w2)" by (cases "f x w1")
    obtain i where "w2 = w1\<lparr>faults := drop i (faults w1)\<rparr>" by (rule reads_onlyE [OF assms(2) f])
    with m n f Inr show ?thesis by (simp add: bind_run read_twice del: drop_drop)
  qed (use m n in \<open>auto simp: bind_run\<close>)
qed

lemma reads_catch [reads_intros]:
  assumes "reads_only m" "\<And>e. reads_only (h e)"
  shows "reads_only (catch m h)"
proof (rule reads_onlyI)
  fix w
  obtain v w1 where m: "m w = (v, w1)" by (cases "m w")
  obtain n where n: "w1 = w\<lparr>faults := drop n (faults w)\<rparr>" by (rule reads_onlyE [OF assms(1) m])
  show "\<exists>n. snd (catch m h w) = w\<lparr>faults := drop n (faults w)\<rparr>"
  proof (cases v)
    case (Inl e)
    obtain v2 w2 where h: "h e w1 = (v2, w2)" by (cases "h e w1")
    obtain i where "w2 = w1\<lparr>faults := drop i (faults w1)\<rparr>" by (rule reads_onlyE [OF assms(2) h])
    with m n h Inl show ?thesis by (simp add: catch_run read_twice del: drop_drop)
  qed (use m n in \<open>auto simp: catch_run\<close>)
qed

lemma reads_seq [reads_intros]: "reads_only m \<Longrightarrow> reads_only n \<Longrightarrow> reads_only (andthen m n)"
  by (simp add: andthen_def reads_bind)

lemma reads_if [reads_intros]: "reads_only m \<Longrightarrow> reads_only n \<Longrightarrow> reads_only (if b then m else n)"
  by simp

lemma reads_option [reads_intros]:
  "reads_only m \<Longrightarrow> (\<And>x. reads_only (f x)) \<Longrightarrow> reads_only (case v of None \<Rightarrow> m | Some x \<Rightarrow> f x)"
  by (cases v) simp_all

lemma reads_sum [reads_intros]:
  "(\<And>x. reads_only (f x)) \<Longrightarrow> (\<And>x. reads_only (g x)) \<Longrightarrow> reads_only (case v of Inl x \<Rightarrow> f x | Inr x \<Rightarrow> g x)"
  by (cases v) simp_all

lemma reads_all [reads_intros]: "(\<And>m. m \<in> set ms \<Longrightarrow> reads_only m) \<Longrightarrow> reads_only (promise_all ms)"
proof (induction ms)
  case (Cons m ms)
  have r: "reads_only m" "reads_only (promise_all ms)" using Cons by auto
  show ?case
  proof (rule reads_onlyI)
    fix w
    obtain v w1 where m: "m w = (v, w1)" by (cases "m w")
    obtain i where i: "w1 = w\<lparr>faults := drop i (faults w)\<rparr>" by (rule reads_onlyE [OF r(1) m])
    obtain v' w2 where p: "promise_all ms w1 = (v', w2)" by (cases "promise_all ms w1")
    obtain j where "w2 = w1\<lparr>faults := drop j (faults w1)\<rparr>" by (rule reads_onlyE [OF r(2) p])
    with m p i show "\<exists>n. snd (promise_all (m # ms) w) = w\<lparr>faults := drop n (faults w)\<rparr>"
      by (cases v; cases v') (auto simp: read_twice simp del: drop_drop)
  qed
qed (simp add: reads_basic)

lemma highest_reads [reads_intros]: "reads_only (highest_tier userId cs h)"
proof (induction cs arbitrary: h)
  case (Cons x cs)
  obtain t c known where x: "x = (t, c, known)" by (cases x)
  show ?case
    unfolding x highest_tier.simps findUserApprovedVerifications_def by (intro reads_intros Cons.IH)
qed (unfold highest_tier.simps, rule reads_basic)

lemma limits_read [reads_intros]: "reads_only (getAssetLimits userId asset)"
  unfolding getAssetLimits_def getUserCurrentTier_def rethrow_def Let_def by (intro reads_intros)

lemma past_sum_reads: "reads_only (past_sum start asset st userId)"
  unfolding past_sum_def getFiatWalletTransactionSum_def by (intro reads_intros)

lemma counts_read [reads_intros]:
  "reads_only (countPendingByUserAndType userId ty currency)" "reads_only (countTransactionsByTypeInPastWeek userId ty currency)"
  "reads_only (past_sums C currency userId)"
  unfolding countPendingByUserAndType_def countTransactionsByTypeInPastWeek_def past_sums_def getPastOneDayTransactionSum_def
    getPastOneWeekTransactionSum_def getPastOneMonthTransactionSum_def
  by (intro reads_intros, intro reads_intros, rule reads_all, auto intro: past_sum_reads)

lemma check_sums_reads [reads_intros]: "reads_only (check_sums ty amount l ss)"
  by (simp add: check_sums_def Let_def reads_basic)

lemma section_reads: "reads_only (limitSection C userId amount currency ty)"
  unfolding limitSection_def validatePendingTransactionCountLimit_def validateWeeklyTransactionCountLimit_def check_count_def
    validatePlatformWeeklyLimit_def validateProviderPlatformWeeklyLimit_def getProviderLimitValue_def attempt_def Let_def
  by (intro reads_intros)

lemma reads_calm: "reads_only m \<Longrightarrow> faults w = [] \<Longrightarrow> snd (m w) = w"
  by (cases "m w") (auto elim: reads_onlyE)

lemma reads_quiet:
  assumes "reads_only m"
  shows "quiet m"
  unfolding quiet_def
proof
  fix w
  obtain v w1 where m: "m w = (v, w1)" by (cases "m w")
  then show "rds (snd (m w)) = rds w \<and> now (snd (m w)) = now w" using reads_onlyE [OF assms m] by fastforce
qed

section \<open>The verdict\<close>

definition asset_limits :: "string \<Rightarrow> string \<Rightarrow> ('s, 'm) limit_world_scheme \<Rightarrow> config_row option" where
  "asset_limits userId asset w = (if \<not> isSupportedCurrency (trim (to_upper asset)) then None
     else case getCurrencyCountryCode (trim (to_upper asset)) of
       None \<Rightarrow> None
     | Some cc \<Rightarrow> (case (if cc = [] then None else List.find (\<lambda>k. co_code k = cc) (countries w)) of
         None \<Rightarrow> None
       | Some k \<Rightarrow> (case current_tier userId w of None \<Rightarrow> None | Some t \<Rightarrow> find_config (tr_id t) (co_id k) w)))"

lemma asset_limits_calm:
  assumes "faults w = []" "asset_limits userId asset w = Some c"
  shows "getAssetLimits userId asset w = (Inr (Some c), w)"
  using assms by (auto simp: asset_limits_def getAssetLimits_def rethrow_def catch_run bind_run tier_calm Let_def
      split: option.splits if_splits)

definition accepts :: "calendar \<Rightarrow> string \<Rightarrow> int \<Rightarrow> string \<Rightarrow> fiat_type \<Rightarrow> config_row \<Rightarrow> amount_limits \<Rightarrow> ('s, 'm) limit_world_scheme \<Rightarrow> bool" where
  "accepts C userId amount currency ty c l w \<longleftrightarrow> amount \<le> al_single l \<and> counts_below userId ty currency (cf_limits c) w
     \<and> platform_room ty amount currency w \<and> sums_below C userId amount currency ty l w"

definition ready :: "('s \<Rightarrow> int \<Rightarrow> keyspace) \<Rightarrow> 's money_env \<Rightarrow> string \<Rightarrow> string \<Rightarrow> fiat_type \<Rightarrow> config_row \<Rightarrow> ('s, 'm) limit_world_scheme \<Rightarrow> bool" where
  "ready ent M userId currency ty c w \<longleftrightarrow> 0 < m_patience M \<and> view ent w (limitKey userId currency ty) = None \<and> faults w = []
     \<and> asset_limits userId currency w = Some c"

lemma same_tables:
  "asset_limits userId currency (w\<lparr>draws := n, rds := s\<rparr>) = asset_limits userId currency w"
  "accepts C userId amount currency ty c l (w\<lparr>draws := n, rds := s\<rparr>) = accepts C userId amount currency ty c l w"
  by (simp_all add: asset_limits_def current_tier_def met_def [abs_def] approved_of_def tier_configs_def tiers_of_def find_config_def
      accepts_def counts_below_def pending_count_def week_count_def platform_room_def sums_below_def used_def moved_since_def
      cong: option.case_cong if_cong)

lemma validate_calm:
  fixes w :: "('s, 'm) limit_world_scheme"
  assumes "redis_server (m_redis M) ent" "ready ent M userId currency ty c w" "limits_for ty (cf_limits c) = Some l"
  obtains s where "fst (validateLimit M C userId amount currency ty w) = Inr () \<longleftrightarrow> accepts C userId amount currency ty c l w"
    "snd (validateLimit M C userId amount currency ty w) = w\<lparr>draws := Suc (draws w), rds := s\<rparr>"
    "ent s (now w) (limitKey userId currency ty) = None"
proof -
  note r = assms(2) [unfolded ready_def]
  let ?sec = "limitSection C userId amount currency ty"
  obtain s s' where l: "locked_wait M (limitKey userId currency ty) ?sec w
      = (fst (?sec (w\<lparr>draws := Suc (draws w), rds := s\<rparr>)), (snd (?sec (w\<lparr>draws := Suc (draws w), rds := s\<rparr>)))\<lparr>rds := s'\<rparr>)"
      "ent s' (now w) (limitKey userId currency ty) = None"
    using redis_server.locked_wait_at [OF assms(1) refl, where key = "limitKey userId currency ty" and w = w and cb = ?sec] r reads_quiet [OF section_reads] by metis
  define w1 where "w1 = w\<lparr>draws := Suc (draws w), rds := s\<rparr>"
  have "getAssetLimits userId currency w1 = (Inr (Some c), w1)"
    by (rule asset_limits_calm) (use r in \<open>simp_all add: w1_def same_tables\<close>)
  then have v: "fst (?sec w1) = Inr () \<longleftrightarrow> accepts C userId amount currency ty c l w"
    using limit_section_calm [of w1 userId currency c ty l C amount] assms(3) r same_tables(2) [where w = w and n = "Suc (draws w)" and s = s]
    by (simp add: w1_def accepts_def)
  have "snd (?sec w1) = w1" using r by (simp add: reads_calm [OF section_reads] w1_def)
  with l v show thesis
    by (intro that [of s']) (simp_all add: validateLimit_def w1_def)
qed

text \<open>What a transfer is compared with does not depend on transfers.\<close>

lemma other_types_unseen:
  assumes "\<forall>e \<in> set extra. ft_type e \<noteq> sum_key ty"
  shows "used start C userId currency ty (w\<lparr>entries := extra @ entries w\<rparr>) = used start C userId currency ty w"
proof -
  have "filter (\<lambda>e. ft_currency e = a \<and> ft_status e = st \<and> ft_user e = u \<and> x \<le> ft_created e \<and> ft_created e \<le> y
      \<and> ft_deleted e = None \<and> ft_type e = sum_key ty) extra = []" for a st u x y
    using assms by (auto simp: filter_empty_conv)
  then show ?thesis by (simp add: used_def moved_since_def current_sum_def)
qed

lemma entries_unseen: "asset_limits userId currency (w\<lparr>entries := es\<rparr>) = asset_limits userId currency w"
  by (simp add: asset_limits_def current_tier_def met_def [abs_def] approved_of_def tier_configs_def tiers_of_def find_config_def
      cong: option.case_cong if_cong)

section \<open>Daily aggregates\<close>

definition aggregate_total :: "int \<Rightarrow> string \<Rightarrow> fiat_type \<Rightarrow> ('s, 'm) limit_world_scheme \<Rightarrow> int" where
  "aggregate_total day provider ty w = sum_list (map ag_amount (filter (\<lambda>g. ag_day g = day \<and> ag_provider g = provider \<and> ag_type g = ty) (aggregates w)))"

definition totals_are :: "(int \<Rightarrow> string \<Rightarrow> fiat_type \<Rightarrow> int) \<Rightarrow> ('s, 'm) limit_world_scheme \<Rightarrow> bool" where
  "totals_are f w \<longleftrightarrow> distinct (map ag_id (aggregates w)) \<and> (\<forall>day provider ty. aggregate_total day provider ty w = f day provider ty)"

definition add_at :: "int \<Rightarrow> string \<Rightarrow> fiat_type \<Rightarrow> int \<Rightarrow> (int \<Rightarrow> string \<Rightarrow> fiat_type \<Rightarrow> int) \<Rightarrow> int \<Rightarrow> string \<Rightarrow> fiat_type \<Rightarrow> int" where
  "add_at day provider ty a f = (\<lambda>d p t. if d = day \<and> p = provider \<and> t = ty then f d p t + a else f d p t)"

lemma replaced_aggregates:
  assumes "distinct (map ag_id gs)" "List.find (\<lambda>x. ag_id x = i) gs = Some g"
  shows "distinct (map ag_id (replace_row ag_id i (g\<lparr>ag_amount := b\<rparr>) gs))
    \<and> sum_list (map ag_amount (filter P (replace_row ag_id i (g\<lparr>ag_amount := b\<rparr>) gs)))
      = sum_list (map ag_amount (filter P gs)) - (if P g then ag_amount g else 0) + (if P (g\<lparr>ag_amount := b\<rparr>) then b else 0)"
proof -
  have "sum_list (map ag_amount (filter P (filter (\<lambda>x. ag_id x \<noteq> i) gs))) = sum_list (map ag_amount (filter P gs)) - (if P g then ag_amount g else 0)"
    using assms
  proof (induction gs)
    case (Cons a gs)
    show ?case
    proof (cases "ag_id a = i")
      case True
      then have "\<forall>x \<in> set gs. ag_id x \<noteq> i" using Cons.prems(1) by (metis distinct.simps(2) image_eqI list.set_map list.simps(9))
      then have "filter (\<lambda>x. ag_id x \<noteq> i) gs = gs" by (simp add: filter_id_conv)
      with True Cons.prems(2) show ?thesis by simp
    qed (use Cons in auto)
  qed simp
  moreover have "distinct (map ag_id (filter (\<lambda>x. ag_id x \<noteq> i) gs))" using assms(1) by (simp add: distinct_map_filter)
  moreover have "ag_id g = i" using assms(2) by (auto dest: find_Some_in)
  ultimately show ?thesis by (auto simp: replace_row_def)
qed

lemma aggregate_section_triple:
  fixes M :: "'s money_env"
  shows "triple (totals_are f :: ('s, 'm) limit_world_scheme \<Rightarrow> bool) (aggregateSection M day provider ty a) (\<lambda>_. totals_are (add_at day provider ty a f)) (\<lambda>_. totals_are f)"
proof -
  let ?P = "\<lambda>g. ag_day g = day \<and> ag_provider g = provider \<and> ag_type g = ty"
  have keep: "totals_are f (w\<lparr>faults := fs\<rparr>) = totals_are f w" "totals_are f (w\<lparr>draws := n\<rparr>) = totals_are f w"
    for w :: "('s, 'm) limit_world_scheme" and fs n f
    by (simp_all add: totals_are_def aggregate_total_def)
  have res: "case aggregateSection M day provider ty a w of (Inr x, w') \<Rightarrow> totals_are (add_at day provider ty a f) w' | (Inl e, w') \<Rightarrow> totals_are f w'"
    if t: "totals_are f w" for w :: "('s, 'm) limit_world_scheme"
  proof (cases rule: aggregates.findOne_cases [of ?P w])
    case (1 e fs)
    then show ?thesis using t by (simp add: aggregateSection_def bind_run keep)
  next
    case (2 fs)
    define w1 where "w1 = w\<lparr>faults := fs\<rparr>"
    have t1: "totals_are f w1" using t by (simp add: w1_def keep)
    show ?thesis
    proof (cases "List.find ?P (aggregates w)")
      case (Some g)
      then have g: "?P g" "g \<in> set (aggregates w1)" "distinct (map ag_id (aggregates w1))"
        using t1 find_Some_in [OF Some] by (simp_all add: w1_def totals_are_def)
      then have found: "List.find (\<lambda>x. ag_id x = ag_id g) (aggregates w1) = Some g" by (simp add: find_distinct)
      have sec: "aggregateSection M day provider ty a w = repo_update_id aggregate_table (ag_id g) (\<lambda>r. r\<lparr>ag_amount := ag_amount g + a\<rparr>) w1"
        using 2 Some by (simp add: aggregateSection_def bind_run w1_def)
      show ?thesis
        unfolding sec
        by (cases rule: aggregates.update_id_cases [of "ag_id g" "\<lambda>r. r\<lparr>ag_amount := ag_amount g + a\<rparr>" w1])
           (use found t1 g(1) replaced_aggregates [OF g(3) found] in
             \<open>auto simp: keep totals_are_def aggregate_total_def add_at_def\<close>)
    next
      case None
      define r where "r = \<lparr>ag_id = m_fresh M (draws w1), ag_day = day, ag_provider = provider, ag_type = ty, ag_amount = a\<rparr>"
      define w2 where "w2 = w1\<lparr>draws := Suc (draws w1)\<rparr>"
      have t2: "totals_are f w2" using t1 by (simp add: w2_def keep)
      have sec: "aggregateSection M day provider ty a w = bind (repo_create aggregate_table r) (\<lambda>g. ret (Some g)) w2"
        using 2 None by (simp add: aggregateSection_def bind_run w1_def new_value_def r_def w2_def)
      show ?thesis
        unfolding sec
        by (cases rule: aggregates.create_cases [of r w2])
           (use t2 in \<open>auto simp: bind_run keep totals_are_def aggregate_total_def add_at_def r_def\<close>)
    qed
  qed
  show ?thesis
  proof (rule tripleI, goal_cases)
    case (1 w x w')
    then show ?case using res [of w] by simp
  next
    case (2 w e w')
    then show ?case using res [of w] by simp
  qed
qed

lemma aggregate_writes_quiet:
  fixes w :: "('s, 'm) limit_world_scheme"
  shows "rds (snd (repo_create aggregate_table r w)) = rds w \<and> now (snd (repo_create aggregate_table r w)) = now w"
    "rds (snd (repo_update_id aggregate_table i g w)) = rds w \<and> now (snd (repo_update_id aggregate_table i g w)) = now w"
    "rds (snd (repo_findOne aggregate_table P w)) = rds w \<and> now (snd (repo_findOne aggregate_table P w)) = now w"
  by (cases rule: aggregates.create_cases [of r w], simp_all)
     (cases rule: aggregates.update_id_cases [of i g w], simp_all, cases rule: aggregates.findOne_cases [of P w], simp_all)

lemma aggregate_section_quiet: "quiet (aggregateSection M day provider ty a)"
proof -
  note w = aggregate_writes_quiet [THEN allI [of "\<lambda>w. rds (snd (_ w)) = rds w \<and> now (snd (_ w)) = now w"], folded quiet_def]
  have o: "quiet (case v of None \<Rightarrow> m | Some x \<Rightarrow> h x)" if "quiet m" "\<And>x. quiet (h x)"
    for v :: "aggregate_row option" and m :: "(('s, 'm) limit_world_scheme, aggregate_row option) io" and h
    using that by (cases v) simp_all
  have n: "quiet (new_value M)" "quiet (ret x)" for x by (simp_all add: quiet_def new_value_def)
  show ?thesis unfolding aggregateSection_def by (intro quiet_bind o w n)
qed

context redis_server
begin

lemma aggregate_triple:
  fixes f :: "int \<Rightarrow> string \<Rightarrow> fiat_type \<Rightarrow> int" and w :: "('s, 'm) limit_world_scheme"
  assumes "m_redis M = E"
  shows "triple (totals_are f :: ('s, 'm) limit_world_scheme \<Rightarrow> bool)
    (locked M (aggregateKey day provider ty) 5 (aggregateSection M day provider ty a))
    (\<lambda>_. totals_are (add_at day provider ty a f)) (\<lambda>_. totals_are f)"
proof -
  have st: "lock_stable key (totals_are g :: ('s, 'm) limit_world_scheme \<Rightarrow> bool)" for key g
    by (auto simp: lock_stable_def moved_def totals_are_def aggregate_total_def)
  have q: "rds (snd (aggregateSection M day provider ty a w1)) = rds w1 \<and> now (snd (aggregateSection M day provider ty a w1)) = now w1"
    for w1 :: "('s, 'm) limit_world_scheme"
    using aggregate_section_quiet [of M day provider ty a] unfolding quiet_def by blast
  have "triple (totals_are f :: ('s, 'm) limit_world_scheme \<Rightarrow> bool)
      (withLockN E own (aggregateKey day provider ty) (Some 30000) 5 500 (aggregateSection M day provider ty a))
      (\<lambda>_. totals_are (add_at day provider ty a f)) (\<lambda>_ w. totals_are f w \<or> totals_are f w)" for own
    by (rule withLockN_triple) (simp_all add: st q aggregate_section_triple)
  then have l: "triple (totals_are f :: ('s, 'm) limit_world_scheme \<Rightarrow> bool)
      (withLockN E own (aggregateKey day provider ty) (Some 30000) 5 500 (aggregateSection M day provider ty a))
      (\<lambda>_. totals_are (add_at day provider ty a f)) (\<lambda>_. totals_are f)" for own by simp
  show ?thesis
    unfolding locked_def assms
    by (rule triple_bind [OF _ l]) (simp add: triple_def new_value_def totals_are_def aggregate_total_def)
qed

end

section \<open>Properties\<close>

text \<open>
  The current tier is the highest one the user completed: with a database that works, it is a tier of
  the user some configuration of which has its country and exactly its requirements approved, no such
  tier is higher, and there is none only if no configuration is complete.
\<close>

theorem current_tier_highest:
  assumes "faults w = []"
  shows "case fst (getUserCurrentTier userId w) of
      Inl _ \<Rightarrow> False
    | Inr None \<Rightarrow> \<forall>x \<in> set (tier_configs userId w). \<not> met userId w x
    | Inr (Some t) \<Rightarrow> (\<exists>x \<in> set (tier_configs userId w). met userId w x \<and> fst x = t)
        \<and> (\<forall>x \<in> set (tier_configs userId w). met userId w x \<longrightarrow> tr_level (fst x) \<le> tr_level t)"
proof (cases "current_tier userId w")
  case None
  then show ?thesis using assms by (simp add: tier_calm current_tier_def best_none filter_empty_conv)
next
  case (Some t)
  let ?done = "filter (met userId w) (tier_configs userId w)"
  have b: "t \<in> fst ` set ?done" "\<forall>y \<in> fst ` set ?done. tr_level y \<le> tr_level t"
    using best_spec [OF Some [unfolded current_tier_def]] by simp_all
  from b(1) obtain x where x: "x \<in> set ?done" "t = fst x" by (rule imageE) (rule that)
  have "\<exists>x \<in> set (tier_configs userId w). met userId w x \<and> fst x = t"
    by (rule bexI [of _ x]) (use x in simp_all)
  moreover have "tr_level (fst y) \<le> tr_level t" if "y \<in> set (tier_configs userId w)" "met userId w y" for y
    using bspec [OF b(2), of "fst y"] that by simp
  moreover have "fst (getUserCurrentTier userId w) = Inr (Some t)" using assms Some by (simp add: tier_calm)
  ultimately show ?thesis by simp
qed

text \<open>
  C37: the limits shown are the limits enforced: with a database that works and the lock free, a
  withdrawal or deposit is accepted exactly when it is within the single limit and all three remaining
  amounts shown, both counts shown leave room, and the provider's weekly limit leaves room.
\<close>

definition count_left :: "count_detail option \<Rightarrow> bool" where
  "count_left d \<longleftrightarrow> (case d of None \<Rightarrow> True | Some x \<Rightarrow> 0 < cd_remaining x)"


text \<open>
  Transfers do not count against the limits on transfers: whatever transfers, in or out, are added
  to the history, a transfer is accepted exactly when it was without them.
\<close>

theorem transfers_not_counted:
  fixes w :: "('s, 'm) limit_world_scheme"
  assumes "redis_server (m_redis M) ent" "ready ent M userId currency ty c w" "ty = F_TRANSFER_OUT \<or> ty = F_TRANSFER_IN"
    and "\<forall>e \<in> set extra. ft_type e = F_TRANSFER_OUT \<or> ft_type e = F_TRANSFER_IN"
  shows "fst (validateLimit M C userId amount currency ty (w\<lparr>entries := extra @ entries w\<rparr>)) = Inr ()
    \<longleftrightarrow> fst (validateLimit M C userId amount currency ty w) = Inr ()"
proof -
  obtain l where l: "limits_for ty (cf_limits c) = Some l" using assms(3) by (auto simp: limits_for_def)
  have "ready ent M userId currency ty c (w\<lparr>entries := extra @ entries w\<rparr>)"
    using assms(2) by (simp add: ready_def entries_unseen view_def)
  then have "fst (validateLimit M C userId amount currency ty (w\<lparr>entries := extra @ entries w\<rparr>)) = Inr ()
      \<longleftrightarrow> accepts C userId amount currency ty c l (w\<lparr>entries := extra @ entries w\<rparr>)"
    by (rule validate_calm [OF assms(1) _ l, of userId currency _ C amount]) blast
  moreover have "fst (validateLimit M C userId amount currency ty w) = Inr () \<longleftrightarrow> accepts C userId amount currency ty c l w"
    by (rule validate_calm [OF assms(1,2) l, of C amount]) blast
  moreover have "\<forall>e \<in> set extra. ft_type e \<noteq> sum_key ty" using assms(3,4) by (auto simp: sum_key_def)
  ultimately show ?thesis
    using assms(3) by (auto simp: accepts_def counts_below_def platform_room_def sums_below_def other_types_unseen)
qed

text \<open>
  Checking a limit reserves nothing: after a request was accepted, the same request is accepted
  again, so requests that together exceed a limit all pass until their transactions are recorded.
\<close>

theorem limits_reserve_nothing:
  fixes w :: "('s, 'm) limit_world_scheme"
  assumes "redis_server (m_redis M) ent" "ready ent M userId currency ty c w" "limits_for ty (cf_limits c) = Some l"
    and "fst (validateLimit M C userId amount currency ty w) = Inr ()"
  shows "fst (validateLimit M C userId amount currency ty (snd (validateLimit M C userId amount currency ty w))) = Inr ()
    \<and> entries (snd (validateLimit M C userId amount currency ty w)) = entries w"
proof -
  obtain s where v: "fst (validateLimit M C userId amount currency ty w) = Inr () \<longleftrightarrow> accepts C userId amount currency ty c l w"
    "snd (validateLimit M C userId amount currency ty w) = w\<lparr>draws := Suc (draws w), rds := s\<rparr>"
    "ent s (now w) (limitKey userId currency ty) = None"
    by (rule validate_calm [OF assms(1-3), of C amount])
  define w1 where "w1 = w\<lparr>draws := Suc (draws w), rds := s\<rparr>"
  have w1: "snd (validateLimit M C userId amount currency ty w) = w1" using v(2) by (simp add: w1_def)
  have "ready ent M userId currency ty c w1"
    using assms(2) v(3) by (simp add: ready_def w1_def same_tables view_def)
  then have "fst (validateLimit M C userId amount currency ty w1) = Inr () \<longleftrightarrow> accepts C userId amount currency ty c l w1"
    by (rule validate_calm [OF assms(1) _ assms(3), of userId currency w1 C amount]) blast
  then show ?thesis using v(1) assms(4) unfolding w1 by (simp add: w1_def same_tables)
qed

text \<open>
  C38: the daily aggregates are exact: an update adds its amount to the total of its day, provider and
  type and to nothing else, or throws and adds nothing, wherever the database or the lock fails.
\<close>

theorem aggregates_exact:
  fixes w :: "('s, 'm) limit_world_scheme"
  assumes "redis_server (m_redis M) ent" "distinct (map ag_id (aggregates w))"
  shows "case findAndUpdate M provider ty a w of
      (Inl e, w') \<Rightarrow> \<forall>d p t. aggregate_total d p t w' = aggregate_total d p t w
    | (Inr _, w') \<Rightarrow> \<forall>d p t. aggregate_total d p t w' = aggregate_total d p t w
        + (if d = day_of (now w) \<and> p = provider \<and> t = ty then a else 0)"
proof -
  have t: "totals_are (\<lambda>d p t. aggregate_total d p t w) w" using assms(2) by (simp add: totals_are_def)
  obtain v w' where r: "findAndUpdate M provider ty a w = (v, w')" by (cases "findAndUpdate M provider ty a w")
  then have l: "locked M (aggregateKey (day_of (now w)) provider ty) 5 (aggregateSection M (day_of (now w)) provider ty a) w = (v, w')"
    by (simp add: findAndUpdate_def)
  show ?thesis
  proof (cases v)
    case (Inl e)
    then show ?thesis using triple_fail [OF redis_server.aggregate_triple [OF assms(1) refl] t] l r by (simp add: totals_are_def)
  next
    case (Inr x)
    then show ?thesis using triple_ok [OF redis_server.aggregate_triple [OF assms(1) refl] t] l r
      by (auto simp: totals_are_def add_at_def)
  qed
qed

section \<open>The properties at a concrete input\<close>

definition demo_config :: config_row where
  "demo_config = \<lparr>cf_id = ''c'', cf_tier = ''t1'', cf_country = ''ng'', cf_limits = NGN_tier_1,
     cf_requirements = [\<lparr>rq_id = ''r'', rq_requirement = Some ''bvn''\<rparr>]\<rparr>"

definition demo_calendar :: calendar where
  "demo_calendar = \<lparr>cal_day = (\<lambda>t. t - t mod 86400000), cal_week = (\<lambda>t. t - t mod 604800000), cal_month = (\<lambda>t. t - t mod 2592000000)\<rparr>"

definition demo_limits :: "keyspace limit_world" where
  "demo_limits = \<lparr>rds = Map.empty, now = 0, faults = [], outbox = [], draws = 0, entries = [],
     tiers = [\<lparr>tr_id = ''t1'', tr_name = ''one'', tr_level = 1\<rparr>], configs = [demo_config],
     user_tiers = [\<lparr>ut_id = ''i'', ut_user = ''u'', ut_tier = ''t1''\<rparr>],
     kycs = [\<lparr>ky_id = ''k'', ky_user = ''u'', ky_requirement = ''r'', ky_status = ''approved''\<rparr>],
     countries = [\<lparr>co_id = ''ng'', co_code = ''NG''\<rparr>], aggregates = [], provider_limits = []\<rparr>"

lemma demo_limits_simps [simp]:
  "faults demo_limits = []" "entries demo_limits = []" "aggregates demo_limits = []" "view ks_ent demo_limits k = None"
  "cf_limits demo_config = NGN_tier_1"
  by (simp_all add: demo_limits_def view_def ks_ent_def demo_config_def live_def)

lemma demo_asset_limits: "asset_limits ''u'' ''NGN'' demo_limits = Some demo_config"
  by code_simp

lemma demo_limits_ready: "ready ks_ent demo_money_env ''u'' ''NGN'' ty demo_config demo_limits"
  by (simp add: ready_def demo_asset_limits) (simp add: demo_money_env_def)

theorem current_tier_highest_witness:
  "\<exists>t. fst (getUserCurrentTier ''u'' demo_limits) = Inr (Some t) \<and> tr_level t = 1"
proof -
  have "fst (getUserCurrentTier ''u'' demo_limits) = Inr (Some \<lparr>tr_id = ''t1'', tr_name = ''one'', tr_level = 1\<rparr>)"
    by code_simp
  then show ?thesis using current_tier_highest [of demo_limits "''u''"] by auto
qed

lemma demo_accepts:
  assumes "limits_for ty NGN_tier_1 = Some l"
  shows "accepts demo_calendar ''u'' 5000 ''NGN'' ty demo_config l demo_limits"
  using assms
  by (cases ty) (auto simp: limits_for_def accepts_def counts_below_def below_def platform_room_def sums_below_def used_def
      moved_since_def current_sum_def NGN_tier_1_def)

lemma demo_accepted:
  assumes "limits_for ty NGN_tier_1 = Some l"
  shows "fst (validateLimit demo_money_env demo_calendar ''u'' 5000 ''NGN'' ty demo_limits) = Inr ()"
proof -
  have l: "limits_for ty (cf_limits demo_config) = Some l" using assms by simp
  show ?thesis
    by (rule validate_calm [OF demo_server demo_limits_ready l, of demo_calendar 5000]) (use demo_accepts [OF assms] in simp)
qed

definition demo_entry :: entry where
  "demo_entry = \<lparr>ft_id = ''f'', ft_transaction = ''t'', ft_wallet = ''w'', ft_user = ''u'', ft_type = F_TRANSFER_OUT, ft_amount = - 200000000,
     ft_before = 0, ft_after = 0, ft_currency = ''NGN'', ft_status = COMPLETED, ft_description = None,
     ft_provider = None, ft_reference = None, ft_request_ref = None, ft_quote_ref = None, ft_fee = None, ft_meta = [],
     ft_source = None, ft_destination = None, ft_idempotency = None, ft_failure = None,
     ft_processed = None, ft_completed = None, ft_failed = None, ft_settled = Some 0, ft_created = 0, ft_deleted = None\<rparr>"

theorem transfers_not_counted_witness:
  "fst (validateLimit demo_money_env demo_calendar ''u'' 5000 ''NGN'' F_TRANSFER_OUT
     (demo_limits\<lparr>entries := replicate 7 demo_entry @ entries demo_limits\<rparr>)) = Inr ()"
proof -
  have "limits_for F_TRANSFER_OUT NGN_tier_1 \<noteq> None" by (simp add: limits_for_def)
  then have "fst (validateLimit demo_money_env demo_calendar ''u'' 5000 ''NGN'' F_TRANSFER_OUT demo_limits) = Inr ()"
    using demo_accepted by blast
  moreover have "ft_type demo_entry = F_TRANSFER_OUT" by (simp add: demo_entry_def)
  ultimately show ?thesis
    using transfers_not_counted [OF demo_server demo_limits_ready, of F_TRANSFER_OUT "replicate 7 demo_entry" demo_calendar 5000] by auto
qed

theorem limits_reserve_nothing_witness:
  "fst (validateLimit demo_money_env demo_calendar ''u'' 5000 ''NGN'' F_WITHDRAWAL
     (snd (validateLimit demo_money_env demo_calendar ''u'' 5000 ''NGN'' F_WITHDRAWAL demo_limits))) = Inr ()"
proof -
  obtain l where l: "limits_for F_WITHDRAWAL NGN_tier_1 = Some l" by (simp add: limits_for_def)
  show ?thesis
    using limits_reserve_nothing [OF demo_server demo_limits_ready, of F_WITHDRAWAL l demo_calendar 5000] l demo_accepted [OF l] by simp
qed


theorem aggregates_exact_witness:
  "case findAndUpdate demo_money_env ''zerohash'' F_DEPOSIT 70 demo_limits of
     (Inl e, w') \<Rightarrow> aggregate_total 0 ''zerohash'' F_DEPOSIT w' = 0 | (Inr _, w') \<Rightarrow> aggregate_total 0 ''zerohash'' F_DEPOSIT w' = 70"
  using aggregates_exact [OF demo_server, of demo_limits "''zerohash''" F_DEPOSIT 70]
  by (auto simp: aggregate_total_def day_of_def demo_limits_def split: prod.splits sum.splits)

end
