(* ===== verification/LoginSecurity.thy ===== *)
theory LoginSecurity
  imports Redis
begin

text \<open>
  \<^verbatim>\<open>LoginSecurityService\<close> (\<^verbatim>\<open>src/modules/auth/loginSecurity/loginSecurity.service.ts\<close>): the sliding
  window of login attempts per identifier, the lockout, the risk score of a login and the one-time
  password of a high-risk login. The user, device, login-event and KYC records, the location
  provider, the mailer, the password hash and the random code are arguments (\<open>login_services\<close>):
  none of them changes in these handlers. The OTP record is the JSON object the code stores.
\<close>

section \<open>Configuration and collaborators\<close>

record risk_scores =
  newDevice :: int
  countryChange :: int
  regionChange :: int
  cityChange :: int
  vpnUsage :: int

record login_config =
  maxAttempts :: int
  windowSeconds :: int
  lockoutDurationSeconds :: int
  otpExpirationMinutes :: int
  otpMaxAttempts :: int
  riskScores :: risk_scores

record login_user =
  user_id :: string
  email :: string
  disable_login_restrictions :: bool

record location =
  country :: string
  region :: string
  city :: string
  isVpn :: bool

record kyc_record =
  kyc_status :: string
  provider_ref :: "string option"

record security_context =
  clientIp :: string
  fingerprint :: string

record login_services =
  cfg :: login_config
  findById :: "string \<Rightarrow> exn + login_user option"
  findActiveById :: "string \<Rightarrow> exn + login_user option"
  findActiveByEmail :: "string \<Rightarrow> exn + login_user option"
  findActiveByUsername :: "string \<Rightarrow> exn + login_user option"
  findActiveByPhone :: "string \<Rightarrow> exn + login_user option"
  findDevice :: "string \<Rightarrow> string \<Rightarrow> exn + bool"
  findKyc :: "string \<Rightarrow> exn + kyc_record option"
  ipCheck :: "string \<Rightarrow> string \<Rightarrow> exn + location option"
  ipCheckForApplicant :: "string \<Rightarrow> string \<Rightarrow> exn + location option"
  bannedCountry :: "string \<Rightarrow> exn + string option option"
  getLastKnownLocation :: "string \<Rightarrow> exn + location option"
  sendMail :: "string \<Rightarrow> string \<Rightarrow> exn + unit"
  hashPassword :: "string \<Rightarrow> string"
  comparePassword :: "string \<Rightarrow> string \<Rightarrow> bool"

definition lift :: "exn + 'a \<Rightarrow> ('w, 'a) io" where
  "lift r = (\<lambda>w. (r, w))"

lemma lift_run [io_simps, simp]: "lift r w = (r, w)"
  by (simp add: lift_def)

section \<open>The sliding window and the lockout\<close>

definition attemptsKey :: "string \<Rightarrow> string" where
  "attemptsKey identifier = ''login_security:attempts:'' @ identifier"

definition lockoutKey :: "string \<Rightarrow> string" where
  "lockoutKey identifier = ''login_security:lockout:'' @ identifier"

definition otpKey :: "security_context \<Rightarrow> string" where
  "otpKey ctx = ''login_otp:'' @ clientIp ctx @ '':'' @ fingerprint ctx"

text \<open>An attempt counts while its time is after the cutoff (a NaN never does).\<close>

definition valid_attempt :: "int \<Rightarrow> rtext \<Rightarrow> bool" where
  "valid_attempt cutoff timestamp = (case text_int timestamp of None \<Rightarrow> False | Some a \<Rightarrow> cutoff < a)"

definition cleanupOldAttempts :: "'s redis_env \<Rightarrow> login_services \<Rightarrow> string \<Rightarrow> (('s, 'm) base_scheme, unit) io" where
  "cleanupOldAttempts E L identifier = bind get_now (\<lambda>t.
     let key = attemptsKey identifier;
         cutoffTime = t - windowSeconds (cfg L) * 1000 in
     catch (bind (rs_lrange_all E key) (\<lambda>attempts.
       if attempts = [] then ret ()
       else let validAttempts = filter (valid_attempt cutoffTime) attempts in
         if length validAttempts \<noteq> length attempts then
           andthen (rs_del E [key])
           (when_do (validAttempts \<noteq> [])
             (andthen (rs_lpush E key validAttempts)
             (andthen (rs_expire E key (windowSeconds (cfg L))) (ret ()))))
         else ret ()))
     (\<lambda>_. ret ()))"

definition recordAttempt :: "'s redis_env \<Rightarrow> login_services \<Rightarrow> string \<Rightarrow> (('s, 'm) base_scheme, unit) io" where
  "recordAttempt E L identifier = bind get_now (\<lambda>t.
     let key = attemptsKey identifier in
     andthen (rs_lpush E key [Raw (show_int t)])
     (andthen (rs_expire E key (windowSeconds (cfg L)))
     (cleanupOldAttempts E L identifier)))"

definition getAttemptCount :: "'s redis_env \<Rightarrow> login_services \<Rightarrow> string \<Rightarrow> (('s, 'm) base_scheme, int) io" where
  "getAttemptCount E L identifier =
     andthen (cleanupOldAttempts E L identifier) (rs_llen E (attemptsKey identifier))"

definition isIdentifierLockedOut :: "'s redis_env \<Rightarrow> string \<Rightarrow> (('s, 'm) base_scheme, bool) io" where
  "isIdentifierLockedOut E identifier =
     catch (bind (rc_get E (lockoutKey identifier)) (\<lambda>lockoutTime.
       if lockoutTime = None \<or> lockoutTime = Some (Raw []) then ret False
       else bind get_now (\<lambda>t.
         if (case text_int (the lockoutTime) of None \<Rightarrow> False | Some expiry \<Rightarrow> t < expiry) then ret True
         else andthen (rs_del E [lockoutKey identifier]) (ret False))))
     (\<lambda>_. ret False)"

definition lockoutIdentifier :: "'s redis_env \<Rightarrow> login_services \<Rightarrow> string \<Rightarrow> (('s, 'm) base_scheme, unit) io" where
  "lockoutIdentifier E L identifier =
     catch (bind get_now (\<lambda>t.
       let lockoutExpiry = t + lockoutDurationSeconds (cfg L) * 1000 in
       andthen (rs_set E (lockoutKey identifier) (Raw (show_int lockoutExpiry)) None)
       (andthen (rs_expire E (lockoutKey identifier) (lockoutDurationSeconds (cfg L))) (ret ()))))
     (\<lambda>_. ret ())"

datatype login_verdict = LoginAllowed | LoginRefused string

definition locked_reason :: string where
  "locked_reason = ''Account temporarily locked due to too many failed attempts''"

definition too_many_reason :: string where
  "too_many_reason = ''Too many login attempts. Account temporarily locked.''"

definition checkIdentifierRateLimit ::
  "'s redis_env \<Rightarrow> login_services \<Rightarrow> string \<Rightarrow> string option \<Rightarrow> (('s, 'm) base_scheme, login_verdict) io" where
  "checkIdentifierRateLimit E L identifier userId =
    (let norm = to_lower identifier in
     catch (bind (case userId of
           None \<Rightarrow> ret False
         | Some u \<Rightarrow> if u = [] then ret False else bind (lift (findById L u)) (\<lambda>user.
             ret (case user of None \<Rightarrow> False | Some x \<Rightarrow> disable_login_restrictions x))) (\<lambda>bypass.
       if bypass then ret LoginAllowed
       else bind (isIdentifierLockedOut E norm) (\<lambda>isLockedOut.
         if isLockedOut then ret (LoginRefused locked_reason)
         else andthen (recordAttempt E L norm)
           (bind (getAttemptCount E L norm) (\<lambda>attemptCount.
             if maxAttempts (cfg L) < attemptCount then
               andthen (lockoutIdentifier E L norm) (ret (LoginRefused too_many_reason))
             else ret LoginAllowed)))))
     (\<lambda>_. ret LoginAllowed))"

section \<open>The risk score\<close>

text \<open>A score and, when it is not 0, the reason for it.\<close>

type_synonym risk_result = "int \<times> string option"

definition checkDevice :: "login_services \<Rightarrow> string \<Rightarrow> security_context \<Rightarrow> risk_result" where
  "checkDevice L userId ctx = (case findDevice L userId (fingerprint ctx) of
      Inl _ \<Rightarrow> (0, None)
    | Inr known \<Rightarrow> if known then (0, None) else (newDevice (riskScores (cfg L)), Some ''new device''))"

definition calculateLocationRisk :: "login_services \<Rightarrow> location \<Rightarrow> location \<Rightarrow> int" where
  "calculateLocationRisk L lastLoc cur =
    (if country cur \<noteq> [] \<and> country lastLoc \<noteq> [] \<and> country cur \<noteq> country lastLoc
       then countryChange (riskScores (cfg L))
     else if region cur \<noteq> [] \<and> region lastLoc \<noteq> [] \<and> region cur \<noteq> region lastLoc
       then regionChange (riskScores (cfg L))
     else if city cur \<noteq> [] \<and> city lastLoc \<noteq> [] \<and> city cur \<noteq> city lastLoc
       then cityChange (riskScores (cfg L))
     else 0)"

definition is_restriction :: "exn \<Rightarrow> bool" where
  "is_restriction e = (case e of Restriction _ \<Rightarrow> True | _ \<Rightarrow> False)"

text \<open>A caught error counts as no location, except the banned-country restriction.\<close>

definition getCurrentLocation :: "login_services \<Rightarrow> string \<Rightarrow> security_context \<Rightarrow> exn + location option" where
  "getCurrentLocation L userId ctx =
    (let check_banned = (\<lambda>loc. case loc of
           None \<Rightarrow> Inr None
         | Some l \<Rightarrow> if country l = [] then Inr (Some l) else (case bannedCountry L (country l) of
             Inl e \<Rightarrow> Inl e
           | Inr (Some reason) \<Rightarrow> Inl (Restriction (case reason of None \<Rightarrow> [] | Some m \<Rightarrow> m))
           | Inr None \<Rightarrow> Inr (Some l)));
         r = (case findKyc L userId of
           Inl e \<Rightarrow> Inl e
         | Inr kyc \<Rightarrow>
             if (case kyc of None \<Rightarrow> True | Some k \<Rightarrow> kyc_status k \<noteq> ''approved'') then
               (case ipCheck L (clientIp ctx) userId of Inl e \<Rightarrow> Inl e | Inr loc \<Rightarrow> check_banned loc)
             else (case provider_ref (the kyc) of
               None \<Rightarrow> Inr None
             | Some applicantId \<Rightarrow> if applicantId = [] then Inr None else
                 (case ipCheckForApplicant L (clientIp ctx) applicantId of Inl e \<Rightarrow> Inl e | Inr loc \<Rightarrow> check_banned loc)))
     in (case r of Inl e \<Rightarrow> if is_restriction e then Inl e else Inr None | Inr loc \<Rightarrow> Inr loc))"

definition checkLocation :: "login_services \<Rightarrow> string \<Rightarrow> security_context \<Rightarrow> location option \<Rightarrow> exn + risk_result" where
  "checkLocation L userId ctx current =
    (case (case current of Some l \<Rightarrow> Inr (Some l) | None \<Rightarrow> getCurrentLocation L userId ctx) of
      Inl e \<Rightarrow> if is_restriction e then Inl e else Inr (0, None)
    | Inr None \<Rightarrow> Inr (0, None)
    | Inr (Some loc) \<Rightarrow> (case getLastKnownLocation L userId of
        Inl e \<Rightarrow> if is_restriction e then Inl e else Inr (0, None)
      | Inr None \<Rightarrow> Inr (0, None)
      | Inr (Some lastLoc) \<Rightarrow>
          let r = calculateLocationRisk L lastLoc loc in
          if r = countryChange (riskScores (cfg L)) then Inr (r, Some (''new country ('' @ country loc @ '')''))
          else if r = regionChange (riskScores (cfg L)) then Inr (r, Some (''new region ('' @ region loc @ '')''))
          else if r = cityChange (riskScores (cfg L)) then Inr (r, Some (''new city ('' @ city loc @ '')''))
          else Inr (0, None)))"

definition checkVPN :: "login_services \<Rightarrow> location option \<Rightarrow> risk_result" where
  "checkVPN L current = (case current of
      None \<Rightarrow> (0, None)
    | Some loc \<Rightarrow> if isVpn loc then (vpnUsage (riskScores (cfg L)), Some ''VPN usage detected'') else (0, None))"

definition checkTimePattern :: "location option \<Rightarrow> risk_result" where
  "checkTimePattern current = (case current of None \<Rightarrow> (0, None) | Some _ \<Rightarrow> (0, None))"

record risk_assessment =
  score :: int
  reasons :: "string list"
  locationData :: "location option"

definition calculateRiskScore ::
  "login_services \<Rightarrow> string \<Rightarrow> security_context \<Rightarrow> bool option \<Rightarrow> exn + risk_assessment" where
  "calculateRiskScore L userId ctx user =
    (case (case user of Some d \<Rightarrow> Inr d | None \<Rightarrow> (case findById L userId of
         Inl e \<Rightarrow> Inl e
       | Inr x \<Rightarrow> Inr (case x of None \<Rightarrow> False | Some y \<Rightarrow> disable_login_restrictions y))) of
      Inl e \<Rightarrow> Inl e
    | Inr isRestrictionDisabled \<Rightarrow>
        if isRestrictionDisabled then Inr \<lparr>score = 0, reasons = [], locationData = None\<rparr>
        else let device = checkDevice L userId ctx in
          (case getCurrentLocation L userId ctx of
            Inl e \<Rightarrow> Inl e
          | Inr cur \<Rightarrow> (case checkLocation L userId ctx cur of
              Inl e \<Rightarrow> Inl e
            | Inr loc \<Rightarrow>
                let vpn = checkVPN L cur; tp = checkTimePattern cur in
                Inr \<lparr>score = fst device + fst loc + fst vpn + fst tp,
                  reasons = concat (map (\<lambda>r. case r of None \<Rightarrow> [] | Some m \<Rightarrow> [m]) [snd device, snd loc, snd vpn, snd tp]),
                  locationData = cur\<rparr>)))"

section \<open>The one-time password\<close>

text \<open>\<^verbatim>\<open>s.split('@')[0]\<close> and \<^verbatim>\<open>[1]\<close>; \<^verbatim>\<open>`${undefined}`\<close> is the text \<open>undefined\<close>.\<close>

definition before_at :: "string \<Rightarrow> string" where
  "before_at s = takeWhile (\<lambda>c. c \<noteq> CHR ''@'') s"

definition after_at :: "string \<Rightarrow> string" where
  "after_at s = (case dropWhile (\<lambda>c. c \<noteq> CHR ''@'') s of
     [] \<Rightarrow> ''undefined'' | _ # r \<Rightarrow> takeWhile (\<lambda>c. c \<noteq> CHR ''@'') r)"

definition maskedContact :: "string \<Rightarrow> string" where
  "maskedContact em = (if 2 < length (before_at em) then take 2 (before_at em) @ ''***'' else ''***'')
     @ ''@'' @ after_at em"

definition default_contact :: string where
  "default_contact = ''***@***.com''"

definition otp_json :: "string \<Rightarrow> string \<Rightarrow> int \<Rightarrow> int \<Rightarrow> string \<Rightarrow> json" where
  "otp_json code uid expiration attempts contact = JObj [
     (''code'', JStr code), (''user_id'', JStr uid), (''expiration'', JNum expiration),
     (''attempts'', JNum attempts), (''masked_contact'', JStr contact)]"

fun jstr :: "json \<Rightarrow> string" where
  "jstr (JStr s) = s" | "jstr _ = []"

fun jnum :: "json \<Rightarrow> int option" where
  "jnum (JNum n) = Some n" | "jnum _ = None"

fun set_field :: "string \<Rightarrow> json \<Rightarrow> json \<Rightarrow> json" where
  "set_field k v (JObj fs) = JObj (if k \<in> fst ` set fs then map (\<lambda>p. if fst p = k then (k, v) else p) fs else fs @ [(k, v)])"
| "set_field k v j = j"

definition parse_io :: "rtext \<Rightarrow> ('w, json) io" where
  "parse_io t = (case json_parse t of
     None \<Rightarrow> throw (PlainError ''Unexpected token in JSON'') | Some j \<Rightarrow> ret j)"

definition present :: "rtext option \<Rightarrow> bool" where
  "present v \<longleftrightarrow> v \<noteq> None \<and> v \<noteq> Some (Raw [])"

definition hasActiveOtp ::
  "'s redis_env \<Rightarrow> login_services \<Rightarrow> security_context \<Rightarrow> string option \<Rightarrow> (('s, 'm) base_scheme, bool) io" where
  "hasActiveOtp E L ctx identifier =
     catch (bind (rs_get E (otpKey ctx)) (\<lambda>otp.
       if \<not> present otp then ret False
       else case identifier of
         None \<Rightarrow> ret True
       | Some ident \<Rightarrow> if ident = [] then ret True else
         bind (lift (findActiveByEmail L ident)) (\<lambda>u1.
         bind (if u1 = None then lift (findActiveByUsername L ident) else ret u1) (\<lambda>u2.
         bind (if u2 = None then lift (findActiveByPhone L ident) else ret u2) (\<lambda>u3.
         case u3 of
           None \<Rightarrow> ret False
         | Some user \<Rightarrow> bind (parse_io (the otp)) (\<lambda>otpData.
             ret (jfield ''user_id'' otpData = JStr (user_id user))))))))
     (\<lambda>_. ret False)"

definition generateAndSendOtp :: "'s redis_env \<Rightarrow> login_services \<Rightarrow> string \<Rightarrow> string \<Rightarrow> security_context
    \<Rightarrow> (('s, 'm) base_scheme, string) io" where
  "generateAndSendOtp E L otpCode userId ctx =
     bind (lift (findActiveById L userId)) (\<lambda>user. case user of
       None \<Rightarrow> throw (Unauthorized ''User not found'')
     | Some u \<Rightarrow> bind get_now (\<lambda>t.
         let expirationTime = t + otpExpirationMinutes (cfg L) * 60000;
             contact = maskedContact (email u);
             otpData = otp_json (hashPassword L otpCode) userId expirationTime 0 contact in
         andthen (rs_set E (otpKey ctx) (Json otpData) (Some (otpExpirationMinutes (cfg L) * 60)))
         (catch (andthen (lift (sendMail L (email u) otpCode)) (ret contact))
           (\<lambda>_. throw (Unauthorized ''Unable to send verification code. Please try again.'')))))"

definition handleHighRiskLogin :: "'s redis_env \<Rightarrow> login_services \<Rightarrow> string \<Rightarrow> int \<Rightarrow> string \<Rightarrow> security_context
    \<Rightarrow> string list \<Rightarrow> (('s, 'm) base_scheme, string \<times> string list) io" where
  "handleHighRiskLogin E L otpCode riskScore userId ctx rs =
     bind (lift (findById L userId)) (\<lambda>user.
     if (case user of None \<Rightarrow> False | Some u \<Rightarrow> disable_login_restrictions u) then ret ([], [])
     else bind (generateAndSendOtp E L otpCode userId ctx) (\<lambda>contact.
       andthen (catch (bind (lift (findActiveById L userId)) (\<lambda>u. andthen (lift (getCurrentLocation L userId ctx))
           (lift (case u of None \<Rightarrow> Inl (PlainError ''Cannot read properties of undefined'')
                  | Some x \<Rightarrow> sendMail L (email x) (concat rs)))))
         (\<lambda>_. ret ()))
       (ret (contact, rs))))"

definition getMaskedContactFromRedis :: "'s redis_env \<Rightarrow> security_context \<Rightarrow> (('s, 'm) base_scheme, string) io" where
  "getMaskedContactFromRedis E ctx =
     catch (bind (rs_get E (otpKey ctx)) (\<lambda>otp.
       if \<not> present otp then ret default_contact
       else bind (parse_io (the otp)) (\<lambda>otpData.
         let c = jstr (jfield ''masked_contact'' otpData) in
         ret (if c \<noteq> [] then c else default_contact))))
     (\<lambda>_. ret default_contact)"

definition resendLoginOtp :: "'s redis_env \<Rightarrow> login_services \<Rightarrow> string \<Rightarrow> security_context
    \<Rightarrow> (('s, 'm) base_scheme, string) io" where
  "resendLoginOtp E L otpCode ctx =
     catch (bind (rs_get E (otpKey ctx)) (\<lambda>otp.
       if \<not> present otp then
         bind (getMaskedContactFromRedis E ctx) (\<lambda>c.
           throw (OtpRequired ''No active OTP session found. Please try logging in again.'' c))
       else bind (parse_io (the otp)) (\<lambda>otpData.
         generateAndSendOtp E L otpCode (jstr (jfield ''user_id'' otpData)) ctx)))
     (\<lambda>e. case e of
         OtpRequired m c \<Rightarrow> throw e
       | _ \<Rightarrow> bind (getMaskedContactFromRedis E ctx) (\<lambda>c.
           throw (OtpRequired ''Failed to resend verification code. Please try again.'' c)))"

definition verifyLoginOtp :: "'s redis_env \<Rightarrow> login_services \<Rightarrow> string \<Rightarrow> security_context
    \<Rightarrow> (('s, 'm) base_scheme, login_user) io" where
  "verifyLoginOtp E L otpCode ctx =
     bind (rs_get E (otpKey ctx)) (\<lambda>otp.
     if \<not> present otp then
       bind (getMaskedContactFromRedis E ctx) (\<lambda>c. throw (OtpRequired ''OTP expired or not found'' c))
     else bind (parse_io (the otp)) (\<lambda>otpData.
     bind (let c = jstr (jfield ''masked_contact'' otpData) in
       if c \<noteq> [] then ret c else getMaskedContactFromRedis E ctx) (\<lambda>contact.
     bind get_now (\<lambda>t.
     if (case jnum (jfield ''expiration'' otpData) of None \<Rightarrow> False | Some x \<Rightarrow> x < t) then
       andthen (rs_del E [otpKey ctx]) (throw (OtpRequired ''OTP has expired'' contact))
     else if (case jnum (jfield ''attempts'' otpData) of None \<Rightarrow> False | Some n \<Rightarrow> otpMaxAttempts (cfg L) \<le> n) then
       andthen (rs_del E [otpKey ctx]) (throw (OtpRequired ''Too many OTP attempts'' contact))
     else if \<not> comparePassword L otpCode (jstr (jfield ''code'' otpData)) then
       andthen (rs_set E (otpKey ctx)
         (Json (set_field ''attempts'' (case jnum (jfield ''attempts'' otpData) of None \<Rightarrow> JNull | Some n \<Rightarrow> JNum (n + 1)) otpData))
         (Some (otpExpirationMinutes (cfg L) * 60)))
       (throw (OtpRequired ''Invalid OTP code'' contact))
     else andthen (rs_del E [otpKey ctx])
       (bind (lift (findActiveById L (jstr (jfield ''user_id'' otpData)))) (\<lambda>user. case user of
           None \<Rightarrow> throw (Unauthorized ''User not found'')
         | Some u \<Rightarrow> ret u))))))"

definition clearIdentifierAttempts ::
  "'s redis_env \<Rightarrow> string \<Rightarrow> security_context option \<Rightarrow> (('s, 'm) base_scheme, unit) io" where
  "clearIdentifierAttempts E identifier ctx = (let norm = to_lower identifier in
     catch (andthen (rs_del E [attemptsKey norm]) (andthen (rs_del E [lockoutKey norm])
       (case ctx of
          None \<Rightarrow> ret ()
        | Some c \<Rightarrow> when_do (clientIp c \<noteq> [] \<and> fingerprint c \<noteq> []) (andthen (rs_del E [otpKey c]) (ret ())))))
     (\<lambda>_. ret ()))"

text \<open>One guess after the other, each answered with its outcome.\<close>

fun guesses :: "'s redis_env \<Rightarrow> login_services \<Rightarrow> security_context \<Rightarrow> string list
    \<Rightarrow> ('s, 'm) base_scheme \<Rightarrow> (exn + login_user) list \<times> ('s, 'm) base_scheme" where
  "guesses E L ctx [] w = ([], w)"
| "guesses E L ctx (g # gs) w = (case verifyLoginOtp E L g ctx w of
     (r, w1) \<Rightarrow> (case guesses E L ctx gs w1 of (rs, w2) \<Rightarrow> (r # rs, w2)))"

section \<open>What the operations do\<close>

lemma the_rlist_upd [simp]:
  "the_rlist (ks(k := x)) j = (if j = k then (case x of None \<Rightarrow> Some [] | Some (RList s, _) \<Rightarrow> Some s | _ \<Rightarrow> None)
     else the_rlist ks j)"
  by (simp add: the_rlist_def)

lemma the_rlist_put [simp]: "the_rlist (put k (RList xs) ks) k = Some xs"
  by (simp add: put_def)

lemma the_rlist_deadline: "the_rlist ks k = Some xs \<Longrightarrow> the_rlist (set_deadline k d ks) k = Some xs"
  by (auto simp: the_rlist_def set_deadline_def split: option.splits)

lemma frame_put [simp]: "j \<noteq> k \<Longrightarrow> put k v ks j = ks j"
  by (simp add: put_def)

lemma frame_deadline [simp]: "j \<noteq> k \<Longrightarrow> set_deadline k d ks j = ks j"
  by (simp add: set_deadline_def split: option.splits)

lemma attempt_keys [simp]: "attemptsKey a \<noteq> lockoutKey b" "lockoutKey b \<noteq> attemptsKey a"
  by (simp_all add: attemptsKey_def lockoutKey_def)

context redis_server
begin

text \<open>Each call on the attempt list, as a fact about the list.\<close>

lemma lpush_run:
  assumes "the_rlist (view ent w) (prefixKey E k) = Some xs" "vs \<noteq> []"
  shows "fst (rs_lpush E k vs w) = Inr (int (length vs + length xs))"
    and "view ent (snd (rs_lpush E k vs w)) = put (prefixKey E k) (RList (rev vs @ xs)) (view ent w)"
    and "now (snd (rs_lpush E k vs w)) = now w"
  using assms by (simp_all add: run)

lemma expire_run:
  assumes "0 < s"
  shows "\<exists>n. fst (rs_expire E k s w) = Inr n"
    and "view ent (snd (rs_expire E k s w)) = set_deadline (prefixKey E k) (now w + 1000 * s) (view ent w)"
    and "now (snd (rs_expire E k s w)) = now w"
  using assms by (auto simp: run set_deadline_def)

lemma del_run:
  shows "\<exists>n. fst (rs_del E [k] w) = Inr n"
    and "view ent (snd (rs_del E [k] w)) = (view ent w)(prefixKey E k := None)"
    and "now (snd (rs_del E [k] w)) = now w"
  by (auto simp: run fun_eq_iff)

lemma lrange_run:
  assumes "the_rlist (view ent w) (prefixKey E k) = Some xs"
  shows "fst (rs_lrange_all E k w) = Inr xs"
    and "view ent (snd (rs_lrange_all E k w)) = view ent w"
    and "now (snd (rs_lrange_all E k w)) = now w"
  using assms by (simp_all add: run)

lemma llen_run:
  assumes "the_rlist (view ent w) (prefixKey E k) = Some xs"
  shows "fst (rs_llen E k w) = Inr (int (length xs))"
  using assms by (simp add: run)

text \<open>Cleaning keeps exactly the attempts inside the window and touches no other key.\<close>

definition attempts_in :: "('s, 'm) base_scheme \<Rightarrow> string \<Rightarrow> rtext list \<Rightarrow> bool" where
  "attempts_in w i xs \<longleftrightarrow> the_rlist (view ent w) (prefixKey E (attemptsKey i)) = Some xs"

lemma cleanup_run:
  assumes "attempts_in w i xs" "0 < windowSeconds (cfg L)"
  shows "\<exists>ys. fst (cleanupOldAttempts E L i w) = Inr () \<and> attempts_in (snd (cleanupOldAttempts E L i w)) i ys
    \<and> set ys = set (filter (valid_attempt (now w - windowSeconds (cfg L) * 1000)) xs)
    \<and> length ys = length (filter (valid_attempt (now w - windowSeconds (cfg L) * 1000)) xs)
    \<and> now (snd (cleanupOldAttempts E L i w)) = now w
    \<and> (\<forall>k. k \<noteq> prefixKey E (attemptsKey i) \<longrightarrow> view ent (snd (cleanupOldAttempts E L i w)) k = view ent w k)"
proof -
  let ?c = "now w - windowSeconds (cfg L) * 1000"
  let ?vs = "filter (valid_attempt ?c) xs"
  let ?k = "attemptsKey i"
  let ?w1 = "snd (rs_lrange_all E ?k w)"
  note r = lrange_run [OF assms(1) [unfolded attempts_in_def]]
  show ?thesis
  proof (cases "xs = [] \<or> length ?vs = length xs")
    case True
    then have "cleanupOldAttempts E L i w = (Inr (), ?w1)"
      by (simp add: cleanupOldAttempts_def Let_def catch_run bind_ok r(1))
         (metis catch_run ret_run)
    moreover have "?vs = xs"
      using True by (auto simp: filter_id_conv) (metis length_filter_less nat_less_le)
    ultimately show ?thesis
      using assms(1) r by (intro exI [of _ xs]) (simp add: attempts_in_def)
  next
    case False
    let ?w2 = "snd (rs_del E [?k] ?w1)"
    obtain n where n: "fst (rs_del E [?k] ?w1) = Inr n" using del_run(1) by blast
    have l2: "the_rlist (view ent ?w2) (prefixKey E ?k) = Some []" by (simp add: del_run)
    have v2: "now ?w2 = now w" "\<forall>k. k \<noteq> prefixKey E ?k \<longrightarrow> view ent ?w2 k = view ent w k"
      using r by (simp_all add: del_run)
    show ?thesis
    proof (cases "?vs = []")
      case True
      have "cleanupOldAttempts E L i w = (Inr (), ?w2)"
        using False True
        by (simp add: cleanupOldAttempts_def Let_def catch_run bind_ok r(1) seq_ok n when_do_def)
      then show ?thesis
        using True l2 v2 by (intro exI [of _ "[]"]) (simp add: attempts_in_def)
    next
      case vs: False
      let ?w3 = "snd (rs_lpush E ?k ?vs ?w2)"
      note p = lpush_run [OF l2 vs]
      let ?w4 = "snd (rs_expire E ?k (windowSeconds (cfg L)) ?w3)"
      obtain m where m: "fst (rs_expire E ?k (windowSeconds (cfg L)) ?w3) = Inr m"
        using expire_run(1) [OF assms(2)] by blast
      have "cleanupOldAttempts E L i w = (Inr (), ?w4)"
        using False vs
        by (simp add: cleanupOldAttempts_def Let_def catch_run bind_ok r(1) seq_ok n when_do_def p(1) m)
      moreover have "attempts_in ?w4 i (rev ?vs)"
        using p(2) by (simp add: attempts_in_def expire_run [OF assms(2)] the_rlist_deadline)
      moreover have "now ?w4 = now w" "\<forall>k. k \<noteq> prefixKey E ?k \<longrightarrow> view ent ?w4 k = view ent w k"
        using p v2 by (simp_all add: expire_run [OF assms(2)])
      ultimately show ?thesis
        by (intro exI [of _ "rev ?vs"]) simp
    qed
  qed
qed

lemma record_run:
  assumes "attempts_in w i xs" "0 < windowSeconds (cfg L)"
  shows "\<exists>ys. fst (recordAttempt E L i w) = Inr () \<and> attempts_in (snd (recordAttempt E L i w)) i ys
    \<and> (\<forall>a \<in> set ys. valid_attempt (now w - windowSeconds (cfg L) * 1000) a)
    \<and> length ys = Suc (length (filter (valid_attempt (now w - windowSeconds (cfg L) * 1000)) xs))
    \<and> now (snd (recordAttempt E L i w)) = now w
    \<and> (\<forall>k. k \<noteq> prefixKey E (attemptsKey i) \<longrightarrow> view ent (snd (recordAttempt E L i w)) k = view ent w k)"
proof -
  let ?k = "attemptsKey i" and ?v = "valid_attempt (now w - windowSeconds (cfg L) * 1000)"
  let ?a = "snd (rs_lpush E ?k [Raw (show_int (now w))] w)"
  note p = lpush_run [OF assms(1) [unfolded attempts_in_def], of "[Raw (show_int (now w))]"]
  let ?b = "snd (rs_expire E ?k (windowSeconds (cfg L)) ?a)"
  obtain m where m: "fst (rs_expire E ?k (windowSeconds (cfg L)) ?a) = Inr m"
    using expire_run(1) [OF assms(2)] by blast
  have b: "attempts_in ?b i (Raw (show_int (now w)) # xs)" "now ?b = now w"
    "\<forall>k. k \<noteq> prefixKey E ?k \<longrightarrow> view ent ?b k = view ent w k"
    using p by (simp_all add: attempts_in_def expire_run [OF assms(2)] the_rlist_deadline)
  have "?v (Raw (show_int (now w)))" using assms(2) by (simp add: valid_attempt_def)
  moreover have "recordAttempt E L i w = cleanupOldAttempts E L i ?b"
    using p by (simp add: recordAttempt_def Let_def seq_ok m)
  ultimately show ?thesis
    using cleanup_run [OF b(1) assms(2)] b(2,3) by auto
qed

lemma count_run:
  assumes "attempts_in w i xs" "0 < windowSeconds (cfg L)"
    and "\<forall>a \<in> set xs. valid_attempt (now w - windowSeconds (cfg L) * 1000) a"
  shows "fst (getAttemptCount E L i w) = Inr (int (length xs))"
proof -
  have f: "filter (valid_attempt (now w - windowSeconds (cfg L) * 1000)) xs = xs"
    using assms(3) by (simp add: filter_id_conv)
  from cleanup_run [OF assms(1,2)] obtain ys where y: "fst (cleanupOldAttempts E L i w) = Inr ()"
    "attempts_in (snd (cleanupOldAttempts E L i w)) i ys" "length ys = length xs"
    unfolding f by blast
  then show ?thesis
    using llen_run [of "snd (cleanupOldAttempts E L i w)" "attemptsKey i" ys]
    by (simp add: getAttemptCount_def seq_ok attempts_in_def)
qed

lemma not_locked:
  assumes "view ent w (lockoutKey i) = None"
  shows "fst (isIdentifierLockedOut E i w) = Inr False"
    and "view ent (snd (isIdentifierLockedOut E i w)) = view ent w"
    and "now (snd (isIdentifierLockedOut E i w)) = now w"
  using assms by (simp_all add: isIdentifierLockedOut_def run the_str_None)

lemma lockout_run:
  assumes "0 < lockoutDurationSeconds (cfg L)"
  shows "fst (lockoutIdentifier E L i w) = Inr ()"
    and "k \<noteq> prefixKey E (lockoutKey i) \<Longrightarrow> view ent (snd (lockoutIdentifier E L i w)) k = view ent w k"
    and "view ent (snd (lockoutIdentifier E L i w)) (prefixKey E (lockoutKey i))
      = Some (RStr (Raw (show_int (now w + lockoutDurationSeconds (cfg L) * 1000))),
          Some (now w + 1000 * lockoutDurationSeconds (cfg L)))"
  using assms by (simp_all add: lockoutIdentifier_def run px_ok_def set_deadline_def)

lemma rate_limit_run:
  assumes "attempts_in w (to_lower ident) xs" "0 < windowSeconds (cfg L)" "0 < lockoutDurationSeconds (cfg L)"
    and "view ent w (lockoutKey (to_lower ident)) = None"
  shows "fst (checkIdentifierRateLimit E L ident None w)
    = Inr (if int (length (filter (valid_attempt (now w - windowSeconds (cfg L) * 1000)) xs)) < maxAttempts (cfg L)
        then LoginAllowed else LoginRefused too_many_reason)"
proof -
  let ?i = "to_lower ident"
  note n = not_locked [OF assms(4)]
  let ?a = "snd (isIdentifierLockedOut E ?i w)"
  have a: "attempts_in ?a ?i xs" "now ?a = now w" using assms(1) n by (simp_all add: attempts_in_def)
  from record_run [OF a(1) assms(2)] a(2) obtain ys where y: "fst (recordAttempt E L ?i ?a) = Inr ()"
    "attempts_in (snd (recordAttempt E L ?i ?a)) ?i ys"
    "\<forall>x \<in> set ys. valid_attempt (now w - windowSeconds (cfg L) * 1000) x"
    "length ys = Suc (length (filter (valid_attempt (now w - windowSeconds (cfg L) * 1000)) xs))"
    "now (snd (recordAttempt E L ?i ?a)) = now w" by auto
  let ?b = "snd (recordAttempt E L ?i ?a)"
  have c: "fst (getAttemptCount E L ?i ?b) = Inr (int (length ys))"
    using count_run [OF y(2) assms(2)] y(3,5) by simp
  let ?d = "snd (getAttemptCount E L ?i ?b)"
  have d: "fst (lockoutIdentifier E L ?i ?d) = Inr ()" by (rule lockout_run [OF assms(3)])
  have e1: "bind (isIdentifierLockedOut E ?i) f w = f False ?a" for f :: "bool \<Rightarrow> _ \<Rightarrow> (exn + login_verdict) \<times> _"
    by (rule bind_ok, rule n(1))
  have e2: "andthen (recordAttempt E L ?i) f ?a = f ?b" for f :: "_ \<Rightarrow> (exn + login_verdict) \<times> _"
    by (rule seq_ok, rule y(1))
  have e3: "bind (getAttemptCount E L ?i) f ?b = f (int (length ys)) ?d" for f :: "int \<Rightarrow> _ \<Rightarrow> (exn + login_verdict) \<times> _"
    by (rule bind_ok, rule c)
  have e4: "andthen (lockoutIdentifier E L ?i) f ?d = f (snd (lockoutIdentifier E L ?i ?d))"
    for f :: "_ \<Rightarrow> (exn + login_verdict) \<times> _"
    by (rule seq_ok, rule d)
  show ?thesis
    using y(4) by (simp add: checkIdentifierRateLimit_def Let_def catch_run e1 e2 e3 e4)
qed

lemma lockout_unseen:
  assumes "\<not> own_prefix E (lockoutKey i)" "view ent w (lockoutKey i) = None" "0 < lockoutDurationSeconds (cfg L)"
  shows "fst (andthen (lockoutIdentifier E L i) (isIdentifierLockedOut E i) w) = Inr False"
proof -
  have "view ent (snd (lockoutIdentifier E L i w)) (lockoutKey i) = None"
    using lockout_run(2) [OF assms(3)] prefixKey_raw [OF assms(1)] assms(2) by metis
  then show ?thesis
    using lockout_run(1) [OF assms(3), of i w] not_locked(1) by (simp add: seq_ok)
qed

text \<open>The stored OTP of a session.\<close>

definition otp_at :: "('s, 'm) base_scheme \<Rightarrow> security_context \<Rightarrow> json \<Rightarrow> bool" where
  "otp_at w ctx j \<longleftrightarrow> the_str (view ent w) (prefixKey E (otpKey ctx)) = Some (Some (Json j))"

definition no_otp :: "('s, 'm) base_scheme \<Rightarrow> security_context \<Rightarrow> bool" where
  "no_otp w ctx \<longleftrightarrow> view ent w (prefixKey E (otpKey ctx)) = None"

lemma otp_fields [simp]:
  "jfield ''code'' (otp_json c u x n m) = JStr c" "jfield ''user_id'' (otp_json c u x n m) = JStr u"
  "jfield ''expiration'' (otp_json c u x n m) = JNum x" "jfield ''attempts'' (otp_json c u x n m) = JNum n"
  "jfield ''masked_contact'' (otp_json c u x n m) = JStr m"
  "set_field ''attempts'' (JNum n') (otp_json c u x n m) = otp_json c u x n' m"
  by (simp_all add: otp_json_def)

lemma verify_otp_run:
  assumes "otp_at w ctx (otp_json c u x n m)" "m \<noteq> []" "0 < otpExpirationMinutes (cfg L)"
  shows "let r = verifyLoginOtp E L guess ctx w in now (snd r) = now w \<and>
    (if x < now w then fst r = Inl (OtpRequired ''OTP has expired'' m) \<and> no_otp (snd r) ctx
     else if otpMaxAttempts (cfg L) \<le> n then fst r = Inl (OtpRequired ''Too many OTP attempts'' m) \<and> no_otp (snd r) ctx
     else if \<not> comparePassword L guess c then fst r = Inl (OtpRequired ''Invalid OTP code'' m)
       \<and> otp_at (snd r) ctx (otp_json c u x (n + 1) m)
     else no_otp (snd r) ctx \<and> fst r = (case findActiveById L u of
         Inl e \<Rightarrow> Inl e | Inr None \<Rightarrow> Inl (Unauthorized ''User not found'') | Inr (Some a) \<Rightarrow> Inr a))"
  using assms
  by (simp add: verifyLoginOtp_def run otp_at_def present_def parse_io_def px_ok_def no_otp_def
      split: sum.splits option.splits)

lemma verify_without_otp:
  assumes "no_otp w ctx"
  shows "fst (verifyLoginOtp E L guess ctx w) = Inl (OtpRequired ''OTP expired or not found'' default_contact)
    \<and> no_otp (snd (verifyLoginOtp E L guess ctx w)) ctx"
  using assms
  by (simp add: verifyLoginOtp_def run no_otp_def present_def getMaskedContactFromRedis_def the_str_None)

lemma wrong_guesses:
  assumes "otp_at w ctx (otp_json c u x n m)" "m \<noteq> []" "0 < otpExpirationMinutes (cfg L)" "now w \<le> x"
    and "\<forall>g \<in> set gs. \<not> comparePassword L g c" and "n + int (length gs) \<le> otpMaxAttempts (cfg L)"
  shows "fst (guesses E L ctx gs w) = replicate (length gs) (Inl (OtpRequired ''Invalid OTP code'' m))
    \<and> otp_at (snd (guesses E L ctx gs w)) ctx (otp_json c u x (n + int (length gs)) m)
    \<and> now (snd (guesses E L ctx gs w)) = now w"
  using assms(1,4-)
proof (induction gs arbitrary: w n)
  case Nil
  then show ?case by simp
next
  case (Cons g gs)
  obtain r w1 where v: "verifyLoginOtp E L g ctx w = (r, w1)" by (cases "verifyLoginOtp E L g ctx w")
  have *: "r = Inl (OtpRequired ''Invalid OTP code'' m)" "otp_at w1 ctx (otp_json c u x (n + 1) m)" "now w1 = now w"
    using verify_otp_run [OF Cons.prems(1) assms(2,3), of g] v Cons.prems by (auto simp: Let_def)
  have "now w1 \<le> x" "\<forall>g \<in> set gs. \<not> comparePassword L g c" "n + 1 + int (length gs) \<le> otpMaxAttempts (cfg L)"
    using Cons.prems *(3) by auto
  from Cons.IH [OF *(2) this] * show ?case
    by (cases "guesses E L ctx gs w1") (simp add: v ac_simps)
qed

lemma guess_limit:
  assumes "otp_at w ctx (otp_json c u x n m)" "m \<noteq> []" "0 < otpExpirationMinutes (cfg L)" "now w \<le> x"
    and "\<forall>g \<in> set gs. \<not> comparePassword L g c" and "n + int (length gs) = otpMaxAttempts (cfg L)"
  shows "fst (guesses E L ctx (gs @ [right, again]) w) = replicate (length gs) (Inl (OtpRequired ''Invalid OTP code'' m))
    @ [Inl (OtpRequired ''Too many OTP attempts'' m), Inl (OtpRequired ''OTP expired or not found'' default_contact)]"
proof -
  have split: "fst (guesses E L ctx (as @ bs) w) = fst (guesses E L ctx as w) @ fst (guesses E L ctx bs (snd (guesses E L ctx as w)))"
    for as bs w
    by (induction as arbitrary: w) (auto split: prod.split, metis fst_conv snd_conv)
  obtain w1 where w1: "snd (guesses E L ctx gs w) = w1" by blast
  have g: "fst (guesses E L ctx gs w) = replicate (length gs) (Inl (OtpRequired ''Invalid OTP code'' m))"
    "otp_at w1 ctx (otp_json c u x (otpMaxAttempts (cfg L)) m)" "now w1 = now w"
    using wrong_guesses [OF assms(1-5)] assms(6) w1 by auto
  obtain r w2 where v: "verifyLoginOtp E L right ctx w1 = (r, w2)" by (cases "verifyLoginOtp E L right ctx w1")
  have r: "r = Inl (OtpRequired ''Too many OTP attempts'' m)" "no_otp w2 ctx"
    using verify_otp_run [OF g(2) assms(2,3), of right] v g(3) assms(4) by (auto simp: Let_def)
  show ?thesis
    using verify_without_otp [OF r(2), of L again]
    by (cases "verifyLoginOtp E L again ctx w2") (simp add: split g(1) w1 v r(1))
qed

lemma single_use:
  assumes "otp_at w ctx (otp_json c u x n m)" "m \<noteq> []" "0 < otpExpirationMinutes (cfg L)" "now w \<le> x"
    and "n < otpMaxAttempts (cfg L)" "comparePassword L code c" "findActiveById L u = Inr (Some a)"
  shows "fst (guesses E L ctx [code, code] w) = [Inr a, Inl (OtpRequired ''OTP expired or not found'' default_contact)]"
proof -
  obtain r w1 where v: "verifyLoginOtp E L code ctx w = (r, w1)" by (cases "verifyLoginOtp E L code ctx w")
  have "r = Inr a" "no_otp w1 ctx"
    using verify_otp_run [OF assms(1-3), of code] v assms(4-) by (auto simp: Let_def)
  then show ?thesis
    using verify_without_otp [of w1 ctx L code]
    by (cases "verifyLoginOtp E L code ctx w1") (simp add: v)
qed

end

section \<open>The risk score\<close>

definition scores_nonneg :: "risk_scores \<Rightarrow> bool" where
  "scores_nonneg r \<longleftrightarrow> 0 \<le> newDevice r \<and> 0 \<le> countryChange r \<and> 0 \<le> regionChange r \<and> 0 \<le> cityChange r \<and> 0 \<le> vpnUsage r"

definition worst_location :: "risk_scores \<Rightarrow> int" where
  "worst_location r = max (countryChange r) (max (regionChange r) (cityChange r))"

lemma checkLocation_bounds:
  assumes "scores_nonneg (riskScores (cfg L))" "checkLocation L u ctx cur = Inr r"
  shows "0 \<le> fst r \<and> fst r \<le> worst_location (riskScores (cfg L))"
proof -
  let ?r = "riskScores (cfg L)"
  have "fst r = 0 \<or> fst r = countryChange ?r \<or> fst r = regionChange ?r \<or> fst r = cityChange ?r"
    using assms(2)
    by (auto simp: checkLocation_def Let_def split: option.splits sum.splits if_splits)
  then show ?thesis
    using assms(1) by (auto simp: scores_nonneg_def worst_location_def)
qed

section \<open>Properties\<close>

text \<open>
  The sliding window: a login attempt is allowed exactly while fewer than \<open>maxAttempts\<close> earlier
  attempts lie inside the window; earlier attempts outside it do not count.
\<close>

theorem login_rate_limit:
  assumes "redis_server E ent"
    and "the_rlist (view ent w) (prefixKey E (attemptsKey (to_lower ident))) = Some xs"
    and "0 < windowSeconds (cfg L)" "0 < lockoutDurationSeconds (cfg L)"
    and "view ent w (lockoutKey (to_lower ident)) = None"
  shows "fst (checkIdentifierRateLimit E L ident None w)
    = Inr (if int (length (filter (valid_attempt (now w - windowSeconds (cfg L) * 1000)) xs)) < maxAttempts (cfg L)
        then LoginAllowed else LoginRefused too_many_reason)"
  using redis_server.rate_limit_run [OF assms(1) _ assms(3-5)] assms(1,2)
  by (simp add: redis_server.attempts_in_def)

definition demo_services :: "login_services" where
  "demo_services = \<lparr>cfg = \<lparr>maxAttempts = 2, windowSeconds = 60, lockoutDurationSeconds = 60,
      otpExpirationMinutes = 5, otpMaxAttempts = 3,
      riskScores = \<lparr>newDevice = 30, countryChange = 40, regionChange = 20, cityChange = 10, vpnUsage = 20\<rparr>\<rparr>,
    findById = (\<lambda>u. Inr None),
    findActiveById = (\<lambda>u. Inr (Some \<lparr>user_id = u, email = ''ada@mail.com'', disable_login_restrictions = False\<rparr>)),
    findActiveByEmail = (\<lambda>_. Inr None), findActiveByUsername = (\<lambda>_. Inr None), findActiveByPhone = (\<lambda>_. Inr None),
    findDevice = (\<lambda>_ _. Inr False), findKyc = (\<lambda>_. Inr None),
    ipCheck = (\<lambda>_ _. Inr (Some \<lparr>country = ''NG'', region = ''LA'', city = ''Ikeja'', isVpn = True\<rparr>)),
    ipCheckForApplicant = (\<lambda>_ _. Inr None), bannedCountry = (\<lambda>_. Inr None),
    getLastKnownLocation = (\<lambda>_. Inr (Some \<lparr>country = ''US'', region = ''CA'', city = ''LA'', isVpn = False\<rparr>)),
    sendMail = (\<lambda>_ _. Inr ()), hashPassword = (\<lambda>s. s), comparePassword = (\<lambda>a b. a = b)\<rparr>"

lemma login_rate_limit_witness:
  "fst (checkIdentifierRateLimit (ks_env ''app'') demo_services ''Ada'' None
     \<lparr>rds = [prefixKey (ks_env ''app'') (attemptsKey ''ada'') \<mapsto> (RList [Raw (show_int 90000), Raw (show_int 80000), Raw (show_int 1000)], None)],
       now = 100000\<rparr>) = Inr (LoginRefused too_many_reason)"
proof -
  let ?xs = "[Raw (show_int 90000), Raw (show_int 80000), Raw (show_int 1000)]"
  let ?s = "\<lparr>rds = [prefixKey (ks_env ''app'') (attemptsKey ''ada'') \<mapsto> (RList ?xs, None)], now = 100000\<rparr>"
  have low: "to_lower ''Ada'' = ''ada''" by code_simp
  have v: "view ks_ent ?s = [prefixKey (ks_env ''app'') (attemptsKey ''ada'') \<mapsto> (RList ?xs, None)]"
    by (rule ext) (simp add: view_def ks_ent_def live_def)
  have k: "lockoutKey ''ada'' \<noteq> prefixKey (ks_env ''app'') (attemptsKey ''ada'')"
    by (simp add: prefixKey_def ks_env_def lockoutKey_def)
  have c: "windowSeconds (cfg demo_services) = 60" "lockoutDurationSeconds (cfg demo_services) = 60"
    "maxAttempts (cfg demo_services) = 2" by (simp_all add: demo_services_def)
  show ?thesis
    using login_rate_limit [OF ks.redis_server_axioms, of ?s "''app''" "''Ada''" ?xs demo_services]
    by (simp add: v low k c the_rlist_def valid_attempt_def)
qed

text \<open>
  The lockout is never seen: right after \<open>lockoutIdentifier\<close> the identifier is reported as not
  locked out, because the lockout is written under the prefixed key and read under the raw one.
\<close>

theorem lockout_never_seen:
  assumes "redis_server E ent" and "\<not> own_prefix E (lockoutKey i)"
    and "view ent w (lockoutKey i) = None" and "0 < lockoutDurationSeconds (cfg L)"
  shows "fst (andthen (lockoutIdentifier E L i) (isIdentifierLockedOut E i) w) = Inr False"
  by (rule redis_server.lockout_unseen [OF assms])

lemma lockout_never_seen_witness:
  "fst (andthen (lockoutIdentifier (ks_env ''app'') demo_services ''ada'') (isIdentifierLockedOut (ks_env ''app'') ''ada'')
     \<lparr>rds = Map.empty, now = 0\<rparr>) = Inr False"
  using lockout_never_seen [OF ks.redis_server_axioms, of "''app''" "''ada''" "\<lparr>rds = Map.empty, now = 0\<rparr>" demo_services]
  by (simp add: view_def ks_ent_def live_def own_prefix_def ks_env_def lockoutKey_def demo_services_def)

text \<open>
  C34: an OTP stands at most \<open>otpMaxAttempts\<close> wrong guesses: after that many the next guess is
  refused and the OTP destroyed, even if it is the right code.
\<close>

theorem otp_guess_limit:
  assumes "redis_server E ent"
    and "the_str (view ent w) (prefixKey E (otpKey ctx)) = Some (Some (Json (otp_json c u x n m)))"
    and "m \<noteq> []" "0 < otpExpirationMinutes (cfg L)" "now w \<le> x"
    and "\<forall>g \<in> set gs. \<not> comparePassword L g c" and "n + int (length gs) = otpMaxAttempts (cfg L)"
  shows "fst (guesses E L ctx (gs @ [right, again]) w) = replicate (length gs) (Inl (OtpRequired ''Invalid OTP code'' m))
    @ [Inl (OtpRequired ''Too many OTP attempts'' m), Inl (OtpRequired ''OTP expired or not found'' default_contact)]"
  using redis_server.guess_limit [OF assms(1) _ assms(3-7)] assms(1,2) by (simp add: redis_server.otp_at_def)

lemma otp_guess_limit_witness:
  "fst (guesses (ks_env ''app'') demo_services \<lparr>clientIp = ''1'', fingerprint = ''f''\<rparr> ([''a'', ''b'', ''c''] @ [''123456'', ''x''])
     \<lparr>rds = [prefixKey (ks_env ''app'') (otpKey \<lparr>clientIp = ''1'', fingerprint = ''f''\<rparr>)
        \<mapsto> (RStr (Json (otp_json ''123456'' ''u'' 300000 0 ''ad***@mail.com'')), None)], now = 0\<rparr>)
    = replicate 3 (Inl (OtpRequired ''Invalid OTP code'' ''ad***@mail.com''))
      @ [Inl (OtpRequired ''Too many OTP attempts'' ''ad***@mail.com''),
         Inl (OtpRequired ''OTP expired or not found'' default_contact)]"
  using otp_guess_limit [OF ks.redis_server_axioms, of
      "\<lparr>rds = [prefixKey (ks_env ''app'') (otpKey \<lparr>clientIp = ''1'', fingerprint = ''f''\<rparr>)
        \<mapsto> (RStr (Json (otp_json ''123456'' ''u'' 300000 0 ''ad***@mail.com'')), None)], now = 0\<rparr>" "''app''"
      "\<lparr>clientIp = ''1'', fingerprint = ''f''\<rparr>" "''123456''" "''u''" 300000 0 "''ad***@mail.com''" demo_services
      "[''a'', ''b'', ''c'']" "''123456''" "''x''"]
  by (simp add: view_def ks_ent_def live_def the_str_def demo_services_def numeral_3_eq_3)

text \<open>An OTP is used once: the right code logs in, and the same code again is not found.\<close>

theorem otp_single_use:
  assumes "redis_server E ent"
    and "the_str (view ent w) (prefixKey E (otpKey ctx)) = Some (Some (Json (otp_json c u x n m)))"
    and "m \<noteq> []" "0 < otpExpirationMinutes (cfg L)" "now w \<le> x" "n < otpMaxAttempts (cfg L)"
    and "comparePassword L code c" "findActiveById L u = Inr (Some a)"
  shows "fst (guesses E L ctx [code, code] w) = [Inr a, Inl (OtpRequired ''OTP expired or not found'' default_contact)]"
  using redis_server.single_use [OF assms(1) _ assms(3-8)] assms(1,2) by (simp add: redis_server.otp_at_def)

lemma otp_single_use_witness:
  "fst (guesses (ks_env ''app'') demo_services \<lparr>clientIp = ''1'', fingerprint = ''f''\<rparr> [''123456'', ''123456'']
     \<lparr>rds = [prefixKey (ks_env ''app'') (otpKey \<lparr>clientIp = ''1'', fingerprint = ''f''\<rparr>)
        \<mapsto> (RStr (Json (otp_json ''123456'' ''u'' 300000 2 ''ad***@mail.com'')), None)], now = 0\<rparr>)
    = [Inr \<lparr>user_id = ''u'', email = ''ada@mail.com'', disable_login_restrictions = False\<rparr>,
       Inl (OtpRequired ''OTP expired or not found'' default_contact)]"
  using otp_single_use [OF ks.redis_server_axioms, of
      "\<lparr>rds = [prefixKey (ks_env ''app'') (otpKey \<lparr>clientIp = ''1'', fingerprint = ''f''\<rparr>)
        \<mapsto> (RStr (Json (otp_json ''123456'' ''u'' 300000 2 ''ad***@mail.com'')), None)], now = 0\<rparr>" "''app''"
      "\<lparr>clientIp = ''1'', fingerprint = ''f''\<rparr>" "''123456''" "''u''" 300000 2 "''ad***@mail.com''" demo_services
      "''123456''" "\<lparr>user_id = ''u'', email = ''ada@mail.com'', disable_login_restrictions = False\<rparr>"]
  by (simp add: view_def ks_ent_def live_def the_str_def demo_services_def)

text \<open>
  The risk score of a login is at least 0 and at most the device score, the worst location score
  and the VPN score together, and a user with restrictions disabled scores 0.
\<close>

theorem risk_score_bounds:
  assumes "scores_nonneg (riskScores (cfg L))" and "calculateRiskScore L u ctx d = Inr r"
  shows "0 \<le> score r \<and> score r \<le> newDevice (riskScores (cfg L)) + worst_location (riskScores (cfg L)) + vpnUsage (riskScores (cfg L))
    \<and> (d = Some True \<longrightarrow> score r = 0)"
proof -
  have w: "0 \<le> worst_location (riskScores (cfg L))"
    using assms(1) by (auto simp: scores_nonneg_def worst_location_def)
  have dev: "0 \<le> fst (checkDevice L u ctx) \<and> fst (checkDevice L u ctx) \<le> newDevice (riskScores (cfg L))"
    using assms(1) by (auto simp: checkDevice_def scores_nonneg_def split: sum.split)
  have vpn: "0 \<le> fst (checkVPN L c) \<and> fst (checkVPN L c) \<le> vpnUsage (riskScores (cfg L))" for c
    using assms(1) by (auto simp: checkVPN_def scores_nonneg_def split: option.split)
  have tp: "fst (checkTimePattern c) = 0" for c by (simp add: checkTimePattern_def split: option.split)
  have nd: "0 \<le> newDevice (riskScores (cfg L))" "0 \<le> vpnUsage (riskScores (cfg L))"
    using assms(1) by (auto simp: scores_nonneg_def)
  consider "r = \<lparr>score = 0, reasons = [], locationData = None\<rparr>"
    | cur loc where "d \<noteq> Some True" "checkLocation L u ctx cur = Inr loc"
        "score r = fst (checkDevice L u ctx) + fst loc + fst (checkVPN L cur) + fst (checkTimePattern cur)"
    using assms(2) by (auto simp: calculateRiskScore_def Let_def split: option.splits sum.splits if_splits)
  then show ?thesis
  proof cases
    case 1
    then show ?thesis using w nd by simp
  next
    case (2 cur loc)
    then show ?thesis
      using checkLocation_bounds [OF assms(1) 2(2)] dev vpn [of cur] tp [of cur] by auto
  qed
qed

lemma risk_score_bounds_witness:
  "\<exists>r. calculateRiskScore demo_services ''u'' \<lparr>clientIp = ''1'', fingerprint = ''f''\<rparr> (Some False) = Inr r
     \<and> score r = 90 \<and> score r \<le> 90"
proof -
  have r: "calculateRiskScore demo_services ''u'' \<lparr>clientIp = ''1'', fingerprint = ''f''\<rparr> (Some False)
    = Inr \<lparr>score = 90, reasons = [''new device'', ''new country (NG)'', ''VPN usage detected''],
        locationData = Some \<lparr>country = ''NG'', region = ''LA'', city = ''Ikeja'', isVpn = True\<rparr>\<rparr>"
    by code_simp
  then show ?thesis
    using risk_score_bounds [OF _ r] by (simp add: demo_services_def scores_nonneg_def worst_location_def)
qed

end
