(* ===== verification/TransactionPin.thy ===== *)
theory TransactionPin
  imports Locker Repository
begin

text \<open>
  The transaction PIN: \<^verbatim>\<open>TransactionPinService\<close>, the \<^verbatim>\<open>TransactionPinGuard\<close> that protects every money
  movement (\<^verbatim>\<open>src/modules/auth/transactionPin/\<close>, \<^verbatim>\<open>guard/transactionPinGuard/\<close>) and
  \<^verbatim>\<open>ResetTransactionPinService\<close> (\<^verbatim>\<open>resetTransactionPin/\<close>). The tables are the PINs, the users and the
  reset codes; failed attempts and lockouts are in Redis. The hash, the JSON web token, the mailer
  and the random values are arguments (\<open>pin_env\<close>).
\<close>

section \<open>State and collaborators\<close>

record pin_row =
  pin_id :: string
  pin_user :: string
  pin :: string

record pin_user =
  usr_id :: string
  usr_email :: string
  usr_active :: bool
  usr_status :: string
  require_reset :: bool

record reset_row =
  rs_id :: string
  rs_user :: string
  rs_code :: string
  rs_expiration :: int
  rs_used :: bool

record 's pin_world = "'s dbase" +
  pins :: "pin_row list"
  users :: "pin_user list"
  resets :: "reset_row list"

record 's pin_env =
  redis :: "'s redis_env"
  bhash :: "string \<Rightarrow> string \<Rightarrow> string"
  bcompare :: "string \<Rightarrow> string \<Rightarrow> bool"
  jwt_sign :: "string \<Rightarrow> string"
  jwt_verify :: "string \<Rightarrow> exn + string"
  send_mail :: "string \<Rightarrow> string \<Rightarrow> exn + unit"

definition pin_table :: "(pin_row, ('s, 'm) pin_world_scheme) table" where
  "pin_table = \<lparr>rows_of = pins, set_rows = (\<lambda>rs w. w\<lparr>pins := rs\<rparr>), row_id = pin_id\<rparr>"

definition user_table :: "(pin_user, ('s, 'm) pin_world_scheme) table" where
  "user_table = \<lparr>rows_of = users, set_rows = (\<lambda>rs w. w\<lparr>users := rs\<rparr>), row_id = usr_id\<rparr>"

definition reset_table :: "(reset_row, ('s, 'm) pin_world_scheme) table" where
  "reset_table = \<lparr>rows_of = resets, set_rows = (\<lambda>rs w. w\<lparr>resets := rs\<rparr>), row_id = rs_id\<rparr>"

interpretation pins: row_store pin_table
  by unfold_locales (simp_all add: pin_table_def)

interpretation users: row_store user_table
  by unfold_locales (simp_all add: user_table_def)

interpretation resets: row_store reset_table
  by unfold_locales (simp_all add: reset_table_def)

lemma table_simps [simp]:
  "rows_of pin_table = pins" "set_rows pin_table rs w = w\<lparr>pins := rs\<rparr>" "row_id pin_table = pin_id"
  "rows_of user_table = users" "set_rows user_table us w = w\<lparr>users := us\<rparr>" "row_id user_table = usr_id"
  "rows_of reset_table = resets" "set_rows reset_table xs w = w\<lparr>resets := xs\<rparr>" "row_id reset_table = rs_id"
  by (simp_all add: pin_table_def user_table_def reset_table_def)

section \<open>TransactionPinService\<close>

definition findByUserId :: "string \<Rightarrow> (('s, 'm) pin_world_scheme, pin_row option) io" where
  "findByUserId u = repo_findOne pin_table (\<lambda>r. pin_user r = u)"

definition updatePin :: "string \<Rightarrow> string \<Rightarrow> (('s, 'm) pin_world_scheme, unit) io" where
  "updatePin u hashed = andthen (repo_update_where pin_table (\<lambda>r. pin_user r = u) (\<lambda>r. r\<lparr>pin := hashed\<rparr>)) (ret ())"

definition setPin :: "'s pin_env \<Rightarrow> string \<Rightarrow> string \<Rightarrow> string \<Rightarrow> string \<Rightarrow> (('s, 'm) pin_world_scheme, bool) io" where
  "setPin P newId salt userId thePin = bind (findByUserId userId) (\<lambda>existing.
     if (case existing of None \<Rightarrow> False | Some r \<Rightarrow> pin r \<noteq> []) then throw (Conflict ''Transaction PIN already set'')
     else if existing \<noteq> None then throw (BadRequest ''Transaction PIN already set'')
     else andthen (transaction (repo_create pin_table \<lparr>pin_id = newId, pin_user = userId, pin = bhash P salt thePin\<rparr>))
       (ret True))"

definition verifyTransactionPin :: "'s pin_env \<Rightarrow> string \<Rightarrow> string \<Rightarrow> (('s, 'm) pin_world_scheme, bool) io" where
  "verifyTransactionPin P userId inputPin = bind (findByUserId userId) (\<lambda>userSecurity. case userSecurity of
      None \<Rightarrow> throw (BadRequest ''Transaction PIN not set for this user'')
    | Some r \<Rightarrow> if \<not> bcompare P inputPin (pin r) then throw (BadRequest ''Invalid transaction PIN'') else ret True)"

definition changePin :: "'s pin_env \<Rightarrow> string \<Rightarrow> string \<Rightarrow> string \<Rightarrow> string \<Rightarrow> (('s, 'm) pin_world_scheme, bool) io" where
  "changePin P salt userId oldPin newPin = bind (findByUserId userId) (\<lambda>userSecurity. case userSecurity of
      None \<Rightarrow> throw (BadRequest ''Transaction PIN not set for this user'')
    | Some r \<Rightarrow>
        if pin r = [] then throw (BadRequest ''Transaction PIN not set for this user'')
        else if \<not> bcompare P oldPin (pin r) then throw (BadRequest ''Old PIN is incorrect'')
        else if oldPin = newPin then throw (BadRequest ''New PIN must be different from old PIN'')
        else andthen (updatePin userId (bhash P salt newPin)) (ret True))"

definition verifyTransactionPinWithoutThrowing :: "'s pin_env \<Rightarrow> string \<Rightarrow> string \<Rightarrow> (('s, 'm) pin_world_scheme, bool) io" where
  "verifyTransactionPinWithoutThrowing P userId inputPin = bind (findByUserId userId) (\<lambda>userSecurity.
     ret (case userSecurity of None \<Rightarrow> False | Some r \<Rightarrow> bcompare P inputPin (pin r)))"

definition validateTransactionPin :: "'s pin_env \<Rightarrow> string \<Rightarrow> string \<Rightarrow> (('s, 'm) pin_world_scheme, bool) io" where
  "validateTransactionPin P userId inputPin = catch (bind (findByUserId userId) (\<lambda>userSecurity.
       ret (case userSecurity of None \<Rightarrow> False | Some r \<Rightarrow> bcompare P inputPin (pin r))))
     (\<lambda>_. throw (BadRequest ''Failed to validate transaction PIN''))"

definition failedKey :: "string \<Rightarrow> string" where
  "failedKey userId = ''transaction_pin_failed_attempts:'' @ userId"

definition pinLockoutKey :: "string \<Rightarrow> string" where
  "pinLockoutKey userId = ''transaction-pin-lockout:'' @ userId"

definition ONE_DAY_IN_SECONDS :: int where
  "ONE_DAY_IN_SECONDS = 24 * 60 * 60"

definition incrementFailedAttempts :: "'s redis_env \<Rightarrow> string \<Rightarrow> (('s, 'm) base_scheme, int) io" where
  "incrementFailedAttempts E userId = bind (rc_incr E (failedKey userId)) (\<lambda>attempts.
     andthen (when_do (attempts = 1) (andthen (rs_expire E (failedKey userId) ONE_DAY_IN_SECONDS) (ret ())))
       (ret attempts))"

definition resetFailedAttempts :: "'s redis_env \<Rightarrow> string \<Rightarrow> (('s, 'm) base_scheme, unit) io" where
  "resetFailedAttempts E userId = andthen (rc_del E (failedKey userId)) (ret ())"

definition getFailedAttempts :: "'s redis_env \<Rightarrow> string \<Rightarrow> (('s, 'm) base_scheme, int option) io" where
  "getFailedAttempts E userId = map_io (\<lambda>v. case v of None \<Rightarrow> Some 0 | Some t \<Rightarrow> if t = Raw [] then Some 0 else text_int t)
     (rc_get E (failedKey userId))"

definition ceil_quot :: "int \<Rightarrow> int \<Rightarrow> int" where
  "ceil_quot a b = - ((- a) div b)"

definition locked_for :: "int \<Rightarrow> exn" where
  "locked_for remainingMinutes = BadRequest (''Too many failed attempts. Your account is temporarily locked. Please try again in ''
     @ show_int remainingMinutes @ '' minute(s).'')"

definition checkPinRateLimitAndLockout :: "'s redis_env \<Rightarrow> string \<Rightarrow> (('s, 'm) base_scheme, unit) io" where
  "checkPinRateLimitAndLockout E userId = bind (rs_get E (pinLockoutKey userId)) (\<lambda>lockoutExpiry.
     if lockoutExpiry = None \<or> lockoutExpiry = Some (Raw []) then ret ()
     else bind get_now (\<lambda>t.
       case text_int (the lockoutExpiry) of
         None \<Rightarrow> andthen (rs_del E [pinLockoutKey userId]) (ret ())
       | Some expiry \<Rightarrow> let remainingSeconds = ceil_quot (expiry - t) 1000 in
           if 0 < remainingSeconds then throw (locked_for (ceil_quot remainingSeconds 60))
           else andthen (rs_del E [pinLockoutKey userId]) (ret ())))"

definition lockout_seconds :: "int \<Rightarrow> int" where
  "lockout_seconds failedAttempts = (if 7 \<le> failedAttempts then 3600
     else if 5 \<le> failedAttempts then 1800 else if 3 \<le> failedAttempts then 900 else 0)"

definition applyProgressiveLockout :: "'s redis_env \<Rightarrow> string \<Rightarrow> int \<Rightarrow> (('s, 'm) base_scheme, unit) io" where
  "applyProgressiveLockout E userId failedAttempts = (let s = lockout_seconds failedAttempts in
     when_do (0 < s) (bind get_now (\<lambda>t.
       andthen (rs_set E (pinLockoutKey userId) (Raw (show_int (t + s * 1000))) (Some s)) (ret ()))))"

definition clearLockout :: "'s redis_env \<Rightarrow> string \<Rightarrow> (('s, 'm) base_scheme, unit) io" where
  "clearLockout E userId = andthen (rs_del E [pinLockoutKey userId]) (ret ())"

section \<open>ResetTransactionPinService\<close>

definition requireTransactionPinReset :: "string \<Rightarrow> (('s, 'm) pin_world_scheme, unit) io" where
  "requireTransactionPinReset userId =
     catch (andthen (repo_update_id user_table userId (\<lambda>u. u\<lparr>require_reset := True\<rparr>)) (ret ()))
       (\<lambda>e. throw (InternalError (message e)))"

definition expireUnusedCode :: "string \<Rightarrow> (('s, 'm) pin_world_scheme, unit) io" where
  "expireUnusedCode userId = bind get_now (\<lambda>t.
     bind (repo_findOne reset_table (\<lambda>r. rs_user r = userId \<and> t < rs_expiration r \<and> \<not> rs_used r)) (\<lambda>activeCode.
     case activeCode of
       None \<Rightarrow> ret ()
     | Some r \<Rightarrow> andthen (repo_update_id reset_table (rs_id r) (\<lambda>x. x\<lparr>rs_expiration := t - 2 * 60000\<rparr>)) (ret ())))"

definition initiateResetPin :: "'s pin_env \<Rightarrow> string \<Rightarrow> string \<Rightarrow> string \<Rightarrow> string \<Rightarrow> (('s, 'm) pin_world_scheme, unit) io" where
  "initiateResetPin P newId salt code em =
     bind (repo_findOne user_table (\<lambda>u. usr_email u = em \<and> usr_active u)) (\<lambda>user. case user of
       None \<Rightarrow> throw (NotFound ''User Not found'')
     | Some u \<Rightarrow>
       if usr_status u \<in> {''pending_deactivation'', ''pending_account_deletion'', ''deleted''}
       then throw (NotFound ''Your account is deactivated, please contact support'')
       else catch (andthen (expireUnusedCode (usr_id u)) (bind get_now (\<lambda>t.
           transaction (andthen (repo_create reset_table \<lparr>rs_id = newId, rs_user = usr_id u, rs_code = bhash P salt code,
               rs_expiration = t + 1800000, rs_used = False\<rparr>)
             (io_of (send_mail P (usr_email u) code))))))
         (\<lambda>_. throw (InternalError ''Error while creating the code'')))"

definition findOrThrowIfCodeIsInvalid :: "'s pin_env \<Rightarrow> string \<Rightarrow> string \<Rightarrow> (('s, 'm) pin_world_scheme, reset_row) io" where
  "findOrThrowIfCodeIsInvalid P code userId =
     bind (repo_findOne reset_table (\<lambda>r. rs_user r = userId \<and> \<not> rs_used r)) (\<lambda>row. case row of
       None \<Rightarrow> throw (NotFound ''Code not found'')
     | Some r \<Rightarrow>
       if \<not> bcompare P code (rs_code r) then throw (NotFound ''Invalid code, please try again'')
       else bind get_now (\<lambda>t.
         if rs_expiration r < t then throw (NotFound ''Code has expired'')
         else if rs_used r then throw (NotFound ''Code has already been used'')
         else ret r))"

definition verifyCode :: "'s pin_env \<Rightarrow> string \<Rightarrow> string \<Rightarrow> (('s, 'm) pin_world_scheme, string) io" where
  "verifyCode P code userId = andthen (findOrThrowIfCodeIsInvalid P code userId)
     (catch (bind (repo_findOne reset_table (\<lambda>r. rs_user r = userId)) (\<lambda>row. case row of
          None \<Rightarrow> throw undefined_row | Some r \<Rightarrow> ret (jwt_sign P (rs_code r))))
       (\<lambda>_. throw (InternalError ''Error while verifying the account'')))"

definition verifyResetPinToken :: "'s pin_env \<Rightarrow> string \<Rightarrow> (('s, 'm) pin_world_scheme, reset_row) io" where
  "verifyResetPinToken P token = bind (io_of (jwt_verify P token)) (\<lambda>code.
     bind (repo_findOne reset_table (\<lambda>r. rs_code r = code)) (\<lambda>row. case row of
       None \<Rightarrow> throw (NotFound ''Account verification not found'')
     | Some r \<Rightarrow> if rs_used r then throw (NotFound ''Account verification already used'') else ret r))"

definition resetPinWithToken :: "'s pin_env \<Rightarrow> string \<Rightarrow> string option \<Rightarrow> string \<Rightarrow> string \<Rightarrow> (('s, 'm) pin_world_scheme, bool) io" where
  "resetPinWithToken P salt token newPin userId =
     andthen (if token = None \<or> token = Some [] then ret ()
       else bind (verifyResetPinToken P (the token)) (\<lambda>r.
         if rs_user r \<noteq> userId then throw (BadRequest ''Invalid verification code'') else ret ()))
     (andthen (updatePin userId (bhash P salt newPin))
     (andthen (repo_update_id user_table userId (\<lambda>u. u\<lparr>require_reset := False\<rparr>))
     (andthen (resetFailedAttempts (redis P) userId)
     (andthen (clearLockout (redis P) userId)
     (ret True)))))"

section \<open>TransactionPinGuard\<close>

text \<open>
  The user row is fetched with its PIN row; a missing user is a \<^verbatim>\<open>TypeError\<close>. The guard awaits
  the event it emits: the one listener registered on that emitter is \<open>requireTransactionPinReset\<close>.
  \<^verbatim>\<open>5 - NaN\<close> cannot occur after an increment that succeeded and is written as 0.
\<close>

definition attempts_left :: "int \<Rightarrow> exn" where
  "attempts_left n = BadRequest (''Invalid transaction PIN. '' @ show_int n @ '' attempt(s) left.'')"

definition reset_required :: exn where
  "reset_required = BadRequest ''Your transaction pin has been locked. Reset your transaction pin to continue.''"

definition pin_locked :: exn where
  "pin_locked = Restriction ''ERR_USER_PIN_LOCKED''"

definition guardBody :: "'s pin_env \<Rightarrow> string \<Rightarrow> string option \<Rightarrow> (('s, 'm) pin_world_scheme, bool) io" where
  "guardBody P userId transactionPin =
     bind (repo_findById_graph user_table userId) (\<lambda>user.
     bind (findByUserId userId) (\<lambda>pinRow.
     if require_reset user then throw reset_required
     else if (case pinRow of None \<Rightarrow> True | Some r \<Rightarrow> pin r = []) then
       throw (BadRequest ''Your transaction pin has not been set. Please set your transaction pin to continue.'')
     else andthen (checkPinRateLimitAndLockout (redis P) userId)
       (if transactionPin = None \<or> transactionPin = Some [] then throw (BadRequest ''Transaction PIN is required'')
        else bind (getFailedAttempts (redis P) userId) (\<lambda>_.
          bind (verifyTransactionPinWithoutThrowing P userId (the transactionPin)) (\<lambda>isVerified.
          if \<not> isVerified then
            andthen (incrementFailedAttempts (redis P) userId)
            (bind (getFailedAttempts (redis P) userId) (\<lambda>counted.
              let failedAttempts = (case counted of None \<Rightarrow> 0 | Some n \<Rightarrow> n) in
              andthen (applyProgressiveLockout (redis P) userId failedAttempts)
              (if 5 \<le> failedAttempts then andthen (requireTransactionPinReset userId) (throw pin_locked)
               else throw (attempts_left (5 - failedAttempts)))))
          else andthen (resetFailedAttempts (redis P) userId)
            (andthen (clearLockout (redis P) userId) (ret True)))))))"

definition canActivate :: "'s pin_env \<Rightarrow> string \<Rightarrow> string option \<Rightarrow> string option
    \<Rightarrow> ('s, 'm) pin_world_scheme \<Rightarrow> ((exn + bool) \<times> ('s, 'm) pin_world_scheme) option" where
  "canActivate P own userId transactionPin w = (case userId of
      None \<Rightarrow> Some (Inl (Unauthorized ''You are not authorize to access this resource''), w)
    | Some u \<Rightarrow> withLock (redis P) own (''transaction-pin:'' @ u) None None None (guardBody P u transactionPin) w)"

section \<open>What the Redis operations do\<close>

lemma pin_keys [simp]: "failedKey a \<noteq> pinLockoutKey b" "pinLockoutKey b \<noteq> failedKey a"
  by (simp_all add: failedKey_def pinLockoutKey_def)

definition counted :: "int \<Rightarrow> rtext option" where
  "counted n = (if n = 0 then None else Some (Raw (show_int n)))"

lemmas pin_defs = checkPinRateLimitAndLockout_def getFailedAttempts_def incrementFailedAttempts_def
  applyProgressiveLockout_def resetFailedAttempts_def clearLockout_def

lemma pin_redis_only [redis_only_intros]:
  "redis_only (checkPinRateLimitAndLockout E u)" "redis_only (getFailedAttempts E u)"
  "redis_only (incrementFailedAttempts E u)" "redis_only (applyProgressiveLockout E u n)"
  "redis_only (resetFailedAttempts E u)" "redis_only (clearLockout E u)"
  unfolding pin_defs Let_def by (auto intro!: redis_only_intros split: option.split)

lemma lockout_seconds_pos: "lockout_seconds n = 0 \<or> 0 < lockout_seconds n"
  by (simp add: lockout_seconds_def)

context redis_server
begin

lemma check_unlocked_run:
  assumes "view ent w (prefixKey E (pinLockoutKey u)) = None"
  shows "runs (checkPinRateLimitAndLockout E u) w (Inr ()) (view ent w)"
  by (rule runsI [OF pin_redis_only(1)]) (use assms in \<open>simp_all add: checkPinRateLimitAndLockout_def run the_str_None\<close>)

lemma get_failed_run:
  assumes "the_str (view ent w) (failedKey u) = Some (counted n)"
  shows "runs (getFailedAttempts E u) w (Inr (Some n)) (view ent w)"
  by (rule runsI [OF pin_redis_only(2)]) (use assms in \<open>simp_all add: getFailedAttempts_def run counted_def\<close>)

lemma incr_failed_run:
  assumes "the_str (view ent w) (failedKey u) = Some (counted n)" "0 \<le> n"
    and "\<not> own_prefix E (failedKey u)" "view ent w (prefixKey E (failedKey u)) = None"
  shows "runs (incrementFailedAttempts E u) w (Inr (n + 1)) (put (failedKey u) (RStr (Raw (show_int (n + 1)))) (view ent w))"
  by (rule runsI [OF pin_redis_only(3)])
     (use assms prefixKey_raw [OF assms(3), of "failedKey u"] in
       \<open>auto simp: incrementFailedAttempts_def run counted_def put_def split: if_splits\<close>)

lemma apply_lockout_run:
  "runs (applyProgressiveLockout E u n) w (Inr ()) (if lockout_seconds n = 0 then view ent w
    else (view ent w)(prefixKey E (pinLockoutKey u) :=
      Some (RStr (Raw (show_int (now w + lockout_seconds n * 1000))), Some (now w + 1000 * lockout_seconds n))))"
  by (rule runsI [OF pin_redis_only(4)])
     (use lockout_seconds_pos [of n] in \<open>auto simp: applyProgressiveLockout_def run px_ok_def\<close>)

lemma clear_failed_run: "runs (resetFailedAttempts E u) w (Inr ()) ((view ent w)(failedKey u := None))"
  by (rule runsI [OF pin_redis_only(5)]) (simp_all add: resetFailedAttempts_def run fun_eq_iff)

lemma clear_lockout_run: "runs (clearLockout E u) w (Inr ()) ((view ent w)(prefixKey E (pinLockoutKey u) := None))"
  by (rule runsI [OF pin_redis_only(6)]) (simp_all add: clearLockout_def run fun_eq_iff)

text \<open>While a lockout is in force every check is refused.\<close>

lemma check_locked_run:
  assumes "view ent w (prefixKey E (pinLockoutKey u)) = Some (RStr (Raw (show_int x)), d)" "now w < x"
  shows "runs (checkPinRateLimitAndLockout E u) w (Inl (locked_for (ceil_quot (ceil_quot (x - now w) 1000) 60))) (view ent w)"
proof (rule runsI [OF pin_redis_only(1)])
  have "0 < ceil_quot (x - now w) 1000" using assms(2) by (simp add: ceil_quot_def)
  with assms(1) show "fst (checkPinRateLimitAndLockout E u w) = Inl (locked_for (ceil_quot (ceil_quot (x - now w) 1000) 60))"
    "view ent (snd (checkPinRateLimitAndLockout E u w)) = view ent w"
    by (simp_all add: checkPinRateLimitAndLockout_def run the_str_Some)
qed

end

section \<open>The guard, attempt by attempt\<close>

text \<open>
  The user \<open>u\<close> has a PIN that hashes as \<open>h\<close>, \<open>n\<close> failed attempts on record, and \<open>flagged\<close> tells
  whether a reset is required; no database fault is due.
\<close>

definition pin_state :: "'s pin_env \<Rightarrow> ('s \<Rightarrow> int \<Rightarrow> keyspace) \<Rightarrow> ('s, 'm) pin_world_scheme
    \<Rightarrow> string \<Rightarrow> string \<Rightarrow> int \<Rightarrow> bool \<Rightarrow> bool" where
  "pin_state P ent w u h n flagged \<longleftrightarrow> faults w = []
     \<and> map_option require_reset (List.find (\<lambda>r. usr_id r = u) (users w)) = Some flagged
     \<and> map_option pin (List.find (\<lambda>r. pin_user r = u) (pins w)) = Some h \<and> h \<noteq> []
     \<and> the_str (view ent w) (failedKey u) = Some (counted n)
     \<and> view ent w (prefixKey (redis P) (failedKey u)) = None"

text \<open>Repeated attempts with PINs that are wrong, each after a wait.\<close>

fun tries :: "'s pin_env \<Rightarrow> string \<Rightarrow> (int \<times> string) list \<Rightarrow> ('s, 'm) pin_world_scheme
    \<Rightarrow> (exn + bool) list \<times> ('s, 'm) pin_world_scheme" where
  "tries P u [] w = ([], w)"
| "tries P u ((d, p) # ps) w = (case guardBody P u (Some p) (w\<lparr>now := now w + d\<rparr>) of
     (r, w1) \<Rightarrow> (case tries P u ps w1 of (rs, w2) \<Rightarrow> (r # rs, w2)))"

definition wrong_answers :: "(exn + bool) set" where
  "wrong_answers = {Inl pin_locked, Inl (attempts_left 4), Inl (attempts_left 3), Inl (attempts_left 2), Inl (attempts_left 1)}"

lemma counted_Suc: "0 \<le> n \<Longrightarrow> counted (n + 1) = Some (Raw (show_int (n + 1)))"
  by (simp add: counted_def)

lemma calm_user: "faults w = [] \<Longrightarrow> List.find (\<lambda>r. usr_id r = u) (users w) = Some x \<Longrightarrow>
    bind (repo_findById_graph user_table u) f w = f x w"
  by (simp add: repo_findById_graph_def bind_run users.findById_calm)

lemma calm_pin: "faults w = [] \<Longrightarrow> bind (findByUserId u) f w = f (List.find (\<lambda>r. pin_user r = u) (pins w)) w"
  by (simp add: findByUserId_def bind_run pins.findOne_calm)

lemma calm_verify: "faults w = [] \<Longrightarrow> bind (verifyTransactionPinWithoutThrowing P u p) f w
    = f (case List.find (\<lambda>r. pin_user r = u) (pins w) of None \<Rightarrow> False | Some r \<Rightarrow> bcompare P p (pin r)) w"
  unfolding verifyTransactionPinWithoutThrowing_def bind_assoc by (simp add: calm_pin)

lemma calm_flag:
  assumes "faults w = []" "List.find (\<lambda>r. usr_id r = u) (users w) = Some x"
  shows "andthen (requireTransactionPinReset u) m w = m (w\<lparr>users := x\<lparr>require_reset := True\<rparr> # filter (\<lambda>r. usr_id r \<noteq> u) (users w)\<rparr>)"
proof -
  have "repo_update_id user_table u (\<lambda>u. u\<lparr>require_reset := True\<rparr>) w
    = (Inr (Some (x\<lparr>require_reset := True\<rparr>)), w\<lparr>users := x\<lparr>require_reset := True\<rparr> # filter (\<lambda>r. usr_id r \<noteq> u) (users w)\<rparr>)"
    using assms by (simp add: users.update_id_calm replace_row_def)
  then show ?thesis by (simp add: requireTransactionPinReset_def io_simps)
qed

lemma guard_flagged:
  assumes "pin_state P ent w u h n True"
  shows "guardBody P u p w = (Inl reset_required, w)"
  using assms by (auto simp: pin_state_def guardBody_def calm_user calm_pin)

context redis_server
begin

lemma guard_wrong:
  fixes w :: "('s, 'm) pin_world_scheme"
  assumes R: "redis P = E" and own: "\<not> own_prefix E (failedKey u)"
    and st: "pin_state P ent w u h n False" and n: "0 \<le> n" "n < 5"
    and free: "view ent w (prefixKey E (pinLockoutKey u)) = None"
    and wrong: "\<not> bcompare P p h" "p \<noteq> []"
  shows "fst (guardBody P u (Some p) w) = Inl (if n = 4 then pin_locked else attempts_left (4 - n))"
    and "pin_state P ent (snd (guardBody P u (Some p) w)) u h (n + 1) (n = 4)"
    and "view ent (snd (guardBody P u (Some p) w)) (prefixKey E (pinLockoutKey u))
      = (if lockout_seconds (n + 1) = 0 then None else Some (RStr (Raw (show_int (now w + lockout_seconds (n + 1) * 1000))),
          Some (now w + 1000 * lockout_seconds (n + 1))))"
    and "now (snd (guardBody P u (Some p) w)) = now w"
    and "view ent (snd (guardBody P u (Some p) w)) (failedKey u)
      = Some (RStr (Raw (show_int (n + 1))), deadline (view ent w) (failedKey u))"
proof -
  let ?pk = "prefixKey E (pinLockoutKey u)" and ?fk = "failedKey u"
  have k: "prefixKey E j \<noteq> ?fk" "?fk \<noteq> prefixKey E j" for j
    using prefixKey_raw [OF own] by metis+
  obtain x r where f: "faults w = []" "List.find (\<lambda>r. usr_id r = u) (users w) = Some x" "\<not> require_reset x"
    "List.find (\<lambda>r. pin_user r = u) (pins w) = Some r" "pin r = h" "h \<noteq> []"
    "the_str (view ent w) ?fk = Some (counted n)" "view ent w (prefixKey E ?fk) = None"
    using st R by (auto simp: pin_state_def)
  obtain s1 where s1: "checkPinRateLimitAndLockout E u w = (Inr (), w\<lparr>rds := s1\<rparr>)" "ent s1 (now w) = view ent w"
    using check_unlocked_run [OF free] by (rule runsE)
  obtain s2 where s2: "getFailedAttempts E u (w\<lparr>rds := s1\<rparr>) = (Inr (Some n), w\<lparr>rds := s2\<rparr>)" "ent s2 (now w) = view ent w"
    using get_failed_run [of "w\<lparr>rds := s1\<rparr>" u n] f(7) s1(2) by (auto elim!: runsE)
  let ?K3 = "put ?fk (RStr (Raw (show_int (n + 1)))) (view ent w)"
  obtain s3 where s3: "incrementFailedAttempts E u (w\<lparr>rds := s2\<rparr>) = (Inr (n + 1), w\<lparr>rds := s3\<rparr>)" "ent s3 (now w) = ?K3"
    using incr_failed_run [of "w\<lparr>rds := s2\<rparr>" u n] f(7,8) s2(2) n own by (auto elim!: runsE)
  obtain s4 where s4: "getFailedAttempts E u (w\<lparr>rds := s3\<rparr>) = (Inr (Some (n + 1)), w\<lparr>rds := s4\<rparr>)" "ent s4 (now w) = ?K3"
    using get_failed_run [of "w\<lparr>rds := s3\<rparr>" u "n + 1"] s3(2) n by (auto elim!: runsE simp: counted_Suc put_def)
  let ?K5 = "if lockout_seconds (n + 1) = 0 then ?K3 else ?K3(?pk := Some (RStr (Raw (show_int (now w + lockout_seconds (n + 1) * 1000))),
      Some (now w + 1000 * lockout_seconds (n + 1))))"
  obtain s5 where s5: "applyProgressiveLockout E u (n + 1) (w\<lparr>rds := s4\<rparr>) = (Inr (), w\<lparr>rds := s5\<rparr>)" "ent s5 (now w) = ?K5"
    using apply_lockout_run [of u "n + 1" "w\<lparr>rds := s4\<rparr>"] s4(2) by (auto elim!: runsE split: if_splits)
  let ?w5 = "w\<lparr>rds := s5\<rparr>"
  let ?w6 = "?w5\<lparr>users := x\<lparr>require_reset := True\<rparr> # filter (\<lambda>r. usr_id r \<noteq> u) (users w)\<rparr>"
  have "usr_id x = u" using find_Some_in [OF f(2)] by simp
  have five: "5 \<le> n + 1 \<longleftrightarrow> n = 4" using n by auto
  have g: "guardBody P u (Some p) w = (if n = 4 then (Inl pin_locked, ?w6) else (Inl (attempts_left (4 - n)), ?w5))"
    using f wrong five
    by (simp add: guardBody_def R calm_user [OF f(1,2)] calm_pin calm_verify seq_ok bind_ok s1(1) s2(1) s3(1) s4(1) s5(1)
        calm_flag [of ?w5 u x] Let_def)
  have v: "ent s5 (now w) ?fk = Some (RStr (Raw (show_int (n + 1))), deadline (view ent w) ?fk)"
    "ent s5 (now w) (prefixKey E ?fk) = None"
    using s5(2) k f(8) by (simp_all add: put_def)
  show "fst (guardBody P u (Some p) w) = Inl (if n = 4 then pin_locked else attempts_left (4 - n))"
    and "now (snd (guardBody P u (Some p) w)) = now w"
    by (simp_all add: g)
  show "view ent (snd (guardBody P u (Some p) w)) ?fk = Some (RStr (Raw (show_int (n + 1))), deadline (view ent w) ?fk)"
    using v by (simp add: g view_def)
  show "pin_state P ent (snd (guardBody P u (Some p) w)) u h (n + 1) (n = 4)"
    using f v n \<open>usr_id x = u\<close> by (simp add: g pin_state_def R view_def counted_Suc the_str_Some)
  show "view ent (snd (guardBody P u (Some p) w)) ?pk
      = (if lockout_seconds (n + 1) = 0 then None else Some (RStr (Raw (show_int (now w + lockout_seconds (n + 1) * 1000))),
          Some (now w + 1000 * lockout_seconds (n + 1))))"
    using s5(2) k free by (simp add: g view_def put_def)
qed

lemma guard_right:
  fixes w :: "('s, 'm) pin_world_scheme"
  assumes R: "redis P = E" and own: "\<not> own_prefix E (failedKey u)"
    and st: "pin_state P ent w u h n False"
    and free: "view ent w (prefixKey E (pinLockoutKey u)) = None"
    and right: "bcompare P p h" "p \<noteq> []"
  shows "fst (guardBody P u (Some p) w) = Inr True \<and> pin_state P ent (snd (guardBody P u (Some p) w)) u h 0 False"
proof -
  let ?pk = "prefixKey E (pinLockoutKey u)" and ?fk = "failedKey u"
  have k: "prefixKey E j \<noteq> ?fk" "?fk \<noteq> prefixKey E j" for j
    using prefixKey_raw [OF own] by metis+
  obtain x r where f: "faults w = []" "List.find (\<lambda>r. usr_id r = u) (users w) = Some x" "\<not> require_reset x"
    "List.find (\<lambda>r. pin_user r = u) (pins w) = Some r" "pin r = h" "h \<noteq> []"
    "the_str (view ent w) ?fk = Some (counted n)" "view ent w (prefixKey E ?fk) = None"
    using st R by (auto simp: pin_state_def)
  obtain s1 where s1: "checkPinRateLimitAndLockout E u w = (Inr (), w\<lparr>rds := s1\<rparr>)" "ent s1 (now w) = view ent w"
    using check_unlocked_run [OF free] by (rule runsE)
  obtain s2 where s2: "getFailedAttempts E u (w\<lparr>rds := s1\<rparr>) = (Inr (Some n), w\<lparr>rds := s2\<rparr>)" "ent s2 (now w) = view ent w"
    using get_failed_run [of "w\<lparr>rds := s1\<rparr>" u n] f(7) s1(2) by (auto elim!: runsE)
  obtain s3 where s3: "resetFailedAttempts E u (w\<lparr>rds := s2\<rparr>) = (Inr (), w\<lparr>rds := s3\<rparr>)"
      "ent s3 (now w) = (view ent w)(?fk := None)"
    using clear_failed_run [of u "w\<lparr>rds := s2\<rparr>"] s2(2) by (auto elim!: runsE)
  obtain s4 where s4: "clearLockout E u (w\<lparr>rds := s3\<rparr>) = (Inr (), w\<lparr>rds := s4\<rparr>)"
      "ent s4 (now w) = (view ent w)(?fk := None, ?pk := None)"
    using clear_lockout_run [of u "w\<lparr>rds := s3\<rparr>"] s3(2) by (auto elim!: runsE)
  have g: "guardBody P u (Some p) w = (Inr True, w\<lparr>rds := s4\<rparr>)"
    using f right
    by (simp add: guardBody_def R calm_user [OF f(1,2)] calm_pin calm_verify seq_ok bind_ok s1(1) s2(1) s3(1) s4(1))
  show ?thesis
    using f s4(2) k by (simp add: g pin_state_def R view_def counted_def the_str_None fun_upd_def)
qed

lemma guard_locked:
  fixes w :: "('s, 'm) pin_world_scheme"
  assumes R: "redis P = E" and st: "pin_state P ent w u h n False"
    and lock: "view ent w (prefixKey E (pinLockoutKey u)) = Some (RStr (Raw (show_int x)), d)" "now w < x"
  shows "\<exists>s. guardBody P u p w = (Inl (locked_for (ceil_quot (ceil_quot (x - now w) 1000) 60)), w\<lparr>rds := s\<rparr>)
    \<and> ent s (now w) = view ent w"
proof -
  obtain y r where f: "faults w = []" "List.find (\<lambda>r. usr_id r = u) (users w) = Some y" "\<not> require_reset y"
    "List.find (\<lambda>r. pin_user r = u) (pins w) = Some r" "pin r \<noteq> []"
    using st by (auto simp: pin_state_def)
  obtain s1 where s1: "checkPinRateLimitAndLockout E u w
      = (Inl (locked_for (ceil_quot (ceil_quot (x - now w) 1000) 60)), w\<lparr>rds := s1\<rparr>)" "ent s1 (now w) = view ent w"
    using check_locked_run [OF lock] by (rule runsE)
  show ?thesis
    using f s1 by (auto simp: guardBody_def R calm_user [OF f(1,2)] calm_pin seq_fail)
qed

text \<open>The lockout key is absent or holds its own deadline.\<close>

definition lock_wf :: "('s, 'm) base_scheme \<Rightarrow> string \<Rightarrow> bool" where
  "lock_wf w u \<longleftrightarrow> (case view ent w (prefixKey E (pinLockoutKey u)) of
     None \<Rightarrow> True | Some e \<Rightarrow> \<exists>x. e = (RStr (Raw (show_int x)), Some x))"

lemma pin_state_later:
  assumes "pin_state P ent w u h n b" "0 \<le> d" "view ent w (failedKey u) = None \<or> (\<exists>v. view ent w (failedKey u) = Some (v, None))"
  shows "pin_state P ent (w\<lparr>now := now w + d\<rparr>) u h n b"
    and "view ent (w\<lparr>now := now w + d\<rparr>) (failedKey u) = view ent w (failedKey u)"
proof -
  have v: "view ent (w\<lparr>now := now w + d\<rparr>) = live (now w + d) (view ent w)" using assms(2) by (simp add: view_later)
  then show e: "view ent (w\<lparr>now := now w + d\<rparr>) (failedKey u) = view ent w (failedKey u)"
    using assms(3) by (auto simp: live_forever live_None)
  show "pin_state P ent (w\<lparr>now := now w + d\<rparr>) u h n b"
    using assms(1) e v by (simp add: pin_state_def live_None) (simp add: the_str_def)
qed

lemma lock_wf_later:
  assumes "lock_wf w u" "0 \<le> d"
  shows "lock_wf (w\<lparr>now := now w + d\<rparr>) u"
proof -
  have v: "view ent (w\<lparr>now := now w + d\<rparr>) = live (now w + d) (view ent w)" using assms(2) by (simp add: view_later)
  show ?thesis
    using assms(1) by (auto simp: lock_wf_def v live_None live_until split: option.splits if_splits)
qed

lemma lock_wf_alive:
  assumes "view ent w k = Some (v, Some x)"
  shows "now w < x"
  using view_live [of w] assms by (metis live_until option.distinct(1) not_le_imp_less)

lemma deadline_counted:
  "view ent w (failedKey u) = None \<or> (\<exists>v. view ent w (failedKey u) = Some (v, None)) \<Longrightarrow> deadline (view ent w) (failedKey u) = None"
  by (auto simp: deadline_def)

text \<open>
  Wrong PINs, at any pace: at most \<open>5 - n\<close> of them are compared with the PIN, all others are
  turned away by the lockout or by the required reset.
\<close>

definition under_attack :: "'s pin_env \<Rightarrow> ('s, 'm) pin_world_scheme \<Rightarrow> string \<Rightarrow> string \<Rightarrow> int \<Rightarrow> bool" where
  "under_attack P w u h n \<longleftrightarrow> pin_state P ent w u h n (n = 5) \<and> lock_wf w u
     \<and> deadline (view ent w) (failedKey u) = None"

lemma not_compared: "Inl (locked_for k) \<notin> wrong_answers" "Inl reset_required \<notin> wrong_answers"
  by (simp_all add: wrong_answers_def locked_for_def reset_required_def attempts_left_def pin_locked_def)

lemma tries_bound:
  fixes w :: "('s, 'm) pin_world_scheme"
  assumes R: "redis P = E" and own: "\<not> own_prefix E (failedKey u)"
    and "under_attack P w u h n" "0 \<le> n" "n \<le> 5"
    and "\<forall>(d, p) \<in> set ps. 0 \<le> d \<and> p \<noteq> [] \<and> \<not> bcompare P p h"
  shows "int (length (filter (\<lambda>r. r \<in> wrong_answers) (fst (tries P u ps w)))) \<le> 5 - n"
  using assms(3-)
proof (induction ps arbitrary: w n)
  case Nil
  then show ?case by simp
next
  case (Cons a ps)
  obtain d p where a: "a = (d, p)" by (cases a)
  have d: "0 \<le> d" "p \<noteq> []" "\<not> bcompare P p h" and ps: "\<forall>(d, p) \<in> set ps. 0 \<le> d \<and> p \<noteq> [] \<and> \<not> bcompare P p h"
    using Cons.prems(4) a by auto
  let ?w = "w\<lparr>now := now w + d\<rparr>"
  have dl: "view ent w (failedKey u) = None \<or> (\<exists>v. view ent w (failedKey u) = Some (v, None))"
    using Cons.prems(1) by (auto simp: under_attack_def deadline_def split: option.splits)
  have ua: "pin_state P ent w u h n (n = 5)" "lock_wf w u" "deadline (view ent w) (failedKey u) = None"
    using Cons.prems(1) by (simp_all add: under_attack_def)
  have st: "pin_state P ent ?w u h n (n = 5)" by (rule pin_state_later(1) [OF ua(1) d(1) dl])
  have lk: "lock_wf ?w u" by (rule lock_wf_later [OF ua(2) d(1)])
  have dw: "deadline (view ent ?w) (failedKey u) = None"
    using pin_state_later(2) [OF ua(1) d(1) dl] ua(3) by (simp add: deadline_def)
  obtain r w1 where g: "guardBody P u (Some p) ?w = (r, w1)" by (cases "guardBody P u (Some p) ?w")
  have tr: "fst (tries P u (a # ps) w) = r # fst (tries P u ps w1)"
    by (simp add: a g split: prod.split)
  consider (flagged) "n = 5" | (locked) x where "n < 5" "view ent ?w (prefixKey E (pinLockoutKey u)) = Some (RStr (Raw (show_int x)), Some x)"
    | (free) "n < 5" "view ent ?w (prefixKey E (pinLockoutKey u)) = None"
    using lk Cons.prems(3) by (fastforce simp: lock_wf_def split: option.splits)
  then show ?case
  proof cases
    case flagged
    then have "r = Inl reset_required" "w1 = ?w" using guard_flagged [of P ent ?w u h n "Some p"] st g by auto
    moreover have "under_attack P ?w u h n" using st lk dw by (simp add: under_attack_def)
    ultimately show ?thesis using Cons.IH [of ?w n] Cons.prems(2,3) ps by (simp add: tr not_compared)
  next
    case (locked x)
    have "now ?w < x" by (rule lock_wf_alive [OF locked(2)])
    from guard_locked [OF R _ locked(2) this] st locked(1) obtain s where
      s: "guardBody P u (Some p) ?w = (Inl (locked_for (ceil_quot (ceil_quot (x - now ?w) 1000) 60)), ?w\<lparr>rds := s\<rparr>)"
      "ent s (now ?w) = view ent ?w" by fastforce
    then have w1: "w1 = ?w\<lparr>rds := s\<rparr>" "r = Inl (locked_for (ceil_quot (ceil_quot (x - now ?w) 1000) 60))" using g by auto
    have "view ent w1 = view ent ?w" unfolding w1 using s(2) by (simp add: view_def)
    then have "under_attack P w1 u h n"
      using st lk dw by (simp add: under_attack_def lock_wf_def pin_state_def) (simp add: w1)
    then show ?thesis using Cons.IH [of w1 n] Cons.prems(2,3) ps by (simp add: tr w1(2) not_compared)
  next
    case free
    note gw = guard_wrong [OF R own _ Cons.prems(2) free(1) free(2) d(3,2)]
    have st': "pin_state P ent ?w u h n False" using st free(1) by simp
    have "n = 4 \<longleftrightarrow> n + 1 = 5" by auto
    then have "pin_state P ent w1 u h (n + 1) (n + 1 = 5)"
      using gw(2) [OF st'] g by simp
    moreover have "lock_wf w1 u"
      using gw(3) [OF st'] g by (auto simp: lock_wf_def algebra_simps)
    moreover have "deadline (view ent w1) (failedKey u) = None"
      using gw(5) [OF st'] g dw by (simp add: deadline_def)
    ultimately have "under_attack P w1 u h (n + 1)" by (simp add: under_attack_def)
    then have "int (length (filter (\<lambda>r. r \<in> wrong_answers) (fst (tries P u ps w1)))) \<le> 5 - (n + 1)"
      using Cons.IH [of w1 "n + 1"] Cons.prems(2) free(1) ps by simp
    then show ?thesis by (simp add: tr)
  qed
qed

end

section \<open>The reset token\<close>

lemma calm_updatePin:
  assumes "faults w = []" "List.find (\<lambda>r. pin_user r = u) (pins w) = Some x" "distinct (map pin_id (pins w))"
  shows "andthen (updatePin u h) m w = m (w\<lparr>pins := x\<lparr>pin := h\<rparr> # filter (\<lambda>r. pin_id r \<noteq> pin_id x) (pins w)\<rparr>)"
proof -
  have x: "List.find (\<lambda>r. pin_id r = pin_id x) (pins w) = Some x"
    using find_Some_in [OF assms(2)] assms(3) by (intro find_distinct) auto
  let ?g = "\<lambda>r. r\<lparr>pin := h\<rparr>"
  have a: "fst (repo_findOne pin_table (\<lambda>r. pin_user r = u) w) = Inr (Some x)"
    "snd (repo_findOne pin_table (\<lambda>r. pin_user r = u) w) = w"
    unfolding pins.findOne_calm [OF assms(1)] using assms(2) by simp_all
  have b: "repo_update_id pin_table (pin_id x) ?g w
      = (Inr (Some (?g x)), w\<lparr>pins := ?g x # filter (\<lambda>r. pin_id r \<noteq> pin_id x) (pins w)\<rparr>)"
    unfolding pins.update_id_calm [OF assms(1)] using x by (simp add: replace_row_def)
  have "repo_update_where pin_table (\<lambda>r. pin_user r = u) ?g w
      = (Inr (?g x), w\<lparr>pins := ?g x # filter (\<lambda>r. pin_id r \<noteq> pin_id x) (pins w)\<rparr>)"
    unfolding repo_update_where_def
    by (subst bind_ok [of _ _ "Some x"], rule a(1)) (use b in \<open>simp add: a(2) bind_run\<close>)
  then show ?thesis by (simp add: updatePin_def andthen_run)
qed

definition patch_user :: "string \<Rightarrow> (pin_user \<Rightarrow> pin_user) \<Rightarrow> pin_user list \<Rightarrow> pin_user list" where
  "patch_user u f us = (case List.find (\<lambda>r. usr_id r = u) us of
     None \<Rightarrow> us | Some x \<Rightarrow> f x # filter (\<lambda>r. usr_id r \<noteq> u) us)"

lemma calm_user_update:
  assumes "faults w = []"
  shows "fst (repo_update_id user_table u f w) = Inr (map_option f (List.find (\<lambda>r. usr_id r = u) (users w)))"
    and "snd (repo_update_id user_table u f w) = w\<lparr>users := patch_user u f (users w)\<rparr>"
  unfolding users.update_id_calm [OF assms]
  by (auto simp: replace_row_def patch_user_def split: option.split)

lemma calm_patch_user:
  "faults w = [] \<Longrightarrow> andthen (repo_update_id user_table u f) m w = m (w\<lparr>users := patch_user u f (users w)\<rparr>)"
  by (subst seq_ok, rule calm_user_update, assumption) (simp add: calm_user_update)

text \<open>The token is accepted while its code is in the table and not marked used; expiry is not looked at.\<close>

definition token_open :: "'s pin_env \<Rightarrow> ('s, 'm) pin_world_scheme \<Rightarrow> string \<Rightarrow> string \<Rightarrow> bool" where
  "token_open P w token u \<longleftrightarrow> (case jwt_verify P token of Inl _ \<Rightarrow> False | Inr code \<Rightarrow>
     (case List.find (\<lambda>r. rs_code r = code) (resets w) of None \<Rightarrow> False | Some r \<Rightarrow> \<not> rs_used r \<and> rs_user r = u))"

lemma calm_token:
  assumes "faults w = []" "token_open P w token u"
  shows "\<exists>r. verifyResetPinToken P token w = (Inr r, w) \<and> rs_user r = u"
proof -
  have "repo_findOne reset_table Q w = (Inr (List.find Q (resets w)), w)" for Q
    using resets.findOne_calm [OF assms(1)] by simp
  with assms(2) show ?thesis
    by (auto simp: verifyResetPinToken_def token_open_def io_simps split: sum.splits option.splits)
qed

context redis_server
begin

lemma reset_run:
  fixes w :: "('s, 'm) pin_world_scheme"
  assumes "faults w = []" "token_open P w token u" "token \<noteq> []" "redis P = E"
    and "List.find (\<lambda>r. pin_user r = u) (pins w) = Some x" "distinct (map pin_id (pins w))"
  shows "\<exists>s us. resetPinWithToken P salt (Some token) p u w = (Inr True,
    w\<lparr>pins := x\<lparr>pin := bhash P salt p\<rparr> # filter (\<lambda>r. pin_id r \<noteq> pin_id x) (pins w), users := us, rds := s\<rparr>)"
proof -
  let ?w1 = "w\<lparr>pins := x\<lparr>pin := bhash P salt p\<rparr> # filter (\<lambda>r. pin_id r \<noteq> pin_id x) (pins w)\<rparr>"
  let ?us = "patch_user u (\<lambda>u. u\<lparr>require_reset := False\<rparr>) (users w)"
  obtain r where r: "verifyResetPinToken P token w = (Inr r, w)" "rs_user r = u"
    using calm_token [OF assms(1,2)] by auto
  let ?w2 = "?w1\<lparr>users := ?us\<rparr>"
  obtain s1 where s1: "resetFailedAttempts E u ?w2 = (Inr (), ?w2\<lparr>rds := s1\<rparr>)"
    using clear_failed_run [of u ?w2] by (auto elim!: runsE)
  obtain s2 where s2: "clearLockout E u (?w2\<lparr>rds := s1\<rparr>) = (Inr (), ?w2\<lparr>rds := s1, rds := s2\<rparr>)"
    using clear_lockout_run [of u "?w2\<lparr>rds := s1\<rparr>"] by (auto elim!: runsE)
  define first :: "(('s, 'm) pin_world_scheme, unit) io" where
    "first = (if Some token = None \<or> Some token = Some [] then ret ()
       else bind (verifyResetPinToken P (the (Some token))) (\<lambda>r.
         if rs_user r \<noteq> u then throw (BadRequest ''Invalid verification code'') else ret ()))"
  have "first w = (Inr (), w)"
    using assms(3) r by (simp add: first_def bind_run)
  then have "resetPinWithToken P salt (Some token) p u w
      = andthen (resetFailedAttempts E u) (andthen (clearLockout E u) (ret True)) ?w2"
    unfolding resetPinWithToken_def assms(4) first_def [symmetric]
    using assms(1) by (simp add: andthen_run [of first] calm_updatePin [OF assms(1,5,6)] calm_patch_user)
  also have "\<dots> = (Inr True, ?w2\<lparr>rds := s1, rds := s2\<rparr>)"
    by (simp add: andthen_run s1 s2)
  finally show ?thesis by (intro exI [of _ s2] exI [of _ ?us]) simp
qed

lemma reset_twice:
  fixes w :: "('s, 'm) pin_world_scheme"
  assumes "faults w = []" "token_open P w token u" "token \<noteq> []" "redis P = E"
    and x: "List.find (\<lambda>r. pin_user r = u) (pins w) = Some x" "distinct (map pin_id (pins w))"
    and "0 \<le> d"
  shows "fst (andthen (resetPinWithToken P salt (Some token) p u) (andthen (sleep d)
      (resetPinWithToken P salt (Some token) p' u)) w) = Inr True
    \<and> map_option pin (List.find (\<lambda>r. pin_user r = u) (pins (snd (andthen (resetPinWithToken P salt (Some token) p u)
        (andthen (sleep d) (resetPinWithToken P salt (Some token) p' u)) w)))) = Some (bhash P salt p')"
proof -
  let ?ps = "x\<lparr>pin := bhash P salt p\<rparr> # filter (\<lambda>r. pin_id r \<noteq> pin_id x) (pins w)"
  have xu: "pin_user x = u" using find_Some_in [OF x(1)] by simp
  obtain s us where r1: "resetPinWithToken P salt (Some token) p u w = (Inr True, w\<lparr>pins := ?ps, users := us, rds := s\<rparr>)"
    using reset_run [OF assms(1-4) x] by blast
  let ?w1 = "w\<lparr>pins := ?ps, users := us, rds := s, now := now w + d\<rparr>"
  have "token_open P ?w1 token u" using assms(2) by (auto simp: token_open_def split: sum.splits option.splits)
  moreover have "distinct (map pin_id (pins ?w1))"
    using x(2) by (auto simp: distinct_map_filter)
  ultimately obtain s' us' where r2: "resetPinWithToken P salt (Some token) p' u ?w1 = (Inr True,
      ?w1\<lparr>pins := x\<lparr>pin := bhash P salt p'\<rparr> # filter (\<lambda>r. pin_id r \<noteq> pin_id x) ?ps, users := us', rds := s'\<rparr>)"
    using reset_run [of ?w1 P token u "x\<lparr>pin := bhash P salt p\<rparr>" salt p'] assms(1,3,4) xu by auto
  show ?thesis
    using r2 xu by (simp add: andthen_run r1 del: filter.simps)
qed

end

section \<open>Properties\<close>

text \<open>
  C28: an attacker without the PIN gets at most five comparisons. Whatever wrong PINs are tried, at
  whatever pace, from a state with \<open>n\<close> failures on record at most \<open>5 - n\<close> of the attempts are
  compared with the PIN; every other attempt is turned away by the lockout or the required reset.
\<close>

theorem pin_guesses_bounded:
  assumes "redis_server (redis P) ent" and "\<not> own_prefix (redis P) (failedKey u)"
    and "pin_state P ent w u h n (n = 5)" and "view ent w (prefixKey (redis P) (pinLockoutKey u)) = None"
    and "deadline (view ent w) (failedKey u) = None" and "0 \<le> n" "n \<le> 5"
    and "\<forall>(d, p) \<in> set ps. 0 \<le> d \<and> p \<noteq> [] \<and> \<not> bcompare P p h"
  shows "int (length (filter (\<lambda>r. r \<in> wrong_answers) (fst (tries P u ps w)))) \<le> 5 - n"
  using redis_server.tries_bound [OF assms(1) refl assms(2) _ assms(6-8), of w] assms(1,3-5)
  by (simp add: redis_server.under_attack_def redis_server.lock_wf_def)

definition demo_env :: "keyspace pin_env" where
  "demo_env = \<lparr>redis = ks_env ''app'', bhash = (\<lambda>s p. s @ p), bcompare = (\<lambda>p h. h = ''$'' @ p),
     jwt_sign = (\<lambda>c. c), jwt_verify = (\<lambda>t. Inr t), send_mail = (\<lambda>_ _. Inr ())\<rparr>"

definition demo_world :: "keyspace pin_world" where
  "demo_world = \<lparr>rds = Map.empty, now = 0, faults = [], outbox = [], draws = 0,
     pins = [\<lparr>pin_id = ''p1'', pin_user = ''u'', pin = ''$246810''\<rparr>],
     users = [\<lparr>usr_id = ''u'', usr_email = ''ada@mail.com'', usr_active = True, usr_status = ''active'', require_reset = False\<rparr>],
     resets = [\<lparr>rs_id = ''r1'', rs_user = ''u'', rs_code = ''tok'', rs_expiration = -1, rs_used = False\<rparr>]\<rparr>"

lemma demo_view: "view ks_ent demo_world = Map.empty"
  by (rule ext) (simp add: view_def ks_ent_def live_def demo_world_def)

lemma pin_guesses_bounded_witness:
  "int (length (filter (\<lambda>r. r \<in> wrong_answers) (fst (tries demo_env ''u'' (replicate 1000 (3600000, ''111111'')) demo_world)))) \<le> 5"
proof -
  have s: "redis_server (redis demo_env) ks_ent" using ks.redis_server_axioms by (simp add: demo_env_def)
  have "pin_state demo_env ks_ent demo_world ''u'' ''$246810'' 0 (0 = (5::int))"
    by (simp add: pin_state_def demo_view the_str_None counted_def) (simp add: demo_world_def)
  with s show ?thesis
    using pin_guesses_bounded [of demo_env ks_ent "''u''" demo_world "''$246810''" 0 "replicate 1000 (3600000, ''111111'')"]
    by (simp add: demo_view deadline_def own_prefix_def failedKey_def) (simp add: demo_env_def ks_env_def)
qed

text \<open>
  The right PIN is accepted while no lockout is in force and no reset is required, and clears the
  failed attempts; once a reset is required no PIN is accepted, not even the right one.
\<close>

theorem pin_guard_accepts:
  assumes "redis_server (redis P) ent" and "\<not> own_prefix (redis P) (failedKey u)"
    and "pin_state P ent w u h n flagged"
    and "view ent w (prefixKey (redis P) (pinLockoutKey u)) = None" and "bcompare P p h" "p \<noteq> []"
  shows "if flagged then guardBody P u (Some p) w = (Inl reset_required, w)
    else fst (guardBody P u (Some p) w) = Inr True \<and> pin_state P ent (snd (guardBody P u (Some p) w)) u h 0 False"
proof (cases flagged)
  case True
  then show ?thesis using guard_flagged [of P ent w u h n "Some p"] assms(3) by simp
next
  case False
  then show ?thesis
    using redis_server.guard_right [OF assms(1) refl assms(2) _ assms(4-6)] assms(3) by simp
qed

lemma pin_guard_accepts_witness:
  "fst (guardBody demo_env ''u'' (Some ''246810'') demo_world) = Inr True"
proof -
  have s: "redis_server (redis demo_env) ks_ent" using ks.redis_server_axioms by (simp add: demo_env_def)
  have "pin_state demo_env ks_ent demo_world ''u'' ''$246810'' 0 False"
    by (simp add: pin_state_def demo_view the_str_None counted_def) (simp add: demo_world_def)
  with s show ?thesis
    using pin_guard_accepts [of demo_env ks_ent "''u''" demo_world "''$246810''" 0 False "''246810''"]
    by (simp add: demo_view own_prefix_def failedKey_def) (simp add: demo_env_def ks_env_def)
qed

text \<open>
  A failed attempt is never forgotten: the counter is left without a deadline, because the
  24-hour expiry is set on the prefixed key while the counter is the raw one.
\<close>

theorem pin_attempts_never_expire:
  assumes "redis_server E ent" and "\<not> own_prefix E (failedKey u)"
    and "view ent w (failedKey u) = None" and "view ent w (prefixKey E (failedKey u)) = None" and "0 \<le> d"
  shows "fst (andthen (incrementFailedAttempts E u) (andthen (sleep d) (getFailedAttempts E u)) w) = Inr (Some 1)"
proof -
  obtain s where s: "incrementFailedAttempts E u w = (Inr 1, w\<lparr>rds := s\<rparr>)"
    "ent s (now w) = put (failedKey u) (RStr (Raw (show_int 1))) (view ent w)"
    using redis_server.incr_failed_run [OF assms(1), of w u 0] assms(2-4)
    by (auto simp: counted_def the_str_None elim!: redis_server.runsE [OF assms(1)])
  let ?w = "w\<lparr>rds := s, now := now w + d\<rparr>"
  have "view ent ?w = live (now w + d) (ent s (now w))"
    using redis_server.time_law [OF assms(1), of "now w" "now w + d" s] assms(5) by (simp add: view_def)
  then have "view ent ?w (failedKey u) = Some (RStr (Raw (show_int 1)), None)"
    using s(2) assms(3) by (simp add: put_def deadline_def live_forever)
  then have "the_str (view ent ?w) (failedKey u) = Some (counted 1)"
    by (simp add: the_str_Some counted_def)
  then have "fst (getFailedAttempts E u ?w) = Inr (Some 1)"
    using redis_server.get_failed_run [OF assms(1), of ?w u 1] by (auto elim!: redis_server.runsE [OF assms(1)])
  then show ?thesis by (simp add: andthen_run s(1))
qed

lemma pin_attempts_never_expire_witness:
  "fst (andthen (incrementFailedAttempts (ks_env ''app'') ''u'') (andthen (sleep 999999999)
     (getFailedAttempts (ks_env ''app'') ''u'')) \<lparr>rds = Map.empty, now = 0\<rparr>) = Inr (Some 1)"
  using pin_attempts_never_expire [OF ks.redis_server_axioms, of "''app''" "''u''" "\<lparr>rds = Map.empty, now = 0\<rparr>" 999999999]
  by (simp add: view_def ks_ent_def live_def own_prefix_def ks_env_def failedKey_def)

text \<open>
  A reset token can be used again and again, also after its code has expired: the code is
  never marked used and its expiry is not checked when the token is redeemed.
\<close>

theorem reset_token_replay:
  assumes "redis_server (redis P) ent" and "faults w = []" "token_open P w token u" "token \<noteq> []"
    and "List.find (\<lambda>r. pin_user r = u) (pins w) = Some x" "distinct (map pin_id (pins w))" and "0 \<le> d"
  shows "fst (andthen (resetPinWithToken P salt (Some token) p u) (andthen (sleep d)
      (resetPinWithToken P salt (Some token) p' u)) w) = Inr True
    \<and> map_option pin (List.find (\<lambda>r. pin_user r = u) (pins (snd (andthen (resetPinWithToken P salt (Some token) p u)
        (andthen (sleep d) (resetPinWithToken P salt (Some token) p' u)) w)))) = Some (bhash P salt p')"
  by (rule redis_server.reset_twice [OF assms(1-4) refl assms(5-7)])

lemma reset_token_replay_witness:
  "fst (andthen (resetPinWithToken demo_env ''$'' (Some ''tok'') ''111111'' ''u'') (andthen (sleep 86400000)
      (resetPinWithToken demo_env ''$'' (Some ''tok'') ''222222'' ''u'')) demo_world) = Inr True"
proof -
  have s: "redis_server (redis demo_env) ks_ent" using ks.redis_server_axioms by (simp add: demo_env_def)
  show ?thesis
    using reset_token_replay [OF s, of demo_world "''tok''" "''u''" _ 86400000 "''$''" "''111111''" "''222222''"]
    by (simp add: demo_world_def token_open_def) (simp add: demo_env_def)
qed

end
