(* ===== verification/CardFees.thy ===== *)
theory CardFees
  imports Prelude
begin

text \<open>
  The card fees (\<^verbatim>\<open>src/config/onedosh/cardFees.config.ts\<close>): the fee table and how a fee is computed from
  it. Dollars and percentages are exact rationals where the source has doubles; text outside ASCII
  is written as its UTF-8 bytes.
\<close>

section \<open>The fee table\<close>

datatype card_fee_type = DOMESTIC_PURCHASE | CROSS_BORDER_FX | INSUFFICIENT_FUNDS | FIAT_TOP_UP | STABLECOIN_TOP_UP
  | ATM_BALANCE_INQUIRY | ATM_DECLINE | ATM_WITHDRAWAL | PHYSICAL_CARD_FIRST_ISSUE | PHYSICAL_CARD_REPLACEMENT
  | VIRTUAL_CARD_ISSUANCE | DISPUTE_CHARGEBACK

datatype fee_calculation = PERCENTAGE | FIXED | PERCENTAGE_PLUS_FIXED | NONE

record card_fee_config =
  feeType :: card_fee_type
  calculationType :: fee_calculation
  percentage :: "rat option"
  fixed :: "rat option"
  description :: string
  comment_text :: string
  appliedBy :: string
  chargeApi :: bool

definition MAX_INSUFFICIENT_FUNDS_DECLINES :: int where
  "MAX_INSUFFICIENT_FUNDS_DECLINES = 3"

definition MINIMUM_CHARGE_API_FEE :: rat where
  "MINIMUM_CHARGE_API_FEE = 1 / 100"

definition CARD_INITIAL_FUNDING_MIN_USD :: int where
  "CARD_INITIAL_FUNDING_MIN_USD = 5"

definition CARD_SUBSEQUENT_FUNDING_MIN_USD :: int where
  "CARD_SUBSEQUENT_FUNDING_MIN_USD = 0"

definition CardFeesConfiguration :: "card_fee_config list" where
  "CardFeesConfiguration = [
     \<lparr>feeType = DOMESTIC_PURCHASE, calculationType = NONE, percentage = None, fixed = Some 0,
      description = ''Domestic purchases'',
      comment_text = ''$0 (+ variable network fees)'',
      appliedBy = ''rain'', chargeApi = False\<rparr>,
     \<lparr>feeType = CROSS_BORDER_FX, calculationType = PERCENTAGE, percentage = Some 2, fixed = None,
      description = (''Cross-border &/or FX (merchant country '' @ [CHR 0xE2, CHR 0x89, CHR 0xA0] @ '' billing OR txn currency '' @ [CHR 0xE2, CHR 0x89, CHR 0xA0] @ '' billing)''),
      comment_text = ''2% per txn (charge once per txn even if both cross-border & FX apply)'',
      appliedBy = ''rain'', chargeApi = False\<rparr>,
     \<lparr>feeType = INSUFFICIENT_FUNDS, calculationType = FIXED, percentage = None, fixed = Some (25 / 100),
      description = ''Insufficient funds / soft decline'',
      comment_text = ''$0.25 per transaction'',
      appliedBy = ''platform'', chargeApi = True\<rparr>,
     \<lparr>feeType = FIAT_TOP_UP, calculationType = PERCENTAGE, percentage = Some (5 / 10), fixed = None,
      description = ''Fiat top-up'',
      comment_text = ''0.5%'',
      appliedBy = ''platform'', chargeApi = True\<rparr>,
     \<lparr>feeType = STABLECOIN_TOP_UP, calculationType = PERCENTAGE, percentage = Some (5 / 10), fixed = None,
      description = ''Stablecoin top-up'',
      comment_text = ''0.5% platform + network gas (pass-through)'',
      appliedBy = ''platform'', chargeApi = True\<rparr>,
     \<lparr>feeType = ATM_BALANCE_INQUIRY, calculationType = FIXED, percentage = None, fixed = Some 1,
      description = ''ATM balance inquiry'',
      comment_text = ''$1'',
      appliedBy = ''rain'', chargeApi = False\<rparr>,
     \<lparr>feeType = ATM_DECLINE, calculationType = FIXED, percentage = None, fixed = Some 1,
      description = ''ATM decline'',
      comment_text = ''$1'',
      appliedBy = ''rain'', chargeApi = False\<rparr>,
     \<lparr>feeType = ATM_WITHDRAWAL, calculationType = PERCENTAGE_PLUS_FIXED, percentage = Some (75 / 100), fixed = Some 2,
      description = ''ATM withdrawal'',
      comment_text = ''$2 + 0.75%'',
      appliedBy = ''rain'', chargeApi = False\<rparr>,
     \<lparr>feeType = PHYSICAL_CARD_FIRST_ISSUE, calculationType = FIXED, percentage = None, fixed = Some 0,
      description = (''Physical card '' @ [CHR 0xE2, CHR 0x80, CHR 0x93] @ '' first issue''),
      comment_text = ''$X (TBD)'',
      appliedBy = ''rain'', chargeApi = True\<rparr>,
     \<lparr>feeType = PHYSICAL_CARD_REPLACEMENT, calculationType = FIXED, percentage = None, fixed = Some 0,
      description = (''Physical card '' @ [CHR 0xE2, CHR 0x80, CHR 0x93] @ '' replacement''),
      comment_text = ''$X (TBD)'',
      appliedBy = ''rain'', chargeApi = True\<rparr>,
     \<lparr>feeType = VIRTUAL_CARD_ISSUANCE, calculationType = FIXED, percentage = None, fixed = Some 1,
      description = ''Virtual card issuance'',
      comment_text = ''$1'',
      appliedBy = ''platform'', chargeApi = True\<rparr>,
     \<lparr>feeType = DISPUTE_CHARGEBACK, calculationType = FIXED, percentage = None, fixed = Some 30,
      description = ''Disputes / chargebacks'',
      comment_text = ''$30 (Rain cost)'',
      appliedBy = ''rain'', chargeApi = True\<rparr>]"

section \<open>CardFeesService\<close>

definition getFeeConfig :: "card_fee_type \<Rightarrow> card_fee_config option" where
  "getFeeConfig t = List.find (\<lambda>c. feeType c = t) CardFeesConfiguration"

record fee_result =
  fee :: rat
  feePercentage :: "rat option"
  feeFixed :: "rat option"
  resultType :: fee_calculation

text \<open>A number that is missing or 0 is falsy in the source.\<close>

definition truthy :: "rat option \<Rightarrow> bool" where
  "truthy x \<longleftrightarrow> x \<noteq> None \<and> x \<noteq> Some 0"

definition calculateFee :: "rat \<Rightarrow> card_fee_type \<Rightarrow> fee_result" where
  "calculateFee transactionAmount t = (case getFeeConfig t of
      None \<Rightarrow> \<lparr>fee = 0, feePercentage = None, feeFixed = None, resultType = NONE\<rparr>
    | Some c \<Rightarrow> (case calculationType c of
        PERCENTAGE \<Rightarrow>
          if truthy (percentage c) then
            \<lparr>fee = transactionAmount * the (percentage c) / 100, feePercentage = percentage c, feeFixed = None,
             resultType = PERCENTAGE\<rparr>
          else \<lparr>fee = 0, feePercentage = None, feeFixed = None, resultType = PERCENTAGE\<rparr>
      | FIXED \<Rightarrow>
          if truthy (fixed c) then
            \<lparr>fee = the (fixed c), feePercentage = None, feeFixed = fixed c, resultType = FIXED\<rparr>
          else \<lparr>fee = 0, feePercentage = None, feeFixed = None, resultType = FIXED\<rparr>
      | PERCENTAGE_PLUS_FIXED \<Rightarrow>
          let percentageAmount = (if truthy (percentage c) then transactionAmount * the (percentage c) / 100 else 0);
              fixedAmount = (if truthy (fixed c) then the (fixed c) else 0)
          in \<lparr>fee = fixedAmount + percentageAmount,
              feePercentage = (if truthy (percentage c) then percentage c else None),
              feeFixed = (if truthy (fixed c) then fixed c else None), resultType = PERCENTAGE_PLUS_FIXED\<rparr>
      | NONE \<Rightarrow> \<lparr>fee = 0, feePercentage = None, feeFixed = None, resultType = NONE\<rparr>))"

definition getAllFeeConfigs :: "card_fee_config list" where
  "getAllFeeConfigs = CardFeesConfiguration"

definition getFeeConfigsByAppliedBy :: "string \<Rightarrow> card_fee_config list" where
  "getFeeConfigsByAppliedBy a = filter (\<lambda>c. appliedBy c = a) CardFeesConfiguration"

definition requiresChargeApi :: "card_fee_type \<Rightarrow> bool" where
  "requiresChargeApi t = (case getFeeConfig t of None \<Rightarrow> False | Some c \<Rightarrow> chargeApi c)"

section \<open>The table as a function\<close>

text \<open>The percentage and the fixed part of every fee.\<close>

fun schedule :: "card_fee_type \<Rightarrow> rat \<times> rat" where
  "schedule CROSS_BORDER_FX = (2, 0)"
| "schedule INSUFFICIENT_FUNDS = (0, 1 / 4)"
| "schedule FIAT_TOP_UP = (1 / 2, 0)"
| "schedule STABLECOIN_TOP_UP = (1 / 2, 0)"
| "schedule ATM_BALANCE_INQUIRY = (0, 1)"
| "schedule ATM_DECLINE = (0, 1)"
| "schedule ATM_WITHDRAWAL = (3 / 4, 2)"
| "schedule VIRTUAL_CARD_ISSUANCE = (0, 1)"
| "schedule DISPUTE_CHARGEBACK = (0, 30)"
| "schedule _ = (0, 0)"

lemma getFeeConfig_total: "\<exists>c. getFeeConfig t = Some c \<and> feeType c = t"
  by (cases t) (simp_all add: getFeeConfig_def CardFeesConfiguration_def)

lemma fee_linear: "fee (calculateFee a t) = snd (schedule t) + a * fst (schedule t) / 100"
  by (cases t) (simp_all add: calculateFee_def getFeeConfig_def CardFeesConfiguration_def truthy_def)

lemma schedule_nonneg: "0 \<le> fst (schedule t)" "0 \<le> snd (schedule t)" "fst (schedule t) \<le> 2"
  by (cases t; simp)+

section \<open>Properties\<close>

text \<open>
  Every fee is its fixed part plus its percentage of the amount, as the published schedule says;
  no fee is negative, and a larger amount never costs less.
\<close>

theorem card_fee_schedule:
  "fee (calculateFee a t) = snd (schedule t) + a * fst (schedule t) / 100
    \<and> (0 \<le> a \<longrightarrow> 0 \<le> fee (calculateFee a t))
    \<and> (a \<le> b \<longrightarrow> fee (calculateFee a t) \<le> fee (calculateFee b t))"
  using schedule_nonneg [of t] by (auto simp: fee_linear intro!: add_nonneg_nonneg divide_right_mono mult_right_mono)

lemma card_fee_schedule_witness:
  "fee (calculateFee 100 ATM_WITHDRAWAL) = 2 + 3 / 4 \<and> fee (calculateFee 100 ATM_WITHDRAWAL) \<le> fee (calculateFee 200 ATM_WITHDRAWAL)"
  using card_fee_schedule [of 100 ATM_WITHDRAWAL 200] by simp

end
