(* ===== verification/RainRejection.thy ===== *)
theory RainRejection
  imports Prelude
begin

text \<open>
  The normaliser of KYC rejection labels (\<^verbatim>\<open>src/adapters/card/rain/rain.rejection.ts\<close>): the registry of
  labels with their sources, the disposition of a label, its rollup into coarse fields, and the
  checklist and message shown to the user. A JavaScript set keeps its members in the order of their
  first insertion (\<open>uniq\<close>); the collation of the field names, which are ASCII letters and dots, is
  the order of their lower-case texts. A label is an own key of the registry or no property of
  \<^verbatim>\<open>Object.prototype\<close>.
\<close>

section \<open>Sources and the registry\<close>

datatype disposition = Temporary | Final

record rejection_source =
  groupId :: string
  reasonId :: string
  reason :: string
  description :: string
  source_disposition :: disposition
  fineGrainedFields :: "string list"

record label_details =
  label :: string
  sources :: "rejection_source list"

definition createSource :: "string \<Rightarrow> string \<Rightarrow> string \<Rightarrow> string \<Rightarrow> disposition \<Rightarrow> string list \<Rightarrow> rejection_source" where
  "createSource g i r d disp fs = \<lparr>groupId = g, reasonId = i, reason = r, description = d,
     source_disposition = disp, fineGrainedFields = fs\<rparr>"

definition categorizeRejectionSource :: "rejection_source \<Rightarrow> string" where
  "categorizeRejectionSource s = (let g = groupId s in
     if g = ''proofOfAddress'' then ''proofOfAddress''
     else if g \<in> {''bankCard'', ''bankStatement'', ''proofOfPayment'', ''blackCrypto'', ''walletSignatureMismatch'', ''redCrypto''}
       then ''payment''
     else if g \<in> {''badDocument'', ''additionalPages'', ''badPhoto''} then ''document''
     else if g = ''dataMismatch'' then ''profile''
     else if g \<in> {''dbNetChecks'', ''dbNetRetry'', ''dbNetReject'', ''ekycRetry'', ''ekycReject''} then ''database''
     else if g = ''selfie'' then ''selfie''
     else if g \<in> {''videoIdent'', ''videoIdentFinalRejection''} then ''videoIdent''
     else if g \<in> {''fraudulentPatterns'', ''fake'', ''compromisedStructure''} then ''fraud''
     else if g = ''regulationsViolations'' then ''regulation''
     else if g = ''spam'' then ''uploads''
     else if g = ''compromisedPersons'' then
       (if reasonId s = ''adverseMedia'' then ''media''
        else if reasonId s \<in> {''pep'', ''sanctionList'', ''criminalRecords'', ''fitnessProbity''} then ''watchlists''
        else ''fraud'')
     else ''document'')"

definition registry_1 :: "(string \<times> label_details) list" where
  "registry_1 = [
     (''CHECK_UNAVAILABLE'', \<lparr>label = ''CHECK_UNAVAILABLE'', sources = [
       createSource ''dbNetChecks'' ''checkUnavailable'' ''Check Unavailable''
         ''The government database is currently unavailable. We could not validate the user identity document.''
         Temporary [''database.availability''],
       createSource ''ekycRetry'' ''checkUnavailable'' ''Check unavailable''
         ''The government database is currently unavailable. We could not verify user data with this method.''
         Temporary [''database.availability''],
       createSource ''dbNetRetry'' ''checkUnavailable'' ''Check Unavailable''
         ''The government database is currently unavailable. We could not verify user data with this method.''
         Temporary [''database.availability'']]\<rparr>),
     (''RESTRICTED_PERSON'', \<lparr>label = ''RESTRICTED_PERSON'', sources = [
       createSource ''dbNetChecks'' ''drivingRestrictions'' ''Driving Restrictions''
         ''The applicant is subject to driving restrictions.''
         Temporary [''watchlists.fitnessProbity''],
       createSource ''dbNetReject'' ''restrictedPerson'' ''Restricted Person''
         ''Found on a restricted list.''
         Final [''watchlists.fitnessProbity'']]\<rparr>),
     (''INCORRECT_SOCIAL_NUMBER'', \<lparr>label = ''INCORRECT_SOCIAL_NUMBER'', sources = [
       createSource ''dbNetChecks'' ''incorrectBvn'' ''Incorrect BVN''
         ''The BVN number provided by the applicant is incorrect. A new BVN has been requested.''
         Temporary [''socialNumber.bvn'', ''database.match''],
       createSource ''dbNetChecks'' ''incorrectSsn'' ''Incorrect SSN''
         ''The SSN number provided by the applicant is incorrect. A new SSN has been requested.''
         Temporary [''socialNumber.ssn'', ''database.match''],
       createSource ''dbNetChecks'' ''incorrectTin'' ''Incorrect TIN''
         ''The tax number provided by the applicant is incorrect. A new tax number has been requested.''
         Temporary [''socialNumber.tin'', ''database.match'']]\<rparr>),
     (''DOCUMENT_PAGE_MISSING'', \<lparr>label = ''DOCUMENT_PAGE_MISSING'', sources = [
       createSource ''additionalPages'' ''registrationStamp'' ''Address page''
         ''The uploaded document is missing the address page.''
         Temporary [''document.pages'', ''document.image''],
       createSource ''additionalPages'' ''anotherSide'' ''Another side''
         ''The uploaded document is double-sided and only one side was uploaded.''
         Temporary [''document.pages'', ''document.image''],
       createSource ''additionalPages'' ''expirationPage'' ''Expiration date page''
         ''The uploaded document is missing the expiration date page.''
         Temporary [''document.pages'', ''document.expirationDate'', ''document.image''],
       createSource ''additionalPages'' ''mainPageId'' ''Main page of the document''
         ''The uploaded document is missing the biodata page.''
         Temporary [''document.pages'', ''document.image''],
       createSource ''additionalPages'' ''nextPage'' ''Next page''
         ''The document page with expiration date has been requested.''
         Temporary [''document.pages'', ''document.expirationDate'', ''document.image'']]\<rparr>)]"

definition registry_2 :: "(string \<times> label_details) list" where
  "registry_2 = [
     (''BAD_PROOF_OF_PAYMENT'', \<lparr>label = ''BAD_PROOF_OF_PAYMENT'', sources = [
       createSource ''bankCard'' ''fullNameIssue'' ''Bank card without name''
         ''The name on the bank card is missing.''
         Temporary [''payment.bankCard.name'', ''document.image''],
       createSource ''bankCard'' ''expirationDate'' ''Expired bank card''
         ''The provided bank card has expired or expires soon.''
         Temporary [''payment.bankCard.expiry''],
       createSource ''bankStatement'' ''notEnoughData'' ''Account/Card number''
         ''The account/card number on the bank statement is missing or cannot be read.''
         Temporary [''payment.bankStatement.accountOrCardNumber'', ''document.image''],
       createSource ''bankStatement'' ''fullNameIssue'' ''Full name (bank statement)''
         ''The full name on the bank statement is missing or cannot be read.''
         Temporary [''payment.bankStatement.fullName'', ''document.image''],
       createSource ''dataMismatch'' ''dataMismatch'' ''Data mismatch (payments)''
         ''The filled-in data does not match the information on the uploaded image.''
         Temporary [''payment.bankCard.number'', ''payment.bankCard.name'', ''payment.bankStatement.accountOrCardNumber'', ''payment.bankStatement.fullName''],
       createSource ''blackCrypto'' ''blackCrypto'' ''Black crypto''
         ''Wallet address is incorrect.''
         Temporary [''wallet.address''],
       createSource ''blackCrypto'' ''blackCrypto'' ''Black crypto''
         ''Wallet address does not participate in outputs of transaction.''
         Temporary [''wallet.address''],
       createSource ''proofOfPayment'' ''bankCard'' ''Bank card''
         ''Bank card details are missing or not visible.''
         Temporary [''payment.bankCard.number'', ''payment.bankCard.name'', ''payment.bankCard.expiry'', ''document.image''],
       createSource ''proofOfPayment'' ''fullName'' ''Bank statement''
         ''Bank statement details are missing or not visible.''
         Temporary [''payment.bankStatement.fullName'', ''payment.bankStatement.accountOrCardNumber'', ''document.image''],
       createSource ''proofOfPayment'' ''proofOfPayment'' ''Decline payment''
         ''According to the documents provided, the payment has not been completed.''
         Temporary [''payment.bankStatement.accountOrCardNumber'', ''payment.wireTransfer.proof'', ''payment.ewallet.proof''],
       createSource ''proofOfPayment'' ''issueDate'' ''E-wallet''
         ''The confirmation of the electronic wallet has been requested.''
         Temporary [''payment.ewallet.proof''],
       createSource ''proofOfPayment'' ''listOfDocs'' ''Wire transfer''
         ''The confirmation of the wire transfer has been requested.''
         Temporary [''payment.wireTransfer.proof''],
       createSource ''walletSignatureMismatch'' ''walletSignatureMismatch'' ''Wallet Signature mismatch''
         ''Signature of the wallet has been mismatched.''
         Temporary [''wallet.signature''],
       createSource ''differentDocs'' ''differentDocs'' ''Different Bank cards''
         ''The submitted bank cards belong to different people.''
         Final [''payment.bankCard.number'', ''profile.fullName''],
       createSource ''redCrypto'' ''redCrypto'' ''Red crypto''
         ''Wallet has a high risk score.''
         Final [''wallet.address'', ''wallet.riskScore''],
       createSource ''regulationsViolations'' ''riskBankCard'' ''High risk Bank card''
         ''High risk bank card detected.''
         Final [''payment.bankCard.number''],
       createSource ''regulationsViolations'' ''inconsistency'' ''Name mismatch''
         ''Name mismatch between card and ID.''
         Final [''payment.bankCard.name'', ''profile.fullName''],
       createSource ''regulationsViolations'' ''countriesMismatch'' ''Countries mismatch''
         ''Country mismatch between residence and card.''
         Final [''regulation.cardVsResidenceCountry'', ''profile.country'']]\<rparr>)]"

definition registry_3 :: "(string \<times> label_details) list" where
  "registry_3 = [
     (''BAD_PROOF_OF_IDENTITY'', \<lparr>label = ''BAD_PROOF_OF_IDENTITY'', sources = [
       createSource ''badDocument'' ''copyOfIdDoc'' ''Copy of ID doc''
         ''Uploaded a photo of a paper copy instead of the original.''
         Temporary [''document.image'', ''document.type''],
       createSource ''badDocument'' ''notFullDob'' ''Not a full DoB''
         ''Applicant date of birth is not present.''
         Temporary [''document.number'', ''profile.dateOfBirth''],
       createSource ''badDocument'' ''notFullName'' ''Not a full name''
         ''Applicant full name is not present.''
         Temporary [''document.number'', ''profile.fullName''],
       createSource ''badDocument'' ''suspiciousDocument'' ''Suspicious document''
         ''A new document requested to minimize fraud risk.''
         Temporary [''document.image''],
       createSource ''badDocument'' ''unsigned'' ''Unsigned document''
         ''Document without relevant signatures and stamps.''
         Temporary [''document.signatureOrStamp''],
       createSource ''badDocument'' ''withoutFace'' ''Without face''
         ''Face on the document is poorly visible.''
         Temporary [''document.facePhoto'', ''document.image''],
       createSource ''badDocument'' ''wrongType'' ''Wrong type''
         ''Uploaded document is not supported.''
         Temporary [''document.type'']]\<rparr>),
     (''DOCUMENT_DAMAGED'', \<lparr>label = ''DOCUMENT_DAMAGED'', sources = [
       createSource ''badDocument'' ''damagedId'' ''Damaged ID''
         ''The document is either damaged or unreadable.''
         Temporary [''document.image'']]\<rparr>),
     (''REQUESTED_DATA_MISMATCH'', \<lparr>label = ''REQUESTED_DATA_MISMATCH'', sources = [
       createSource ''badDocument'' ''dataMismatch'' ''Data mismatch''
         ''The details in this document do not match with the information provided.''
         Temporary [''profile.fullName'', ''profile.dateOfBirth'', ''profile.address'', ''document.number'']]\<rparr>),
     (''DIGITAL_DOCUMENT'', \<lparr>label = ''DIGITAL_DOCUMENT'', sources = [
       createSource ''badDocument'' ''digitalId'' ''Digital ID''
         ''The applicant uploaded a digital version of the document.''
         Temporary [''document.type'', ''document.image'']]\<rparr>),
     (''INCOMPATIBLE_LANGUAGE'', \<lparr>label = ''INCOMPATIBLE_LANGUAGE'', sources = [
       createSource ''badDocument'' ''needTranslation'' ''English translation''
         ''Document in a language not supported; notarized English translation requested.''
         Temporary [''document.language'']]\<rparr>),
     (''EXPIRATION_DATE'', \<lparr>label = ''EXPIRATION_DATE'', sources = [
       createSource ''badDocument'' ''expiredId'' ''Expired ID''
         ''The provided identity document has expired.''
         Temporary [''document.expirationDate''],
       createSource ''badDocument'' ''expirationDate'' ''ID expiration date''
         ''Identity document expires in less than one month.''
         Temporary [''document.expirationDate'']]\<rparr>),
     (''ID_INVALID'', \<lparr>label = ''ID_INVALID'', sources = [
       createSource ''badDocument'' ''invalidId'' ''Invalid ID''
         ''The provided identity document is invalid.''
         Temporary [''document.number'', ''document.type'']]\<rparr>)]"

definition registry_4 :: "(string \<times> label_details) list" where
  "registry_4 = [
     (''INCOMPLETE_DOCUMENT'', \<lparr>label = ''INCOMPLETE_DOCUMENT'', sources = [
       createSource ''badDocument'' ''missedNfc'' ''Missed NFC''
         ''NFC scanning is required.''
         Temporary [''document.nfc'']]\<rparr>),
     (''UNSATISFACTORY_PHOTOS'', \<lparr>label = ''UNSATISFACTORY_PHOTOS'', sources = [
       createSource ''badPhoto'' ''dataNotVisible'' ''Data not readable''
         ''Required fields are not readable or visible.''
         Temporary [''document.image''],
       createSource ''badPhoto'' ''imageEditor'' ''Photoshop''
         ''Image editors detected.''
         Temporary [''document.image''],
       createSource ''badPhoto'' ''screenshot'' ''Screenshots''
         ''The applicant uploaded screenshots.''
         Temporary [''document.image'']]\<rparr>),
     (''GRAPHIC_EDITOR'', \<lparr>label = ''GRAPHIC_EDITOR'', sources = [
       createSource ''badPhoto'' ''imageEditor'' ''Photoshop''
         ''Image editors have been detected.''
         Temporary [''document.image'']]\<rparr>),
     (''SCREENSHOTS'', \<lparr>label = ''SCREENSHOTS'', sources = [
       createSource ''badPhoto'' ''screenshot'' ''Screenshots''
         ''The applicant uploaded screenshots.''
         Temporary [''document.image'']]\<rparr>),
     (''WRONG_ADDRESS'', \<lparr>label = ''WRONG_ADDRESS'', sources = [
       createSource ''dataMismatch'' ''address'' ''Address issue''
         ''Profile address does not match document data.''
         Temporary [''profile.address'', ''document.pages''],
       createSource ''dbNetReject'' ''addressMismatch'' ''Address mismatch''
         ''Address mismatch with government records.''
         Final [''database.address'', ''profile.address'']]\<rparr>),
     (''PROBLEMATIC_APPLICANT_DATA'', \<lparr>label = ''PROBLEMATIC_APPLICANT_DATA'', sources = [
       createSource ''dataMismatch'' ''dateOfBirth'' ''Date of birth issue''
         ''Profile DoB does not match document data.''
         Temporary [''profile.dateOfBirth'', ''document.number''],
       createSource ''dataMismatch'' ''fullName'' ''Full name issue''
         ''Profile name does not match document data.''
         Temporary [''profile.fullName'', ''document.number''],
       createSource ''dataMismatch'' ''gender'' ''Gender mismatch''
         ''Profile gender does not match document data.''
         Temporary [''profile.gender'', ''document.number''],
       createSource ''ekycRetry'' ''dataMismatch'' ''Data mismatch''
         ''Provided data does not match the government database.''
         Temporary [''database.match'', ''profile.fullName'', ''profile.dateOfBirth'', ''profile.gender'', ''profile.address''],
       createSource ''ekycRetry'' ''notEnoughDataInSource'' ''Not enough data in source''
         ''Could not find applicant data in the government database.''
         Temporary [''database.presence''],
       createSource ''ekycReject'' ''dataMismatch'' ''Data mismatch''
         (''Data doesn'' @ [CHR 0x27] @ ''t match the government database.'')
         Final [''database.match''],
       createSource ''ekycReject'' ''skip'' ''E-KYC skipped''
         ''E-KYC step has been skipped.''
         Final [''database.presence''],
       createSource ''ekycReject'' ''notEnoughDataInSource'' ''Not enough data in source''
         ''Data not found in the government database.''
         Final [''database.presence'']]\<rparr>)]"

definition registry_5 :: "(string \<times> label_details) list" where
  "registry_5 = [
     (''DB_DATA_MISMATCH'', \<lparr>label = ''DB_DATA_MISMATCH'', sources = [
       createSource ''dbNetRetry'' ''dataMismatch'' ''Data mismatch''
         ''Provided data does not match the database.''
         Temporary [''database.match'', ''database.name'', ''database.dob'', ''database.gender'', ''database.address''],
       createSource ''dbNetRetry'' ''dobMismatch'' ''Date of birth mismatch''
         ''Provided date of birth does not match the database.''
         Temporary [''database.dob''],
       createSource ''dbNetRetry'' ''genderMismatch'' ''Gender mismatch''
         ''Provided gender does not match the database.''
         Temporary [''database.gender''],
       createSource ''dbNetRetry'' ''nameMismatch'' ''Name mismatch''
         ''Provided name does not match the database.''
         Temporary [''database.name''],
       createSource ''dbNetReject'' ''dataMismatch'' ''Data mismatch''
         ''Data mismatch with government records.''
         Final [''database.match''],
       createSource ''dbNetReject'' ''dobMismatch'' ''Date of birth mismatch''
         ''DOB mismatch with government records.''
         Final [''database.dob''],
       createSource ''dbNetReject'' ''nameMismatch'' ''Name mismatch''
         ''Name mismatch with government records.''
         Final [''database.name'']]\<rparr>),
     (''DB_DATA_NOT_FOUND'', \<lparr>label = ''DB_DATA_NOT_FOUND'', sources = [
       createSource ''dbNetRetry'' ''dataNotFound'' ''Data not found''
         ''Could not find applicant data in the database.''
         Temporary [''database.presence''],
       createSource ''dbNetReject'' ''dataNotFound'' ''Data not found''
         ''No data found in government records.''
         Final [''database.presence'']]\<rparr>),
     (''GPS_AS_POA_SKIPPED'', \<lparr>label = ''GPS_AS_POA_SKIPPED'', sources = [
       createSource ''gpsAsPoaSkipped'' ''gpsAsPoaSkipped'' ''GPS as POA skipped''
         ''Verification completed but insufficient address details.''
         Temporary [''profile.address'']]\<rparr>)]"

definition registry_6 :: "(string \<times> label_details) list" where
  "registry_6 = [
     (''BAD_PROOF_OF_ADDRESS'', \<lparr>label = ''BAD_PROOF_OF_ADDRESS'', sources = [
       createSource ''proofOfAddress'' ''fullAddress'' ''Full address''
         ''The full address has not been provided or cannot be read.''
         Temporary [''profile.address'', ''document.image''],
       createSource ''proofOfAddress'' ''fullName'' ''Full name''
         ''The full name has not been provided or cannot be read.''
         Temporary [''profile.fullName'', ''document.image''],
       createSource ''proofOfAddress'' ''poiPoaCountryMismatch'' ''ID country mismatch''
         ''ID country does not match country entered by applicant.''
         Temporary [''document.country'', ''profile.country''],
       createSource ''proofOfAddress'' ''issueDate'' ''Issue date''
         ''Document is expired according to PoA validity settings.''
         Temporary [''document.issueDate''],
       createSource ''proofOfAddress'' ''listOfDocs'' ''List of documents''
         ''Document type is not supported.''
         Temporary [''document.type''],
       createSource ''proofOfAddress'' ''notEnoughData'' ''Passport without number''
         ''No number on the document (passport).''
         Temporary [''document.number''],
       createSource ''proofOfAddress'' ''dataMismatch'' ''Provided address mismatch''
         ''Document address does not match entered address.''
         Temporary [''profile.address'', ''document.pages''],
       createSource ''proofOfAddress'' ''sameDoc'' ''Submit the same document''
         ''Same document used as PoA and PoI.''
         Temporary [''document.type''],
       createSource ''proofOfAddress'' ''unAcceptableLanguage'' ''Unsupported language''
         ''Document language not supported.''
         Temporary [''document.language'']]\<rparr>),
     (''BAD_FACE_MATCHING'', \<lparr>label = ''BAD_FACE_MATCHING'', sources = [
       createSource ''selfie'' ''badFaceComparison'' ''Compare with ID mismatch''
         ''Selfie face not clearly visible/matchable with ID.''
         Temporary [''selfie.image'', ''document.facePhoto'']]\<rparr>),
     (''BAD_SELFIE'', \<lparr>label = ''BAD_SELFIE'', sources = [
       createSource ''selfie'' ''livenessWatermark'' ''Liveness with watermark''
         ''Watermark/text present on liveness record.''
         Temporary [''selfie.liveness''],
       createSource ''selfie'' ''selfieLiveness'' ''Selfie Liveness''
         ''Failed liveness check.''
         Temporary [''selfie.liveness''],
       createSource ''selfie'' ''selfieWithId'' ''Selfie with ID''
         ''Selfie without ID; selfie with ID requested.''
         Temporary [''selfie.image'', ''document.image''],
       createSource ''selfie'' ''webcamSelfie'' ''Webcam selfie''
         ''Applicant selfie requested.''
         Temporary [''selfie.image'']]\<rparr>),
     (''BAD_VIDEO_SELFIE'', \<lparr>label = ''BAD_VIDEO_SELFIE'', sources = [
       createSource ''selfie'' ''videoSelfie'' ''Video Selfie''
         ''Failed to pass the video selfie check.''
         Temporary [''selfie.video'']]\<rparr>)]"

definition registry_7 :: "(string \<times> label_details) list" where
  "registry_7 = [
     (''UNSUITABLE_ENV'', \<lparr>label = ''UNSUITABLE_ENV'', sources = [
       createSource ''videoIdent'' ''notSeen'' ''Applicant can not be seen''
         ''On the Video Ident call, the applicant was not visible.''
         Temporary [''videoIdent.visibility''],
       createSource ''videoIdent'' ''notAlone'' ''Not alone''
         ''On the Video Ident call, the applicant was not alone.''
         Temporary [''videoIdent.alone'']]\<rparr>),
     (''CONNECTION_INTERRUPTED'', \<lparr>label = ''CONNECTION_INTERRUPTED'', sources = [
       createSource ''videoIdent'' ''badConnection'' ''Bad connection''
         ''The Video Ident call connection was interrupted.''
         Temporary [''videoIdent.connection'']]\<rparr>),
     (''APPLICANT_INTERRUPTED_INTERVIEW'', \<lparr>label = ''APPLICANT_INTERRUPTED_INTERVIEW'', sources = [
       createSource ''videoIdent'' ''applicantInterruptedInterview'' ''Interrupted interview''
         ''The applicant did not finish the interview.''
         Temporary [''videoIdent.connection'']]\<rparr>),
     (''DOCUMENT_MISSING'', \<lparr>label = ''DOCUMENT_MISSING'', sources = [
       createSource ''videoIdent'' ''noSuitableDocs'' ''No docs''
         ''The applicant failed to provide the required documents on the Video Ident call.''
         Temporary [''videoIdent.requiredDocs'']]\<rparr>),
     (''ADVERSE_MEDIA'', \<lparr>label = ''ADVERSE_MEDIA'', sources = [
       createSource ''compromisedPersons'' ''adverseMedia'' ''Adverse media''
         ''The applicant is mentioned in adverse media.''
         Final [''media.adverse'']]\<rparr>),
     (''CRIMINAL'', \<lparr>label = ''CRIMINAL'', sources = [
       createSource ''compromisedPersons'' ''criminalRecords'' ''Criminal records''
         ''The applicant is a convicted criminal.''
         Final [''watchlists.criminalRecords'']]\<rparr>),
     (''COMPROMISED_PERSONS'', \<lparr>label = ''COMPROMISED_PERSONS'', sources = [
       createSource ''compromisedPersons'' ''fitnessProbity'' ''Fitness probity''
         ''Applicant found on fitness and probity lists.''
         Final [''watchlists.fitnessProbity''],
       createSource ''compromisedStructure'' ''compromisedStructure'' ''Problematic company structure''
         ''Officials in ownership/control structure were rejected.''
         Final [''watchlists.fitnessProbity''],
       createSource ''compromisedPersons'' ''incompleteName'' ''Incomplete data''
         ''The name entered is incomplete; watchlist matching impaired.''
         Final [''profile.fullName''],
       createSource ''compromisedPersons'' ''warning'' ''Warning''
         ''Found on most-wanted lists (Interpol/EU/US).''
         Final [''watchlists.fitnessProbity'']]\<rparr>),
     (''PEP'', \<lparr>label = ''PEP'', sources = [
       createSource ''compromisedPersons'' ''pep'' ''PEP''
         ''Applicant is a politically exposed person.''
         Final [''watchlists.pep'']]\<rparr>)]"

definition registry_8 :: "(string \<times> label_details) list" where
  "registry_8 = [
     (''SANCTIONS'', \<lparr>label = ''SANCTIONS'', sources = [
       createSource ''compromisedPersons'' ''sanctionList'' ''Sanction lists''
         ''Applicant mentioned on sanctions lists.''
         Final [''watchlists.sanctions'']]\<rparr>),
     (''INCONSISTENT_PROFILE'', \<lparr>label = ''INCONSISTENT_PROFILE'', sources = [
       createSource ''differentDocs'' ''differentDocs'' ''Different docs''
         ''Submitted documents/payment methods belong to different people.''
         Final [''profile.fullName'', ''document.number'', ''payment.bankCard.number'']]\<rparr>),
     (''FORGERY'', \<lparr>label = ''FORGERY'', sources = [
       createSource ''fake'' ''editedId'' ''Edited ID data''
         ''Edited data detected in ID document.''
         Final [''document.image'', ''fraud.templateTampering''],
       createSource ''fake'' ''fake'' ''Fake''
         ''Suspected fraudulent account.''
         Final [''fraud.templateTampering''],
       createSource ''fake'' ''fakePoa'' ''Fake PoA''
         ''Inconsistent information in PoA.''
         Final [''document.image'', ''profile.address''],
       createSource ''fake'' ''nfcMismatch'' ''NFC data mismatch''
         ''Document chip data mismatch.''
         Final [''document.nfc''],
       createSource ''fake'' ''forgedId'' ''Physical forgery''
         ''Physically tampered document.''
         Final [''document.image''],
       createSource ''fraudulentPatterns'' ''template'' ''Template''
         ''Tampered data suspected.''
         Final [''fraud.templateTampering'']]\<rparr>),
     (''FRAUDULENT_PATTERNS'', \<lparr>label = ''FRAUDULENT_PATTERNS'', sources = [
       createSource ''fake'' ''fakeSelfie'' ''Fake selfie''
         ''Forgery detected in selfie.''
         Final [''selfie.image''],
       createSource ''fake'' ''fake'' ''Fake''
         ''Suspected fraudulent account.''
         Final [''fraud.riskScore''],
       createSource ''fraudulentPatterns'' ''serial'' ''Fraud network''
         ''Suspected fraud network.''
         Final [''fraud.serialNetwork''],
       createSource ''videoIdentFinalRejection'' ''forcedVerification'' ''3rd Force Involvement''
         ''Suspected involuntary verification.''
         Final [''fraud.thirdPartyInvolvement'']]\<rparr>),
     (''NOT_DOCUMENT'', \<lparr>label = ''NOT_DOCUMENT'', sources = [
       createSource ''fraudulentPatterns'' ''printedIdCopy'' ''Printed copy of ID''
         ''Submitted a printed document copy.''
         Final [''document.type'']]\<rparr>),
     (''FRAUDULENT_LIVENESS'', \<lparr>label = ''FRAUDULENT_LIVENESS'', sources = [
       createSource ''fraudulentPatterns'' ''livenessBypass'' ''Bypass attempts''
         ''Attempt to deceive liveness.''
         Final [''fraud.livenessBypass''],
       createSource ''fraudulentPatterns'' ''deepFake'' ''Deepfake''
         ''Liveness bypass with deepfake.''
         Final [''fraud.deepfake''],
       createSource ''fraudulentPatterns'' ''livenessDifferentPeople'' ''Different people''
         ''Liveness by multiple people/devices.''
         Final [''fraud.multiDevice'']]\<rparr>),
     (''THIRD_PARTY_INVOLVED'', \<lparr>label = ''THIRD_PARTY_INVOLVED'', sources = [
       createSource ''fraudulentPatterns'' ''livenessWithPhone'' ''Liveness with phone''
         ''Phone present during liveness test.''
         Final [''fraud.thirdPartyInvolvement''],
       createSource ''videoIdentFinalRejection'' ''3rdPartyInvolvement'' ''Sponsored registration''
         ''Applicant possibly paid for account creation.''
         Final [''fraud.thirdPartyInvolvement'']]\<rparr>),
     (''SELFIE_MISMATCH'', \<lparr>label = ''SELFIE_MISMATCH'', sources = [
       createSource ''fraudulentPatterns'' ''selfieMismatch'' ''Selfie mismatch''
         (''Selfie doesn'' @ [CHR 0x27] @ ''t match document photo.'')
         Final [''selfie.image'', ''document.facePhoto'']]\<rparr>)]"

definition registry_9 :: "(string \<times> label_details) list" where
  "registry_9 = [
     (''COMPANY_PROBLEMATIC_STRUCTURE'', \<lparr>label = ''COMPANY_PROBLEMATIC_STRUCTURE'', sources = [
       createSource ''compromisedStructure'' ''compromisedStructure'' ''Problematic company structure''
         ''Officials in ownership/control structure were rejected.''
         Final [''watchlists.fitnessProbity'']]\<rparr>),
     (''AGE_REQUIREMENT_MISMATCH'', \<lparr>label = ''AGE_REQUIREMENT_MISMATCH'', sources = [
       createSource ''regulationsViolations'' ''age'' ''Age''
         ''Applicant does not meet age requirements.''
         Final [''regulation.ageRequirement'', ''profile.dateOfBirth'']]\<rparr>),
     (''REGULATIONS_VIOLATIONS'', \<lparr>label = ''REGULATIONS_VIOLATIONS'', sources = [
       createSource ''regulationsViolations'' ''age'' ''Age''
         ''Applicant does not meet age requirements.''
         Final [''regulation.ageRequirement''],
       createSource ''regulationsViolations'' ''countriesMismatch'' ''Countries mismatch''
         ''Country mismatch between residence and card.''
         Final [''regulation.cardVsResidenceCountry'', ''profile.country''],
       createSource ''regulationsViolations'' ''duplicate'' ''Duplicate''
         ''Only one active account allowed.''
         Final [''system.duplicateAccount''],
       createSource ''regulationsViolations'' ''wrongRegion'' ''Wrong region''
         ''Applicant from unsupported region.''
         Final [''regulation.residencyRegion''],
       createSource ''regulationsViolations'' ''wrongResidency'' ''Wrong residency''
         ''Residency not supported by client.''
         Final [''regulation.residencyRegion''],
       createSource ''regulationsViolations'' ''riskBankCard'' ''High risk Bank card''
         ''High risk bank card detected.''
         Final [''payment.bankCard.number''],
       createSource ''regulationsViolations'' ''inconsistency'' ''Name mismatch''
         ''Name mismatch between card and ID.''
         Final [''payment.bankCard.name'', ''profile.fullName'']]\<rparr>),
     (''DUPLICATE'', \<lparr>label = ''DUPLICATE'', sources = [
       createSource ''regulationsViolations'' ''duplicate'' ''Duplicate''
         ''Only one active account allowed.''
         Final [''system.duplicateAccount'']]\<rparr>),
     (''WRONG_USER_REGION'', \<lparr>label = ''WRONG_USER_REGION'', sources = [
       createSource ''regulationsViolations'' ''wrongRegion'' ''Wrong region''
         ''Applicant from unsupported region.''
         Final [''regulation.residencyRegion''],
       createSource ''regulationsViolations'' ''wrongResidency'' ''Wrong residency''
         ''Residency not supported by client.''
         Final [''regulation.residencyRegion'']]\<rparr>),
     (''SPAM'', \<lparr>label = ''SPAM'', sources = [
       createSource ''spam'' ''spam'' ''Spam''
         ''Excessive file uploads.''
         Final [''uploads.spam'']]\<rparr>),
     (''UNSUPPORTED_LANGUAGE'', \<lparr>label = ''UNSUPPORTED_LANGUAGE'', sources = [
       createSource ''videoIdentFinalRejection'' ''unsupportedLanguage'' ''Unsupported language''
         ''Applicant does not speak supported languages.''
         Final [''document.language'']]\<rparr>)]"

definition REJECTION_LABEL_REGISTRY :: "(string \<times> label_details) list" where
  "REJECTION_LABEL_REGISTRY = registry_1 @ registry_2 @ registry_3 @ registry_4 @ registry_5 @ registry_6 @ registry_7 @ registry_8 @ registry_9"

section \<open>Dispositions and rollup\<close>

fun uniq :: "'a list \<Rightarrow> 'a list" where
  "uniq [] = []"
| "uniq (x # xs) = x # filter (\<lambda>y. y \<noteq> x) (uniq xs)"

definition getRejectionLabelDetails :: "string \<Rightarrow> label_details option" where
  "getRejectionLabelDetails l = map_of REJECTION_LABEL_REGISTRY l"

definition listDispositionsForLabel :: "string \<Rightarrow> disposition list" where
  "listDispositionsForLabel l = (case getRejectionLabelDetails l of
      None \<Rightarrow> [] | Some d \<Rightarrow> uniq (map source_disposition (sources d)))"

definition resolveDisposition :: "string \<Rightarrow> disposition" where
  "resolveDisposition l = (if Final \<in> set (listDispositionsForLabel l) then Final else Temporary)"

definition listFineGrainedFieldsForLabel :: "string \<Rightarrow> string list" where
  "listFineGrainedFieldsForLabel l = (case getRejectionLabelDetails l of
      None \<Rightarrow> [] | Some d \<Rightarrow> uniq (concat (map fineGrainedFields (sources d))))"

record rollup =
  rollup_label :: string
  rollup_disposition :: disposition
  kycFields :: "string list"
  subFields :: "(string \<times> string list) list"
  rollup_sources :: "rejection_source list"

text \<open>One source added to the buckets, kept in the order in which they first appear.\<close>

fun add_fields :: "string \<Rightarrow> string list \<Rightarrow> (string \<times> string list) list \<Rightarrow> (string \<times> string list) list" where
  "add_fields b fs [] = [(b, uniq fs)]"
| "add_fields b fs ((c, gs) # rest) = (if b = c then (c, uniq (gs @ fs)) # rest else (c, gs) # add_fields b fs rest)"

definition add_source :: "(string \<times> string list) list \<Rightarrow> rejection_source \<Rightarrow> (string \<times> string list) list" where
  "add_source m s = add_fields (categorizeRejectionSource s) (fineGrainedFields s) m"

definition compareAlphabetically :: "string \<Rightarrow> string" where
  "compareAlphabetically s = to_lower s"

definition getRejectionRollup :: "string \<Rightarrow> rollup option" where
  "getRejectionRollup l = (case getRejectionLabelDetails l of
      None \<Rightarrow> None
    | Some d \<Rightarrow> Some (let m = foldl add_source [] (sources d) in
        \<lparr>rollup_label = l, rollup_disposition = resolveDisposition l, kycFields = map fst m,
         subFields = map (\<lambda>(b, fs). (b, sort_key compareAlphabetically fs)) m, rollup_sources = sources d\<rparr>))"

section \<open>The checklist and the message\<close>

definition checklist_table :: "(string \<times> string) list" where
  "checklist_table = [
     (''document.pages'',
       ''Upload all pages/sides (front/back/biodata/expiry) with no cropping.''),
     (''document.image'',
       ''Ensure document image is clear, well-lit, and shows all text clearly.''),
     (''document.type'',
       (''Upload a supported document type (passport, driver'' @ [CHR 0x27] @ ''s license, national ID).'')),
     (''document.number'',
       ''Ensure document number is clearly visible and matches your profile.''),
     (''document.expirationDate'',
       ''Document must be valid and not expired (or expiring within 30 days).''),
     (''document.issueDate'',
       ''Document must be recent enough to meet address verification requirements.''),
     (''document.language'',
       ''Document must be in English or include a notarized English translation.''),
     (''document.nfc'',
       ''Use NFC scanning feature if available on your device.''),
     (''document.signatureOrStamp'',
       ''Ensure all required signatures and stamps are visible.''),
     (''document.facePhoto'',
       ''Ensure your face photo on the document is clearly visible.''),
     (''document.country'',
       ''Document country must match your residence country.''),
     (''profile.fullName'',
       ''Ensure your full name matches exactly across all documents.''),
     (''profile.dateOfBirth'',
       ''Date of birth must match exactly across all documents and profile.''),
     (''profile.gender'',
       ''Gender must match exactly across all documents and profile.''),
     (''profile.address'',
       ''Address must match exactly across all documents and profile.''),
     (''profile.country'',
       ''Country must match exactly across all documents and profile.''),
     (''database.availability'',
       ''Government database is temporarily unavailable. Please try again later.''),
     (''database.match'',
       (''Your information doesn'' @ [CHR 0x27] @ ''t match government records. Please verify your details.'')),
     (''database.name'',
       (''Your name doesn'' @ [CHR 0x27] @ ''t match government records. Please verify your full legal name.'')),
     (''database.dob'',
       (''Your date of birth doesn'' @ [CHR 0x27] @ ''t match government records. Please verify your DOB.'')),
     (''database.gender'',
       (''Your gender doesn'' @ [CHR 0x27] @ ''t match government records. Please verify your gender.'')),
     (''database.address'',
       (''Your address doesn'' @ [CHR 0x27] @ ''t match government records. Please verify your address.'')),
     (''database.presence'',
       ''No records found in government database. Please contact support.''),
     (''socialNumber.bvn'',
       ''BVN number is incorrect. Please provide the correct BVN.''),
     (''socialNumber.ssn'',
       ''SSN number is incorrect. Please provide the correct SSN.''),
     (''socialNumber.tin'',
       ''Tax number is incorrect. Please provide the correct TIN.''),
     (''payment.bankCard.number'',
       ''Bank card number is missing or incorrect. Please provide a valid card number.''),
     (''payment.bankCard.name'',
       (''Name on bank card is missing or doesn'' @ [CHR 0x27] @ ''t match your profile.'')),
     (''payment.bankCard.expiry'',
       ''Bank card has expired or expires soon. Please provide a valid card.''),
     (''payment.bankStatement.fullName'',
       ''Full name on bank statement is missing or unreadable.''),
     (''payment.bankStatement.accountOrCardNumber'',
       ''Account/card number on bank statement is missing or unreadable.''),
     (''payment.wireTransfer.proof'',
       ''Wire transfer confirmation is required. Please provide proof of transfer.''),
     (''payment.ewallet.proof'',
       ''E-wallet confirmation is required. Please provide proof of transaction.''),
     (''wallet.address'',
       (''Wallet address is incorrect or doesn'' @ [CHR 0x27] @ ''t match transaction records.'')),
     (''wallet.signature'',
       (''Wallet signature doesn'' @ [CHR 0x27] @ ''t match. Please verify your wallet access.'')),
     (''wallet.riskScore'',
       ''Wallet has high risk score. Please contact support for assistance.''),
     (''selfie.image'',
       ''Take a clear selfie with good lighting and neutral expression.''),
     (''selfie.liveness'',
       ''Complete the liveness check by following the on-screen instructions.''),
     (''selfie.video'',
       ''Record a clear video selfie following the provided instructions.''),
     (''videoIdent.connection'',
       ''Ensure stable internet connection for video identification call.''),
     (''videoIdent.visibility'',
       ''Ensure you are clearly visible during the video identification call.''),
     (''videoIdent.alone'',
       ''You must be alone during the video identification call.''),
     (''videoIdent.requiredDocs'',
       ''Have all required documents ready for the video identification call.''),
     (''fraud.riskScore'',
       ''Account flagged for high risk. Please contact support.''),
     (''fraud.livenessBypass'',
       ''Liveness verification failed. Please complete the check properly.''),
     (''fraud.deepfake'',
       ''Deepfake detection triggered. Please contact support.''),
     (''fraud.multiDevice'',
       ''Multiple devices detected. Please use only one device.''),
     (''fraud.thirdPartyInvolvement'',
       ''Third party involvement detected. Please complete verification yourself.''),
     (''fraud.serialNetwork'',
       ''Fraud network detected. Please contact support.''),
     (''fraud.templateTampering'',
       ''Document tampering detected. Please provide original documents.''),
     (''system.duplicateAccount'',
       ''Duplicate account detected. Only one account per person is allowed.''),
     (''regulation.ageRequirement'',
       ''Age requirement not met. Please verify you meet the minimum age.''),
     (''regulation.residencyRegion'',
       ''Your region is not supported. Please contact support.''),
     (''regulation.cardVsResidenceCountry'',
       ''Card country must match your residence country.''),
     (''media.adverse'',
       ''Adverse media found. Please contact support for review.''),
     (''watchlists.sanctions'',
       ''Sanctions list match found. Please contact support.''),
     (''watchlists.pep'',
       ''PEP (Politically Exposed Person) status detected. Please contact support.''),
     (''watchlists.criminalRecords'',
       ''Criminal records found. Please contact support.''),
     (''watchlists.fitnessProbity'',
       ''Fitness and probity issues found. Please contact support.''),
     (''uploads.spam'',
       ''Excessive file uploads detected. Please contact support.'')]"

definition checklist_item :: "string \<Rightarrow> string" where
  "checklist_item field = (case map_of checklist_table field of
      Some t \<Rightarrow> t
    | None \<Rightarrow> ''Please address the issue with '' @ map (\<lambda>c. if c = CHR ''.'' then CHR '' '' else c) field @ ''.'')"

definition toUserChecklistFromRollup :: "rollup \<Rightarrow> string list" where
  "toUserChecklistFromRollup r = uniq (map checklist_item (concat (map snd (subFields r))))"

definition final_message :: string where
  "final_message = ''Your verification has been rejected due to compliance requirements. This decision is final and cannot be appealed. Please contact our support team for more information.''"

definition newline :: char where
  "newline = CHR 0x0A"

fun join :: "string \<Rightarrow> string list \<Rightarrow> string" where
  "join sep [] = []"
| "join sep [x] = x"
| "join sep (x # y # ys) = x @ sep @ join sep (y # ys)"

definition formatUserFacingMessage :: "rollup \<Rightarrow> string" where
  "formatUserFacingMessage r = (if rollup_disposition r = Final then final_message
     else let checklist = toUserChecklistFromRollup r;
       checklistText = (if checklist \<noteq> [] then [newline, newline] @ ''Please address the following issues:'' @ [newline]
         @ join [newline] (map (\<lambda>item. [CHR 0xE2, CHR 0x80, CHR 0xA2, CHR '' ''] @ item) checklist) else [])
     in ''Your verification requires additional information. Please review and resubmit your documents with the requested corrections.''
       @ checklistText)"

section \<open>Lemmas\<close>

lemma set_uniq [simp]: "set (uniq xs) = set xs"
  by (induction xs) auto

lemma distinct_uniq [simp]: "distinct (uniq xs)"
  by (induction xs) auto

lemma add_fields_keys: "set (map fst (add_fields b fs m)) = insert b (set (map fst m))"
  by (induction b fs m rule: add_fields.induct) auto

lemma add_fields_distinct: "distinct (map fst m) \<Longrightarrow> distinct (map fst (add_fields b fs m))"
proof (induction b fs m rule: add_fields.induct)
  case (2 b fs c gs rest)
  then show ?case using add_fields_keys [of b fs rest] by auto
qed simp

definition fields_of :: "(string \<times> string list) list \<Rightarrow> string \<Rightarrow> string set" where
  "fields_of m b = (case map_of m b of None \<Rightarrow> {} | Some fs \<Rightarrow> set fs)"

lemma fields_of_add: "fields_of (add_fields b fs m) c = (if c = b then fields_of m b \<union> set fs else fields_of m c)"
  by (induction b fs m rule: add_fields.induct) (auto simp: fields_of_def split: option.splits)

lemma buckets_fold:
  "distinct (map fst m) \<Longrightarrow> distinct (map fst (foldl add_source m ss))
    \<and> set (map fst (foldl add_source m ss)) = set (map fst m) \<union> categorizeRejectionSource ` set ss
    \<and> fields_of (foldl add_source m ss) b
      = fields_of m b \<union> \<Union> (set ` fineGrainedFields ` {s \<in> set ss. categorizeRejectionSource s = b})"
proof (induction ss arbitrary: m)
  case (Cons s ss)
  have "distinct (map fst (add_source m s))" using Cons.prems by (simp add: add_source_def add_fields_distinct)
  from Cons.IH [OF this] show ?case
    by (auto simp: add_source_def add_fields_keys [simplified] fields_of_add)
qed simp

lemma disposition_final:
  "getRejectionLabelDetails l = Some d \<Longrightarrow>
    resolveDisposition l = Final \<longleftrightarrow> (\<exists>s \<in> set (sources d). source_disposition s = Final)"
  by (auto simp: resolveDisposition_def listDispositionsForLabel_def) (metis image_eqI)+

section \<open>Properties\<close>

text \<open>
  A rollup loses nothing and invents nothing: it is final exactly when some source of the label
  is; its buckets are distinct and are exactly the categories of the sources; and each bucket holds
  exactly the fine-grained fields of the sources in it.
\<close>

theorem rollup_exact:
  assumes "getRejectionLabelDetails l = Some d" and "getRejectionRollup l = Some r"
  shows "(rollup_disposition r = Final \<longleftrightarrow> (\<exists>s \<in> set (sources d). source_disposition s = Final))
    \<and> distinct (kycFields r) \<and> set (kycFields r) = categorizeRejectionSource ` set (sources d)
    \<and> map fst (subFields r) = kycFields r
    \<and> (\<forall>b. (case map_of (subFields r) b of None \<Rightarrow> {} | Some fs \<Rightarrow> set fs)
        = \<Union> (set ` fineGrainedFields ` {s \<in> set (sources d). categorizeRejectionSource s = b}))"
proof -
  let ?m = "foldl add_source [] (sources d)"
  have r: "r = \<lparr>rollup_label = l, rollup_disposition = resolveDisposition l, kycFields = map fst ?m,
     subFields = map (\<lambda>(b, fs). (b, sort_key compareAlphabetically fs)) ?m, rollup_sources = sources d\<rparr>"
    using assms by (simp add: getRejectionRollup_def Let_def)
  have "map_of (map (\<lambda>(b, fs). (b, sort_key compareAlphabetically fs)) ?m) b = map_option (sort_key compareAlphabetically) (map_of ?m b)"
    for b by (simp add: map_of_map)
  then have "(case map_of (subFields r) b of None \<Rightarrow> {} | Some fs \<Rightarrow> set fs) = fields_of ?m b" for b
    by (simp add: r fields_of_def split: option.split)
  then show ?thesis
    using buckets_fold [of "[]" "sources d"] disposition_final [OF assms(1)]
    by (auto simp: r fields_of_def split_def comp_def)
qed

lemma rollup_exact_witness:
  "\<exists>r. getRejectionRollup ''RESTRICTED_PERSON'' = Some r \<and> rollup_disposition r = Final \<and> distinct (kycFields r)"
proof -
  have d: "\<exists>d. getRejectionLabelDetails ''RESTRICTED_PERSON'' = Some d \<and> (\<exists>s \<in> set (sources d). source_disposition s = Final)"
    by (simp add: getRejectionLabelDetails_def REJECTION_LABEL_REGISTRY_def registry_1_def createSource_def)
  then obtain d r where "getRejectionLabelDetails ''RESTRICTED_PERSON'' = Some d" "getRejectionRollup ''RESTRICTED_PERSON'' = Some r"
    by (auto simp: getRejectionRollup_def)
  from rollup_exact [OF this] d this show ?thesis by auto
qed

end
