(* ===== verification/NgRefunds.thy ===== *)
theory NgRefunds
  imports NgConservation
begin

text \<open>
  What the end of a naira withdrawal does when the database works: how \<^verbatim>\<open>revertWithdrawalBalance\<close>
  gives the money back, what a poll makes of the provider's answer, and two cases in which the money is
  given back or kept although it should not be.
\<close>

section \<open>A withdrawal in flight\<close>

text \<open>
  The state between reservation and settlement: the wallet \<open>r\<close>, the transaction \<open>t\<close> with its only
  entry \<open>f\<close>, \<open>a\<close> in escrow, and the balance lock free.
\<close>

context redis_server
begin

definition in_flight :: "wallet_row \<Rightarrow> tx_row \<Rightarrow> fwt_row \<Rightarrow> int \<Rightarrow> ('s, 'm) money_world_scheme \<Rightarrow> bool" where
  "in_flight r t f a w \<longleftrightarrow> faults w = [] \<and> view ent w (balanceKey (fw_id r)) = None
     \<and> view ent w (getEscrowKey (tx_id t)) = escrow_entry (Some a)
     \<and> List.find (\<lambda>x. fw_id x = fw_id r) (wallets w) = Some r
     \<and> List.find (\<lambda>x. tx_id x = tx_id t) (txs w) = Some t
     \<and> (\<forall>x \<in> set (fwts w). ft_transaction x = tx_id t \<longleftrightarrow> x = f) \<and> f \<in> set (fwts w)
     \<and> List.find (\<lambda>x. ft_id x = ft_id f) (fwts w) = Some f
     \<and> ft_wallet f = fw_id r \<and> ft_user f = fw_user r \<and> ft_id f \<noteq> []"

lemma in_flight_entry:
  assumes "in_flight r t f a w"
  shows "List.find (\<lambda>x. ft_transaction x = tx_id t) (fwts w) = Some f"
proof -
  have "List.find (\<lambda>x. ft_transaction x = tx_id t) (fwts w) \<noteq> None"
    using assms by (auto simp: in_flight_def find_None_iff)
  then obtain x where "List.find (\<lambda>x. ft_transaction x = tx_id t) (fwts w) = Some x" by auto
  with assms show ?thesis by (auto simp: in_flight_def dest: find_Some_in)
qed

lemma revert_calm:
  assumes "m_redis M = E" "in_flight r t f a w" "tx_status t = FAILED" "0 < a"
  obtains w' where "revertWithdrawalBalance M (tx_id t) w = (Inr (Some a), w')"
    "List.find (\<lambda>x. fw_id x = fw_id r) (wallets w') = Some (r\<lparr>fw_balance := fw_balance r + a\<rparr>)"
    "view ent w' (getEscrowKey (tx_id t)) = None" "txs w' = txs w" "set (outbox w) \<subseteq> set (outbox w')"
proof -
  note fl = assms(2) [unfolded in_flight_def]
  define w1 where "w1 = snd (getEscrowAmount E (tx_id t) w)"
  have v1: "view ent w1 = view ent w" unfolding w1_def by (rule get_escrow_view)
  have "the_str (view ent w) (getEscrowKey (tx_id t)) = Some (Some (Raw (show_int a)))"
    using fl by (simp add: the_str_def escrow_entry_def)
  then have g: "getEscrowAmount E (tx_id t) w = (Inr (Some a), w1)" and w1: "w1 = w\<lparr>rds := rds w1\<rparr>"
    by (simp_all add: get_escrow_run escrow_def w1_def)
  let ?meta = "movement_meta M (revert_text t) t f (ft_source f) (ft_destination f) []"
  obtain s where u: "updateBalance M (fw_id r) a (tx_id t) F_WITHDRAWAL FAILED ?meta False w1 = (Inr (Some (r\<lparr>fw_balance := fw_balance r + a\<rparr>)),
      w1\<lparr>draws := Suc (draws w1), rds := s, wallets := replace_row fw_id (fw_id r) (r\<lparr>fw_balance := fw_balance r + a\<rparr>) (wallets w1),
      fwts := replace_row ft_id (ft_id f) (mark_processed FAILED (fw_balance r + a) (now w1) f) (fwts w1),
      outbox := (''WALLET_BALANCE_CHANGED'', balance_event r (fw_id r) (tx_id t) (fw_balance r) (fw_balance r + a)) # outbox w1\<rparr>)"
  proof (rule updateBalance_calm [OF assms(1), of w1 "fw_id r" r "tx_id t" t a ?meta "ft_id f" f])
    have same: "faults w1 = faults w" "wallets w1 = wallets w" "txs w1 = txs w" "fwts w1 = fwts w"
      by (subst w1, simp)+
    show "view ent w1 (balanceKey (fw_id r)) = None" "faults w1 = []" "List.find (\<lambda>x. fw_id x = fw_id r) (wallets w1) = Some r"
      "List.find (\<lambda>x. tx_id x = tx_id t) (txs w1) = Some t" "ft_id f \<noteq> []"
      "List.find (\<lambda>x. ft_id x = ft_id f) (fwts w1) = Some f" "ft_user f = fw_user r"
      using fl same v1 by simp_all
  qed (use assms(3,4) in \<open>simp_all add: movement_meta_def\<close>)
  let ?w2 = "snd (updateBalance M (fw_id r) a (tx_id t) F_WITHDRAWAL FAILED ?meta False w1)"
  have run: "revertWithdrawalBalance M (tx_id t) w = (Inr (Some a), snd (releaseMoneyFromEscrow E (tx_id t) ?w2))"
    using fl in_flight_entry [OF assms(2)] assms(1,3,4) g u
    by (simp add: revertWithdrawalBalance_def bind_run andthen_run txs.findById_calm fwts.findOne_calm release_escrow_run)
  show thesis
  proof (rule that [OF run])
    have t: "wallets w1 = wallets w" "txs w1 = txs w" "outbox w1 = outbox w" by (subst w1, simp)+
    show "List.find (\<lambda>x. fw_id x = fw_id r) (wallets (snd (releaseMoneyFromEscrow E (tx_id t) ?w2))) = Some (r\<lparr>fw_balance := fw_balance r + a\<rparr>)"
      "txs (snd (releaseMoneyFromEscrow E (tx_id t) ?w2)) = txs w"
      "set (outbox w) \<subseteq> set (outbox (snd (releaseMoneyFromEscrow E (tx_id t) ?w2)))"
      using t by (auto simp: u release_escrow_run replace_row_def)
    show "view ent (snd (releaseMoneyFromEscrow E (tx_id t) ?w2)) (getEscrowKey (tx_id t)) = None"
      by (simp add: release_escrow_view)
  qed
qed

lemma in_flight_update:
  assumes "in_flight r t f a w" "tx_id t' = tx_id t" "ft_id f' = ft_id f" "ft_transaction f' = ft_transaction f"
    "ft_wallet f' = ft_wallet f" "ft_user f' = ft_user f"
  shows "in_flight r t' f' a (w\<lparr>txs := replace_row tx_id (tx_id t) t' (txs w), fwts := replace_row ft_id (ft_id f) f' (fwts w)\<rparr>)"
  using assms by (auto simp: in_flight_def replace_row_def view_def)

lemma in_flight_outbox: "in_flight r t f a w \<Longrightarrow> in_flight r t f a (w\<lparr>outbox := xs\<rparr>)"
  by (auto simp: in_flight_def view_def)

lemma fail_both_calm:
  assumes "in_flight r t f a w"
  obtains w1 where "fail_both (tx_id t) (ft_id f) reason w = (Inr (Some (fwt_set_failed reason (now w) f)), w1)"
    "in_flight r (tx_set_failed reason (now w) t) (fwt_set_failed reason (now w) f) a w1" "outbox w1 = outbox w"
proof -
  note fl = assms [unfolded in_flight_def]
  have "fail_both (tx_id t) (ft_id f) reason w = (Inr (Some (fwt_set_failed reason (now w) f)),
      w\<lparr>txs := replace_row tx_id (tx_id t) (tx_set_failed reason (now w) t) (txs w),
        fwts := replace_row ft_id (ft_id f) (fwt_set_failed reason (now w) f) (fwts w)\<rparr>)"
    using fl by (simp add: fail_both_def andthen_run txs.update_id_calm fwts.update_id_calm)
  moreover have "in_flight r (tx_set_failed reason (now w) t) (fwt_set_failed reason (now w) f) a
      (w\<lparr>txs := replace_row tx_id (tx_id t) (tx_set_failed reason (now w) t) (txs w),
        fwts := replace_row ft_id (ft_id f) (fwt_set_failed reason (now w) f) (fwts w)\<rparr>)"
    by (rule in_flight_update [OF assms]) (simp_all add: tx_set_failed_def fwt_set_failed_def)
  ultimately show thesis by (rule that) simp
qed

text \<open>Both ways of failing give the money back: the withdrawal's own error handler and the poll.\<close>

definition refunded :: "wallet_row \<Rightarrow> string \<Rightarrow> int \<Rightarrow> ('s, 'm) money_world_scheme \<Rightarrow> bool" where
  "refunded r tid a w \<longleftrightarrow> List.find (\<lambda>x. fw_id x = fw_id r) (wallets w) = Some (r\<lparr>fw_balance := fw_balance r + a\<rparr>)
     \<and> view ent w (getEscrowKey tid) = None \<and> status_of w tid = Some FAILED"

lemma failed_revert:
  assumes "m_redis M = E" "in_flight r t f a w" "0 < a"
  obtains w' where "andthen (fail_both (tx_id t) (ft_id f) reason) (andthen (service_failure reason)
      (andthen (revertWithdrawalBalance M (tx_id t)) m)) w = m w'"
    "refunded r (tx_id t) a w'" "set (outbox w) \<subseteq> set (outbox w')"
proof -
  obtain w1 where f: "fail_both (tx_id t) (ft_id f) reason w = (Inr (Some (fwt_set_failed reason (now w) f)), w1)"
      "in_flight r (tx_set_failed reason (now w) t) (fwt_set_failed reason (now w) f) a w1" "outbox w1 = outbox w"
    by (rule fail_both_calm [OF assms(2)])
  define w2 where "w2 = snd (service_failure reason w1)"
  have s: "service_failure reason w1 = (Inr (), w2)" and o: "set (outbox w1) \<subseteq> set (outbox w2)"
    by (auto simp: service_failure_def w2_def)
  have "in_flight r (tx_set_failed reason (now w) t) (fwt_set_failed reason (now w) f) a w2"
    unfolding w2_def service_failure_def by (simp add: in_flight_outbox [OF f(2)])
  moreover have "tx_status (tx_set_failed reason (now w) t) = FAILED" "tx_id (tx_set_failed reason (now w) t) = tx_id t"
    by (simp_all add: tx_set_failed_def)
  ultimately obtain w3 where r: "revertWithdrawalBalance M (tx_id t) w2 = (Inr (Some a), w3)"
      "List.find (\<lambda>x. fw_id x = fw_id r) (wallets w3) = Some (r\<lparr>fw_balance := fw_balance r + a\<rparr>)"
      "view ent w3 (getEscrowKey (tx_id t)) = None" "txs w3 = txs w2" "set (outbox w2) \<subseteq> set (outbox w3)"
    using revert_calm [OF assms(1) _ _ assms(3)] by metis
  have "List.find (\<lambda>x. tx_id x = tx_id t) (txs w2) = Some (tx_set_failed reason (now w) t)"
    using f(2) by (simp add: in_flight_def w2_def service_failure_def tx_set_failed_def)
  then have "refunded r (tx_id t) a w3" using r by (simp add: refunded_def status_of_def tx_set_failed_def)
  moreover have "andthen (fail_both (tx_id t) (ft_id f) reason) (andthen (service_failure reason)
      (andthen (revertWithdrawalBalance M (tx_id t)) m)) w = m w3"
    by (simp add: andthen_run f(1) s r(1))
  ultimately show thesis using r(5) o f(3) by (intro that [of w3]) auto
qed

end

text \<open>The e-mail after a completion changes nothing else and never fails.\<close>

lemma email_outbox:
  assumes "faults w = []"
  shows "\<exists>xs. sendSuccessEmail M d w = (Inr (), w\<lparr>outbox := xs\<rparr>)"
proof -
  let ?w = "w\<lparr>outbox := (''userRepository.findById'', JStr (pd_user d)) # outbox w\<rparr>"
  have "\<exists>xs. w = w\<lparr>outbox := xs\<rparr>" by (rule exI [of _ "outbox w"]) simp
  then show ?thesis
    using assms by (auto simp: sendSuccessEmail_def catch_run bind_run ext_call_def call_ext_run txs.findById_calm [of ?w]
        split: sum.split)
qed

section \<open>Properties\<close>

text \<open>
  C31: a poll settles a pending withdrawal: told that the transfer failed, it gives the escrowed amount
  back to the wallet, empties the escrow and marks the transaction failed; told that it succeeded, it
  marks the transaction completed and leaves the wallet, but also leaves the amount in escrow.
\<close>

theorem poll_settles:
  assumes "redis_server (m_redis M) ent" "redis_server.in_flight ent r t f a w" "tx_status t = PENDING" "0 < a"
    and "pd_tx d = tx_id t" "pd_fwt d = ft_id f"
    and "m_ext M (outbox w) ''getTransactionStatus'' (JObj [(''transactionRef'', JStr (pd_reference d))]) = Inr answer"
    and "w' = snd (processStatusPoll M d n w)"
  shows "(jfield ''status'' answer = JStr ''FAILED'' \<longrightarrow>
      List.find (\<lambda>x. fw_id x = fw_id r) (wallets w') = Some (r\<lparr>fw_balance := fw_balance r + a\<rparr>)
      \<and> view ent w' (getEscrowKey (tx_id t)) = None \<and> status_of w' (tx_id t) = Some FAILED)
    \<and> (jfield ''status'' answer = JStr ''SUCCESS'' \<longrightarrow>
      List.find (\<lambda>x. fw_id x = fw_id r) (wallets w') = Some r
      \<and> view ent w' (getEscrowKey (tx_id t)) = escrow_entry (Some a) \<and> status_of w' (tx_id t) = Some COMPLETED)"
proof -
  note flight = redis_server.in_flight_def [OF assms(1)]
  let ?p = "JObj [(''transactionRef'', JStr (pd_reference d))]"
  define w1 where "w1 = w\<lparr>outbox := (''getTransactionStatus'', ?p) # outbox w\<rparr>"
  have fl: "redis_server.in_flight ent r t f a w1"
    unfolding w1_def by (rule redis_server.in_flight_outbox [OF assms(1,2)])
  have calm: "faults w1 = []" "List.find (\<lambda>x. tx_id x = tx_id t) (txs w1) = Some t" "List.find (\<lambda>x. ft_id x = ft_id f) (fwts w1) = Some f"
    using fl by (simp_all add: flight)
  have run: "processStatusPoll M d n w = catch (\<lambda>_. (let st = jfield ''status'' answer in
             if st = JStr ''SUCCESS'' then handleCompletedWithdrawal M d
             else if st = JStr ''FAILED'' then handleFailedWithdrawal M d (js_text (jfield ''message'' answer))
             else if st = JStr ''PENDING'' then
               (if n < maxAttempts then queueStatusPoll M d (n + 1) else handleMaxAttemptsReached d)
             else ret ()) w1)
     (\<lambda>_. when_do (n < maxAttempts) (queueStatusPoll M d (n + 1))) w"
    using assms(2,3,5,7) by (simp add: processStatusPoll_def catch_run bind_run txs.findById_calm flight ext_call_def call_ext_run w1_def)
  have failed: "List.find (\<lambda>x. fw_id x = fw_id r) (wallets w') = Some (r\<lparr>fw_balance := fw_balance r + a\<rparr>)
      \<and> view ent w' (getEscrowKey (tx_id t)) = None \<and> status_of w' (tx_id t) = Some FAILED"
    if st: "jfield ''status'' answer = JStr ''FAILED''"
  proof -
    obtain w3 where "handleFailedWithdrawal M d (js_text (jfield ''message'' answer)) w1 = (Inr (), w3)" "redis_server.refunded ent r (tx_id t) a w3"
      using redis_server.failed_revert [OF assms(1) refl fl assms(4), of "js_text (jfield ''message'' answer)" "ret ()"]
      unfolding handleFailedWithdrawal_def assms(5,6) by auto
    then show ?thesis using st by (simp add: assms(8) run catch_run redis_server.refunded_def [OF assms(1)])
  qed
  have completed: "List.find (\<lambda>x. fw_id x = fw_id r) (wallets w') = Some r
      \<and> view ent w' (getEscrowKey (tx_id t)) = escrow_entry (Some a) \<and> status_of w' (tx_id t) = Some COMPLETED"
    if st: "jfield ''status'' answer = JStr ''SUCCESS''"
  proof -
    define w2 where "w2 = snd (complete_both (tx_id t) (ft_id f) w1)"
    have c: "complete_both (tx_id t) (ft_id f) w1 = (Inr (Some (fwt_set_completed (now w1) f)), w2)"
        "w2 = w1\<lparr>txs := replace_row tx_id (tx_id t) (tx_set_completed (now w1) t) (txs w1),
          fwts := replace_row ft_id (ft_id f) (fwt_set_completed (now w1) f) (fwts w1)\<rparr>"
      using calm by (simp_all add: w2_def complete_both_def andthen_run txs.update_id_calm fwts.update_id_calm)
    have fl2: "redis_server.in_flight ent r (tx_set_completed (now w1) t) (fwt_set_completed (now w1) f) a w2"
      unfolding c(2) by (rule redis_server.in_flight_update [OF assms(1) fl]) (simp_all add: tx_set_completed_def fwt_set_completed_def)
    define w3 where "w3 = w2\<lparr>outbox := (''SERVICE_STATUS_SUCCESS'', JObj [(''serviceKey'', JStr ''ngn_transfer_out'')]) # outbox w2\<rparr>"
    have "faults w3 = []" using fl2 by (simp add: w3_def flight)
    then obtain xs where "sendSuccessEmail M d w3 = (Inr (), w3\<lparr>outbox := xs\<rparr>)" using email_outbox by blast
    then have h: "handleCompletedWithdrawal M d w1 = (Inr (), w2\<lparr>outbox := xs\<rparr>)"
      using c(1) by (simp add: handleCompletedWithdrawal_def andthen_run assms(5,6) service_success_def w3_def)
    have "redis_server.in_flight ent r (tx_set_completed (now w1) t) (fwt_set_completed (now w1) f) a (w2\<lparr>outbox := xs\<rparr>)"
      by (rule redis_server.in_flight_outbox [OF assms(1) fl2])
    then show ?thesis
      using st h by (simp add: assms(8) run catch_run flight status_of_def tx_set_completed_def)
  qed
  show ?thesis using failed completed by blast
qed

text \<open>
  C32: a transfer the provider has accepted is given back: when the transfer call succeeds and the
  status call after it fails with an error that is not a network error, the request is reported as
  failed, the transaction is marked failed and the wallet gets the amount back, although the transfer
  was sent.
\<close>

theorem accepted_transfer_refunded:
  assumes "redis_server (m_redis M) ent" "redis_server.in_flight ent r t f a w" "0 < a" "tx_id tx = tx_id t" "ft_id ft = ft_id f"
    and "m_ext M (outbox w) ''transferToOtherBank'' (transfer_request M user dto bank va tx) = Inr answer"
    and "ref = js_text (jfield ''transactionReference'' answer)"
    and "m_ext M ((''transferToOtherBank'', transfer_request M user dto bank va tx) # outbox w) ''getTransactionStatus''
      (JObj [(''transactionRef'', JStr ref)]) = Inl e" "\<not> isTimeoutOrNetworkError e"
    and "catch (callProvider M user dto bank va tx ft pending) (failWithdrawal M tx ft) w = (v, w')"
  shows "v = Inl withdrawal_failed \<and> (''transferToOtherBank'', transfer_request M user dto bank va tx) \<in> set (outbox w')
    \<and> List.find (\<lambda>x. fw_id x = fw_id r) (wallets w') = Some (r\<lparr>fw_balance := fw_balance r + a\<rparr>)
    \<and> status_of w' (tx_id t) = Some FAILED"
proof -
  let ?q = "transfer_request M user dto bank va tx"
  define w1 where "w1 = w\<lparr>outbox := (''getTransactionStatus'', JObj [(''transactionRef'', JStr ref)]) # (''transferToOtherBank'', ?q) # outbox w\<rparr>"
  have call: "callProvider M user dto bank va tx ft pending w = (Inl e, w1)"
    using assms(6-9) by (simp add: callProvider_def attempt_def bind_run catch_run ext_call_def call_ext_run Let_def w1_def)
  have fl: "redis_server.in_flight ent r t f a w1"
    unfolding w1_def by (rule redis_server.in_flight_outbox [OF assms(1,2)])
  obtain w2 where "failWithdrawal M tx ft e w1 = (Inl withdrawal_failed, w2)" "redis_server.refunded ent r (tx_id t) a w2"
      "set (outbox w1) \<subseteq> set (outbox w2)"
    using redis_server.failed_revert [OF assms(1) refl fl assms(3), of "message e" "throw withdrawal_failed"]
    unfolding failWithdrawal_def assms(4,5) throw_run by metis
  then show ?thesis
    using assms(10) by (auto simp: catch_run call redis_server.refunded_def [OF assms(1)] w1_def)
qed

text \<open>A poll of a transaction that is no longer pending changes no table and nothing in Redis.\<close>

lemma queue_poll_state: "\<exists>v xs. queueStatusPoll M d n w = (v, w\<lparr>outbox := xs\<rparr>)"
  by (cases "ext_call M ''addJob'' (poll_payload d n (min (60000 * n) 1200000)) w")
     (auto simp: queueStatusPoll_def ext_call_def call_ext_run andthen_run split: sum.split)

definition settled_alike :: "('s, 'm) money_world_scheme \<Rightarrow> ('s, 'm) money_world_scheme \<Rightarrow> bool" where
  "settled_alike w w' \<longleftrightarrow> wallets w' = wallets w \<and> txs w' = txs w \<and> fwts w' = fwts w \<and> rds w' = rds w \<and> now w' = now w"

lemma poll_skips:
  assumes "status_of w (pd_tx d) = Some s" "s \<noteq> PENDING"
  shows "settled_alike w (snd (processStatusPoll M d n w))"
proof -
  obtain t where t: "List.find (\<lambda>r. tx_id r = pd_tx d) (txs w) = Some t" "tx_status t \<noteq> PENDING"
    using assms by (auto simp: status_of_def)
  show ?thesis
  proof (rule txs.findOne_cases [of "\<lambda>r. tx_id r = pd_tx d" w], goal_cases)
    case (1 e fs)
    obtain v xs where "queueStatusPoll M d (n + 1) (w\<lparr>faults := fs\<rparr>) = (v, w\<lparr>faults := fs\<rparr>\<lparr>outbox := xs\<rparr>)" using queue_poll_state by blast
    with 1 show ?case
      by (simp add: processStatusPoll_def catch_run bind_run repo_findById_def when_run settled_alike_def)
  next
    case (2 fs)
    with t show ?case by (simp add: processStatusPoll_def catch_run bind_run repo_findById_def settled_alike_def)
  qed
qed

lemma polls_skip:
  assumes "redis_server (m_redis M) ent" "\<And>p. p \<in> set ps \<Longrightarrow> pd_tx (fst (snd p)) = tid"
    and "status_of w tid = Some s" "s \<noteq> PENDING"
  shows "wallets (polls M ps w) = wallets w \<and> status_of (polls M ps w) tid = Some s
    \<and> (view ent w (getEscrowKey tid) = escrow_entry e \<longrightarrow> view ent (polls M ps w) (getEscrowKey tid) = escrow_entry e)"
  using assms(2,3)
proof (induction ps arbitrary: w)
  case (Cons p ps)
  obtain dt d n where p: "p = (dt, d, n)" by (cases p)
  then have d: "pd_tx d = tid" using Cons.prems(1) [of p] by simp
  define w1 where "w1 = w\<lparr>now := now w + int dt\<rparr>"
  define w2 where "w2 = snd (processStatusPoll M d n w1)"
  have "settled_alike w1 w2" unfolding w2_def
    by (rule poll_skips [OF _ assms(4)]) (use Cons.prems(2) d in \<open>simp add: w1_def status_of_def\<close>)
  then have w2: "wallets w2 = wallets w" "status_of w2 tid = Some s" "rds w2 = rds w" "now w2 = now w + int dt"
    using Cons.prems(2) by (simp_all add: settled_alike_def w1_def status_of_def)
  have "view ent w1 = live (now w + int dt) (view ent w)"
    unfolding w1_def by (rule redis_server.view_later [OF assms(1)]) simp
  then have "view ent w2 (getEscrowKey tid) = escrow_entry e" if "view ent w (getEscrowKey tid) = escrow_entry e"
    using that w2 by (simp add: view_def w1_def redis_server.live_escrow [OF assms(1)])
  then show ?case using Cons.IH [of w2] Cons.prems(1) w2 by (simp add: p w1_def [symmetric] w2_def [symmetric])
qed simp

text \<open>
  C33: a refund interrupted by the database is lost: when a poll learns that the transfer failed and the
  database fails right after both records were marked failed, the transaction stays failed, and no
  later poll gives the amount back; it stays in escrow and is missing from the wallet.
\<close>

theorem interrupted_refund_lost:
  assumes "redis_server (m_redis M) ent" "redis_server.in_flight ent r t f a (w\<lparr>faults := []\<rparr>)" "tx_status t = PENDING"
    and "faults w = [None, None, None, Some x]" "pd_tx d = tx_id t" "pd_fwt d = ft_id f"
    and "m_ext M (outbox w) ''getTransactionStatus'' (JObj [(''transactionRef'', JStr (pd_reference d))]) = Inr answer"
    and "jfield ''status'' answer = JStr ''FAILED''"
    and "\<forall>p \<in> set ps. pd_tx (fst (snd p)) = tx_id t" "w' = polls M ((0, d, n) # ps) w"
  shows "List.find (\<lambda>x. fw_id x = fw_id r) (wallets w') = Some r \<and> status_of w' (tx_id t) = Some FAILED
    \<and> view ent w' (getEscrowKey (tx_id t)) = escrow_entry (Some a)"
proof -
  note fl = assms(2) [unfolded redis_server.in_flight_def [OF assms(1)]]
  define w1 where "w1 = snd (processStatusPoll M d n w)"
  let ?reason = "js_text (jfield ''message'' answer)"
  have tx: "List.find (\<lambda>x. tx_id x = tx_id t) (txs w) = Some t" and entry: "List.find (\<lambda>x. ft_id x = ft_id f) (fwts w) = Some f"
    using fl by simp_all
  have step: "\<exists>xs fs. w1 = w\<lparr>txs := replace_row tx_id (tx_id t) (tx_set_failed ?reason (now w) t) (txs w),
      fwts := replace_row ft_id (ft_id f) (fwt_set_failed ?reason (now w) f) (fwts w), faults := fs, outbox := xs\<rparr>"
  proof -
    let ?w2 = "w\<lparr>txs := replace_row tx_id (tx_id t) (tx_set_failed ?reason (now w) t) (txs w),
        fwts := replace_row ft_id (ft_id f) (fwt_set_failed ?reason (now w) f) (fwts w),
        outbox := (''SERVICE_STATUS_FAILURE'', JObj [(''serviceKey'', JStr ''ngn_transfer_out''), (''reason'', JStr ?reason)])
          # (''getTransactionStatus'', JObj [(''transactionRef'', JStr (pd_reference d))]) # outbox w, faults := []\<rparr>"
    have "processStatusPoll M d n w = when_do (n < maxAttempts) (queueStatusPoll M d (n + 1)) ?w2"
      using assms(3-8) tx entry
      by (simp add: processStatusPoll_def catch_run bind_run andthen_run repo_findById_def repo_findOne_def repo_update_id_def
          db_step_def ext_call_def call_ext_run handleFailedWithdrawal_def fail_both_def service_failure_def
          revertWithdrawalBalance_def Let_def)
    moreover have "\<exists>v xs. queueStatusPoll M d (n + 1) ?w2 = (v, ?w2\<lparr>outbox := xs\<rparr>)" by (rule queue_poll_state)
    ultimately have "\<exists>xs. w1 = ?w2\<lparr>outbox := xs\<rparr>"
      unfolding w1_def by (auto simp: when_run intro: exI [of _ "outbox ?w2"])
    then show ?thesis by auto
  qed
  then have "wallets w1 = wallets w" "rds w1 = rds w" "now w1 = now w" "status_of w1 (tx_id t) = Some FAILED"
    by (auto simp: status_of_def replace_row_def tx_set_failed_def)
  moreover have "view ent w (getEscrowKey (tx_id t)) = escrow_entry (Some a)" using fl by (simp add: view_def)
  ultimately show ?thesis
    using polls_skip [OF assms(1), of ps "tx_id t" w1 FAILED "Some a"] assms(9) fl
    by (simp add: assms(10) w1_def [symmetric] view_def)
qed

text \<open>The instance in flight: 300 of the wallet's 1000 in escrow.\<close>

definition flight_wallet :: wallet_row where
  "flight_wallet = demo_wallet\<lparr>fw_balance := 700\<rparr>"

definition flight_tx :: tx_row where
  "flight_tx = demo_tx\<lparr>tx_status := PENDING\<rparr>"

definition demo_flight :: "keyspace money_world" where
  "demo_flight = demo_money\<lparr>rds := [getEscrowKey ''t'' \<mapsto> (RStr (Raw (show_int 300)), None)], wallets := [flight_wallet], txs := [flight_tx]\<rparr>"

lemma demo_in_flight: "redis_server.in_flight ks_ent flight_wallet flight_tx demo_fwt 300 demo_flight"
  by (auto simp: redis_server.in_flight_def [OF demo_server] demo_flight_def flight_wallet_def flight_tx_def view_def ks_ent_def live_def
      escrow_entry_def demo_money_defs)

lemma flight_simps [simp]: "tx_id flight_tx = ''t''" "tx_status flight_tx = PENDING" "fw_id flight_wallet = ''w''"
    "fw_balance flight_wallet = 700" "outbox demo_flight = []"
  by (simp_all add: flight_tx_def flight_wallet_def demo_flight_def)

definition answering :: "json \<Rightarrow> keyspace money_env" where
  "answering j = demo_money_env\<lparr>m_ext := \<lambda>_ _ _. Inr j\<rparr>"

lemma poll_settles_witness:
  "status_of (snd (processStatusPoll (answering (JObj [(''status'', JStr ''FAILED'')])) (demo_poll\<lparr>pd_tx := ''t'', pd_fwt := ''f''\<rparr>) 1 demo_flight)) ''t''
     = Some FAILED"
  using poll_settles [OF _ demo_in_flight, of "answering (JObj [(''status'', JStr ''FAILED'')])" "demo_poll\<lparr>pd_tx := ''t'', pd_fwt := ''f''\<rparr>"]
    demo_server by (simp add: answering_def)

definition refusing :: "keyspace money_env" where
  "refusing = demo_money_env\<lparr>m_ext := \<lambda>past call _. if call = ''transferToOtherBank'' then Inr JNull else Inl (BadRequest ''Unauthorized'')\<rparr>"

lemma interrupted_refund_lost_witness:
  "status_of (polls (answering (JObj [(''status'', JStr ''FAILED'')])) [(0, demo_poll\<lparr>pd_tx := ''t'', pd_fwt := ''f''\<rparr>, 1),
      (60000, demo_poll\<lparr>pd_tx := ''t'', pd_fwt := ''f''\<rparr>, 2)] (demo_flight\<lparr>faults := [None, None, None, Some (DbError ''down'')]\<rparr>)) ''t''
     = Some FAILED"
proof -
  have "demo_flight\<lparr>faults := [None, None, None, Some (DbError ''down'')], faults := []\<rparr> = demo_flight"
    by (simp add: demo_flight_def demo_money_def)
  then have f: "redis_server.in_flight ks_ent flight_wallet flight_tx demo_fwt 300
      (demo_flight\<lparr>faults := [None, None, None, Some (DbError ''down'')]\<rparr>\<lparr>faults := []\<rparr>)"
    using demo_in_flight by simp
  show ?thesis
    using interrupted_refund_lost [OF _ f, of "answering (JObj [(''status'', JStr ''FAILED'')])" "DbError ''down''"
        "demo_poll\<lparr>pd_tx := ''t'', pd_fwt := ''f''\<rparr>" _ "[(60000, demo_poll\<lparr>pd_tx := ''t'', pd_fwt := ''f''\<rparr>, 2)]"]
      demo_server by (simp add: answering_def)
qed

lemma accepted_transfer_refunded_witness:
  "\<exists>p. (''transferToOtherBank'', p) \<in> set (outbox (snd (catch (callProvider refusing demo_sender demo_dto JNull demo_account flight_tx demo_fwt None)
       (failWithdrawal refusing flight_tx demo_fwt) demo_flight)))"
proof -
  obtain v w' where r: "catch (callProvider refusing demo_sender demo_dto JNull demo_account flight_tx demo_fwt None)
       (failWithdrawal refusing flight_tx demo_fwt) demo_flight = (v, w')"
    by (cases "catch (callProvider refusing demo_sender demo_dto JNull demo_account flight_tx demo_fwt None)
       (failWithdrawal refusing flight_tx demo_fwt) demo_flight")
  have "\<not> isTimeoutOrNetworkError (BadRequest ''Unauthorized'')" by code_simp
  moreover have "redis_server (m_redis refusing) ks_ent" using demo_server by (simp add: refusing_def)
  moreover have "m_ext refusing (outbox demo_flight) ''transferToOtherBank'' p = Inr JNull"
      "m_ext refusing past ''getTransactionStatus'' p = Inl (BadRequest ''Unauthorized'')" for p past
    by (simp_all add: refusing_def)
  ultimately have "(''transferToOtherBank'', transfer_request refusing demo_sender demo_dto JNull demo_account flight_tx) \<in> set (outbox w')"
    using accepted_transfer_refunded [OF _ demo_in_flight _ refl refl _ refl _ _ r] by (metis zero_less_numeral flight_simps(1))
  then show ?thesis unfolding r snd_conv by blast
qed

end
