(* ===== verification/NgIdempotency.thy ===== *)
theory NgIdempotency
  imports NgConservation
begin

text \<open>
  What an idempotency key guarantees: in any sequence of withdrawal requests with one key, whoever sends
  them and whatever fails, at most one transfer is sent to the provider. \<open>paid key k u\<close> bounds the
  transfers and remembers that the key is in the ledger; every step but the transfer itself keeps it.
\<close>

definition transfers :: "('s, 'm) dbase_scheme \<Rightarrow> nat" where
  "transfers w = length (filter (\<lambda>p. fst p = ''transferToOtherBank'') (outbox w))"

definition used :: "string \<Rightarrow> fwt_row list \<Rightarrow> bool" where
  "used key fs \<longleftrightarrow> distinct (map ft_id fs) \<and> Some key \<in> ft_idempotency ` set fs"

definition paid :: "string \<Rightarrow> nat \<Rightarrow> bool \<Rightarrow> ('s, 'm) money_world_scheme \<Rightarrow> bool" where
  "paid key k u w \<longleftrightarrow> transfers w \<le> k \<and> distinct (map ft_id (fwts w)) \<and> (u \<longrightarrow> used key (fwts w))"

named_theorems paid_intros \<open>steps that send no transfer and forget no key\<close>

lemma paid_same: "outbox w' = outbox w \<Longrightarrow> fwts w' = fwts w \<Longrightarrow> paid key k u w' = paid key k u w"
  by (simp add: paid_def transfers_def)

lemma keeps_paid:
  assumes "\<And>w. outbox (snd (m w)) = outbox w \<and> fwts (snd (m w)) = fwts w"
  shows "keeps (paid key k u) m"
  using assms by (simp add: keeps_def paid_def transfers_def)

lemma paid_basic [paid_intros]:
  "keeps (paid key k u) (redis_call E c)" "keeps (paid key k u) (sleep d)" "keeps (paid key k u) db_step"
  "keeps (paid key k u) (new_value M)"
  by (rule keeps_paid, simp add: redis_call_def new_value_def split: prod.split)+

lemma keeps_map_io [paid_intros]: "keeps I m \<Longrightarrow> keeps I (map_io f m)"
  by (simp add: keeps_def map_io_state)

lemma paid_calls [paid_intros]:
  "what \<noteq> ''transferToOtherBank'' \<Longrightarrow> keeps (paid key k u) (ext_call M what p)"
  "what \<noteq> ''transferToOtherBank'' \<Longrightarrow> keeps (paid key k u) (emit what p)"
  by (simp_all add: keeps_def ext_call_def call_ext_run paid_def transfers_def)

lemma findOne_frame: "outbox (snd (repo_findOne T P w)) = outbox w \<and> fwts (snd (repo_findOne T P w)) = fwts w"
proof -
  obtain v fs where "db_step w = (v, w\<lparr>faults := fs\<rparr>)" by (rule db_step_cases)
  then show ?thesis by (cases v) (simp_all add: repo_findOne_def andthen_run)
qed

lemma paid_findOne [paid_intros]: "keeps (paid key k u) (repo_findOne T P)" "keeps (paid key k u) (repo_findById T i)"
  unfolding repo_findById_def by (rule keeps_paid, rule findOne_frame)+

lemma paid_tx [paid_intros]: "keeps (paid key k u) (repo_update_id tx_table i g)" "keeps (paid key k u) (repo_create tx_table t)"
proof -
  show "keeps (paid key k u) (repo_update_id tx_table i g)"
  proof (rule keeps_paid)
    fix w
    show "outbox (snd (repo_update_id tx_table i g w)) = outbox w \<and> fwts (snd (repo_update_id tx_table i g w)) = fwts w"
      by (cases rule: txs.update_id_cases [of i g w]) simp_all
  qed
  show "keeps (paid key k u) (repo_create tx_table t)"
  proof (rule keeps_paid)
    fix w
    show "outbox (snd (repo_create tx_table t w)) = outbox w \<and> fwts (snd (repo_create tx_table t w)) = fwts w"
      by (cases rule: txs.create_cases [of t w]) simp_all
  qed
qed

lemma paid_wallet [paid_intros]: "keeps (paid key k u) (repo_update_id wallet_table i h)"
proof (rule keeps_paid)
  fix w
  show "outbox (snd (repo_update_id wallet_table i h w)) = outbox w \<and> fwts (snd (repo_update_id wallet_table i h w)) = fwts w"
    by (cases rule: wallets.update_id_cases [of i h w]) simp_all
qed

lemma distinct_replace: "distinct (map ft_id fs) \<Longrightarrow> ft_id r = i \<Longrightarrow> distinct (map ft_id (replace_row ft_id i r fs))"
  by (auto simp: replace_row_def distinct_map_filter)

lemma used_replace:
  assumes "used key fs" "List.find (\<lambda>x. ft_id x = i) fs = Some r" "ft_idempotency r' = ft_idempotency r" "ft_id r' = i"
  shows "used key (replace_row ft_id i r' fs)"
proof -
  have d: "distinct (map ft_id fs)" using assms(1) by (simp add: used_def)
  obtain x where x: "x \<in> set fs" "ft_idempotency x = Some key" using assms(1) by (auto simp: used_def)
  have "\<exists>y \<in> set (replace_row ft_id i r' fs). ft_idempotency y = Some key"
  proof (cases "ft_id x = i")
    case True
    then have "x = r" using find_distinct [OF d x(1)] assms(2) by simp
    then show ?thesis using x assms(3) by (simp add: replace_row_def)
  next
    case False
    then show ?thesis using x by (auto simp: replace_row_def)
  qed
  moreover have "distinct (map ft_id (replace_row ft_id i r' fs))" by (rule distinct_replace [OF d assms(4)])
  ultimately show ?thesis by (metis used_def imageI)
qed

lemma paid_entry [paid_intros]:
  assumes "\<And>r. ft_idempotency (g r) = ft_idempotency r" "\<And>r. ft_id (g r) = ft_id r"
  shows "keeps (paid key k u) (repo_update_id fwt_table i g)"
  unfolding keeps_def
proof (intro allI impI)
  fix w :: "('a, 'b) money_world_scheme"
  assume p: "paid key k u w"
  show "paid key k u (snd (repo_update_id fwt_table i g w))"
  proof (cases rule: fwts.update_id_cases [of i g w])
    case (3 r fs)
    then have "ft_id (g r) = i" using assms(2) by (auto dest: find_Some_in)
    with p 3 show ?thesis
      by (auto simp: paid_def transfers_def assms distinct_replace intro: used_replace)
  qed (use p in \<open>simp_all add: paid_def transfers_def\<close>)
qed

lemma paid_create: "keeps (paid key k u) (repo_create fwt_table f)"
  unfolding keeps_def
proof (intro allI impI)
  fix w :: "('a, 'b) money_world_scheme"
  assume p: "paid key k u w"
  show "paid key k u (snd (repo_create fwt_table f w))"
    by (cases rule: fwts.create_cases [of f w]) (use p in \<open>auto simp: paid_def transfers_def used_def\<close>)
qed

lemma paid_transaction [paid_intros]:
  assumes "keeps (paid key k u) m"
  shows "keeps (paid key k u) (transaction m)"
proof -
  have b: "keeps (paid key k u) (bind m (\<lambda>x. andthen db_step (ret x)))" by (intro keeps_intros paid_intros assms)
  show ?thesis
    unfolding keeps_def
  proof (intro allI impI)
    fix w :: "('a, 'b) money_world_scheme"
    assume p: "paid key k u w"
    obtain v w' where r: "bind m (\<lambda>x. andthen db_step (ret x)) w = (v, w')" by (cases "bind m (\<lambda>x. andthen db_step (ret x)) w")
    then have "paid key k u w'" using keepsD [OF b p] by simp
    with p show "paid key k u (snd (transaction m w))"
      by (cases v) (simp_all add: transaction_def r paid_def transfers_def rollback_def)
  qed
qed

lemma paid_lock [paid_intros]: "keeps (paid key k u) (release E l)" "keeps (paid key k u) (acquireTries E l d n)"
proof -
  show "keeps (paid key k u) (release E l)" unfolding release_def by (intro keeps_intros paid_intros)
  show "keeps (paid key k u) (acquireTries E l d n)"
  proof (induction n)
    case (Suc n)
    show ?case unfolding acquireTries.simps save_def by (intro keeps_intros paid_intros Suc.IH)
  qed (simp only: acquireTries.simps keeps_ret)
qed

section \<open>The steps of a withdrawal\<close>

lemma paid_services [paid_intros]:
  "keeps (paid key k u) (startSession E x t)" "keeps (paid key k u) (endSession E x t)"
  "keeps (paid key k u) (checkAndBlockConcurrent E x)" "keeps (paid key k u) (checkDailyLimit E x n)"
  "keeps (paid key k u) (incrementDailyAttempts E x)" "keeps (paid key k u) (getEscrowAmount E t)"
  "keeps (paid key k u) (moveMoneyToEscrow E t a)" "keeps (paid key k u) (releaseMoneyFromEscrow E t)"
  unfolding session_defs counter_defs escrow_defs redis_defs Let_def
  by (intro keeps_intros paid_intros)+

lemma paid_circuit [paid_intros]: "keeps (paid key k u) (canProceed E p)" "keeps (paid key k u) (recordAttempt E p b)"
  unfolding canProceed_def recordAttempt_def checkAndUpdateState_def zcount_def getState_def setState_def getOpenedAt_def
    setOpenedAt_def clearOpenedAt_def getHalfOpenAttempts_def incrementHalfOpenAttempts_def resetHalfOpenAttempts_def redis_defs Let_def
  by (intro keeps_intros paid_intros)+

lemma paid_section [paid_intros]: "keeps (paid key k u) cb \<Longrightarrow> keeps (paid key k u) (locked M x n cb)"
  unfolding locked_def withLockN_def by (intro keeps_intros paid_intros)

lemma paid_balance [paid_intros]: "keeps (paid key k u) (updateBalance M wid a tid ty st meta inTrx)"
  unfolding updateBalance_def balanceSection_def wallet_findById_def updateBalanceWithTransaction_def record_movement_def
    createFiatWalletTransaction_def balance_changed_def Let_def
  by (intro keeps_intros paid_intros paid_create) (simp_all add: mark_processed_def)

lemma paid_steps [paid_intros]:
  "keeps (paid key k u) (revertWithdrawalBalance M tid)" "keeps (paid key k u) (fail_both tid fid reason)"
  "keeps (paid key k u) (complete_both tid fid)" "keeps (paid key k u) service_success" "keeps (paid key k u) (service_failure reason)"
  "keeps (paid key k u) (queueStatusPoll M d n)" "keeps (paid key k u) (completedNotifications M tx)"
  "keeps (paid key k u) (sendWithdrawalInitiatedNotification M tx)" "keeps (paid key k u) (reserveWithdrawalBalance M tx ft dto va bank)"
  "keeps (paid key k u) (record_provider M b)" "keeps (paid key k u) (getActiveVirtualAccount M vas)" "keeps (paid key k u) (find_wallet x a)"
  unfolding revertWithdrawalBalance_def fail_both_def complete_both_def service_success_def service_failure_def queueStatusPoll_def Let_def
    completedNotifications_def sendWithdrawalInitiatedNotification_def quietly_def createNotification_def reserveWithdrawalBalance_def
    record_provider_def getActiveVirtualAccount_def find_wallet_def
  by (auto intro!: keeps_intros paid_intros simp: fwt_set_failed_def fwt_set_completed_def)

lemma paid_handlers [paid_intros]:
  "keeps (paid key k u) (settleWithdrawal M user dto bank tx ft pending reference answer)" "keeps (paid key k u) (failWithdrawal M tx ft e)"
  unfolding settleWithdrawal_def failWithdrawal_def Let_def by (intro keeps_intros paid_intros)+

text \<open>Calling the provider sends one transfer at most; the withdrawal calls it once.\<close>

lemma paid_weaken: "paid key k u w \<Longrightarrow> paid key (Suc k) u w"
  by (simp add: paid_def)

lemma provider_pays:
  "triple (paid key k True) (callProvider M user dto bank va tx ft pending) (\<lambda>_. paid key (Suc k) True) (\<lambda>_. paid key (Suc k) True)"
proof -
  have "triple (paid key k True) (attempt (ext_call M ''transferToOtherBank'' p)) (\<lambda>_. paid key (Suc k) True) (\<lambda>_. paid key (Suc k) True)" for p
    by (auto simp: triple_def attempt_def catch_run bind_run ext_call_def call_ext_run paid_def transfers_def split: sum.splits)
  then show ?thesis
    unfolding callProvider_def Let_def
    by (rule triple_to_keeps) (intro keeps_intros paid_intros, simp_all)
qed

lemma process_pays:
  "triple (paid key k True) (processWithdrawal M user dto bank va tx ft) (\<lambda>_. paid key (Suc k) True) (\<lambda>_. paid key (Suc k) True)"
proof -
  let ?S = "\<lambda>_. paid key (Suc k) True"
  have step: "triple (paid key k True) (bind m f) ?S ?S" if "keeps (paid key k True) m" "\<And>x. triple (paid key k True) (f x) ?S ?S"
    for m :: "(('s, 'm) money_world_scheme, 'c) io" and f :: "'c \<Rightarrow> (('s, 'm) money_world_scheme, fwt_row option) io"
    by (rule triple_bind [OF triple_keeps [OF that(1)] that(2)]) (auto intro: paid_weaken)
  have seq: "triple (paid key k True) (andthen m f) ?S ?S" if "keeps (paid key k True) m" "triple (paid key k True) f ?S ?S"
    for m :: "(('s, 'm) money_world_scheme, 'c) io" and f :: "(('s, 'm) money_world_scheme, fwt_row option) io"
    unfolding andthen_def by (rule step [OF that])
  have stop: "triple (paid key k True) m ?S ?S" if "keeps (paid key k True) m" for m :: "(('s, 'm) money_world_scheme, fwt_row option) io"
    by (rule triple_keeps [OF that]) (auto intro: paid_weaken)
  have verdict: "triple (paid key k True) (case check of
            Refused reason \<Rightarrow>
              andthen (fail_both (tx_id tx) (ft_id ft) ''Service temporarily unavailable'')
              (andthen (revertWithdrawalBalance M (tx_id tx)) (throw (BadRequest reason)))
          | Allowed \<Rightarrow> callProvider M user dto bank va tx ft pending) ?S ?S" for check pending
    by (cases check) (simp_all add: provider_pays stop keeps_seq paid_steps keeps_ret)
  show ?thesis
    unfolding processWithdrawal_def
    by (rule seq [OF paid_services(1)], rule step [OF paid_calls(1)], simp, rule triple_if [OF stop [OF keeps_ret(2)]],
        rule seq [OF paid_steps(9)], rule seq [OF paid_steps(8)], rule seq [OF paid_tx(1)], rule step [OF paid_entry], simp, simp,
        rule step [OF paid_circuit(1)], rule verdict)
qed

lemma run_pays:
  "triple (paid key k True) (runWithdrawal M user dto bank va tx ft) (\<lambda>_. paid key (Suc k) True) (\<lambda>_. paid key (Suc k) True)"
  unfolding runWithdrawal_def
  by (rule triple_finally [OF triple_catch [OF process_pays] paid_services(2)]) (simp add: keeps_triple [symmetric] paid_handlers)

text \<open>The records go into the ledger with the key, and not at all when the key is there already.\<close>

lemma insert_key:
  assumes "ft_idempotency f = Some key"
  shows "triple (paid key k u) (insert_fwt f) (\<lambda>_ w. \<not> u \<and> paid key k True w) (\<lambda>_. paid key k u)"
proof (rule tripleI, goal_cases)
  case (1 w x w')
  show ?case
  proof (cases "list_ex (\<lambda>x. ft_idempotency x = ft_idempotency f) (fwts w)")
    case True
    obtain v fs where "db_step w = (v, w\<lparr>faults := fs\<rparr>)" by (rule db_step_cases)
    with True 1(2) assms show ?thesis by (cases v) (auto simp: insert_fwt_def andthen_run)
  next
    case False
    then have "\<not> u" using 1(1) assms by (auto simp: paid_def used_def list_ex_iff)
    moreover have "repo_create fwt_table f w = (Inr x, w')" using False 1(2) by (auto simp: insert_fwt_def)
    ultimately show ?thesis
      using 1(1) assms by (cases rule: fwts.create_cases [of f w]) (auto simp: paid_def used_def transfers_def)
  qed
next
  case (2 w e w')
  have "keeps (paid key k u) (insert_fwt f)" unfolding insert_fwt_def by (intro keeps_intros paid_intros paid_create)
  from keepsD [OF this 2(1)] show ?case using 2(2) by simp
qed

lemma entry_key:
  assumes "ft_idempotency f = Some key"
  shows "triple (paid key k u) (fwt_create M x f) (\<lambda>_ w. \<not> u \<and> paid key k True w) (\<lambda>_. paid key k u)"
proof -
  have "triple (paid key k u) (bind (new_value M) (\<lambda>i. insert_fwt (f\<lparr>ft_id := i, ft_user := x\<rparr>)))
      (\<lambda>_ w. \<not> u \<and> paid key k True w) (\<lambda>_. paid key k u)"
    by (rule triple_bind [OF triple_keeps [OF paid_basic(4)] insert_key]) (simp_all add: assms)
  then show ?thesis
    unfolding fwt_create_def
    by (intro triple_bind [OF triple_keeps [OF paid_findOne(2)]] triple_if triple_catch triple_throw) simp_all
qed

lemma transaction_key:
  assumes "triple (paid key k u) m (\<lambda>_ w. c \<and> paid key k True w) (\<lambda>_. paid key k u)"
  shows "triple (paid key k u) (transaction m) (\<lambda>_ w. c \<and> paid key k True w) (\<lambda>_. paid key k u)"
proof -
  have s: "triple (paid key k u) (bind m (\<lambda>x. andthen db_step (ret x))) (\<lambda>_ w. c \<and> paid key k True w) (\<lambda>_ w. transfers w \<le> k)"
  proof (rule triple_bind)
    show "triple (paid key k u) m (\<lambda>_ w. c \<and> paid key k True w) (\<lambda>_ w. transfers w \<le> k)"
      by (rule triple_conseq [OF assms]) (simp_all add: paid_def)
    show "triple (\<lambda>w. c \<and> paid key k True w) (andthen db_step (ret x)) (\<lambda>_ w. c \<and> paid key k True w) (\<lambda>_ w. transfers w \<le> k)" for x
      by (rule triple_pure, rule triple_seq [OF triple_keeps [OF paid_basic(3)] triple_ret]) (auto simp: paid_def)
  qed
  show ?thesis
  proof (rule tripleI, goal_cases)
    case (1 w x w')
    then have "bind m (\<lambda>x. andthen db_step (ret x)) w = (Inr x, w')"
      by (auto simp: transaction_def split: prod.splits sum.splits)
    then show ?case using triple_ok [OF s 1(1)] by blast
  next
    case (2 w e w')
    then obtain w1 where "bind m (\<lambda>x. andthen db_step (ret x)) w = (Inl e, w1)" "w' = rollback w w1"
      by (auto simp: transaction_def split: prod.splits sum.splits)
    then show ?case using triple_fail [OF s 2(1)] 2(1) by (auto simp: paid_def rollback_def transfers_def)
  qed
qed

lemma creation_key:
  "triple (paid key k u) (createNGTransactionAndFiatWalletTransaction M user key dto wallet fee bank)
     (\<lambda>_ w. \<not> u \<and> paid key k True w) (\<lambda>_. paid key k u)"
proof -
  have step: "triple (paid key k u) (bind m f) Q (\<lambda>_. paid key k u)"
    if "keeps (paid key k u) m" "\<And>x. triple (paid key k u) (f x) Q (\<lambda>_. paid key k u)"
    for m :: "(('s, 'm) money_world_scheme, 'c) io" and f :: "'c \<Rightarrow> (('s, 'm) money_world_scheme, 'd) io" and Q
    by (rule triple_bind [OF triple_keeps [OF that(1)] that(2)]) auto
  have pair: "triple (paid key k u) (bind (fwt_create M x f) (\<lambda>ft. ret (tx, ft))) (\<lambda>_ w. \<not> u \<and> paid key k True w) (\<lambda>_. paid key k u)"
    if "ft_idempotency f = Some key" for x f and tx :: tx_row
    by (rule triple_bind [OF entry_key [OF that] triple_ret])
  have tx: "keeps (paid key k u) (tx_create M x t)" "keeps (paid key k u) (generateTransactionReference M)" for x t
    unfolding tx_create_def generateTransactionReference_def by (intro keeps_intros paid_intros)+
  show ?thesis
    unfolding createNGTransactionAndFiatWalletTransaction_def
  proof (rule transaction_key, rule step [OF keeps_ret(3)], rule step [OF paid_findOne(2)], goal_cases)
    case (1 amount found)
    show ?case
    proof (cases found)
      case (Some fw)
      show ?thesis
        unfolding Some option.case
        by (rule triple_if [OF triple_throw], assumption, rule step [OF keeps_ret(3)], rule step [OF tx(2)], rule step [OF tx(1)],
            rule pair) simp
    qed (simp add: triple_throw)
  qed
qed

text \<open>One request: no transfer, or one and the key is in the ledger.\<close>

definition once :: "string \<Rightarrow> nat \<Rightarrow> bool \<Rightarrow> ('s, 'm) money_world_scheme \<Rightarrow> bool" where
  "once key k u w \<longleftrightarrow> paid key k u w \<or> \<not> u \<and> paid key (Suc k) True w"

lemma send_once:
  fixes M :: "'s money_env"
  shows "triple (paid key k u :: ('s, 'm) money_world_scheme \<Rightarrow> bool) (sendMoneyToExternalNGAccount M user key dto wallet) (\<lambda>_. once key k u) (\<lambda>_. once key k u)"
proof -
  let ?S = "\<lambda>_. once key k u"
  have step: "triple (paid key k u) (bind m f) ?S ?S" if "keeps (paid key k u) m" "\<And>x. triple (paid key k u) (f x) ?S ?S"
    for m :: "(('s, 'm) money_world_scheme, 'c) io" and f :: "'c \<Rightarrow> (('s, 'm) money_world_scheme, fwt_row option) io"
    by (rule triple_bind [OF triple_keeps [OF that(1)] that(2)]) (auto simp: once_def)
  have seq: "triple (paid key k u) (andthen m f) ?S ?S" if "keeps (paid key k u) m" "triple (paid key k u) f ?S ?S"
    for m :: "(('s, 'm) money_world_scheme, 'c) io" and f :: "(('s, 'm) money_world_scheme, fwt_row option) io"
    unfolding andthen_def by (rule step [OF that])
  have stop: "triple (paid key k u) (throw e) ?S ?S" for e by (rule triple_throw) (simp add: once_def)
  have body: "triple (paid key k u) (bind (catch (createNGTransactionAndFiatWalletTransaction M user key dto wallet fee bank)
      (\<lambda>_. throw withdrawal_failed)) (\<lambda>(tx, ft). runWithdrawal M user dto bank va tx ft)) ?S ?S" for fee bank va
  proof (rule triple_bind)
    show "triple (paid key k u) (catch (createNGTransactionAndFiatWalletTransaction M user key dto wallet fee bank) (\<lambda>_. throw withdrawal_failed))
        (\<lambda>_ w. \<not> u \<and> paid key k True w) ?S"
      by (rule triple_catch [OF creation_key], rule triple_throw) (simp add: once_def)
    show "triple (\<lambda>w. \<not> u \<and> paid key k True w) (case p of (tx, ft) \<Rightarrow> runWithdrawal M user dto bank va tx ft) ?S ?S" for p
      unfolding case_prod_beta by (rule triple_pure, rule triple_conseq [OF run_pays]) (auto simp: once_def)
  qed
  have release: "keeps (once key k u) (release E l)" for E l
    using paid_lock(1) [of key k u E l] paid_lock(1) [of key "Suc k" True E l] by (auto simp: keeps_def once_def)
  have lock: "triple (paid key k u) (locked M x n cb) ?S ?S" if "triple (paid key k u) cb ?S ?S"
    for x n and cb :: "(('s, 'm) money_world_scheme, fwt_row option) io"
    unfolding locked_def withLockN_def case_prod_beta
    by (rule step [OF paid_basic(4)], rule step [OF paid_lock(2)], rule triple_if [OF stop triple_finally [OF that release]])
  show ?thesis
    unfolding sendMoneyToExternalNGAccount_def
    by (rule step [OF keeps_ret(3)], rule seq [OF paid_calls(1)], simp, rule step [OF paid_calls(1)], simp, rule triple_if [OF stop],
        rule step [OF paid_steps(11)], rule seq [OF paid_services(3)], rule lock, rule body)
qed

lemma withdraw_once:
  fixes M :: "'s money_env"
  shows "triple (paid key k u :: ('s, 'm) money_world_scheme \<Rightarrow> bool) (withdrawToExternalNGAccount M user key dto)
    (\<lambda>_. once key k u) (\<lambda>_. once key k u)"
proof -
  let ?S = "\<lambda>_. once key k u"
  have step: "triple (paid key k u) (bind m f) ?S ?S" if "keeps (paid key k u) m" "\<And>x. triple (paid key k u) (f x) ?S ?S"
    for m :: "(('s, 'm) money_world_scheme, 'c) io" and f :: "'c \<Rightarrow> (('s, 'm) money_world_scheme, fwt_row option) io"
    by (rule triple_bind [OF triple_keeps [OF that(1)] that(2)]) (auto simp: once_def)
  have seq: "triple (paid key k u) (andthen m f) ?S ?S" if "keeps (paid key k u) m" "triple (paid key k u) f ?S ?S"
    for m :: "(('s, 'm) money_world_scheme, 'c) io" and f :: "(('s, 'm) money_world_scheme, fwt_row option) io"
    unfolding andthen_def by (rule step [OF that])
  have stop: "triple (paid key k u) (throw e) ?S ?S" "triple (paid key k u) (ret x) ?S ?S"
    for e and x :: "fwt_row option" by (rule triple_throw triple_ret, simp add: once_def)+
  have main: "triple (paid key k u :: ('s, 'm) money_world_scheme \<Rightarrow> bool) (bind (find_wallet (sn_id user) ''NGN'') (\<lambda>found. case found of
          None \<Rightarrow> throw (NotFound ''User wallet not found'')
        | Some userWallet \<Rightarrow>
            bind (io_of (formatCurrencyAmountToSmallestUnit (wd_amount dto) ''NGN'')) (\<lambda>amountInSmallestUnit.
            andthen (ext_call M ''validateLimit'' (limit_query user amountInSmallestUnit))
            (if fw_balance userWallet < amountInSmallestUnit then throw (BadRequest ''Insufficient balance'')
             else andthen (checkDailyLimit (m_redis M) (sn_id user) MAX_DAILY_WITHDRAWAL_ATTEMPTS)
              (andthen (incrementDailyAttempts (m_redis M) (sn_id user))
              (if given (wd_beneficiary dto) then ret None
               else sendMoneyToExternalNGAccount M user key dto userWallet)))))) ?S ?S"
  proof (rule step [OF paid_steps(12)], goal_cases)
    case (1 found)
    show ?case
    proof (cases found)
      case (Some uw)
      show ?thesis
        unfolding Some option.case
        by (rule step [OF keeps_ret(3)], rule seq [OF paid_calls(1)], simp, rule triple_if [OF stop(1)], rule seq [OF paid_services(4)],
            rule seq [OF paid_services(5)], rule triple_if [OF stop(2) send_once])
    qed (simp add: stop)
  qed
  show ?thesis
    unfolding withdrawToExternalNGAccount_def
    by (rule step [OF paid_findOne(1)], rule triple_if [OF stop(2) triple_if [OF stop(1) main]])
qed

section \<open>Properties\<close>

text \<open>Requests with one key, each run to its end.\<close>

fun withdrawals :: "'s money_env \<Rightarrow> string \<Rightarrow> (sender \<times> withdrawal_dto) list \<Rightarrow> ('s, 'm) money_world_scheme \<Rightarrow> ('s, 'm) money_world_scheme" where
  "withdrawals M key [] w = w"
| "withdrawals M key ((user, dto) # reqs) w = withdrawals M key reqs (snd (withdrawToExternalNGAccount M user key dto w))"

lemma withdrawals_once: "once key k u w \<Longrightarrow> once key k u (withdrawals M key reqs w)"
proof (induction reqs arbitrary: w)
  case (Cons req reqs)
  obtain user dto where req: "req = (user, dto)" by (cases req)
  have "once key k u (snd (withdrawToExternalNGAccount M user key dto w))"
  proof (cases "paid key k u w")
    case True
    then show ?thesis using withdraw_once [of key k u M user dto] by (auto simp: triple_def split: sum.splits)
  next
    case False
    with Cons.prems have "\<not> u" "paid key (Suc k) True w" by (auto simp: once_def)
    then show ?thesis using withdraw_once [of key "Suc k" True M user dto] by (auto simp: triple_def once_def split: sum.splits)
  qed
  with Cons.IH show ?case by (simp add: req)
qed simp

text \<open>
  C2: a key pays once: whatever requests are made with an idempotency key, by whichever users, and
  whatever the database, Redis and the provider do, they send at most one transfer to the provider, and
  none when the key is in the ledger already.
\<close>

theorem one_transfer_per_key:
  assumes "distinct (map ft_id (fwts w))"
  shows "transfers (withdrawals M key reqs w) \<le> transfers w + (if Some key \<in> ft_idempotency ` set (fwts w) then 0 else 1)"
proof -
  let ?u = "Some key \<in> ft_idempotency ` set (fwts w)"
  have "once key (transfers w) ?u w" using assms by (simp add: once_def paid_def used_def)
  from withdrawals_once [OF this, of M reqs] show ?thesis by (auto simp: once_def paid_def)
qed

lemma one_transfer_per_key_witness:
  "transfers (withdrawals demo_provider ''key'' [(demo_sender, demo_dto), (demo_sender, demo_dto)] demo_money) \<le> 1"
  using one_transfer_per_key [of demo_money demo_provider "''key''" "[(demo_sender, demo_dto), (demo_sender, demo_dto)]"]
  by (simp add: transfers_def split: if_splits)

end
