(* ===== verification/Spec2Isabelle.thy ===== *)
theory Spec2Isabelle
  imports PagaReports YellowCardMoney ZerohashReports NgUsdMoney RetryMoney TxReview UserLimits Locker WithdrawalGuards CircuitBreaker LoginSecurity TransactionPin Repository Currency TierConfig CardFees StableCoins RainRejection Money FiatWallet TxStatus NgWithdrawal NgConservation NgRefunds NgIdempotency
begin

text \<open>
  A verification development for the OneDosh mobile API (a NestJS server in TypeScript under
  \<^verbatim>\<open>src/src\<close>; paths below are relative to it). Users hold fiat wallets in dollars and naira,
  send money to each other, withdraw naira to bank accounts, exchange one currency for the other and fund
  cards. The server keeps rows in PostgreSQL and locks, counters, sessions and escrowed amounts in Redis; the
  money itself moves at external providers (a naira bank, an exchange provider, a dollar custodian, a card
  issuer), which also call back with webhooks.

  \<^bold>\<open>How the code is modelled.\<close> An asynchronous method is an \<open>io\<close> program (Prelude): a function from the
  state to a value or a thrown exception, and the new state; \<open>bind\<close>, \<open>throw\<close>, \<open>catch\<close> and \<open>finally\<close> are the
  source's sequencing, and every guard, early return and throw of a method is a branch of its definition. The
  state is an extensible record: the Redis server and the clock, the tables of users, wallets, transactions,
  wallet transactions, and then those of the exchanges. Tables are lists of typed rows; the operations of
  \<^verbatim>\<open>BaseRepository\<close> act on them. Every write consults a schedule of faults, \<open>faults\<close>, over which the
  theorems quantify: each database operation may fail, once or always. A transaction of the database restores
  the tables when its callback throws. Everything outside the repository (the providers, mail and push
  notifications, the queue, and services that are not modelled) is a parameter: a function
  \<open>m_ext\<close> of the calls made so far, the name of the method and the arguments, to an answer or an exception.
  The calls made are kept in \<open>outbox\<close>, so that properties can say what a provider was asked. Redis is a
  parameter too, with the locale \<open>redis_server\<close> for its documented behaviour, interpreted on a concrete key
  store. Random values are a counter read through \<open>m_fresh\<close>.

  \<^bold>\<open>The theories.\<close>

  \<^item> Prelude: exceptions, the state, the io combinators and their laws, keys, text.
  \<^item> Redis: the key space, the prefixing service \<^verbatim>\<open>services/redis/redis.service.ts\<close> and the raw client beside
    it. Several defects follow from one key being written through one and read through the other.
  \<^item> Locker: \<^verbatim>\<open>services/locker/\<close>, the lock with its retry loop, and any number of clients as a step
    relation with the mutual exclusion of the holders.
  \<^item> WithdrawalGuards, CircuitBreaker: \<^verbatim>\<open>modules/fiatWallet/withdrawalCounter\<close>, \<^verbatim>\<open>withdrawalSession\<close>,
    \<^verbatim>\<open>fiatWalletEscrow\<close> and \<^verbatim>\<open>circuitBreaker.service.ts\<close>.
  \<^item> LoginSecurity, TransactionPin: \<^verbatim>\<open>modules/auth/loginSecurity/\<close>, \<^verbatim>\<open>transactionPin/\<close>, its guard and
    \<^verbatim>\<open>resetTransactionPin/\<close>.
  \<^item> Repository: \<^verbatim>\<open>database/base/base.repository.ts\<close>, tables, paging and transactions.
  \<^item> Currency, TierConfig, CardFees, StableCoins, RainRejection: the pure modules \<^verbatim>\<open>currencies/\<close>,
    \<^verbatim>\<open>utils/tier.configs.ts\<close>, \<^verbatim>\<open>config/onedosh/\<close> and \<^verbatim>\<open>adapters/card/rain/rain.rejection.ts\<close>.
  \<^item> Money: rows, the state \<open>money_world\<close> and the environment \<open>money_env\<close> of the money services; FiatWallet:
    \<^verbatim>\<open>modules/fiatWallet/fiatWallet.service.ts\<close>; TxStatus: the status of transactions and of wallet
    transactions with its notifications (\<^verbatim>\<open>modules/transaction\<close>, \<^verbatim>\<open>modules/fiatWalletTransactions\<close>).
  \<^item> NgWithdrawal: \<^verbatim>\<open>fiatWalletWithdrawal.service.ts\<close> to a bank and the job that polls its status
    (\<^verbatim>\<open>queue/processors/ngn-withdrawal\<close>); NgConservation, NgRefunds, NgIdempotency: its properties.
  \<^item> InternalTransfer: transfers between users and to cards, of the same service.
  \<^item> UserLimits: \<^verbatim>\<open>modules/userTier\<close>, sums, aggregates and provider limits.
  \<^item> TxReview: review, refund, completion and cancellation of transactions.
  \<^item> Rates, VirtualAccounts: the exchange state, \<^verbatim>\<open>modules/rate\<close> and \<^verbatim>\<open>modules/virtualAccount\<close>.
  \<^item> NgUsdExchange, NgUsdMoney: naira to dollars, its service, escrow and job, and its properties.
  \<^item> UsdExchange, UsdMoney, UsdRecords: dollars to naira, its service and job, and their properties;
    ExchangeRetry, RetryMoney: \<^verbatim>\<open>modules/exchange/exchange-retry.service.ts\<close>.
  \<^item> Zerohash: the webhooks of the dollar provider, \<^verbatim>\<open>modules/webhooks/zerohash\<close>. TxInvariant: locales for
    conditions on one table, with the writes a condition has to survive to be kept by every webhook;
    ZerohashMoney: their interpretations (completed transactions, records of incoming naira, holdings of wallets);
    ZerohashReports: sequences of deliveries and the properties. YellowCard, YellowCardMoney: the webhooks of the
    exchange provider, \<^verbatim>\<open>modules/webhooks/yellowcard\<close>, and what holds of both providers' webhooks together.
  \<^item> PagaLedger: the books of naira at the bank, \<^verbatim>\<open>modules/pagaLedgerAccount\<close> and \<^verbatim>\<open>modules/pagaLedgerTransaction\<close>;
    Paga: the webhook of the bank, \<^verbatim>\<open>modules/webhooks/paga\<close>, with deposits and the proceeds of exchanges. PagaMoney:
    the contract of a deposit into the ledger (\<open>deposit_contract\<close>) and of a report (\<open>deposit_outcome\<close>), interpreted for the
    soundness of the books, for wallets and ledger moving together, and for references that are credited once;
    PagaReports: sequences of reports and the properties. The exchange of naira to dollars calls the ledger as a
    collaborator.

  \<^bold>\<open>What the lemmas show.\<close> Each theory first gives its operations and the lemmas that evaluate them on every
  branch. Invariants are stated with \<open>triple\<close> and \<open>keeps\<close>, total over the result (a value or an
  exception) and over all schedules of faults, and carried by the collections \<open>keeps_intros\<close>, \<open>aside_intros\<close> and
  \<open>call_intros\<close>: what a program leaves alone, and which collaborators it may call how often. On them rest the
  conservation of money (balances and escrow together), the idempotency of withdrawal keys, the recording of
  failures, and the bounds on what providers are asked. Where the code does not keep what it promises, the
  theorem states what it does, and the finding beside it in the manifest says which comment or intent it contradicts.

  \<^bold>\<open>Bounds.\<close> The retry loop of a lock without a number of attempts does not end in the code; the model tries
  \<open>m_patience\<close> times, an arbitrary number in the theorems, and Locker shows that the loop with any number
  agrees once the lock is free. A handler runs at one reading of the clock. The queue's attempts are the number
  the source gives it. Machine numbers: amounts are integers in the smallest unit, as the columns hold them;
  rates and fees of the providers, doubles in the source, are exact rationals, so rounding errors of doubles
  are not covered.

  \<^bold>\<open>Not modelled.\<close> The clients of providers, controllers and validation of input, mail, push notifications,
  storage, logging and configuration are input and output or glue: where a modelled service calls them, they
  are collaborators. Interleavings of handlers inside one critical section are not modelled except for the lock
  itself; properties of several requests are about their sequences. Parts with logic of their own that are not
  modelled: the webhooks of the card issuer, the card service, the
  stablecoin wallets, external accounts, sign-in and tokens, loyalty points, feature flags.
\<close>

end
